(* ===== verification/Prelude.thy ===== *)
theory Prelude
  imports Complex_Main "HOL-Library.Sublist"
begin

text \<open>
  Shared vocabulary of the development: the list-of-rows reading of the SQL statements the Go
  code issues (\<open>SELECT ... WHERE\<close>, \<open>UPDATE ... WHERE\<close>, \<open>EXISTS\<close>, \<open>count(*)\<close>), the outcome type
  of calls that leave the repository's code (Docker, SSH, HTTP), and the small string routines
  (\<open>%d\<close> formatting, prefix, suffix and substring tests) that several components use.

  A table is a list of records. Nothing in the model depends on the order of a table except
  where the statement has no \<open>ORDER BY\<close> and Postgres would be free to choose: there the list
  order is that choice, and every theorem is about an arbitrary list.
\<close>

section \<open>Tables\<close>

named_theorems sql \<open>rewriting of row selection and row updates\<close>

definition sql_update :: "('r \<Rightarrow> bool) \<Rightarrow> ('r \<Rightarrow> 'r) \<Rightarrow> 'r list \<Rightarrow> 'r list" where
  "sql_update p f t = map (\<lambda>r. if p r then f r else r) t"

definition sql_count :: "('r \<Rightarrow> bool) \<Rightarrow> 'r list \<Rightarrow> nat" where
  "sql_count p t = length (filter p t)"

definition sql_exists :: "('r \<Rightarrow> bool) \<Rightarrow> 'r list \<Rightarrow> bool" where
  "sql_exists p t = list_ex p t"

definition sql_row :: "('r \<Rightarrow> bool) \<Rightarrow> 'r list \<Rightarrow> 'r option" where
  "sql_row p t = List.find p t"

lemma sql_update_Nil [simp]: "sql_update p f [] = []"
  by (simp add: sql_update_def)

lemma sql_update_Cons [simp]:
  "sql_update p f (r # t) = (if p r then f r else r) # sql_update p f t"
  by (simp add: sql_update_def)

lemma length_sql_update [simp]: "length (sql_update p f t) = length t"
  by (simp add: sql_update_def)

lemma set_sql_update [sql]: "set (sql_update p f t) = (\<lambda>r. if p r then f r else r) ` set t"
  by (simp add: sql_update_def)

lemma sql_count_Nil [simp]: "sql_count p [] = 0"
  by (simp add: sql_count_def)

lemma sql_count_Cons [simp]: "sql_count p (r # t) = (if p r then Suc (sql_count p t) else sql_count p t)"
  by (simp add: sql_count_def)

lemma sql_count_0 [sql]: "sql_count p t = 0 \<longleftrightarrow> (\<forall>r \<in> set t. \<not> p r)"
  by (simp add: sql_count_def filter_empty_conv)

lemma sql_count_pos [sql]: "0 < sql_count p t \<longleftrightarrow> (\<exists>r \<in> set t. p r)"
  by (induction t) auto

lemma sql_exists_iff [sql]: "sql_exists p t \<longleftrightarrow> (\<exists>r \<in> set t. p r)"
  by (simp add: sql_exists_def list_ex_iff)

lemma sql_update_id: "(\<And>r. r \<in> set t \<Longrightarrow> p r \<Longrightarrow> f r = r) \<Longrightarrow> sql_update p f t = t"
  by (induction t) auto

lemma sql_update_none: "sql_count p t = 0 \<Longrightarrow> sql_update p f t = t"
  by (rule sql_update_id) (simp add: sql_count_0)

lemma sql_count_update_le:
  "(\<And>r. p r \<Longrightarrow> q (f r) \<Longrightarrow> q r) \<Longrightarrow> sql_count q (sql_update p f t) \<le> sql_count q t"
  by (induction t) (auto simp: le_SucI)

lemma sql_count_update_same:
  "(\<And>r. p r \<Longrightarrow> q (f r) = q r) \<Longrightarrow> sql_count q (sql_update p f t) = sql_count q t"
  by (induction t) auto

lemma sql_count_update_zero:
  "(\<And>r. r \<in> set t \<Longrightarrow> \<not> q (if p r then f r else r)) \<Longrightarrow> sql_count q (sql_update p f t) = 0"
  unfolding sql_count_0 set_sql_update by blast

lemma sql_row_SomeD: "sql_row p t = Some r \<Longrightarrow> r \<in> set t \<and> p r"
  by (auto simp: sql_row_def find_Some_iff)

lemma sql_row_None [sql]: "sql_row p t = None \<longleftrightarrow> (\<forall>r \<in> set t. \<not> p r)"
  by (auto simp: sql_row_def find_None_iff)

lemma sql_row_Nil [simp]: "sql_row p [] = None"
  by (simp add: sql_row_def)

lemma sql_row_Cons [simp]: "sql_row p (r # t) = (if p r then Some r else sql_row p t)"
  by (simp add: sql_row_def)

lemma sql_row_append:
  "sql_row q (xs @ ys) = (case sql_row q xs of None \<Rightarrow> sql_row q ys | Some x \<Rightarrow> Some x)"
  by (induction xs) auto

lemma sql_row_exists: "sql_exists q t \<longleftrightarrow> sql_row q t \<noteq> None"
  by (auto simp: sql_row_None sql_exists_iff)

lemma sql_row_filter_keep: "(\<And>r. q r \<Longrightarrow> keep r) \<Longrightarrow> sql_row q (filter keep t) = sql_row q t"
  by (induction t) auto

lemma sql_row_filter_drop: "(\<And>r. q r \<Longrightarrow> \<not> keep r) \<Longrightarrow> sql_row q (filter keep t) = None"
  by (induction t) auto

text \<open>
  The contract between a keyed table and an \<open>UPDATE\<close> statement: the assigned columns do not
  include the primary key. Every \<open>UPDATE\<close> of the modelled code is an instance; the facts below
  are what its clients need of a table it has been applied to.
\<close>

locale keyed_update =
  fixes key :: "'r \<Rightarrow> 'k" and assign :: "'r \<Rightarrow> 'r"
  assumes key_assign [simp]: "key (assign r) = key r"
begin

lemma map_key: "map key (sql_update p assign t) = map key t"
  by (induction t) auto

lemma key_set: "key ` set (sql_update p assign t) = key ` set t"
  by (metis list.set_map map_key)

lemma distinct_keys: "distinct (map key (sql_update p assign t)) \<longleftrightarrow> distinct (map key t)"
  by (simp only: map_key)

lemma row_by_key:
  "sql_row (\<lambda>r. key r = k) (sql_update p assign t)
     = map_option (\<lambda>r. if p r then assign r else r) (sql_row (\<lambda>r. key r = k) t)"
  by (induction t) auto

lemma count_by_key: "sql_count (\<lambda>r. key r = k) (sql_update p assign t) = sql_count (\<lambda>r. key r = k) t"
  by (induction t) auto

lemma mem_update: "r \<in> set (sql_update p assign t) \<Longrightarrow> \<exists>r0 \<in> set t. key r = key r0"
  by (induction t) auto

end

text \<open>With distinct keys the row found by its key is the row of the table with that key.\<close>

lemma sql_row_key:
  "distinct (map key t) \<Longrightarrow> r \<in> set t \<Longrightarrow> sql_row (\<lambda>x. key x = key r) t = Some r"
  by (induction t) auto

lemma distinct_key_eq:
  "distinct (map key t) \<Longrightarrow> r \<in> set t \<Longrightarrow> r' \<in> set t \<Longrightarrow> key r = key r' \<Longrightarrow> r = r'"
  by (simp add: distinct_map inj_on_def)

section \<open>Outcomes of calls outside the repository\<close>

text \<open>
  A Go call of type \<open>(T, error)\<close> either returns a value, returns an error (its text), or panics.
\<close>

datatype 'a outcome = Ok 'a | Err string | Panic

section \<open>Strings\<close>

definition digit :: "nat \<Rightarrow> char" where
  "digit n = ''0123456789'' ! n"

fun dec :: "nat \<Rightarrow> string" where
  "dec n = (if n < 10 then [digit n] else dec (n div 10) @ [digit (n mod 10)])"

declare dec.simps [simp del]

text \<open>\<open>%d\<close> of package fmt.\<close>

definition fmt_d :: "int \<Rightarrow> string" where
  "fmt_d i = (if i < 0 then CHR ''-'' # dec (nat (- i)) else dec (nat i))"

definition digit_val :: "char \<Rightarrow> nat" where
  "digit_val c = of_char c - 48"

definition undec :: "string \<Rightarrow> nat" where
  "undec s = foldl (\<lambda>a c. 10 * a + digit_val c) 0 s"

lemma digit_cases: "n < 10 \<Longrightarrow> n \<in> {0, 1, 2, 3, 4, 5, 6, 7, 8, 9::nat}"
  by auto

lemma digit_val_digit [simp]: "n < 10 \<Longrightarrow> digit_val (digit n) = n"
  using digit_cases [of n] by (auto simp: digit_def digit_val_def)

lemma undec_dec [simp]: "undec (dec n) = n"
proof (induction n rule: dec.induct)
  case (1 n)
  show ?case
  proof (cases "n < 10")
    case True
    then show ?thesis by (subst dec.simps) (simp add: undec_def)
  next
    case False
    with 1 have "undec (dec (n div 10)) = n div 10" by simp
    with False show ?thesis
      by (subst dec.simps) (simp add: undec_def)
  qed
qed

lemma dec_inject [simp]: "dec m = dec n \<longleftrightarrow> m = n"
  by (metis undec_dec)

lemma dec_nonempty [simp]: "dec n \<noteq> []"
  by (subst dec.simps) simp

lemma digit_plain: "n < 10 \<Longrightarrow> digit n \<in> set ''0123456789''"
  using digit_cases [of n] by (auto simp: digit_def)

lemma set_dec: "set (dec n) \<subseteq> set ''0123456789''"
proof (induction n rule: dec.induct)
  case (1 n)
  show ?case
  proof (cases "n < 10")
    case True
    then have "dec n = [digit n]" by (simp add: dec.simps [of n])
    then show ?thesis using digit_plain [OF True] by simp
  next
    case False
    then have eq: "dec n = dec (n div 10) @ [digit (n mod 10)]" by (simp add: dec.simps [of n])
    have "digit (n mod 10) \<in> set ''0123456789''" by (rule digit_plain) simp
    with 1 False show ?thesis unfolding eq by simp
  qed
qed

lemma fmt_d_inject [simp]: "0 \<le> i \<Longrightarrow> 0 \<le> j \<Longrightarrow> fmt_d i = fmt_d j \<longleftrightarrow> i = j"
  by (auto simp: fmt_d_def)

text \<open>\<open>strings.HasPrefix\<close>, \<open>strings.HasSuffix\<close> and \<open>strings.TrimPrefix\<close>.\<close>

definition has_prefix :: "string \<Rightarrow> string \<Rightarrow> bool" where
  "has_prefix s p \<longleftrightarrow> prefix p s"

definition has_suffix :: "string \<Rightarrow> string \<Rightarrow> bool" where
  "has_suffix s p \<longleftrightarrow> length p \<le> length s \<and> drop (length s - length p) s = p"

definition trim_prefix :: "string \<Rightarrow> string \<Rightarrow> string" where
  "trim_prefix s p = (if has_prefix s p then drop (length p) s else s)"

lemma has_suffix_append [simp]: "has_suffix (s @ p) p"
  by (simp add: has_suffix_def)

lemma has_suffixE: "has_suffix s p \<Longrightarrow> \<exists>q. s = q @ p"
  by (metis append_take_drop_id has_suffix_def)

lemma has_suffix_iff: "has_suffix s p \<longleftrightarrow> (\<exists>q. s = q @ p)"
  using has_suffixE by auto

lemma has_prefix_append [simp]: "has_prefix (p @ s) p"
  by (simp add: has_prefix_def)

lemma trim_prefix_append [simp]: "trim_prefix (p @ s) p = s"
  by (simp add: trim_prefix_def)

text \<open>The three bytes of the dash that several messages of the code contain.\<close>

definition em_dash :: string where
  "em_dash = [CHR 0xE2, CHR 0x80, CHR 0x94]"

text \<open>\<open>COALESCE(NULLIF(e, ''), d)\<close>.\<close>

definition coalesce_nullif :: "string option \<Rightarrow> string \<Rightarrow> string" where
  "coalesce_nullif e d = (case e of None \<Rightarrow> d | Some x \<Rightarrow> if x = [] then d else x)"

text \<open>\<open>COALESCE(c, v)\<close> for a nullable column.\<close>

definition coalesce :: "'a option \<Rightarrow> 'a \<Rightarrow> 'a option" where
  "coalesce c v = (case c of None \<Rightarrow> Some v | Some x \<Rightarrow> Some x)"

text \<open>\<open>strings.TrimRight(s, "/")\<close>\<close>

definition trim_right_slashes :: "string \<Rightarrow> string" where
  "trim_right_slashes s = rev (dropWhile (\<lambda>x. x = CHR ''/'') (rev s))"

end
