(* ===== verification/Store.thy ===== *)
theory Store
  imports Prelude
begin

text \<open>
  The data model: the rows of the tables that the provisioner, the health worker, the backup
  sweeper, the proxy and the reconcile engine read and write, and the state that holds them.
  Column values that the schema restricts by a \<open>CHECK\<close> are datatypes; ids are the text of their
  UUID; timestamps are microseconds. The state also carries the wall clock (\<open>now()\<close>), the job
  sequence (\<open>BIGSERIAL\<close>) and the trace of calls that left the process, in order.
\<close>

section \<open>Column types\<close>

type_synonym uuid = string

datatype dep_status = DProvisioning | DRunning | DStopped | DFailed | DDeleted
datatype job_kind = KProvision | KUpgradeToHA | KReconcile | KBackup | KRestore | KOther string
datatype job_status = JPending | JClaimed | JDone | JFailed
datatype run_status = RQueued | RRunning | RSucceeded | RFailed | RCancelled
datatype step_status = SPlanned | SSkipped | SNoOp | SSucceeded | SFailed
datatype backup_status = BPending | BRunning | BComplete | BFailed
datatype domain_role = RoleApi | RoleDashboard | RoleSite
datatype domain_status = DomPending | DomActive | DomFailed
datatype host_status = HOnline | HOffline | HDraining | HUnknown
datatype schedule = SchedNone | SchedDaily

text \<open>The recommended actions of the drift engine and the step actions of the ledger.\<close>

datatype action = ActNone | ActCreate | ActUpdate | ActRestart | ActStop | ActRemove
  | ActInvestigate | ActNoOp | ActOther string

fun action_text :: "action \<Rightarrow> string" where
  "action_text ActNone = ''none''"
| "action_text ActCreate = ''create''"
| "action_text ActUpdate = ''update''"
| "action_text ActRestart = ''restart''"
| "action_text ActStop = ''stop''"
| "action_text ActRemove = ''remove''"
| "action_text ActInvestigate = ''investigate''"
| "action_text ActNoOp = ''no_op''"
| "action_text (ActOther s) = s"

fun status_text :: "dep_status \<Rightarrow> string" where
  "status_text DProvisioning = ''provisioning''"
| "status_text DRunning = ''running''"
| "status_text DStopped = ''stopped''"
| "status_text DFailed = ''failed''"
| "status_text DDeleted = ''deleted''"

fun backup_status_text :: "backup_status \<Rightarrow> string" where
  "backup_status_text BPending = ''pending''"
| "backup_status_text BRunning = ''running''"
| "backup_status_text BComplete = ''complete''"
| "backup_status_text BFailed = ''failed''"

section \<open>Rows\<close>

record job =
  j_id :: int
  j_deployment :: uuid
  j_replica :: "uuid option"
  j_kind :: job_kind
  j_status :: job_status
  j_claimed_by :: "string option"
  j_claimed_at :: "int option"
  j_finished_at :: "int option"
  j_error :: "string option"
  j_attempts :: nat
  j_hc_network :: bool
  j_created_at :: int
  j_action :: "action option"
  j_run :: "uuid option"
  j_step :: "uuid option"
  j_backup :: "uuid option"

record deployment =
  d_id :: uuid
  d_project :: uuid
  d_name :: string
  d_type :: string
  d_status :: dep_status
  d_container :: "string option"
  d_host_port :: "int option"
  d_url :: "string option"
  d_admin_key :: string
  d_secret :: string
  d_adopted :: bool
  d_ha :: bool
  d_replica_count :: nat
  d_last_deploy :: "int option"
  d_host :: uuid
  d_cpus :: "rat option"
  d_memory :: "int option"
  d_schedule :: schedule
  d_retention :: nat

record replica =
  r_id :: uuid
  r_deployment :: uuid
  r_index :: int
  r_container :: "string option"
  r_port :: "int option"
  r_status :: dep_status
  r_last_seen :: "int option"

record host =
  h_id :: uuid
  h_name :: string
  h_provider :: string
  h_region :: string
  h_public_ip :: "string option"
  h_private_ip :: "string option"
  h_labels :: "(string \<times> string) list"
  h_status :: host_status
  h_agent_version :: "string option"
  h_docker_version :: "string option"
  h_cpu :: "int option"
  h_memory_mb :: "int option"
  h_disk :: "int option"
  h_self :: bool                         \<comment> \<open>is_synapse_host\<close>
  h_is_remote :: bool
  h_tailnet :: "string option"
  h_ssh_user :: string
  h_ssh_port :: int
  h_ssh_pubkey :: "string option"
  h_ssh_key :: "string option"           \<comment> \<open>ssh_privkey_encrypted\<close>
  h_fingerprint :: "string option"
  h_heartbeat :: "int option"
  h_created :: int
  h_updated :: int

record storage_row =
  s_deployment :: uuid
  s_db_url_enc :: string
  s_access_enc :: string
  s_secret_enc :: string
  s_endpoint :: string
  s_region :: string
  s_files :: string
  s_modules :: string
  s_search :: string
  s_exports :: string
  s_snapshots :: string

record domain_row =
  dm_id :: uuid
  dm_deployment :: uuid
  dm_domain :: string
  dm_role :: domain_role
  dm_status :: domain_status
  dm_verified :: "int option"
  dm_error :: "string option"
  dm_auto :: bool                         \<comment> \<open>auto_configured\<close>
  dm_credential :: "uuid option"
  dm_created :: int
  dm_updated :: int

record env_var =
  e_project :: uuid
  e_type :: string
  e_name :: string
  e_value :: string

record run_row =
  run_id :: uuid
  run_status :: run_status
  run_updated :: int
  run_finished :: "int option"
  run_counts :: "(nat \<times> nat \<times> nat \<times> nat \<times> nat) option"

record step_row =
  st_id :: uuid
  st_run :: uuid
  st_index :: nat
  st_action :: action
  st_key :: string
  st_status :: step_status
  st_reason :: string
  st_result :: "string option"
  st_error :: "string option"

record backup =
  b_id :: uuid
  b_deployment :: uuid
  b_status :: backup_status
  b_path :: string
  b_size :: "int option"
  b_error :: string
  b_requested_by :: "uuid option"
  b_created :: int
  b_completed :: "int option"
  b_restored :: "int option"

section \<open>Calls that leave the process\<close>

datatype (plugins only: code size) call =
    CProvision string int string            \<comment> \<open>name, replica index, container name\<close>
  | CDestroy string
  | CDestroyReplica string int bool
  | CStop string
  | CRestart string
  | CRestartReplica string int
  | CMigrate string "string list"
  | CExport string string                   \<comment> \<open>source URL, archive path\<close>
  | CImport "string list" string
  | CEnvPush string "(string \<times> string) list"
  | CAlert uuid dep_status dep_status       \<comment> \<open>deployment, previous status, new status\<close>
  | CRemoveFile string
  | CAdminKey string                       \<comment> \<open>instance name\<close>
  | CRecreate string int bool              \<comment> \<open>name, replica index, HA\<close>
  | CHttpGet string
  | CLookupIP string
  | CLookupNS string
  | CCloudflare string string string       \<comment> \<open>operation, zone, record\<close>
  | CSsh string string                     \<comment> \<open>host, command\<close>
  | CHeadscale string string               \<comment> \<open>operation, node\<close>
  | COpenFile string
  | CMail string                           \<comment> \<open>recipient\<close>

section \<open>The state\<close>

record state =
  jobs :: "job list"
  deps :: "deployment list"
  reps :: "replica list"
  hosts :: "host list"
  storages :: "storage_row list"
  domains :: "domain_row list"
  env_vars :: "env_var list"
  runs :: "run_row list"
  steps :: "step_row list"
  backups :: "backup list"
  apply_row :: "bool option"
  next_job :: int
  clock :: int
  calls :: "call list"

definition usec :: int where "usec = 1000000"

definition find_dep :: "uuid \<Rightarrow> state \<Rightarrow> deployment option" where
  "find_dep i s = sql_row (\<lambda>d. d_id d = i) (deps s)"

definition find_rep :: "uuid \<Rightarrow> state \<Rightarrow> replica option" where
  "find_rep i s = sql_row (\<lambda>r. r_id r = i) (reps s)"

definition find_host :: "uuid \<Rightarrow> state \<Rightarrow> host option" where
  "find_host i s = sql_row (\<lambda>h. h_id h = i) (hosts s)"

definition find_job :: "int \<Rightarrow> state \<Rightarrow> job option" where
  "find_job i s = sql_row (\<lambda>j. j_id j = i) (jobs s)"

definition find_run :: "uuid \<Rightarrow> state \<Rightarrow> run_row option" where
  "find_run i s = sql_row (\<lambda>r. run_id r = i) (runs s)"

definition find_step :: "uuid \<Rightarrow> state \<Rightarrow> step_row option" where
  "find_step i s = sql_row (\<lambda>x. st_id x = i) (steps s)"

definition find_backup :: "uuid \<Rightarrow> state \<Rightarrow> backup option" where
  "find_backup i s = sql_row (\<lambda>b. b_id b = i) (backups s)"

definition log_call :: "call \<Rightarrow> state \<Rightarrow> state" where
  "log_call c s = s\<lparr>calls := calls s @ [c]\<rparr>"

lemmas find_defs = find_dep_def find_rep_def find_host_def find_job_def find_run_def find_step_def
  find_backup_def

text \<open>A job occupies its deployment while it is pending or claimed.\<close>

definition in_flight :: "job \<Rightarrow> bool" where
  "in_flight j \<longleftrightarrow> j_status j = JPending \<or> j_status j = JClaimed"

text \<open>An empty store, for the closed instances.\<close>

definition empty_state :: state where
  "empty_state = \<lparr>jobs = [], deps = [], reps = [], hosts = [], storages = [], domains = [],
     env_vars = [], runs = [], steps = [], backups = [], apply_row = None, next_job = 1,
     clock = 0, calls = []\<rparr>"

end
