(* ===== verification/Db.thy ===== *)
theory Db
  imports Store
begin

text \<open>
  Package db: the two primitives every writer shares, \<open>WithRetryOnUniqueViolation\<close> (a bounded
  retry of an allocate-then-insert attempt) and \<open>WithTryAdvisoryLock\<close> (one node per tick). The
  attempt and the locked body are arguments; the locale states what a client of the retry gets
  when its attempts keep an invariant of the state.
\<close>

section \<open>Errors of a statement or a transaction\<close>

datatype db_error = UniqueViolation string | OtherError string | CtxDone

fun error_text :: "db_error \<Rightarrow> string" where
  "error_text (UniqueViolation c) = ''duplicate key value violates unique constraint '' @ c"
| "error_text (OtherError e) = e"
| "error_text CtxDone = ''context done''"

definition is_unique_violation :: "db_error \<Rightarrow> bool" where
  "is_unique_violation e = (case e of UniqueViolation _ \<Rightarrow> True | _ \<Rightarrow> False)"

definition is_unique_violation_on :: "db_error \<Rightarrow> string list \<Rightarrow> bool" where
  "is_unique_violation_on e cs = (case e of UniqueViolation c \<Rightarrow> c \<in> set cs | _ \<Rightarrow> False)"

section \<open>WithRetryOnUniqueViolation\<close>

text \<open>
  \<open>cancelled k\<close>: the context is done while waiting before attempt \<open>k\<close>. The second number is the
  attempts left, the error the one of the attempt before.
\<close>

fun retry_loop ::
  "(nat \<Rightarrow> bool) \<Rightarrow> (nat \<Rightarrow> 's \<Rightarrow> db_error option \<times> 's) \<Rightarrow> nat \<Rightarrow> nat \<Rightarrow> db_error option \<Rightarrow> 's
     \<Rightarrow> db_error option \<times> 's" where
  "retry_loop cancelled fn attempt 0 prev s = (prev, s)"
| "retry_loop cancelled fn attempt (Suc n) prev s =
     (if 0 < attempt \<and> cancelled attempt then (Some CtxDone, s)
      else case fn attempt s of
        (None, s') \<Rightarrow> (None, s')
      | (Some e, s') \<Rightarrow>
          if \<not> is_unique_violation e then (Some e, s')
          else retry_loop cancelled fn (Suc attempt) n (Some e) s')"

definition with_retry_on_unique_violation ::
  "(nat \<Rightarrow> bool) \<Rightarrow> int \<Rightarrow> (nat \<Rightarrow> 's \<Rightarrow> db_error option \<times> 's) \<Rightarrow> 's \<Rightarrow> db_error option \<times> 's" where
  "with_retry_on_unique_violation cancelled max_attempts fn s =
     retry_loop cancelled fn 0 (nat (if max_attempts < 1 then 1 else max_attempts)) None s"

text \<open>What the caller's attempt promises, and what the retry then promises.\<close>

locale retried_attempt =
  fixes fn :: "nat \<Rightarrow> 's \<Rightarrow> db_error option \<times> 's"
    and inv :: "'s \<Rightarrow> bool" and won :: "'s \<Rightarrow> bool"
  assumes attempt_lost: "inv s \<Longrightarrow> fn k s = (Some e, s') \<Longrightarrow> inv s'"
    and attempt_won: "inv s \<Longrightarrow> fn k s = (None, s') \<Longrightarrow> won s'"
begin

lemma loop_lost: "inv s \<Longrightarrow> retry_loop cancelled fn k n prev s = (Some e, s') \<Longrightarrow> inv s'"
proof (induction n arbitrary: k prev s)
  case 0
  then show ?case by simp
next
  case (Suc n)
  then show ?case
    by (auto split: if_splits prod.splits option.splits dest: attempt_lost)
qed

lemma loop_won:
  "inv s \<Longrightarrow> retry_loop cancelled fn k n prev s = (None, s') \<Longrightarrow> prev \<noteq> None \<or> 0 < n \<Longrightarrow> won s'"
proof (induction n arbitrary: k prev s)
  case 0
  then show ?case by simp
next
  case (Suc n)
  show ?case
  proof (cases "fn k s")
    case (Pair r t)
    show ?thesis
    proof (cases r)
      case None
      with Suc.prems Pair show ?thesis
        by (auto split: if_splits dest: attempt_won)
    next
      case (Some e)
      have t: "inv t" using Suc.prems(1) Pair unfolding Some by (rule attempt_lost)
      have "retry_loop cancelled fn (Suc k) n (Some e) t = (None, s')"
        using Suc.prems(2) Pair Some by (auto split: if_splits)
      with t show ?thesis by (rule Suc.IH) simp
    qed
  qed
qed

lemma retry_lost: "inv s \<Longrightarrow> with_retry_on_unique_violation cancelled m fn s = (Some e, s') \<Longrightarrow> inv s'"
  unfolding with_retry_on_unique_violation_def by (rule loop_lost)

lemma retry_won:
  "inv s \<Longrightarrow> with_retry_on_unique_violation cancelled m fn s = (None, s') \<Longrightarrow> won s'"
  unfolding with_retry_on_unique_violation_def by (erule loop_won) (auto split: if_splits)

end

text \<open>What every attempt keeps, the retry keeps.\<close>

lemma retry_keeps:
  assumes step: "\<And>k s. I s \<Longrightarrow> I (snd (fn k s))" and "I s"
  shows "I (snd (with_retry_on_unique_violation cancelled m fn s))"
proof -
  have "I (snd (retry_loop cancelled fn k n prev s))" if "I s" for k n prev s
    using that
  proof (induction n arbitrary: k prev s)
    case 0
    then show ?case by simp
  next
    case (Suc n)
    with step [of s k] show ?case by (auto split: prod.split option.split)
  qed
  with assms(2) show ?thesis by (simp add: with_retry_on_unique_violation_def)
qed

text \<open>An attempt that always meets the same conflict is repeated until the attempts are spent.\<close>

lemma retry_loop_stuck:
  assumes "\<And>k s. I s \<Longrightarrow> \<exists>t. fn k s = (Some (UniqueViolation c), t) \<and> I t"
    and "\<And>k. \<not> cancelled k" and "I s" and "0 < n"
  shows "\<exists>t. retry_loop cancelled fn k n prev s = (Some (UniqueViolation c), t) \<and> I t"
  using assms(3,4)
proof (induction n arbitrary: k prev s)
  case 0
  then show ?case by simp
next
  case (Suc n)
  obtain t where t: "fn k s = (Some (UniqueViolation c), t)" "I t"
    using assms(1) [OF Suc.prems(1)] by blast
  show ?case
  proof (cases n)
    case 0
    with t assms(2) show ?thesis by (simp add: is_unique_violation_def)
  next
    case (Suc m)
    with Suc.IH [OF t(2), of "Suc k" "Some (UniqueViolation c)"] t assms(2) show ?thesis
      by (simp add: is_unique_violation_def)
  qed
qed

text \<open>The number of attempts actually made, counted by threading a counter through the attempt.\<close>

definition counted :: "(nat \<Rightarrow> 's \<Rightarrow> db_error option \<times> 's) \<Rightarrow> nat \<Rightarrow> nat \<times> 's \<Rightarrow> db_error option \<times> (nat \<times> 's)" where
  "counted fn k p = (case fn k (snd p) of (e, s') \<Rightarrow> (e, (Suc (fst p), s')))"

lemma counted_eq: "fn k s = (r, t) \<Longrightarrow> counted fn k (m, s) = (r, (Suc m, t))"
  by (simp add: counted_def)

lemma counted_loop:
  "retry_loop cancelled (counted fn) k n prev (m, s) = (e, (m', s')) \<Longrightarrow> m' \<le> m + n"
proof (induction n arbitrary: k prev m s)
  case 0
  then show ?case by simp
next
  case (Suc n)
  show ?case
  proof (cases "0 < k \<and> cancelled k")
    case True
    with Suc.prems show ?thesis by simp
  next
    case False
    obtain r t where r: "fn k s = (r, t)" by fastforce
    show ?thesis
    proof (cases "\<exists>x. r = Some x \<and> is_unique_violation x")
      case True
      with Suc.prems False r have "retry_loop cancelled (counted fn) (Suc k) n r (Suc m, t) = (e, (m', s'))"
        by (auto simp: counted_eq)
      from Suc.IH [OF this] show ?thesis by simp
    next
      case no_retry: False
      with Suc.prems False r show ?thesis
        by (auto simp: counted_eq split: option.splits)
    qed
  qed
qed

section \<open>WithTryAdvisoryLock\<close>

text \<open>The four ways \<open>pg_try_advisory_lock\<close> can go: no connection, query failed, held elsewhere, taken.\<close>

datatype acquire = NoConnection string | LockQueryFailed string | LockHeld | LockFree

definition with_try_advisory_lock ::
  "acquire \<Rightarrow> ('s \<Rightarrow> string option \<times> 's) \<Rightarrow> 's \<Rightarrow> (bool \<times> string option) \<times> 's" where
  "with_try_advisory_lock a fn s =
     (case a of
        NoConnection e \<Rightarrow> ((False, Some (''acquire conn: '' @ e)), s)
      | LockQueryFailed e \<Rightarrow> ((False, Some (''pg_try_advisory_lock: '' @ e)), s)
      | LockHeld \<Rightarrow> ((False, None), s)
      | LockFree \<Rightarrow> (case fn s of (e, s') \<Rightarrow> ((True, e), s')))"

lemma advisory_lock_skips:
  "a \<noteq> LockFree \<Longrightarrow> snd (with_try_advisory_lock a fn s) = s \<and> \<not> fst (fst (with_try_advisory_lock a fn s))"
  by (cases a) (auto simp: with_try_advisory_lock_def)

end
