(* ===== verification/DeploymentUrl.thy ===== *)
theory DeploymentUrl
  imports Store
begin

text \<open>
  Package deploymenturl: the URL a deployment is handed out under (dashboard, CLI, site proxy),
  computed from the cluster configuration, the deployment row and its active custom domain; with
  the deterministic container and volume names of package docker. \<open>net/url\<close>'s \<open>Parse\<close> is modelled as far as the
  code uses it: the scheme and the host name of an absolute URL (percent escapes and control
  characters in the authority are not modelled).
\<close>

section \<open>net/url\<close>

definition lower_char :: "char \<Rightarrow> char" where
  "lower_char c = (if 65 \<le> (of_char c :: nat) \<and> (of_char c :: nat) \<le> 90
                   then char_of ((of_char c :: nat) + 32) else c)"

definition to_lower :: "string \<Rightarrow> string" where
  "to_lower s = map lower_char s"

definition alpha_char :: "char \<Rightarrow> bool" where
  "alpha_char c \<longleftrightarrow> (let n = (of_char c :: nat) in 97 \<le> n \<and> n \<le> 122 \<or> 65 \<le> n \<and> n \<le> 90)"

definition digit_char :: "char \<Rightarrow> bool" where
  "digit_char c \<longleftrightarrow> (let n = (of_char c :: nat) in 48 \<le> n \<and> n \<le> 57)"

definition scheme_char :: "char \<Rightarrow> bool" where
  "scheme_char c \<longleftrightarrow> alpha_char c \<or> digit_char c \<or> c \<in> set ''+-.''"

text \<open>The scheme and the rest of the URL, \<open>None\<close> for a missing scheme before a colon.\<close>

definition get_scheme :: "string \<Rightarrow> (string \<times> string) option" where
  "get_scheme s =
     (let pre = takeWhile scheme_char s; post = drop (length pre) s
      in if post \<noteq> [] \<and> hd post = CHR '':'' \<and> pre = [] then None
         else if post \<noteq> [] \<and> hd post = CHR '':'' \<and> alpha_char (hd pre) then Some (to_lower pre, tl post)
         else Some ([], s))"

definition after_last_at :: "string \<Rightarrow> string" where
  "after_last_at s = rev (takeWhile (\<lambda>c. c \<noteq> CHR ''@'') (rev s))"

text \<open>\<open>Hostname()\<close> of an authority, \<open>None\<close> when its port is not a number.\<close>

definition authority_hostname :: "string \<Rightarrow> string option" where
  "authority_hostname a =
     (let h = after_last_at a
      in if h \<noteq> [] \<and> hd h = CHR ''['' then
           (let inner = takeWhile (\<lambda>c. c \<noteq> CHR '']'') (tl h);
                post = drop (length inner) (tl h)
            in if post = [] then None
               else if tl post = [] \<or> hd (tl post) = CHR '':'' \<and> list_all digit_char (tl (tl post))
                    then Some inner else None)
         else
           (let port = takeWhile (\<lambda>c. c \<noteq> CHR '':'') (rev h)
            in if length port = length h then Some h
               else if list_all digit_char port then Some (take (length h - length port - 1) h)
               else None))"

definition url_parse :: "string \<Rightarrow> (string \<times> string) option" where
  "url_parse s =
     (case get_scheme s of
        None \<Rightarrow> None
      | Some (sch, rest) \<Rightarrow>
          if has_prefix rest ''//'' then
            map_option (Pair sch)
              (authority_hostname (takeWhile (\<lambda>c. c \<notin> set ''/?#'') (drop 2 rest)))
          else Some (sch, []))"

section \<open>Names of containers and volumes\<close>

definition container_name :: "string \<Rightarrow> int \<Rightarrow> bool \<Rightarrow> string" where
  "container_name name idx ha =
     (if \<not> ha then ''convex-'' @ name else ''convex-'' @ name @ ''-'' @ fmt_d idx)"

definition volume_name :: "string \<Rightarrow> int \<Rightarrow> bool \<Rightarrow> string" where
  "volume_name name idx ha =
     (if \<not> ha then ''synapse-data-'' @ name else ''synapse-data-'' @ name @ ''-'' @ fmt_d idx)"

definition site_origin_fallback :: "string \<Rightarrow> string" where
  "site_origin_fallback orig =
     (let trimmed = (if has_suffix orig ''/'' then butlast orig else orig)
      in if trimmed = [] \<or> has_suffix trimmed ''/http'' then trimmed else trimmed @ ''/http'')"

section \<open>Computer\<close>

record computer =
  c_public_url :: string
  c_proxy_enabled :: bool
  c_base_domain :: string

text \<open>The fields of \<open>models.Deployment\<close> the helpers read.\<close>

record url_dep =
  u_name :: string
  u_adopted :: bool
  u_url :: string
  u_port :: int

definition public_url :: "computer \<Rightarrow> url_dep option \<Rightarrow> string \<Rightarrow> string" where
  "public_url c d0 api =
     (case d0 of None \<Rightarrow> [] | Some d \<Rightarrow>
        if u_adopted d then u_url d
        else if api \<noteq> [] then ''https://'' @ api
        else if c_base_domain c \<noteq> [] then ''https://'' @ u_name d @ ''.'' @ c_base_domain c
        else if c_public_url c = [] then u_url d
        else if c_proxy_enabled c then c_public_url c @ ''/d/'' @ u_name d
        else if u_port d = 0 then u_url d
        else c_public_url c @ '':'' @ fmt_d (u_port d))"

definition cli_url :: "computer \<Rightarrow> url_dep option \<Rightarrow> string \<Rightarrow> string" where
  "cli_url c d0 api =
     (case d0 of None \<Rightarrow> [] | Some d \<Rightarrow>
        if u_adopted d then u_url d
        else if api \<noteq> [] then ''https://'' @ api
        else if c_base_domain c \<noteq> [] then ''https://'' @ u_name d @ ''.'' @ c_base_domain c
        else if c_public_url c = [] \<or> u_port d = 0 then u_url d
        else (case url_parse (c_public_url c) of
                None \<Rightarrow> u_url d
              | Some (sch, h) \<Rightarrow> if h = [] then u_url d
                                 else sch @ ''://'' @ h @ '':'' @ fmt_d (u_port d)))"

definition site_url :: "computer \<Rightarrow> url_dep option \<Rightarrow> string \<Rightarrow> string" where
  "site_url c d0 site =
     (case d0 of None \<Rightarrow> [] | Some d \<Rightarrow>
        if u_adopted d then []
        else if site \<noteq> [] then ''https://'' @ site
        else if c_base_domain c \<noteq> [] then ''https://'' @ u_name d @ ''.site.'' @ c_base_domain c
        else [])"

section \<open>Active custom domains\<close>

text \<open>The first argument is \<open>db == nil\<close>, the second whether the query fails.\<close>

definition lookup_active_domain :: "bool \<Rightarrow> bool \<Rightarrow> state \<Rightarrow> uuid \<Rightarrow> domain_role \<Rightarrow> string" where
  "lookup_active_domain db_nil fails s dep role =
     (if db_nil \<or> dep = [] then []
      else if fails then []
      else (case sort_key dm_created (filter (\<lambda>r. dm_deployment r = dep \<and> dm_role r = role
                                                   \<and> dm_status r = DomActive) (domains s)) of
              [] \<Rightarrow> []
            | r # _ \<Rightarrow> dm_domain r))"

definition lookup_active_api_domain :: "bool \<Rightarrow> bool \<Rightarrow> state \<Rightarrow> uuid \<Rightarrow> string" where
  "lookup_active_api_domain db_nil fails s dep = lookup_active_domain db_nil fails s dep RoleApi"

definition lookup_active_site_domain :: "bool \<Rightarrow> bool \<Rightarrow> state \<Rightarrow> uuid \<Rightarrow> string" where
  "lookup_active_site_domain db_nil fails s dep = lookup_active_domain db_nil fails s dep RoleSite"

end
