(* ===== verification/Queue.thy ===== *)
theory Queue
  imports Db DeploymentUrl
begin

text \<open>
  The persistent work queue of package provisioner (worker.go): enqueueing, claiming under
  \<open>FOR UPDATE SKIP LOCKED\<close>, the recovery of abandoned jobs, the terminal marks, the roll-up of an
  operation run from its steps, and the periodic reaper.

  Every statement can fail: a \<open>faults\<close> value gives, per statement, the error text Postgres would
  return, and the definitions follow the code's error branches. A statement that fails changes
  nothing, a transaction that fails is rolled back. Statements are atomic; between two statements
  of one handler other processes act only where the handler calls out (the external call returns
  the state it left, see \<open>Provision\<close>).
\<close>

section \<open>Statements that can fail\<close>

datatype (plugins only: code size) site =
    QEnqueue | QEnqueueReconcile
  | QRequeueFail | QRequeuePend
  | QReapDeps | QReapRuns | QReapScan uuid | QReapSteps uuid
  | QRollInflight uuid | QRollRunning uuid | QRollCounts uuid | QRollFinal uuid
  | QClaimBegin | QClaimQuery | QClaimStorage | QClaimDomains | QClaimMark | QClaimCommit
  | QMarkDone int | QMarkJobFailed int | QMarkDepFailed uuid
  | QStepWrite uuid
  | QApplyGate | QCreateClaim | QRestartMark
  | QPrecheck | QLookupApi | QLookupSite
  | QRunBegin | QRunReplica | QRunDep | QRunStatus | QRunReplicaStatus | QRunCommit
  | QEnvDeployment | QEnvVars
  | QUpLoad | QUpPorts nat | QSwapBegin nat | QSwapLoad nat | QSwapLegacy nat | QSwapInsert nat int
  | QSwapDep nat | QSwapJob nat | QSwapCommit nat
  | QBackupRun | QBackupFail | QBackupDone | QBackupReplica | QRestoreLoad | QRestoreStamp

type_synonym faults = "site \<Rightarrow> string option"

definition no_faults :: faults where "no_faults = (\<lambda>_. None)"

lemma no_faults_at [simp]: "no_faults x = None"
  by (simp add: no_faults_def)

section \<open>Configuration\<close>

record config =
  cf_poll :: int                \<comment> \<open>durations in nanoseconds\<close>
  cf_timeout :: int
  cf_concurrency :: int
  cf_node :: string
  cf_hc_network :: bool
  cf_port_min :: int
  cf_port_max :: int
  cf_public_url :: string
  cf_proxy :: bool
  cf_base :: string
  cf_backup_dir :: string
  cf_apply :: bool
  cf_max_attempts :: int

definition second :: int where "second = 1000000000"

definition sane :: "config \<Rightarrow> config" where
  "sane c = c\<lparr>
     cf_poll := (if cf_poll c \<le> 0 then second else cf_poll c),
     cf_timeout := (if cf_timeout c \<le> 0 then 5 * 60 * second else cf_timeout c),
     cf_concurrency := (if cf_concurrency c \<le> 0 then 4 else cf_concurrency c),
     cf_node := (if cf_node c = [] then ''synapse'' else cf_node c),
     cf_port_min := (if cf_port_min c = 0 then 3210 else cf_port_min c),
     cf_port_max := (if cf_port_max c = 0 then 3500 else cf_port_max c),
     cf_max_attempts := (if cf_max_attempts c \<le> 0 then 5 else cf_max_attempts c)\<rparr>"

text \<open>\<open>int(cfg.JobTimeout.Seconds())\<close>: whole seconds, truncated.\<close>

definition timeout_secs :: "config \<Rightarrow> int" where
  "timeout_secs c = (if cf_timeout c < 0 then - ((- cf_timeout c) div second) else cf_timeout c div second)"

section \<open>Enqueue\<close>

definition blank_job :: "uuid \<Rightarrow> job_kind \<Rightarrow> bool \<Rightarrow> state \<Rightarrow> job" where
  "blank_job dep k hc s = \<lparr>j_id = next_job s, j_deployment = dep, j_replica = None, j_kind = k,
     j_status = JPending, j_claimed_by = None, j_claimed_at = None, j_finished_at = None,
     j_error = None, j_attempts = 0, j_hc_network = hc, j_created_at = clock s, j_action = None,
     j_run = None, j_step = None, j_backup = None\<rparr>"

definition insert_job :: "job \<Rightarrow> state \<Rightarrow> state" where
  "insert_job j s = s\<lparr>jobs := jobs s @ [j], next_job := next_job s + 1\<rparr>"

definition enqueue_replica :: "faults \<Rightarrow> uuid \<Rightarrow> uuid \<Rightarrow> bool \<Rightarrow> state \<Rightarrow> string option \<times> state" where
  "enqueue_replica flt dep rep hc s =
     (case flt QEnqueue of
        Some e \<Rightarrow> (Some e, s)
      | None \<Rightarrow>
          if rep = [] then (None, insert_job (blank_job dep KProvision hc s) s)
          else (None, insert_job (blank_job dep KProvision hc s \<lparr>j_replica := Some rep\<rparr>) s))"

definition enqueue :: "faults \<Rightarrow> uuid \<Rightarrow> bool \<Rightarrow> state \<Rightarrow> string option \<times> state" where
  "enqueue flt dep hc s = enqueue_replica flt dep [] hc s"

text \<open>
  The two partial unique indexes on unfinished reconcile jobs (migrations 000029, 000031): one per
  operation step, one per deployment.
\<close>

definition reconcile_in_flight :: "job \<Rightarrow> bool" where
  "reconcile_in_flight j \<longleftrightarrow> j_kind j = KReconcile \<and> in_flight j"

definition reconcile_conflict :: "uuid \<Rightarrow> uuid \<Rightarrow> state \<Rightarrow> bool" where
  "reconcile_conflict dep step s \<longleftrightarrow>
     sql_exists (\<lambda>j. reconcile_in_flight j \<and> (j_deployment j = dep \<or> j_step j = Some step)) (jobs s)"

text \<open>\<open>Inl\<close> is an error, \<open>Inr None\<close> the conflict (nothing enqueued), \<open>Inr (Some id)\<close> the new job.\<close>

definition enqueue_reconcile ::
  "faults \<Rightarrow> uuid \<Rightarrow> action \<Rightarrow> uuid \<Rightarrow> uuid \<Rightarrow> bool \<Rightarrow> state \<Rightarrow> (string + int option) \<times> state" where
  "enqueue_reconcile flt dep act run step hc s =
     (case flt QEnqueueReconcile of
        Some e \<Rightarrow> (Inl e, s)
      | None \<Rightarrow>
          if reconcile_conflict dep step s then (Inr None, s\<lparr>next_job := next_job s + 1\<rparr>)
          else (Inr (Some (next_job s)),
                insert_job (blank_job dep KReconcile hc s
                  \<lparr>j_action := Some act, j_run := Some run, j_step := Some step\<rparr>) s))"

definition enqueue_backup :: "faults \<Rightarrow> uuid \<Rightarrow> uuid \<Rightarrow> state \<Rightarrow> string option \<times> state" where
  "enqueue_backup flt dep bid s =
     (case flt QEnqueue of
        Some e \<Rightarrow> (Some e, s)
      | None \<Rightarrow> (None, insert_job (blank_job dep KBackup False s \<lparr>j_backup := Some bid\<rparr>) s))"

definition enqueue_restore :: "faults \<Rightarrow> uuid \<Rightarrow> uuid \<Rightarrow> state \<Rightarrow> string option \<times> state" where
  "enqueue_restore flt dep bid s =
     (case flt QEnqueue of
        Some e \<Rightarrow> (Some e, s)
      | None \<Rightarrow> (None, insert_job (blank_job dep KRestore False s \<lparr>j_backup := Some bid\<rparr>) s))"

definition enqueue_upgrade_to_ha :: "faults \<Rightarrow> uuid \<Rightarrow> bool \<Rightarrow> state \<Rightarrow> (string + int) \<times> state" where
  "enqueue_upgrade_to_ha flt dep hc s =
     (case flt QEnqueue of
        Some e \<Rightarrow> (Inl e, s)
      | None \<Rightarrow> (Inr (next_job s), insert_job (blank_job dep KUpgradeToHA hc s) s))"

section \<open>Terminal marks\<close>

definition set_done :: "int \<Rightarrow> job \<Rightarrow> job" where
  "set_done now j = j\<lparr>j_status := JDone, j_finished_at := Some now\<rparr>"

definition set_failed :: "int \<Rightarrow> string \<Rightarrow> job \<Rightarrow> job" where
  "set_failed now e j = j\<lparr>j_status := JFailed, j_error := Some e, j_finished_at := Some now\<rparr>"

definition mark_done :: "faults \<Rightarrow> int \<Rightarrow> state \<Rightarrow> state" where
  "mark_done flt i s =
     (if flt (QMarkDone i) \<noteq> None then s
      else s\<lparr>jobs := sql_update (\<lambda>j. j_id j = i) (set_done (clock s)) (jobs s)\<rparr>)"

definition mark_job_failed :: "faults \<Rightarrow> int \<Rightarrow> string \<Rightarrow> state \<Rightarrow> state" where
  "mark_job_failed flt i e s =
     (if flt (QMarkJobFailed i) \<noteq> None then s
      else s\<lparr>jobs := sql_update (\<lambda>j. j_id j = i) (set_failed (clock s) e) (jobs s)\<rparr>)"

definition fail_dep :: "int \<Rightarrow> deployment \<Rightarrow> deployment" where
  "fail_dep now d = d\<lparr>d_status := DFailed, d_last_deploy := Some now\<rparr>"

definition mark_failed :: "faults \<Rightarrow> int \<Rightarrow> uuid \<Rightarrow> string \<Rightarrow> state \<Rightarrow> state" where
  "mark_failed flt i dep e s =
     (let s1 = mark_job_failed flt i e s
      in if flt (QMarkDepFailed dep) \<noteq> None then s1
         else s1\<lparr>deps := sql_update (\<lambda>d. d_id d = dep \<and> d_status d = DProvisioning)
                          (fail_dep (clock s1)) (deps s1)\<rparr>)"

section \<open>The ledger: steps and runs\<close>

definition set_step :: "step_status \<Rightarrow> string \<Rightarrow> string option \<Rightarrow> step_row \<Rightarrow> step_row" where
  "set_step st e res x = x\<lparr>st_status := st, st_result := res,
     st_error := (if e = [] then None else Some e)\<rparr>"

definition write_reconcile_step ::
  "faults \<Rightarrow> uuid \<Rightarrow> step_status \<Rightarrow> string \<Rightarrow> string option \<Rightarrow> state \<Rightarrow> state" where
  "write_reconcile_step flt step st e res s =
     (if step = [] then s
      else if flt (QStepWrite step) \<noteq> None then s
      else s\<lparr>steps := sql_update (\<lambda>x. st_id x = step) (set_step st e res) (steps s)\<rparr>)"

definition run_inflight :: "uuid \<Rightarrow> state \<Rightarrow> nat" where
  "run_inflight r s = sql_count (\<lambda>j. j_run j = Some r \<and> j_kind j = KReconcile \<and> in_flight j) (jobs s)"

definition step_count :: "uuid \<Rightarrow> step_status \<Rightarrow> state \<Rightarrow> nat" where
  "step_count r st s = sql_count (\<lambda>x. st_run x = r \<and> st_status x = st) (steps s)"

definition step_total :: "uuid \<Rightarrow> state \<Rightarrow> nat" where
  "step_total r s = sql_count (\<lambda>x. st_run x = r) (steps s)"

definition set_run_running :: "int \<Rightarrow> run_row \<Rightarrow> run_row" where
  "set_run_running now r = r\<lparr>run_status := RRunning, run_updated := now\<rparr>"

definition set_run_final :: "int \<Rightarrow> run_status \<Rightarrow> nat \<times> nat \<times> nat \<times> nat \<times> nat \<Rightarrow> run_row \<Rightarrow> run_row" where
  "set_run_final now st c r =
     r\<lparr>run_status := st, run_counts := Some c, run_finished := Some now, run_updated := now\<rparr>"

definition rollup_reconcile_run :: "faults \<Rightarrow> uuid \<Rightarrow> state \<Rightarrow> state" where
  "rollup_reconcile_run flt r s =
     (if r = [] then s
      else if flt (QRollInflight r) \<noteq> None then s
      else if 0 < run_inflight r s then
        (if flt (QRollRunning r) \<noteq> None then s
         else s\<lparr>runs := sql_update (\<lambda>x. run_id x = r \<and> run_status x = RQueued)
                          (set_run_running (clock s)) (runs s)\<rparr>)
      else if flt (QRollCounts r) \<noteq> None then s
      else
        (let final = (if 0 < step_count r SFailed s then RFailed else RSucceeded);
             counts = (step_count r SSucceeded s, step_count r SFailed s, step_count r SSkipped s,
                       step_count r SNoOp s, step_total r s)
         in if flt (QRollFinal r) \<noteq> None then s
            else s\<lparr>runs := sql_update (\<lambda>x. run_id x = r \<and> (run_status x = RQueued \<or> run_status x = RRunning))
                             (set_run_final (clock s) final counts) (runs s)\<rparr>))"

section \<open>Recovery of abandoned jobs\<close>

definition stale_claim :: "int \<Rightarrow> int \<Rightarrow> job \<Rightarrow> bool" where
  "stale_claim now secs j \<longleftrightarrow> j_status j = JClaimed
     \<and> (case j_claimed_at j of None \<Rightarrow> False | Some t \<Rightarrow> t < now - secs * usec)"

definition give_up :: "int \<Rightarrow> job \<Rightarrow> job" where
  "give_up now j = j\<lparr>j_status := JFailed, j_finished_at := Some now,
     j_error := Some (coalesce_nullif (j_error j) ''exceeded max attempts; giving up'')\<rparr>"

definition repend :: "job \<Rightarrow> job" where
  "repend j = j\<lparr>j_status := JPending, j_claimed_by := None, j_claimed_at := None\<rparr>"

definition requeue_stale :: "faults \<Rightarrow> config \<Rightarrow> state \<Rightarrow> (string + nat) \<times> state" where
  "requeue_stale flt cfg s =
     (let secs = timeout_secs cfg; stale = stale_claim (clock s) secs in
      case flt QRequeueFail of
        Some e \<Rightarrow> (Inl e, s)
      | None \<Rightarrow>
          (let s1 = s\<lparr>jobs := sql_update (\<lambda>j. stale j \<and> cf_max_attempts cfg \<le> int (j_attempts j))
                                (give_up (clock s)) (jobs s)\<rparr> in
           case flt QRequeuePend of
             Some e \<Rightarrow> (Inl e, s1)
           | None \<Rightarrow>
               (let under = (\<lambda>j. stale j \<and> int (j_attempts j) < cf_max_attempts cfg)
                in (Inr (sql_count under (jobs s1)),
                    s1\<lparr>jobs := sql_update under repend (jobs s1)\<rparr>))))"

section \<open>The reaper\<close>

definition stuck_provisioning :: "int \<Rightarrow> int \<Rightarrow> job list \<Rightarrow> deployment \<Rightarrow> bool" where
  "stuck_provisioning now secs js d \<longleftrightarrow> d_status d = DProvisioning
     \<and> (case d_last_deploy d of None \<Rightarrow> False | Some t \<Rightarrow> t < now - secs * usec)
     \<and> \<not> sql_exists (\<lambda>j. j_deployment j = d_id d \<and> in_flight j) js"

definition orphan_run :: "int \<Rightarrow> int \<Rightarrow> job list \<Rightarrow> run_row \<Rightarrow> bool" where
  "orphan_run now secs js r \<longleftrightarrow> (run_status r = RQueued \<or> run_status r = RRunning)
     \<and> run_updated r < now - secs * usec
     \<and> \<not> sql_exists (\<lambda>j. j_run j = Some (run_id r) \<and> j_kind j = KReconcile \<and> in_flight j) js"

definition abandon_step :: "step_row \<Rightarrow> step_row" where
  "abandon_step x = x\<lparr>st_status := SFailed,
     st_error := Some (coalesce_nullif (st_error x) ''worker died before this step ran'')\<rparr>"

fun close_orphans :: "faults \<Rightarrow> uuid list \<Rightarrow> state \<Rightarrow> state" where
  "close_orphans flt [] s = s"
| "close_orphans flt (r # rs) s =
     (if flt (QReapSteps r) \<noteq> None then close_orphans flt rs s
      else close_orphans flt rs
             (rollup_reconcile_run flt r
               (s\<lparr>steps := sql_update (\<lambda>x. st_run x = r \<and> st_status x = SPlanned) abandon_step (steps s)\<rparr>)))"

definition reap_deps :: "faults \<Rightarrow> int \<Rightarrow> state \<Rightarrow> state" where
  "reap_deps flt secs s =
     (if flt QReapDeps \<noteq> None then s
      else s\<lparr>deps := sql_update (stuck_provisioning (clock s) secs (jobs s)) (fail_dep (clock s)) (deps s)\<rparr>)"

definition reap_runs :: "faults \<Rightarrow> int \<Rightarrow> state \<Rightarrow> state" where
  "reap_runs flt secs s =
     (if flt QReapRuns \<noteq> None then s
      else (let orphans = map run_id (filter (orphan_run (clock s) secs (jobs s)) (runs s))
            in if \<exists>r \<in> set orphans. flt (QReapScan r) \<noteq> None then s
               else close_orphans flt orphans s))"

definition reap_body :: "faults \<Rightarrow> config \<Rightarrow> state \<Rightarrow> string option \<times> state" where
  "reap_body flt cfg s =
     (let secs = timeout_secs cfg;
          s1 = snd (requeue_stale flt cfg s);
          s2 = reap_deps flt secs s1
      in (None, reap_runs flt secs s2))"

definition reap_stuck :: "faults \<Rightarrow> acquire \<Rightarrow> config \<Rightarrow> state \<Rightarrow> state" where
  "reap_stuck flt a cfg s = snd (with_try_advisory_lock a (reap_body flt cfg) s)"

end
