(* ===== verification/Worker.thy ===== *)
theory Worker
  imports Queue
begin

text \<open>
  The worker of package provisioner up to the point where it calls Docker: the claim of the next
  job (one transaction, with the decrypted storage settings and the runtime environment), the
  container specification built from a claimed job, and the choice of the local or the remote
  dispatcher. Docker, SSH, the snapshot tools and the Convex env API are records of functions:
  each takes the state and returns an outcome and the state other processes left meanwhile.
\<close>

section \<open>Claimed jobs\<close>

record storage_env =
  se_postgres :: string
  se_no_ssl :: bool
  se_endpoint :: string
  se_region :: string
  se_access :: string
  se_secret :: string
  se_files :: string
  se_modules :: string
  se_search :: string
  se_exports :: string
  se_snapshots :: string

record claimed_job =
  cj_id :: int
  cj_kind :: job_kind
  cj_deployment :: uuid
  cj_project :: uuid
  cj_name :: string
  cj_type :: string
  cj_port :: int
  cj_container :: string
  cj_admin_key :: string
  cj_secret :: string
  cj_hc :: bool
  cj_env :: "(string \<times> string) list"
  cj_replica :: uuid                    \<comment> \<open>empty: no replica row\<close>
  cj_index :: int
  cj_ha :: bool
  cj_storage :: "storage_env option"
  cj_host :: uuid
  cj_remote :: bool
  cj_tailnet :: string
  cj_ssh_user :: string
  cj_ssh_port :: int
  cj_action :: "action option"
  cj_run :: uuid
  cj_step :: uuid
  cj_status :: dep_status
  cj_adopted :: bool
  cj_cpus :: "rat option"
  cj_memory :: "int option"
  cj_backup :: uuid

section \<open>Interfaces of the code outside the package\<close>

record spec =
  sp_name :: string
  sp_deployment :: uuid
  sp_project :: uuid
  sp_secret :: string
  sp_port :: int
  sp_env :: "(string \<times> string) list"
  sp_hc :: bool
  sp_index :: int
  sp_ha :: bool
  sp_storage :: "storage_env option"
  sp_public :: string
  sp_site :: string
  sp_cpus :: rat
  sp_memory :: int

record info =
  in_container :: string
  in_port :: int
  in_url :: string
  in_addr :: string

type_synonym 'a ext = "state \<Rightarrow> 'a outcome \<times> state"

record dispatcher =
  dk_provision :: "spec \<Rightarrow> info ext"
  dk_destroy :: "string \<Rightarrow> unit ext"
  dk_destroy_replica :: "string \<Rightarrow> int \<Rightarrow> bool \<Rightarrow> unit ext"
  dk_stop :: "string \<Rightarrow> unit ext"
  dk_restart :: "string \<Rightarrow> unit ext"

record target =
  tg_host :: uuid
  tg_tailnet :: string
  tg_user :: string
  tg_port :: int

record export_spec =
  xs_name :: string
  xs_deployment :: uuid
  xs_project :: uuid
  xs_source :: string
  xs_admin_key :: string
  xs_path :: string

record import_spec =
  is_name :: string
  is_deployment :: uuid
  is_project :: uuid
  is_targets :: "string list"
  is_admin_key :: string
  is_path :: string

record migration_spec =
  ms_name :: string
  ms_deployment :: uuid
  ms_project :: uuid
  ms_source :: string
  ms_source_key :: string
  ms_targets :: "string list"
  ms_target_key :: string

record backup_runner =
  bk_export :: "export_spec \<Rightarrow> unit ext"
  bk_import :: "import_spec \<Rightarrow> unit ext"
  bk_stat :: "string \<Rightarrow> state \<Rightarrow> string + int"   \<comment> \<open>os.Stat below the backup directory\<close>

record worker =
  wk_docker :: dispatcher
  wk_migrate :: "(migration_spec \<Rightarrow> unit ext) option"
  wk_backups :: "backup_runner option"
  wk_config :: config
  wk_decrypt :: "(string \<Rightarrow> string outcome) option"
  wk_convex_env :: "(string \<Rightarrow> string \<Rightarrow> (string \<times> string) list \<Rightarrow> unit ext) option"
  wk_ssh :: "(target \<Rightarrow> dispatcher) option"

text \<open>Every call is appended to the trace before it is made.\<close>

definition call_out :: "call \<Rightarrow> 'a ext \<Rightarrow> 'a ext" where
  "call_out c f s = f (log_call c s)"

section \<open>TLS heuristic on the Postgres URL\<close>

text \<open>\<open>indexOf\<close>: the scan of the code, from position \<open>i\<close>; -1 when there is no occurrence.\<close>

function index_from :: "string \<Rightarrow> string \<Rightarrow> nat \<Rightarrow> int" where
  "index_from s sub i =
     (if i + length sub \<le> length s then
        (if take (length sub) (drop i s) = sub then int i else index_from s sub (Suc i))
      else -1)"
  by pat_completeness auto
termination
  by (relation "measure (\<lambda>(s, sub, i). Suc (length s) - i)") auto

declare index_from.simps [simp del]

definition index_of :: "string \<Rightarrow> string \<Rightarrow> int" where
  "index_of s sub = index_from s sub 0"

definition contains :: "string \<Rightarrow> string \<Rightarrow> bool" where
  "contains s sub \<longleftrightarrow> length sub \<le> length s \<and> 0 \<le> index_of s sub"

definition has_ssl_prefix :: "string \<Rightarrow> bool" where
  "has_ssl_prefix url \<longleftrightarrow> contains url ''sslmode=require'' \<or> contains url ''sslmode=verify-ca''
     \<or> contains url ''sslmode=verify-full''"

section \<open>Loading what a job needs\<close>

text \<open>\<open>DecryptString\<close> of three columns, in order; a panic of the decrypter is not one of its results.\<close>

definition decrypt3 ::
  "(string \<Rightarrow> string outcome) \<Rightarrow> storage_row \<Rightarrow> (string \<times> string \<times> string) option" where
  "decrypt3 dcr r =
     (case dcr (s_db_url_enc r) of
        Ok u \<Rightarrow> (case dcr (s_access_enc r) of
                   Ok a \<Rightarrow> (case dcr (s_secret_enc r) of Ok k \<Rightarrow> Some (u, a, k) | _ \<Rightarrow> None)
                 | _ \<Rightarrow> None)
      | _ \<Rightarrow> None)"

definition load_storage ::
  "faults \<Rightarrow> (string \<Rightarrow> string outcome) \<Rightarrow> uuid \<Rightarrow> state \<Rightarrow> storage_env option" where
  "load_storage flt dcr dep s =
     (if flt QClaimStorage \<noteq> None then None
      else case sql_row (\<lambda>r. s_deployment r = dep) (storages s) of
        None \<Rightarrow> None
      | Some r \<Rightarrow>
          (case decrypt3 dcr r of
             None \<Rightarrow> None
           | Some (u, a, k) \<Rightarrow>
               Some \<lparr>se_postgres = u, se_no_ssl = (\<not> has_ssl_prefix u), se_endpoint = s_endpoint r,
                 se_region = s_region r, se_access = a, se_secret = k, se_files = s_files r,
                 se_modules = s_modules r, se_search = s_search r, se_exports = s_exports r,
                 se_snapshots = s_snapshots r\<rparr>))"

definition load_active_domain_origins :: "faults \<Rightarrow> uuid \<Rightarrow> state \<Rightarrow> (string list) option" where
  "load_active_domain_origins flt dep s =
     (if flt QClaimDomains \<noteq> None then None
      else Some (map (\<lambda>r. ''https://'' @ dm_domain r)
             (sort_key dm_created
               (filter (\<lambda>r. dm_deployment r = dep \<and> dm_status r = DomActive \<and> dm_role r = RoleApi)
                 (domains s)))))"

fun join :: "string \<Rightarrow> string list \<Rightarrow> string" where
  "join sep [] = []"
| "join sep [x] = x"
| "join sep (x # xs) = x @ sep @ join sep xs"

definition load_runtime_env_vars :: "faults \<Rightarrow> uuid \<Rightarrow> state \<Rightarrow> ((string \<times> string) list) option" where
  "load_runtime_env_vars flt dep s =
     (case load_active_domain_origins flt dep s of
        None \<Rightarrow> None
      | Some origins \<Rightarrow>
          Some (if origins = [] then [] else [(''CORS_ALLOWED_ORIGINS'', join '','' origins)]))"

section \<open>claimNext\<close>

text \<open>
  The rows the claim query can return: pending, not locked by another transaction, with the joined
  deployment and host, oldest first.
\<close>

definition claimable :: "(int \<Rightarrow> bool) \<Rightarrow> state \<Rightarrow> job list" where
  "claimable locked s = sort_key j_created_at
     (filter (\<lambda>j. j_status j = JPending \<and> \<not> locked (j_id j)
        \<and> (case find_dep (j_deployment j) s of None \<Rightarrow> False
           | Some d \<Rightarrow> find_host (d_host d) s \<noteq> None)) (jobs s))"

definition set_claimed :: "string \<Rightarrow> int \<Rightarrow> job \<Rightarrow> job" where
  "set_claimed node now j = j\<lparr>j_status := JClaimed, j_claimed_by := Some node,
     j_claimed_at := Some now, j_attempts := j_attempts j + 1\<rparr>"

definition text_of :: "string option \<Rightarrow> string" where
  "text_of x = (case x of None \<Rightarrow> [] | Some t \<Rightarrow> t)"

text \<open>The row the query scans, without storage and environment.\<close>

definition scan_claim :: "job \<Rightarrow> deployment \<Rightarrow> host \<Rightarrow> replica option \<Rightarrow> claimed_job" where
  "scan_claim j d h r = \<lparr>cj_id = j_id j, cj_kind = j_kind j, cj_deployment = j_deployment j,
     cj_project = d_project d, cj_name = d_name d, cj_type = d_type d,
     cj_port = (case r of
                  Some rr \<Rightarrow> (case r_port rr of Some p \<Rightarrow> p
                              | None \<Rightarrow> (case d_host_port d of Some p \<Rightarrow> p | None \<Rightarrow> 0))
                | None \<Rightarrow> (case d_host_port d of Some p \<Rightarrow> p | None \<Rightarrow> 0)),
     cj_container = text_of (d_container d), cj_admin_key = d_admin_key d, cj_secret = d_secret d,
     cj_hc = j_hc_network j, cj_env = [], cj_replica = text_of (j_replica j),
     cj_index = (case j_replica j of None \<Rightarrow> 0
                 | Some i \<Rightarrow> if i = [] then 0 else (case r of None \<Rightarrow> 0 | Some rr \<Rightarrow> r_index rr)),
     cj_ha = d_ha d, cj_storage = None, cj_host = d_host d, cj_remote = h_is_remote h,
     cj_tailnet = text_of (h_tailnet h), cj_ssh_user = h_ssh_user h, cj_ssh_port = h_ssh_port h,
     cj_action = j_action j, cj_run = text_of (j_run j), cj_step = text_of (j_step j),
     cj_status = d_status d, cj_adopted = d_adopted d, cj_cpus = d_cpus d, cj_memory = d_memory d,
     cj_backup = text_of (j_backup j)\<rparr>"

definition claim_query :: "faults \<Rightarrow> (int \<Rightarrow> bool) \<Rightarrow> state \<Rightarrow> claimed_job option" where
  "claim_query flt locked s =
     (if flt QClaimQuery \<noteq> None then None
      else case claimable locked s of
        [] \<Rightarrow> None
      | j # _ \<Rightarrow>
          (case find_dep (j_deployment j) s of
             None \<Rightarrow> None
           | Some d \<Rightarrow>
               (case find_host (d_host d) s of
                  None \<Rightarrow> None
                | Some h \<Rightarrow> Some (scan_claim j d h
                    (case j_replica j of None \<Rightarrow> None | Some i \<Rightarrow> find_rep i s)))))"

definition with_storage :: "worker \<Rightarrow> faults \<Rightarrow> state \<Rightarrow> claimed_job \<Rightarrow> claimed_job option" where
  "with_storage w flt s j =
     (if cj_ha j \<or> cj_kind j = KUpgradeToHA then
        (case wk_decrypt w of
           None \<Rightarrow> None
         | Some dcr \<Rightarrow>
             map_option (\<lambda>st. j\<lparr>cj_storage := Some st\<rparr>) (load_storage flt dcr (cj_deployment j) s))
      else Some j)"

definition claim_next ::
  "worker \<Rightarrow> faults \<Rightarrow> config \<Rightarrow> (int \<Rightarrow> bool) \<Rightarrow> state \<Rightarrow> claimed_job option \<times> state" where
  "claim_next w flt cfg locked s =
     (if flt QClaimBegin \<noteq> None then (None, s)
      else case claim_query flt locked s of
        None \<Rightarrow> (None, s)
      | Some j0 \<Rightarrow>
          (case with_storage w flt s j0 of
             None \<Rightarrow> (None, s)
           | Some j1 \<Rightarrow>
               (case load_runtime_env_vars flt (cj_deployment j1) s of
                  None \<Rightarrow> (None, s)
                | Some env \<Rightarrow>
                    if flt QClaimMark \<noteq> None then (None, s)
                    else if flt QClaimCommit \<noteq> None then (None, s)
                    else (Some (j1\<lparr>cj_env := env\<rparr>),
                          s\<lparr>jobs := sql_update (\<lambda>j. j_id j = cj_id j1)
                                     (set_claimed (cf_node cfg) (clock s)) (jobs s)\<rparr>))))"

section \<open>Origins and specification\<close>

definition config_computer :: "config \<Rightarrow> computer" where
  "config_computer c = \<lparr>c_public_url = cf_public_url c, c_proxy_enabled = cf_proxy c,
     c_base_domain = cf_base c\<rparr>"

definition compute_public_origin :: "config \<Rightarrow> faults \<Rightarrow> uuid \<Rightarrow> string \<Rightarrow> int \<Rightarrow> state \<Rightarrow> string" where
  "compute_public_origin cfg flt dep name port s =
     (if cf_public_url cfg = [] \<and> cf_base cfg = [] then []
      else cli_url (config_computer cfg)
             (Some \<lparr>u_name = name, u_adopted = False, u_url = [], u_port = port\<rparr>)
             (lookup_active_api_domain False (flt QLookupApi \<noteq> None) s dep))"

definition compute_site_origin :: "config \<Rightarrow> faults \<Rightarrow> uuid \<Rightarrow> string \<Rightarrow> state \<Rightarrow> string" where
  "compute_site_origin cfg flt dep name s =
     (let domain = lookup_active_site_domain False (flt QLookupSite \<noteq> None) s dep in
      if cf_base cfg = [] then (if domain \<noteq> [] then ''https://'' @ domain else [])
      else site_url (config_computer cfg)
             (Some \<lparr>u_name = name, u_adopted = False, u_url = [], u_port = 0\<rparr>) domain)"

definition build_spec :: "config \<Rightarrow> faults \<Rightarrow> claimed_job \<Rightarrow> state \<Rightarrow> spec" where
  "build_spec cfg flt j s = \<lparr>sp_name = cj_name j, sp_deployment = cj_deployment j,
     sp_project = cj_project j, sp_secret = cj_secret j, sp_port = cj_port j, sp_env = cj_env j,
     sp_hc = cj_hc j, sp_index = cj_index j, sp_ha = cj_ha j, sp_storage = cj_storage j,
     sp_public = compute_public_origin cfg flt (cj_deployment j) (cj_name j) (cj_port j) s,
     sp_site = compute_site_origin cfg flt (cj_deployment j) (cj_name j) s,
     sp_cpus = (case cj_cpus j of None \<Rightarrow> 0 | Some c \<Rightarrow> c),
     sp_memory = (case cj_memory j of None \<Rightarrow> 0 | Some m \<Rightarrow> m)\<rparr>"

section \<open>dockerForJob\<close>

definition msg_remote_disabled :: string where
  "msg_remote_disabled = ''remote host configured but Remote Hosts disabled '' @ em_dash
     @ '' set SYNAPSE_HEADSCALE_URL + SYNAPSE_STORAGE_KEY and restart''"

definition msg_no_tailnet :: string where
  "msg_no_tailnet = ''host has no tailnet address '' @ em_dash
     @ '' install-agent.sh never finished registering this host''"

definition job_target :: "claimed_job \<Rightarrow> target" where
  "job_target j = \<lparr>tg_host = cj_host j, tg_tailnet = cj_tailnet j, tg_user = cj_ssh_user j,
     tg_port = cj_ssh_port j\<rparr>"

definition docker_for_job :: "worker \<Rightarrow> faults \<Rightarrow> claimed_job \<Rightarrow> state \<Rightarrow> dispatcher option \<times> state" where
  "docker_for_job w flt j s =
     (if \<not> cj_remote j then (Some (wk_docker w), s)
      else case wk_ssh w of
        None \<Rightarrow> (None, mark_failed flt (cj_id j) (cj_deployment j) msg_remote_disabled s)
      | Some remote \<Rightarrow>
          if cj_tailnet j = [] then (None, mark_failed flt (cj_id j) (cj_deployment j) msg_no_tailnet s)
          else (Some (remote (job_target j)), s))"

section \<open>Lemmas\<close>

lemma index_from_hit:
  "index_from s sub i = int k \<Longrightarrow> i \<le> k \<and> k + length sub \<le> length s \<and> take (length sub) (drop k s) = sub"
proof (induction s sub i rule: index_from.induct)
  case (1 s sub i)
  show ?case
  proof (cases "i + length sub \<le> length s \<and> take (length sub) (drop i s) \<noteq> sub")
    case True
    with 1 have "Suc i \<le> k \<and> k + length sub \<le> length s \<and> take (length sub) (drop k s) = sub"
      by (simp add: index_from.simps [of s sub i])
    then show ?thesis by simp
  next
    case False
    with "1.prems" show ?thesis
      by (auto simp: index_from.simps [of s sub i] split: if_splits)
  qed
qed

lemma index_from_miss:
  "index_from s sub i < 0 \<Longrightarrow> i \<le> k \<Longrightarrow> k + length sub \<le> length s \<Longrightarrow> take (length sub) (drop k s) \<noteq> sub"
proof (induction s sub i rule: index_from.induct)
  case (1 s sub i)
  then have step: "take (length sub) (drop i s) \<noteq> sub" "index_from s sub (Suc i) < 0"
    by (auto simp: index_from.simps [of s sub i] split: if_splits)
  show ?case
  proof (cases "i = k")
    case True
    with step show ?thesis by simp
  next
    case False
    with 1 step show ?thesis by auto
  qed
qed

lemma claimable_sound:
  "j \<in> set (claimable locked s) \<Longrightarrow> j \<in> set (jobs s) \<and> j_status j = JPending \<and> \<not> locked (j_id j)"
  by (auto simp: claimable_def)

lemma claim_query_job:
  assumes "claim_query flt locked s = Some c"
  shows "\<exists>j \<in> set (jobs s). cj_id c = j_id j \<and> j_status j = JPending \<and> \<not> locked (j_id j)
           \<and> (\<forall>j' \<in> set (claimable locked s). j_created_at j \<le> j_created_at j')"
proof -
  from assms obtain j rest where head: "claimable locked s = j # rest" and id: "cj_id c = j_id j"
    by (auto simp: claim_query_def scan_claim_def split: if_splits list.splits option.splits)
  have "sorted (map j_created_at (j # rest))"
    unfolding head [symmetric] claimable_def by (rule sorted_sort_key)
  then have "\<forall>j' \<in> set (j # rest). j_created_at j \<le> j_created_at j'" by auto
  moreover have "j \<in> set (claimable locked s)" by (simp add: head)
  ultimately show ?thesis using id claimable_sound head by metis
qed

end
