(* ===== verification/Proxy.thy ===== *)
theory Proxy
  imports Worker
begin

text \<open>
  Package proxy: the resolver from a deployment name or a custom domain to upstream addresses with
  its two TTL caches, the request router, the retry over replicas, the dashboard host and the HA
  health probe. The upstream of an address (\<open>httputil.ReverseProxy\<close> and the network) is an argument;
  a route is a value, so that routing and transport are separate definitions as in the code.
\<close>

section \<open>A cache with expiry\<close>

record 'v cached =
  ca_value :: 'v
  ca_expires :: int

type_synonym 'v cache = "string \<rightharpoonup> 'v cached"

definition cache_get :: "'v cache \<Rightarrow> int \<Rightarrow> string \<Rightarrow> 'v option" where
  "cache_get c now k = (case c k of None \<Rightarrow> None | Some e \<Rightarrow> if now < ca_expires e then Some (ca_value e) else None)"

definition cache_put :: "'v cache \<Rightarrow> int \<Rightarrow> string \<Rightarrow> 'v \<Rightarrow> 'v cache" where
  "cache_put c expires k v = c(k \<mapsto> \<lparr>ca_value = v, ca_expires = expires\<rparr>)"

definition cache_drop :: "'v cache \<Rightarrow> string \<Rightarrow> 'v cache" where
  "cache_drop c k = c(k := None)"

section \<open>Resolver\<close>

datatype rsite = RvDep | RvReplicas | RvLegacy | RvDomain

type_synonym rfaults = "rsite \<Rightarrow> string option"

datatype resolve_error = NoReplicas | SiteUnsupported | NotFound string | NotRunning string dep_status
  | NoTailnet string | EmptyHost | NoDomain string | QueryError string

record name_entry =
  ne_replicas :: "string list"
  ne_remote :: bool

record resolver =
  rv_dns :: bool
  rv_ttl :: int
  rv_dashboard :: string
  rv_names :: "name_entry cache"
  rv_domains :: "(string \<times> domain_role) cache"

definition dep_named :: "string \<Rightarrow> state \<Rightarrow> deployment option" where
  "dep_named n s = sql_row (\<lambda>d. d_name d = n) (deps s)"

definition host_remote :: "deployment \<Rightarrow> state \<Rightarrow> bool" where
  "host_remote d s = (case find_host (d_host d) s of None \<Rightarrow> False | Some h \<Rightarrow> h_is_remote h)"

definition host_tailnet :: "deployment \<Rightarrow> state \<Rightarrow> string option" where
  "host_tailnet d s = (case find_host (d_host d) s of None \<Rightarrow> None | Some h \<Rightarrow> h_tailnet h)"

text \<open>\<open>last_seen_active_at DESC NULLS LAST, replica_index ASC\<close>.\<close>

definition pick_order :: "replica list \<Rightarrow> replica list" where
  "pick_order rs =
     (let by = sort_key r_index rs
      in sort_key (\<lambda>r. - the (r_last_seen r)) (filter (\<lambda>r. r_last_seen r \<noteq> None) by)
         @ filter (\<lambda>r. r_last_seen r = None) by)"

definition running_replicas :: "string \<Rightarrow> state \<Rightarrow> replica list" where
  "running_replicas n s = pick_order (filter (\<lambda>r. r_status r = DRunning
     \<and> sql_exists (\<lambda>d. d_id d = r_deployment r \<and> d_name d = n) (deps s)) (reps s))"

definition any_replica :: "string \<Rightarrow> state \<Rightarrow> bool" where
  "any_replica n s = sql_exists (\<lambda>r. sql_exists (\<lambda>d. d_id d = r_deployment r \<and> d_name d = n) (deps s)) (reps s)"

definition address_for :: "resolver \<Rightarrow> string \<Rightarrow> int \<Rightarrow> bool \<Rightarrow> int \<Rightarrow> bool \<Rightarrow> string option \<Rightarrow> bool \<Rightarrow> string" where
  "address_for rv n idx ha port remote tailnet has_port =
     (if remote \<and> tailnet \<noteq> None \<and> tailnet \<noteq> Some [] \<and> has_port then text_of tailnet @ '':'' @ fmt_d port
      else if rv_dns rv then
        (if \<not> ha then ''convex-'' @ n @ '':3210'' else ''convex-'' @ n @ ''-'' @ fmt_d idx @ '':3210'')
      else ''127.0.0.1:'' @ fmt_d port)"

text \<open>The address of a replica row; \<open>None\<close>: it has no port yet and the mode needs one.\<close>

definition replica_address :: "resolver \<Rightarrow> string \<Rightarrow> bool \<Rightarrow> bool \<Rightarrow> string option \<Rightarrow> replica \<Rightarrow> string option" where
  "replica_address rv n ha remote tailnet r =
     (case r_port r of
        None \<Rightarrow> if remote \<or> \<not> rv_dns rv then None else Some (address_for rv n (r_index r) ha 0 remote tailnet False)
      | Some p \<Rightarrow> Some (address_for rv n (r_index r) ha p remote tailnet True))"

definition legacy_address :: "resolver \<Rightarrow> rfaults \<Rightarrow> string \<Rightarrow> bool \<Rightarrow> string option \<Rightarrow> state \<Rightarrow> string option" where
  "legacy_address rv flt n remote tailnet s =
     (if flt RvLegacy \<noteq> None then None
      else case dep_named n s of
        None \<Rightarrow> None
      | Some d \<Rightarrow>
          if d_status d \<noteq> DRunning then None
          else if remote then
            (case d_host_port d of None \<Rightarrow> None
             | Some p \<Rightarrow> if tailnet = None \<or> tailnet = Some [] then None else Some (text_of tailnet @ '':'' @ fmt_d p))
          else if rv_dns rv then Some (''convex-'' @ n @ '':3210'')
          else map_option (\<lambda>p. ''127.0.0.1:'' @ fmt_d p) (d_host_port d))"

definition cache_ttl :: "resolver \<Rightarrow> int" where
  "cache_ttl rv = (if rv_ttl rv \<le> 0 then 30 * 1000000000 else rv_ttl rv)"

text \<open>The database half of \<open>ResolveAll\<close>: what a miss of the cache computes.\<close>

definition resolve_db :: "resolver \<Rightarrow> rfaults \<Rightarrow> string \<Rightarrow> state \<Rightarrow> resolve_error + name_entry" where
  "resolve_db rv flt n s =
     (case flt RvDep of Some e \<Rightarrow> Inl (QueryError e) | None \<Rightarrow>
      (case dep_named n s of
         None \<Rightarrow> Inl (NotFound n)
       | Some d \<Rightarrow>
         (let remote = host_remote d s; tailnet = host_tailnet d s in
          if d_status d \<noteq> DRunning then Inl (NotRunning n (d_status d))
          else if remote \<and> (tailnet = None \<or> tailnet = Some []) then Inl (NoTailnet n)
          else case flt RvReplicas of Some e \<Rightarrow> Inl (QueryError e) | None \<Rightarrow>
            (let rs = running_replicas n s;
                 legacy = (if rs \<noteq> [] then Some [] else if any_replica n s then None
                           else map_option (\<lambda>a. [a]) (legacy_address rv flt n remote tailnet s))
             in case legacy of
                  None \<Rightarrow> Inl NoReplicas
                | Some pre \<Rightarrow>
                    (let addrs = pre @ List.map_filter (replica_address rv n (d_ha d) remote tailnet) rs
                     in if addrs = [] then Inl NoReplicas
                        else Inr \<lparr>ne_replicas = addrs, ne_remote = remote\<rparr>)))))"

definition resolve_all :: "rfaults \<Rightarrow> int \<Rightarrow> string \<Rightarrow> state \<Rightarrow> resolver \<Rightarrow> (resolve_error + string list) \<times> resolver" where
  "resolve_all flt now n s rv =
     (case cache_get (rv_names rv) now n of
        Some e \<Rightarrow> (Inr (ne_replicas e), rv)
      | None \<Rightarrow>
          (case resolve_db rv flt n s of
             Inl e \<Rightarrow> (Inl e, rv)
           | Inr e \<Rightarrow> (Inr (ne_replicas e), rv\<lparr>rv_names := cache_put (rv_names rv) (now + cache_ttl rv) n e\<rparr>)))"

definition resolve :: "rfaults \<Rightarrow> int \<Rightarrow> string \<Rightarrow> state \<Rightarrow> resolver \<Rightarrow> (resolve_error + string) \<times> resolver" where
  "resolve flt now n s rv =
     (case resolve_all flt now n s rv of
        (Inl e, rv') \<Rightarrow> (Inl e, rv')
      | (Inr [], rv') \<Rightarrow> (Inl NoReplicas, rv')
      | (Inr (a # _), rv') \<Rightarrow> (Inr a, rv'))"

text \<open>The part of an address before its last colon.\<close>

definition before_last_colon :: "string \<Rightarrow> string" where
  "before_last_colon a = (if CHR '':'' \<in> set a then butlast (rev (dropWhile (\<lambda>c. c \<noteq> CHR '':'') (rev a))) else a)"

definition resolve_all_site :: "rfaults \<Rightarrow> int \<Rightarrow> string \<Rightarrow> state \<Rightarrow> resolver \<Rightarrow> (resolve_error + string list) \<times> resolver" where
  "resolve_all_site flt now n s rv =
     (if \<not> rv_dns rv then (Inl SiteUnsupported, rv)
      else case resolve_all flt now n s rv of
        (Inl e, rv') \<Rightarrow> (Inl e, rv')
      | (Inr cloud, rv') \<Rightarrow>
          (case rv_names rv' n of
             Some e \<Rightarrow> if ne_remote (ca_value e) then (Inl SiteUnsupported, rv')
                       else (Inr (map (\<lambda>a. before_last_colon a @ '':3211'') cloud), rv')
           | None \<Rightarrow> (Inr (map (\<lambda>a. before_last_colon a @ '':3211'') cloud), rv')))"

definition invalidate :: "string \<Rightarrow> resolver \<Rightarrow> resolver" where
  "invalidate n rv = rv\<lparr>rv_names := cache_drop (rv_names rv) n\<rparr>"

section \<open>Custom domains\<close>

definition blank :: "char \<Rightarrow> bool" where
  "blank c \<longleftrightarrow> (let n = (of_char c :: nat) in 9 \<le> n \<and> n \<le> 13 \<or> n = 32)"

definition trim_blank :: "string \<Rightarrow> string" where
  "trim_blank s = rev (dropWhile blank (rev (dropWhile blank s)))"

definition trim_suffix :: "string \<Rightarrow> string \<Rightarrow> string" where
  "trim_suffix s p = (if has_suffix s p then take (length s - length p) s else s)"

definition domain_key :: "string \<Rightarrow> string" where
  "domain_key h = to_lower (trim_suffix (trim_blank h) ''.'')"

text \<open>The domain column is \<open>CITEXT\<close>: compared without case.\<close>

definition active_domain :: "string \<Rightarrow> state \<Rightarrow> (string \<times> domain_role) option" where
  "active_domain h s =
     (case sql_row (\<lambda>r. to_lower (dm_domain r) = h \<and> dm_status r = DomActive
          \<and> sql_exists (\<lambda>d. d_id d = dm_deployment r \<and> d_status d \<noteq> DDeleted) (deps s)) (domains s) of
        None \<Rightarrow> None
      | Some r \<Rightarrow> map_option (\<lambda>d. (d_name d, dm_role r))
          (sql_row (\<lambda>d. d_id d = dm_deployment r \<and> d_status d \<noteq> DDeleted) (deps s)))"

definition resolve_domain ::
  "rfaults \<Rightarrow> int \<Rightarrow> string \<Rightarrow> state \<Rightarrow> resolver \<Rightarrow> (resolve_error + string \<times> domain_role) \<times> resolver" where
  "resolve_domain flt now h0 s rv =
     (let h = domain_key h0 in
      if h = [] then (Inl EmptyHost, rv)
      else case cache_get (rv_domains rv) now h of
        Some v \<Rightarrow> (Inr v, rv)
      | None \<Rightarrow>
          (case flt RvDomain of Some e \<Rightarrow> (Inl (QueryError e), rv) | None \<Rightarrow>
           (case active_domain h s of
              None \<Rightarrow> (Inl (NoDomain h), rv)
            | Some v \<Rightarrow> (Inr v, rv\<lparr>rv_domains := cache_put (rv_domains rv) (now + cache_ttl rv) h v\<rparr>))))"

definition invalidate_domain :: "string \<Rightarrow> resolver \<Rightarrow> resolver" where
  "invalidate_domain h rv = rv\<lparr>rv_domains := cache_drop (rv_domains rv) (domain_key h)\<rparr>"

section \<open>Host matching\<close>

definition trim_dots :: "string \<Rightarrow> string" where
  "trim_dots s = rev (dropWhile (\<lambda>c. c = CHR ''.'') (rev (dropWhile (\<lambda>c. c = CHR ''.'') s)))"

definition match_host_subdomain :: "string \<Rightarrow> string \<Rightarrow> string" where
  "match_host_subdomain host0 base0 =
     (let host = to_lower host0; base = to_lower (trim_dots base0) in
      if base = [] \<or> host = [] then []
      else if \<not> has_suffix host (''.'' @ base) \<or> host = base then []
      else take (length host - length (''.'' @ base)) host)"

definition match_site_subdomain :: "string \<Rightarrow> string \<Rightarrow> string" where
  "match_site_subdomain host base =
     (let sub = match_host_subdomain host base in
      if sub = [] then []
      else if \<not> has_suffix sub ''.site'' then []
      else (let n = take (length sub - length ''.site'') sub
            in if n = [] \<or> CHR ''.'' \<in> set n then [] else n))"

section \<open>Routing\<close>

datatype route =
    PageNotFound
  | NameRequired
  | DashboardMissing
  | SiteNotImplemented
  | NoReplicasLeft
  | DeploymentMissing resolve_error
  | Once string string                 \<comment> \<open>address, upstream path\<close>
  | Failover "string list" string

definition root_path :: "string \<Rightarrow> string" where
  "root_path p = (if p = [] then ''/'' else p)"

text \<open>The path form \<open>/d/{name}/{rest}\<close>.\<close>

definition split_path :: "string \<Rightarrow> (string \<times> string) option" where
  "split_path p =
     (if \<not> has_prefix p ''/d/'' then None
      else (let raw = drop 3 p; n = takeWhile (\<lambda>c. c \<noteq> CHR ''/'') raw; rest = drop (length n) raw
            in Some (n, if rest = [] then ''/'' else rest)))"

definition route_to :: "rfaults \<Rightarrow> int \<Rightarrow> string \<Rightarrow> bool \<Rightarrow> string \<Rightarrow> state \<Rightarrow> resolver \<Rightarrow> route \<times> resolver" where
  "route_to flt now n site rest s rv =
     (case (if site then resolve_all_site flt now n s rv else resolve_all flt now n s rv) of
        (Inl NoReplicas, rv') \<Rightarrow> (NoReplicasLeft, rv')
      | (Inl SiteUnsupported, rv') \<Rightarrow> (if site then SiteNotImplemented else DeploymentMissing SiteUnsupported, rv')
      | (Inl e, rv') \<Rightarrow> (DeploymentMissing e, rv')
      | (Inr [a], rv') \<Rightarrow> (Once a rest, rv')
      | (Inr addrs, rv') \<Rightarrow> (Failover addrs rest, rv'))"

text \<open>What the Host header decides: the name (empty if nothing), whether it is a site host, and the role.\<close>

definition host_route ::
  "rfaults \<Rightarrow> string \<Rightarrow> int \<Rightarrow> string \<Rightarrow> state \<Rightarrow> resolver \<Rightarrow> (string \<times> bool \<times> domain_role option) \<times> resolver" where
  "host_route flt base now host s rv =
     (let site = (if base \<noteq> [] then match_site_subdomain host base else []);
          sub = (if base \<noteq> [] then match_host_subdomain host base else [])
      in if site \<noteq> [] then ((site, True, None), rv)
         else if sub \<noteq> [] then ((sub, False, None), rv)
         else if host = [] then (([], False, None), rv)
         else (case resolve_domain flt now host s rv of
                 (Inr (n, role), rv') \<Rightarrow> ((n, role = RoleSite, Some role), rv')
               | (Inl _, rv') \<Rightarrow> (([], False, None), rv')))"

definition handler :: "rfaults \<Rightarrow> string \<Rightarrow> int \<Rightarrow> string \<Rightarrow> string \<Rightarrow> state \<Rightarrow> resolver \<Rightarrow> route \<times> resolver" where
  "handler flt base now host path s rv =
     (case host_route flt base now (takeWhile (\<lambda>c. c \<noteq> CHR '':'') host) s rv of ((n0, site, role), rv') \<Rightarrow>
        (case (if n0 \<noteq> [] then Some (n0, root_path path) else split_path path) of
           None \<Rightarrow> (PageNotFound, rv')
         | Some (n, rest) \<Rightarrow>
             if n = [] then (NameRequired, rv')
             else if role = Some RoleDashboard then
               (if rv_dashboard rv' = [] then (DashboardMissing, rv') else (Once (rv_dashboard rv') rest, rv'))
             else route_to flt now n site rest s rv'))"

section \<open>Transport\<close>

record response =
  rs_status :: int
  rs_header :: "(string \<times> string) list"
  rs_body :: string

text \<open>What the reverse proxy gets from an address: a response, or an error before any of it.\<close>

datatype attempt = Answer response | NetError string | OtherFailure string

definition str_contains :: "string \<Rightarrow> string \<Rightarrow> bool" where
  "str_contains s sub = list_ex (\<lambda>t. prefix sub t) (suffixes s)"

text \<open>A \<open>net.OpError\<close>, or one of four texts.\<close>

fun is_conn_error :: "attempt \<Rightarrow> bool" where
  "is_conn_error (Answer _) = False"
| "is_conn_error (NetError _) = True"
| "is_conn_error (OtherFailure e) \<longleftrightarrow> str_contains e ''connection refused'' \<or> str_contains e ''connection reset''
     \<or> str_contains e ''no such host'' \<or> str_contains e ''EOF''"

text \<open>
  The JSON 502 of the code; of its body, whose key order the map iteration decides, the code field
  is kept.
\<close>

definition upstream_error :: response where
  "upstream_error = \<lparr>rs_status = 502, rs_header = [(''Content-Type'', ''application/json'')],
     rs_body = ''upstream_error''\<rparr>"

text \<open>
  What reaches the client: \<open>None\<close> when the handler returned without writing, in which case
  net/http sends an empty 200. The second component lists the requests sent upstream.
\<close>

definition to_client :: "response option \<Rightarrow> response" where
  "to_client r = (case r of Some x \<Rightarrow> x | None \<Rightarrow> \<lparr>rs_status = 200, rs_header = [], rs_body = []\<rparr>)"

definition proxy_once :: "(string \<Rightarrow> string option \<Rightarrow> attempt) \<Rightarrow> string \<Rightarrow> string option \<Rightarrow> response option \<times> (string \<times> string option) list" where
  "proxy_once up addr body =
     (case up addr body of
        Answer r \<Rightarrow> (Some r, [(addr, body)])
      | _ \<Rightarrow> (Some upstream_error, [(addr, body)]))"

fun failover_loop :: "(string \<Rightarrow> string option \<Rightarrow> attempt) \<Rightarrow> string list \<Rightarrow> string option \<Rightarrow> response option \<times> (string \<times> string option) list" where
  "failover_loop up [] body = (None, [])"
| "failover_loop up (a # as) body =
     (case up a body of
        Answer r \<Rightarrow> (Some r, [(a, body)])
      | e \<Rightarrow> if is_conn_error e \<and> as \<noteq> [] then
               (case failover_loop up as body of (r, sent) \<Rightarrow> (r, (a, body) # sent))
             else (None, [(a, body)]))"

text \<open>
  The body is the request body read, \<open>Inl\<close> when reading it fails; \<open>None\<close> when there is none. \<open>limit\<close> is
  \<open>maxBodyForRetry\<close>.
\<close>

definition max_body_for_retry :: nat where "max_body_for_retry = 1048576"

definition bad_body :: response where
  "bad_body = \<lparr>rs_status = 400, rs_header = [], rs_body = ''bad request body''\<rparr>"

definition proxy_with_failover ::
  "nat \<Rightarrow> (string \<Rightarrow> string option \<Rightarrow> attempt) \<Rightarrow> string list \<Rightarrow> (unit + string) option
     \<Rightarrow> response option \<times> (string \<times> string option) list" where
  "proxy_with_failover limit up addrs body =
     (case body of
        None \<Rightarrow> failover_loop up addrs None
      | Some (Inl _) \<Rightarrow> (Some bad_body, [])
      | Some (Inr b) \<Rightarrow>
          (let read = take (limit + 1) b
           in if limit < length read then proxy_once up (hd addrs) (Some read)
              else failover_loop up addrs (Some read)))"

section \<open>The dashboard host\<close>

datatype dashboard_route = Redirect string | ToApi | ShellMissing | ToShell string string

definition dashboard_host :: "string \<Rightarrow> string \<Rightarrow> string \<Rightarrow> dashboard_route" where
  "dashboard_host shell name path =
     (if path = [] \<or> path = ''/'' then Redirect (''/embed/'' @ name)
      else if path = ''/health'' \<or> has_prefix path ''/v1/'' \<or> has_prefix path ''/d/'' then ToApi
      else if shell = [] then ShellMissing
      else ToShell shell path)"

section \<open>escapeJSON\<close>

fun escape_char :: "char \<Rightarrow> string" where
  "escape_char c =
     (if c = CHR 0x5C then [CHR 0x5C, CHR 0x5C]
      else if c = CHR 0x22 then [CHR 0x5C, CHR 0x22]
      else if c = CHR 0x0A then [CHR 0x5C, CHR ''n'']
      else if c = CHR 0x0D then [CHR 0x5C, CHR ''r'']
      else if c = CHR 0x09 then [CHR 0x5C, CHR ''t'']
      else [c])"

definition escape_json :: "string \<Rightarrow> string" where
  "escape_json s = concat (map escape_char s)"

section \<open>The HA health probe\<close>

text \<open>The running replicas of running HA deployments, with the address probed.\<close>

definition probe_targets :: "bool \<Rightarrow> state \<Rightarrow> (uuid \<times> string \<times> string) list" where
  "probe_targets dns s = List.map_filter (\<lambda>r.
     case sql_row (\<lambda>d. d_id d = r_deployment r) (deps s) of
       None \<Rightarrow> None
     | Some d \<Rightarrow>
         if d_status d \<noteq> DRunning \<or> \<not> d_ha d \<or> r_status r \<noteq> DRunning \<or> d_admin_key d = []
            \<or> r_port r = None \<and> \<not> dns then None
         else Some (r_id r, d_admin_key d,
           address_for \<lparr>rv_dns = dns, rv_ttl = 0, rv_dashboard = [], rv_names = (\<lambda>_. None), rv_domains = (\<lambda>_. None)\<rparr>
             (d_name d) (r_index r) (d_ha d) (case r_port r of None \<Rightarrow> 0 | Some p \<Rightarrow> p) False None (r_port r \<noteq> None)))
     (reps s)"

definition mark_seen :: "uuid \<Rightarrow> state \<Rightarrow> state" where
  "mark_seen i s = s\<lparr>reps := sql_update (\<lambda>r. r_id r = i) (\<lambda>r. r\<lparr>r_last_seen := Some (clock s)\<rparr>) (reps s)\<rparr>"

text \<open>\<open>probe addr key\<close> is the status code of the check; a failed update ends the sweep.\<close>

fun probe_all :: "(uuid \<Rightarrow> bool) \<Rightarrow> (string \<Rightarrow> string \<Rightarrow> int option) \<Rightarrow> (uuid \<times> string \<times> string) list \<Rightarrow> nat \<Rightarrow> state
    \<Rightarrow> (nat \<times> bool) \<times> state" where
  "probe_all bad probe [] n s = ((n, True), s)"
| "probe_all bad probe ((i, key, addr) # ts) n s =
     (case probe addr key of
        Some code \<Rightarrow>
          if 200 \<le> code \<and> code < 300 then
            (if bad i then ((n, False), s) else probe_all bad probe ts (n + 1) (mark_seen i s))
          else probe_all bad probe ts n s
      | None \<Rightarrow> probe_all bad probe ts n s)"

definition probe_sweep :: "bool \<Rightarrow> (uuid \<Rightarrow> bool) \<Rightarrow> (string \<Rightarrow> string \<Rightarrow> int option) \<Rightarrow> bool \<Rightarrow> state \<Rightarrow> (nat \<times> bool) \<times> state" where
  "probe_sweep list_fails bad probe dns s =
     (if list_fails then ((0, False), s) else probe_all bad probe (probe_targets dns s) 0 s)"

end
