(* ===== verification/Plane.thy ===== *)
theory Plane
  imports Queue "HOL-Library.AList"
begin

text \<open>
  The tables of the cell control plane (migrations 000019 and 000021) beside the provisioner's:
  cells and placements, what Synapse wants on a host, what the host's agent reported, the drift
  reports and the documents of the operation runs. \<open>core\<close> is the state the provisioner works on.
  JSON documents that Go builds as \<open>map[string]any\<close> are values of \<open>json\<close>; documents that are only
  read back field by field are records of those fields.
\<close>

section \<open>JSON documents\<close>

datatype json = JNull | JBool bool | JNum int | JStr string | JMap "(string \<times> json) list"
  | JList "json list"

type_synonym doc = "(string \<times> json) list"

text \<open>\<open>m[k] = v\<close> on a Go map.\<close>

definition doc_set :: "string \<Rightarrow> json \<Rightarrow> doc \<Rightarrow> doc" where
  "doc_set k v m = AList.update k v m"

lemma map_of_doc_set [simp]: "map_of (doc_set k v m) = (map_of m)(k \<mapsto> v)"
  by (simp add: doc_set_def update_conv')

definition opt_str :: "string option \<Rightarrow> json" where
  "opt_str x = (case x of None \<Rightarrow> JNull | Some s \<Rightarrow> JStr s)"

section \<open>Desired and observed states\<close>

record cell =
  ce_id :: uuid
  ce_team :: uuid
  ce_project :: uuid
  ce_name :: string
  ce_slug :: string
  ce_kind :: string
  ce_env :: string
  ce_region :: string
  ce_tier :: string
  ce_status :: string
  ce_primary :: "uuid option"
  ce_host :: "uuid option"
  ce_description :: string
  ce_created :: int
  ce_updated :: int

record placement =
  pl_id :: uuid
  pl_deployment :: uuid
  pl_cell :: uuid
  pl_host :: "uuid option"
  pl_desired :: string
  pl_observed :: string
  pl_container :: "string option"
  pl_port :: "int option"
  pl_url :: "string option"
  pl_seen :: "int option"                \<comment> \<open>last_observed_at\<close>
  pl_created :: int
  pl_updated :: int

record cell_resource =
  cx_id :: uuid
  cx_cell :: uuid
  cx_type :: string
  cx_resource :: string
  cx_role :: string
  cx_created :: int

text \<open>Links between cells and the tokens that authenticate the source of a link (migration 000020).\<close>

datatype link_status = LnActive | LnDisabled

record cell_link =
  ln_id :: uuid
  ln_team :: uuid
  ln_project :: uuid
  ln_source :: uuid
  ln_target :: uuid
  ln_protocol :: string
  ln_auth :: string
  ln_commands :: "string list"
  ln_events :: "string list"
  ln_status :: link_status
  ln_created :: int
  ln_updated :: int

record service_token =
  sv_id :: uuid
  sv_link :: uuid
  sv_source :: uuid
  sv_target :: uuid
  sv_name :: string
  sv_hash :: string
  sv_scopes :: "string list"
  sv_revoked :: bool                     \<comment> \<open>status; nothing writes 'expired'\<close>
  sv_expires :: "int option"
  sv_used :: "int option"
  sv_created :: int
  sv_updated :: int

datatype desired_status = DsActive | DsSuperseded | DsDisabled

record desired_body =
  db_deployment :: uuid
  db_cell :: uuid
  db_host :: uuid
  db_status :: "string option"
  db_labels :: "(string \<times> string) list"

record desired_row =
  ds_id :: uuid
  ds_team :: "uuid option"
  ds_project :: "uuid option"
  ds_cell :: "uuid option"
  ds_host :: uuid
  ds_type :: string
  ds_resource :: "string option"
  ds_key :: string
  ds_body :: desired_body
  ds_hash :: string
  ds_version :: int
  ds_status :: desired_status
  ds_source :: string

text \<open>
  A container and a scan as the agent reports them; \<open>hf_docker\<close> and \<open>hf_scan\<close> are empty in rows
  that an agent from before the field wrote.
\<close>

record obs_container =
  oc_id :: string
  oc_name :: string
  oc_image :: string
  oc_state :: string
  oc_status :: string
  oc_labels :: "(string \<times> string) list"
  oc_ports :: string
  oc_created :: string

record host_facts =
  hf_hostname :: string
  hf_os :: string
  hf_arch :: string
  hf_docker :: "bool option"
  hf_version :: string
  hf_scan :: "(bool \<times> bool \<times> string option) option"  \<comment> \<open>succeeded, complete, error\<close>
  hf_cpu :: "int option"
  hf_memory :: "int option"
  hf_disk :: "int option"

datatype (plugins only: code size) obs_body = OFacts host_facts | OContainer obs_container

record obs_row =
  o_id :: uuid
  o_host :: uuid
  o_agent :: "uuid option"
  o_type :: string
  o_resource :: "string option"
  o_key :: string
  o_body :: obs_body
  o_at :: int

section \<open>Agents\<close>

text \<open>What an agent sends, and the agents of the hosts with the tokens they join with (migration 000017).\<close>

record scan_report =
  sr_attempted :: bool
  sr_succeeded :: bool
  sr_complete :: bool
  sr_error :: string

record observed_payload =
  pay_docker :: bool
  pay_version :: string
  pay_containers :: "obs_container list"
  pay_names :: "string list"            \<comment> \<open>synapseManagedContainers, of old agents\<close>
  pay_scan :: "scan_report option"

datatype agent_status = AgPending | AgOnline | AgOffline | AgRevoked

record host_agent =
  ag_id :: uuid
  ag_host :: uuid
  ag_name :: string
  ag_hash :: string
  ag_status :: agent_status
  ag_seen :: "int option"
  ag_payload :: "observed_payload option"
  ag_created :: int
  ag_updated :: int

record adoption_token =
  at_id :: uuid
  at_host :: "uuid option"
  at_hash :: string
  at_name :: string
  at_expires :: "int option"
  at_used :: "int option"
  at_revoked :: "int option"
  at_creator :: "uuid option"
  at_created :: int

section \<open>Drift reports\<close>

datatype drift_status = DrInSync | DrMissing | DrDrifted | DrUnmanaged | DrOrphaned
  | DrUnreachable | DrIgnored
datatype severity = SevInfo | SevWarning | SevCritical
datatype report_status = RepClean | RepDrifted | RepWarning | RepFailed

record drift_item =
  it_host :: "uuid option"
  it_cell :: "uuid option"
  it_type :: string
  it_key :: string
  it_desired :: "uuid option"
  it_observed :: "uuid option"
  it_status :: drift_status
  it_severity :: severity
  it_diff :: "doc option"
  it_action :: action

record drift_report =
  dr_id :: uuid
  dr_host :: "uuid option"
  dr_project :: "uuid option"
  dr_cell :: "uuid option"
  dr_run :: uuid
  dr_status :: report_status
  dr_summary :: doc
  dr_created :: int

text \<open>
  The columns of \<open>operation_runs\<close> and \<open>operation_steps\<close> that the provisioner does not read.
\<close>

record run_doc =
  rd_run :: uuid
  rd_type :: string
  rd_team :: "uuid option"
  rd_project :: "uuid option"
  rd_cell :: "uuid option"
  rd_host :: "uuid option"
  rd_input :: doc
  rd_by :: "uuid option"
  rd_result :: "doc option"
  rd_plan :: "doc option"
  rd_error :: "string option"

record plane =
  core :: state
  agents :: "host_agent list"
  adoptions :: "adoption_token list"
  cells :: "cell list"
  placements :: "placement list"
  cell_resources :: "cell_resource list"
  cell_links :: "cell_link list"
  service_tokens :: "service_token list"
  desired :: "desired_row list"
  observed :: "obs_row list"
  reports :: "drift_report list"
  items :: "(uuid \<times> drift_item) list"
  run_docs :: "run_doc list"
  step_inputs :: "(uuid \<times> doc) list"
  next_uuid :: nat

definition res_deployment :: string where "res_deployment = ''convex_deployment''"
definition res_facts :: string where "res_facts = ''host_facts''"
definition res_container :: string where "res_container = ''docker_container''"

lemmas res_defs = res_deployment_def res_facts_def res_container_def

lemma res_distinct [simp]: "res_facts \<noteq> res_container" "res_container \<noteq> res_facts"
  "res_deployment \<noteq> res_container" "res_container \<noteq> res_deployment"
  by (simp_all add: res_defs)

text \<open>\<open>gen_random_uuid()\<close>: the ids are an argument, drawn in order.\<close>

type_synonym uuids = "nat \<Rightarrow> uuid"

definition fresh_id :: "uuids \<Rightarrow> plane \<Rightarrow> uuid" where
  "fresh_id gen p = gen (next_uuid p)"

definition drawn :: "plane \<Rightarrow> plane" where
  "drawn p = p\<lparr>next_uuid := Suc (next_uuid p)\<rparr>"

section \<open>Statements that can fail\<close>

datatype (plugins only: code size) psite =
    PAgentRow | PHostRow | PBeat | PFacts | PContainer nat | PPrune
  | PSyncBegin | PSyncWants | PSyncLoad nat | PSyncRetire nat | PSyncInsert nat
  | PSyncOrphans | PSyncOrphan nat | PSyncCommit
  | PCleanDesired | PCleanPlacement | PCleanResource | PCleanPrimary
  | PRunStart | PRunFinish | PLoadDesired | PLoadObserved | PLoadHosts | PLoadFacts | PLoadExists
  | PLoadLegacy | PReportBegin | PReportRow | PReportItem nat | PReportCommit
  | PStepBegin | PStepRow nat | PStepCommit
  | PGate | PApplyBegin | PApplyRun | PAdopted nat | PBusy nat | PApplyStep nat | PApplyJob nat
  | PApplySkip nat | PApplyClose | PApplyCommit

type_synonym pfaults = "psite \<Rightarrow> string option"

definition no_pfaults :: pfaults where "no_pfaults = (\<lambda>_. None)"

lemma no_pfaults_at [simp]: "no_pfaults x = None"
  by (simp add: no_pfaults_def)

section \<open>Operation runs (api/operations.go)\<close>

record op_input =
  oi_type :: string
  oi_team :: "uuid option"
  oi_project :: "uuid option"
  oi_cell :: "uuid option"
  oi_host :: "uuid option"
  oi_by :: "uuid option"
  oi_input :: doc

definition insert_run :: "uuids \<Rightarrow> op_input \<Rightarrow> plane \<Rightarrow> uuid \<times> plane" where
  "insert_run gen i p =
     (let r = fresh_id gen p; c = core p;
          row = \<lparr>run_id = r, run_status = RRunning, run_updated = clock c, run_finished = None,
                 run_counts = None\<rparr>;
          d = \<lparr>rd_run = r, rd_type = oi_type i, rd_team = oi_team i, rd_project = oi_project i,
               rd_cell = oi_cell i, rd_host = oi_host i, rd_input = oi_input i, rd_by = oi_by i,
               rd_result = None, rd_plan = None, rd_error = None\<rparr>
      in (r, (drawn p)\<lparr>core := c\<lparr>runs := runs c @ [row]\<rparr>, run_docs := run_docs p @ [d]\<rparr>))"

definition start_operation_run :: "pfaults \<Rightarrow> uuids \<Rightarrow> op_input \<Rightarrow> plane \<Rightarrow> (string + uuid) \<times> plane" where
  "start_operation_run flt gen i p =
     (case flt PRunStart of
        Some e \<Rightarrow> (Inl e, p)
      | None \<Rightarrow> (case insert_run gen i p of (r, p1) \<Rightarrow> (Inr r, p1)))"

definition end_run :: "int \<Rightarrow> run_status \<Rightarrow> run_row \<Rightarrow> run_row" where
  "end_run now st r = r\<lparr>run_status := st, run_counts := None, run_finished := Some now, run_updated := now\<rparr>"

definition end_doc :: "doc option \<Rightarrow> doc option \<Rightarrow> string \<Rightarrow> run_doc \<Rightarrow> run_doc" where
  "end_doc result plan err d = d\<lparr>rd_result := result, rd_plan := plan,
     rd_error := (if err = [] then None else Some err)\<rparr>"

definition finish_operation_run ::
  "pfaults \<Rightarrow> uuid \<Rightarrow> run_status \<Rightarrow> doc option \<Rightarrow> doc option \<Rightarrow> string \<Rightarrow> plane \<Rightarrow> plane" where
  "finish_operation_run flt r st result plan err p =
     (if flt PRunFinish \<noteq> None then p
      else (let c = core p in
        p\<lparr>core := c\<lparr>runs := sql_update (\<lambda>x. run_id x = r) (end_run (clock c) st) (runs c)\<rparr>,
          run_docs := sql_update (\<lambda>d. rd_run d = r) (end_doc result plan err) (run_docs p)\<rparr>))"

end
