(* ===== verification/Observed.thy ===== *)
theory Observed
  imports Plane
begin

text \<open>
  What a host's agent reports (api/observed_state.go) and the heartbeat that carries it
  (api/agents.go). The heartbeat commits the liveness of the host first; the observed rows follow
  statement by statement, outside any transaction, and their failure is only logged.
\<close>

section \<open>The payload\<close>

text \<open>
  \<open>hb_sent\<close> says whether there is a payload, \<open>hb_observed\<close> is the payload after \<open>json.Unmarshal\<close>; a field that
  is missing has its zero value.
\<close>

record heartbeat_req =
  hb_hostname :: string
  hb_os :: string
  hb_arch :: string
  hb_agent_version :: string
  hb_docker_version :: string
  hb_cpu :: "int option"
  hb_memory :: "int option"
  hb_disk :: "int option"
  hb_sent :: bool
  hb_observed :: observed_payload

definition resolve_container_scan :: "observed_payload \<Rightarrow> bool \<times> bool \<times> string" where
  "resolve_container_scan p =
     (case pay_scan p of
        Some s \<Rightarrow> (sr_succeeded s, sr_complete s, sr_error s)
      | None \<Rightarrow> if pay_docker p then (True, True, []) else (False, False, ''docker_unavailable''))"

definition null_str :: "string \<Rightarrow> string option" where
  "null_str s = (if s = [] then None else Some s)"

definition facts_of :: "heartbeat_req \<Rightarrow> host_facts" where
  "facts_of req =
     (let p = hb_observed req in
      case resolve_container_scan p of (ok, full, err) \<Rightarrow>
        \<lparr>hf_hostname = hb_hostname req, hf_os = hb_os req, hf_arch = hb_arch req,
         hf_docker = Some (pay_docker p), hf_version = pay_version p,
         hf_scan = Some (ok, full, null_str err),
         hf_cpu = hb_cpu req, hf_memory = hb_memory req, hf_disk = hb_disk req\<rparr>)"

definition safe_synapse_labels :: "(string \<times> string) list \<Rightarrow> (string \<times> string) list" where
  "safe_synapse_labels ls = filter (\<lambda>(k, v). has_prefix k ''synapse.'') ls"

text \<open>\<open>labels[k]\<close>: the zero value when the key is absent.\<close>

definition label_at :: "string \<Rightarrow> (string \<times> string) list \<Rightarrow> string" where
  "label_at k ls = (case map_of ls k of None \<Rightarrow> [] | Some v \<Rightarrow> v)"

definition stored_container :: "obs_container \<Rightarrow> obs_container" where
  "stored_container c = c\<lparr>oc_labels := safe_synapse_labels (oc_labels c)\<rparr>"

definition container_dep :: "obs_container \<Rightarrow> string" where
  "container_dep c = label_at ''synapse.deployment_id'' (safe_synapse_labels (oc_labels c))"

definition container_key :: "obs_container \<Rightarrow> string" where
  "container_key c = res_container @ '':'' @
     (if container_dep c \<noteq> [] then container_dep c else oc_name c)"

section \<open>Writing the observed states\<close>

definition obs_key :: "obs_row \<Rightarrow> uuid \<times> string \<times> string" where
  "obs_key r = (o_host r, o_type r, o_key r)"

definition obs_assign :: "uuid option \<Rightarrow> string option \<Rightarrow> obs_body \<Rightarrow> int \<Rightarrow> obs_row \<Rightarrow> obs_row" where
  "obs_assign a res body now r = r\<lparr>o_agent := a, o_resource := res, o_body := body, o_at := now\<rparr>"

definition upsert_observed ::
  "uuids \<Rightarrow> uuid \<Rightarrow> uuid option \<Rightarrow> string \<Rightarrow> string option \<Rightarrow> string \<Rightarrow> obs_body \<Rightarrow> plane \<Rightarrow> plane" where
  "upsert_observed gen h a t res k body p =
     (let now = clock (core p) in
      if sql_exists (\<lambda>r. obs_key r = (h, t, k)) (observed p)
      then p\<lparr>observed := sql_update (\<lambda>r. obs_key r = (h, t, k)) (obs_assign a res body now) (observed p)\<rparr>
      else (drawn p)\<lparr>observed := observed p @
        [\<lparr>o_id = fresh_id gen p, o_host = h, o_agent = a, o_type = t, o_resource = res, o_key = k,
          o_body = body, o_at = now\<rparr>]\<rparr>)"

definition record_facts :: "uuids \<Rightarrow> uuid \<Rightarrow> uuid option \<Rightarrow> heartbeat_req \<Rightarrow> plane \<Rightarrow> plane" where
  "record_facts gen h a req =
     upsert_observed gen h a res_facts None (''host:'' @ h) (OFacts (facts_of req))"

definition record_container :: "uuids \<Rightarrow> uuid \<Rightarrow> uuid option \<Rightarrow> obs_container \<Rightarrow> plane \<Rightarrow> plane" where
  "record_container gen h a c =
     upsert_observed gen h a res_container (null_str (container_dep c)) (container_key c)
       (OContainer (stored_container c))"

fun record_containers ::
  "pfaults \<Rightarrow> uuids \<Rightarrow> uuid \<Rightarrow> uuid option \<Rightarrow> nat \<Rightarrow> obs_container list \<Rightarrow> plane \<Rightarrow> string option \<times> plane" where
  "record_containers flt gen h a n [] p = (None, p)"
| "record_containers flt gen h a n (c # cs) p =
     (case flt (PContainer n) of
        Some e \<Rightarrow> (Some e, p)
      | None \<Rightarrow> record_containers flt gen h a (Suc n) cs (record_container gen h a c p))"

definition prune_observed_containers :: "uuid \<Rightarrow> string list \<Rightarrow> plane \<Rightarrow> plane" where
  "prune_observed_containers h keep p = p\<lparr>observed :=
     filter (\<lambda>r. \<not> (o_host r = h \<and> o_type r = res_container \<and> o_key r \<notin> set keep)) (observed p)\<rparr>"

definition record_observed_states ::
  "pfaults \<Rightarrow> uuids \<Rightarrow> uuid \<Rightarrow> uuid option \<Rightarrow> heartbeat_req \<Rightarrow> plane \<Rightarrow> string option \<times> plane" where
  "record_observed_states flt gen h a req p =
     (case resolve_container_scan (hb_observed req) of (ok, full, err) \<Rightarrow>
      case flt PFacts of
        Some e \<Rightarrow> (Some e, p)
      | None \<Rightarrow>
          (let cs = pay_containers (hb_observed req) in
           case record_containers flt gen h a 0 cs (record_facts gen h a req p) of
             (Some e, p1) \<Rightarrow> (Some e, p1)
           | (None, p1) \<Rightarrow>
               if ok \<and> full then
                 (case flt PPrune of
                    Some e \<Rightarrow> (Some e, p1)
                  | None \<Rightarrow> (None, prune_observed_containers h (map container_key cs) p1))
               else (None, p1)))"

section \<open>The heartbeat\<close>

text \<open>A fact that was not reported keeps its value.\<close>

definition reported_or :: "'a option \<Rightarrow> 'a option \<Rightarrow> 'a option" where
  "reported_or new old = (case new of None \<Rightarrow> old | Some _ \<Rightarrow> new)"

definition beat_host ::
  "int \<Rightarrow> string \<Rightarrow> string \<Rightarrow> int option \<Rightarrow> int option \<Rightarrow> int option \<Rightarrow> host \<Rightarrow> host" where
  "beat_host now agent dock cpu mem disk x = x\<lparr>h_status := HOnline,
     h_agent_version := reported_or (null_str agent) (h_agent_version x),
     h_docker_version := reported_or (null_str dock) (h_docker_version x),
     h_cpu := reported_or cpu (h_cpu x), h_memory_mb := reported_or mem (h_memory_mb x),
     h_disk := reported_or disk (h_disk x), h_heartbeat := Some now, h_updated := now\<rparr>"

definition apply_host_facts ::
  "uuid \<Rightarrow> string \<Rightarrow> string \<Rightarrow> int option \<Rightarrow> int option \<Rightarrow> int option \<Rightarrow> state \<Rightarrow> state" where
  "apply_host_facts h agent dock cpu mem disk s =
     s\<lparr>hosts := sql_update (\<lambda>x. h_id x = h) (beat_host (clock s) agent dock cpu mem disk) (hosts s)\<rparr>"

definition beat_agent :: "int \<Rightarrow> heartbeat_req \<Rightarrow> host_agent \<Rightarrow> host_agent" where
  "beat_agent now req x = x\<lparr>ag_seen := Some now, ag_status := AgOnline,
     ag_payload := (if hb_sent req then Some (hb_observed req) else None), ag_updated := now\<rparr>"

text \<open>The result is whether the agent is answered with 200.\<close>

definition heartbeat ::
  "pfaults \<Rightarrow> uuids \<Rightarrow> bool \<Rightarrow> uuid \<Rightarrow> uuid \<Rightarrow> heartbeat_req \<Rightarrow> plane \<Rightarrow> bool \<times> plane" where
  "heartbeat flt gen enabled h a req p =
     (if flt PAgentRow \<noteq> None \<or> flt PHostRow \<noteq> None \<or> flt PBeat \<noteq> None then (False, p)
      else (let p1 = p\<lparr>core := apply_host_facts h (hb_agent_version req) (hb_docker_version req) (hb_cpu req)
                       (hb_memory req) (hb_disk req) (core p),
                     agents := sql_update (\<lambda>x. ag_id x = a) (beat_agent (clock (core p)) req) (agents p)\<rparr> in
        (True, if enabled then snd (record_observed_states flt gen h (Some a) req p1) else p1)))"

section \<open>Reading back what was written\<close>

definition obs_at :: "uuid \<Rightarrow> string \<Rightarrow> string \<Rightarrow> plane \<Rightarrow> obs_body option" where
  "obs_at h t k p = map_option o_body (sql_row (\<lambda>r. obs_key r = (h, t, k)) (observed p))"

text \<open>The last container of a report with a given key.\<close>

definition reported :: "obs_container list \<Rightarrow> string \<Rightarrow> obs_body option" where
  "reported cs k = map_of (rev (map (\<lambda>c. (container_key c, OContainer (stored_container c))) cs)) k"

interpretation obs_upd: keyed_update obs_key "obs_assign a res body now" for a res body now
  by unfold_locales (simp add: obs_key_def obs_assign_def)

lemma obs_at_upsert [simp]:
  "obs_at h t k (upsert_observed gen h' a t' res k' body p)
     = (if (h, t, k) = (h', t', k') then Some body else obs_at h t k p)"
proof (cases "sql_row (\<lambda>r. obs_key r = (h', t', k')) (observed p)")
  case None
  then show ?thesis
    by (auto simp: obs_at_def upsert_observed_def sql_row_exists drawn_def sql_row_append obs_key_def
        split: option.splits)
next
  case (Some r)
  have "obs_key r = (h', t', k')" using sql_row_SomeD [OF Some] by simp
  then show ?thesis using Some
    by (auto simp: obs_at_def upsert_observed_def sql_row_exists obs_upd.row_by_key option.map_comp
        obs_assign_def dest!: sql_row_SomeD intro!: option.map_cong)
qed

lemma obs_at_prune [simp]:
  "obs_at h t k (prune_observed_containers h' keep p)
     = (if h = h' \<and> t = res_container \<and> k \<notin> set keep then None else obs_at h t k p)"
proof (cases "h = h' \<and> t = res_container \<and> k \<notin> set keep")
  case True
  then have "sql_row (\<lambda>r. obs_key r = (h, t, k)) (observed (prune_observed_containers h' keep p)) = None"
    by (auto simp: prune_observed_containers_def obs_key_def intro: sql_row_filter_drop)
  with True show ?thesis by (simp add: obs_at_def)
next
  case False
  then have "sql_row (\<lambda>r. obs_key r = (h, t, k)) (observed (prune_observed_containers h' keep p))
      = sql_row (\<lambda>r. obs_key r = (h, t, k)) (observed p)"
    unfolding prune_observed_containers_def by (auto simp: obs_key_def intro!: sql_row_filter_keep)
  with False show ?thesis by (auto simp: obs_at_def)
qed

lemma reported_Nil [simp]: "reported [] k = None"
  by (simp add: reported_def)

lemma reported_Cons: "reported (c # cs) k = (case reported cs k of Some b \<Rightarrow> Some b
     | None \<Rightarrow> if container_key c = k then Some (OContainer (stored_container c)) else None)"
  by (simp add: reported_def map_add_def split: option.splits)

lemma reported_None: "reported cs k = None \<longleftrightarrow> k \<notin> container_key ` set cs"
  by (induction cs) (auto simp: reported_Cons split: option.splits)

lemma obs_at_containers:
  "record_containers flt gen h a n cs p = (None, p') \<Longrightarrow>
   obs_at h' t k p' = (if h' = h \<and> t = res_container
     then (case reported cs k of Some b \<Rightarrow> Some b | None \<Rightarrow> obs_at h' t k p) else obs_at h' t k p)"
  by (induction cs arbitrary: n p)
    (auto simp: reported_Cons record_container_def split: option.splits if_splits)

lemma obs_at_facts [simp]:
  "obs_at h' t k (record_facts gen h a req p)
     = (if (h', t, k) = (h, res_facts, ''host:'' @ h) then Some (OFacts (facts_of req)) else obs_at h' t k p)"
  by (simp add: record_facts_def)

section \<open>What a report leaves\<close>

definition scan_trusted :: "observed_payload \<Rightarrow> bool" where
  "scan_trusted p = (case resolve_container_scan p of (ok, full, err) \<Rightarrow> ok \<and> full)"

lemma record_observed_at:
  assumes "record_observed_states flt gen h a req p = (None, p')"
  shows "obs_at h' t k p' =
     (if h' \<noteq> h then obs_at h' t k p
      else if t = res_container then
        (case reported (pay_containers (hb_observed req)) k of
           Some b \<Rightarrow> Some b
         | None \<Rightarrow> if scan_trusted (hb_observed req) then None else obs_at h t k p)
      else if (t, k) = (res_facts, ''host:'' @ h) then Some (OFacts (facts_of req))
      else obs_at h t k p)"
proof -
  obtain ok full err where scan: "resolve_container_scan (hb_observed req) = (ok, full, err)" by (rule prod_cases3)
  let ?cs = "pay_containers (hb_observed req)"
  obtain q where q: "record_containers flt gen h a 0 ?cs (record_facts gen h a req p) = (None, q)"
    and p': "p' = (if ok \<and> full then prune_observed_containers h (map container_key ?cs) q else q)"
    using assms scan unfolding record_observed_states_def
    by (auto simp: Let_def split: option.splits prod.splits if_splits)
  have tr: "scan_trusted (hb_observed req) \<longleftrightarrow> ok \<and> full" by (simp add: scan_trusted_def scan)
  have none: "k \<notin> set (map container_key ?cs) \<longleftrightarrow> reported ?cs k = None"
    by (simp add: reported_None)
  show ?thesis
    unfolding p' tr using obs_at_containers [OF q, of h' t k] none
    by (auto split: option.splits)
qed

definition demo_container :: "string \<Rightarrow> string \<Rightarrow> string \<Rightarrow> obs_container" where
  "demo_container name dep st = \<lparr>oc_id = name, oc_name = name, oc_image = ''convex'', oc_state = st,
     oc_status = ''Up'', oc_labels = [(''synapse.managed'', ''true''), (''synapse.deployment_id'', dep),
       (''token'', ''x'')], oc_ports = [], oc_created = []\<rparr>"

definition demo_beat :: "obs_container list \<Rightarrow> bool \<Rightarrow> heartbeat_req" where
  "demo_beat cs ok = \<lparr>hb_hostname = ''n1'', hb_os = ''linux'', hb_arch = ''amd64'', hb_agent_version = ''1'', hb_docker_version = ''27'', hb_cpu = None,
     hb_memory = None, hb_disk = None, hb_sent = True, hb_observed = \<lparr>pay_docker = True, pay_version = ''27'',
       pay_containers = cs, pay_names = [], pay_scan = Some \<lparr>sr_attempted = True, sr_succeeded = ok, sr_complete = ok,
         sr_error = []\<rparr>\<rparr>\<rparr>"

definition bare_plane :: "state \<Rightarrow> plane" where
  "bare_plane s = \<lparr>core = s, agents = [], adoptions = [], cells = [], placements = [], cell_resources = [], cell_links = [],
     service_tokens = [], desired = [], observed = [],
     reports = [], items = [], run_docs = [], step_inputs = [], next_uuid = 0\<rparr>"

definition demo_seen :: plane where
  "demo_seen = snd (record_observed_states no_pfaults dec ''h1'' None
     (demo_beat [demo_container ''a'' ''d1'' ''running'', demo_container ''b'' ''d2'' ''exited''] True)
     (bare_plane empty_state))"

definition demo_seen2 :: plane where
  "demo_seen2 = snd (record_observed_states no_pfaults dec ''h1'' None
     (demo_beat [demo_container ''a'' ''d1'' ''exited''] True) demo_seen)"

lemma demo_seen2_run: "record_observed_states no_pfaults dec ''h1'' None
     (demo_beat [demo_container ''a'' ''d1'' ''exited''] True) demo_seen = (None, demo_seen2)"
  unfolding demo_seen2_def by code_simp

text \<open>
  C9: a recorded report with a successful and complete scan makes the container rows of the host
  exactly the reported containers (the last one, where two share a key), with only \<open>synapse.\<close> labels;
  after any other scan the rows that were not reported stay as they were. Other hosts are untouched.
\<close>

theorem report_mirrors_host:
  assumes "record_observed_states flt gen h a req p = (None, p')"
  shows "obs_at h res_container k p' = (case reported (pay_containers (hb_observed req)) k of
       Some b \<Rightarrow> Some b
     | None \<Rightarrow> if scan_trusted (hb_observed req) then None else obs_at h res_container k p)
   \<and> (h' \<noteq> h \<longrightarrow> obs_at h' t k' p' = obs_at h' t k' p)
   \<and> obs_at h res_facts (''host:'' @ h) p' = Some (OFacts (facts_of req))"
  by (simp add: record_observed_at [OF assms])

theorem report_mirrors_host_witness:
  "obs_at ''h1'' res_container ''docker_container:d2'' demo_seen2 = None
   \<and> obs_at ''h1'' res_container ''docker_container:d2'' demo_seen \<noteq> None"
proof -
  have "reported (pay_containers (hb_observed (demo_beat [demo_container ''a'' ''d1'' ''exited''] True)))
      ''docker_container:d2'' = None" by code_simp
  moreover have "scan_trusted (hb_observed (demo_beat [demo_container ''a'' ''d1'' ''exited''] True))" by code_simp
  ultimately have "obs_at ''h1'' res_container ''docker_container:d2'' demo_seen2 = None"
    using report_mirrors_host [OF demo_seen2_run, of "''docker_container:d2''"] by simp
  moreover have "obs_at ''h1'' res_container ''docker_container:d2'' demo_seen \<noteq> None" by code_simp
  ultimately show ?thesis ..
qed

lemma stored_labels: "k \<in> fst ` set (oc_labels (stored_container c)) \<Longrightarrow> has_prefix k ''synapse.''"
  by (auto simp: stored_container_def safe_synapse_labels_def)

lemma core_upsert [simp]: "core (upsert_observed gen h a t res k body p) = core p"
  by (simp add: upsert_observed_def drawn_def Let_def)

lemma core_containers [simp]: "core (snd (record_containers flt gen h a n cs p)) = core p"
  by (induction cs arbitrary: n p) (auto simp: record_container_def split: option.splits)

lemma core_record [simp]: "core (snd (record_observed_states flt gen h a req p)) = core p"
proof -
  have "core q = core p" if "record_containers flt gen h a 0 cs (record_facts gen h a req p) = (r, q)" for cs r q
    using arg_cong [OF that, of "\<lambda>x. core (snd x)"] by (simp add: record_facts_def)
  then show ?thesis unfolding record_observed_states_def
    by (auto simp: Let_def prune_observed_containers_def split: prod.splits option.splits)
qed

text \<open>
  An accepted heartbeat marks the host online whatever the operator had set: a host that was
  being drained is no longer draining.
\<close>

theorem heartbeat_ends_draining:
  assumes "heartbeat flt gen enabled h a req p = (True, p')" "find_host h (core p) = Some x"
  shows "\<exists>y. find_host h (core p') = Some y \<and> h_status y = HOnline \<and> h_heartbeat y = Some (clock (core p))"
proof -
  have row: "sql_row (\<lambda>x. h_id x = h) (sql_update (\<lambda>x. h_id x = h) (beat_host n v w i j k) t)
      = map_option (beat_host n v w i j k) (sql_row (\<lambda>x. h_id x = h) t)" for n t v w i j k
    by (induction t) (auto simp: beat_host_def)
  have "core p' = apply_host_facts h (hb_agent_version req) (hb_docker_version req) (hb_cpu req) (hb_memory req) (hb_disk req) (core p)"
    using assms(1) unfolding heartbeat_def by (auto simp: Let_def split: if_splits)
  then show ?thesis using assms(2)
    by (simp add: find_host_def apply_host_facts_def row) (simp add: beat_host_def)
qed

definition draining_plane :: plane where
  "draining_plane = bare_plane (empty_state\<lparr>hosts := [\<lparr>h_id = ''h1'', h_name = ''n1'', h_provider = ''unknown'', h_region = [], h_public_ip = None,
     h_private_ip = None, h_labels = [], h_status = HDraining, h_agent_version = None, h_docker_version = None, h_cpu = None,
     h_memory_mb = None, h_disk = None, h_self = False, h_is_remote = True, h_tailnet = None, h_ssh_user = ''root'',
     h_ssh_port = 22, h_ssh_pubkey = None, h_ssh_key = None, h_fingerprint = None, h_heartbeat = None, h_created = 0,
     h_updated = 0\<rparr>],
     clock := 5\<rparr>)"

theorem heartbeat_ends_draining_witness:
  "map_option h_status (find_host ''h1'' (core draining_plane)) = Some HDraining
   \<and> map_option h_status (find_host ''h1'' (core (snd (heartbeat no_pfaults dec False ''h1'' ''a1''
        (demo_beat [] True) draining_plane)))) = Some HOnline"
proof -
  obtain x where x: "find_host ''h1'' (core draining_plane) = Some x" "h_status x = HDraining"
    by (simp add: draining_plane_def bare_plane_def find_host_def)
  have "heartbeat no_pfaults dec False ''h1'' ''a1'' (demo_beat [] True) draining_plane
     = (True, snd (heartbeat no_pfaults dec False ''h1'' ''a1'' (demo_beat [] True) draining_plane))"
    by (simp add: heartbeat_def)
  from heartbeat_ends_draining [OF this x(1)] x show ?thesis by auto
qed

end
