(* ===== verification/Provision.thy ===== *)
theory Provision
  imports Worker "HOL-Library.AList"
begin

text \<open>
  The provision job (\<open>runJob\<close> of worker.go): the pre-check against a row that no longer needs the
  work, the Docker call, the transaction that flips replica and deployment to running, the
  clean-up when a delete won the race, and the push of the project's variables into the function
  environment. The state returned by the Docker call is the one other processes left, so a delete
  that arrives while the container is being built is an instance of the model.
\<close>

section \<open>CLI-managed variable names (package convexenv)\<close>

definition space_char :: "char \<Rightarrow> bool" where
  "space_char c \<longleftrightarrow> (let n = (of_char c :: nat) in 9 \<le> n \<and> n \<le> 13 \<or> n = 32)"

definition trim_space :: "string \<Rightarrow> string" where
  "trim_space s = rev (dropWhile space_char (rev (dropWhile space_char s)))"

definition managed_names :: "string list" where
  "managed_names = [''CONVEX_DEPLOY_KEY'', ''CONVEX_DEPLOYMENT_TOKEN'', ''CONVEX_DEPLOYMENT'',
     ''CONVEX_SELF_HOSTED_URL'', ''CONVEX_SELF_HOSTED_ADMIN_KEY'', ''NEXT_PUBLIC_CONVEX_URL'',
     ''NEXT_PUBLIC_CONVEX_SITE_URL'']"

definition is_managed_name :: "string \<Rightarrow> bool" where
  "is_managed_name n \<longleftrightarrow> trim_space n \<in> set managed_names"

fun filter_managed :: "(string \<times> 'v) list \<Rightarrow> (string \<times> 'v) list \<times> string list" where
  "filter_managed [] = ([], [])"
| "filter_managed (c # cs) =
     (case filter_managed cs of (keep, dropped) \<Rightarrow>
        if is_managed_name (fst c) then (keep, fst c # dropped) else (c # keep, dropped))"

section \<open>pushFunctionEnvForJob\<close>

definition load_project_env_vars :: "uuid \<Rightarrow> string \<Rightarrow> state \<Rightarrow> (string \<times> string) list" where
  "load_project_env_vars proj typ s =
     foldl (\<lambda>m e. AList.update (e_name e) (e_value e) m) []
       (filter (\<lambda>e. e_project e = proj \<and> e_type e = typ) (env_vars s))"

text \<open>The result is whether the call panicked; an error is logged by the caller and dropped.\<close>

definition push_function_env ::
  "worker \<Rightarrow> faults \<Rightarrow> (string \<Rightarrow> string \<Rightarrow> (string \<times> string) list \<Rightarrow> unit ext) \<Rightarrow> claimed_job \<Rightarrow> state
     \<Rightarrow> bool \<times> state" where
  "push_function_env w flt upd j s =
     (if flt QEnvDeployment \<noteq> None then (False, s)
      else case find_dep (cj_deployment j) s of
        None \<Rightarrow> (False, s)
      | Some d \<Rightarrow>
          if d_admin_key d = [] then (False, s)
          else if flt QEnvVars \<noteq> None then (False, s)
          else
            (let vars = load_project_env_vars (cj_project j) (cj_type j) s;
                 changes = fst (filter_managed vars);
                 url = compute_public_origin (wk_config w) flt (cj_deployment j) (d_name d) (cj_port j) s
             in if vars = [] then (False, s)
                else if changes = [] then (False, s)
                else if url = [] then (False, s)
                else (case call_out (CEnvPush url changes) (upd url (d_admin_key d) changes) s of
                        (Panic, s') \<Rightarrow> (True, s')
                      | (_, s') \<Rightarrow> (False, s'))))"

section \<open>markProvisionRunning\<close>

definition run_replica :: "string \<Rightarrow> replica \<Rightarrow> replica" where
  "run_replica c r = r\<lparr>r_status := DRunning, r_container := Some c\<rparr>"

definition run_dep :: "int \<Rightarrow> info \<Rightarrow> deployment \<Rightarrow> deployment" where
  "run_dep now i d = d\<lparr>d_status := DRunning, d_container := coalesce (d_container d) (in_container i),
     d_url := coalesce (d_url d) (in_url i), d_last_deploy := Some now\<rparr>"

text \<open>
  One transaction: whenever it does not commit (an error, or the row was not provisioning and is
  not running either) the state is the one before, the replica update included.
\<close>

definition mark_provision_running ::
  "faults \<Rightarrow> claimed_job \<Rightarrow> info \<Rightarrow> state \<Rightarrow> (string + bool \<times> bool) \<times> state" where
  "mark_provision_running flt j i s =
     (case flt QRunBegin of Some e \<Rightarrow> (Inl e, s) | None \<Rightarrow>
      (case (if cj_replica j \<noteq> [] then flt QRunReplica else None) of Some e \<Rightarrow> (Inl e, s) | None \<Rightarrow>
       (let s1 = (if cj_replica j = [] then s
                  else s\<lparr>reps := sql_update (\<lambda>r. r_id r = cj_replica j \<and> r_status r = DProvisioning)
                                   (run_replica (in_container i)) (reps s)\<rparr>);
            hit = (\<lambda>d. d_id d = cj_deployment j \<and> d_status d = DProvisioning);
            s2 = s1\<lparr>deps := sql_update hit (run_dep (clock s) i) (deps s1)\<rparr>
        in case flt QRunDep of Some e \<Rightarrow> (Inl e, s) | None \<Rightarrow>
           if 0 < sql_count hit (deps s1) then
             (case flt QRunCommit of Some e \<Rightarrow> (Inl e, s) | None \<Rightarrow> (Inr (True, False), s2))
           else
             (case flt QRunStatus of Some e \<Rightarrow> (Inl e, s) | None \<Rightarrow>
              (case find_dep (cj_deployment j) s1 of
                 None \<Rightarrow> (Inr (False, False), s)
               | Some d \<Rightarrow>
                   if d_status d \<noteq> DRunning then (Inr (False, False), s)
                   else if cj_replica j = [] then
                     (case flt QRunCommit of Some e \<Rightarrow> (Inl e, s) | None \<Rightarrow> (Inr (True, True), s1))
                   else
                     (case flt QRunReplicaStatus of Some e \<Rightarrow> (Inl e, s) | None \<Rightarrow>
                      (case find_rep (cj_replica j) s1 of
                         None \<Rightarrow> (Inr (False, False), s)
                       | Some r \<Rightarrow>
                           if r_status r \<noteq> DRunning then (Inr (False, False), s)
                           else (case flt QRunCommit of Some e \<Rightarrow> (Inl e, s)
                                 | None \<Rightarrow> (Inr (True, True), s1)))))))))"

section \<open>runJob\<close>

text \<open>True: the row still waits for this job (or its status cannot be read).\<close>

definition still_wanted :: "faults \<Rightarrow> claimed_job \<Rightarrow> state \<Rightarrow> bool" where
  "still_wanted flt j s =
     (if flt QPrecheck \<noteq> None then True
      else case (if cj_replica j \<noteq> [] then map_option r_status (find_rep (cj_replica j) s)
                 else map_option d_status (find_dep (cj_deployment j) s)) of
        None \<Rightarrow> False
      | Some st \<Rightarrow> st = DProvisioning)"

definition provision_call :: "spec \<Rightarrow> call" where
  "provision_call sp = CProvision (sp_name sp) (sp_index sp) (container_name (sp_name sp) (sp_index sp) (sp_ha sp))"

text \<open>What follows a successful Docker call.\<close>

definition after_provision ::
  "worker \<Rightarrow> faults \<Rightarrow> dispatcher \<Rightarrow> claimed_job \<Rightarrow> info \<Rightarrow> state \<Rightarrow> bool \<times> state" where
  "after_provision w flt dk j i s =
     (case mark_provision_running flt j i s of
        (Inl e, s1) \<Rightarrow> (False, mark_failed flt (cj_id j) (cj_deployment j) e s1)
      | (Inr (running, already), s1) \<Rightarrow>
          if \<not> running then
            (case call_out (CDestroy (cj_name j)) (dk_destroy dk (cj_name j)) s1 of
               (Panic, s2) \<Rightarrow> (True, s2)
             | (_, s2) \<Rightarrow> (False, mark_done flt (cj_id j) s2))
          else
            (let s2 = mark_done flt (cj_id j) s1 in
             if already then (False, s2)
             else (case wk_convex_env w of
                     None \<Rightarrow> (False, s2)
                   | Some upd \<Rightarrow> push_function_env w flt upd j s2)))"

definition run_job_body :: "worker \<Rightarrow> faults \<Rightarrow> claimed_job \<Rightarrow> state \<Rightarrow> bool \<times> state" where
  "run_job_body w flt j s =
     (if \<not> still_wanted flt j s then (False, mark_done flt (cj_id j) s)
      else
        (let sp = build_spec (wk_config w) flt j s in
         case docker_for_job w flt j s of
           (None, s1) \<Rightarrow> (False, s1)
         | (Some dk, s1) \<Rightarrow>
             (case call_out (provision_call sp) (dk_provision dk sp) s1 of
                (Panic, s2) \<Rightarrow> (True, s2)
              | (Err e, s2) \<Rightarrow> (False, mark_failed flt (cj_id j) (cj_deployment j) e s2)
              | (Ok i, s2) \<Rightarrow> after_provision w flt dk j i s2)))"

definition run_job :: "worker \<Rightarrow> faults \<Rightarrow> claimed_job \<Rightarrow> state \<Rightarrow> state" where
  "run_job w flt j s =
     (case run_job_body w flt j s of
        (panicked, s') \<Rightarrow>
          if panicked then mark_failed flt (cj_id j) (cj_deployment j) ''panic in worker'' s' else s')"

end
