(* ===== verification/Org.thy ===== *)
theory Org
  imports Observed Provision
begin

text \<open>
  Accounts, teams, projects and access tokens (migrations 000001, 000007, 000008, 000033), and the
  access rules every handler starts with: who the bearer is (middleware/auth.go), what a token's scope
  reaches (api/scope.go), the role a user has (api/projects.go), and the loaders that put the three
  together. \<open>sys\<close> is the state the provisioner works on. A statement is named by the label its failure
  is logged under; \<open>flt\<close> says which statements fail. The text of an error body is left out, its code
  is not.
\<close>

section \<open>Rows\<close>

datatype role = RoleAdmin | RoleMember | RoleViewer

record user =
  us_id :: uuid
  us_email :: string
  us_hash :: string
  us_name :: string
  us_admin :: bool
  us_created :: int
  us_updated :: int
  us_changed :: "int option"

record team =
  tm_id :: uuid
  tm_name :: string
  tm_slug :: string
  tm_creator :: uuid
  tm_region :: string
  tm_suspended :: bool
  tm_created :: int

record member =
  mb_team :: uuid
  mb_user :: uuid
  mb_role :: role
  mb_created :: int

record invite =
  iv_id :: uuid
  iv_team :: uuid
  iv_email :: string
  iv_role :: role
  iv_by :: uuid
  iv_token :: string
  iv_created :: int
  iv_accepted :: "int option"

record project =
  pj_id :: uuid
  pj_team :: uuid
  pj_name :: string
  pj_slug :: string
  pj_demo :: bool
  pj_created :: int

record pmember =
  pm_project :: uuid
  pm_user :: uuid
  pm_role :: role
  pm_created :: int

record token =
  tk_id :: uuid
  tk_user :: uuid
  tk_name :: string
  tk_hash :: string
  tk_scope :: string
  tk_scope_id :: "string option"
  tk_created :: int
  tk_expires :: "int option"
  tk_used :: "int option"

record reset_token =
  rt_id :: uuid
  rt_user :: uuid
  rt_hash :: string
  rt_expires :: int
  rt_used :: "int option"

text \<open>The columns of \<open>deployments\<close> that the provisioner does not read.\<close>

record dep_doc =
  dd_dep :: uuid
  dd_created :: int
  dd_default :: bool
  dd_reference :: "string option"
  dd_creator :: "uuid option"

record audit_event =
  au_team :: "uuid option"
  au_actor :: "uuid option"
  au_action :: string
  au_target_type :: "string option"
  au_target :: "string option"

record org =
  pl :: plane
  users :: "user list"
  teams :: "team list"
  members :: "member list"
  invites :: "invite list"
  projects :: "project list"
  pmembers :: "pmember list"
  tokens :: "token list"
  resets :: "reset_token list"
  dep_docs :: "dep_doc list"
  audit :: "audit_event list"

definition sys :: "org \<Rightarrow> state" where
  "sys g = core (pl g)"

definition set_sys :: "state \<Rightarrow> org \<Rightarrow> org" where
  "set_sys s g = g\<lparr>pl := (pl g)\<lparr>core := s\<rparr>\<rparr>"

lemma sys_set_sys [simp]: "sys (set_sys s g) = s"
  by (simp add: sys_def set_sys_def)

lemma set_sys_same [simp]: "set_sys (sys g) g = g"
  by (simp add: sys_def set_sys_def)

lemma set_sys_twice [simp]: "set_sys s (set_sys t g) = set_sys s g"
  by (simp add: set_sys_def)

lemma set_sys_fields [simp]:
  "users (set_sys s g) = users g" "teams (set_sys s g) = teams g" "members (set_sys s g) = members g"
  "invites (set_sys s g) = invites g" "projects (set_sys s g) = projects g" "pmembers (set_sys s g) = pmembers g"
  "tokens (set_sys s g) = tokens g" "resets (set_sys s g) = resets g" "dep_docs (set_sys s g) = dep_docs g"
  "audit (set_sys s g) = audit g"
  by (simp_all add: set_sys_def)

definition now :: "org \<Rightarrow> int" where
  "now g = clock (sys g)"

definition new_id :: "uuids \<Rightarrow> org \<Rightarrow> uuid" where
  "new_id gen g = fresh_id gen (pl g)"

definition took_id :: "org \<Rightarrow> org" where
  "took_id g = g\<lparr>pl := drawn (pl g)\<rparr>"

lemma took_id_fields [simp]:
  "users (took_id g) = users g" "teams (took_id g) = teams g" "members (took_id g) = members g"
  "invites (took_id g) = invites g" "projects (took_id g) = projects g" "pmembers (took_id g) = pmembers g"
  "tokens (took_id g) = tokens g" "resets (took_id g) = resets g" "dep_docs (took_id g) = dep_docs g"
  "audit (took_id g) = audit g" "sys (took_id g) = sys g" "now (took_id g) = now g"
  by (simp_all add: took_id_def sys_def now_def drawn_def)

text \<open>Equality of \<open>CITEXT\<close> columns, for ASCII text.\<close>

definition ci_eq :: "string \<Rightarrow> string \<Rightarrow> bool" where
  "ci_eq a b \<longleftrightarrow> to_lower a = to_lower b"

lemma ci_eq_refl [simp]: "ci_eq a a"
  by (simp add: ci_eq_def)

section \<open>Statements and answers\<close>

type_synonym ofaults = "string \<Rightarrow> bool"

definition no_ofaults :: ofaults where "no_ofaults = (\<lambda>_. False)"

lemma no_ofaults_at [simp]: "no_ofaults x = False"
  by (simp add: no_ofaults_def)

text \<open>\<open>QueryRow(...).Scan\<close>: an error, \<open>pgx.ErrNoRows\<close>, or the row.\<close>

datatype 'a fetched = DbErr | NoRows | Row 'a

definition fetch :: "ofaults \<Rightarrow> string \<Rightarrow> ('r \<Rightarrow> bool) \<Rightarrow> 'r list \<Rightarrow> 'r fetched" where
  "fetch flt l p t = (if flt l then DbErr else case sql_row p t of None \<Rightarrow> NoRows | Some r \<Rightarrow> Row r)"

lemma fetch_Row [simp]: "fetch flt l p t = Row r \<longleftrightarrow> \<not> flt l \<and> sql_row p t = Some r"
  by (simp add: fetch_def split: option.splits)

lemma fetch_NoRows [simp]: "fetch flt l p t = NoRows \<longleftrightarrow> \<not> flt l \<and> sql_row p t = None"
  by (simp add: fetch_def split: option.splits)

lemma fetch_DbErr [simp]: "fetch flt l p t = DbErr \<longleftrightarrow> flt l"
  by (simp add: fetch_def split: option.splits)

text \<open>What a handler writes: an error status with its code, or a status with a body.\<close>

type_synonym refusal = "nat \<times> string"
datatype 'a resp = Error nat string | Answer nat 'a

definition refuse :: "refusal \<Rightarrow> 'a resp" where
  "refuse e = Error (fst e) (snd e)"

abbreviation (input) internal :: refusal where "internal \<equiv> (500, ''internal'')"
abbreviation (input) forbidden :: refusal where "forbidden \<equiv> (403, ''forbidden'')"

text \<open>\<open>audit.Record\<close>: best effort; an event without an action is dropped, empty fields are NULL.\<close>

definition record_audit ::
  "ofaults \<Rightarrow> string \<Rightarrow> string \<Rightarrow> string \<Rightarrow> string \<Rightarrow> string \<Rightarrow> org \<Rightarrow> org" where
  "record_audit flt team actor action typ target g =
     (if action = [] \<or> flt ''audit'' then g
      else g\<lparr>audit := audit g @ [\<lparr>au_team = null_str team, au_actor = null_str actor,
             au_action = action, au_target_type = null_str typ, au_target = null_str target\<rparr>]\<rparr>)"

lemma record_audit_fields [simp]:
  "pl (record_audit flt a b c d e g) = pl g" "users (record_audit flt a b c d e g) = users g"
  "teams (record_audit flt a b c d e g) = teams g" "members (record_audit flt a b c d e g) = members g"
  "invites (record_audit flt a b c d e g) = invites g" "projects (record_audit flt a b c d e g) = projects g"
  "pmembers (record_audit flt a b c d e g) = pmembers g" "tokens (record_audit flt a b c d e g) = tokens g"
  "resets (record_audit flt a b c d e g) = resets g" "dep_docs (record_audit flt a b c d e g) = dep_docs g"
  "sys (record_audit flt a b c d e g) = sys g" "now (record_audit flt a b c d e g) = now g"
  by (simp_all add: record_audit_def sys_def now_def)

section \<open>The bearer\<close>

record principal =
  pr_user :: string
  pr_email :: string
  pr_scope :: string
  pr_scope_id :: string

definition with_user :: "string \<Rightarrow> string \<Rightarrow> principal" where
  "with_user uid email = \<lparr>pr_user = uid, pr_email = email, pr_scope = ''user'', pr_scope_id = []\<rparr>"

record claims =
  cl_user :: string
  cl_email :: string
  cl_kind :: string
  cl_issued :: "int option"

definition bearer_from_header :: "string \<Rightarrow> string" where
  "bearer_from_header h =
     (if h = [] then [] else if \<not> has_prefix h ''Bearer '' then [] else trim_space (drop 7 h))"

definition token_live :: "int \<Rightarrow> token \<Rightarrow> bool" where
  "token_live t k \<longleftrightarrow> (case tk_expires k of None \<Rightarrow> True | Some e \<Rightarrow> t < e)"

definition stamp_used :: "int \<Rightarrow> token \<Rightarrow> token" where
  "stamp_used t k = k\<lparr>tk_used := Some t\<rparr>"

text \<open>
  \<open>hash\<close> is SHA-256, \<open>verify\<close> the verification of a JWT by its library. A syn_ token is looked up by
  its hash among the tokens whose owner exists and which have not expired.
\<close>

definition authenticate ::
  "ofaults \<Rightarrow> (string \<Rightarrow> string) \<Rightarrow> (string \<Rightarrow> claims option) \<Rightarrow> string \<Rightarrow> org \<Rightarrow> principal option \<times> org" where
  "authenticate flt hash verify tok g =
     (if has_prefix tok ''syn_'' then
        (let hit = (\<lambda>k. tk_hash k = hash tok \<and> token_live (now g) k
                       \<and> sql_exists (\<lambda>u. us_id u = tk_user k) (users g))
         in case fetch flt ''access token'' hit (tokens g) of
              Row k \<Rightarrow>
                (case sql_row (\<lambda>u. us_id u = tk_user k) (users g) of
                   None \<Rightarrow> (None, g)
                 | Some u \<Rightarrow>
                     (Some \<lparr>pr_user = us_id u, pr_email = us_email u, pr_scope = tk_scope k,
                            pr_scope_id = (case tk_scope_id k of None \<Rightarrow> [] | Some i \<Rightarrow> i)\<rparr>,
                      g\<lparr>tokens := sql_update hit (stamp_used (now g)) (tokens g)\<rparr>))
            | _ \<Rightarrow> (None, g))
      else (case verify tok of
              None \<Rightarrow> (None, g)
            | Some c \<Rightarrow> if cl_kind c \<noteq> ''access'' then (None, g)
                        else (Some (with_user (cl_user c) (cl_email c)), g)))"

definition authenticator ::
  "ofaults \<Rightarrow> (string \<Rightarrow> string) \<Rightarrow> (string \<Rightarrow> claims option) \<Rightarrow> string
     \<Rightarrow> (principal \<Rightarrow> org \<Rightarrow> 'a resp \<times> org) \<Rightarrow> org \<Rightarrow> 'a resp \<times> org" where
  "authenticator flt hash verify header handler g =
     (let tok = bearer_from_header header in
      if tok = [] then (Error 401 ''missing_authorization'', g)
      else case authenticate flt hash verify tok g of
          (None, g1) \<Rightarrow> (Error 401 ''invalid_token'', g1)
        | (Some who, g1) \<Rightarrow> handler who g1)"

section \<open>What a token's scope reaches (api/scope.go)\<close>

definition unscoped :: "principal \<Rightarrow> bool" where
  "unscoped who \<longleftrightarrow> pr_scope who = [] \<or> pr_scope who = ''user''"

definition enforce_team_access :: "principal \<Rightarrow> uuid \<Rightarrow> bool" where
  "enforce_team_access who tid \<longleftrightarrow>
     (if unscoped who then True
      else if pr_scope who = ''team'' then pr_scope_id who = tid
      else False)"

definition enforce_project_access :: "principal \<Rightarrow> uuid \<Rightarrow> uuid \<Rightarrow> bool" where
  "enforce_project_access who pid tid \<longleftrightarrow>
     (if unscoped who then True
      else if pr_scope who = ''team'' then pr_scope_id who = tid
      else if pr_scope who = ''project'' \<or> pr_scope who = ''app'' then pr_scope_id who = pid
      else False)"

definition enforce_deployment_access :: "principal \<Rightarrow> uuid \<Rightarrow> uuid \<Rightarrow> uuid \<Rightarrow> bool" where
  "enforce_deployment_access who did pid tid \<longleftrightarrow>
     (if unscoped who then True
      else if pr_scope who = ''team'' then pr_scope_id who = tid
      else if pr_scope who = ''project'' \<or> pr_scope who = ''app'' then pr_scope_id who = pid
      else if pr_scope who = ''deployment'' then pr_scope_id who = did
      else False)"

definition scope_denied :: refusal where
  "scope_denied = (403, ''forbidden_token_scope'')"

section \<open>Roles\<close>

definition can_admin_project :: "role \<Rightarrow> bool" where
  "can_admin_project r \<longleftrightarrow> r = RoleAdmin"

definition can_edit_project :: "role \<Rightarrow> bool" where
  "can_edit_project r \<longleftrightarrow> r = RoleAdmin \<or> r = RoleMember"

definition effective_project_role :: "ofaults \<Rightarrow> uuid \<Rightarrow> uuid \<Rightarrow> uuid \<Rightarrow> org \<Rightarrow> role fetched" where
  "effective_project_role flt pid tid uid g =
     (case fetch flt ''project role'' (\<lambda>m. pm_project m = pid \<and> pm_user m = uid) (pmembers g) of
        Row m \<Rightarrow> Row (pm_role m)
      | DbErr \<Rightarrow> DbErr
      | NoRows \<Rightarrow>
          (case fetch flt ''team role'' (\<lambda>m. mb_team m = tid \<and> mb_user m = uid) (members g) of
             Row m \<Rightarrow> Row (mb_role m)
           | DbErr \<Rightarrow> DbErr
           | NoRows \<Rightarrow> NoRows))"

definition assert_member :: "ofaults \<Rightarrow> uuid \<Rightarrow> uuid \<Rightarrow> org \<Rightarrow> role fetched" where
  "assert_member flt tid uid g =
     (case fetch flt ''assert member'' (\<lambda>m. mb_team m = tid \<and> mb_user m = uid) (members g) of
        Row m \<Rightarrow> Row (mb_role m) | DbErr \<Rightarrow> DbErr | NoRows \<Rightarrow> NoRows)"

definition user_is_instance_admin :: "ofaults \<Rightarrow> string \<Rightarrow> org \<Rightarrow> bool" where
  "user_is_instance_admin flt uid g \<longleftrightarrow>
     uid \<noteq> [] \<and> \<not> flt ''instance admin'' \<and> sql_exists (\<lambda>u. us_id u = uid \<and> us_admin u) (users g)"

definition require_instance_admin ::
  "ofaults \<Rightarrow> principal \<Rightarrow> (org \<Rightarrow> 'a resp \<times> org) \<Rightarrow> org \<Rightarrow> 'a resp \<times> org" where
  "require_instance_admin flt who handler g =
     (if pr_user who = [] then (Error 401 ''unauthenticated'', g)
      else if flt ''admin gate query'' then (Error 500 ''internal'', g)
      else if \<not> sql_exists (\<lambda>u. us_id u = pr_user who \<and> us_admin u) (users g) then (Error 403 ''forbidden'', g)
      else handler g)"

section \<open>Loaders\<close>

definition resolve_team :: "ofaults \<Rightarrow> string \<Rightarrow> org \<Rightarrow> team fetched" where
  "resolve_team flt ref g = fetch flt ''resolve team'' (\<lambda>t. tm_id t = ref \<or> ci_eq (tm_slug t) ref) (teams g)"

definition load_team_for_request ::
  "ofaults \<Rightarrow> principal \<Rightarrow> string \<Rightarrow> org \<Rightarrow> refusal + team \<times> role" where
  "load_team_for_request flt who ref g =
     (if pr_user who = [] then Inl (401, ''unauthorized'')
      else case resolve_team flt ref g of
          NoRows \<Rightarrow> Inl (404, ''team_not_found'')
        | DbErr \<Rightarrow> Inl internal
        | Row t \<Rightarrow>
            (case assert_member flt (tm_id t) (pr_user who) g of
               NoRows \<Rightarrow> Inl forbidden
             | DbErr \<Rightarrow> Inl internal
             | Row r \<Rightarrow> if enforce_team_access who (tm_id t) then Inr (t, r) else Inl scope_denied))"

text \<open>\<open>projects JOIN teams\<close>.\<close>

definition project_team :: "(project \<Rightarrow> bool) \<Rightarrow> org \<Rightarrow> (project \<times> team) option" where
  "project_team q g =
     sql_row (\<lambda>x. q (fst x) \<and> tm_id (snd x) = pj_team (fst x)) (List.product (projects g) (teams g))"

definition load_project_for_request ::
  "ofaults \<Rightarrow> principal \<Rightarrow> string \<Rightarrow> org \<Rightarrow> refusal + project \<times> team \<times> role" where
  "load_project_for_request flt who ref g =
     (if pr_user who = [] then Inl (401, ''unauthorized'')
      else if flt ''resolve project'' then Inl internal
      else case project_team (\<lambda>p. pj_id p = ref) g of
          None \<Rightarrow> Inl (404, ''project_not_found'')
        | Some (p, t) \<Rightarrow>
            (case effective_project_role flt (pj_id p) (tm_id t) (pr_user who) g of
               NoRows \<Rightarrow> Inl forbidden
             | DbErr \<Rightarrow> Inl internal
             | Row r \<Rightarrow> if enforce_project_access who (pj_id p) (tm_id t) then Inr (p, t, r)
                        else Inl scope_denied))"

text \<open>\<open>deployments JOIN projects JOIN teams\<close>, deleted deployments left out.\<close>

definition load_deployment :: "string \<Rightarrow> org \<Rightarrow> (deployment \<times> project \<times> team) option" where
  "load_deployment name g =
     sql_row (\<lambda>(d, p, t). d_name d = name \<and> d_status d \<noteq> DDeleted \<and> pj_id p = d_project d \<and> tm_id t = pj_team p)
       (List.product (deps (sys g)) (List.product (projects g) (teams g)))"

definition load_deployment_for_request ::
  "ofaults \<Rightarrow> principal \<Rightarrow> string \<Rightarrow> org \<Rightarrow> refusal + deployment \<times> project \<times> team \<times> role" where
  "load_deployment_for_request flt who name g =
     (if pr_user who = [] then Inl (401, ''unauthorized'')
      else if flt ''load deployment'' then Inl internal
      else case load_deployment name g of
          None \<Rightarrow> Inl (404, ''deployment_not_found'')
        | Some (d, p, t) \<Rightarrow>
            (case effective_project_role flt (pj_id p) (tm_id t) (pr_user who) g of
               NoRows \<Rightarrow> Inl forbidden
             | DbErr \<Rightarrow> Inl internal
             | Row r \<Rightarrow> if enforce_deployment_access who (d_id d) (pj_id p) (tm_id t) then Inr (d, p, t, r)
                        else Inl scope_denied))"

definition load_cell_for_request ::
  "ofaults \<Rightarrow> principal \<Rightarrow> string \<Rightarrow> cell list \<Rightarrow> org \<Rightarrow> refusal + cell \<times> role" where
  "load_cell_for_request flt who ref cs g =
     (if pr_user who = [] then Inl (401, ''unauthorized'')
      else case fetch flt ''load cell'' (\<lambda>c. ce_id c = ref) cs of
          NoRows \<Rightarrow> Inl (404, ''cell_not_found'')
        | DbErr \<Rightarrow> Inl internal
        | Row c \<Rightarrow>
            (case effective_project_role flt (ce_project c) (ce_team c) (pr_user who) g of
               NoRows \<Rightarrow> Inl forbidden
             | DbErr \<Rightarrow> Inl internal
             | Row r \<Rightarrow> if enforce_project_access who (ce_project c) (ce_team c) then Inr (c, r)
                        else Inl scope_denied))"

text \<open>
  The detail view of an operation run: only \<open>ErrNoRows\<close> of the role lookup refuses a run that belongs
  to a project (an empty team id is no UUID, so the lookup fails), and the scope of the token is not
  looked at.
\<close>

definition get_operation_run ::
  "ofaults \<Rightarrow> principal \<Rightarrow> string \<Rightarrow> run_doc list \<Rightarrow> org \<Rightarrow> run_doc resp" where
  "get_operation_run flt who ref rs g =
     (if pr_user who = [] then Error 401 ''unauthorized''
      else case fetch flt ''load operation run'' (\<lambda>r. rd_run r = ref) rs of
          NoRows \<Rightarrow> Error 404 ''operation_run_not_found''
        | DbErr \<Rightarrow> Error 500 ''internal''
        | Row r \<Rightarrow>
            (case rd_project r of
               Some pid \<Rightarrow>
                 (let tid = (case rd_team r of Some t \<Rightarrow> t
                             | None \<Rightarrow> (case fetch flt ''run team'' (\<lambda>p. pj_id p = pid) (projects g) of
                                          Row p \<Rightarrow> pj_team p | _ \<Rightarrow> []))
                  in if tid \<noteq> [] \<and> effective_project_role flt pid tid (pr_user who) g = NoRows
                     then Error 403 ''forbidden'' else Answer 200 r)
             | None \<Rightarrow> if user_is_instance_admin flt (pr_user who) g then Answer 200 r
                       else Error 403 ''forbidden''))"

end
