(* ===== verification/Naming.thy ===== *)
theory Naming
  imports Store Provision
begin

text \<open>
  Names: the slugs of teams and projects (api/slug.go, api/teams.go), the generated names of
  deployments (docker/names.go), the identifiers derived from them (api/deployments.go), and the
  clamped list limits (api/pagination.go). A Go string is its bytes; ranging over it decodes UTF-8, with
  U+FFFD for a byte that does not belong to a rune. The tables of package unicode are an argument.
\<close>

section \<open>UTF-8\<close>

definition byte :: "nat \<Rightarrow> char" where
  "byte n = char_of n"

definition code :: "char \<Rightarrow> nat" where
  "code c = of_char c"

definition encode_rune :: "nat \<Rightarrow> string" where
  "encode_rune r =
     (if r < 128 then [byte r]
      else if r < 2048 then [byte (192 + r div 64), byte (128 + r mod 64)]
      else if 55296 \<le> r \<and> r < 57344 \<or> 1114111 < r then [byte 239, byte 191, byte 189]
      else if r < 65536 then [byte (224 + r div 4096), byte (128 + r div 64 mod 64), byte (128 + r mod 64)]
      else [byte (240 + r div 262144), byte (128 + r div 4096 mod 64), byte (128 + r div 64 mod 64),
            byte (128 + r mod 64)])"

definition cont :: "nat \<Rightarrow> bool" where
  "cont b \<longleftrightarrow> 128 \<le> b \<and> b < 192"

text \<open>One step of \<open>utf8.DecodeRune\<close> on the bytes: the rune and its width.\<close>

definition decode_rune :: "nat list \<Rightarrow> nat \<times> nat" where
  "decode_rune bs =
     (case bs of
        [] \<Rightarrow> (65533, 0)
      | a # bs1 \<Rightarrow>
          if a < 128 then (a, 1)
          else (case bs1 of
              [] \<Rightarrow> (65533, 1)
            | b # bs2 \<Rightarrow>
                if 194 \<le> a \<and> a < 224 then
                  (if cont b then ((a - 192) * 64 + (b - 128), 2) else (65533, 1))
                else if 224 \<le> a \<and> a < 240 then
                  (case bs2 of
                     [] \<Rightarrow> (65533, 1)
                   | c # _ \<Rightarrow>
                       (let r = (a - 224) * 4096 + (b - 128) * 64 + (c - 128)
                        in if cont b \<and> cont c \<and> 2048 \<le> r \<and> \<not> (55296 \<le> r \<and> r < 57344) then (r, 3)
                           else (65533, 1)))
                else if 240 \<le> a \<and> a < 245 then
                  (case bs2 of
                     c # d # _ \<Rightarrow>
                       (let r = (a - 240) * 262144 + (b - 128) * 4096 + (c - 128) * 64 + (d - 128)
                        in if cont b \<and> cont c \<and> cont d \<and> 65536 \<le> r \<and> r \<le> 1114111 then (r, 4)
                           else (65533, 1))
                   | _ \<Rightarrow> (65533, 1))
                else (65533, 1)))"

lemma decode_rune_width: "bs \<noteq> [] \<Longrightarrow> 0 < snd (decode_rune bs)"
  by (auto simp: decode_rune_def Let_def split: list.splits)

function decode_bytes :: "nat list \<Rightarrow> nat list" where
  "decode_bytes bs = (if bs = [] then [] else
     (case decode_rune bs of (r, n) \<Rightarrow> r # decode_bytes (drop n bs)))"
  by auto
termination
proof (relation "measure length")
  fix bs x y
  assume "bs \<noteq> []" "(x, y) = decode_rune bs"
  then show "(drop y bs, bs) \<in> measure length"
    using decode_rune_width [of bs] by (metis diff_less in_measure length_drop length_greater_0_conv snd_conv)
qed simp

declare decode_bytes.simps [simp del]

definition runes :: "string \<Rightarrow> nat list" where
  "runes s = decode_bytes (map code s)"

definition encode_runes :: "nat list \<Rightarrow> string" where
  "encode_runes rs = concat (map encode_rune rs)"

text \<open>What Postgres accepts as text.\<close>

definition valid_utf8 :: "string \<Rightarrow> bool" where
  "valid_utf8 s \<longleftrightarrow> encode_runes (runes s) = s"

section \<open>Slugs\<close>

record unicode =
  uc_letter :: "nat \<Rightarrow> bool"
  uc_digit :: "nat \<Rightarrow> bool"
  uc_lower :: "nat \<Rightarrow> nat"

fun slug_loop :: "unicode \<Rightarrow> nat list \<Rightarrow> bool \<Rightarrow> string \<Rightarrow> string" where
  "slug_loop u [] prev_dash b = b"
| "slug_loop u (r # rs) prev_dash b =
     (if uc_letter u r \<or> uc_digit u r then slug_loop u rs False (b @ encode_rune r)
      else if r = 45 \<or> r = 95 \<or> r = 32 then
        (if \<not> prev_dash \<and> b \<noteq> [] then slug_loop u rs True (b @ ''-'') else slug_loop u rs prev_dash b)
      else slug_loop u rs prev_dash b)"

definition trim_dashes :: "string \<Rightarrow> string" where
  "trim_dashes s = rev (dropWhile (\<lambda>c. c = CHR ''-'') (rev (dropWhile (\<lambda>c. c = CHR ''-'') s)))"

text \<open>The last argument is the hexadecimal text of the random bytes.\<close>

definition slugify :: "unicode \<Rightarrow> string \<Rightarrow> string \<Rightarrow> string" where
  "slugify u rnd name =
     (let out = trim_dashes (slug_loop u (map (uc_lower u) (runes name)) False []);
          out = (if out = [] then ''x-'' @ rnd else out)
      in if 60 < length out then take 60 out else out)"

fun itoa_digits :: "nat \<Rightarrow> string \<Rightarrow> string" where
  "itoa_digits n digits = (if n = 0 then digits else itoa_digits (n div 10) (byte (48 + n mod 10) # digits))"

declare itoa_digits.simps [simp del]

definition itoa :: "int \<Rightarrow> string" where
  "itoa n = (if n = 0 then ''0'' else itoa_digits (nat n) [])"

definition with_suffix :: "string \<Rightarrow> nat \<Rightarrow> string" where
  "with_suffix slug n = (if 56 < length slug then take 56 slug else slug) @ ''-'' @ itoa (int n)"

definition with_random_suffix :: "string \<Rightarrow> string \<Rightarrow> string" where
  "with_random_suffix slug rnd = (if 55 < length slug then take 55 slug else slug) @ ''-'' @ rnd"

definition is_valid_slug :: "string \<Rightarrow> bool" where
  "is_valid_slug s \<longleftrightarrow> s \<noteq> [] \<and>
     list_all (\<lambda>c. 97 \<le> code c \<and> code c \<le> 122 \<or> 48 \<le> code c \<and> code c \<le> 57 \<or> c = CHR ''-'') s"

text \<open>
  The random bytes the allocator draws: for the base and for the candidates from the eighth on.
  \<open>taken\<close> is the EXISTS query, with \<open>None\<close> for its failure.
\<close>

record slug_random =
  sr_base :: string
  sr_suffix :: "nat \<Rightarrow> string"

definition slug_candidate :: "slug_random \<Rightarrow> string \<Rightarrow> nat \<Rightarrow> string" where
  "slug_candidate rnd base i =
     (if i = 0 then base else if i < 8 then with_suffix base i else with_random_suffix base (sr_suffix rnd i))"

fun first_free :: "string \<Rightarrow> (nat \<Rightarrow> string) \<Rightarrow> (string \<Rightarrow> bool option) \<Rightarrow> nat \<Rightarrow> nat \<Rightarrow> string + string" where
  "first_free msg cand taken i 0 = Inl msg"
| "first_free msg cand taken i (Suc n) =
     (case taken (cand i) of
        None \<Rightarrow> Inl ''query failed''
      | Some True \<Rightarrow> first_free msg cand taken (Suc i) n
      | Some False \<Rightarrow> Inr (cand i))"

definition allocate_slug ::
  "unicode \<Rightarrow> slug_random \<Rightarrow> (string \<Rightarrow> bool option) \<Rightarrow> string \<Rightarrow> string + string" where
  "allocate_slug u rnd taken name =
     (let base = slugify u (sr_base rnd) name
      in first_free ''could not allocate slug after 50 attempts'' (slug_candidate rnd base) taken 0 50)"

section \<open>Names of deployments\<close>

definition adjectives :: "string list" where
  "adjectives = [''quiet'', ''fast'', ''bright'', ''fuzzy'', ''calm'', ''bold'', ''swift'', ''cosmic'',
     ''witty'', ''lucky'', ''snappy'', ''merry'', ''lush'', ''brave'', ''neat'', ''sunny'',
     ''mellow'', ''sturdy'', ''perky'', ''agile'', ''patient'', ''proud'', ''amber'',
     ''quirky'', ''humble'', ''spicy'', ''tidy'', ''vivid'', ''wise'', ''zesty'', ''feral'',
     ''jolly'', ''loyal'', ''sharp'', ''nimble'']"

definition animals :: "string list" where
  "animals = [''cat'', ''rabbit'', ''fox'', ''otter'', ''panda'', ''lemur'', ''tiger'', ''lynx'',
     ''finch'', ''hawk'', ''moth'', ''bee'', ''cricket'', ''wolf'', ''bear'', ''moose'',
     ''raccoon'', ''badger'', ''weasel'', ''ferret'', ''stoat'', ''marmot'', ''skunk'',
     ''penguin'', ''seal'', ''whale'', ''dolphin'', ''axolotl'', ''newt'', ''frog'',
     ''capybara'', ''alpaca'', ''ibis'', ''heron'', ''owl'', ''kestrel'']"

text \<open>\<open>itoa4\<close> writes the low digits over four zeros, from the right.\<close>

fun itoa4_loop :: "nat \<Rightarrow> nat \<Rightarrow> string \<Rightarrow> string" where
  "itoa4_loop 0 n out = out"
| "itoa4_loop (Suc i) n out =
     (if n = 0 then out else itoa4_loop i (n div 10) (out[i := byte (48 + n mod 10)]))"

definition itoa4 :: "nat \<Rightarrow> string" where
  "itoa4 n = itoa4_loop 4 n ''0000''"

text \<open>The four random bytes are an argument.\<close>

definition generate_deployment_name :: "nat \<times> nat \<times> nat \<times> nat \<Rightarrow> string" where
  "generate_deployment_name b =
     (case b of (b0, b1, b2, b3) \<Rightarrow>
        let num = (256 * b0 + b1) mod 9000 + 1000
        in adjectives ! (b2 mod length adjectives) @ ''-'' @ animals ! (b3 mod length animals)
           @ ''-'' @ itoa4 num)"

definition sql_ident_char :: "char \<Rightarrow> char" where
  "sql_ident_char c =
     (if 97 \<le> code c \<and> code c \<le> 122 \<or> 48 \<le> code c \<and> code c \<le> 57 then c
      else if 65 \<le> code c \<and> code c \<le> 90 then byte (code c + 32)
      else CHR ''_'')"

definition sql_ident :: "string \<Rightarrow> string" where
  "sql_ident s = map sql_ident_char s"

definition before_char :: "char \<Rightarrow> string \<Rightarrow> string" where
  "before_char c s = takeWhile (\<lambda>x. x \<noteq> c) s"

definition from_char :: "char \<Rightarrow> string \<Rightarrow> string" where
  "from_char c s = dropWhile (\<lambda>x. x \<noteq> c) s"

text \<open>The database of a Postgres URL replaced; everything else is kept.\<close>

definition swap_postgres_database :: "string \<Rightarrow> string \<Rightarrow> string" where
  "swap_postgres_database url db =
     (let scheme = (if has_prefix url ''postgres://'' then ''postgres://''
                    else if has_prefix url ''postgresql://'' then ''postgresql://'' else [])
      in if scheme = [] then url
         else (let rest = drop (length scheme) url; path = from_char (CHR ''/'') rest
               in if path = [] then url @ ''/'' @ db
                  else scheme @ before_char (CHR ''/'') rest @ ''/'' @ db @ from_char (CHR ''?'') (tl path)))"

section \<open>List limits\<close>

text \<open>\<open>strconv.Atoi\<close>: an optional sign and decimal digits, within 64 bits.\<close>

definition atoi :: "string \<Rightarrow> int option" where
  "atoi s =
     (let neg = (s \<noteq> [] \<and> hd s = CHR ''-'');
          ds = (if s \<noteq> [] \<and> (hd s = CHR ''-'' \<or> hd s = CHR ''+'') then tl s else s);
          v = (if neg then - int (undec ds) else int (undec ds))
      in if ds = [] \<or> \<not> list_all digit_char ds then None
         else if - (2 ^ 63) \<le> v \<and> v < 2 ^ 63 then Some v else None)"

definition clamp_limit :: "int \<Rightarrow> int \<Rightarrow> string \<Rightarrow> int option" where
  "clamp_limit dflt mx s =
     (if s = [] then Some dflt
      else case atoi s of
          None \<Rightarrow> None
        | Some n \<Rightarrow> if n \<le> 0 then None else Some (if mx < n then mx else n))"

definition parse_list_limit :: "string \<Rightarrow> int option" where
  "parse_list_limit s = clamp_limit 100 500 s"

definition parse_token_list_limit :: "string \<Rightarrow> int option" where
  "parse_token_list_limit s = clamp_limit 50 200 s"

end
