(* ===== verification/Teams.thy ===== *)
theory Teams
  imports Org Naming Db
begin

text \<open>
  Teams, their members and invites (api/teams.go, api/invites.go), and the account endpoints
  (api/me.go). Each handler is one function of the request and the tables; a transaction that fails
  anywhere leaves the tables as they were. \<open>api\<close> collects what the handlers take from outside: random
  bytes, hashes, the mail sender, and \<open>a_others\<close>, what other requests do between the allocation of a
  name and its insert.
\<close>

record api =
  a_uuid :: uuids
  a_unicode :: unicode
  a_slugs :: "nat \<Rightarrow> slug_random"
  a_others :: "nat \<Rightarrow> org \<Rightarrow> org"
  a_cancelled :: "nat \<Rightarrow> bool"
  a_random :: "nat \<Rightarrow> string option"   \<comment> \<open>the text of 32 random bytes, \<open>None\<close> when rand.Read fails\<close>
  a_sha256 :: "string \<Rightarrow> string"
  a_bcrypt :: "string \<Rightarrow> string option"
  a_verify :: "string \<Rightarrow> string \<Rightarrow> bool"
  a_jwt :: "string \<Rightarrow> claims option"
  a_is_uuid :: "string \<Rightarrow> bool"
  a_mail :: "string \<Rightarrow> bool option"        \<comment> \<open>no sender, or whether the mail went out\<close>
  a_public_url :: string

definition generate_token :: "api \<Rightarrow> string \<Rightarrow> org \<Rightarrow> (string \<times> string) option" where
  "generate_token a prfx g =
     (case a_random a (next_uuid (pl g)) of None \<Rightarrow> None | Some r \<Rightarrow> Some (prfx @ r, a_sha256 a (prfx @ r)))"

section \<open>Rows that go with their parents (ON DELETE CASCADE, SET NULL)\<close>

definition drop_deps :: "uuid set \<Rightarrow> state \<Rightarrow> state" where
  "drop_deps D s = s\<lparr>deps := filter (\<lambda>d. d_id d \<notin> D) (deps s),
     reps := filter (\<lambda>r. r_deployment r \<notin> D) (reps s),
     jobs := filter (\<lambda>j. j_deployment j \<notin> D) (jobs s),
     storages := filter (\<lambda>x. s_deployment x \<notin> D) (storages s),
     domains := filter (\<lambda>x. dm_deployment x \<notin> D) (domains s),
     backups := filter (\<lambda>b. b_deployment b \<notin> D) (backups s)\<rparr>"

definition forget_project :: "uuid set \<Rightarrow> run_doc \<Rightarrow> run_doc" where
  "forget_project P d = d\<lparr>rd_project := (case rd_project d of Some p \<Rightarrow> if p \<in> P then None else Some p | None \<Rightarrow> None)\<rparr>"

definition forget_primary :: "uuid set \<Rightarrow> cell \<Rightarrow> cell" where
  "forget_primary D c = c\<lparr>ce_primary := (case ce_primary c of Some d \<Rightarrow> if d \<in> D then None else Some d | None \<Rightarrow> None)\<rparr>"

definition drop_plane :: "uuid set \<Rightarrow> uuid set \<Rightarrow> plane \<Rightarrow> plane" where
  "drop_plane P D p =
     (let C = ce_id ` set (filter (\<lambda>c. ce_project c \<in> P) (cells p)) in
      p\<lparr>cells := map (forget_primary D) (filter (\<lambda>c. ce_project c \<notin> P) (cells p)),
        placements := filter (\<lambda>x. pl_deployment x \<notin> D \<and> pl_cell x \<notin> C) (placements p),
        cell_resources := filter (\<lambda>x. cx_cell x \<notin> C) (cell_resources p),
        cell_links := filter (\<lambda>l. ln_project l \<notin> P) (cell_links p),
        service_tokens := filter (\<lambda>k. sv_link k \<notin> ln_id ` set (filter (\<lambda>l. ln_project l \<in> P) (cell_links p))) (service_tokens p),
        desired := filter (\<lambda>r. ds_project r \<notin> Some ` P) (desired p),
        reports := filter (\<lambda>r. dr_project r \<notin> Some ` P) (reports p),
        run_docs := map (forget_project P) (run_docs p)\<rparr>)"

definition drop_projects :: "uuid set \<Rightarrow> org \<Rightarrow> org" where
  "drop_projects P g =
     (let D = d_id ` set (filter (\<lambda>d. d_project d \<in> P) (deps (sys g))); s = drop_deps D (sys g)
      in (set_sys (s\<lparr>env_vars := filter (\<lambda>e. e_project e \<notin> P) (env_vars s)\<rparr>)
           (g\<lparr>pl := drop_plane P D (pl g),
              projects := filter (\<lambda>p. pj_id p \<notin> P) (projects g),
              pmembers := filter (\<lambda>m. pm_project m \<notin> P) (pmembers g),
              dep_docs := filter (\<lambda>x. dd_dep x \<notin> D) (dep_docs g)\<rparr>)))"

definition forget_team :: "audit_event \<Rightarrow> audit_event" where
  "forget_team e = e\<lparr>au_team := None\<rparr>"

definition drop_team :: "uuid \<Rightarrow> org \<Rightarrow> org" where
  "drop_team tid g =
     (let g = drop_projects (pj_id ` set (filter (\<lambda>p. pj_team p = tid) (projects g))) g
      in g\<lparr>teams := filter (\<lambda>t. tm_id t \<noteq> tid) (teams g),
           members := filter (\<lambda>m. mb_team m \<noteq> tid) (members g),
           invites := filter (\<lambda>i. iv_team i \<noteq> tid) (invites g),
           audit := sql_update (\<lambda>e. au_team e = Some tid) forget_team (audit g)\<rparr>)"

definition forget_actor :: "audit_event \<Rightarrow> audit_event" where
  "forget_actor e = e\<lparr>au_actor := None\<rparr>"

definition forget_creator :: "dep_doc \<Rightarrow> dep_doc" where
  "forget_creator x = x\<lparr>dd_creator := None\<rparr>"

definition drop_user :: "uuid \<Rightarrow> org \<Rightarrow> org" where
  "drop_user uid g =
     g\<lparr>users := filter (\<lambda>u. us_id u \<noteq> uid) (users g),
       members := filter (\<lambda>m. mb_user m \<noteq> uid) (members g),
       pmembers := filter (\<lambda>m. pm_user m \<noteq> uid) (pmembers g),
       invites := filter (\<lambda>i. iv_by i \<noteq> uid) (invites g),
       tokens := filter (\<lambda>k. tk_user k \<noteq> uid) (tokens g),
       resets := filter (\<lambda>r. rt_user r \<noteq> uid) (resets g),
       dep_docs := sql_update (\<lambda>x. dd_creator x = Some uid) forget_creator (dep_docs g),
       audit := sql_update (\<lambda>e. au_actor e = Some uid) forget_actor (audit g)\<rparr>"

section \<open>createTeam\<close>

definition team_slug_taken :: "ofaults \<Rightarrow> org \<Rightarrow> string \<Rightarrow> bool option" where
  "team_slug_taken flt g c =
     (if flt ''team slug'' \<or> \<not> valid_utf8 c then None
      else Some (sql_exists (\<lambda>t. ci_eq (tm_slug t) c) (teams g)))"

definition insert_team :: "api \<Rightarrow> uuid \<Rightarrow> string \<Rightarrow> string \<Rightarrow> string \<Rightarrow> org \<Rightarrow> team \<times> org" where
  "insert_team a uid name slug region g =
     (let t = \<lparr>tm_id = new_id (a_uuid a) g, tm_name = name, tm_slug = slug, tm_creator = uid,
               tm_region = region, tm_suspended = False, tm_created = now g\<rparr>;
          m = \<lparr>mb_team = tm_id t, mb_user = uid, mb_role = RoleAdmin, mb_created = now g\<rparr>
      in (t, (took_id g)\<lparr>teams := teams g @ [t], members := members g @ [m]\<rparr>))"

text \<open>One attempt: allocate, let the others run, then the transaction with its constraints.\<close>

definition create_team_attempt ::
  "ofaults \<Rightarrow> api \<Rightarrow> uuid \<Rightarrow> string \<Rightarrow> string \<Rightarrow> nat \<Rightarrow> org \<times> team option
     \<Rightarrow> db_error option \<times> (org \<times> team option)" where
  "create_team_attempt flt a uid name region k s =
     (case allocate_slug (a_unicode a) (a_slugs a k) (team_slug_taken flt (fst s)) name of
        Inl e \<Rightarrow> (Some (OtherError e), s)
      | Inr slug \<Rightarrow>
          (let g = a_others a k (fst s) in
           if flt ''create team'' then (Some (OtherError ''query failed''), (g, snd s))
           else if sql_exists (\<lambda>t. ci_eq (tm_slug t) slug) (teams g) then
             (Some (UniqueViolation ''teams_slug_key''), (g, snd s))
           else if sql_exists (\<lambda>t. tm_id t = new_id (a_uuid a) g) (teams g) then
             (Some (UniqueViolation ''teams_pkey''), (g, snd s))
           else if \<not> sql_exists (\<lambda>u. us_id u = uid) (users g) \<or> \<not> valid_utf8 name \<or> \<not> valid_utf8 region then
             (Some (OtherError ''constraint''), (g, snd s))
           else (case insert_team a uid name slug region g of (t, g1) \<Rightarrow> (None, (g1, Some t)))))"

record create_team_req =
  ct_name :: string
  ct_region :: string

definition create_team ::
  "ofaults \<Rightarrow> api \<Rightarrow> principal \<Rightarrow> create_team_req option \<Rightarrow> org \<Rightarrow> team resp \<times> org" where
  "create_team flt a who body g =
     (if pr_user who = [] then (Error 401 ''unauthorized'', g)
      else case body of None \<Rightarrow> (Error 400 ''bad_request'', g) | Some b \<Rightarrow>
        let name = trim_space (ct_name b);
            region = (if ct_region b = [] then ''self-hosted'' else ct_region b)
        in if name = [] then (Error 400 ''missing_name'', g)
           else (case with_retry_on_unique_violation (a_cancelled a) 10
                        (create_team_attempt flt a (pr_user who) name region) (g, None) of
                   (None, (g1, Some t)) \<Rightarrow>
                     (Answer 201 t, record_audit flt (tm_id t) (pr_user who) ''createTeam'' ''team'' (tm_id t) g1)
                 | (_, (g1, _)) \<Rightarrow> (Error 500 ''internal'', g1)))"

section \<open>updateTeam, deleteTeam\<close>

text \<open>
  A field of a partial update: absent, refused, or the trimmed value. The \<open>COALESCE\<close> of the statement is
  \<open>merge\<close>.
\<close>

definition trimmed_field :: "string \<Rightarrow> string option \<Rightarrow> string + string option" where
  "trimmed_field missing f =
     (case f of None \<Rightarrow> Inr None | Some v \<Rightarrow> if trim_space v = [] then Inl missing else Inr (Some (trim_space v)))"

definition slug_field :: "string option \<Rightarrow> string + string option" where
  "slug_field f =
     (case trimmed_field ''missing_slug'' f of
        Inl e \<Rightarrow> Inl e
      | Inr None \<Rightarrow> Inr None
      | Inr (Some v) \<Rightarrow> if is_valid_slug v then Inr (Some v) else Inl ''invalid_slug'')"

definition merge :: "'a option \<Rightarrow> 'a \<Rightarrow> 'a" where
  "merge v old = (case v of None \<Rightarrow> old | Some x \<Rightarrow> x)"

record update_team_req =
  ut_name :: "string option"
  ut_slug :: "string option"
  ut_region :: "string option"

definition set_team :: "string option \<Rightarrow> string option \<Rightarrow> string option \<Rightarrow> team \<Rightarrow> team" where
  "set_team name slug region t = t\<lparr>tm_name := merge name (tm_name t), tm_slug := merge slug (tm_slug t),
     tm_region := merge region (tm_region t)\<rparr>"

definition update_team ::
  "ofaults \<Rightarrow> principal \<Rightarrow> string \<Rightarrow> update_team_req option \<Rightarrow> org \<Rightarrow> team resp \<times> org" where
  "update_team flt who ref body g =
     (case load_team_for_request flt who ref g of
        Inl e \<Rightarrow> (refuse e, g)
      | Inr (t, role) \<Rightarrow>
        if role \<noteq> RoleAdmin then (Error 403 ''forbidden'', g)
        else (case body of None \<Rightarrow> (Error 400 ''bad_request'', g) | Some b \<Rightarrow>
          (case trimmed_field ''missing_name'' (ut_name b) of Inl c \<Rightarrow> (Error 400 c, g) | Inr name \<Rightarrow>
          (case slug_field (ut_slug b) of Inl c \<Rightarrow> (Error 400 c, g) | Inr slug \<Rightarrow>
            let region = map_option (\<lambda>v. if trim_space v = [] then ''self-hosted'' else trim_space v) (ut_region b)
            in if name = None \<and> slug = None \<and> region = None then (Answer 200 t, g)
               else if flt ''update team'' then (Error 500 ''internal'', g)
               else if (case slug of None \<Rightarrow> False | Some v \<Rightarrow>
                          sql_exists (\<lambda>x. tm_id x \<noteq> tm_id t \<and> ci_eq (tm_slug x) v) (teams g)) then
                 (Error 409 ''slug_taken'', g)
               else if sql_count (\<lambda>x. tm_id x = tm_id t) (teams g) = 0 then (Error 404 ''team_not_found'', g)
               else (Answer 200 (set_team name slug region t),
                     record_audit flt (tm_id t) (pr_user who) ''updateTeam'' ''team'' (tm_id t)
                       (g\<lparr>teams := sql_update (\<lambda>x. tm_id x = tm_id t) (set_team name slug region) (teams g)\<rparr>))))))"

definition team_deployments :: "uuid \<Rightarrow> org \<Rightarrow> nat" where
  "team_deployments tid g = sql_count (\<lambda>d. d_status d \<noteq> DDeleted
     \<and> sql_exists (\<lambda>p. pj_id p = d_project d \<and> pj_team p = tid) (projects g)) (deps (sys g))"

definition delete_team :: "ofaults \<Rightarrow> principal \<Rightarrow> string \<Rightarrow> org \<Rightarrow> uuid resp \<times> org" where
  "delete_team flt who ref g =
     (case load_team_for_request flt who ref g of
        Inl e \<Rightarrow> (refuse e, g)
      | Inr (t, role) \<Rightarrow>
        if role \<noteq> RoleAdmin then (Error 403 ''forbidden'', g)
        else if flt ''count team deployments'' then (Error 500 ''internal'', g)
        else if 0 < team_deployments (tm_id t) g then (Error 409 ''team_has_deployments'', g)
        else (let g1 = record_audit flt (tm_id t) (pr_user who) ''deleteTeam'' ''team'' (tm_id t) g in
              if flt ''delete team'' then (Error 500 ''internal'', g1)
              else (Answer 200 (tm_id t), drop_team (tm_id t) g1)))"

section \<open>Roles of members\<close>

definition normalise_role :: "string \<Rightarrow> role option" where
  "normalise_role r =
     (let v = to_lower (trim_space r) in
      if v = ''admin'' then Some RoleAdmin
      else if v = ''member'' \<or> v = ''developer'' then Some RoleMember
      else None)"

definition team_admins :: "uuid \<Rightarrow> member list \<Rightarrow> nat" where
  "team_admins tid ms = sql_count (\<lambda>m. mb_team m = tid \<and> mb_role m = RoleAdmin) ms"

definition set_role :: "role \<Rightarrow> member \<Rightarrow> member" where
  "set_role r m = m\<lparr>mb_role := r\<rparr>"

record member_req =
  mr_member :: string
  mr_role :: string

definition update_member_role ::
  "ofaults \<Rightarrow> principal \<Rightarrow> string \<Rightarrow> member_req option \<Rightarrow> org \<Rightarrow> (uuid \<times> role) resp \<times> org" where
  "update_member_role flt who ref body g =
     (case load_team_for_request flt who ref g of
        Inl e \<Rightarrow> (refuse e, g)
      | Inr (t, role) \<Rightarrow>
        if role \<noteq> RoleAdmin then (Error 403 ''forbidden'', g)
        else (case body of None \<Rightarrow> (Error 400 ''bad_request'', g) | Some b \<Rightarrow>
          let target = trim_space (mr_member b) in
          if target = [] then (Error 400 ''missing_member'', g)
          else (case normalise_role (mr_role b) of None \<Rightarrow> (Error 400 ''invalid_role'', g) | Some new \<Rightarrow>
            if flt ''tx begin'' then (Error 500 ''internal'', g)
            else (case fetch flt ''lookup member'' (\<lambda>m. mb_team m = tm_id t \<and> mb_user m = target) (members g) of
                NoRows \<Rightarrow> (Error 404 ''member_not_found'', g)
              | DbErr \<Rightarrow> (Error 500 ''internal'', g)
              | Row m \<Rightarrow>
                  if mb_role m = new then (Answer 200 (target, new), g)
                  else if mb_role m = RoleAdmin \<and> new \<noteq> RoleAdmin \<and> flt ''count admins'' then
                    (Error 500 ''internal'', g)
                  else if mb_role m = RoleAdmin \<and> new \<noteq> RoleAdmin \<and> team_admins (tm_id t) (members g) \<le> 1 then
                    (Error 409 ''last_admin'', g)
                  else if flt ''update member role'' \<or> flt ''tx commit'' then (Error 500 ''internal'', g)
                  else (Answer 200 (target, new),
                    record_audit flt (tm_id t) (pr_user who) ''updateMemberRole'' ''user'' target
                      (g\<lparr>members := sql_update (\<lambda>m. mb_team m = tm_id t \<and> mb_user m = target) (set_role new)
                                     (members g)\<rparr>))))))"

definition leave_team :: "uuid \<Rightarrow> uuid \<Rightarrow> member list \<Rightarrow> member list" where
  "leave_team tid uid ms = filter (\<lambda>m. \<not> (mb_team m = tid \<and> mb_user m = uid)) ms"

definition remove_member ::
  "ofaults \<Rightarrow> principal \<Rightarrow> string \<Rightarrow> string option \<Rightarrow> org \<Rightarrow> uuid resp \<times> org" where
  "remove_member flt who ref body g =
     (case load_team_for_request flt who ref g of
        Inl e \<Rightarrow> (refuse e, g)
      | Inr (t, role) \<Rightarrow>
        (case body of None \<Rightarrow> (Error 400 ''bad_request'', g) | Some b \<Rightarrow>
          let target = trim_space b in
          if target = [] then (Error 400 ''missing_member'', g)
          else if target \<noteq> pr_user who \<and> role \<noteq> RoleAdmin then (Error 403 ''forbidden'', g)
          else if flt ''tx begin'' then (Error 500 ''internal'', g)
          else (case fetch flt ''lookup member'' (\<lambda>m. mb_team m = tm_id t \<and> mb_user m = target) (members g) of
              NoRows \<Rightarrow> (Error 404 ''member_not_found'', g)
            | DbErr \<Rightarrow> (Error 500 ''internal'', g)
            | Row m \<Rightarrow>
                if mb_role m = RoleAdmin \<and> flt ''count admins'' then (Error 500 ''internal'', g)
                else if mb_role m = RoleAdmin \<and> team_admins (tm_id t) (members g) \<le> 1 then
                  (Error 409 ''last_admin'', g)
                else if flt ''remove member'' \<or> flt ''tx commit'' then (Error 500 ''internal'', g)
                else (Answer 200 target,
                  record_audit flt (tm_id t) (pr_user who) ''removeMember'' ''user'' target
                    (g\<lparr>members := leave_team (tm_id t) target (members g)\<rparr>)))))"

end
