(* ===== verification/Listing.thy ===== *)
theory Listing
  imports Org Naming "HOL-Library.Product_Lexorder" "HOL-Library.List_Lexorder" "HOL-Library.Char_ord"
begin

text \<open>
  The keyset pagination that every list endpoint repeats: the rows of the scope in the order of
  \<open>(created_at, id)\<close>, one more than the limit, cut, with the id of the last row handed out as the
  cursor of the next page. UUIDs are ordered as their canonical text.
\<close>

definition page ::
  "bool \<Rightarrow> ('r \<Rightarrow> int \<times> uuid) \<Rightarrow> (int \<times> uuid) option \<Rightarrow> nat \<Rightarrow> 'r list \<Rightarrow> 'r list \<times> uuid option" where
  "page desc key after n rows =
     (let sel = (case after of None \<Rightarrow> rows
                 | Some k \<Rightarrow> filter (\<lambda>r. if desc then key r < k else k < key r) rows);
          ord = (if desc then rev (sort_key key sel) else sort_key key sel);
          got = take (n + 1) ord
      in if n < length got then (take n got, Some (snd (key (got ! (n - 1))))) else (got, None))"

text \<open>
  A list request: the limit, then the cursor, which must name one of \<open>cursors\<close> (the rows the caller may
  page from), then the page of \<open>rows\<close>. \<open>site\<close> labels the two queries.
\<close>

definition list_page ::
  "ofaults \<Rightarrow> string \<Rightarrow> bool \<Rightarrow> ('r \<Rightarrow> int \<times> uuid) \<Rightarrow> 'r list \<Rightarrow> 'r list \<Rightarrow> int \<Rightarrow> string
     \<Rightarrow> ('r list \<times> uuid option) resp" where
  "list_page flt site desc key cursors rows limit cursor =
     (if cursor = [] then
        (if flt (''list '' @ site) then Error 500 ''internal'' else Answer 200 (page desc key None (nat limit) rows))
      else case fetch flt (''resolve '' @ site @ '' cursor'') (\<lambda>r. snd (key r) = cursor) cursors of
          NoRows \<Rightarrow> Error 400 ''invalid_cursor''
        | DbErr \<Rightarrow> Error 500 ''internal''
        | Row c \<Rightarrow>
            (if flt (''list '' @ site) then Error 500 ''internal''
             else Answer 200 (page desc key (Some (key c)) (nat limit) rows)))"

definition with_limit :: "int option \<Rightarrow> (int \<Rightarrow> 'a resp) \<Rightarrow> 'a resp" where
  "with_limit l k = (case l of None \<Rightarrow> Error 400 ''invalid_limit'' | Some n \<Rightarrow> k n)"

definition team_key :: "team \<Rightarrow> int \<times> uuid" where "team_key t = (tm_created t, tm_id t)"
definition project_key :: "project \<Rightarrow> int \<times> uuid" where "project_key p = (pj_created p, pj_id p)"
definition token_key :: "token \<Rightarrow> int \<times> uuid" where "token_key k = (tk_created k, tk_id k)"
definition member_key :: "member \<times> user \<Rightarrow> int \<times> uuid" where
  "member_key x = (mb_created (fst x), us_id (snd x))"
definition deployment_key :: "deployment \<times> dep_doc \<Rightarrow> int \<times> uuid" where
  "deployment_key x = (dd_created (snd x), d_id (fst x))"

section \<open>The list endpoints (api/teams.go, api/projects.go, api/access_tokens.go)\<close>

definition my_teams :: "uuid \<Rightarrow> org \<Rightarrow> team list" where
  "my_teams uid g = filter (\<lambda>t. sql_exists (\<lambda>m. mb_team m = tm_id t \<and> mb_user m = uid) (members g)) (teams g)"

definition list_my_teams ::
  "ofaults \<Rightarrow> principal \<Rightarrow> string \<Rightarrow> string \<Rightarrow> org \<Rightarrow> (team list \<times> uuid option) resp" where
  "list_my_teams flt who limit cursor g =
     (if pr_user who = [] then Error 401 ''unauthorized''
      else with_limit (parse_list_limit limit) (\<lambda>n.
        list_page flt ''teams'' False team_key (my_teams (pr_user who) g) (my_teams (pr_user who) g) n cursor))"

definition list_projects ::
  "ofaults \<Rightarrow> principal \<Rightarrow> string \<Rightarrow> string \<Rightarrow> string \<Rightarrow> org \<Rightarrow> (project list \<times> uuid option) resp" where
  "list_projects flt who ref limit cursor g =
     (case load_team_for_request flt who ref g of
        Inl e \<Rightarrow> refuse e
      | Inr (t, _) \<Rightarrow>
          (let rows = filter (\<lambda>p. pj_team p = tm_id t) (projects g)
           in with_limit (parse_list_limit limit) (\<lambda>n.
                list_page flt ''projects'' False project_key rows rows n cursor)))"

definition team_members :: "uuid \<Rightarrow> org \<Rightarrow> (member \<times> user) list" where
  "team_members tid g =
     filter (\<lambda>(m, u). mb_team m = tid \<and> us_id u = mb_user m) (List.product (members g) (users g))"

definition list_members ::
  "ofaults \<Rightarrow> principal \<Rightarrow> string \<Rightarrow> string \<Rightarrow> string \<Rightarrow> org
     \<Rightarrow> ((member \<times> user) list \<times> uuid option) resp" where
  "list_members flt who ref limit cursor g =
     (case load_team_for_request flt who ref g of
        Inl e \<Rightarrow> refuse e
      | Inr (t, _) \<Rightarrow>
          (let rows = team_members (tm_id t) g
           in with_limit (parse_list_limit limit) (\<lambda>n.
                list_page flt ''members'' False member_key rows rows n cursor)))"

text \<open>
  Deployments of a team or a project, deleted ones left out. The rewriting of the URL in each answer is
  \<open>public_url\<close> and \<open>site_url\<close> of \<open>DeploymentUrl\<close>.
\<close>

definition live_deployments :: "(project \<Rightarrow> bool) \<Rightarrow> org \<Rightarrow> (deployment \<times> dep_doc) list" where
  "live_deployments q g =
     filter (\<lambda>(d, x). dd_dep x = d_id d \<and> d_status d \<noteq> DDeleted
                      \<and> sql_exists (\<lambda>p. pj_id p = d_project d \<and> q p) (projects g))
       (List.product (deps (sys g)) (dep_docs g))"

definition team_list_deployments ::
  "ofaults \<Rightarrow> principal \<Rightarrow> string \<Rightarrow> string \<Rightarrow> string \<Rightarrow> org
     \<Rightarrow> ((deployment \<times> dep_doc) list \<times> uuid option) resp" where
  "team_list_deployments flt who ref limit cursor g =
     (case load_team_for_request flt who ref g of
        Inl e \<Rightarrow> refuse e
      | Inr (t, _) \<Rightarrow>
          (let rows = live_deployments (\<lambda>p. pj_team p = tm_id t) g
           in with_limit (parse_list_limit limit) (\<lambda>n.
                list_page flt ''deployments'' False deployment_key rows rows n cursor)))"

definition project_list_deployments ::
  "ofaults \<Rightarrow> principal \<Rightarrow> string \<Rightarrow> string \<Rightarrow> string \<Rightarrow> org
     \<Rightarrow> ((deployment \<times> dep_doc) list \<times> uuid option) resp" where
  "project_list_deployments flt who ref limit cursor g =
     (case load_project_for_request flt who ref g of
        Inl e \<Rightarrow> refuse e
      | Inr (p, _, _) \<Rightarrow>
          (let rows = live_deployments (\<lambda>x. pj_id x = pj_id p) g
           in with_limit (parse_list_limit limit) (\<lambda>n.
                list_page flt ''project deployments'' False deployment_key rows rows n cursor)))"

text \<open>
  Access tokens, newest first; an empty scope lists all tokens of the owner. The cursor is compared
  with a UUID column, so a text that is no UUID fails the query.
\<close>

definition owner_tokens :: "uuid \<Rightarrow> string \<Rightarrow> string \<Rightarrow> org \<Rightarrow> token list" where
  "owner_tokens uid scope sid g =
     filter (\<lambda>k. tk_user k = uid \<and> (scope = [] \<or> tk_scope k = scope \<and> tk_scope_id k = Some sid)) (tokens g)"

definition list_for_owner ::
  "ofaults \<Rightarrow> (string \<Rightarrow> bool) \<Rightarrow> uuid \<Rightarrow> string \<Rightarrow> string \<Rightarrow> int \<Rightarrow> string \<Rightarrow> org
     \<Rightarrow> (token list \<times> uuid option) resp" where
  "list_for_owner flt is_uuid uid scope sid limit cursor g =
     (if cursor \<noteq> [] \<and> \<not> is_uuid cursor then Error 500 ''internal''
      else list_page flt ''access tokens'' True token_key (owner_tokens uid [] [] g)
             (owner_tokens uid scope sid g) limit cursor)"

definition list_tokens ::
  "ofaults \<Rightarrow> (string \<Rightarrow> bool) \<Rightarrow> principal \<Rightarrow> string \<Rightarrow> string \<Rightarrow> org \<Rightarrow> (token list \<times> uuid option) resp" where
  "list_tokens flt is_uuid who limit cursor g =
     (if pr_user who = [] then Error 401 ''unauthorized''
      else with_limit (parse_token_list_limit limit) (\<lambda>n.
        list_for_owner flt is_uuid (pr_user who) [] [] n cursor g))"

definition list_team_access_tokens ::
  "ofaults \<Rightarrow> (string \<Rightarrow> bool) \<Rightarrow> principal \<Rightarrow> string \<Rightarrow> string \<Rightarrow> string \<Rightarrow> org
     \<Rightarrow> (token list \<times> uuid option) resp" where
  "list_team_access_tokens flt is_uuid who ref limit cursor g =
     (case load_team_for_request flt who ref g of
        Inl e \<Rightarrow> refuse e
      | Inr (t, _) \<Rightarrow> with_limit (parse_token_list_limit limit) (\<lambda>n.
          list_for_owner flt is_uuid (pr_user who) ''team'' (tm_id t) n cursor g))"

definition list_project_scoped_tokens ::
  "ofaults \<Rightarrow> (string \<Rightarrow> bool) \<Rightarrow> principal \<Rightarrow> string \<Rightarrow> string \<Rightarrow> string \<Rightarrow> string \<Rightarrow> org
     \<Rightarrow> (token list \<times> uuid option) resp" where
  "list_project_scoped_tokens flt is_uuid who ref scope limit cursor g =
     (case load_project_for_request flt who ref g of
        Inl e \<Rightarrow> refuse e
      | Inr (p, _, _) \<Rightarrow> with_limit (parse_token_list_limit limit) (\<lambda>n.
          list_for_owner flt is_uuid (pr_user who) scope (pj_id p) n cursor g))"

end
