(* ===== verification/Invites.thy ===== *)
theory Invites
  imports Teams Listing
begin

text \<open>
  Projects created in a team, invites and their acceptance, and the account endpoints (api/teams.go,
  api/invites.go, api/me.go).
\<close>

section \<open>createProject\<close>

definition project_slug_taken :: "ofaults \<Rightarrow> uuid \<Rightarrow> org \<Rightarrow> string \<Rightarrow> bool option" where
  "project_slug_taken flt tid g c =
     (if flt ''project slug'' \<or> \<not> valid_utf8 c then None
      else Some (sql_exists (\<lambda>p. pj_team p = tid \<and> ci_eq (pj_slug p) c) (projects g)))"

definition insert_project :: "api \<Rightarrow> uuid \<Rightarrow> string \<Rightarrow> string \<Rightarrow> org \<Rightarrow> project \<times> org" where
  "insert_project a tid name slug g =
     (let p = \<lparr>pj_id = new_id (a_uuid a) g, pj_team = tid, pj_name = name, pj_slug = slug,
               pj_demo = False, pj_created = now g\<rparr>
      in (p, (took_id g)\<lparr>projects := projects g @ [p]\<rparr>))"

definition create_project_attempt ::
  "ofaults \<Rightarrow> api \<Rightarrow> uuid \<Rightarrow> string \<Rightarrow> nat \<Rightarrow> org \<times> project option
     \<Rightarrow> db_error option \<times> (org \<times> project option)" where
  "create_project_attempt flt a tid name k s =
     (case allocate_slug (a_unicode a) (a_slugs a k) (project_slug_taken flt tid (fst s)) name of
        Inl e \<Rightarrow> (Some (OtherError e), s)
      | Inr slug \<Rightarrow>
          (let g = a_others a k (fst s) in
           if flt ''create project'' then (Some (OtherError ''query failed''), (g, snd s))
           else if sql_exists (\<lambda>p. pj_team p = tid \<and> ci_eq (pj_slug p) slug) (projects g) then
             (Some (UniqueViolation ''projects_team_id_slug_key''), (g, snd s))
           else if sql_exists (\<lambda>p. pj_id p = new_id (a_uuid a) g) (projects g) then
             (Some (UniqueViolation ''projects_pkey''), (g, snd s))
           else if \<not> sql_exists (\<lambda>t. tm_id t = tid) (teams g) \<or> \<not> valid_utf8 name then
             (Some (OtherError ''constraint''), (g, snd s))
           else (case insert_project a tid name slug g of (p, g1) \<Rightarrow> (None, (g1, Some p)))))"

definition create_project ::
  "ofaults \<Rightarrow> api \<Rightarrow> principal \<Rightarrow> string \<Rightarrow> string option \<Rightarrow> org \<Rightarrow> project resp \<times> org" where
  "create_project flt a who ref body g =
     (case load_team_for_request flt who ref g of
        Inl e \<Rightarrow> (refuse e, g)
      | Inr (t, _) \<Rightarrow>
        (case body of None \<Rightarrow> (Error 400 ''bad_request'', g) | Some b \<Rightarrow>
          let name = trim_space b in
          if name = [] then (Error 400 ''missing_name'', g)
          else (case with_retry_on_unique_violation (a_cancelled a) 10
                       (create_project_attempt flt a (tm_id t) name) (g, None) of
                  (None, (g1, Some p)) \<Rightarrow>
                    (Answer 201 p,
                     record_audit flt (tm_id t) (pr_user who) ''createProject'' ''project'' (pj_id p) g1)
                | (_, (g1, _)) \<Rightarrow> (Error 500 ''internal'', g1))))"

section \<open>Invites\<close>

record invite_req =
  iq_email :: string
  iq_role :: string

definition invited_role :: "string \<Rightarrow> role" where
  "invited_role r = (if r = ''admin'' then RoleAdmin else RoleMember)"

definition renew_invite :: "role \<Rightarrow> string \<Rightarrow> uuid \<Rightarrow> invite \<Rightarrow> invite" where
  "renew_invite r tok by i = i\<lparr>iv_role := r, iv_token := tok, iv_by := by, iv_accepted := None\<rparr>"

definition upsert_invite :: "api \<Rightarrow> uuid \<Rightarrow> string \<Rightarrow> role \<Rightarrow> uuid \<Rightarrow> string \<Rightarrow> org \<Rightarrow> uuid \<times> org" where
  "upsert_invite a tid email r by tok g =
     (case sql_row (\<lambda>i. iv_team i = tid \<and> ci_eq (iv_email i) email) (invites g) of
        Some i \<Rightarrow> (iv_id i, g\<lparr>invites := sql_update (\<lambda>i. iv_team i = tid \<and> ci_eq (iv_email i) email)
                                           (renew_invite r tok by) (invites g)\<rparr>)
      | None \<Rightarrow>
          (let i = \<lparr>iv_id = new_id (a_uuid a) g, iv_team = tid, iv_email = email, iv_role = r, iv_by = by,
                    iv_token = tok, iv_created = now g, iv_accepted = None\<rparr>
           in (iv_id i, (took_id g)\<lparr>invites := invites g @ [i]\<rparr>)))"

text \<open>The answer carries the id, the role, the token and whether the mail went out.\<close>

definition invite_member ::
  "ofaults \<Rightarrow> api \<Rightarrow> principal \<Rightarrow> string \<Rightarrow> invite_req option \<Rightarrow> org
     \<Rightarrow> (uuid \<times> role \<times> string \<times> bool) resp \<times> org" where
  "invite_member flt a who ref body g =
     (case load_team_for_request flt who ref g of
        Inl e \<Rightarrow> (refuse e, g)
      | Inr (t, role) \<Rightarrow>
        if role \<noteq> RoleAdmin then (Error 403 ''forbidden'', g)
        else (case body of None \<Rightarrow> (Error 400 ''bad_request'', g) | Some b \<Rightarrow>
          let email = trim_space (iq_email b); r = invited_role (iq_role b) in
          if email = [] \<or> CHR ''@'' \<notin> set email then (Error 400 ''invalid_email'', g)
          else (case generate_token a ''syn_'' g of None \<Rightarrow> (Error 500 ''internal'', g) | Some (plain, _) \<Rightarrow>
            if flt ''create invite'' then (Error 500 ''internal'', g)
            else (case upsert_invite a (tm_id t) email r (pr_user who) plain (took_id g) of (iid, g1) \<Rightarrow>
              (Answer 200 (iid, r, plain, a_public_url a \<noteq> [] \<and> a_mail a email = Some True),
               record_audit flt (tm_id t) (pr_user who) ''inviteTeamMember'' ''invite'' iid g1)))))"

definition list_invites :: "ofaults \<Rightarrow> principal \<Rightarrow> string \<Rightarrow> org \<Rightarrow> invite list resp" where
  "list_invites flt who ref g =
     (case load_team_for_request flt who ref g of
        Inl e \<Rightarrow> refuse e
      | Inr (t, role) \<Rightarrow>
        if role \<noteq> RoleAdmin then Error 403 ''forbidden''
        else if flt ''list invites'' then Error 500 ''internal''
        else Answer 200 (sort_key (\<lambda>i. - iv_created i)
               (filter (\<lambda>i. iv_team i = tm_id t \<and> iv_accepted i = None) (invites g))))"

definition cancel_invite :: "ofaults \<Rightarrow> principal \<Rightarrow> string \<Rightarrow> string \<Rightarrow> org \<Rightarrow> uuid resp \<times> org" where
  "cancel_invite flt who ref iid g =
     (case load_team_for_request flt who ref g of
        Inl e \<Rightarrow> (refuse e, g)
      | Inr (t, role) \<Rightarrow>
        let hit = (\<lambda>i. iv_id i = iid \<and> iv_team i = tm_id t \<and> iv_accepted i = None) in
        if role \<noteq> RoleAdmin then (Error 403 ''forbidden'', g)
        else if flt ''cancel invite'' then (Error 500 ''internal'', g)
        else if sql_count hit (invites g) = 0 then (Error 404 ''invite_not_found'', g)
        else (Answer 200 iid, record_audit flt (tm_id t) (pr_user who) ''cancelInvite'' ''invite'' iid
                (g\<lparr>invites := filter (\<lambda>i. \<not> hit i) (invites g)\<rparr>)))"

definition consume_invite :: "int \<Rightarrow> invite \<Rightarrow> invite" where
  "consume_invite t i = i\<lparr>iv_accepted := Some t\<rparr>"

definition join_team :: "uuid \<Rightarrow> uuid \<Rightarrow> role \<Rightarrow> org \<Rightarrow> org" where
  "join_team tid uid r g =
     (if sql_exists (\<lambda>m. mb_team m = tid \<and> mb_user m = uid) (members g) then g
      else g\<lparr>members := members g @ [\<lparr>mb_team = tid, mb_user = uid, mb_role = r, mb_created = now g\<rparr>]\<rparr>)"

text \<open>\<open>team_members.user_id\<close> references users; the whole of it is one transaction.\<close>

definition accept_invite ::
  "ofaults \<Rightarrow> principal \<Rightarrow> string option \<Rightarrow> org \<Rightarrow> (uuid \<times> role) resp \<times> org" where
  "accept_invite flt who body g =
     (if pr_user who = [] then (Error 401 ''unauthorized'', g)
      else case body of None \<Rightarrow> (Error 400 ''bad_request'', g) | Some tok \<Rightarrow>
        if tok = [] then (Error 400 ''missing_token'', g)
        else if flt ''tx begin'' then (Error 500 ''internal'', g)
        else (case fetch flt ''lookup invite'' (\<lambda>i. iv_token i = tok \<and> iv_accepted i = None) (invites g) of
            NoRows \<Rightarrow> (Error 404 ''invite_not_found'', g)
          | DbErr \<Rightarrow> (Error 500 ''internal'', g)
          | Row i \<Rightarrow>
              if flt ''add member'' \<or> \<not> sql_exists (\<lambda>u. us_id u = pr_user who) (users g) then
                (Error 500 ''internal'', g)
              else if flt ''mark accepted'' then (Error 500 ''internal'', g)
              else (case fetch flt ''read team'' (\<lambda>t. tm_id t = iv_team i) (teams g) of
                  Row t \<Rightarrow>
                    (if flt ''tx commit'' then (Error 500 ''internal'', g)
                     else (Answer 200 (tm_id t, iv_role i),
                       record_audit flt (iv_team i) (pr_user who) ''acceptInvite'' ''team'' (iv_team i)
                         ((join_team (iv_team i) (pr_user who) (iv_role i) g)
                            \<lparr>invites := sql_update (\<lambda>x. iv_id x = iv_id i) (consume_invite (now g)) (invites g)\<rparr>)))
                | _ \<Rightarrow> (Error 500 ''internal'', g))))"

section \<open>The account\<close>

definition me :: "ofaults \<Rightarrow> principal \<Rightarrow> org \<Rightarrow> user resp" where
  "me flt who g =
     (if pr_user who = [] then Error 401 ''unauthorized''
      else case fetch flt ''fetch user'' (\<lambda>u. us_id u = pr_user who) (users g) of
          NoRows \<Rightarrow> Error 404 ''user_not_found''
        | DbErr \<Rightarrow> Error 500 ''internal''
        | Row u \<Rightarrow> Answer 200 u)"

definition rename_user :: "int \<Rightarrow> string \<Rightarrow> user \<Rightarrow> user" where
  "rename_user t name u = u\<lparr>us_name := name, us_updated := t\<rparr>"

definition update_profile_name :: "ofaults \<Rightarrow> principal \<Rightarrow> string option \<Rightarrow> org \<Rightarrow> user resp \<times> org" where
  "update_profile_name flt who body g =
     (if pr_user who = [] then (Error 401 ''unauthorized'', g)
      else case body of None \<Rightarrow> (Error 400 ''bad_request'', g) | Some b \<Rightarrow>
        if trim_space b = [] then (Error 400 ''missing_name'', g)
        else (case fetch flt ''update profile name'' (\<lambda>u. us_id u = pr_user who) (users g) of
            NoRows \<Rightarrow> (Error 404 ''user_not_found'', g)
          | DbErr \<Rightarrow> (Error 500 ''internal'', g)
          | Row u \<Rightarrow>
              (Answer 200 (rename_user (now g) (trim_space b) u),
               record_audit flt [] (pr_user who) ''updateProfileName'' ''user'' (pr_user who)
                 (g\<lparr>users := sql_update (\<lambda>u. us_id u = pr_user who) (rename_user (now g) (trim_space b)) (users g)\<rparr>))))"

definition orphaned_teams :: "uuid \<Rightarrow> org \<Rightarrow> nat" where
  "orphaned_teams uid g = sql_count (\<lambda>m. mb_user m = uid \<and> mb_role m = RoleAdmin
     \<and> team_admins (mb_team m) (members g) = 1) (members g)"

definition created_teams :: "uuid \<Rightarrow> org \<Rightarrow> nat" where
  "created_teams uid g = sql_count (\<lambda>t. tm_creator t = uid) (teams g)"

definition delete_account :: "ofaults \<Rightarrow> principal \<Rightarrow> org \<Rightarrow> uuid resp \<times> org" where
  "delete_account flt who g =
     (let uid = pr_user who in
      if uid = [] then (Error 401 ''unauthorized'', g)
      else case fetch flt ''load user'' (\<lambda>u. us_id u = uid) (users g) of
          NoRows \<Rightarrow> (Error 404 ''user_not_found'', g)
        | DbErr \<Rightarrow> (Error 500 ''internal'', g)
        | Row u \<Rightarrow>
            if flt ''count orphaned teams'' then (Error 500 ''internal'', g)
            else if 0 < orphaned_teams uid g then (Error 409 ''last_admin'', g)
            else if flt ''count created teams'' then (Error 500 ''internal'', g)
            else if 0 < created_teams uid g then (Error 409 ''team_creator'', g)
            else (let g1 = record_audit flt [] uid ''deleteAccount'' ''user'' uid g in
                  if flt ''delete user'' then (Error 500 ''internal'', g1)
                  else (Answer 200 uid, drop_user uid g1)))"

text \<open>Teams of the caller and their projects; a project query that fails loses the whole answer.\<close>

definition member_data :: "ofaults \<Rightarrow> principal \<Rightarrow> org \<Rightarrow> (team list \<times> project list) resp" where
  "member_data flt who g =
     (if pr_user who = [] then Error 401 ''unauthorized''
      else if flt ''list teams for member_data'' then Error 500 ''internal''
      else (let ts = sort_key team_key (my_teams (pr_user who) g) in
            if ts = [] then Answer 200 ([], [])
            else if flt ''list projects for member_data'' then Error 500 ''internal''
            else Answer 200 (ts, sort_key project_key
                   (filter (\<lambda>p. pj_team p \<in> tm_id ` set ts) (projects g)))))"

end
