(* ===== verification/Reconcile.thy ===== *)
theory Reconcile
  imports Provision
begin

text \<open>
  The reconcile job (reconcile.go): the guards that run at execution time (adopted, deleted, the
  apply switch), the create and restart actions, and the ledger entry each outcome leaves before
  the run is rolled up.
\<close>

section \<open>The apply switch at execution time\<close>

definition apply_enabled_now :: "worker \<Rightarrow> faults \<Rightarrow> state \<Rightarrow> bool" where
  "apply_enabled_now w flt s =
     (if flt QApplyGate \<noteq> None then False
      else case apply_row s of Some b \<Rightarrow> b | None \<Rightarrow> cf_apply (wk_config w))"

section \<open>Ledger outcomes\<close>

definition succeed_reconcile :: "faults \<Rightarrow> claimed_job \<Rightarrow> string \<Rightarrow> state \<Rightarrow> state" where
  "succeed_reconcile flt j msg s =
     rollup_reconcile_run flt (cj_run j)
       (write_reconcile_step flt (cj_step j) SSucceeded [] (Some msg) (mark_done flt (cj_id j) s))"

definition skip_reconcile :: "faults \<Rightarrow> claimed_job \<Rightarrow> string \<Rightarrow> state \<Rightarrow> state" where
  "skip_reconcile flt j reason s =
     rollup_reconcile_run flt (cj_run j)
       (write_reconcile_step flt (cj_step j) SSkipped reason None (mark_done flt (cj_id j) s))"

definition no_op_reconcile :: "faults \<Rightarrow> claimed_job \<Rightarrow> string \<Rightarrow> state \<Rightarrow> state" where
  "no_op_reconcile flt j reason s =
     rollup_reconcile_run flt (cj_run j)
       (write_reconcile_step flt (cj_step j) SNoOp reason None (mark_done flt (cj_id j) s))"

definition fail_reconcile :: "faults \<Rightarrow> claimed_job \<Rightarrow> string \<Rightarrow> state \<Rightarrow> state" where
  "fail_reconcile flt j e s =
     rollup_reconcile_run flt (cj_run j)
       (write_reconcile_step flt (cj_step j) SFailed e None
         (mark_failed flt (cj_id j) (cj_deployment j) e s))"

section \<open>Create\<close>

definition claim_for_create :: "int \<Rightarrow> deployment \<Rightarrow> deployment" where
  "claim_for_create now d = d\<lparr>d_status := DProvisioning, d_last_deploy := Some now\<rparr>"

definition creatable :: "uuid \<Rightarrow> deployment \<Rightarrow> bool" where
  "creatable i d \<longleftrightarrow> d_id d = i \<and> \<not> d_adopted d \<and> d_status d \<noteq> DProvisioning \<and> d_status d \<noteq> DDeleted"

text \<open>The result is whether the body panicked.\<close>

definition reconcile_create :: "worker \<Rightarrow> faults \<Rightarrow> claimed_job \<Rightarrow> state \<Rightarrow> bool \<times> state" where
  "reconcile_create w flt j s =
     (case flt QCreateClaim of
        Some e \<Rightarrow> (False, fail_reconcile flt j (''claim for create: '' @ e) s)
      | None \<Rightarrow>
          if sql_count (creatable (cj_deployment j)) (deps s) = 0 then
            (let st = (case find_dep (cj_deployment j) s of None \<Rightarrow> [] | Some d \<Rightarrow> status_text (d_status d))
             in (False, no_op_reconcile flt j (''deployment already '' @ st @ ''; nothing to create'') s))
          else
            (let s1 = s\<lparr>deps := sql_update (creatable (cj_deployment j)) (claim_for_create (clock s)) (deps s)\<rparr>
             in case docker_for_job w flt j s1 of
                  (None, s2) \<Rightarrow> (False, fail_reconcile flt j ''remote host dispatch unavailable'' s2)
                | (Some dk, s2) \<Rightarrow>
                    (let sp = build_spec (wk_config w) flt j s2 in
                     case call_out (provision_call sp) (dk_provision dk sp) s2 of
                       (Panic, s3) \<Rightarrow> (True, s3)
                     | (Err e, s3) \<Rightarrow> (False, fail_reconcile flt j (''provision: '' @ e) s3)
                     | (Ok i, s3) \<Rightarrow>
                         (case mark_provision_running flt j i s3 of
                            (Inl e, s4) \<Rightarrow> (False, fail_reconcile flt j (''mark running: '' @ e) s4)
                          | (Inr _, s4) \<Rightarrow> (False, succeed_reconcile flt j ''container created'' s4)))))"

section \<open>Restart\<close>

definition restart_dep :: "int \<Rightarrow> deployment \<Rightarrow> deployment" where
  "restart_dep now d = d\<lparr>d_status := DRunning, d_last_deploy := Some now\<rparr>"

definition reconcile_restart :: "worker \<Rightarrow> faults \<Rightarrow> claimed_job \<Rightarrow> state \<Rightarrow> bool \<times> state" where
  "reconcile_restart w flt j s =
     (case docker_for_job w flt j s of
        (None, s1) \<Rightarrow> (False, fail_reconcile flt j ''remote host dispatch unavailable'' s1)
      | (Some dk, s1) \<Rightarrow>
          (case call_out (CRestart (cj_name j)) (dk_restart dk (cj_name j)) s1 of
             (Panic, s2) \<Rightarrow> (True, s2)
           | (Err e, s2) \<Rightarrow> (False, fail_reconcile flt j (''restart: '' @ e) s2)
           | (Ok _, s2) \<Rightarrow>
               (case flt QRestartMark of
                  Some e \<Rightarrow> (False, fail_reconcile flt j (''mark running: '' @ e) s2)
                | None \<Rightarrow>
                    (False, succeed_reconcile flt j ''container restarted''
                       (s2\<lparr>deps := sql_update (\<lambda>d. d_id d = cj_deployment j \<and> d_status d \<noteq> DDeleted)
                                     (restart_dep (clock s2)) (deps s2)\<rparr>)))))"

section \<open>runReconcile\<close>

definition msg_adopted_refused :: string where
  "msg_adopted_refused = ''adopted deployment '' @ em_dash @ '' reconcile refused''"

definition job_action_text :: "claimed_job \<Rightarrow> string" where
  "job_action_text j = (case cj_action j of None \<Rightarrow> [] | Some a \<Rightarrow> action_text a)"

definition quoted :: "string \<Rightarrow> string" where
  "quoted a = ''action '' @ [CHR 0x27] @ a @ [CHR 0x27] @ '' is not enabled in this build''"

definition run_reconcile_body :: "worker \<Rightarrow> faults \<Rightarrow> claimed_job \<Rightarrow> state \<Rightarrow> bool \<times> state" where
  "run_reconcile_body w flt j s =
     (if cj_adopted j then (False, skip_reconcile flt j msg_adopted_refused s)
      else if cj_status j = DDeleted then (False, skip_reconcile flt j ''deployment is deleted'' s)
      else if \<not> apply_enabled_now w flt s then
        (False, skip_reconcile flt j ''apply was disabled before this job ran'' s)
      else (case cj_action j of
              Some ActCreate \<Rightarrow> reconcile_create w flt j s
            | Some ActRestart \<Rightarrow> reconcile_restart w flt j s
            | Some ActStop \<Rightarrow> (False, skip_reconcile flt j (quoted (job_action_text j)) s)
            | Some ActRemove \<Rightarrow> (False, skip_reconcile flt j (quoted (job_action_text j)) s)
            | _ \<Rightarrow> (False, fail_reconcile flt j (''unknown reconcile action: '' @ job_action_text j) s)))"

definition run_reconcile :: "worker \<Rightarrow> faults \<Rightarrow> claimed_job \<Rightarrow> state \<Rightarrow> state" where
  "run_reconcile w flt j s =
     (case run_reconcile_body w flt j s of
        (panicked, s') \<Rightarrow>
          if panicked then fail_reconcile flt j ''panic in reconcile worker'' s' else s')"

end
