(* ===== verification/Upgrade.thy ===== *)
theory Upgrade
  imports Provision
begin

text \<open>
  The upgrade_to_ha job of worker.go: the checks before any work, the port allocator, the attempt
  (provision two replicas, copy the snapshot, swap the rows in one transaction) under the bounded
  retry on unique violations, and the clean-up of a losing attempt. The unique constraints of
  \<open>deployment_replicas\<close> and \<open>deployments\<close> are checked where the swap writes.
\<close>

section \<open>State of one upgrade\<close>

record up_replica =
  up_index :: int
  up_port :: int
  up_info :: info

record up_state =
  us_state :: state
  us_replicas :: "up_replica list"
  us_panicked :: bool

section \<open>Pre-conditions\<close>

definition ensure_upgradeable :: "faults \<Rightarrow> claimed_job \<Rightarrow> state \<Rightarrow> string option" where
  "ensure_upgradeable flt j s =
     (case flt QUpLoad of
        Some e \<Rightarrow> Some (''load deployment before upgrade: '' @ e)
      | None \<Rightarrow>
          (case find_dep (cj_deployment j) s of
             None \<Rightarrow> Some ''load deployment before upgrade: no rows in result set''
           | Some d \<Rightarrow>
               if d_adopted d then Some ''cannot upgrade adopted deployment''
               else if d_ha d then Some ''deployment already upgraded to HA''
               else if d_status d \<noteq> DRunning then
                 Some (''deployment must be running to upgrade; current status: '' @ status_text (d_status d))
               else None))"

section \<open>Ports\<close>

definition used_ports :: "state \<Rightarrow> int list" where
  "used_ports s =
     List.map_filter d_host_port (filter (\<lambda>d. d_status d \<noteq> DDeleted) (deps s))
     @ List.map_filter r_port (filter (\<lambda>r. r_status r \<noteq> DStopped \<and> r_status r \<noteq> DFailed) (reps s))"

definition free_ports :: "config \<Rightarrow> state \<Rightarrow> int list" where
  "free_ports cfg s = filter (\<lambda>p. p \<notin> set (used_ports s)) [cf_port_min cfg .. cf_port_max cfg]"

definition allocate_ports :: "faults \<Rightarrow> nat \<Rightarrow> config \<Rightarrow> nat \<Rightarrow> state \<Rightarrow> string + int list" where
  "allocate_ports flt attempt cfg n s =
     (case flt (QUpPorts attempt) of
        Some e \<Rightarrow> Inl e
      | None \<Rightarrow>
          (let out = take n (free_ports cfg s)
           in if length out < n then
                Inl (''allocate ports: only '' @ fmt_d (int (length out)) @ '' of '' @ fmt_d (int n)
                     @ '' requested ports free in range ['' @ fmt_d (cf_port_min cfg) @ '',''
                     @ fmt_d (cf_port_max cfg) @ '']'')
              else Inr out))"

section \<open>Clean-up\<close>

fun cleanup_upgrade_replicas :: "worker \<Rightarrow> string \<Rightarrow> up_replica list \<Rightarrow> state \<Rightarrow> bool \<times> state" where
  "cleanup_upgrade_replicas w name [] s = (False, s)"
| "cleanup_upgrade_replicas w name (r # rs) s =
     (case call_out (CDestroyReplica name (up_index r) True)
             (dk_destroy_replica (wk_docker w) name (up_index r) True) s of
        (Panic, s') \<Rightarrow> (True, s')
      | (_, s') \<Rightarrow> cleanup_upgrade_replicas w name rs s')"

section \<open>The swap transaction\<close>

definition retire_replica :: "replica \<Rightarrow> replica" where
  "retire_replica r = r\<lparr>r_index := -1, r_status := DStopped, r_port := None, r_last_seen := None\<rparr>"

definition new_replica :: "(int \<Rightarrow> uuid) \<Rightarrow> uuid \<Rightarrow> up_replica \<Rightarrow> replica" where
  "new_replica gen dep u = \<lparr>r_id = gen (up_index u), r_deployment = dep, r_index = up_index u,
     r_container = Some (in_container (up_info u)), r_port = Some (up_port u), r_status = DRunning,
     r_last_seen = None\<rparr>"

definition insert_conflict :: "uuid \<Rightarrow> up_replica \<Rightarrow> replica list \<Rightarrow> db_error option" where
  "insert_conflict dep u rs =
     (if sql_exists (\<lambda>r. r_deployment r = dep \<and> r_index r = up_index u) rs
      then Some (UniqueViolation ''deployment_replicas_deployment_id_replica_index_key'')
      else if sql_exists (\<lambda>r. r_port r = Some (up_port u)) rs
      then Some (UniqueViolation ''deployment_replicas_host_port_key'')
      else None)"

fun insert_replicas ::
  "faults \<Rightarrow> nat \<Rightarrow> (int \<Rightarrow> uuid) \<Rightarrow> uuid \<Rightarrow> up_replica list \<Rightarrow> replica list \<Rightarrow> db_error + replica list" where
  "insert_replicas flt attempt gen dep [] rs = Inr rs"
| "insert_replicas flt attempt gen dep (u # us) rs =
     (case flt (QSwapInsert attempt (up_index u)) of
        Some e \<Rightarrow> Inl (OtherError e)
      | None \<Rightarrow>
          (case insert_conflict dep u rs of
             Some e \<Rightarrow> Inl e
           | None \<Rightarrow> insert_replicas flt attempt gen dep us (rs @ [new_replica gen dep u])))"

definition upgrade_dep :: "int \<Rightarrow> up_replica \<Rightarrow> deployment \<Rightarrow> deployment" where
  "upgrade_dep now u d = d\<lparr>d_ha := True, d_replica_count := 2, d_host_port := Some (up_port u),
     d_container := Some (in_container (up_info u)), d_url := Some (in_url (up_info u)),
     d_status := DRunning, d_last_deploy := Some now\<rparr>"

definition port_taken :: "uuid \<Rightarrow> int \<Rightarrow> deployment list \<Rightarrow> bool" where
  "port_taken dep p ds = sql_exists (\<lambda>d. d_id d \<noteq> dep \<and> d_host_port d = Some p) ds"

definition legacy_row :: "uuid \<Rightarrow> replica \<Rightarrow> bool" where
  "legacy_row dep r \<longleftrightarrow> r_deployment r = dep \<and> r_index r = 0"

text \<open>\<open>finishUpgradeSwap\<close>. On an error the transaction is rolled back: the state is the one before.\<close>

definition finish_upgrade_swap ::
  "faults \<Rightarrow> nat \<Rightarrow> (int \<Rightarrow> uuid) \<Rightarrow> claimed_job \<Rightarrow> up_replica list \<Rightarrow> state \<Rightarrow> db_error option \<times> state" where
  "finish_upgrade_swap flt attempt gen j us s =
     (let dep = cj_deployment j in
      if length us \<noteq> 2 then
        (Some (OtherError (''upgrade swap requires 2 replicas, got '' @ fmt_d (int (length us)))), s)
      else case flt (QSwapBegin attempt) of Some e \<Rightarrow> (Some (OtherError e), s) | None \<Rightarrow>
      (case flt (QSwapLoad attempt) of Some e \<Rightarrow> (Some (OtherError e), s) | None \<Rightarrow>
      (case find_dep dep s of
         None \<Rightarrow> (Some (OtherError ''no rows in result set''), s)
       | Some d \<Rightarrow>
         if d_adopted d then (Some (OtherError ''deployment became adopted during upgrade''), s)
         else if d_ha d then (Some (OtherError ''deployment already upgraded during upgrade''), s)
         else if d_status d \<noteq> DRunning then
           (Some (OtherError (''deployment status changed during upgrade: '' @ status_text (d_status d))), s)
         else case flt (QSwapLegacy attempt) of Some e \<Rightarrow> (Some (OtherError e), s) | None \<Rightarrow>
         if sql_exists (\<lambda>r. r_deployment r = dep \<and> r_index r = -1) (reps s)
            \<and> 0 < sql_count (legacy_row dep) (reps s) then
           (Some (UniqueViolation ''deployment_replicas_deployment_id_replica_index_key''), s)
         else if sql_count (legacy_row dep) (reps s) = 0 then
           (Some (OtherError ''missing legacy replica row during upgrade swap''), s)
         else
           (let rs1 = sql_update (legacy_row dep) retire_replica (reps s) in
            case insert_replicas flt attempt gen dep us rs1 of
              Inl e \<Rightarrow> (Some e, s)
            | Inr rs2 \<Rightarrow>
                (case flt (QSwapDep attempt) of Some e \<Rightarrow> (Some (OtherError e), s) | None \<Rightarrow>
                 if port_taken dep (up_port (hd us)) (deps s) then
                   (Some (UniqueViolation ''deployments_host_port_key''), s)
                 else case flt (QSwapJob attempt) of Some e \<Rightarrow> (Some (OtherError e), s) | None \<Rightarrow>
                 (case flt (QSwapCommit attempt) of Some e \<Rightarrow> (Some (OtherError e), s) | None \<Rightarrow>
                  (None, s\<lparr>reps := rs2,
                     deps := sql_update (\<lambda>x. d_id x = dep) (upgrade_dep (clock s) (hd us)) (deps s),
                     jobs := sql_update (\<lambda>x. j_id x = cj_id j) (set_done (clock s)) (jobs s)\<rparr>)))))))"

section \<open>One attempt\<close>

definition replica_spec :: "claimed_job \<Rightarrow> string \<Rightarrow> string \<Rightarrow> int \<Rightarrow> int \<Rightarrow> spec" where
  "replica_spec j pub site idx port = \<lparr>sp_name = cj_name j, sp_deployment = cj_deployment j,
     sp_project = cj_project j, sp_secret = cj_secret j, sp_port = port, sp_env = cj_env j,
     sp_hc = cj_hc j, sp_index = idx, sp_ha = True, sp_storage = cj_storage j, sp_public = pub,
     sp_site = site, sp_cpus = 0, sp_memory = 0\<rparr>"

text \<open>The replicas built so far grow in the up-state; the result is the error that stopped the loop.\<close>

fun provision_replicas ::
  "worker \<Rightarrow> claimed_job \<Rightarrow> string \<Rightarrow> string \<Rightarrow> (int \<times> int) list \<Rightarrow> up_state \<Rightarrow> db_error option \<times> up_state" where
  "provision_replicas w j pub site [] u = (None, u)"
| "provision_replicas w j pub site ((idx, port) # rest) u =
     (let sp = replica_spec j pub site idx port in
      case call_out (provision_call sp) (dk_provision (wk_docker w) sp) (us_state u) of
        (Panic, s') \<Rightarrow> (Some (OtherError ''panic''), u\<lparr>us_state := s', us_panicked := True\<rparr>)
      | (Err e, s') \<Rightarrow> (Some (OtherError e), u\<lparr>us_state := s'\<rparr>)
      | (Ok i, s') \<Rightarrow> provision_replicas w j pub site rest
          (u\<lparr>us_state := s',
             us_replicas := us_replicas u @ [\<lparr>up_index = idx, up_port = port, up_info = i\<rparr>]\<rparr>))"

definition endpoint :: "string \<Rightarrow> int \<Rightarrow> bool \<Rightarrow> string" where
  "endpoint name idx ha = ''http://'' @ container_name name idx ha @ '':3210''"

definition migration :: "claimed_job \<Rightarrow> migration_spec" where
  "migration j = \<lparr>ms_name = cj_name j, ms_deployment = cj_deployment j, ms_project = cj_project j,
     ms_source = endpoint (cj_name j) 0 False, ms_source_key = cj_admin_key j,
     ms_targets = [endpoint (cj_name j) 0 True, endpoint (cj_name j) 1 True],
     ms_target_key = cj_admin_key j\<rparr>"

definition migrate_and_swap ::
  "worker \<Rightarrow> faults \<Rightarrow> (int \<Rightarrow> uuid) \<Rightarrow> (migration_spec \<Rightarrow> unit ext) \<Rightarrow> claimed_job \<Rightarrow> nat \<Rightarrow> up_state
     \<Rightarrow> db_error option \<times> up_state" where
  "migrate_and_swap w flt gen mig j attempt u =
     (let m = migration j in
      case call_out (CMigrate (ms_source m) (ms_targets m)) (mig m) (us_state u) of
        (Panic, s') \<Rightarrow> (Some (OtherError ''panic''), u\<lparr>us_state := s', us_panicked := True\<rparr>)
      | (Err e, s') \<Rightarrow> (Some (OtherError e), u\<lparr>us_state := s'\<rparr>)
      | (Ok _, s') \<Rightarrow>
          (case finish_upgrade_swap flt attempt gen j (us_replicas u) s' of
             (e, s'') \<Rightarrow> (e, u\<lparr>us_state := s''\<rparr>)))"

definition upgrade_attempt ::
  "worker \<Rightarrow> faults \<Rightarrow> config \<Rightarrow> (int \<Rightarrow> uuid) \<Rightarrow> (migration_spec \<Rightarrow> unit ext) \<Rightarrow> claimed_job \<Rightarrow> nat
     \<Rightarrow> up_state \<Rightarrow> db_error option \<times> up_state" where
  "upgrade_attempt w flt cfg gen mig j attempt u =
     (case cleanup_upgrade_replicas w (cj_name j) (us_replicas u) (us_state u) of
        (True, s1) \<Rightarrow> (Some (OtherError ''panic''), u\<lparr>us_state := s1, us_panicked := True\<rparr>)
      | (False, s1) \<Rightarrow>
          (let u1 = u\<lparr>us_state := s1, us_replicas := []\<rparr> in
           case allocate_ports flt attempt cfg 2 s1 of
             Inl e \<Rightarrow> (Some (OtherError e), u1)
           | Inr ports \<Rightarrow>
               (let pub = compute_public_origin (wk_config w) flt (cj_deployment j) (cj_name j) (hd ports) s1;
                    site = compute_site_origin (wk_config w) flt (cj_deployment j) (cj_name j) s1
                in case provision_replicas w j pub site (zip [0..int (length ports) - 1] ports) u1 of
                     (Some e, u2) \<Rightarrow> (Some e, u2)
                   | (None, u2) \<Rightarrow> migrate_and_swap w flt gen mig j attempt u2)))"

section \<open>runUpgradeToHA\<close>

definition run_upgrade_to_ha ::
  "worker \<Rightarrow> faults \<Rightarrow> config \<Rightarrow> (int \<Rightarrow> uuid) \<Rightarrow> (nat \<Rightarrow> bool) \<Rightarrow> claimed_job \<Rightarrow> state \<Rightarrow> state" where
  "run_upgrade_to_ha w flt cfg gen cancelled j s =
     (case wk_migrate w of
        None \<Rightarrow> mark_job_failed flt (cj_id j) ''snapshot migrator not configured'' s
      | Some mig \<Rightarrow>
        if cj_storage j = None then
          mark_job_failed flt (cj_id j) ''deployment_storage missing for upgrade_to_ha'' s
        else if cj_admin_key j = [] \<or> cj_secret j = [] then
          mark_job_failed flt (cj_id j) ''deployment credentials missing for upgrade_to_ha'' s
        else case ensure_upgradeable flt j s of
          Some e \<Rightarrow> mark_job_failed flt (cj_id j) e s
        | None \<Rightarrow>
          (case with_retry_on_unique_violation cancelled 5 (upgrade_attempt w flt cfg gen mig j)
                  \<lparr>us_state = s, us_replicas = [], us_panicked = False\<rparr> of
             (e, u) \<Rightarrow>
               if us_panicked u then
                 mark_job_failed flt (cj_id j) ''panic in upgrade_to_ha worker'' (us_state u)
               else (case e of
                 Some err \<Rightarrow>
                   (case cleanup_upgrade_replicas w (cj_name j) (us_replicas u) (us_state u) of
                      (True, s1) \<Rightarrow> mark_job_failed flt (cj_id j) ''panic in upgrade_to_ha worker'' s1
                    | (False, s1) \<Rightarrow> mark_job_failed flt (cj_id j) (error_text err) s1)
               | None \<Rightarrow>
                   (case call_out (CStop (cj_name j)) (dk_stop (wk_docker w) (cj_name j)) (us_state u) of
                      (Panic, s1) \<Rightarrow> mark_job_failed flt (cj_id j) ''panic in upgrade_to_ha worker'' s1
                    | (_, s1) \<Rightarrow> s1))))"

end
