(* ===== verification/BackupJobs.thy ===== *)
theory BackupJobs
  imports Upgrade
begin

text \<open>
  The backup and restore jobs of provisioner/backup.go: which endpoint a snapshot is taken from or
  fed into, the export with the check that an archive exists, and the import of a complete archive.
  Neither touches the status of a deployment.
\<close>

section \<open>Endpoints\<close>

definition running_indexes :: "uuid \<Rightarrow> state \<Rightarrow> int list" where
  "running_indexes dep s = sort (map r_index
     (filter (\<lambda>r. r_deployment r = dep \<and> r_status r = DRunning) (reps s)))"

definition backup_endpoint_url :: "faults \<Rightarrow> claimed_job \<Rightarrow> state \<Rightarrow> string + string" where
  "backup_endpoint_url flt j s =
     (if \<not> cj_ha j then Inr (endpoint (cj_name j) 0 False)
      else case flt QBackupReplica of
        Some e \<Rightarrow> Inl (''no running replica to export from: '' @ e)
      | None \<Rightarrow>
          (case running_indexes (cj_deployment j) s of
             [] \<Rightarrow> Inl ''no running replica to export from: no rows in result set''
           | i # _ \<Rightarrow> Inr (endpoint (cj_name j) i True)))"

definition restore_target_urls :: "faults \<Rightarrow> claimed_job \<Rightarrow> state \<Rightarrow> string + string list" where
  "restore_target_urls flt j s =
     (if \<not> cj_ha j then Inr [endpoint (cj_name j) 0 False]
      else case flt QBackupReplica of
        Some e \<Rightarrow> Inl (''list running replicas: '' @ e)
      | None \<Rightarrow>
          (case running_indexes (cj_deployment j) s of
             [] \<Rightarrow> Inl ''no running replica to restore into''
           | is \<Rightarrow> Inr (map (\<lambda>i. endpoint (cj_name j) i True) is)))"

text \<open>
  \<open>truncateErr\<close>: NUL bytes dropped, then at most 2000 bytes. Dropping invalid UTF-8
  (\<open>strings.ToValidUTF8\<close>) is the argument \<open>valid\<close>.
\<close>

definition truncate_err :: "(string \<Rightarrow> string) \<Rightarrow> string \<Rightarrow> string" where
  "truncate_err valid e = take 2000 (valid (filter (\<lambda>c. c \<noteq> CHR 0x00) e))"

section \<open>runBackup\<close>

definition fail_backup_row :: "int \<Rightarrow> string \<Rightarrow> backup \<Rightarrow> backup" where
  "fail_backup_row now e b = b\<lparr>b_status := BFailed, b_error := e, b_completed := Some now\<rparr>"

definition complete_backup_row :: "int \<Rightarrow> int \<Rightarrow> backup \<Rightarrow> backup" where
  "complete_backup_row now bytes b =
     b\<lparr>b_status := BComplete, b_size := Some bytes, b_completed := Some now, b_error := []\<rparr>"

definition fail_backup :: "faults \<Rightarrow> (string \<Rightarrow> string) \<Rightarrow> claimed_job \<Rightarrow> string \<Rightarrow> state \<Rightarrow> state" where
  "fail_backup flt valid j msg s =
     mark_job_failed flt (cj_id j) msg
       (if flt QBackupFail \<noteq> None then s
        else s\<lparr>backups := sql_update (\<lambda>b. b_id b = cj_backup j)
                 (fail_backup_row (clock s) (truncate_err valid msg)) (backups s)\<rparr>)"

definition start_backup :: "claimed_job \<Rightarrow> state \<Rightarrow> state" where
  "start_backup j s =
     s\<lparr>backups := sql_update (\<lambda>b. b_id b = cj_backup j) (\<lambda>b. b\<lparr>b_status := BRunning\<rparr>) (backups s)\<rparr>"

definition finish_backup :: "faults \<Rightarrow> claimed_job \<Rightarrow> int \<Rightarrow> state \<Rightarrow> state" where
  "finish_backup flt j bytes s =
     (case flt QBackupDone of
        Some e \<Rightarrow> mark_job_failed flt (cj_id j) (''backup exported but row update failed: '' @ e) s
      | None \<Rightarrow> mark_done flt (cj_id j)
          (s\<lparr>backups := sql_update (\<lambda>b. b_id b = cj_backup j)
                (complete_backup_row (clock s) bytes) (backups s)\<rparr>))"

text \<open>True: a runner panicked. \<open>runBackup\<close> has no recover, so the panic ends the process.\<close>

definition run_backup :: "worker \<Rightarrow> faults \<Rightarrow> (string \<Rightarrow> string) \<Rightarrow> claimed_job \<Rightarrow> state \<Rightarrow> bool \<times> state" where
  "run_backup w flt valid j s =
     (if cj_backup j = [] then (False, mark_job_failed flt (cj_id j) ''backup job without backup_id'' s)
      else case wk_backups w of
        None \<Rightarrow> (False, fail_backup flt valid j ''backups are not configured on this node (no Docker runner)'' s)
      | Some bk \<Rightarrow>
        (case flt QBackupRun of
           Some e \<Rightarrow> (False, fail_backup flt valid j (''load backup row: '' @ e) s)
         | None \<Rightarrow>
           (case find_backup (cj_backup j) s of
              None \<Rightarrow> (False, fail_backup flt valid j ''load backup row: no rows in result set'' s)
            | Some b \<Rightarrow>
              (let s1 = start_backup j s in
               case backup_endpoint_url flt j s1 of
                 Inl e \<Rightarrow> (False, fail_backup flt valid j e s1)
               | Inr src \<Rightarrow>
                 (case call_out (CExport src (b_path b))
                         (bk_export bk \<lparr>xs_name = cj_name j, xs_deployment = cj_deployment j,
                            xs_project = cj_project j, xs_source = src, xs_admin_key = cj_admin_key j,
                            xs_path = b_path b\<rparr>) s1 of
                    (Panic, s2) \<Rightarrow> (True, s2)
                  | (Err e, s2) \<Rightarrow> (False, fail_backup flt valid j e s2)
                  | (Ok _, s2) \<Rightarrow>
                    (case bk_stat bk (b_path b) s2 of
                       Inl e \<Rightarrow> (False, fail_backup flt valid j (''archive missing after export: '' @ e) s2)
                     | Inr bytes \<Rightarrow> (False, finish_backup flt j bytes s2)))))))"

section \<open>runRestore\<close>

definition stamp_restored :: "faults \<Rightarrow> claimed_job \<Rightarrow> state \<Rightarrow> state" where
  "stamp_restored flt j s =
     (if flt QRestoreStamp \<noteq> None then s
      else s\<lparr>backups := sql_update (\<lambda>b. b_id b = cj_backup j)
               (\<lambda>b. b\<lparr>b_restored := Some (clock s)\<rparr>) (backups s)\<rparr>)"

definition run_restore :: "worker \<Rightarrow> faults \<Rightarrow> claimed_job \<Rightarrow> state \<Rightarrow> bool \<times> state" where
  "run_restore w flt j s =
     (let fail = (\<lambda>e s. (False, mark_job_failed flt (cj_id j) e s)) in
      if cj_backup j = [] then fail ''restore job without backup_id'' s
      else case wk_backups w of
        None \<Rightarrow> fail ''backups are not configured on this node (no Docker runner)'' s
      | Some bk \<Rightarrow>
        (case flt QRestoreLoad of
           Some e \<Rightarrow> fail (''load backup row: '' @ e) s
         | None \<Rightarrow>
           (case find_backup (cj_backup j) s of
              None \<Rightarrow> fail ''load backup row: no rows in result set'' s
            | Some b \<Rightarrow>
              if b_status b \<noteq> BComplete then
                fail (''backup is not complete (status='' @ backup_status_text (b_status b) @ '')'') s
              else
              (case restore_target_urls flt j s of
                 Inl e \<Rightarrow> fail e s
               | Inr ts \<Rightarrow>
                 (case call_out (CImport ts (b_path b))
                         (bk_import bk \<lparr>is_name = cj_name j, is_deployment = cj_deployment j,
                            is_project = cj_project j, is_targets = ts, is_admin_key = cj_admin_key j,
                            is_path = b_path b\<rparr>) s of
                    (Panic, s2) \<Rightarrow> (True, s2)
                  | (Err e, s2) \<Rightarrow> fail e s2
                  | (Ok _, s2) \<Rightarrow> (False, mark_done flt (cj_id j) (stamp_restored flt j s2)))))))"

end
