(* ===== verification/WorkerLoop.thy ===== *)
theory WorkerLoop
  imports Reconcile BackupJobs
begin

text \<open>
  The worker loop: one claimed job dispatched by its kind (\<open>processOne\<close>), and the invariants every
  handler keeps. The locale \<open>worker_invariant\<close> names the writes the handlers are made of; a state
  property that survives those writes survives every handler, whatever Docker, SSH and the other
  processes do in between, as long as they keep it too (\<open>worker_keeps\<close>).
\<close>

section \<open>processOne\<close>

definition dispatch_job ::
  "worker \<Rightarrow> faults \<Rightarrow> config \<Rightarrow> (int \<Rightarrow> uuid) \<Rightarrow> (nat \<Rightarrow> bool) \<Rightarrow> (string \<Rightarrow> string) \<Rightarrow> claimed_job \<Rightarrow> state
     \<Rightarrow> state" where
  "dispatch_job w flt cfg gen cancelled valid j s =
     (case cj_kind j of
        KProvision \<Rightarrow> run_job w flt j s
      | KUpgradeToHA \<Rightarrow> run_upgrade_to_ha w flt cfg gen cancelled j s
      | KReconcile \<Rightarrow> run_reconcile w flt j s
      | KBackup \<Rightarrow> snd (run_backup w flt valid j s)
      | KRestore \<Rightarrow> snd (run_restore w flt j s)
      | KOther k \<Rightarrow> mark_job_failed flt (cj_id j) (''unknown provisioning job kind: '' @ k) s)"

definition process_one ::
  "worker \<Rightarrow> faults \<Rightarrow> config \<Rightarrow> (int \<Rightarrow> uuid) \<Rightarrow> (nat \<Rightarrow> bool) \<Rightarrow> (string \<Rightarrow> string) \<Rightarrow> (int \<Rightarrow> bool) \<Rightarrow> state
     \<Rightarrow> bool \<times> state" where
  "process_one w flt cfg gen cancelled valid locked s =
     (case claim_next w flt cfg locked s of
        (None, s1) \<Rightarrow> (False, s1)
      | (Some j, s1) \<Rightarrow> (True, dispatch_job w flt cfg gen cancelled valid j s1))"

section \<open>External calls that keep a property\<close>

definition ext_keeps :: "(state \<Rightarrow> bool) \<Rightarrow> 'a ext \<Rightarrow> bool" where
  "ext_keeps I f \<longleftrightarrow> (\<forall>s r s'. I s \<longrightarrow> f s = (r, s') \<longrightarrow> I s')"

definition dispatcher_keeps :: "(state \<Rightarrow> bool) \<Rightarrow> dispatcher \<Rightarrow> bool" where
  "dispatcher_keeps I d \<longleftrightarrow> (\<forall>sp. ext_keeps I (dk_provision d sp)) \<and> (\<forall>n. ext_keeps I (dk_destroy d n))
     \<and> (\<forall>n i k. ext_keeps I (dk_destroy_replica d n i k)) \<and> (\<forall>n. ext_keeps I (dk_stop d n))
     \<and> (\<forall>n. ext_keeps I (dk_restart d n))"

definition worker_keeps :: "(state \<Rightarrow> bool) \<Rightarrow> worker \<Rightarrow> bool" where
  "worker_keeps I w \<longleftrightarrow> dispatcher_keeps I (wk_docker w)
     \<and> (\<forall>f t. wk_ssh w = Some f \<longrightarrow> dispatcher_keeps I (f t))
     \<and> (\<forall>m x. wk_migrate w = Some m \<longrightarrow> ext_keeps I (m x))
     \<and> (\<forall>b x. wk_backups w = Some b \<longrightarrow> ext_keeps I (bk_export b x))
     \<and> (\<forall>b x. wk_backups w = Some b \<longrightarrow> ext_keeps I (bk_import b x))
     \<and> (\<forall>u a b c. wk_convex_env w = Some u \<longrightarrow> ext_keeps I (u a b c))"

lemma ext_keepsD: "ext_keeps I f \<Longrightarrow> I s \<Longrightarrow> f s = (r, s') \<Longrightarrow> I s'"
  by (auto simp: ext_keeps_def)

lemma dispatcher_keepsD:
  "dispatcher_keeps I d \<Longrightarrow> ext_keeps I (dk_provision d sp)"
  "dispatcher_keeps I d \<Longrightarrow> ext_keeps I (dk_destroy d n)"
  "dispatcher_keeps I d \<Longrightarrow> ext_keeps I (dk_destroy_replica d n i k)"
  "dispatcher_keeps I d \<Longrightarrow> ext_keeps I (dk_stop d n)"
  "dispatcher_keeps I d \<Longrightarrow> ext_keeps I (dk_restart d n)"
  by (simp_all add: dispatcher_keeps_def)

lemma worker_keeps_docker: "worker_keeps I w \<Longrightarrow> dispatcher_keeps I (wk_docker w)"
  by (simp add: worker_keeps_def)

text \<open>The writes to \<open>deployments\<close> outside the upgrade: they never touch a deleted row, never delete one.\<close>

definition live_write :: "(deployment \<Rightarrow> bool) \<Rightarrow> (deployment \<Rightarrow> deployment) \<Rightarrow> bool" where
  "live_write p f \<longleftrightarrow> (\<forall>d. p d \<longrightarrow> d_status d \<noteq> DDeleted \<and> d_status (f d) \<noteq> DDeleted)
     \<and> (\<forall>d. d_id (f d) = d_id d)"

lemma live_writes:
  "live_write (\<lambda>d. d_id d = i \<and> d_status d = DProvisioning) (fail_dep t)"
  "live_write (\<lambda>d. d_id d = i \<and> d_status d = DProvisioning) (run_dep t x)"
  "live_write (creatable i) (claim_for_create t)"
  "live_write (\<lambda>d. d_id d = i \<and> d_status d \<noteq> DDeleted) (restart_dep t)"
  "live_write (stuck_provisioning now secs js) (fail_dep t)"
  by (auto simp: live_write_def fail_dep_def run_dep_def creatable_def claim_for_create_def
      restart_dep_def stuck_provisioning_def)

section \<open>Invariants of the handlers\<close>

locale handler_invariant =
  fixes I :: "state \<Rightarrow> bool"
  assumes inv_log: "I s \<Longrightarrow> I (log_call c s)"
    and inv_done: "I s \<Longrightarrow> I (mark_done flt i s)"
    and inv_job_failed: "I s \<Longrightarrow> I (mark_job_failed flt i e s)"
    and inv_deps: "I s \<Longrightarrow> live_write p f \<Longrightarrow> I (s\<lparr>deps := sql_update p f (deps s)\<rparr>)"
    and inv_reps: "I s \<Longrightarrow> I (s\<lparr>reps := rs\<rparr>)"
    and inv_steps: "I s \<Longrightarrow> I (s\<lparr>steps := xs\<rparr>)"
    and inv_backups: "I s \<Longrightarrow> I (s\<lparr>backups := bs\<rparr>)"
    and inv_rollup: "I s \<Longrightarrow> I (rollup_reconcile_run flt r s)"
    and inv_swap: "I s \<Longrightarrow> finish_upgrade_swap flt k gen j us s = (err, s') \<Longrightarrow> I s'"
    and inv_claim: "I s \<Longrightarrow> claim_next w flt cfg locked s = (res, s') \<Longrightarrow> I s'"
begin

lemma call_out_keeps: "ext_keeps I f \<Longrightarrow> I s \<Longrightarrow> call_out c f s = (r, s') \<Longrightarrow> I s'"
  unfolding call_out_def by (erule ext_keepsD) (rule inv_log)

lemma mark_failed_keeps: "I s \<Longrightarrow> I (mark_failed flt i dep e s)"
  unfolding mark_failed_def Let_def
  by (auto intro: inv_job_failed inv_deps live_writes)

lemma step_keeps: "I s \<Longrightarrow> I (write_reconcile_step flt step st e res s)"
  unfolding write_reconcile_step_def by (auto intro: inv_steps)

lemma ledger_keeps:
  "I s \<Longrightarrow> I (succeed_reconcile flt j m s)"
  "I s \<Longrightarrow> I (skip_reconcile flt j m s)"
  "I s \<Longrightarrow> I (no_op_reconcile flt j m s)"
  "I s \<Longrightarrow> I (fail_reconcile flt j m s)"
  by (simp_all add: succeed_reconcile_def skip_reconcile_def no_op_reconcile_def fail_reconcile_def
      inv_rollup step_keeps inv_done mark_failed_keeps)

lemma docker_for_job_keeps:
  "I s \<Longrightarrow> worker_keeps I w \<Longrightarrow> docker_for_job w flt j s = (r, s')
     \<Longrightarrow> I s' \<and> (\<forall>dk. r = Some dk \<longrightarrow> dispatcher_keeps I dk)"
  by (auto simp: docker_for_job_def worker_keeps_def mark_failed_keeps split: if_splits option.splits)

lemma mark_provision_running_keeps:
  assumes "I s" shows "I (snd (mark_provision_running flt j i s))"
proof -
  have r: "I (s\<lparr>reps := x\<rparr>)" for x by (rule inv_reps) (rule assms)
  have "I (s\<lparr>reps := x\<rparr>\<lparr>deps := sql_update (\<lambda>d. d_id d = cj_deployment j \<and> d_status d = DProvisioning)
              (run_dep t i) (deps (s\<lparr>reps := x\<rparr>))\<rparr>)" for x t
    by (rule inv_deps [OF r]) (rule live_writes)
  moreover have "I (s\<lparr>deps := sql_update (\<lambda>d. d_id d = cj_deployment j \<and> d_status d = DProvisioning)
              (run_dep t i) (deps s)\<rparr>)" for t
    by (rule inv_deps [OF assms]) (rule live_writes)
  ultimately show ?thesis
    using assms r by (simp add: mark_provision_running_def Let_def split: option.splits)
qed

lemma push_function_env_keeps:
  assumes "I s" "worker_keeps I w" "wk_convex_env w = Some upd"
  shows "I (snd (push_function_env w flt upd j s))"
proof -
  have "ext_keeps I (upd a b cs)" for a b cs
    using assms(2,3) by (simp add: worker_keeps_def)
  then have c: "call_out cc (upd a b cs) s = (x, t) \<Longrightarrow> I t" for cc a b cs x t
    using assms(1) call_out_keeps by blast
  show ?thesis
    using assms(1)
    by (auto simp: push_function_env_def Let_def split: option.splits prod.splits outcome.splits dest: c)
qed

lemma after_provision_keeps:
  assumes "I s" "worker_keeps I w" "dispatcher_keeps I dk"
  shows "I (snd (after_provision w flt dk j i s))"
proof -
  obtain r s1 where m: "mark_provision_running flt j i s = (r, s1)" by fastforce
  have s1: "I s1" using mark_provision_running_keeps [OF assms(1), of flt j i] m by simp
  have d: "call_out c (dk_destroy dk n) s1 = (x, t) \<Longrightarrow> I t" for c n x t
    using assms(3) s1 by (auto simp: dispatcher_keeps_def dest: call_out_keeps)
  show ?thesis
    using m s1 d assms(2)
    by (auto simp: after_provision_def Let_def inv_done mark_failed_keeps push_function_env_keeps
        split: sum.splits prod.splits option.splits outcome.splits)
qed

lemma run_job_keeps:
  assumes "I s" "worker_keeps I w" shows "I (run_job w flt j s)"
proof -
  have "I (snd (run_job_body w flt j s))"
  proof (cases "still_wanted flt j s")
    case False
    then show ?thesis using assms(1) by (simp add: run_job_body_def inv_done)
  next
    case True
    obtain r s1 where d: "docker_for_job w flt j s = (r, s1)" by fastforce
    from docker_for_job_keeps [OF assms d] have s1: "I s1" and k: "\<And>dk. r = Some dk \<Longrightarrow> dispatcher_keeps I dk"
      by auto
    show ?thesis
    proof (cases r)
      case None
      with True d s1 show ?thesis by (simp add: run_job_body_def)
    next
      case (Some dk)
      obtain x s2 where c: "call_out (provision_call (build_spec (wk_config w) flt j s))
          (dk_provision dk (build_spec (wk_config w) flt j s)) s1 = (x, s2)" by fastforce
      have s2: "I s2" using k [OF Some] c s1 by (auto simp: dispatcher_keeps_def dest: call_out_keeps)
      show ?thesis
        using True d Some c s2 assms(2) k [OF Some]
        by (auto simp: run_job_body_def Let_def mark_failed_keeps after_provision_keeps split: outcome.splits)
    qed
  qed
  then show ?thesis
    by (auto simp: run_job_def mark_failed_keeps split: prod.splits)
qed

lemma reconcile_create_keeps:
  assumes "I s" "worker_keeps I w" shows "I (snd (reconcile_create w flt j s))"
proof -
  let ?s1 = "s\<lparr>deps := sql_update (creatable (cj_deployment j)) (claim_for_create (clock s)) (deps s)\<rparr>"
  have s1: "I ?s1" by (rule inv_deps [OF assms(1)]) (rule live_writes)
  obtain r s2 where d: "docker_for_job w flt j ?s1 = (r, s2)" by fastforce
  from docker_for_job_keeps [OF s1 assms(2) d] have s2: "I s2" and k: "\<And>dk. r = Some dk \<Longrightarrow> dispatcher_keeps I dk"
    by auto
  have c: "call_out cc (dk_provision dk sp) s2 = (x, s3) \<Longrightarrow> r = Some dk \<Longrightarrow> I s3" for dk cc sp x s3
    using k [of dk] s2 by (auto simp: dispatcher_keeps_def dest: call_out_keeps)
  have m: "mark_provision_running flt j i s3 = (y, s4) \<Longrightarrow> I s3 \<Longrightarrow> I s4" for i s3 y s4
    using mark_provision_running_keeps [of s3 flt j i] by simp
  show ?thesis
    using d s2
    by (auto simp: reconcile_create_def Let_def assms(1) ledger_keeps
        split: option.splits prod.splits outcome.splits sum.splits dest: c m)
qed

lemma reconcile_restart_keeps:
  assumes "I s" "worker_keeps I w" shows "I (snd (reconcile_restart w flt j s))"
proof -
  obtain r s1 where d: "docker_for_job w flt j s = (r, s1)" by fastforce
  from docker_for_job_keeps [OF assms d] have s1: "I s1" and k: "\<And>dk. r = Some dk \<Longrightarrow> dispatcher_keeps I dk"
    by auto
  have c: "call_out cc (dk_restart dk n) s1 = (x, s2) \<Longrightarrow> r = Some dk \<Longrightarrow> I s2" for dk cc n x s2
    using k [of dk] s1 by (auto simp: dispatcher_keeps_def dest: call_out_keeps)
  show ?thesis
    using d s1
    by (auto simp: reconcile_restart_def ledger_keeps inv_deps live_writes
        split: option.splits prod.splits outcome.splits dest: c)
qed

lemma run_reconcile_keeps:
  assumes "I s" "worker_keeps I w" shows "I (run_reconcile w flt j s)"
proof -
  have "I (snd (run_reconcile_body w flt j s))"
    using assms
    by (auto simp: run_reconcile_body_def ledger_keeps reconcile_create_keeps reconcile_restart_keeps
        split: option.splits action.splits)
  then show ?thesis
    by (auto simp: run_reconcile_def ledger_keeps split: prod.splits)
qed

lemma cleanup_keeps:
  "I s \<Longrightarrow> worker_keeps I w \<Longrightarrow> I (snd (cleanup_upgrade_replicas w n us s))"
proof (induction us arbitrary: s)
  case Nil
  then show ?case by simp
next
  case (Cons u us)
  obtain x t where c: "call_out (CDestroyReplica n (up_index u) True)
      (dk_destroy_replica (wk_docker w) n (up_index u) True) s = (x, t)" by fastforce
  have "I t" using call_out_keeps [OF dispatcher_keepsD(3) [OF worker_keeps_docker] Cons.prems(1) c] Cons.prems(2)
    by blast
  with Cons c show ?case by (cases x) auto
qed

lemma provision_replicas_keeps:
  "I (us_state u) \<Longrightarrow> worker_keeps I w \<Longrightarrow> I (us_state (snd (provision_replicas w j pub site ps u)))"
proof (induction ps arbitrary: u)
  case Nil
  then show ?case by simp
next
  case (Cons p ps)
  obtain idx port where p: "p = (idx, port)" by fastforce
  let ?sp = "replica_spec j pub site idx port"
  obtain x t where c: "call_out (provision_call ?sp) (dk_provision (wk_docker w) ?sp) (us_state u) = (x, t)"
    by fastforce
  have "I t" using call_out_keeps [OF dispatcher_keepsD(1) [OF worker_keeps_docker] Cons.prems(1) c] Cons.prems(2)
    by blast
  with Cons c p show ?case by (cases x) (auto simp: Let_def)
qed

lemma migrate_and_swap_keeps:
  assumes "I (us_state u)" "worker_keeps I w" "wk_migrate w = Some mig"
  shows "I (us_state (snd (migrate_and_swap w flt gen mig j k u)))"
proof -
  obtain x t where c: "call_out (CMigrate (ms_source (migration j)) (ms_targets (migration j)))
      (mig (migration j)) (us_state u) = (x, t)" by fastforce
  have t: "I t" using assms c by (auto simp: worker_keeps_def dest: call_out_keeps)
  show ?thesis
    using c t by (auto simp: migrate_and_swap_def Let_def split: outcome.splits prod.splits dest: inv_swap)
qed

lemma upgrade_attempt_keeps:
  assumes "I (us_state u)" "worker_keeps I w" "wk_migrate w = Some mig"
  shows "I (us_state (snd (upgrade_attempt w flt cfg gen mig j k u)))"
proof -
  obtain b s1 where c: "cleanup_upgrade_replicas w (cj_name j) (us_replicas u) (us_state u) = (b, s1)"
    by fastforce
  have s1: "I s1" using cleanup_keeps [OF assms(1,2), of "cj_name j" "us_replicas u"] c by simp
  have prov: "provision_replicas w j pub site ps (u\<lparr>us_state := s1, us_replicas := []\<rparr>) = (e, u2)
      \<Longrightarrow> I (us_state u2)" for pub site ps e u2
    using provision_replicas_keeps [of "u\<lparr>us_state := s1, us_replicas := []\<rparr>" w j pub site ps] s1 assms(2)
    by simp
  have swap: "I (us_state u2) \<Longrightarrow> I (us_state (snd (migrate_and_swap w flt gen mig j k u2)))" for u2
    by (rule migrate_and_swap_keeps) (use assms(2,3) in auto)
  show ?thesis
    using c s1
    by (auto simp: upgrade_attempt_def Let_def swap split: bool.splits sum.splits prod.splits option.splits
        dest: prov)
qed

lemma run_upgrade_keeps:
  assumes "I s" "worker_keeps I w"
  shows "I (run_upgrade_to_ha w flt cfg gen cancelled j s)"
proof (cases "wk_migrate w")
  case None
  with assms(1) show ?thesis by (simp add: run_upgrade_to_ha_def inv_job_failed)
next
  case (Some mig)
  have att: "retried_attempt (upgrade_attempt w flt cfg gen mig j) (\<lambda>u. I (us_state u)) (\<lambda>u. I (us_state u))"
  proof unfold_locales
    fix u k e u'
    assume "I (us_state u)" "upgrade_attempt w flt cfg gen mig j k u = (Some e, u')"
    then show "I (us_state u')" using upgrade_attempt_keeps [OF _ assms(2) Some, of u flt cfg gen j k] by simp
  next
    fix u k u'
    assume "I (us_state u)" "upgrade_attempt w flt cfg gen mig j k u = (None, u')"
    then show "I (us_state u')" using upgrade_attempt_keeps [OF _ assms(2) Some, of u flt cfg gen j k] by simp
  qed
  obtain e u where r: "with_retry_on_unique_violation cancelled 5 (upgrade_attempt w flt cfg gen mig j)
      \<lparr>us_state = s, us_replicas = [], us_panicked = False\<rparr> = (e, u)" by fastforce
  have s0: "I (us_state \<lparr>us_state = s, us_replicas = [], us_panicked = False\<rparr>)" using assms(1) by simp
  have u: "I (us_state u)"
  proof (cases e)
    case None
    show ?thesis by (rule retried_attempt.retry_won [OF att s0 r [unfolded None]])
  next
    case (Some x)
    show ?thesis by (rule retried_attempt.retry_lost [OF att s0 r [unfolded Some]])
  qed
  have clean: "cleanup_upgrade_replicas w n us (us_state u) = (b, s1) \<Longrightarrow> I s1" for n us b s1
    using cleanup_keeps [OF u assms(2), of n us] by simp
  have stop: "call_out c (dk_stop (wk_docker w) n) (us_state u) = (x, t) \<Longrightarrow> I t" for c n x t
    using u assms(2) by (auto simp: worker_keeps_def dispatcher_keeps_def dest: call_out_keeps)
  show ?thesis
    using Some r u assms(1)
    by (auto simp: run_upgrade_to_ha_def inv_job_failed
        split: option.splits prod.splits bool.splits outcome.splits dest: clean stop)
qed

lemma fail_backup_keeps: "I s \<Longrightarrow> I (fail_backup flt valid j m s)"
  by (simp add: fail_backup_def inv_job_failed inv_backups)

lemma run_backup_keeps:
  assumes "I s" "worker_keeps I w" shows "I (snd (run_backup w flt valid j s))"
proof -
  have s1: "I (start_backup j s)" unfolding start_backup_def by (rule inv_backups) (rule assms)
  have x: "wk_backups w = Some bk \<Longrightarrow> call_out c (bk_export bk sp) (start_backup j s) = (r, t) \<Longrightarrow> I t" for bk c sp r t
    using s1 assms(2) by (auto simp: worker_keeps_def dest: call_out_keeps)
  have fin: "I t \<Longrightarrow> I (finish_backup flt j n t)" for n t
    by (auto simp: finish_backup_def inv_job_failed inv_done inv_backups split: option.splits)
  show ?thesis
  proof (cases "wk_backups w")
    case None
    with assms(1) show ?thesis by (simp add: run_backup_def inv_job_failed fail_backup_keeps)
  next
    case (Some bk)
    from x [OF this] have x': "call_out c (bk_export bk sp) (start_backup j s) = (r, t) \<Longrightarrow> I t" for c sp r t
      by blast
    show ?thesis
      using assms(1) s1 Some
      by (auto simp: run_backup_def Let_def inv_job_failed fail_backup_keeps fin
          split: option.splits sum.splits prod.splits outcome.splits dest: x')
  qed
qed

lemma run_restore_keeps:
  assumes "I s" "worker_keeps I w" shows "I (snd (run_restore w flt j s))"
proof (cases "wk_backups w")
  case None
  with assms(1) show ?thesis by (simp add: run_restore_def inv_job_failed)
next
  case (Some bk)
  have "ext_keeps I (bk_import bk sp)" for sp using assms(2) Some by (simp add: worker_keeps_def)
  then have x: "call_out c (bk_import bk sp) s = (r, t) \<Longrightarrow> I t" for c sp r t
    using assms(1) call_out_keeps by blast
  have st: "I t \<Longrightarrow> I (stamp_restored flt j t)" for t by (simp add: stamp_restored_def inv_backups)
  show ?thesis
    using assms(1) Some
    by (auto simp: run_restore_def Let_def inv_job_failed inv_done st
        split: option.splits sum.splits prod.splits outcome.splits dest: x)
qed

lemma dispatch_keeps:
  "I s \<Longrightarrow> worker_keeps I w \<Longrightarrow> I (dispatch_job w flt cfg gen cancelled valid j s)"
  by (auto simp: dispatch_job_def run_job_keeps run_upgrade_keeps run_reconcile_keeps run_backup_keeps
      run_restore_keeps inv_job_failed split: job_kind.splits)

lemma process_one_keeps:
  "I s \<Longrightarrow> worker_keeps I w \<Longrightarrow> I (snd (process_one w flt cfg gen cancelled valid locked s))"
  by (auto simp: process_one_def dispatch_keeps split: prod.splits option.splits dest: inv_claim)

lemma close_orphans_keeps: "I s \<Longrightarrow> I (close_orphans flt rs s)"
  by (induction flt rs s rule: close_orphans.induct) (simp_all add: inv_rollup inv_steps)

end

text \<open>With the recovery of stale claims, which the start-up and the reaper of every node run.\<close>

locale worker_invariant = handler_invariant I for I :: "state \<Rightarrow> bool" +
  fixes cfg_ok :: "config \<Rightarrow> bool"
  assumes inv_requeue: "I s \<Longrightarrow> cfg_ok cfg \<Longrightarrow> I (snd (requeue_stale flt cfg s))"
begin

lemma reap_keeps: "I s \<Longrightarrow> cfg_ok cfg \<Longrightarrow> I (reap_stuck flt a cfg s)"
proof -
  assume s: "I s" and c: "cfg_ok cfg"
  have d: "I t \<Longrightarrow> I (reap_deps flt n t)" for n t
    by (auto simp: reap_deps_def intro: inv_deps live_writes)
  have r: "I t \<Longrightarrow> I (reap_runs flt n t)" for n t
    by (simp add: reap_runs_def Let_def close_orphans_keeps)
  have "I (snd (reap_body flt cfg s))"
    using s c by (simp add: reap_body_def Let_def r d inv_requeue)
  with s show ?thesis
    by (auto simp: reap_stuck_def with_try_advisory_lock_def split: acquire.splits prod.splits)
qed

end

end
