(* ===== verification/Projects.thy ===== *)
theory Projects
  imports Invites WorkerLoop
begin

text \<open>
  Projects, their members and default environment variables (api/projects.go), with the two helpers of
  the deployment handlers they call: the teardown of a deployment's containers on the host they live on
  and the push of the environment into a running backend (api/deployments.go).
\<close>

section \<open>What the handlers call\<close>

text \<open>\<open>dp_docker\<close> is the local daemon, \<open>dp_remote\<close> a daemon reached over SSH.\<close>

record deployer =
  dp_docker :: dispatcher
  dp_remote :: "(target \<Rightarrow> dispatcher) option"
  dp_restart_replica :: "string \<Rightarrow> int \<Rightarrow> unit ext"
  dp_recreate :: "spec \<Rightarrow> info ext"
  dp_admin_key :: "string \<Rightarrow> string \<Rightarrow> string ext"
  dp_env :: "(string \<Rightarrow> string \<Rightarrow> (string \<times> string) list \<Rightarrow> unit ext) option"
  dp_computer :: computer
  dp_hc_network :: bool
  dp_port_min :: int
  dp_port_max :: int

definition msg_api_remote_disabled :: "string \<Rightarrow> string" where
  "msg_api_remote_disabled name = ''deployment '' @ quoted name @ '' is on a remote host but Remote Hosts is disabled ''
     @ em_dash @ '' set SYNAPSE_HEADSCALE_URL + SYNAPSE_STORAGE_KEY and restart''"

definition msg_api_no_tailnet :: "string \<Rightarrow> string" where
  "msg_api_no_tailnet name = ''deployment '' @ quoted name @ '' is on a remote host with no tailnet address ''
     @ em_dash @ '' re-run install-agent.sh on that host''"

definition host_of :: "deployment \<Rightarrow> state \<Rightarrow> host option" where
  "host_of d s = find_host (d_host d) s"

definition on_remote_host :: "deployment \<Rightarrow> state \<Rightarrow> bool" where
  "on_remote_host d s \<longleftrightarrow> (case host_of d s of None \<Rightarrow> False | Some h \<Rightarrow> h_is_remote h)"

definition docker_for :: "deployer \<Rightarrow> deployment \<Rightarrow> state \<Rightarrow> string + dispatcher" where
  "docker_for dp d s =
     (case host_of d s of
        None \<Rightarrow> Inr (dp_docker dp)
      | Some h \<Rightarrow>
          if \<not> h_is_remote h then Inr (dp_docker dp)
          else (case dp_remote dp of
                  None \<Rightarrow> Inl (msg_api_remote_disabled (d_name d))
                | Some remote \<Rightarrow>
                    (case h_tailnet h of
                       None \<Rightarrow> Inl (msg_api_no_tailnet (d_name d))
                     | Some a \<Rightarrow>
                         if a = [] then Inl (msg_api_no_tailnet (d_name d))
                         else Inr (remote \<lparr>tg_host = h_id h, tg_tailnet = a, tg_user = h_ssh_user h,
                                           tg_port = h_ssh_port h\<rparr>))))"

text \<open>
  The replicas of an HA deployment, in order, up to the first failure. \<open>RecoverPanic\<close> of the router turns a
  panic into an answer 500 of the request; the state is the one the call left.
\<close>

fun destroy_replicas :: "deployer \<Rightarrow> string \<Rightarrow> nat \<Rightarrow> nat \<Rightarrow> state \<Rightarrow> unit outcome \<times> state" where
  "destroy_replicas dp name i 0 s = (Ok (), s)"
| "destroy_replicas dp name i (Suc n) s =
     (case call_out (CDestroyReplica name (int i) False)
             (dk_destroy_replica (dp_docker dp) name (int i) False) s of
        (Ok _, s1) \<Rightarrow> destroy_replicas dp name (Suc i) n s1
      | (Err e, s1) \<Rightarrow> (Err e, s1)
      | (Panic, s1) \<Rightarrow> (Panic, s1))"

definition destroy_deployment_containers :: "deployer \<Rightarrow> deployment \<Rightarrow> state \<Rightarrow> unit outcome \<times> state" where
  "destroy_deployment_containers dp d s =
     (if d_ha d \<and> 0 < d_replica_count d then destroy_replicas dp (d_name d) 0 (d_replica_count d) s
      else case docker_for dp d s of
          Inl e \<Rightarrow> (Err e, s)
        | Inr dk \<Rightarrow> call_out (CDestroy (d_name d)) (dk_destroy dk (d_name d)) s)"

text \<open>\<open>convexenv.Client.Update\<close> without changes makes no call.\<close>

definition cli_deployment_url :: "deployer \<Rightarrow> deployment \<Rightarrow> state \<Rightarrow> string" where
  "cli_deployment_url dp d s =
     cli_url (dp_computer dp)
       (Some \<lparr>u_name = d_name d, u_adopted = d_adopted d,
              u_url = (case d_url d of None \<Rightarrow> [] | Some u \<Rightarrow> u),
              u_port = (case d_host_port d of None \<Rightarrow> 0 | Some p \<Rightarrow> p)\<rparr>)
       (lookup_active_api_domain False False s (d_id d))"

definition push_function_env_for_deployment ::
  "ofaults \<Rightarrow> deployer \<Rightarrow> uuid \<Rightarrow> state \<Rightarrow> unit outcome \<times> state" where
  "push_function_env_for_deployment flt dp i s =
     (case dp_env dp of
        None \<Rightarrow> (Ok (), s)
      | Some upd \<Rightarrow>
          (if flt ''push function env: load deployment'' then (Err ''push function env: load deployment'', s)
           else case find_dep i s of
               None \<Rightarrow> (Err ''push function env: load deployment: no rows in result set'', s)
             | Some d \<Rightarrow>
                 if d_url d = None then (Err ''push function env: load deployment: cannot scan NULL'', s)
                 else if d_status d \<noteq> DRunning then (Ok (), s)
                 else if d_admin_key d = [] then (Ok (), s)
                 else (let url = cli_deployment_url dp d s in
                   if url = [] then (Ok (), s)
                   else if flt ''push function env: load project env vars'' then
                     (Err ''push function env: load project env vars'', s)
                   else (let changes = fst (filter_managed (load_project_env_vars (d_project d) (d_type d) s)) in
                     if changes = [] then (Ok (), s)
                     else (case call_out (CEnvPush url changes) (upd url (d_admin_key d) changes) s of
                         (Err e, s1) \<Rightarrow> (Err (''push function env: convex API: '' @ e), s1)
                       | (r, s1) \<Rightarrow> (r, s1))))))"

section \<open>Roles\<close>

definition normalise_project_role :: "string \<Rightarrow> role option" where
  "normalise_project_role r =
     (let v = to_lower (trim_space r) in
      if v = ''admin'' then Some RoleAdmin
      else if v = ''member'' then Some RoleMember
      else if v = ''viewer'' then Some RoleViewer
      else None)"

section \<open>updateProject, transferProject\<close>

record update_project_req =
  up_name :: "string option"
  up_slug :: "string option"

definition set_project :: "string option \<Rightarrow> string option \<Rightarrow> project \<Rightarrow> project" where
  "set_project name slug p = p\<lparr>pj_name := merge name (pj_name p), pj_slug := merge slug (pj_slug p)\<rparr>"

definition project_slug_used :: "uuid \<Rightarrow> uuid \<Rightarrow> string \<Rightarrow> org \<Rightarrow> bool" where
  "project_slug_used tid pid slug g \<longleftrightarrow>
     sql_exists (\<lambda>x. pj_id x \<noteq> pid \<and> pj_team x = tid \<and> ci_eq (pj_slug x) slug) (projects g)"

definition get_project :: "ofaults \<Rightarrow> principal \<Rightarrow> string \<Rightarrow> org \<Rightarrow> project resp" where
  "get_project flt who ref g =
     (case load_project_for_request flt who ref g of Inl e \<Rightarrow> refuse e | Inr (p, _, _) \<Rightarrow> Answer 200 p)"

definition update_project ::
  "ofaults \<Rightarrow> principal \<Rightarrow> string \<Rightarrow> update_project_req option \<Rightarrow> org \<Rightarrow> project resp \<times> org" where
  "update_project flt who ref body g =
     (case load_project_for_request flt who ref g of
        Inl e \<Rightarrow> (refuse e, g)
      | Inr (p, t, role) \<Rightarrow>
        if \<not> can_admin_project role then (Error 403 ''forbidden'', g)
        else (case body of None \<Rightarrow> (Error 400 ''bad_request'', g) | Some b \<Rightarrow>
          (case trimmed_field ''missing_name'' (up_name b) of Inl c \<Rightarrow> (Error 400 c, g) | Inr name \<Rightarrow>
          (case slug_field (up_slug b) of Inl c \<Rightarrow> (Error 400 c, g) | Inr slug \<Rightarrow>
            if name = None \<and> slug = None then (Answer 200 p, g)
            else if flt ''update project'' then (Error 500 ''internal'', g)
            else if (case slug of None \<Rightarrow> False | Some v \<Rightarrow> project_slug_used (pj_team p) (pj_id p) v g) then
              (Error 409 ''slug_taken'', g)
            else if sql_count (\<lambda>x. pj_id x = pj_id p) (projects g) = 0 then (Error 404 ''project_not_found'', g)
            else (Answer 200 (set_project name slug p),
                  record_audit flt (tm_id t) (pr_user who)
                    (if slug = None \<and> name \<noteq> None then ''renameProject'' else ''updateProject'') ''project'' (pj_id p)
                    (g\<lparr>projects := sql_update (\<lambda>x. pj_id x = pj_id p) (set_project name slug) (projects g)\<rparr>))))))"

definition move_project :: "uuid \<Rightarrow> project \<Rightarrow> project" where
  "move_project tid p = p\<lparr>pj_team := tid\<rparr>"

definition transfer_project :: "ofaults \<Rightarrow> principal \<Rightarrow> string \<Rightarrow> string option \<Rightarrow> org \<Rightarrow> unit resp \<times> org" where
  "transfer_project flt who ref body g =
     (case load_project_for_request flt who ref g of
        Inl e \<Rightarrow> (refuse e, g)
      | Inr (p, src, role) \<Rightarrow>
        if \<not> can_admin_project role then (Error 403 ''forbidden'', g)
        else (case body of None \<Rightarrow> (Error 400 ''bad_request'', g) | Some b \<Rightarrow>
          let dest = trim_space b in
          if dest = [] then (Error 400 ''missing_destination'', g)
          else if dest = tm_id src then (Answer 204 (), g)
          else if flt ''check destination team'' then (Error 500 ''internal'', g)
          else (case sql_row (\<lambda>m. mb_team m = dest \<and> mb_user m = pr_user who
                               \<and> sql_exists (\<lambda>t. tm_id t = dest) (teams g)) (members g) of
              None \<Rightarrow> (if \<not> sql_exists (\<lambda>t. tm_id t = dest) (teams g) \<or> flt ''destination exists''
                        then (Error 404 ''team_not_found'', g) else (Error 403 ''forbidden'', g))
            | Some m \<Rightarrow>
                if mb_role m \<noteq> RoleAdmin then (Error 403 ''forbidden'', g)
                else if flt ''transfer project'' then (Error 500 ''internal'', g)
                else if project_slug_used dest (pj_id p) (pj_slug p) g then (Error 409 ''slug_taken'', g)
                else (Answer 204 (),
                  record_audit flt dest (pr_user who) ''transferProject'' ''project'' (pj_id p)
                    (record_audit flt (tm_id src) (pr_user who) ''transferProject'' ''project'' (pj_id p)
                      (g\<lparr>projects := sql_update (\<lambda>x. pj_id x = pj_id p) (move_project dest) (projects g)\<rparr>))))))"

section \<open>deleteProject\<close>

text \<open>The deployments whose containers go first: managed ones that are not being provisioned.\<close>

definition to_tear_down :: "uuid \<Rightarrow> state \<Rightarrow> deployment list" where
  "to_tear_down pid s = filter (\<lambda>d. d_project d = pid \<and> d_status d \<noteq> DDeleted \<and> \<not> d_adopted d
     \<and> d_status d \<noteq> DProvisioning) (deps s)"

fun tear_down_all :: "deployer \<Rightarrow> deployment list \<Rightarrow> state \<Rightarrow> unit outcome \<times> state" where
  "tear_down_all dp [] s = (Ok (), s)"
| "tear_down_all dp (d # ds) s =
     (case destroy_deployment_containers dp d s of
        (Ok _, s1) \<Rightarrow> tear_down_all dp ds s1
      | (Err e, s1) \<Rightarrow> (Err e, s1)
      | (Panic, s1) \<Rightarrow> (Panic, s1))"

definition delete_project :: "ofaults \<Rightarrow> deployer \<Rightarrow> principal \<Rightarrow> string \<Rightarrow> org \<Rightarrow> uuid resp \<times> org" where
  "delete_project flt dp who ref g =
     (case load_project_for_request flt who ref g of
        Inl e \<Rightarrow> (refuse e, g)
      | Inr (p, t, role) \<Rightarrow>
        if \<not> can_admin_project role then (Error 403 ''forbidden'', g)
        else if flt ''list project deployments for teardown'' then (Error 500 ''internal'', g)
        else (case tear_down_all dp (to_tear_down (pj_id p) (sys g)) (sys g) of
            (Err _, s1) \<Rightarrow> (Error 500 ''destroy_failed'', set_sys s1 g)
          | (Panic, s1) \<Rightarrow> (Error 500 [], set_sys s1 g)
          | (Ok _, s1) \<Rightarrow>
              if flt ''tx begin'' \<or> flt ''mark deployments deleted'' \<or> flt ''delete project'' \<or> flt ''tx commit''
              then (Error 500 ''internal'', set_sys s1 g)
              else (Answer 200 (pj_id p),
                record_audit flt (tm_id t) (pr_user who) ''deleteProject'' ''project'' (pj_id p)
                  (drop_projects {pj_id p} (set_sys s1 g)))))"

section \<open>Environment variables\<close>

record env_change =
  ev_op :: string
  ev_name :: string
  ev_value :: string
  ev_types :: "string list"

definition known_type :: "string \<Rightarrow> bool" where
  "known_type t \<longleftrightarrow> t \<in> set [''dev'', ''prod'', ''preview'', ''custom'']"

definition set_env :: "uuid \<Rightarrow> string \<Rightarrow> string \<Rightarrow> string \<Rightarrow> env_var list \<Rightarrow> env_var list" where
  "set_env pid typ name v es =
     (let hit = (\<lambda>e. e_project e = pid \<and> e_name e = name \<and> e_type e = typ) in
      if sql_exists hit es then sql_update hit (\<lambda>e. e\<lparr>e_value := v\<rparr>) es
      else es @ [\<lparr>e_project = pid, e_type = typ, e_name = name, e_value = v\<rparr>])"

text \<open>The types of one change, trimmed; an unknown type violates the \<open>CHECK\<close> of the column.\<close>

fun set_env_types ::
  "ofaults \<Rightarrow> uuid \<Rightarrow> string \<Rightarrow> string \<Rightarrow> string list \<Rightarrow> env_var list \<Rightarrow> refusal + env_var list" where
  "set_env_types flt pid name v [] es = Inr es"
| "set_env_types flt pid name v (t # ts) es =
     (let dt = trim_space t in
      if dt = [] then Inl (400, ''bad_deployment_type'')
      else if flt ''env var change'' \<or> \<not> known_type dt then Inl internal
      else set_env_types flt pid name v ts (set_env pid dt name v es))"

definition delete_env :: "uuid \<Rightarrow> string \<Rightarrow> string list \<Rightarrow> env_var list \<Rightarrow> env_var list" where
  "delete_env pid name types es =
     filter (\<lambda>e. \<not> (e_project e = pid \<and> e_name e = name \<and> (types = [] \<or> e_type e \<in> set types))) es"

fun apply_env_changes :: "ofaults \<Rightarrow> uuid \<Rightarrow> env_change list \<Rightarrow> env_var list \<Rightarrow> refusal + env_var list" where
  "apply_env_changes flt pid [] es = Inr es"
| "apply_env_changes flt pid (c # cs) es =
     (let name = trim_space (ev_name c) in
      if name = [] then Inl (400, ''missing_name'')
      else if ev_op c = ''set'' then
        (case set_env_types flt pid name (ev_value c)
                (if ev_types c = [] then [''dev'', ''prod'', ''preview''] else ev_types c) es of
           Inl e \<Rightarrow> Inl e
         | Inr es1 \<Rightarrow> apply_env_changes flt pid cs es1)
      else if ev_op c = ''delete'' then
        (if flt ''env var delete'' then Inl internal
         else apply_env_changes flt pid cs (delete_env pid name (ev_types c) es))
      else Inl (400, ''bad_op''))"

record env_sync_result =
  sy_total :: nat
  sy_synced :: nat
  sy_skipped :: nat
  sy_failed :: "(uuid \<times> string) list"

definition no_sync :: env_sync_result where
  "no_sync = \<lparr>sy_total = 0, sy_synced = 0, sy_skipped = 0, sy_failed = []\<rparr>"

text \<open>The status is the one of the listing; the push reads the row again.\<close>

fun sync_deployments ::
  "ofaults \<Rightarrow> deployer \<Rightarrow> deployment list \<Rightarrow> env_sync_result \<Rightarrow> state \<Rightarrow> env_sync_result option \<times> state" where
  "sync_deployments flt dp [] r s = (Some r, s)"
| "sync_deployments flt dp (d # ds) r s =
     (case push_function_env_for_deployment flt dp (d_id d) s of
        (Panic, s1) \<Rightarrow> (None, s1)
      | (Err e, s1) \<Rightarrow> sync_deployments flt dp ds (r\<lparr>sy_failed := sy_failed r @ [(d_id d, e)]\<rparr>) s1
      | (Ok _, s1) \<Rightarrow>
          if d_status d \<noteq> DRunning \<or> dp_env dp = None then
            sync_deployments flt dp ds (r\<lparr>sy_skipped := sy_skipped r + 1\<rparr>) s1
          else sync_deployments flt dp ds (r\<lparr>sy_synced := sy_synced r + 1\<rparr>) s1)"

text \<open>\<open>None\<close> for a panic of the push. Without a deployments handler nothing is synchronised.\<close>

definition sync_function_env_for_project ::
  "ofaults \<Rightarrow> deployer option \<Rightarrow> uuid \<Rightarrow> org \<Rightarrow> env_sync_result option \<times> org" where
  "sync_function_env_for_project flt odp pid g =
     (if flt ''sync function env: list deployments'' then (Some no_sync, g)
      else (let ds = map fst (sort_key (\<lambda>x. dd_created (snd x)) (live_deployments (\<lambda>p. pj_id p = pid) g));
                r0 = no_sync\<lparr>sy_total := length ds\<rparr>
            in case odp of
                 None \<Rightarrow> (Some r0, g)
               | Some dp \<Rightarrow>
                   (case sync_deployments flt dp ds r0 (sys g) of (r, s1) \<Rightarrow> (r, set_sys s1 g))))"

definition list_env_vars :: "ofaults \<Rightarrow> principal \<Rightarrow> string \<Rightarrow> org \<Rightarrow> env_var list resp" where
  "list_env_vars flt who ref g =
     (case load_project_for_request flt who ref g of
        Inl e \<Rightarrow> refuse e
      | Inr (p, _, _) \<Rightarrow>
          if flt ''list env vars'' then Error 500 ''internal''
          else Answer 200 (sort_key (\<lambda>e. (e_name e, e_type e))
                 (filter (\<lambda>e. e_project e = pj_id p) (env_vars (sys g)))))"

definition update_env_vars ::
  "ofaults \<Rightarrow> deployer option \<Rightarrow> principal \<Rightarrow> string \<Rightarrow> env_change list option \<Rightarrow> org
     \<Rightarrow> (nat \<times> env_sync_result) resp \<times> org" where
  "update_env_vars flt odp who ref body g =
     (case load_project_for_request flt who ref g of
        Inl e \<Rightarrow> (refuse e, g)
      | Inr (p, t, role) \<Rightarrow>
        if \<not> can_edit_project role then (Error 403 ''forbidden'', g)
        else (case body of None \<Rightarrow> (Error 400 ''bad_request'', g) | Some cs \<Rightarrow>
          if flt ''tx begin'' then (Error 500 ''internal'', g)
          else (case apply_env_changes flt (pj_id p) cs (env_vars (sys g)) of
              Inl e \<Rightarrow> (refuse e, g)
            | Inr es \<Rightarrow>
                if flt ''tx commit'' then (Error 500 ''internal'', g)
                else (case sync_function_env_for_project flt odp (pj_id p) (set_sys ((sys g)\<lparr>env_vars := es\<rparr>) g) of
                    (None, g1) \<Rightarrow> (Error 500 [], g1)
                  | (Some r, g1) \<Rightarrow>
                      (Answer 200 (length cs, r),
                       record_audit flt (tm_id t) (pr_user who) ''updateProjectEnvVars'' ''project'' (pj_id p) g1)))))"

definition sync_env_to_deployments ::
  "ofaults \<Rightarrow> deployer option \<Rightarrow> principal \<Rightarrow> string \<Rightarrow> org \<Rightarrow> env_sync_result resp \<times> org" where
  "sync_env_to_deployments flt odp who ref g =
     (case load_project_for_request flt who ref g of
        Inl e \<Rightarrow> (refuse e, g)
      | Inr (p, t, role) \<Rightarrow>
        if \<not> can_edit_project role then (Error 403 ''forbidden'', g)
        else if odp = None then (Error 503 ''not_configured'', g)
        else (case sync_function_env_for_project flt odp (pj_id p) g of
            (None, g1) \<Rightarrow> (Error 500 [], g1)
          | (Some r, g1) \<Rightarrow>
              (Answer 200 r,
               record_audit flt (tm_id t) (pr_user who) ''syncEnvToDeployments'' ''project'' (pj_id p) g1)))"

section \<open>Project members\<close>

text \<open>Every member of the team with the role on the project, and whether it is an override.\<close>

definition member_view :: "uuid \<Rightarrow> org \<Rightarrow> member \<times> user \<Rightarrow> uuid \<times> role \<times> bool" where
  "member_view pid g x =
     (case sql_row (\<lambda>m. pm_project m = pid \<and> pm_user m = mb_user (fst x)) (pmembers g) of
        Some m \<Rightarrow> (us_id (snd x), pm_role m, True)
      | None \<Rightarrow> (us_id (snd x), mb_role (fst x), False))"

definition list_project_members ::
  "ofaults \<Rightarrow> principal \<Rightarrow> string \<Rightarrow> org \<Rightarrow> (uuid \<times> role \<times> bool) list resp" where
  "list_project_members flt who ref g =
     (case load_project_for_request flt who ref g of
        Inl e \<Rightarrow> refuse e
      | Inr (p, t, _) \<Rightarrow>
          if flt ''list project members'' then Error 500 ''internal''
          else Answer 200 (map (member_view (pj_id p) g) (sort_key member_key (team_members (tm_id t) g))))"

definition upsert_pmember :: "uuid \<Rightarrow> uuid \<Rightarrow> role \<Rightarrow> int \<Rightarrow> pmember list \<Rightarrow> pmember list" where
  "upsert_pmember pid uid r t ms =
     (let hit = (\<lambda>m. pm_project m = pid \<and> pm_user m = uid) in
      if sql_exists hit ms then sql_update hit (\<lambda>m. m\<lparr>pm_role := r\<rparr>) ms
      else ms @ [\<lparr>pm_project = pid, pm_user = uid, pm_role = r, pm_created = t\<rparr>])"

text \<open>
  \<open>addProjectMember\<close> and \<open>updateProjectMemberRole\<close> have the same body but for their codes, which are
  arguments. A target that is no UUID fails the membership query.
\<close>

definition set_project_member ::
  "string \<Rightarrow> string \<Rightarrow> string \<Rightarrow> ofaults \<Rightarrow> (string \<Rightarrow> bool) \<Rightarrow> principal \<Rightarrow> string \<Rightarrow> member_req option \<Rightarrow> org
     \<Rightarrow> (uuid \<times> role) resp \<times> org" where
  "set_project_member missing stmt act flt is_uuid who ref body g =
     (case load_project_for_request flt who ref g of
        Inl e \<Rightarrow> (refuse e, g)
      | Inr (p, t, role) \<Rightarrow>
        if \<not> can_admin_project role then (Error 403 ''forbidden'', g)
        else (case body of None \<Rightarrow> (Error 400 ''bad_request'', g) | Some b \<Rightarrow>
          let target = trim_space (mr_member b) in
          if target = [] then (Error 400 missing, g)
          else (case normalise_project_role (mr_role b) of None \<Rightarrow> (Error 400 ''invalid_role'', g) | Some new \<Rightarrow>
            if flt ''check team membership'' \<or> \<not> is_uuid target then (Error 500 ''internal'', g)
            else if \<not> sql_exists (\<lambda>m. mb_team m = tm_id t \<and> mb_user m = target) (members g) then
              (Error 400 ''not_team_member'', g)
            else if flt stmt then (Error 500 ''internal'', g)
            else (Answer 200 (target, new),
                  record_audit flt (tm_id t) (pr_user who) act ''project'' (pj_id p)
                    (g\<lparr>pmembers := upsert_pmember (pj_id p) target new (now g) (pmembers g)\<rparr>)))))"

definition add_project_member where
  "add_project_member = set_project_member ''missing_user'' ''insert project member'' ''addProjectMember''"

definition update_project_member_role where
  "update_project_member_role =
     set_project_member ''missing_member'' ''update project member role'' ''updateProjectMemberRole''"

definition remove_project_member ::
  "ofaults \<Rightarrow> principal \<Rightarrow> string \<Rightarrow> string option \<Rightarrow> org \<Rightarrow> uuid resp \<times> org" where
  "remove_project_member flt who ref body g =
     (case load_project_for_request flt who ref g of
        Inl e \<Rightarrow> (refuse e, g)
      | Inr (p, t, role) \<Rightarrow>
        (case body of None \<Rightarrow> (Error 400 ''bad_request'', g) | Some b \<Rightarrow>
          let target = trim_space b; hit = (\<lambda>m. pm_project m = pj_id p \<and> pm_user m = target) in
          if target = [] then (Error 400 ''missing_member'', g)
          else if target \<noteq> pr_user who \<and> \<not> can_admin_project role then (Error 403 ''forbidden'', g)
          else if flt ''remove project member'' then (Error 500 ''internal'', g)
          else if sql_count hit (pmembers g) = 0 then (Error 404 ''no_override'', g)
          else (Answer 200 target,
                record_audit flt (tm_id t) (pr_user who) ''removeProjectMember'' ''project'' (pj_id p)
                  (g\<lparr>pmembers := filter (\<lambda>m. \<not> hit m) (pmembers g)\<rparr>))))"

end
