(* ===== verification/Fleet.thy ===== *)
theory Fleet
  imports Projects
begin

text \<open>
  What the deployment handlers of api/deployments.go share: the tables beside the accounts, the wiring
  of the handler, the allocation of names and ports, the storage of an HA deployment, the bounds on
  resources, and the URLs a deployment is shown under.
\<close>

section \<open>Tables and wiring\<close>

text \<open>The deploy keys (migration 000009).\<close>

record deploy_key =
  ky_id :: uuid
  ky_deployment :: uuid
  ky_name :: string
  ky_prefix :: string
  ky_hash :: string
  ky_creator :: "uuid option"
  ky_created :: int
  ky_revoked :: "int option"

record cloud =
  og :: org
  deploy_keys :: "deploy_key list"

definition set_org :: "org \<Rightarrow> cloud \<Rightarrow> cloud" where
  "set_org g c = c\<lparr>og := g\<rparr>"

lemma set_org_fields [simp]:
  "og (set_org g c) = g" "deploy_keys (set_org g c) = deploy_keys c"
  by (simp_all add: set_org_def)

lemma set_org_same [simp]: "set_org (og c) c = c"
  by (simp add: set_org_def)

record ha_config =
  hc_enabled :: bool
  hc_postgres :: string
  hc_endpoint :: string
  hc_region :: string
  hc_access :: string
  hc_secret :: string
  hc_prefix :: string

record ha_overrides =
  ho_postgres :: string
  ho_endpoint :: string
  ho_region :: string
  ho_access :: string
  ho_secret :: string

text \<open>\<open>crypto.SecretBox\<close>; not every encrypter can decrypt. The nonce plays no part.\<close>

record secret_box =
  sb_encrypt :: "string \<Rightarrow> string + string"
  sb_decrypt :: "(string \<Rightarrow> string outcome) option"

text \<open>
  \<open>fl_names\<close> are the random bytes of the name generator, by attempt and candidate; \<open>fl_get\<close> is an HTTP
  GET with an optional Authorization header, which returns the status code.
\<close>

record fleet =
  fl_dp :: deployer
  fl_api :: api
  fl_ha :: ha_config
  fl_box :: "secret_box option"
  fl_names :: "nat \<Rightarrow> nat \<Rightarrow> nat \<times> nat \<times> nat \<times> nat"
  fl_recreate_replica :: "spec \<Rightarrow> info ext"
  fl_valid_url :: "string \<Rightarrow> bool"
  fl_get :: "string \<Rightarrow> string option \<Rightarrow> int ext"

section \<open>Names and ports\<close>

text \<open>The statements of attempt \<open>k\<close> of a retried transaction have labels of their own.\<close>

definition in_attempt :: "nat \<Rightarrow> ofaults \<Rightarrow> ofaults" where
  "in_attempt k flt l = flt (l @ '' '' @ dec k)"

fun find_deployment_name ::
  "ofaults \<Rightarrow> (nat \<Rightarrow> nat \<times> nat \<times> nat \<times> nat) \<Rightarrow> deployment list \<Rightarrow> nat \<Rightarrow> nat \<Rightarrow> string + string" where
  "find_deployment_name flt rnd ds i 0 = Inl ''could not allocate deployment name''"
| "find_deployment_name flt rnd ds i (Suc n) =
     (let candidate = generate_deployment_name (rnd i) in
      if flt ''deployment name exists'' then Inl ''query failed''
      else if sql_exists (\<lambda>d. d_name d = candidate) ds then find_deployment_name flt rnd ds (Suc i) n
      else Inr candidate)"

definition allocate_deployment_name ::
  "ofaults \<Rightarrow> (nat \<Rightarrow> nat \<times> nat \<times> nat \<times> nat) \<Rightarrow> state \<Rightarrow> string + string" where
  "allocate_deployment_name flt rnd s = find_deployment_name flt rnd (deps s) 0 25"

text \<open>Every port of a replica row counts, whatever its status; the ports of deleted deployments do not.\<close>

definition reserved_ports :: "state \<Rightarrow> int list" where
  "reserved_ports s = List.map_filter d_host_port (filter (\<lambda>d. d_status d \<noteq> DDeleted) (deps s))
     @ List.map_filter r_port (reps s)"

definition allocate_api_ports :: "ofaults \<Rightarrow> deployer \<Rightarrow> nat \<Rightarrow> state \<Rightarrow> string + int list" where
  "allocate_api_ports flt dp n s =
     (if n = 0 then Inl ''allocatePorts: n must be > 0''
      else if flt ''allocate ports'' then Inl ''query failed''
      else (let out = take n (filter (\<lambda>p. p \<notin> set (reserved_ports s)) [dp_port_min dp .. dp_port_max dp])
            in if length out < n then
                 Inl (''allocatePorts: only '' @ dec (length out) @ '' of '' @ dec n @ '' requested ports free in range [''
                      @ fmt_d (dp_port_min dp) @ '','' @ fmt_d (dp_port_max dp) @ '']'')
               else Inr out))"

section \<open>Storage of an HA deployment\<close>

record per_deployment_storage =
  ps_postgres :: string
  ps_schema :: string
  ps_endpoint :: string
  ps_region :: string
  ps_access :: string
  ps_secret :: string
  ps_files :: string
  ps_modules :: string
  ps_search :: string
  ps_exports :: string
  ps_snapshots :: string

definition or_default :: "string \<Rightarrow> string \<Rightarrow> string" where
  "or_default v dflt = (if v = [] then dflt else v)"

definition no_overrides :: ha_overrides where
  "no_overrides = \<lparr>ho_postgres = [], ho_endpoint = [], ho_region = [], ho_access = [], ho_secret = []\<rparr>"

definition derive_per_deployment_storage ::
  "string \<Rightarrow> ha_config \<Rightarrow> ha_overrides option \<Rightarrow> per_deployment_storage" where
  "derive_per_deployment_storage name hc ov =
     (let o1 = (case ov of None \<Rightarrow> no_overrides | Some x \<Rightarrow> x);
          db = ''convex_'' @ sql_ident name;
          bucket = or_default (hc_prefix hc) ''convex'' @ ''-'' @ sql_ident name
      in \<lparr>ps_postgres = swap_postgres_database (or_default (ho_postgres o1) (hc_postgres hc)) db,
          ps_schema = db,
          ps_endpoint = or_default (ho_endpoint o1) (hc_endpoint hc),
          ps_region = or_default (ho_region o1) (hc_region hc),
          ps_access = or_default (ho_access o1) (hc_access hc),
          ps_secret = or_default (ho_secret o1) (hc_secret hc),
          ps_files = bucket @ ''-files'', ps_modules = bucket @ ''-modules'', ps_search = bucket @ ''-search'',
          ps_exports = bucket @ ''-exports'', ps_snapshots = bucket @ ''-snapshots''\<rparr>)"

definition missing_ha_cluster_fields :: "ha_config \<Rightarrow> string" where
  "missing_ha_cluster_fields hc =
     join '', '' (map snd (filter (\<lambda>(v, n). v = [])
       [(hc_postgres hc, ''SYNAPSE_BACKEND_POSTGRES_URL''), (hc_endpoint hc, ''SYNAPSE_BACKEND_S3_ENDPOINT''),
        (hc_access hc, ''SYNAPSE_BACKEND_S3_ACCESS_KEY''), (hc_secret hc, ''SYNAPSE_BACKEND_S3_SECRET_KEY''),
        (hc_prefix hc, ''SYNAPSE_BACKEND_S3_BUCKET_PREFIX'')]))"

text \<open>The refusals shared by the two handlers that set up HA; \<open>Inr\<close> is the encrypter.\<close>

definition ha_ready :: "fleet \<Rightarrow> refusal + secret_box" where
  "ha_ready fl =
     (if \<not> hc_enabled (fl_ha fl) then Inl (400, ''ha_disabled'')
      else if missing_ha_cluster_fields (fl_ha fl) \<noteq> [] then Inl (400, ''ha_misconfigured'')
      else case fl_box fl of None \<Rightarrow> Inl (400, ''ha_misconfigured'') | Some b \<Rightarrow> Inr b)"

text \<open>The row of \<open>deployment_storage\<close> with its three secrets encrypted, in order.\<close>

definition seal_storage :: "secret_box \<Rightarrow> uuid \<Rightarrow> per_deployment_storage \<Rightarrow> string + storage_row" where
  "seal_storage box dep ps =
     (case sb_encrypt box (ps_postgres ps) of Inl e \<Rightarrow> Inl (''encrypt db_url: '' @ e) | Inr u \<Rightarrow>
      (case sb_encrypt box (ps_access ps) of Inl e \<Rightarrow> Inl (''encrypt s3_access_key: '' @ e) | Inr a \<Rightarrow>
       (case sb_encrypt box (ps_secret ps) of Inl e \<Rightarrow> Inl (''encrypt s3_secret_key: '' @ e) | Inr k \<Rightarrow>
        Inr \<lparr>s_deployment = dep, s_db_url_enc = u, s_access_enc = a, s_secret_enc = k,
             s_endpoint = ps_endpoint ps, s_region = ps_region ps, s_files = ps_files ps,
             s_modules = ps_modules ps, s_search = ps_search ps, s_exports = ps_exports ps,
             s_snapshots = ps_snapshots ps\<rparr>)))"

section \<open>Resource limits\<close>

definition validate_resource_limits :: "rat option \<Rightarrow> int option \<Rightarrow> string" where
  "validate_resource_limits cpus mem =
     (if (case cpus of None \<Rightarrow> False | Some x \<Rightarrow> x < 1 / 10 \<or> 64 < x) then
        ''cpus must be between 0.1 and 64 (fractions allowed, e.g. 0.5)''
      else if (case mem of None \<Rightarrow> False | Some m \<Rightarrow> m < 128 \<or> 1048576 < m) then
        ''memoryMb must be between 128 and 1048576''
      else [])"

text \<open>A value stored in a \<open>NUMERIC(5,2)\<close> column (migration 000034).\<close>

definition numeric_2 :: "rat \<Rightarrow> rat" where
  "numeric_2 x = rat_of_int (round (x * 100)) / 100"

section \<open>What is shown of a deployment\<close>

definition url_fields :: "deployment \<Rightarrow> url_dep" where
  "url_fields d = \<lparr>u_name = d_name d, u_adopted = d_adopted d, u_url = text_of (d_url d),
     u_port = (case d_host_port d of None \<Rightarrow> 0 | Some p \<Rightarrow> p)\<rparr>"

definition public_deployment_url :: "ofaults \<Rightarrow> deployer \<Rightarrow> deployment \<Rightarrow> state \<Rightarrow> string" where
  "public_deployment_url flt dp d s =
     public_url (dp_computer dp) (Some (url_fields d))
       (lookup_active_api_domain False (flt ''lookup api domain'') s (d_id d))"

definition site_deployment_url :: "ofaults \<Rightarrow> deployer \<Rightarrow> deployment \<Rightarrow> state \<Rightarrow> string" where
  "site_deployment_url flt dp d s =
     site_url (dp_computer dp) (Some (url_fields d))
       (lookup_active_site_domain False (flt ''lookup site domain'') s (d_id d))"

record dep_view =
  dv_dep :: deployment
  dv_url :: string
  dv_site :: string

definition deployment_view :: "ofaults \<Rightarrow> fleet \<Rightarrow> deployment \<Rightarrow> state \<Rightarrow> dep_view" where
  "deployment_view flt fl d s = \<lparr>dv_dep = d, dv_url = public_deployment_url flt (fl_dp fl) d s,
     dv_site = site_deployment_url flt (fl_dp fl) d s\<rparr>"

definition get_deployment :: "ofaults \<Rightarrow> fleet \<Rightarrow> principal \<Rightarrow> string \<Rightarrow> cloud \<Rightarrow> dep_view resp" where
  "get_deployment flt fl who name c =
     (case load_deployment_for_request flt who name (og c) of
        Inl e \<Rightarrow> refuse e
      | Inr (d, _, _, _) \<Rightarrow> Answer 200 (deployment_view flt fl d (sys (og c))))"

text \<open>
  GET /v1/projects/{id}/deployment: a reference, the default prod or dev deployment, or any; the default
  first, then the newest.
\<close>

definition project_deployment_query :: "string \<Rightarrow> string \<Rightarrow> string \<Rightarrow> deployment \<times> dep_doc \<Rightarrow> bool" where
  "project_deployment_query ref prd dev x =
     (if ref \<noteq> [] then dd_reference (snd x) = Some ref
      else if to_lower prd = ''true'' then d_type (fst x) = ''prod'' \<and> dd_default (snd x)
      else if to_lower dev = ''true'' then d_type (fst x) = ''dev'' \<and> dd_default (snd x)
      else True)"

definition get_project_deployment ::
  "ofaults \<Rightarrow> fleet \<Rightarrow> principal \<Rightarrow> string \<Rightarrow> string \<Rightarrow> string \<Rightarrow> string \<Rightarrow> cloud \<Rightarrow> dep_view resp" where
  "get_project_deployment flt fl who pref ref prd dev c =
     (case load_project_for_request flt who pref (og c) of
        Inl e \<Rightarrow> refuse e
      | Inr (p, _, _) \<Rightarrow>
          if flt ''query deployment'' then Error 500 ''internal''
          else (case sort_key (\<lambda>x. (\<not> dd_default (snd x), - dd_created (snd x)))
                  (filter (project_deployment_query ref prd dev) (live_deployments (\<lambda>y. pj_id y = pj_id p) (og c))) of
                  [] \<Rightarrow> Error 404 ''deployment_not_found''
                | x # _ \<Rightarrow> Answer 200 (deployment_view flt fl (fst x) (sys (og c)))))"

end
