(* ===== verification/Deployments.thy ===== *)
theory Deployments
  imports Fleet
begin

text \<open>
  How deployments come into being (api/deployments.go): createDeployment, adoptDeployment with its probe,
  updateAdopted and reissueAdminKey. The unique constraints of \<open>deployments\<close> and \<open>deployment_replicas\<close> are
  checked where the transaction inserts; what other requests did while \<open>generate_key\<close> ran or the probe was
  answered is in the state these calls return. A panic of a call is answered by the router with a bare 500.
\<close>

section \<open>createDeployment\<close>

record create_deployment_req =
  cd_type :: string
  cd_reference :: string
  cd_default :: bool
  cd_ha :: bool
  cd_overrides :: "ha_overrides option"
  cd_host :: string
  cd_cpus :: "rat option"
  cd_memory :: "int option"

text \<open>
  Both handlers under a project look the project up by themselves and ask for the role, but not for the
  scope of the token.
\<close>

definition project_role_for ::
  "ofaults \<Rightarrow> principal \<Rightarrow> uuid \<Rightarrow> org \<Rightarrow> refusal + uuid \<times> role" where
  "project_role_for flt who pid g =
     (if pr_user who = [] then Inl (401, ''unauthorized'')
      else case fetch flt ''lookup project'' (\<lambda>p. pj_id p = pid) (projects g) of
          NoRows \<Rightarrow> Inl (404, ''project_not_found'')
        | DbErr \<Rightarrow> Inl internal
        | Row p \<Rightarrow>
            (case effective_project_role flt pid (pj_team p) (pr_user who) g of
               NoRows \<Rightarrow> Inl forbidden
             | DbErr \<Rightarrow> Inl internal
             | Row r \<Rightarrow> Inr (pj_team p, r)))"

definition deployment_type_of :: "string \<Rightarrow> string option" where
  "deployment_type_of t = (if t = [] then Some ''dev'' else if known_type t then Some t else None)"

text \<open>The host by id or name; without a reference the host of Synapse itself.\<close>

definition host_by_ref :: "string \<Rightarrow> cloud \<Rightarrow> host option" where
  "host_by_ref ref c = sql_row (\<lambda>h. h_id h = ref \<or> h_name h = ref) (hosts (sys (og c)))"

definition self_host :: "cloud \<Rightarrow> uuid option" where
  "self_host c = map_option h_id (sql_row h_self (hosts (sys (og c))))"

definition target_host :: "ofaults \<Rightarrow> string \<Rightarrow> cloud \<Rightarrow> refusal + uuid" where
  "target_host flt ref0 c =
     (let ref = trim_space ref0 in
      if ref = [] then
        (if flt ''locate self-host'' then Inl internal
         else case self_host c of None \<Rightarrow> Inl internal | Some h \<Rightarrow> Inr h)
      else if flt ''validate host_id'' then Inl internal
      else case host_by_ref ref c of
          None \<Rightarrow> Inl (400, ''host_not_found'')
        | Some h \<Rightarrow>
            if h_status h = HDraining then Inl (400, ''host_draining'')
            else if h_is_remote h \<and> h_ssh_key h = None then Inl (400, ''host_not_provisioned'')
            else Inr (h_id h))"

text \<open>The request once it is validated: the type, the encrypter if it is HA, the host, the secret.\<close>

record create_plan =
  ck_project :: uuid
  ck_user :: uuid
  ck_type :: string
  ck_box :: "secret_box option"
  ck_host :: uuid
  ck_secret :: string

definition replica_number :: "create_deployment_req \<Rightarrow> nat" where
  "replica_number b = (if cd_ha b then 2 else 1)"

definition new_deployment ::
  "create_deployment_req \<Rightarrow> create_plan \<Rightarrow> uuid \<Rightarrow> string \<Rightarrow> int \<Rightarrow> string \<Rightarrow> deployment" where
  "new_deployment b k i name port key = \<lparr>d_id = i, d_project = ck_project k, d_name = name, d_type = ck_type k,
     d_status = DProvisioning, d_container = None, d_host_port = Some port, d_url = None, d_admin_key = key,
     d_secret = ck_secret k, d_adopted = False, d_ha = cd_ha b, d_replica_count = replica_number b,
     d_last_deploy = None, d_host = ck_host k, d_cpus = map_option numeric_2 (cd_cpus b), d_memory = cd_memory b,
     d_schedule = SchedNone, d_retention = 7\<rparr>"

definition new_dep_doc :: "uuid \<Rightarrow> int \<Rightarrow> bool \<Rightarrow> string \<Rightarrow> uuid \<Rightarrow> dep_doc" where
  "new_dep_doc i t dflt ref uid = \<lparr>dd_dep = i, dd_created = t, dd_default = dflt, dd_reference = null_str ref,
     dd_creator = Some uid\<rparr>"

definition add_deployment :: "deployment \<Rightarrow> dep_doc \<Rightarrow> org \<Rightarrow> org" where
  "add_deployment d x g = set_sys ((sys g)\<lparr>deps := deps (sys g) @ [d]\<rparr>) (g\<lparr>dep_docs := dep_docs g @ [x]\<rparr>)"

text \<open>\<open>UNIQUE (name)\<close>, \<open>UNIQUE (host_port)\<close> over all rows, the deleted ones too, and the foreign keys.\<close>

definition deployment_conflict :: "deployment \<Rightarrow> org \<Rightarrow> db_error option" where
  "deployment_conflict d g =
     (if sql_exists (\<lambda>x. d_name x = d_name d) (deps (sys g)) then Some (UniqueViolation ''deployments_name_key'')
      else if d_host_port d \<noteq> None \<and> sql_exists (\<lambda>x. d_host_port x = d_host_port d) (deps (sys g)) then
        Some (UniqueViolation ''deployments_host_port_key'')
      else if find_host (d_host d) (sys g) = None \<or> \<not> sql_exists (\<lambda>p. pj_id p = d_project d) (projects g) then
        Some (OtherError ''violates foreign key constraint'')
      else None)"

definition fresh_replica :: "uuid \<Rightarrow> uuid \<Rightarrow> nat \<Rightarrow> int \<Rightarrow> replica" where
  "fresh_replica i dep idx port = \<lparr>r_id = i, r_deployment = dep, r_index = int idx, r_container = None,
     r_port = Some port, r_status = DProvisioning, r_last_seen = None\<rparr>"

fun insert_fresh_replicas ::
  "ofaults \<Rightarrow> fleet \<Rightarrow> uuid \<Rightarrow> nat \<Rightarrow> int list \<Rightarrow> org \<Rightarrow> db_error + org" where
  "insert_fresh_replicas flt fl dep idx [] g = Inr g"
| "insert_fresh_replicas flt fl dep idx (p # ps) g =
     (if flt ''insert replica'' then Inl (OtherError ''insert replica'')
      else if sql_exists (\<lambda>r. r_port r = Some p) (reps (sys g)) then
        Inl (UniqueViolation ''deployment_replicas_host_port_key'')
      else if flt ''enqueue replica'' then Inl (OtherError ''enqueue replica'')
      else (let i = new_id (a_uuid (fl_api fl)) g; s = sys g;
                s1 = s\<lparr>reps := reps s @ [fresh_replica i dep idx p]\<rparr>;
                s2 = snd (enqueue_replica no_faults dep i (dp_hc_network (fl_dp fl)) s1)
            in insert_fresh_replicas flt fl dep (Suc idx) ps (set_sys s2 (took_id g))))"

definition add_storage :: "storage_row \<Rightarrow> org \<Rightarrow> org" where
  "add_storage r g = set_sys ((sys g)\<lparr>storages := storages (sys g) @ [r]\<rparr>) g"

text \<open>The storage row of an HA deployment.\<close>

definition with_ha_storage ::
  "ofaults \<Rightarrow> fleet \<Rightarrow> create_deployment_req \<Rightarrow> create_plan \<Rightarrow> uuid \<Rightarrow> string \<Rightarrow> org \<Rightarrow> db_error + org" where
  "with_ha_storage flt fl b k i name g =
     (case ck_box k of None \<Rightarrow> Inr g | Some box \<Rightarrow>
      (case seal_storage box i (derive_per_deployment_storage name (fl_ha fl) (cd_overrides b)) of
         Inl e \<Rightarrow> Inl (OtherError e)
       | Inr r \<Rightarrow> if flt ''insert storage'' then Inl (OtherError ''insert storage'') else Inr (add_storage r g)))"

text \<open>One transaction; an error anywhere rolls all of it back.\<close>

definition create_tx ::
  "ofaults \<Rightarrow> fleet \<Rightarrow> create_deployment_req \<Rightarrow> create_plan \<Rightarrow> string \<Rightarrow> int list \<Rightarrow> string \<Rightarrow> org
     \<Rightarrow> db_error + deployment \<times> org" where
  "create_tx flt fl b k name ports key g =
     (if flt ''tx begin'' \<or> flt ''insert deployment'' then Inl (OtherError ''insert deployment'')
      else (let d = new_deployment b k (new_id (a_uuid (fl_api fl)) g) name (hd ports) key;
                g1 = add_deployment d (new_dep_doc (d_id d) (now g) (cd_default b) (cd_reference b) (ck_user k)) (took_id g)
            in case deployment_conflict d g of Some e \<Rightarrow> Inl e | None \<Rightarrow>
              (case with_ha_storage flt fl b k (d_id d) name g1 of
                 Inl e \<Rightarrow> Inl e
               | Inr g2 \<Rightarrow>
                   (case insert_fresh_replicas flt fl (d_id d) 0 ports g2 of
                      Inl e \<Rightarrow> Inl e
                    | Inr g3 \<Rightarrow> if flt ''tx commit'' then Inl (OtherError ''tx commit'') else Inr (d, g3)))))"

definition create_deployment_attempt ::
  "ofaults \<Rightarrow> fleet \<Rightarrow> create_deployment_req \<Rightarrow> create_plan \<Rightarrow> nat \<Rightarrow> org \<times> deployment outcome
     \<Rightarrow> db_error option \<times> (org \<times> deployment outcome)" where
  "create_deployment_attempt flt0 fl b k n x =
     (let flt = in_attempt n flt0; g = fst x in
      case allocate_deployment_name flt (fl_names fl n) (sys g) of Inl e \<Rightarrow> (Some (OtherError e), x) | Inr name \<Rightarrow>
      (case allocate_api_ports flt (fl_dp fl) (replica_number b) (sys g) of Inl e \<Rightarrow> (Some (OtherError e), x) | Inr ports \<Rightarrow>
       (case call_out (CAdminKey name) (dp_admin_key (fl_dp fl) name (ck_secret k)) (sys g) of
          (Err e, s1) \<Rightarrow> (Some (OtherError e), (set_sys s1 g, Err e))
        | (Panic, s1) \<Rightarrow> (Some (OtherError ''panic''), (set_sys s1 g, Panic))
        | (Ok key, s1) \<Rightarrow>
            (case create_tx flt fl b k name ports key (set_sys s1 g) of
               Inl e \<Rightarrow> (Some e, (set_sys s1 g, Err (error_text e)))
             | Inr (d, g1) \<Rightarrow> (None, (g1, Ok d))))))"

text \<open>The checks of the request, in the order of the code; \<open>Inr\<close> is the plan and the team.\<close>

definition validate_create ::
  "ofaults \<Rightarrow> fleet \<Rightarrow> principal \<Rightarrow> uuid \<Rightarrow> create_deployment_req option \<Rightarrow> cloud
     \<Rightarrow> refusal + create_deployment_req \<times> create_plan \<times> uuid" where
  "validate_create flt fl who pid body c =
     (case project_role_for flt who pid (og c) of Inl e \<Rightarrow> Inl e | Inr (tid, role) \<Rightarrow>
      if \<not> can_edit_project role then Inl forbidden
      else (case body of None \<Rightarrow> Inl (400, ''bad_request'') | Some b \<Rightarrow>
      (case deployment_type_of (cd_type b) of None \<Rightarrow> Inl (400, ''invalid_type'') | Some typ \<Rightarrow>
       if validate_resource_limits (cd_cpus b) (cd_memory b) \<noteq> [] then Inl (400, ''invalid_resources'')
       else (case (if cd_ha b then (case ha_ready fl of Inl e \<Rightarrow> Inl e | Inr x \<Rightarrow> Inr (Some x)) else Inr None) of
           Inl e \<Rightarrow> Inl e
         | Inr box \<Rightarrow>
             (case target_host flt (cd_host b) c of Inl e \<Rightarrow> Inl e | Inr hid \<Rightarrow>
              (case a_random (fl_api fl) (next_uuid (pl (og c))) of
                 None \<Rightarrow> Inl internal
               | Some secret \<Rightarrow> Inr (b, \<lparr>ck_project = pid, ck_user = pr_user who, ck_type = typ, ck_box = box,
                   ck_host = hid, ck_secret = secret\<rparr>, tid)))))))"

definition create_deployment ::
  "ofaults \<Rightarrow> fleet \<Rightarrow> principal \<Rightarrow> uuid \<Rightarrow> create_deployment_req option \<Rightarrow> cloud \<Rightarrow> dep_view resp \<times> cloud" where
  "create_deployment flt fl who pid body c =
     (case validate_create flt fl who pid body c of
        Inl e \<Rightarrow> (refuse e, c)
      | Inr (b, k, tid) \<Rightarrow>
          (case with_retry_on_unique_violation (a_cancelled (fl_api fl)) 5
                  (create_deployment_attempt flt fl b k) (og c, Err []) of
             (None, (g, Ok d)) \<Rightarrow>
               (Answer 201 (deployment_view flt fl (d\<lparr>d_cpus := cd_cpus b\<rparr>) (sys g)),
                set_org (record_audit flt tid (pr_user who) ''createDeployment'' ''deployment'' (d_id d) g) c)
           | (_, (g, Panic)) \<Rightarrow> (Error 500 [], set_org g c)
           | (_, (g, _)) \<Rightarrow> (Error 500 ''internal'', set_org g c)))"

section \<open>adoptDeployment\<close>

definition label_char :: "char \<Rightarrow> bool" where
  "label_char x \<longleftrightarrow> 97 \<le> code x \<and> code x \<le> 122 \<or> 48 \<le> code x \<and> code x \<le> 57 \<or> x = CHR ''-''"

text \<open>\<open>^[a-z0-9](?:[a-z0-9-]{0,61}[a-z0-9])?$\<close>\<close>

definition deployment_name_re :: "string \<Rightarrow> bool" where
  "deployment_name_re s \<longleftrightarrow> s \<noteq> [] \<and> length s \<le> 63 \<and> list_all label_char s \<and> hd s \<noteq> CHR ''-'' \<and> last s \<noteq> CHR ''-''"

definition http_url :: "string \<Rightarrow> bool" where
  "http_url u \<longleftrightarrow> has_prefix u ''http://'' \<or> has_prefix u ''https://''"

text \<open>Two requests, neither of which follows a redirect: is it a live backend, and does the key work?\<close>

definition probe_adopted_backend :: "fleet \<Rightarrow> string \<Rightarrow> string \<Rightarrow> state \<Rightarrow> (refusal + unit) \<times> state" where
  "probe_adopted_backend fl url key s =
     (if \<not> fl_valid_url fl (url @ ''/version'') then (Inl (400, ''invalid_url''), s)
      else case call_out (CHttpGet (url @ ''/version'')) (fl_get fl (url @ ''/version'') None) s of
          (Panic, s1) \<Rightarrow> (Inl (500, []), s1)
        | (Err _, s1) \<Rightarrow> (Inl (502, ''probe_failed''), s1)
        | (Ok st, s1) \<Rightarrow>
            if st div 100 \<noteq> 2 then (Inl (502, ''probe_failed''), s1)
            else if \<not> fl_valid_url fl (url @ ''/api/check_admin_key'') then (Inl (400, ''invalid_url''), s1)
            else (case call_out (CHttpGet (url @ ''/api/check_admin_key''))
                         (fl_get fl (url @ ''/api/check_admin_key'') (Some (''Convex '' @ key))) s1 of
                (Panic, s2) \<Rightarrow> (Inl (500, []), s2)
              | (Err _, s2) \<Rightarrow> (Inl (502, ''probe_failed''), s2)
              | (Ok st2, s2) \<Rightarrow>
                  if st2 = 200 then (Inr (), s2)
                  else if st2 = 401 \<or> st2 = 403 then (Inl (400, ''invalid_admin_key''), s2)
                  else (Inl (502, ''probe_failed''), s2)))"

record adopt_deployment_req =
  ad_url :: string
  ad_key :: string
  ad_type :: string
  ad_name :: string
  ad_default :: bool
  ad_reference :: string

definition adopted_deployment ::
  "adopt_deployment_req \<Rightarrow> uuid \<Rightarrow> string \<Rightarrow> uuid \<Rightarrow> string \<Rightarrow> uuid \<Rightarrow> deployment" where
  "adopted_deployment b pid typ i name h = \<lparr>d_id = i, d_project = pid, d_name = name, d_type = typ,
     d_status = DRunning, d_container = None, d_host_port = None, d_url = Some (ad_url b), d_admin_key = ad_key b,
     d_secret = [], d_adopted = True, d_ha = False, d_replica_count = 1, d_last_deploy = None, d_host = h,
     d_cpus = None, d_memory = None, d_schedule = SchedNone, d_retention = 7\<rparr>"

text \<open>One statement per attempt; without a host of Synapse itself \<open>host_id\<close> would be NULL.\<close>

definition adopt_attempt ::
  "ofaults \<Rightarrow> fleet \<Rightarrow> adopt_deployment_req \<Rightarrow> uuid \<Rightarrow> string \<Rightarrow> uuid \<Rightarrow> uuid option \<Rightarrow> nat
     \<Rightarrow> org \<times> deployment option \<Rightarrow> db_error option \<times> (org \<times> deployment option)" where
  "adopt_attempt flt0 fl b pid typ uid self n x =
     (let flt = in_attempt n flt0; g = fst x in
      case (if ad_name b \<noteq> [] then Inr (ad_name b) else allocate_deployment_name flt (fl_names fl n) (sys g)) of
        Inl e \<Rightarrow> (Some (OtherError e), x)
      | Inr name \<Rightarrow>
          if flt ''insert adopted deployment'' then (Some (OtherError ''insert adopted deployment''), x)
          else (case self of None \<Rightarrow> (Some (OtherError ''null value in column host_id''), x) | Some h \<Rightarrow>
            (let d = adopted_deployment b pid typ (new_id (a_uuid (fl_api fl)) g) name h in
             case deployment_conflict d g of
               Some e \<Rightarrow> (Some e, x)
             | None \<Rightarrow> (None, (add_deployment d (new_dep_doc (d_id d) (now g) (ad_default b) (ad_reference b) uid)
                                 (took_id g), Some d)))))"

definition trimmed_adopt :: "adopt_deployment_req \<Rightarrow> adopt_deployment_req" where
  "trimmed_adopt b = b\<lparr>ad_url := trim_right_slashes (trim_space (ad_url b)), ad_key := trim_space (ad_key b),
     ad_name := trim_space (ad_name b)\<rparr>"

definition validate_adopt ::
  "ofaults \<Rightarrow> principal \<Rightarrow> uuid \<Rightarrow> adopt_deployment_req option \<Rightarrow> org
     \<Rightarrow> refusal + adopt_deployment_req \<times> string \<times> uuid" where
  "validate_adopt flt who pid body g =
     (case project_role_for flt who pid g of Inl e \<Rightarrow> Inl e | Inr (tid, role) \<Rightarrow>
      if \<not> can_admin_project role then Inl forbidden
      else (case body of None \<Rightarrow> Inl (400, ''bad_request'') | Some b0 \<Rightarrow>
        (let b = trimmed_adopt b0 in
         if ad_url b = [] then Inl (400, ''missing_url'')
         else if \<not> http_url (ad_url b) then Inl (400, ''invalid_url'')
         else if ad_key b = [] then Inl (400, ''missing_admin_key'')
         else (case deployment_type_of (ad_type b) of None \<Rightarrow> Inl (400, ''invalid_type'') | Some typ \<Rightarrow>
           if ad_name b \<noteq> [] \<and> \<not> deployment_name_re (ad_name b) then Inl (400, ''invalid_name'')
           else Inr (b, typ, tid)))))"

definition adopt_deployment ::
  "ofaults \<Rightarrow> fleet \<Rightarrow> principal \<Rightarrow> uuid \<Rightarrow> adopt_deployment_req option \<Rightarrow> cloud \<Rightarrow> dep_view resp \<times> cloud" where
  "adopt_deployment flt fl who pid body c =
     (case validate_adopt flt who pid body (og c) of
        Inl e \<Rightarrow> (refuse e, c)
      | Inr (b, typ, tid) \<Rightarrow>
          (case probe_adopted_backend fl (ad_url b) (ad_key b) (sys (og c)) of
             (Inl e, s1) \<Rightarrow> (refuse e, set_org (set_sys s1 (og c)) c)
           | (Inr _, s1) \<Rightarrow>
               (case with_retry_on_unique_violation (a_cancelled (fl_api fl)) 5
                       (adopt_attempt flt fl b pid typ (pr_user who) (self_host c)) (set_sys s1 (og c), None) of
                  (None, (g, Some d)) \<Rightarrow>
                    (Answer 201 (deployment_view flt fl d (sys g)),
                     set_org (record_audit flt tid (pr_user who) ''adoptDeployment'' ''deployment'' (d_id d) g) c)
                | (Some (UniqueViolation _), (g, _)) \<Rightarrow>
                    (if ad_name b \<noteq> [] then Error 409 ''name_taken'' else Error 500 ''internal'', set_org g c)
                | (_, (g, _)) \<Rightarrow> (Error 500 ''internal'', set_org g c))))"

section \<open>updateAdopted, reissueAdminKey\<close>

record update_adopted_req =
  ua_url :: string
  ua_key :: string

definition repoint :: "string \<Rightarrow> string \<Rightarrow> deployment \<Rightarrow> deployment" where
  "repoint url key d = d\<lparr>d_url := (if url \<noteq> [] then Some url else d_url d),
     d_admin_key := (if key \<noteq> [] then key else d_admin_key d), d_status := DRunning\<rparr>"

definition update_adopted ::
  "ofaults \<Rightarrow> fleet \<Rightarrow> principal \<Rightarrow> string \<Rightarrow> update_adopted_req option \<Rightarrow> cloud \<Rightarrow> dep_view resp \<times> cloud" where
  "update_adopted flt fl who name body c =
     (case load_deployment_for_request flt who name (og c) of
        Inl e \<Rightarrow> (refuse e, c)
      | Inr (d, p, t, role) \<Rightarrow>
        if \<not> can_admin_project role then (Error 403 ''forbidden'', c)
        else if \<not> d_adopted d then (Error 409 ''not_adopted'', c)
        else (case body of None \<Rightarrow> (Error 400 ''bad_request'', c) | Some b \<Rightarrow>
          let url = trim_right_slashes (trim_space (ua_url b)); key = trim_space (ua_key b) in
          if url = [] \<and> key = [] then (Error 400 ''missing_fields'', c)
          else if url \<noteq> [] \<and> \<not> http_url url then (Error 400 ''invalid_url'', c)
          else let eff_url = or_default url (text_of (d_url d)); eff_key = or_default key (d_admin_key d) in
            (case probe_adopted_backend fl eff_url eff_key (sys (og c)) of
               (Inl e, s1) \<Rightarrow> (refuse e, set_org (set_sys s1 (og c)) c)
             | (Inr _, s1) \<Rightarrow>
                 let hit = (\<lambda>x. d_id x = d_id d \<and> d_adopted x \<and> d_status x \<noteq> DDeleted) in
                 if flt ''update adopted deployment'' then (Error 500 ''internal'', set_org (set_sys s1 (og c)) c)
                 else if sql_count hit (deps s1) = 0 then
                   (Error 404 ''deployment_not_found'', set_org (set_sys s1 (og c)) c)
                 else
                   let s2 = s1\<lparr>deps := sql_update hit (repoint url key) (deps s1)\<rparr> in
                   (Answer 200 (deployment_view flt fl
                      (d\<lparr>d_url := Some eff_url, d_admin_key := eff_key, d_status := DRunning\<rparr>) s2),
                    set_org (record_audit flt (tm_id t) (pr_user who) ''updateAdoptedDeployment'' ''deployment'' (d_id d)
                      (set_sys s2 (og c))) c))))"

text \<open>The first eight characters of what follows the pipe of an admin key.\<close>

definition deploy_key_prefix :: "string \<Rightarrow> string" where
  "deploy_key_prefix key =
     (let rest = from_char (CHR ''|'') key
      in if rest \<noteq> [] \<and> tl rest \<noteq> [] then take 8 (tl rest) else take 8 key)"

record reissued =
  ri_name :: string
  ri_key :: string
  ri_prefix :: string

definition set_admin_key :: "string \<Rightarrow> deployment \<Rightarrow> deployment" where
  "set_admin_key key d = d\<lparr>d_admin_key := key\<rparr>"

definition reissue_admin_key ::
  "ofaults \<Rightarrow> fleet \<Rightarrow> principal \<Rightarrow> string \<Rightarrow> cloud \<Rightarrow> reissued resp \<times> cloud" where
  "reissue_admin_key flt fl who name c =
     (case load_deployment_for_request flt who name (og c) of
        Inl e \<Rightarrow> (refuse e, c)
      | Inr (d, p, t, role) \<Rightarrow>
        if \<not> can_admin_project role then (Error 403 ''forbidden'', c)
        else if d_adopted d then (Error 409 ''cannot_reissue_adopted'', c)
        else if d_secret d = [] then (Error 409 ''missing_instance_secret'', c)
        else (case call_out (CAdminKey (d_name d)) (dp_admin_key (fl_dp fl) (d_name d) (d_secret d)) (sys (og c)) of
            (Err _, s1) \<Rightarrow> (Error 500 ''internal'', set_org (set_sys s1 (og c)) c)
          | (Panic, s1) \<Rightarrow> (Error 500 [], set_org (set_sys s1 (og c)) c)
          | (Ok key, s1) \<Rightarrow>
              if flt ''reissue admin key: update db'' then (Error 500 ''internal'', set_org (set_sys s1 (og c)) c)
              else (Answer 200 \<lparr>ri_name = d_name d, ri_key = key, ri_prefix = deploy_key_prefix key\<rparr>,
                set_org (record_audit flt (tm_id t) (pr_user who) ''reissueAdminKey'' ''deployment'' (d_id d)
                  (set_sys (s1\<lparr>deps := sql_update (\<lambda>x. d_id x = d_id d) (set_admin_key key) (deps s1)\<rparr>) (og c))) c)))"

end
