(* ===== verification/Dns.thy ===== *)
theory Dns
  imports Proxy Deployments
begin

text \<open>
  Zones and DNS credentials: what a hostname is (api/domains.go), the Cloudflare client
  (dns/cloudflare.go) over the libdns library and HTTP, and the handlers that keep the credentials
  (api/dns_credentials.go, the wrappers of api/projects.go). Bodies of HTTP answers come decoded.
\<close>

section \<open>Names\<close>

text \<open>\<open>strings.ToLower\<close>: bytes when the text is ASCII, code points otherwise.\<close>

definition go_lower :: "unicode \<Rightarrow> string \<Rightarrow> string" where
  "go_lower u s = (if list_all (\<lambda>x. code x < 128) s then to_lower s else encode_runes (map (uc_lower u) (runes s)))"

fun split_on :: "char \<Rightarrow> string \<Rightarrow> string list" where
  "split_on k [] = [[]]"
| "split_on k (x # xs) =
     (if x = k then [] # split_on k xs
      else (case split_on k xs of [] \<Rightarrow> [[x]] | w # ws \<Rightarrow> (x # w) # ws))"

text \<open>\<open>^[a-z0-9]([a-z0-9-]*[a-z0-9])?(\.[a-z0-9]([a-z0-9-]*[a-z0-9])?)+$\<close>\<close>

definition host_label :: "string \<Rightarrow> bool" where
  "host_label w \<longleftrightarrow> w \<noteq> [] \<and> list_all label_char w \<and> hd w \<noteq> CHR ''-'' \<and> last w \<noteq> CHR ''-''"

definition hostname_re :: "string \<Rightarrow> bool" where
  "hostname_re s \<longleftrightarrow> 2 \<le> length (split_on CHR ''.'' s) \<and> list_all host_label (split_on CHR ''.'' s)"

definition validate_domain :: "unicode \<Rightarrow> string \<Rightarrow> refusal + string" where
  "validate_domain u raw =
     (let d = go_lower u (trim_space raw) in
      if d = [] then Inl (400, ''missing_domain'')
      else if 253 < length d then Inl (400, ''invalid_domain'')
      else if list_ex (\<lambda>x. x \<in> set ([CHR '' '', CHR 0x09, CHR 0x0A] @ ''/:?#@'')) d then Inl (400, ''invalid_domain'')
      else if \<not> hostname_re d then Inl (400, ''invalid_domain'')
      else Inr d)"

definition validate_role :: "string \<Rightarrow> refusal + domain_role" where
  "validate_role r =
     (if r = ''api'' then Inr RoleApi else if r = ''dashboard'' then Inr RoleDashboard
      else if r = ''site'' then Inr RoleSite else Inl (400, ''invalid_role''))"

section \<open>Zones\<close>

record zone_info =
  zi_id :: string
  zi_name :: string

definition zone_key :: "unicode \<Rightarrow> string \<Rightarrow> string" where
  "zone_key u s = go_lower u (trim_suffix (trim_space s) ''.'')"

definition under_zone :: "string \<Rightarrow> string \<Rightarrow> bool" where
  "under_zone d z \<longleftrightarrow> z \<noteq> [] \<and> (d = z \<or> has_suffix d (CHR ''.'' # z))"

fun best_zone :: "string \<Rightarrow> string \<Rightarrow> string list \<Rightarrow> string" where
  "best_zone d best [] = best"
| "best_zone d best (z # zs) = best_zone d (if under_zone d z \<and> length best < length z then z else best) zs"

definition longest_matching_zone :: "unicode \<Rightarrow> string \<Rightarrow> zone_info list \<Rightarrow> (string \<times> string) option" where
  "longest_matching_zone u domain zs =
     (let d = zone_key u domain; z = best_zone d [] (map (zone_key u \<circ> zi_name) zs) in
      if z = [] then None
      else if d = z then Some (z, ''@'')
      else Some (z, trim_suffix d (CHR ''.'' # z)))"

section \<open>The Cloudflare client\<close>

datatype cf_error = Unauthorized string | CfError string

fun cf_text :: "cf_error \<Rightarrow> string" where
  "cf_text (Unauthorized e) = e"
| "cf_text (CfError e) = e"

datatype 'a cf_result = CfOk 'a | CfFail cf_error | CfPanic

record verify_doc =
  vd_success :: bool
  vd_status :: string
  vd_errors :: "(int \<times> string) list"

record zones_doc =
  zd_success :: bool
  zd_ids :: "string list"
  zd_errors :: "(int \<times> string) list"

text \<open>
  The HTTP requests answer with a status and the decoded body, if it is JSON; the last three are calls
  of libdns.
\<close>

record cf_api =
  cf_verify :: "string \<Rightarrow> (int \<times> verify_doc option) ext"
  cf_zone :: "string \<Rightarrow> string \<Rightarrow> (int \<times> zones_doc option) ext"
  cf_list :: "string \<Rightarrow> string list ext"
  cf_set :: "string \<Rightarrow> string \<Rightarrow> string \<Rightarrow> string \<Rightarrow> unit ext"     \<comment> \<open>token, zone, record, address\<close>
  cf_delete :: "string \<Rightarrow> string \<Rightarrow> string \<Rightarrow> unit ext"

definition err_unauthorized :: string where
  "err_unauthorized = ''cloudflare: token unauthorized or revoked''"

definition map_auth_error :: "string \<Rightarrow> cf_error" where
  "map_auth_error e =
     (if str_contains e ''HTTP 401'' \<or> str_contains e ''HTTP 403'' then Unauthorized (err_unauthorized @ '': '' @ e)
      else CfError e)"

definition http_denied :: "int \<Rightarrow> bool" where
  "http_denied st \<longleftrightarrow> st = 401 \<or> st = 403"

definition judge_token :: "int \<times> verify_doc option \<Rightarrow> unit cf_result" where
  "judge_token a =
     (if http_denied (fst a) then CfFail (Unauthorized err_unauthorized)
      else case snd a of None \<Rightarrow> CfFail (CfError ''cloudflare: decode verify response'')
      | Some d \<Rightarrow>
          if \<not> vd_success d then
            (case vd_errors d of
               [] \<Rightarrow> CfFail (CfError ''cloudflare: verify failed'')
             | (k, m) # _ \<Rightarrow> if k = 1000 \<or> k = 1001 then CfFail (Unauthorized err_unauthorized)
                 else CfFail (CfError (''cloudflare: verify failed: '' @ fmt_d k @ '' '' @ m)))
          else if vd_status d \<noteq> [] \<and> vd_status d \<noteq> ''active'' then CfFail (CfError ''cloudflare: token status'')
          else CfOk ())"

definition verify_token :: "cf_api \<Rightarrow> string \<Rightarrow> state \<Rightarrow> unit cf_result \<times> state" where
  "verify_token cf token s =
     (if trim_space token = [] then (CfFail (CfError ''cloudflare: empty token''), s)
      else case call_out (CCloudflare ''verify'' [] []) (cf_verify cf token) s of
          (Panic, s1) \<Rightarrow> (CfPanic, s1)
        | (Err e, s1) \<Rightarrow> (CfFail (CfError (''cloudflare: verify token: '' @ e)), s1)
        | (Ok a, s1) \<Rightarrow> (judge_token a, s1))"

definition judge_zone :: "int \<times> zones_doc option \<Rightarrow> string cf_result" where
  "judge_zone a =
     (if http_denied (fst a) then CfFail (Unauthorized err_unauthorized)
      else case snd a of None \<Rightarrow> CfFail (CfError ''cloudflare: decode zones response'')
      | Some d \<Rightarrow>
          if \<not> zd_success d \<or> zd_ids d = [] then
            (case zd_errors d of
               [] \<Rightarrow> CfFail (CfError ''cloudflare: zone not found'')
             | (k, m) # _ \<Rightarrow> CfFail (CfError (''cloudflare: zone lookup failed: '' @ fmt_d k @ '' '' @ m)))
          else CfOk (hd (zd_ids d)))"

definition lookup_zone_id :: "cf_api \<Rightarrow> string \<Rightarrow> string \<Rightarrow> state \<Rightarrow> string cf_result \<times> state" where
  "lookup_zone_id cf token name s =
     (case call_out (CCloudflare ''zone'' name []) (cf_zone cf token name) s of
        (Panic, s1) \<Rightarrow> (CfPanic, s1)
      | (Err e, s1) \<Rightarrow> (CfFail (CfError (''cloudflare: lookup zone '' @ name @ '': '' @ e)), s1)
      | (Ok a, s1) \<Rightarrow> (judge_zone a, s1))"

fun zone_infos :: "cf_api \<Rightarrow> string \<Rightarrow> string list \<Rightarrow> state \<Rightarrow> zone_info list cf_result \<times> state" where
  "zone_infos cf token [] s = (CfOk [], s)"
| "zone_infos cf token (z # zs) s =
     (let bare = trim_suffix z ''.'' in
      if bare = [] then zone_infos cf token zs s
      else (case lookup_zone_id cf token bare s of
          (CfPanic, s1) \<Rightarrow> (CfPanic, s1)
        | (CfFail e, s1) \<Rightarrow> (CfFail e, s1)
        | (CfOk i, s1) \<Rightarrow>
            (case zone_infos cf token zs s1 of
               (CfOk r, s2) \<Rightarrow> (CfOk (\<lparr>zi_id = i, zi_name = bare\<rparr> # r), s2)
             | x \<Rightarrow> x)))"

definition list_zones :: "cf_api \<Rightarrow> string \<Rightarrow> state \<Rightarrow> zone_info list cf_result \<times> state" where
  "list_zones cf token s =
     (case call_out (CCloudflare ''zones'' [] []) (cf_list cf token) s of
        (Panic, s1) \<Rightarrow> (CfPanic, s1)
      | (Err e, s1) \<Rightarrow> (CfFail (map_auth_error e), s1)
      | (Ok zs, s1) \<Rightarrow> zone_infos cf token zs s1)"

text \<open>\<open>netip.ParseAddr\<close> followed by \<open>Is4\<close>: four decimal fields without leading zeros.\<close>

definition ip_field :: "string \<Rightarrow> bool" where
  "ip_field w \<longleftrightarrow> w \<noteq> [] \<and> length w \<le> 3 \<and> list_all digit_char w \<and> (hd w = CHR ''0'' \<longrightarrow> length w = 1) \<and> undec w \<le> 255"

definition is_ipv4 :: "string \<Rightarrow> bool" where
  "is_ipv4 s \<longleftrightarrow> length (split_on CHR ''.'' s) = 4 \<and> list_all ip_field (split_on CHR ''.'' s)"

definition upsert_a_record ::
  "cf_api \<Rightarrow> string \<Rightarrow> string \<Rightarrow> string \<Rightarrow> string \<Rightarrow> state \<Rightarrow> unit cf_result \<times> state" where
  "upsert_a_record cf token zone rec ip s =
     (if \<not> is_ipv4 ip then (CfFail (CfError ''cloudflare: not an IPv4 address''), s)
      else case call_out (CCloudflare ''set'' zone rec) (cf_set cf token zone rec ip) s of
          (Panic, s1) \<Rightarrow> (CfPanic, s1)
        | (Err e, s1) \<Rightarrow>
            (CfFail (map_auth_error (''cloudflare: upsert A record '' @ rec @ ''.'' @ zone @ '': '' @ e)), s1)
        | (Ok _, s1) \<Rightarrow> (CfOk (), s1))"

definition delete_a_record ::
  "cf_api \<Rightarrow> string \<Rightarrow> string \<Rightarrow> string \<Rightarrow> state \<Rightarrow> unit cf_result \<times> state" where
  "delete_a_record cf token zone rec s =
     (case call_out (CCloudflare ''delete'' zone rec) (cf_delete cf token zone rec) s of
        (Panic, s1) \<Rightarrow> (CfPanic, s1)
      | (Err e, s1) \<Rightarrow>
          (CfFail (case map_auth_error e of Unauthorized m \<Rightarrow> Unauthorized m
             | CfError _ \<Rightarrow> CfError (''cloudflare: delete A record '' @ rec @ ''.'' @ zone @ '': '' @ e)), s1)
      | (Ok _, s1) \<Rightarrow> (CfOk (), s1))"

section \<open>The credentials\<close>

record dns_credential =
  cr_id :: uuid
  cr_project :: "uuid option"
  cr_label :: string
  cr_token :: string
  cr_zones :: "zone_info list"
  cr_creator :: "uuid option"
  cr_created :: int
  cr_used :: "int option"
  cr_error :: "string option"

text \<open>The edge: the cloud, the credentials, and the resolver of the proxy of this node, if it runs one.\<close>

record edge =
  ec :: cloud
  creds :: "dns_credential list"
  er :: "resolver option"

definition eorg :: "edge \<Rightarrow> org" where
  "eorg e = og (ec e)"

definition esys :: "edge \<Rightarrow> state" where
  "esys e = sys (eorg e)"

definition set_eorg :: "org \<Rightarrow> edge \<Rightarrow> edge" where
  "set_eorg g e = e\<lparr>ec := set_org g (ec e)\<rparr>"

definition set_esys :: "state \<Rightarrow> edge \<Rightarrow> edge" where
  "set_esys s e = set_eorg (set_sys s (eorg e)) e"

lemma edge_fields [simp]:
  "eorg (set_eorg g e) = g" "esys (set_eorg g e) = sys g" "creds (set_eorg g e) = creds e" "er (set_eorg g e) = er e"
  "esys (set_esys s e) = s" "creds (set_esys s e) = creds e" "er (set_esys s e) = er e"
  "eorg (set_esys s e) = set_sys s (eorg e)"
  by (simp_all add: eorg_def esys_def set_eorg_def set_esys_def)

lemma edge_updates [simp]:
  "eorg (e\<lparr>creds := k\<rparr>) = eorg e" "esys (e\<lparr>creds := k\<rparr>) = esys e" "eorg (e\<lparr>er := v\<rparr>) = eorg e" "esys (e\<lparr>er := v\<rparr>) = esys e"
  by (simp_all add: eorg_def esys_def)

record envelope =
  ev_encrypt :: "string \<Rightarrow> string + string"
  ev_decrypt :: "string \<Rightarrow> string + string"

record dns_wiring =
  dw_fleet :: fleet
  dw_ip :: string                        \<comment> \<open>PublicIP\<close>
  dw_box :: "envelope option"
  dw_cf :: cf_api
  dw_lookup :: "string \<Rightarrow> string list ext"

abbreviation dw_unicode :: "dns_wiring \<Rightarrow> unicode" where
  "dw_unicode w \<equiv> a_unicode (fl_api (dw_fleet w))"

text \<open>A path parameter that is not a UUID makes the statement fail.\<close>

definition bad_id :: "dns_wiring \<Rightarrow> string \<Rightarrow> bool" where
  "bad_id w i \<longleftrightarrow> \<not> a_is_uuid (fl_api (dw_fleet w)) i"

section \<open>The handlers of the credentials\<close>

record cred_scope =
  cs_project :: "uuid option"
  cs_team :: "uuid option"
  cs_action :: string

definition in_scope :: "cred_scope \<Rightarrow> dns_credential \<Rightarrow> bool" where
  "in_scope sc k \<longleftrightarrow> cr_project k = cs_project sc"

definition new_credential ::
  "dns_wiring \<Rightarrow> uuid \<Rightarrow> cred_scope \<Rightarrow> string \<Rightarrow> string \<Rightarrow> zone_info list \<Rightarrow> edge \<Rightarrow> dns_credential" where
  "new_credential w uid sc label token zs e =
     \<lparr>cr_id = new_id (a_uuid (fl_api (dw_fleet w))) (eorg e), cr_project = cs_project sc, cr_label = label,
      cr_token = token, cr_zones = zs, cr_creator = null_str uid, cr_created = clock (esys e), cr_used = None, cr_error = None\<rparr>"

text \<open>Verify the token, list its zones, encrypt, insert. The body is absent when it cannot be read.\<close>

definition create_cloudflare_scoped ::
  "ofaults \<Rightarrow> dns_wiring \<Rightarrow> uuid \<Rightarrow> cred_scope \<Rightarrow> (string \<times> string) option \<Rightarrow> edge \<Rightarrow> dns_credential resp \<times> edge" where
  "create_cloudflare_scoped flt w uid sc body e =
     (case dw_box w of None \<Rightarrow> (Error 503 ''crypto_not_configured'', e) | Some box \<Rightarrow>
      (case body of None \<Rightarrow> (Error 400 ''bad_request'', e) | Some (token0, label0) \<Rightarrow>
        let token = trim_space token0; label = trim_space label0 in
        if token = [] then (Error 400 ''missing_token'', e)
        else if label = [] then (Error 400 ''missing_label'', e)
        else (case verify_token (dw_cf w) token (esys e) of
            (CfPanic, s1) \<Rightarrow> (Error 500 [], set_esys s1 e)
          | (CfFail (Unauthorized _), s1) \<Rightarrow> (Error 400 ''invalid_token'', set_esys s1 e)
          | (CfFail (CfError _), s1) \<Rightarrow> (Error 502 ''cloudflare_api_error'', set_esys s1 e)
          | (CfOk _, s1) \<Rightarrow>
              (case list_zones (dw_cf w) token s1 of
                 (CfPanic, s2) \<Rightarrow> (Error 500 [], set_esys s2 e)
               | (CfFail (Unauthorized _), s2) \<Rightarrow> (Error 400 ''invalid_token'', set_esys s2 e)
               | (CfFail (CfError _), s2) \<Rightarrow> (Error 502 ''cloudflare_api_error'', set_esys s2 e)
               | (CfOk zs, s2) \<Rightarrow>
                   (let e1 = set_esys s2 e in
                    case ev_encrypt box token of Inl _ \<Rightarrow> (Error 500 ''internal'', e1) | Inr enc \<Rightarrow>
                      if flt ''insert dns credential'' then (Error 500 ''internal'', e1)
                      else (let k = new_credential w uid sc label enc zs e1;
                                g = record_audit flt (text_of (cs_team sc)) uid (cs_action sc) ''dnsCredential'' (cr_id k)
                                      (took_id (eorg e1))
                            in (Answer 201 k, (set_eorg g e1)\<lparr>creds := creds e1 @ [k]\<rparr>)))))))"

definition delete_scoped ::
  "ofaults \<Rightarrow> dns_wiring \<Rightarrow> uuid \<Rightarrow> cred_scope \<Rightarrow> uuid \<Rightarrow> edge \<Rightarrow> unit resp \<times> edge" where
  "delete_scoped flt w uid sc i e =
     (if i = [] then (Error 400 ''missing_id'', e)
      else if flt ''load credential for delete'' \<or> bad_id w i then (Error 500 ''internal'', e)
      else case sql_row (\<lambda>k. cr_id k = i \<and> in_scope sc k) (creds e) of
          None \<Rightarrow> (Error 404 ''credential_not_found'', e)
        | Some k \<Rightarrow>
            if flt ''check credential in use'' then (Error 500 ''internal'', e)
            else if sql_exists (\<lambda>r. dm_credential r = Some i) (domains (esys e)) then (Error 409 ''credential_in_use'', e)
            else if flt ''delete dns credential'' then (Error 500 ''internal'', e)
            else (Answer 204 (),
              (set_eorg (record_audit flt (text_of (cs_team sc)) uid (cs_action sc) ''dnsCredential'' i (eorg e)) e)
                \<lparr>creds := filter (\<lambda>k. \<not> (cr_id k = i \<and> in_scope sc k)) (creds e)\<rparr>))"

definition list_credentials :: "ofaults \<Rightarrow> uuid option \<Rightarrow> edge \<Rightarrow> dns_credential list resp" where
  "list_credentials flt p e =
     (if flt ''list dns credentials'' then Error 500 ''internal''
      else Answer 200 (sort_key (\<lambda>k. - cr_created k) (filter (\<lambda>k. cr_project k = p) (creds e))))"

text \<open>Instance-wide credentials, behind the gate of /v1/admin.\<close>

definition instance_scope :: "string \<Rightarrow> cred_scope" where
  "instance_scope act = \<lparr>cs_project = None, cs_team = None, cs_action = act\<rparr>"

definition create_cloudflare ::
  "ofaults \<Rightarrow> dns_wiring \<Rightarrow> uuid \<Rightarrow> (string \<times> string) option \<Rightarrow> edge \<Rightarrow> dns_credential resp \<times> edge" where
  "create_cloudflare flt w uid body e = create_cloudflare_scoped flt w uid (instance_scope ''dns_credential.added'') body e"

definition delete_credential :: "ofaults \<Rightarrow> dns_wiring \<Rightarrow> uuid \<Rightarrow> uuid \<Rightarrow> edge \<Rightarrow> unit resp \<times> edge" where
  "delete_credential flt w uid i e = delete_scoped flt w uid (instance_scope ''dns_credential.removed'') i e"

text \<open>The credentials of one project.\<close>

definition project_scope :: "project \<Rightarrow> team \<Rightarrow> string \<Rightarrow> cred_scope" where
  "project_scope p t act = \<lparr>cs_project = Some (pj_id p), cs_team = Some (tm_id t), cs_action = act\<rparr>"

definition list_project_dns_credentials ::
  "ofaults \<Rightarrow> principal \<Rightarrow> string \<Rightarrow> edge \<Rightarrow> dns_credential list resp" where
  "list_project_dns_credentials flt who ref e =
     (case load_project_for_request flt who ref (eorg e) of
        Inl x \<Rightarrow> refuse x
      | Inr (p, _, _) \<Rightarrow> list_credentials flt (Some (pj_id p)) e)"

definition create_project_dns_credential ::
  "ofaults \<Rightarrow> dns_wiring \<Rightarrow> principal \<Rightarrow> string \<Rightarrow> (string \<times> string) option \<Rightarrow> edge \<Rightarrow> dns_credential resp \<times> edge" where
  "create_project_dns_credential flt w who ref body e =
     (case load_project_for_request flt who ref (eorg e) of
        Inl x \<Rightarrow> (refuse x, e)
      | Inr (p, t, role) \<Rightarrow>
          if \<not> can_admin_project role then (Error 403 ''forbidden'', e)
          else create_cloudflare_scoped flt w (pr_user who) (project_scope p t ''project_dns_credential.added'') body e)"

definition delete_project_dns_credential ::
  "ofaults \<Rightarrow> dns_wiring \<Rightarrow> principal \<Rightarrow> string \<Rightarrow> uuid \<Rightarrow> edge \<Rightarrow> unit resp \<times> edge" where
  "delete_project_dns_credential flt w who ref i e =
     (case load_project_for_request flt who ref (eorg e) of
        Inl x \<Rightarrow> (refuse x, e)
      | Inr (p, t, role) \<Rightarrow>
          if \<not> can_admin_project role then (Error 403 ''forbidden'', e)
          else delete_scoped flt w (pr_user who) (project_scope p t ''project_dns_credential.removed'') i e)"

end
