(* ===== verification/Desired.thy ===== *)
theory Desired
  imports Plane
begin

text \<open>
  Deriving the desired states of a project from its placements (api/desired_state.go): one
  transaction that versions a changed intent, creates a new one and supersedes what no placement
  wants any more; and the clean-up after a deployment is deleted (api/deployments.go).
\<close>

section \<open>Synchronisation\<close>

record want =
  wa_dep :: uuid
  wa_cell :: uuid
  wa_host :: uuid
  wa_status :: string
  wa_team :: uuid

definition want_rows :: "uuid \<Rightarrow> cell list \<Rightarrow> placement \<Rightarrow> want list" where
  "want_rows project cs pl = (case pl_host pl of
       None \<Rightarrow> []
     | Some h \<Rightarrow> map (\<lambda>c. \<lparr>wa_dep = pl_deployment pl, wa_cell = pl_cell pl, wa_host = h,
                          wa_status = pl_desired pl, wa_team = ce_team c\<rparr>)
                   (filter (\<lambda>c. ce_id c = pl_cell pl \<and> ce_project c = project) cs))"

definition wants_of :: "uuid \<Rightarrow> plane \<Rightarrow> want list" where
  "wants_of project p = concat (map (want_rows project (cells p)) (placements p))"

definition want_key :: "want \<Rightarrow> string" where
  "want_key w = res_deployment @ '':'' @ wa_dep w"

definition desired_payload :: "uuid \<Rightarrow> want \<Rightarrow> desired_body" where
  "desired_payload project w = \<lparr>db_deployment = wa_dep w, db_cell = wa_cell w, db_host = wa_host w,
     db_status = Some (wa_status w),
     db_labels = [(''synapse.managed'', ''true''), (''synapse.project_id'', project),
       (''synapse.cell_id'', wa_cell w), (''synapse.deployment_id'', wa_dep w)]\<rparr>"

type_synonym dkey = "uuid \<times> string \<times> string"

definition row_dkey :: "desired_row \<Rightarrow> dkey" where
  "row_dkey r = (ds_host r, ds_type r, ds_key r)"

definition want_dkey :: "want \<Rightarrow> dkey" where
  "want_dkey w = (wa_host w, res_deployment, want_key w)"

definition active_at :: "dkey \<Rightarrow> desired_row list \<Rightarrow> desired_row option" where
  "active_at x t = sql_row (\<lambda>r. ds_status r = DsActive \<and> row_dkey r = x) t"

definition supersede :: "desired_row \<Rightarrow> desired_row" where
  "supersede r = r\<lparr>ds_status := DsSuperseded\<rparr>"

definition retire :: "uuid \<Rightarrow> plane \<Rightarrow> plane" where
  "retire i p = p\<lparr>desired := sql_update (\<lambda>r. ds_id r = i) supersede (desired p)\<rparr>"

definition new_desired :: "uuid \<Rightarrow> uuid \<Rightarrow> uuid \<Rightarrow> want \<Rightarrow> string \<Rightarrow> int \<Rightarrow> desired_row" where
  "new_desired i team project w h v = \<lparr>ds_id = i, ds_team = Some team, ds_project = Some project,
     ds_cell = Some (wa_cell w), ds_host = wa_host w, ds_type = res_deployment,
     ds_resource = Some (wa_dep w), ds_key = want_key w, ds_body = desired_payload project w,
     ds_hash = h, ds_version = v, ds_status = DsActive, ds_source = ''placement''\<rparr>"

definition insert_desired ::
  "uuids \<Rightarrow> (desired_body \<Rightarrow> string) \<Rightarrow> uuid \<Rightarrow> uuid \<Rightarrow> want \<Rightarrow> int \<Rightarrow> plane \<Rightarrow> plane" where
  "insert_desired gen hash team project w v p =
     (drawn p)\<lparr>desired := desired p @
       [new_desired (fresh_id gen p) team project w (hash (desired_payload project w)) v]\<rparr>"

text \<open>The counters are created, updated, unchanged; \<open>hash\<close> is the SHA-256 of the JSON text.\<close>

fun sync_wants ::
  "pfaults \<Rightarrow> uuids \<Rightarrow> (desired_body \<Rightarrow> string) \<Rightarrow> uuid \<Rightarrow> uuid \<Rightarrow> nat \<Rightarrow> want list
     \<Rightarrow> nat \<times> nat \<times> nat \<Rightarrow> plane \<Rightarrow> string + ((nat \<times> nat \<times> nat) \<times> plane)" where
  "sync_wants flt gen hash team project n [] cnt p = Inr (cnt, p)"
| "sync_wants flt gen hash team project n (w # ws) (c, u, k) p =
     (case flt (PSyncLoad n) of
        Some e \<Rightarrow> Inl e
      | None \<Rightarrow> (case active_at (want_dkey w) (desired p) of
          Some r \<Rightarrow>
            if ds_hash r = hash (desired_payload project w)
            then sync_wants flt gen hash team project (Suc n) ws (c, u, Suc k) p
            else (case flt (PSyncRetire n) of
                Some e \<Rightarrow> Inl e
              | None \<Rightarrow> (case flt (PSyncInsert n) of
                  Some e \<Rightarrow> Inl e
                | None \<Rightarrow> sync_wants flt gen hash team project (Suc n) ws (c, Suc u, k)
                    (insert_desired gen hash team project w (ds_version r + 1) (retire (ds_id r) p))))
        | None \<Rightarrow> (case flt (PSyncInsert n) of
              Some e \<Rightarrow> Inl e
            | None \<Rightarrow> sync_wants flt gen hash team project (Suc n) ws (Suc c, u, k)
                (insert_desired gen hash team project w 1 p))))"

fun retire_all :: "pfaults \<Rightarrow> nat \<Rightarrow> uuid list \<Rightarrow> plane \<Rightarrow> string + plane" where
  "retire_all flt n [] p = Inr p"
| "retire_all flt n (i # is) p =
     (case flt (PSyncOrphan n) of
        Some e \<Rightarrow> Inl e
      | None \<Rightarrow> retire_all flt (Suc n) is (retire i p))"

definition wanted_keys :: "want list \<Rightarrow> string list" where
  "wanted_keys ws = map (\<lambda>w. wa_host w @ ''|'' @ want_key w) ws"

definition project_placed :: "uuid \<Rightarrow> desired_row \<Rightarrow> bool" where
  "project_placed project r \<longleftrightarrow> ds_project r = Some project \<and> ds_source r = ''placement''
     \<and> ds_type r = res_deployment \<and> ds_status r = DsActive"

definition orphans :: "uuid \<Rightarrow> want list \<Rightarrow> plane \<Rightarrow> uuid list" where
  "orphans project ws p = map ds_id (filter (\<lambda>r. project_placed project r
     \<and> ds_host r @ ''|'' @ ds_key r \<notin> set (wanted_keys ws)) (desired p))"

record sync_result =
  sy_created :: nat
  sy_updated :: nat
  sy_unchanged :: nat
  sy_superseded :: nat
  sy_total :: nat

definition sync_desired_from_placements ::
  "pfaults \<Rightarrow> uuids \<Rightarrow> (desired_body \<Rightarrow> string) \<Rightarrow> uuid \<Rightarrow> uuid \<Rightarrow> plane
     \<Rightarrow> (string + sync_result) \<times> plane" where
  "sync_desired_from_placements flt gen hash project team p =
     (case flt PSyncBegin of Some e \<Rightarrow> (Inl e, p) | None \<Rightarrow>
      case flt PSyncWants of Some e \<Rightarrow> (Inl e, p) | None \<Rightarrow>
      (let ws = wants_of project p in
       case sync_wants flt gen hash team project 0 ws (0, 0, 0) p of
         Inl e \<Rightarrow> (Inl e, p)
       | Inr ((c, u, k), p1) \<Rightarrow>
           (case flt PSyncOrphans of Some e \<Rightarrow> (Inl e, p) | None \<Rightarrow>
            (let is = orphans project ws p1 in
             case retire_all flt 0 is p1 of
               Inl e \<Rightarrow> (Inl e, p)
             | Inr p2 \<Rightarrow>
                 (case flt PSyncCommit of Some e \<Rightarrow> (Inl e, p) | None \<Rightarrow>
                   (Inr \<lparr>sy_created = c, sy_updated = u, sy_unchanged = k,
                         sy_superseded = length is, sy_total = length ws\<rparr>, p2))))))"

definition sync_doc :: "sync_result \<Rightarrow> doc" where
  "sync_doc r = [(''created'', JNum (int (sy_created r))), (''updated'', JNum (int (sy_updated r))),
     (''unchanged'', JNum (int (sy_unchanged r))), (''superseded'', JNum (int (sy_superseded r))),
     (''total'', JNum (int (sy_total r)))]"

text \<open>
  The handler behind the role check. The reply is the HTTP status with, on success, the result and
  the run; the audit record is not part of the state.
\<close>

definition sync_from_placements ::
  "pfaults \<Rightarrow> uuids \<Rightarrow> (desired_body \<Rightarrow> string) \<Rightarrow> bool \<Rightarrow> uuid option \<Rightarrow> uuid \<Rightarrow> uuid \<Rightarrow> plane
     \<Rightarrow> (nat \<times> (sync_result \<times> uuid) option) \<times> plane" where
  "sync_from_placements flt gen hash admin by project team p =
     (if \<not> admin then ((403, None), p)
      else case start_operation_run flt gen \<lparr>oi_type = ''sync_desired_from_placements'',
             oi_team = Some team, oi_project = Some project, oi_cell = None, oi_host = None,
             oi_by = by, oi_input = [(''projectId'', JStr project)]\<rparr> p of
        (Inl _, p1) \<Rightarrow> ((500, None), p1)
      | (Inr r, p1) \<Rightarrow>
          (case sync_desired_from_placements flt gen hash project team p1 of
             (Inl e, p2) \<Rightarrow> ((500, None), finish_operation_run flt r RFailed None None e p2)
           | (Inr res, p2) \<Rightarrow> ((200, Some (res, r)),
               finish_operation_run flt r RSucceeded (Some (sync_doc res)) None [] p2)))"

section \<open>Clean-up after a delete\<close>

definition cleanup_deployment_cell_state :: "pfaults \<Rightarrow> uuid \<Rightarrow> plane \<Rightarrow> plane" where
  "cleanup_deployment_cell_state flt d p =
     (let p1 = (if flt PCleanDesired \<noteq> None then p else p\<lparr>desired := sql_update
                  (\<lambda>r. ds_type r = res_deployment \<and> ds_resource r = Some d \<and> ds_status r = DsActive)
                  supersede (desired p)\<rparr>);
          p2 = (if flt PCleanPlacement \<noteq> None then p1 else p1\<lparr>placements :=
                  filter (\<lambda>x. pl_deployment x \<noteq> d) (placements p1)\<rparr>);
          p3 = (if flt PCleanResource \<noteq> None then p2 else p2\<lparr>cell_resources :=
                  filter (\<lambda>x. \<not> (cx_type x = res_deployment \<and> cx_resource x = d)) (cell_resources p2)\<rparr>)
      in if flt PCleanPrimary \<noteq> None then p3
         else p3\<lparr>cells := sql_update (\<lambda>c. ce_primary c = Some d) (\<lambda>c. c\<lparr>ce_primary := None\<rparr>) (cells p3)\<rparr>)"

end
