(* ===== verification/Lifecycle.thy ===== *)
theory Lifecycle
  imports Deployments Upgrade Desired
begin

text \<open>
  What the deployment handlers do to a deployment that exists (api/deployments.go): the upgrade request,
  delete, restart, the recreation of its containers with fresh settings and the resize that uses it, the
  credentials and the deploy keys.
\<close>

section \<open>upgradeToHA\<close>

record ha_upgrade_resp =
  hu_name :: string
  hu_job :: int

definition put_storage :: "storage_row \<Rightarrow> storage_row list \<Rightarrow> storage_row list" where
  "put_storage r rs =
     (if sql_exists (\<lambda>x. s_deployment x = s_deployment r) rs
      then sql_update (\<lambda>x. s_deployment x = s_deployment r) (\<lambda>_. r) rs else rs @ [r])"

definition upgradeable :: "deployment \<Rightarrow> refusal option" where
  "upgradeable d =
     (if d_ha d then Some (409, ''already_ha'')
      else if d_adopted d then Some (409, ''cannot_upgrade_adopted'')
      else if d_status d \<noteq> DRunning then Some (409, ''deployment_not_running'')
      else None)"

definition upgrade_active :: "uuid \<Rightarrow> state \<Rightarrow> bool" where
  "upgrade_active i s \<longleftrightarrow> sql_exists (\<lambda>j. j_deployment j = i \<and> j_kind j = KUpgradeToHA \<and> in_flight j) (jobs s)"

text \<open>The transaction: the row is locked and checked again.\<close>

definition upgrade_tx :: "ofaults \<Rightarrow> bool \<Rightarrow> uuid \<Rightarrow> storage_row \<Rightarrow> state \<Rightarrow> refusal + int \<times> state" where
  "upgrade_tx flt hc i r s =
     (if flt ''tx begin'' \<or> flt ''lock upgrade deployment'' then Inl internal
      else case find_dep i s of None \<Rightarrow> Inl internal | Some d \<Rightarrow>
        (case upgradeable d of Some e \<Rightarrow> Inl e | None \<Rightarrow>
          if flt ''check upgrade job'' then Inl internal
          else if upgrade_active i s then Inl (409, ''upgrade_already_in_progress'')
          else if flt ''store upgrade storage'' \<or> flt ''enqueue upgrade_to_ha'' \<or> flt ''tx commit'' then Inl internal
          else (case enqueue_upgrade_to_ha no_faults i hc (s\<lparr>storages := put_storage r (storages s)\<rparr>) of
              (Inl _, _) \<Rightarrow> Inl internal
            | (Inr j, s1) \<Rightarrow> Inr (j, s1))))"

text \<open>The body: absent, unreadable, or the overrides.\<close>

definition upgrade_to_ha ::
  "ofaults \<Rightarrow> fleet \<Rightarrow> principal \<Rightarrow> string \<Rightarrow> ha_overrides option option option \<Rightarrow> cloud \<Rightarrow> ha_upgrade_resp resp \<times> cloud" where
  "upgrade_to_ha flt fl who name body c =
     (case load_deployment_for_request flt who name (og c) of
        Inl e \<Rightarrow> (refuse e, c)
      | Inr (d, p, t, role) \<Rightarrow>
        if \<not> can_admin_project role then (Error 403 ''forbidden'', c)
        else (case ha_ready fl of Inl e \<Rightarrow> (refuse e, c) | Inr box \<Rightarrow>
          (case upgradeable d of Some e \<Rightarrow> (refuse e, c) | None \<Rightarrow>
           (case (case body of None \<Rightarrow> Some None | Some x \<Rightarrow> x) of None \<Rightarrow> (Error 400 ''bad_request'', c) | Some ov \<Rightarrow>
            (case seal_storage box (d_id d) (derive_per_deployment_storage (d_name d) (fl_ha fl) ov) of
               Inl _ \<Rightarrow> (Error 500 ''internal'', c)
             | Inr r \<Rightarrow>
                 (case upgrade_tx flt (dp_hc_network (fl_dp fl)) (d_id d) r (sys (og c)) of
                    Inl e \<Rightarrow> (refuse e, c)
                  | Inr (j, s1) \<Rightarrow>
                      (Answer 202 \<lparr>hu_name = d_name d, hu_job = j\<rparr>,
                       set_org (record_audit flt (tm_id t) (pr_user who) ''upgradeToHA'' ''deployment'' (d_id d)
                         (set_sys s1 (og c))) c)))))))"

section \<open>deleteDeployment\<close>

text \<open>\<open>Inl\<close> refuses the request, \<open>Inr orphaned\<close> says whether a forced delete left something behind.\<close>

fun destroy_all_replicas ::
  "deployer \<Rightarrow> string \<Rightarrow> bool \<Rightarrow> nat \<Rightarrow> nat \<Rightarrow> bool \<Rightarrow> state \<Rightarrow> (refusal + bool) \<times> state" where
  "destroy_all_replicas dp name force i 0 orphaned s = (Inr orphaned, s)"
| "destroy_all_replicas dp name force i (Suc n) orphaned s =
     (case call_out (CDestroyReplica name (int i) False) (dk_destroy_replica (dp_docker dp) name (int i) False) s of
        (Panic, s1) \<Rightarrow> (Inl (500, []), s1)
      | (Ok _, s1) \<Rightarrow> destroy_all_replicas dp name force (Suc i) n orphaned s1
      | (Err _, s1) \<Rightarrow> if force then destroy_all_replicas dp name force (Suc i) n True s1
                      else (Inl (500, ''destroy_failed''), s1))"

definition tear_down :: "deployer \<Rightarrow> bool \<Rightarrow> deployment \<Rightarrow> state \<Rightarrow> (refusal + bool) \<times> state" where
  "tear_down dp force d s =
     (if d_adopted d then (Inr False, s)
      else if d_ha d \<and> 0 < d_replica_count d then
        destroy_all_replicas dp (d_name d) force 0 (d_replica_count d) False s
      else (case docker_for dp d s of
          Inl _ \<Rightarrow> (if force then Inr True else Inl (500, ''destroy_failed''), s)
        | Inr dk \<Rightarrow>
            (case call_out (CDestroy (d_name d)) (dk_destroy dk (d_name d)) s of
               (Panic, s1) \<Rightarrow> (Inl (500, []), s1)
             | (Ok _, s1) \<Rightarrow> (Inr False, s1)
             | (Err _, s1) \<Rightarrow>
                 (if force then Inr True
                  else if on_remote_host d s then Inl (502, ''remote_teardown_failed'')
                  else Inl (500, ''destroy_failed''), s1))))"

definition cell_cleanup_faults :: "ofaults \<Rightarrow> pfaults" where
  "cell_cleanup_faults flt x =
     (let failed = (\<lambda>l. if flt l then Some ''query failed'' else None) in
      case x of PCleanDesired \<Rightarrow> failed ''cleanup desired_state on delete''
      | PCleanPlacement \<Rightarrow> failed ''cleanup placement on delete''
      | PCleanResource \<Rightarrow> failed ''cleanup cell_resource on delete''
      | PCleanPrimary \<Rightarrow> failed ''cleanup cell primary_deployment_id on delete''
      | _ \<Rightarrow> None)"

definition soft_delete :: "deployment \<Rightarrow> deployment" where
  "soft_delete d = d\<lparr>d_status := DDeleted\<rparr>"

definition bury :: "deployment \<Rightarrow> deployment" where
  "bury d = d\<lparr>d_status := DDeleted, d_container := None, d_host_port := None\<rparr>"

definition free_replica :: "replica \<Rightarrow> replica" where
  "free_replica r = r\<lparr>r_port := None, r_status := DStopped\<rparr>"

text \<open>The best-effort statements after the row is marked deleted, and the audit event.\<close>

definition after_delete :: "ofaults \<Rightarrow> uuid \<Rightarrow> uuid \<Rightarrow> uuid \<Rightarrow> org \<Rightarrow> org" where
  "after_delete flt i tid uid g =
     (let g1 = (if flt ''free replica ports'' then g
                else set_sys ((sys g)\<lparr>reps := sql_update (\<lambda>r. r_deployment r = i) free_replica (reps (sys g))\<rparr>) g);
          g2 = g1\<lparr>pl := cleanup_deployment_cell_state (cell_cleanup_faults flt) i (pl g1)\<rparr>
      in record_audit flt tid uid ''deleteDeployment'' ''deployment'' i g2)"

definition delete_deployment ::
  "ofaults \<Rightarrow> fleet \<Rightarrow> principal \<Rightarrow> string \<Rightarrow> bool \<Rightarrow> cloud \<Rightarrow> string resp \<times> cloud" where
  "delete_deployment flt fl who name force c =
     (case load_deployment_for_request flt who name (og c) of
        Inl e \<Rightarrow> (refuse e, c)
      | Inr (d, p, t, role) \<Rightarrow>
        let g = og c; mark = (\<lambda>f s. s\<lparr>deps := sql_update (\<lambda>x. d_id x = d_id d) f (deps s)\<rparr>) in
        if \<not> can_admin_project role then (Error 403 ''forbidden'', c)
        else if d_status d = DProvisioning then
          (if flt ''mark provisioning row deleted'' then (Error 500 ''internal'', c)
           else (Answer 200 (d_name d),
             set_org (after_delete flt (d_id d) (tm_id t) (pr_user who) (set_sys (mark soft_delete (sys g)) g)) c))
        else (case tear_down (fl_dp fl) force d (sys g) of
            (Inl e, s1) \<Rightarrow> (refuse e, set_org (set_sys s1 g) c)
          | (Inr _, s1) \<Rightarrow>
              if flt ''mark deleted'' then (Error 500 ''internal'', set_org (set_sys s1 g) c)
              else (Answer 200 (d_name d),
                set_org (after_delete flt (d_id d) (tm_id t) (pr_user who) (set_sys (mark bury s1) g)) c)))"

section \<open>restartDeployment\<close>

fun restart_replicas :: "deployer \<Rightarrow> string \<Rightarrow> nat \<Rightarrow> nat \<Rightarrow> state \<Rightarrow> (refusal + unit) \<times> state" where
  "restart_replicas dp name i 0 s = (Inr (), s)"
| "restart_replicas dp name i (Suc n) s =
     (case call_out (CRestartReplica name (int i)) (dp_restart_replica dp name (int i)) s of
        (Panic, s1) \<Rightarrow> (Inl (500, []), s1)
      | (Err _, s1) \<Rightarrow> (Inl (500, ''restart_failed''), s1)
      | (Ok _, s1) \<Rightarrow> restart_replicas dp name (Suc i) n s1)"

definition restart_containers :: "deployer \<Rightarrow> deployment \<Rightarrow> state \<Rightarrow> (refusal + unit) \<times> state" where
  "restart_containers dp d s =
     (if d_ha d \<and> 0 < d_replica_count d then restart_replicas dp (d_name d) 0 (d_replica_count d) s
      else (case docker_for dp d s of
          Inl _ \<Rightarrow> (Inl (500, ''restart_failed''), s)
        | Inr dk \<Rightarrow>
            (case call_out (CRestart (d_name d)) (dk_restart dk (d_name d)) s of
               (Panic, s1) \<Rightarrow> (Inl (500, []), s1)
             | (Err _, s1) \<Rightarrow> (Inl (if on_remote_host d s then 502 else 500, ''restart_failed''), s1)
             | (Ok _, s1) \<Rightarrow> (Inr (), s1))))"

definition replica_up :: "replica \<Rightarrow> replica" where
  "replica_up r = r\<lparr>r_status := DRunning\<rparr>"

definition deployment_up :: "deployment \<Rightarrow> deployment" where
  "deployment_up d = d\<lparr>d_status := DRunning\<rparr>"

text \<open>Two best-effort statements: every replica row of the deployment, and its own row unless it is deleted.\<close>

definition mark_restarted :: "ofaults \<Rightarrow> uuid \<Rightarrow> state \<Rightarrow> state" where
  "mark_restarted flt i s =
     (let s1 = (if flt ''post-restart replica status'' then s
                else s\<lparr>reps := sql_update (\<lambda>r. r_deployment r = i) replica_up (reps s)\<rparr>)
      in if flt ''post-restart deployment status'' then s1
         else s1\<lparr>deps := sql_update (\<lambda>d. d_id d = i \<and> d_status d \<noteq> DDeleted) deployment_up (deps s1)\<rparr>)"

definition restart_deployment ::
  "ofaults \<Rightarrow> fleet \<Rightarrow> principal \<Rightarrow> string \<Rightarrow> cloud \<Rightarrow> string resp \<times> cloud" where
  "restart_deployment flt fl who name c =
     (case load_deployment_for_request flt who name (og c) of
        Inl e \<Rightarrow> (refuse e, c)
      | Inr (d, p, t, role) \<Rightarrow>
        if \<not> can_edit_project role then (Error 403 ''forbidden'', c)
        else if d_adopted d then (Error 409 ''cannot_restart_adopted'', c)
        else if d_status d = DDeleted then (Error 409 ''deployment_deleted'', c)
        else if d_status d = DProvisioning then (Error 409 ''deployment_provisioning'', c)
        else (case restart_containers (fl_dp fl) d (sys (og c)) of
            (Inl e, s1) \<Rightarrow> (refuse e, set_org (set_sys s1 (og c)) c)
          | (Inr _, s1) \<Rightarrow>
              (Answer 200 (d_name d),
               set_org (record_audit flt (tm_id t) (pr_user who) ''restartDeployment'' ''deployment'' (d_id d)
                 (set_sys (mark_restarted flt (d_id d) s1) (og c))) c)))"

section \<open>rebuildCORSAndRestart\<close>

text \<open>The origins of all active domains, whatever their role, oldest first.\<close>

definition active_domain_origins :: "uuid \<Rightarrow> state \<Rightarrow> string list" where
  "active_domain_origins i s = map (\<lambda>r. ''https://'' @ dm_domain r)
     (sort_key dm_created (filter (\<lambda>r. dm_deployment r = i \<and> dm_status r = DomActive) (domains s)))"

definition with_cors :: "string list \<Rightarrow> (string \<times> string) list \<Rightarrow> (string \<times> string) list" where
  "with_cors origins env =
     (if origins = [] then env else AList.update ''CORS_ALLOWED_ORIGINS'' (join '','' origins) env)"

definition rebuild_spec ::
  "ofaults \<Rightarrow> fleet \<Rightarrow> deployment \<Rightarrow> string \<Rightarrow> int \<Rightarrow> (string \<times> string) list \<Rightarrow> state \<Rightarrow> spec" where
  "rebuild_spec flt fl d name port env s = \<lparr>sp_name = name, sp_deployment = d_id d, sp_project = d_project d,
     sp_secret = d_secret d, sp_port = port, sp_env = env, sp_hc = dp_hc_network (fl_dp fl), sp_index = 0,
     sp_ha = False, sp_storage = None,
     sp_public = cli_url (dp_computer (fl_dp fl)) (Some \<lparr>u_name = name, u_adopted = False, u_url = [], u_port = port\<rparr>)
       (lookup_active_api_domain False (flt ''lookup api domain'') s (d_id d)),
     sp_site = site_url (dp_computer (fl_dp fl)) (Some \<lparr>u_name = name, u_adopted = False, u_url = [], u_port = 0\<rparr>)
       (lookup_active_site_domain False (flt ''lookup site domain'') s (d_id d)),
     sp_cpus = (case d_cpus d of None \<Rightarrow> 0 | Some x \<Rightarrow> x), sp_memory = (case d_memory d of None \<Rightarrow> 0 | Some m \<Rightarrow> m)\<rparr>"

definition set_replica_info :: "info \<Rightarrow> replica \<Rightarrow> replica" where
  "set_replica_info i r = r\<lparr>r_container := Some (in_container i), r_port := Some (in_port i), r_status := DRunning\<rparr>"

definition set_dep_info :: "info \<Rightarrow> deployment \<Rightarrow> deployment" where
  "set_dep_info i d = d\<lparr>d_container := Some (in_container i), d_host_port := Some (in_port i), d_url := Some (in_url i)\<rparr>"

definition replica_port_taken :: "uuid \<Rightarrow> int \<Rightarrow> int \<Rightarrow> replica list \<Rightarrow> bool" where
  "replica_port_taken i idx p rs =
     sql_exists (\<lambda>r. \<not> (r_deployment r = i \<and> r_index r = idx) \<and> r_port r = Some p) rs"

text \<open>Writes what the recreated replica runs as; false when a statement fails or a port is taken.\<close>

definition record_recreated :: "ofaults \<Rightarrow> uuid \<Rightarrow> int \<Rightarrow> info \<Rightarrow> state \<Rightarrow> bool \<times> state" where
  "record_recreated flt i idx made s =
     (if flt ''update HA replica after recreate'' \<or> replica_port_taken i idx (in_port made) (reps s) then (False, s)
      else (let s1 = s\<lparr>reps := sql_update (\<lambda>r. r_deployment r = i \<and> r_index r = idx) (set_replica_info made) (reps s)\<rparr>
            in if idx \<noteq> 0 then (True, s1)
               else if flt ''update deployment after HA recreate'' \<or> port_taken i (in_port made) (deps s1) then (False, s1)
               else (True, s1\<lparr>deps := sql_update (\<lambda>d. d_id d = i) (set_dep_info made) (deps s1)\<rparr>)))"

fun roll_replicas ::
  "ofaults \<Rightarrow> fleet \<Rightarrow> (replica \<Rightarrow> spec) \<Rightarrow> uuid \<Rightarrow> replica list \<Rightarrow> state \<Rightarrow> bool outcome \<times> state" where
  "roll_replicas flt fl mk i [] s = (Ok True, s)"
| "roll_replicas flt fl mk i (r # rs) s =
     (case call_out (CRecreate (sp_name (mk r)) (r_index r) True) (fl_recreate_replica fl (mk r)) s of
        (Panic, s1) \<Rightarrow> (Panic, s1)
      | (Err _, s1) \<Rightarrow> (Ok False, s1)
      | (Ok made, s1) \<Rightarrow>
          (case record_recreated flt i (r_index r) made s1 of
             (True, s2) \<Rightarrow> roll_replicas flt fl mk i rs s2
           | (False, s2) \<Rightarrow> (Ok False, s2)))"

definition port_of :: "int option \<Rightarrow> int" where
  "port_of p = (case p of None \<Rightarrow> 0 | Some x \<Rightarrow> x)"

definition storage_for_restart :: "ofaults \<Rightarrow> fleet \<Rightarrow> uuid \<Rightarrow> state \<Rightarrow> storage_env option" where
  "storage_for_restart flt fl i s =
     (case fl_box fl of None \<Rightarrow> None | Some b \<Rightarrow>
      (case sb_decrypt b of None \<Rightarrow> None | Some dcr \<Rightarrow>
        load_storage (\<lambda>_. if flt ''read deployment_storage'' then Some ''query failed'' else None) dcr i s))"

text \<open>
  The replicas that run, in order; one without a port stops everything. All advertise the origin of the
  first. The second read of the row is best effort: without it the limits and the label are lost.
\<close>

definition rebuild_ha_cors_and_restart ::
  "ofaults \<Rightarrow> fleet \<Rightarrow> deployment \<Rightarrow> string \<Rightarrow> (string \<times> string) list \<Rightarrow> state \<Rightarrow> bool outcome \<times> state" where
  "rebuild_ha_cors_and_restart flt fl d name env s =
     (case storage_for_restart flt fl (d_id d) s of None \<Rightarrow> (Ok False, s) | Some st \<Rightarrow>
      if flt ''load HA replicas'' then (Ok False, s)
      else (let rs = sort_key r_index (filter (\<lambda>r. r_deployment r = d_id d \<and> r_status r = DRunning) (reps s));
                d1 = (if flt ''load project id'' then d\<lparr>d_project := [], d_cpus := None, d_memory := None\<rparr> else d);
                base = rebuild_spec flt fl d1 name (port_of (r_port (hd rs))) env s;
                mk = (\<lambda>r. base\<lparr>sp_port := port_of (r_port r), sp_ha := True, sp_index := r_index r,
                               sp_storage := Some st\<rparr>)
            in if rs = [] \<or> list_ex (\<lambda>r. port_of (r_port r) = 0) rs then (Ok False, s)
               else roll_replicas flt fl mk (d_id d) rs s))"

definition rebuild_cors_and_restart ::
  "ofaults \<Rightarrow> fleet \<Rightarrow> uuid \<Rightarrow> string \<Rightarrow> state \<Rightarrow> bool outcome \<times> state" where
  "rebuild_cors_and_restart flt fl i name s =
     (if flt ''rebuild cors: load deployment'' then (Ok False, s)
      else case find_dep i s of None \<Rightarrow> (Ok False, s) | Some d \<Rightarrow>
        if d_adopted d then (Ok False, s)
        else if d_status d \<noteq> DRunning then (Ok False, s)
        else if flt ''rebuild cors: load active domains'' \<or> flt ''rebuild cors: load project env vars'' then (Ok False, s)
        else (let env = with_cors (active_domain_origins i s) (load_project_env_vars (d_project d) (d_type d) s) in
          if d_ha d then rebuild_ha_cors_and_restart flt fl d name env s
          else if port_of (d_host_port d) = 0 then (Ok False, s)
          else (case call_out (CRecreate name 0 False)
                       (dp_recreate (fl_dp fl) (rebuild_spec flt fl d name (port_of (d_host_port d)) env s)) s of
              (Panic, s1) \<Rightarrow> (Panic, s1)
            | (Err _, s1) \<Rightarrow> (Ok False, s1)
            | (Ok _, s1) \<Rightarrow> (Ok True, s1))))"

section \<open>updateResources\<close>

definition set_limits :: "rat option \<Rightarrow> int option \<Rightarrow> deployment \<Rightarrow> deployment" where
  "set_limits cpus mem d = d\<lparr>d_cpus := map_option numeric_2 cpus, d_memory := mem\<rparr>"

definition resizable :: "deployment \<Rightarrow> state \<Rightarrow> refusal option" where
  "resizable d s =
     (if d_adopted d then Some (409, ''cannot_resize_adopted'')
      else if d_ha d then Some (409, ''ha_resize_not_supported'')
      else if on_remote_host d s then Some (409, ''remote_resize_not_supported'')
      else if d_status d \<noteq> DRunning then Some (409, ''deployment_not_running'')
      else None)"

definition update_resources ::
  "ofaults \<Rightarrow> fleet \<Rightarrow> principal \<Rightarrow> string \<Rightarrow> (rat option \<times> int option) option \<Rightarrow> cloud \<Rightarrow> dep_view resp \<times> cloud" where
  "update_resources flt fl who name body c =
     (case load_deployment_for_request flt who name (og c) of
        Inl e \<Rightarrow> (refuse e, c)
      | Inr (d, p, t, role) \<Rightarrow>
        if \<not> can_edit_project role then (Error 403 ''forbidden'', c)
        else (case body of None \<Rightarrow> (Error 400 ''bad_request'', c) | Some (cpus, mem) \<Rightarrow>
          if validate_resource_limits cpus mem \<noteq> [] then (Error 400 ''invalid_resources'', c)
          else (case resizable d (sys (og c)) of Some e \<Rightarrow> (refuse e, c) | None \<Rightarrow>
            if flt ''update resources'' then (Error 500 ''internal'', c)
            else (let s = sys (og c); s1 = s\<lparr>deps := sql_update (\<lambda>x. d_id x = d_id d) (set_limits cpus mem) (deps s)\<rparr> in
              case rebuild_cors_and_restart flt fl (d_id d) (d_name d) s1 of
                (Ok True, s2) \<Rightarrow>
                  (let g = record_audit flt (tm_id t) (pr_user who) ''updateDeploymentResources'' ''deployment'' (d_id d)
                             (set_sys s2 (og c))
                   in if flt ''reload after resize'' then (Error 500 ''internal'', set_org g c)
                      else (case load_deployment (d_name d) g of
                          None \<Rightarrow> (Error 500 ''internal'', set_org g c)
                        | Some (d2, _, _) \<Rightarrow> (Answer 200 (deployment_view flt fl d2 (sys g)), set_org g c)))
              | (Panic, s2) \<Rightarrow> (Error 500 [], set_org (set_sys s2 (og c)) c)
              | (_, s2) \<Rightarrow> (Error 500 ''resize_failed'', set_org (set_sys s2 (og c)) c)))))"

end
