(* ===== verification/Domains.thy ===== *)
theory Domains
  imports Dns Lifecycle
begin

text \<open>
  Custom domains of a deployment (api/domains.go): registration with its DNS check and the A record it
  may mint, deletion, verification and automatic configuration. A change drops the host from the cache of
  the proxy and, when the set of active domains changed, recreates the containers of the deployment.
\<close>

section \<open>The DNS check\<close>

definition public_ip_hint :: string where
  "public_ip_hint = ''SYNAPSE_PUBLIC_IP not configured; set it on the Synapse host to enable DNS verification''"

text \<open>\<open>Err\<close> does not occur: a failed lookup means that the record is still on its way.\<close>

definition verify_domain_dns :: "dns_wiring \<Rightarrow> string \<Rightarrow> state \<Rightarrow> (domain_status \<times> string) outcome \<times> state" where
  "verify_domain_dns w domain s =
     (if dw_ip w = [] then (Ok (DomPending, public_ip_hint), s)
      else case call_out (CLookupIP domain) (dw_lookup w domain) s of
          (Panic, s1) \<Rightarrow> (Panic, s1)
        | (Err e, s1) \<Rightarrow> (Ok (DomPending, ''still propagating: '' @ e), s1)
        | (Ok ips, s1) \<Rightarrow>
            (Ok (if ips = [] then (DomPending, ''still propagating: no A records returned'')
                 else if dw_ip w \<in> set ips then (DomActive, [])
                 else (DomFailed, ''expected '' @ dw_ip w @ '', got '' @ join '', '' ips)), s1))"

definition verified_row :: "domain_status \<Rightarrow> string \<Rightarrow> int \<Rightarrow> domain_row \<Rightarrow> domain_row" where
  "verified_row st msg t r = r\<lparr>dm_status := st, dm_verified := (if st = DomActive then Some t else None),
     dm_error := null_str msg, dm_updated := t\<rparr>"

definition update_domain :: "uuid \<Rightarrow> (domain_row \<Rightarrow> domain_row) \<Rightarrow> state \<Rightarrow> state" where
  "update_domain i f s = s\<lparr>domains := sql_update (\<lambda>r. dm_id r = i) f (domains s)\<rparr>"

text \<open>\<open>UPDATE \<dots> RETURNING\<close>: the updated row, or nothing when the statement fails.\<close>

definition apply_verification :: "ofaults \<Rightarrow> uuid \<Rightarrow> domain_status \<Rightarrow> string \<Rightarrow> state \<Rightarrow> domain_row option \<times> state" where
  "apply_verification flt i st msg s =
     (if flt ''apply verification'' then (None, s)
      else (let s1 = update_domain i (verified_row st msg (clock s)) s
            in (sql_row (\<lambda>r. dm_id r = i) (domains s1), s1)))"

section \<open>The credential for a domain\<close>

definition visible_credential :: "uuid \<Rightarrow> dns_credential \<Rightarrow> bool" where
  "visible_credential pid k \<longleftrightarrow> cr_project k = None \<or> pid \<noteq> [] \<and> cr_project k = Some pid"

definition covers_domain :: "unicode \<Rightarrow> string \<Rightarrow> dns_credential \<Rightarrow> bool" where
  "covers_domain u domain k \<longleftrightarrow> longest_matching_zone u domain (cr_zones k) \<noteq> None"

definition resolve_credential_for_domain ::
  "ofaults \<Rightarrow> dns_wiring \<Rightarrow> uuid \<Rightarrow> string \<Rightarrow> uuid \<Rightarrow> dns_credential list \<Rightarrow> refusal + dns_credential" where
  "resolve_credential_for_domain flt w cid domain pid ks =
     (if cid \<noteq> [] then
        (if flt ''load credential'' \<or> bad_id w cid then Inl internal
         else case sql_row (\<lambda>k. cr_id k = cid \<and> visible_credential pid k) ks of
             None \<Rightarrow> Inl (404, ''credential_not_found'')
           | Some k \<Rightarrow> Inr k)
      else if flt ''list credentials for auto-pick'' then Inl internal
      else (let m = filter (\<lambda>k. visible_credential pid k \<and> covers_domain (dw_unicode w) domain k) ks;
                own = filter (\<lambda>k. cr_project k \<noteq> None) m
            in case (if own = [] then filter (\<lambda>k. cr_project k = None) m else own) of
                 [] \<Rightarrow> Inl (400, ''no_credential_for_zone'')
               | [k] \<Rightarrow> Inr k
               | _ \<Rightarrow> Inl (400, ''credential_required'')))"

text \<open>At most 1024 bytes; text that is cut inside a character is refused by Postgres.\<close>

definition record_credential_error :: "ofaults \<Rightarrow> uuid \<Rightarrow> string \<Rightarrow> edge \<Rightarrow> edge" where
  "record_credential_error flt cid msg0 e =
     (let msg = take 1024 msg0 in
      if cid = [] \<or> msg = [] \<or> flt ''record credential error'' \<or> \<not> valid_utf8 msg then e
      else e\<lparr>creds := sql_update (\<lambda>k. cr_id k = cid) (\<lambda>k. k\<lparr>cr_error := Some msg, cr_used := Some (clock (esys e))\<rparr>) (creds e)\<rparr>)"

definition stamp_auto :: "uuid \<Rightarrow> int \<Rightarrow> domain_row \<Rightarrow> domain_row" where
  "stamp_auto cid t r = r\<lparr>dm_auto := True, dm_credential := Some cid, dm_status := DomPending, dm_verified := None,
     dm_error := None, dm_updated := t\<rparr>"

section \<open>The A record minted on registration\<close>

record auto_outcome =
  ao_success :: bool
  ao_credential :: uuid
  ao_zone :: string
  ao_reason :: string

text \<open>\<open>Ok None\<close>: nothing to do.\<close>

definition try_auto_configure_on_create ::
  "ofaults \<Rightarrow> dns_wiring \<Rightarrow> uuid \<Rightarrow> string \<Rightarrow> uuid \<Rightarrow> edge \<Rightarrow> auto_outcome option outcome \<times> edge" where
  "try_auto_configure_on_create flt w i domain pid e =
     (case dw_box w of None \<Rightarrow> (Ok None, e) | Some box \<Rightarrow>
      if dw_ip w = [] then (Ok None, e)
      else case resolve_credential_for_domain flt w [] domain pid (creds e) of
        Inl x \<Rightarrow>
          (if snd x = ''no_credential_for_zone'' then (Ok None, e)
           else (Ok (Some \<lparr>ao_success = False, ao_credential = [], ao_zone = [], ao_reason = snd x\<rparr>), e))
      | Inr k \<Rightarrow>
          (case longest_matching_zone (dw_unicode w) domain (cr_zones k) of
             None \<Rightarrow> (Ok None, e)
           | Some (zone, rec) \<Rightarrow>
               (let fail = (\<lambda>m. Ok (Some \<lparr>ao_success = False, ao_credential = cr_id k, ao_zone = zone, ao_reason = m\<rparr>)) in
                case ev_decrypt box (cr_token k) of
                  Inl _ \<Rightarrow> (fail ''could not decrypt the stored DNS credential token'', e)
                | Inr token \<Rightarrow>
                    (case upsert_a_record (dw_cf w) token zone rec (dw_ip w) (esys e) of
                       (CfPanic, s1) \<Rightarrow> (Panic, set_esys s1 e)
                     | (CfFail x, s1) \<Rightarrow>
                         (fail (''cloudflare upsert failed: '' @ cf_text x),
                          record_credential_error flt (cr_id k) (cf_text x) (set_esys s1 e))
                     | (CfOk _, s1) \<Rightarrow>
                         if flt ''auto-configure on create: update row'' then
                           (fail ''cloudflare ok but failed to persist auto_configured flag'', set_esys s1 e)
                         else (Ok (Some \<lparr>ao_success = True, ao_credential = cr_id k, ao_zone = zone, ao_reason = []\<rparr>),
                               set_esys (update_domain i (stamp_auto (cr_id k) (clock s1)) s1) e)))))"

section \<open>createDomain\<close>

record domain_response =
  do_row :: domain_row
  do_restart :: bool
  do_auto :: "auto_outcome option"

definition drop_host :: "string \<Rightarrow> edge \<Rightarrow> edge" where
  "drop_host h e = e\<lparr>er := map_option (invalidate_domain h) (er e)\<rparr>"

lemma drop_host_fields [simp]:
  "eorg (drop_host h e) = eorg e" "esys (drop_host h e) = esys e" "creds (drop_host h e) = creds e"
  by (simp_all add: drop_host_def)

text \<open>The recreation of the containers, where it is due; \<open>None\<close> is a panic.\<close>

definition rebuild_if ::
  "bool \<Rightarrow> ofaults \<Rightarrow> dns_wiring \<Rightarrow> deployment \<Rightarrow> edge \<Rightarrow> bool option \<times> edge" where
  "rebuild_if due flt w d e =
     (if \<not> due then (Some False, e)
      else case rebuild_cors_and_restart flt (dw_fleet w) (d_id d) (d_name d) (esys e) of
          (Ok b, s1) \<Rightarrow> (Some b, set_esys s1 e)
        | (_, s1) \<Rightarrow> (None, set_esys s1 e))"

definition new_domain :: "uuid \<Rightarrow> uuid \<Rightarrow> string \<Rightarrow> domain_role \<Rightarrow> int \<Rightarrow> domain_row" where
  "new_domain i dep domain role t = \<lparr>dm_id = i, dm_deployment = dep, dm_domain = domain, dm_role = role,
     dm_status = DomPending, dm_verified = None, dm_error = None, dm_auto = False, dm_credential = None,
     dm_created = t, dm_updated = t\<rparr>"

definition audit_domain :: "ofaults \<Rightarrow> principal \<Rightarrow> team \<Rightarrow> string \<Rightarrow> uuid \<Rightarrow> edge \<Rightarrow> edge" where
  "audit_domain flt who t act i e = set_eorg (record_audit flt (tm_id t) (pr_user who) act ''domain'' i (eorg e)) e"

text \<open>What follows the insert: the check, the audit event, the cache, the A record, the containers.\<close>

definition finish_create_domain ::
  "ofaults \<Rightarrow> dns_wiring \<Rightarrow> principal \<Rightarrow> deployment \<Rightarrow> team \<Rightarrow> domain_row \<Rightarrow> edge \<Rightarrow> domain_response resp \<times> edge" where
  "finish_create_domain flt w who d t r e =
     (case verify_domain_dns w (dm_domain r) (esys e) of
        (Ok (st, msg), s1) \<Rightarrow>
          (case apply_verification flt (dm_id r) st msg s1 of (got, s2) \<Rightarrow>
           let upd = (case got of Some x \<Rightarrow> x | None \<Rightarrow> r\<lparr>dm_error := null_str msg\<rparr>);
               e2 = drop_host (dm_domain r) (audit_domain flt who t ''domain.added'' (dm_id r) (set_esys s2 e))
           in case try_auto_configure_on_create flt w (dm_id r) (dm_domain r) (d_project d) e2 of
                (Ok ao, e3) \<Rightarrow>
                  (let upd2 = (if (case ao of Some x \<Rightarrow> ao_success x | None \<Rightarrow> False) \<and> \<not> flt ''reread domain'' then
                                 (case sql_row (\<lambda>x. dm_id x = dm_id r) (domains (esys e3)) of Some x \<Rightarrow> x | None \<Rightarrow> upd)
                               else upd)
                   in case rebuild_if (dm_status upd2 = DomActive) flt w d e3 of
                        (None, e4) \<Rightarrow> (Error 500 [], e4)
                      | (Some b, e4) \<Rightarrow> (Answer 201 \<lparr>do_row = upd2, do_restart = b, do_auto = ao\<rparr>, e4))
              | (_, e3) \<Rightarrow> (Error 500 [], e3))
      | (_, s1) \<Rightarrow> (Error 500 [], set_esys s1 e))"

definition create_domain ::
  "ofaults \<Rightarrow> dns_wiring \<Rightarrow> principal \<Rightarrow> string \<Rightarrow> (string \<times> string) option \<Rightarrow> edge \<Rightarrow> domain_response resp \<times> edge" where
  "create_domain flt w who name body e =
     (case load_deployment_for_request flt who name (eorg e) of
        Inl x \<Rightarrow> (refuse x, e)
      | Inr (d, p, t, role) \<Rightarrow>
        if \<not> can_edit_project role then (Error 403 ''forbidden'', e)
        else if d_adopted d then (Error 409 ''domains_unsupported_for_adopted'', e)
        else (case body of None \<Rightarrow> (Error 400 ''bad_request'', e) | Some (domain0, role0) \<Rightarrow>
         (case validate_domain (dw_unicode w) domain0 of Inl x \<Rightarrow> (refuse x, e) | Inr domain \<Rightarrow>
          (case validate_role role0 of Inl x \<Rightarrow> (refuse x, e) | Inr rl \<Rightarrow>
            if flt ''insert domain'' then (Error 500 ''internal'', e)
            else if sql_exists (\<lambda>r. ci_eq (dm_domain r) domain) (domains (esys e)) then
              (Error 409 ''domain_already_registered'', e)
            else (let r = new_domain (new_id (a_uuid (fl_api (dw_fleet w))) (eorg e)) (d_id d) domain rl (clock (esys e));
                      e1 = set_eorg (set_sys ((esys e)\<lparr>domains := domains (esys e) @ [r]\<rparr>) (took_id (eorg e))) e
                  in finish_create_domain flt w who d t r e1)))))"

definition list_domains :: "ofaults \<Rightarrow> principal \<Rightarrow> string \<Rightarrow> edge \<Rightarrow> domain_row list resp" where
  "list_domains flt who name e =
     (case load_deployment_for_request flt who name (eorg e) of
        Inl x \<Rightarrow> refuse x
      | Inr (d, _, _, _) \<Rightarrow>
          if flt ''list domains'' then Error 500 ''internal''
          else Answer 200 (sort_key dm_created (filter (\<lambda>r. dm_deployment r = d_id d) (domains (esys e)))))"

section \<open>deleteDomain\<close>

text \<open>Best effort: removes the A record that was minted for the domain. \<open>False\<close> is a panic.\<close>

definition cleanup_auto_configured_record ::
  "ofaults \<Rightarrow> dns_wiring \<Rightarrow> uuid \<Rightarrow> string \<Rightarrow> edge \<Rightarrow> bool \<times> edge" where
  "cleanup_auto_configured_record flt w cid domain e =
     (case dw_box w of None \<Rightarrow> (True, e) | Some box \<Rightarrow>
      if flt ''dns cleanup: load credential'' then (True, e)
      else case sql_row (\<lambda>k. cr_id k = cid) (creds e) of None \<Rightarrow> (True, e) | Some k \<Rightarrow>
        (case longest_matching_zone (dw_unicode w) domain (cr_zones k) of None \<Rightarrow> (True, e) | Some (zone, rec) \<Rightarrow>
         (case ev_decrypt box (cr_token k) of Inl _ \<Rightarrow> (True, e) | Inr token \<Rightarrow>
          (case delete_a_record (dw_cf w) token zone rec (esys e) of
             (CfPanic, s1) \<Rightarrow> (False, set_esys s1 e)
           | (_, s1) \<Rightarrow> (True, set_esys s1 e)))))"

definition own_domain :: "uuid \<Rightarrow> uuid \<Rightarrow> domain_row \<Rightarrow> bool" where
  "own_domain i dep r \<longleftrightarrow> dm_id r = i \<and> dm_deployment r = dep"

definition remove_domain :: "uuid \<Rightarrow> uuid \<Rightarrow> edge \<Rightarrow> edge" where
  "remove_domain i dep e = set_esys ((esys e)\<lparr>domains := filter (\<lambda>r. \<not> own_domain i dep r) (domains (esys e))\<rparr>) e"

definition delete_domain ::
  "ofaults \<Rightarrow> dns_wiring \<Rightarrow> principal \<Rightarrow> string \<Rightarrow> uuid \<Rightarrow> edge \<Rightarrow> unit resp \<times> edge" where
  "delete_domain flt w who name i e =
     (case load_deployment_for_request flt who name (eorg e) of
        Inl x \<Rightarrow> (refuse x, e)
      | Inr (d, p, t, role) \<Rightarrow>
        if \<not> can_edit_project role then (Error 403 ''forbidden'', e)
        else if i = [] then (Error 400 ''missing_id'', e)
        else if flt ''delete domain'' \<or> bad_id w i then (Error 500 ''internal'', e)
        else case sql_row (own_domain i (d_id d)) (domains (esys e)) of
            None \<Rightarrow> (Error 404 ''domain_not_found'', e)
          | Some r \<Rightarrow>
              (let e1 = remove_domain i (d_id d) e in
               case (if dm_auto r then (case dm_credential r of None \<Rightarrow> (True, e1)
                        | Some cid \<Rightarrow> cleanup_auto_configured_record flt w cid (dm_domain r) e1) else (True, e1)) of
                 (False, e2) \<Rightarrow> (Error 500 [], e2)
               | (True, e2) \<Rightarrow>
                   (case rebuild_if (dm_status r = DomActive) flt w d
                           (drop_host (dm_domain r) (audit_domain flt who t ''domain.removed'' i e2)) of
                      (None, e3) \<Rightarrow> (Error 500 [], e3)
                    | (Some _, e3) \<Rightarrow> (Answer 204 (), e3))))"

section \<open>verifyDomain\<close>

definition verify_domain ::
  "ofaults \<Rightarrow> dns_wiring \<Rightarrow> principal \<Rightarrow> string \<Rightarrow> uuid \<Rightarrow> edge \<Rightarrow> domain_response resp \<times> edge" where
  "verify_domain flt w who name i e =
     (case load_deployment_for_request flt who name (eorg e) of
        Inl x \<Rightarrow> (refuse x, e)
      | Inr (d, p, t, role) \<Rightarrow>
        if \<not> can_edit_project role then (Error 403 ''forbidden'', e)
        else if i = [] then (Error 400 ''missing_id'', e)
        else if flt ''load domain for verify'' \<or> bad_id w i then (Error 500 ''internal'', e)
        else case sql_row (own_domain i (d_id d)) (domains (esys e)) of
            None \<Rightarrow> (Error 404 ''domain_not_found'', e)
          | Some r \<Rightarrow>
              (case verify_domain_dns w (dm_domain r) (esys e) of
                 (Ok (st, msg), s1) \<Rightarrow>
                   (case apply_verification flt i st msg s1 of
                      (None, s2) \<Rightarrow> (Error 500 ''internal'', set_esys s2 e)
                    | (Some upd, s2) \<Rightarrow>
                        (case rebuild_if (dm_status r \<noteq> DomActive \<and> dm_status upd = DomActive) flt w d
                                (drop_host (dm_domain r) (audit_domain flt who t ''domain.verified'' i (set_esys s2 e))) of
                           (None, e3) \<Rightarrow> (Error 500 [], e3)
                         | (Some b, e3) \<Rightarrow> (Answer 200 \<lparr>do_row = upd, do_restart = b, do_auto = None\<rparr>, e3)))
               | (_, s1) \<Rightarrow> (Error 500 [], set_esys s1 e)))"

section \<open>autoConfigureDomain\<close>

definition credential_worked :: "ofaults \<Rightarrow> uuid \<Rightarrow> edge \<Rightarrow> edge" where
  "credential_worked flt cid e =
     (if flt ''credential worked'' then e
      else e\<lparr>creds := sql_update (\<lambda>k. cr_id k = cid) (\<lambda>k. k\<lparr>cr_used := Some (clock (esys e)), cr_error := None\<rparr>) (creds e)\<rparr>)"

text \<open>The body: absent, unreadable, or the id of a credential (empty to pick one).\<close>

definition mint_record ::
  "ofaults \<Rightarrow> dns_wiring \<Rightarrow> principal \<Rightarrow> team \<Rightarrow> uuid \<Rightarrow> string \<Rightarrow> dns_credential \<Rightarrow> envelope \<Rightarrow> edge
     \<Rightarrow> domain_response resp \<times> edge" where
  "mint_record flt w who t i domain k box e =
     (case ev_decrypt box (cr_token k) of Inl _ \<Rightarrow> (Error 500 ''internal'', e) | Inr token \<Rightarrow>
      (case longest_matching_zone (dw_unicode w) domain (cr_zones k) of
         None \<Rightarrow> (Error 400 ''no_credential_for_zone'', e)
       | Some (zone, rec) \<Rightarrow>
           (case upsert_a_record (dw_cf w) token zone rec (dw_ip w) (esys e) of
              (CfPanic, s1) \<Rightarrow> (Error 500 [], set_esys s1 e)
            | (CfFail x, s1) \<Rightarrow>
                ((case x of Unauthorized _ \<Rightarrow> Error 400 ''token_invalid_or_revoked'' | CfError _ \<Rightarrow> Error 502 ''cloudflare_api_error''),
                 record_credential_error flt (cr_id k) (cf_text x) (set_esys s1 e))
            | (CfOk _, s1) \<Rightarrow>
                if flt ''update domain after auto-configure'' then (Error 500 ''internal'', set_esys s1 e)
                else (let s2 = update_domain i (stamp_auto (cr_id k) (clock s1)) s1 in
                  case sql_row (\<lambda>r. dm_id r = i) (domains s2) of
                    None \<Rightarrow> (Error 500 ''internal'', set_esys s2 e)
                  | Some r \<Rightarrow> (Answer 200 \<lparr>do_row = r, do_restart = False, do_auto = None\<rparr>,
                      audit_domain flt who t ''domain.auto_configured'' i
                        (credential_worked flt (cr_id k) (set_esys s2 e)))))))"

definition auto_configure_domain ::
  "ofaults \<Rightarrow> dns_wiring \<Rightarrow> principal \<Rightarrow> string \<Rightarrow> uuid \<Rightarrow> uuid option option \<Rightarrow> edge \<Rightarrow> domain_response resp \<times> edge" where
  "auto_configure_domain flt w who name i body e =
     (case load_deployment_for_request flt who name (eorg e) of
        Inl x \<Rightarrow> (refuse x, e)
      | Inr (d, p, t, role) \<Rightarrow>
        if \<not> can_edit_project role then (Error 403 ''forbidden'', e)
        else (case dw_box w of None \<Rightarrow> (Error 503 ''dns_auto_configure_unavailable'', e) | Some box \<Rightarrow>
          if dw_ip w = [] then (Error 503 ''public_ip_not_configured'', e)
          else if i = [] then (Error 400 ''missing_id'', e)
          else (case (case body of None \<Rightarrow> Some [] | Some x \<Rightarrow> x) of None \<Rightarrow> (Error 400 ''bad_request'', e) | Some cid \<Rightarrow>
            if flt ''load domain for auto-configure'' \<or> bad_id w i then (Error 500 ''internal'', e)
            else (case sql_row (own_domain i (d_id d)) (domains (esys e)) of
                None \<Rightarrow> (Error 404 ''domain_not_found'', e)
              | Some r \<Rightarrow>
                  (case resolve_credential_for_domain flt w cid (dm_domain r) (d_project d) (creds e) of
                     Inl x \<Rightarrow> (refuse x, e)
                   | Inr k \<Rightarrow> mint_record flt w who t i (dm_domain r) k box e)))))"

end
