(* ===== verification/Verifier.thy ===== *)
theory Verifier
  imports Domains
begin

text \<open>
  The background check of automatically configured domains (dns/verifier.go), the certificate gate that
  Caddy asks (api/tls_ask.go), and the guess of the DNS provider (dns/detect.go, api/dns_provider.go).
\<close>

section \<open>The verifier\<close>

text \<open>\<open>vf_age_text\<close> is the text of the deadline, as \<open>time.Duration\<close> prints it.\<close>

record verifier =
  vf_ip :: string                        \<comment> \<open>ExpectedIP\<close>
  vf_max_age_set :: int
  vf_age_text :: "int \<Rightarrow> string"
  vf_lookup :: "string \<Rightarrow> string list ext"

definition max_age :: "verifier \<Rightarrow> int" where
  "max_age v = (if vf_max_age_set v \<le> 0 then 300000000 else vf_max_age_set v)"

record pending_row =
  pr_row :: uuid
  pr_domain :: string
  pr_deployment :: uuid
  pr_name :: string
  pr_team :: uuid
  pr_anchor :: int                       \<comment> \<open>updated_at\<close>

definition awaiting :: "domain_row \<Rightarrow> bool" where
  "awaiting r \<longleftrightarrow> dm_auto r \<and> dm_status r = DomPending \<and> dm_verified r = None"

definition pending_of :: "org \<Rightarrow> domain_row \<Rightarrow> pending_row option" where
  "pending_of g r =
     (case find_dep (dm_deployment r) (sys g) of None \<Rightarrow> None | Some d \<Rightarrow>
      (case sql_row (\<lambda>p. pj_id p = d_project d) (projects g) of None \<Rightarrow> None | Some p \<Rightarrow>
        Some \<lparr>pr_row = dm_id r, pr_domain = dm_domain r, pr_deployment = d_id d, pr_name = d_name d,
              pr_team = pj_team p, pr_anchor = dm_updated r\<rparr>))"

definition load_pending :: "ofaults \<Rightarrow> org \<Rightarrow> pending_row list option" where
  "load_pending flt g =
     (if flt ''load pending rows'' then None
      else Some (List.map_filter (pending_of g) (sort_key dm_created (filter awaiting (domains (sys g))))))"

text \<open>All writes are guarded by \<open>status = 'pending'\<close>.\<close>

definition update_pending :: "uuid \<Rightarrow> (domain_row \<Rightarrow> domain_row) \<Rightarrow> org \<Rightarrow> org" where
  "update_pending i f g = set_sys ((sys g)\<lparr>domains :=
     sql_update (\<lambda>r. dm_id r = i \<and> dm_status r = DomPending) f (domains (sys g))\<rparr>) g"

definition mark_domain_failed :: "ofaults \<Rightarrow> uuid \<Rightarrow> string \<Rightarrow> org \<Rightarrow> org" where
  "mark_domain_failed flt i reason g =
     (if flt ''flip to failed'' then g
      else update_pending i (\<lambda>r. r\<lparr>dm_status := DomFailed, dm_error := Some reason, dm_updated := now g\<rparr>) g)"

definition record_pending_error :: "ofaults \<Rightarrow> uuid \<Rightarrow> string \<Rightarrow> org \<Rightarrow> org" where
  "record_pending_error flt i reason0 g =
     (let reason = take 1024 reason0 in
      if reason = [] \<or> flt ''record pending error'' \<or> \<not> valid_utf8 reason then g
      else update_pending i (\<lambda>r. r\<lparr>dm_error := Some reason, dm_updated := now g\<rparr>) g)"

definition activated_row :: "int \<Rightarrow> domain_row \<Rightarrow> domain_row" where
  "activated_row t r = r\<lparr>dm_status := DomActive, dm_verified := Some t, dm_error := None, dm_updated := t\<rparr>"

text \<open>Whether the row was flipped: then the containers are recreated, in the background.\<close>

definition flip_to_active :: "ofaults \<Rightarrow> pending_row \<Rightarrow> org \<Rightarrow> bool \<times> org" where
  "flip_to_active flt p g =
     (if flt ''flip to active''
         \<or> \<not> sql_exists (\<lambda>r. dm_id r = pr_row p \<and> dm_status r = DomPending) (domains (sys g)) then (False, g)
      else (True, record_audit flt (pr_team p) [] ''domain.verified'' ''domain'' (pr_row p)
                    (update_pending (pr_row p) (activated_row (now g)) g)))"

definition check_and_flip :: "ofaults \<Rightarrow> verifier \<Rightarrow> pending_row \<Rightarrow> org \<Rightarrow> bool outcome \<times> org" where
  "check_and_flip flt v p g =
     (case call_out (CLookupIP (pr_domain p)) (vf_lookup v (pr_domain p)) (sys g) of
        (Panic, s1) \<Rightarrow> (Panic, set_sys s1 g)
      | (Err x, s1) \<Rightarrow> (Ok False, record_pending_error flt (pr_row p) (''lookup failed: '' @ x) (set_sys s1 g))
      | (Ok ips, s1) \<Rightarrow>
          if vf_ip v \<in> set ips then (case flip_to_active flt p (set_sys s1 g) of (b, g1) \<Rightarrow> (Ok b, g1))
          else (Ok False, record_pending_error flt (pr_row p)
                  (if ips = [] then ''no A records returned''
                   else ''expected '' @ vf_ip v @ '', got '' @ join '', '' ips) (set_sys s1 g)))"

text \<open>
  One sweep over the rows that were loaded; \<open>t\<close> is the time it started. The result lists the
  deployments to recreate. A panic ends the process.
\<close>

fun check_rows ::
  "ofaults \<Rightarrow> verifier \<Rightarrow> int \<Rightarrow> pending_row list \<Rightarrow> org \<Rightarrow> (uuid \<times> string) list outcome \<times> org" where
  "check_rows flt v t [] g = (Ok [], g)"
| "check_rows flt v t (p # ps) g =
     (case (if max_age v < t - pr_anchor p then
              (Ok False, mark_domain_failed flt (pr_row p)
                 (''DNS did not propagate within '' @ vf_age_text v (max_age v)) g)
            else check_and_flip flt v p g) of
        (Ok b, g1) \<Rightarrow>
          (case check_rows flt v t ps g1 of
             (Ok r, g2) \<Rightarrow> (Ok (if b then (pr_deployment p, pr_name p) # r else r), g2)
           | x \<Rightarrow> x)
      | (_, g1) \<Rightarrow> (Panic, g1))"

definition verifier_tick :: "ofaults \<Rightarrow> verifier \<Rightarrow> org \<Rightarrow> (uuid \<times> string) list outcome \<times> org" where
  "verifier_tick flt v g =
     (case load_pending flt g of None \<Rightarrow> (Ok [], g) | Some ps \<Rightarrow> check_rows flt v (now g) ps g)"

definition tick_with_lock :: "ofaults \<Rightarrow> verifier \<Rightarrow> acquire \<Rightarrow> org \<Rightarrow> (uuid \<times> string) list outcome \<times> org" where
  "tick_with_lock flt v a g =
     (if vf_ip v = [] then (Ok [], g)
      else snd (with_try_advisory_lock a (\<lambda>x. (None, verifier_tick flt v (snd x))) (Ok [], g)))"

text \<open>The hook: one recreation per activated domain, whatever its outcome.\<close>

fun rebake_activated :: "ofaults \<Rightarrow> fleet \<Rightarrow> (uuid \<times> string) list \<Rightarrow> state \<Rightarrow> state" where
  "rebake_activated flt fl [] s = s"
| "rebake_activated flt fl ((i, n) # r) s = rebake_activated flt fl r (snd (rebuild_cors_and_restart flt fl i n s))"

section \<open>The certificate gate\<close>

record tls_ask =
  ta_base :: string
  ta_headscale :: bool
  ta_host :: string                      \<comment> \<open>HeadscaleHost\<close>

definition dot_or_space :: "char \<Rightarrow> bool" where
  "dot_or_space x \<longleftrightarrow> x = CHR ''.'' \<or> x = CHR '' ''"

definition trim_base :: "string \<Rightarrow> string" where
  "trim_base b = rev (dropWhile dot_or_space (rev (dropWhile dot_or_space b)))"

definition approve_if_deployment_exists :: "ofaults \<Rightarrow> string \<Rightarrow> state \<Rightarrow> nat" where
  "approve_if_deployment_exists flt n s =
     (if flt ''deployment exists'' then 503
      else if sql_exists (\<lambda>d. d_name d = n \<and> d_status d \<noteq> DDeleted \<and> \<not> d_adopted d) (deps s) then 200 else 404)"

definition approve_subdomain :: "ofaults \<Rightarrow> tls_ask \<Rightarrow> string \<Rightarrow> state \<Rightarrow> nat" where
  "approve_subdomain flt h n s =
     (if has_suffix n ''.site'' then
        (let m = take (length n - length ''.site'') n in
         if m = [] \<or> CHR ''.'' \<in> set m then 403 else approve_if_deployment_exists flt m s)
      else if CHR ''.'' \<in> set n then 403
      else if n = [] then 400
      else if ta_headscale h \<and> n = ''headscale'' then 200
      else approve_if_deployment_exists flt n s)"

definition approve_custom_domain :: "ofaults \<Rightarrow> string \<Rightarrow> state \<Rightarrow> nat" where
  "approve_custom_domain flt host s =
     (if flt ''custom domain exists'' then 503
      else if sql_exists (\<lambda>r. ci_eq (dm_domain r) host \<and> dm_status r = DomActive
                \<and> sql_exists (\<lambda>d. d_id d = dm_deployment r \<and> d_status d \<noteq> DDeleted \<and> \<not> d_adopted d) (deps s)) (domains s)
      then 200 else 404)"

text \<open>The status of the answer; 200 lets Caddy fetch a certificate.\<close>

definition tls_ask_status :: "ofaults \<Rightarrow> tls_ask \<Rightarrow> string \<Rightarrow> state \<Rightarrow> nat" where
  "tls_ask_status flt h asked s =
     (let raw = trim_space asked; host = to_lower (trim_suffix raw ''.''); base = to_lower (trim_base (ta_base h)) in
      if raw = [] then 400
      else if ta_headscale h \<and> ta_host h \<noteq> [] \<and> host = to_lower (trim_suffix (trim_space (ta_host h)) ''.'') then 200
      else if ta_base h \<noteq> [] \<and> has_suffix host (CHR ''.'' # base) \<and> host \<noteq> base then
        approve_subdomain flt h (take (length host - length (CHR ''.'' # base)) host) s
      else approve_custom_domain flt host s)"

section \<open>The DNS provider\<close>

text \<open>The table is a Go map: \<open>sfx\<close> is the order in which this run visits it.\<close>

definition provider_suffixes :: "(string \<times> string) list" where
  "provider_suffixes = [(''.ns.cloudflare.com.'', ''cloudflare''), (''.awsdns-'', ''route53''),
     (''.googledomains.com.'', ''google''), (''.registrar-servers.com.'', ''namecheap''), (''.domaincontrol.com.'', ''godaddy'')]"

definition ns_host :: "string \<Rightarrow> string" where
  "ns_host h0 = (let h = to_lower (trim_space h0) in if h = [] \<or> has_suffix h ''.'' then h else h @ ''.'')"

definition ns_hosts :: "string list \<Rightarrow> string list" where
  "ns_hosts nss = filter (\<lambda>h. h \<noteq> []) (map ns_host nss)"

definition classify_ns :: "(string \<times> string) list \<Rightarrow> string list \<Rightarrow> string \<times> string list" where
  "classify_ns sfx nss =
     (case List.map_filter (\<lambda>h. map_option snd (find (\<lambda>(x, n). str_contains h x) sfx)) (ns_hosts nss) of
        [] \<Rightarrow> (''unknown'', ns_hosts nss)
      | n # _ \<Rightarrow> (n, ns_hosts nss))"

text \<open>
  Climbs at most eight labels, until a zone has name servers; \<open>Inl\<close> is the error of the first lookup
  that failed, when no zone had any.
\<close>

fun climb_labels ::
  "(string \<times> string) list \<Rightarrow> (string \<Rightarrow> string list ext) \<Rightarrow> nat \<Rightarrow> string option \<Rightarrow> string \<Rightarrow> state
     \<Rightarrow> (string + string \<times> string list) outcome \<times> state" where
  "climb_labels sfx ns 0 e n s = (Ok (case e of None \<Rightarrow> Inr (''unknown'', []) | Some x \<Rightarrow> Inl x), s)"
| "climb_labels sfx ns (Suc k) e n s =
     (if CHR ''.'' \<notin> set n then (Ok (case e of None \<Rightarrow> Inr (''unknown'', []) | Some x \<Rightarrow> Inl x), s)
      else (let parent = tl (dropWhile (\<lambda>x. x \<noteq> CHR ''.'') n) in
        case call_out (CLookupNS n) (ns n) s of
          (Panic, s1) \<Rightarrow> (Panic, s1)
        | (Err x, s1) \<Rightarrow> climb_labels sfx ns k (case e of None \<Rightarrow> Some x | Some _ \<Rightarrow> e) parent s1
        | (Ok nss, s1) \<Rightarrow>
            if nss \<noteq> [] then (Ok (Inr (classify_ns sfx nss)), s1)
            else climb_labels sfx ns k e parent s1))"

definition detect_provider ::
  "(string \<times> string) list \<Rightarrow> (string \<Rightarrow> string list ext) \<Rightarrow> string \<Rightarrow> state \<Rightarrow> (string + string \<times> string list) outcome \<times> state" where
  "detect_provider sfx ns domain s =
     (let d = to_lower (trim_suffix (trim_space domain) ''.'') in
      if d = [] then (Ok (Inr (''unknown'', [])), s) else climb_labels sfx ns 8 None d s)"

record provider_resp =
  pv_provider :: string
  pv_nameservers :: "string list"
  pv_error :: "string option"

definition dns_provider ::
  "(string \<times> string) list \<Rightarrow> (string \<Rightarrow> string list ext) \<Rightarrow> string \<Rightarrow> state \<Rightarrow> provider_resp resp \<times> state" where
  "dns_provider sfx ns asked s =
     (let domain = to_lower (trim_space asked) in
      if domain = [] then (Error 400 ''missing_domain'', s)
      else case detect_provider sfx ns domain s of
          (Ok (Inl x), s1) \<Rightarrow> (Answer 200 \<lparr>pv_provider = ''unknown'', pv_nameservers = [], pv_error = Some x\<rparr>, s1)
        | (Ok (Inr (n, nss)), s1) \<Rightarrow> (Answer 200 \<lparr>pv_provider = n, pv_nameservers = nss, pv_error = None\<rparr>, s1)
        | (_, s1) \<Rightarrow> (Error 500 [], s1))"

end
