(* ===== verification/DeployKeys.thy ===== *)
theory DeployKeys
  imports Lifecycle
begin

text \<open>
  Credentials of a deployment (api/deployments.go): what the dashboard and the CLI are given, and the
  deploy keys, whose revocation rotates the instance secret and recreates the container.
\<close>

section \<open>deploymentAuth, deploymentCLICredentials\<close>

definition quote_char :: char where "quote_char = CHR 0x27"
definition backslash :: char where "backslash = CHR 0x5C"

text \<open>A single-quoted POSIX literal; a quote inside closes it, is escaped, and opens it again.\<close>

definition shell_quote :: "string \<Rightarrow> string" where
  "shell_quote s =
     (if s = [] then [quote_char, quote_char]
      else [quote_char]
           @ concat (map (\<lambda>c. if c = quote_char then [quote_char, backslash, quote_char, quote_char] else [c]) s)
           @ [quote_char])"

record deployment_auth_resp =
  da_name :: string
  da_url :: string
  da_key :: string
  da_type :: string

definition deployment_auth ::
  "ofaults \<Rightarrow> fleet \<Rightarrow> principal \<Rightarrow> string \<Rightarrow> cloud \<Rightarrow> deployment_auth_resp resp" where
  "deployment_auth flt fl who name c =
     (case load_deployment_for_request flt who name (og c) of
        Inl e \<Rightarrow> refuse e
      | Inr (d, _, _, _) \<Rightarrow>
          Answer 200 \<lparr>da_name = d_name d, da_url = cli_deployment_url (fl_dp fl) d (sys (og c)),
            da_key = d_admin_key d, da_type = d_type d\<rparr>)"

text \<open>The two lines of an environment file, each with the prefix (\<open>export\<close> for the shell).\<close>

definition credential_lines :: "string \<Rightarrow> string \<Rightarrow> string \<Rightarrow> string" where
  "credential_lines prfx url key =
     prfx @ ''CONVEX_SELF_HOSTED_URL='' @ shell_quote url @ [CHR 0x0A]
     @ prfx @ ''CONVEX_SELF_HOSTED_ADMIN_KEY='' @ shell_quote key"

record cli_credentials_resp =
  cr_name :: string
  cr_url :: string
  cr_site :: string
  cr_key :: string
  cr_export :: string
  cr_env :: string

definition deployment_cli_credentials ::
  "ofaults \<Rightarrow> fleet \<Rightarrow> principal \<Rightarrow> string \<Rightarrow> cloud \<Rightarrow> cli_credentials_resp resp" where
  "deployment_cli_credentials flt fl who name c =
     (case load_deployment_for_request flt who name (og c) of
        Inl e \<Rightarrow> refuse e
      | Inr (d, _, _, _) \<Rightarrow>
          (let url = cli_deployment_url (fl_dp fl) d (sys (og c)) in
           Answer 200 \<lparr>cr_name = d_name d, cr_url = url, cr_site = site_deployment_url flt (fl_dp fl) d (sys (og c)),
             cr_key = d_admin_key d, cr_export = credential_lines ''export '' url (d_admin_key d),
             cr_env = credential_lines [] url (d_admin_key d)\<rparr>))"

section \<open>Deploy keys\<close>

definition deploy_key_hash :: "api \<Rightarrow> string \<Rightarrow> string" where
  "deploy_key_hash a key = a_sha256 a key"

definition ensure_deploy_keys_supported :: "deployment \<Rightarrow> refusal option" where
  "ensure_deploy_keys_supported d =
     (if d_adopted d then Some (409, ''deploy_keys_unsupported_for_adopted'')
      else if d_ha d then Some (409, ''deploy_keys_unsupported_for_ha'')
      else if d_status d \<noteq> DRunning \<or> port_of (d_host_port d) = 0 then Some (409, ''deployment_not_running'')
      else None)"

record deploy_key_resp =
  dk_row :: deploy_key
  dk_admin_key :: string
  dk_env :: string
  dk_export :: string

text \<open>The partial unique index \<open>deploy_keys_active_name\<close>.\<close>

definition key_name_active :: "uuid \<Rightarrow> string \<Rightarrow> cloud \<Rightarrow> bool" where
  "key_name_active i name c \<longleftrightarrow>
     sql_exists (\<lambda>k. ky_deployment k = i \<and> ky_name k = name \<and> ky_revoked k = None) (deploy_keys c)"

definition create_deploy_key ::
  "ofaults \<Rightarrow> fleet \<Rightarrow> principal \<Rightarrow> string \<Rightarrow> string option \<Rightarrow> cloud \<Rightarrow> deploy_key_resp resp \<times> cloud" where
  "create_deploy_key flt fl who dname body c =
     (case load_deployment_for_request flt who dname (og c) of
        Inl e \<Rightarrow> (refuse e, c)
      | Inr (d, p, t, role) \<Rightarrow>
        if \<not> can_admin_project role then (Error 403 ''forbidden'', c)
        else (case ensure_deploy_keys_supported d of Some e \<Rightarrow> (refuse e, c) | None \<Rightarrow>
        (case body of None \<Rightarrow> (Error 400 ''bad_request'', c) | Some b \<Rightarrow>
          let name = trim_space b in
          if name = [] then (Error 400 ''missing_name'', c)
          else if 64 < length name then (Error 400 ''name_too_long'', c)
          else (case call_out (CAdminKey (d_name d)) (dp_admin_key (fl_dp fl) (d_name d) (d_secret d)) (sys (og c)) of
              (Err _, s1) \<Rightarrow> (Error 500 ''internal'', set_org (set_sys s1 (og c)) c)
            | (Panic, s1) \<Rightarrow> (Error 500 [], set_org (set_sys s1 (og c)) c)
            | (Ok key, s1) \<Rightarrow>
                (let g1 = set_sys s1 (og c);
                     row = \<lparr>ky_id = new_id (a_uuid (fl_api fl)) g1, ky_deployment = d_id d, ky_name = name,
                       ky_prefix = deploy_key_prefix key, ky_hash = deploy_key_hash (fl_api fl) key,
                       ky_creator = Some (pr_user who), ky_created = now g1, ky_revoked = None\<rparr>;
                     url = cli_deployment_url (fl_dp fl) d s1
                 in if flt ''insert deploy key'' \<or> find_dep (d_id d) s1 = None then
                      (Error 500 ''internal'', set_org g1 c)
                    else if key_name_active (d_id d) name c then (Error 409 ''name_in_use'', set_org g1 c)
                    else (Answer 201 \<lparr>dk_row = row, dk_admin_key = key, dk_env = credential_lines [] url key,
                            dk_export = credential_lines ''export '' url key\<rparr>,
                          set_org (record_audit flt (tm_id t) (pr_user who) ''createDeployKey'' ''deployKey'' (ky_id row)
                            (took_id g1)) (c\<lparr>deploy_keys := deploy_keys c @ [row]\<rparr>)))))))"

definition active_keys :: "uuid \<Rightarrow> cloud \<Rightarrow> deploy_key list" where
  "active_keys i c = filter (\<lambda>k. ky_deployment k = i \<and> ky_revoked k = None) (deploy_keys c)"

definition list_deploy_keys :: "ofaults \<Rightarrow> principal \<Rightarrow> string \<Rightarrow> cloud \<Rightarrow> deploy_key list resp" where
  "list_deploy_keys flt who name c =
     (case load_deployment_for_request flt who name (og c) of
        Inl e \<Rightarrow> refuse e
      | Inr (d, _, _, _) \<Rightarrow>
          if d_adopted d then Error 409 ''deploy_keys_unsupported_for_adopted''
          else if flt ''list deploy keys'' then Error 500 ''internal''
          else Answer 200 (rev (sort_key ky_created (active_keys (d_id d) c))))"

definition runtime_env_vars_for_recreate :: "deployment \<Rightarrow> state \<Rightarrow> (string \<times> string) list" where
  "runtime_env_vars_for_recreate d s =
     with_cors (active_domain_origins (d_id d) s)
       (if d_project d = [] then [] else load_project_env_vars (d_project d) (d_type d) s)"

text \<open>The specification has no limits and is always given to the local daemon.\<close>

definition rotation_spec :: "ofaults \<Rightarrow> fleet \<Rightarrow> deployment \<Rightarrow> string \<Rightarrow> state \<Rightarrow> spec" where
  "rotation_spec flt fl d secret s = \<lparr>sp_name = d_name d, sp_deployment = d_id d, sp_project = d_project d,
     sp_secret = secret, sp_port = port_of (d_host_port d), sp_env = runtime_env_vars_for_recreate d s,
     sp_hc = dp_hc_network (fl_dp fl), sp_index = 0, sp_ha = False, sp_storage = None,
     sp_public = cli_deployment_url (fl_dp fl) d s, sp_site = site_deployment_url flt (fl_dp fl) d s,
     sp_cpus = 0, sp_memory = 0\<rparr>"

definition rotate_dep :: "string \<Rightarrow> string \<Rightarrow> info \<Rightarrow> deployment \<Rightarrow> deployment" where
  "rotate_dep secret key made d = d\<lparr>d_secret := secret, d_admin_key := key, d_container := Some (in_container made),
     d_host_port := Some (in_port made), d_url := Some (in_url made), d_status := DRunning\<rparr>"

definition revoke_key :: "int \<Rightarrow> deploy_key \<Rightarrow> deploy_key" where
  "revoke_key t k = k\<lparr>ky_revoked := Some t\<rparr>"

definition record_rotation :: "uuid \<Rightarrow> string \<Rightarrow> string \<Rightarrow> info \<Rightarrow> state \<Rightarrow> state" where
  "record_rotation i secret key made s = s\<lparr>deps := sql_update (\<lambda>d. d_id d = i) (rotate_dep secret key made) (deps s),
     reps := sql_update (\<lambda>r. r_deployment r = i \<and> r_index r = 0) (set_replica_info made) (reps s)\<rparr>"

text \<open>
  The end of the transaction, after the container was recreated: a failure (or a port that is taken)
  rolls the rows back, not the container.
\<close>

definition rotation_fails :: "ofaults \<Rightarrow> uuid \<Rightarrow> info \<Rightarrow> state \<Rightarrow> bool" where
  "rotation_fails flt i made s \<longleftrightarrow> flt ''update deployment after deploy-key rotation''
     \<or> port_taken i (in_port made) (deps s)
     \<or> flt ''update replica after deploy-key rotation'' \<or> replica_port_taken i 0 (in_port made) (reps s)
     \<or> flt ''mark deploy keys revoked after rotation'' \<or> flt ''commit deploy-key rotation''"

text \<open>Locks the row, checks it again, finds the key; \<open>Inr\<close> is the deployment as locked.\<close>

definition lock_for_rotation :: "ofaults \<Rightarrow> fleet \<Rightarrow> deployment \<Rightarrow> string \<Rightarrow> cloud \<Rightarrow> refusal + deployment" where
  "lock_for_rotation flt fl d kid c =
     (if flt ''begin deploy-key rotation'' \<or> flt ''lock deployment for deploy-key rotation'' then Inl internal
      else case find_dep (d_id d) (sys (og c)) of None \<Rightarrow> Inl internal | Some x \<Rightarrow>
        (let d1 = d\<lparr>d_status := d_status x, d_adopted := d_adopted x, d_ha := d_ha x, d_host_port := d_host_port x\<rparr> in
         case ensure_deploy_keys_supported d1 of Some e \<Rightarrow> Inl e | None \<Rightarrow>
           (case fetch (\<lambda>l. flt l \<or> \<not> a_is_uuid (fl_api fl) kid) ''revoke deploy key''
                   (\<lambda>k. ky_id k = kid \<and> ky_deployment k = d_id d \<and> ky_revoked k = None) (deploy_keys c) of
              NoRows \<Rightarrow> Inl (404, ''not_found'')
            | DbErr \<Rightarrow> Inl internal
            | Row _ \<Rightarrow> if flt ''load env vars for deploy-key rotation'' then Inl internal else Inr d1)))"

definition revoke_deploy_key ::
  "ofaults \<Rightarrow> fleet \<Rightarrow> principal \<Rightarrow> string \<Rightarrow> string \<Rightarrow> cloud \<Rightarrow> unit resp \<times> cloud" where
  "revoke_deploy_key flt fl who dname kid c =
     (case load_deployment_for_request flt who dname (og c) of
        Inl e \<Rightarrow> (refuse e, c)
      | Inr (d0, p, t, role) \<Rightarrow>
        if \<not> can_admin_project role then (Error 403 ''forbidden'', c)
        else (case ensure_deploy_keys_supported d0 of Some e \<Rightarrow> (refuse e, c) | None \<Rightarrow>
        if kid = [] then (Error 400 ''missing_id'', c)
        else (case lock_for_rotation flt fl d0 kid c of Inl e \<Rightarrow> (refuse e, c) | Inr d \<Rightarrow>
        (case a_random (fl_api fl) (next_uuid (pl (og c))) of None \<Rightarrow> (Error 500 ''internal'', c) | Some secret \<Rightarrow>
        (let back = (\<lambda>s. set_org (set_sys s (og c)) c); env_spec = rotation_spec flt fl d secret (sys (og c)) in
         case call_out (CAdminKey (d_name d)) (dp_admin_key (fl_dp fl) (d_name d) secret) (sys (og c)) of
           (Err _, s1) \<Rightarrow> (Error 500 ''internal'', back s1)
         | (Panic, s1) \<Rightarrow> (Error 500 [], back s1)
         | (Ok key, s1) \<Rightarrow>
             (case call_out (CRecreate (d_name d) 0 False) (dp_recreate (fl_dp fl)
                     (env_spec\<lparr>sp_public := cli_deployment_url (fl_dp fl) d s1,
                               sp_site := site_deployment_url flt (fl_dp fl) d s1\<rparr>)) s1 of
                (Err _, s2) \<Rightarrow> (Error 500 ''internal'', back s2)
              | (Panic, s2) \<Rightarrow> (Error 500 [], back s2)
              | (Ok made, s2) \<Rightarrow>
                  if rotation_fails flt (d_id d) made s2 then (Error 500 ''internal'', back s2)
                  else (Answer 204 (),
                    set_org (record_audit flt (tm_id t) (pr_user who) ''revokeDeployKey'' ''deployKey'' kid
                      (set_sys (record_rotation (d_id d) secret key made s2) (og c)))
                    (c\<lparr>deploy_keys := sql_update (\<lambda>k. ky_deployment k = d_id d \<and> ky_revoked k = None)
                                       (revoke_key (clock s2)) (deploy_keys c)\<rparr>))))))))"

end
