(* ===== verification/Sessions.thy ===== *)
theory Sessions
  imports Projects
begin

text \<open>
  Access tokens (api/access_tokens.go and the scoped endpoints of api/teams.go and api/projects.go) and
  sessions (api/auth.go): registration, login, refresh and the password reset. bcrypt, SHA-256 and JWTs
  come with \<open>api\<close>; an issued JWT is its claims.
\<close>

section \<open>Access tokens\<close>

definition token_scopes :: "string list" where
  "token_scopes = [''user'', ''team'', ''project'', ''deployment'', ''app'']"

text \<open>
  \<open>createForOwner\<close>: the answer is the row and the plaintext. \<open>scope_id\<close> is a UUID column and the owner a
  foreign key.
\<close>

definition create_for_owner ::
  "ofaults \<Rightarrow> api \<Rightarrow> uuid \<Rightarrow> string \<Rightarrow> string \<Rightarrow> string \<Rightarrow> int option \<Rightarrow> org
     \<Rightarrow> (refusal + token \<times> string) \<times> org" where
  "create_for_owner flt a owner nm scope sid expires g =
     (let name = trim_space nm in
      if name = [] then (Inl (400, ''missing_name''), g)
      else if 100 < length name then (Inl (400, ''invalid_name''), g)
      else if (case expires of None \<Rightarrow> False | Some e \<Rightarrow> \<not> now g < e) then (Inl (400, ''invalid_expires_at''), g)
      else (case generate_token a ''syn_'' g of
          None \<Rightarrow> (Inl internal, g)
        | Some (plain, hsh) \<Rightarrow>
            if flt ''insert access token'' \<or> scope \<notin> set token_scopes \<or> sid \<noteq> [] \<and> \<not> a_is_uuid a sid
               \<or> \<not> sql_exists (\<lambda>u. us_id u = owner) (users g)
               \<or> sql_exists (\<lambda>k. tk_hash k = hsh) (tokens g) then (Inl internal, g)
            else (let k = \<lparr>tk_id = new_id (a_uuid a) (took_id g), tk_user = owner, tk_name = name, tk_hash = hsh,
                           tk_scope = scope, tk_scope_id = null_str sid, tk_created = now g,
                           tk_expires = expires, tk_used = None\<rparr>;
                      g1 = (took_id (took_id g))\<lparr>tokens := tokens g @ [k]\<rparr>
                  in (Inr (k, plain),
                      record_audit flt [] owner ''createPersonalAccessToken'' ''accessToken'' (tk_id k) g1))))"

definition answer_token :: "(refusal + token \<times> string) \<times> org \<Rightarrow> (token \<times> string) resp \<times> org" where
  "answer_token r = (case r of (Inl e, g) \<Rightarrow> (refuse e, g) | (Inr x, g) \<Rightarrow> (Answer 201 x, g))"

record create_token_req =
  cq_name :: string
  cq_scope :: string
  cq_scope_id :: string
  cq_expires :: "int option"

definition create_token ::
  "ofaults \<Rightarrow> api \<Rightarrow> principal \<Rightarrow> create_token_req option \<Rightarrow> org \<Rightarrow> (token \<times> string) resp \<times> org" where
  "create_token flt a who body g =
     (if pr_user who = [] then (Error 401 ''unauthorized'', g)
      else case body of None \<Rightarrow> (Error 400 ''bad_request'', g) | Some b \<Rightarrow>
        let scope = (if cq_scope b = [] then ''user'' else cq_scope b) in
        if scope \<notin> set token_scopes then (Error 400 ''invalid_scope'', g)
        else if scope \<noteq> ''user'' \<and> cq_scope_id b = [] then (Error 400 ''missing_scope_id'', g)
        else answer_token (create_for_owner flt a (pr_user who) (cq_name b) scope
               (if scope = ''user'' then [] else cq_scope_id b) (cq_expires b) g))"

record scoped_token_req =
  sq_name :: string
  sq_expires :: "int option"

definition create_team_access_token ::
  "ofaults \<Rightarrow> api \<Rightarrow> principal \<Rightarrow> string \<Rightarrow> scoped_token_req option \<Rightarrow> org \<Rightarrow> (token \<times> string) resp \<times> org" where
  "create_team_access_token flt a who ref body g =
     (case load_team_for_request flt who ref g of
        Inl e \<Rightarrow> (refuse e, g)
      | Inr (t, role) \<Rightarrow>
        if role \<noteq> RoleAdmin then (Error 403 ''forbidden'', g)
        else (case body of None \<Rightarrow> (Error 400 ''bad_request'', g) | Some b \<Rightarrow>
          answer_token (create_for_owner flt a (pr_user who) (sq_name b) ''team'' (tm_id t) (sq_expires b) g)))"

definition create_project_scoped_token ::
  "ofaults \<Rightarrow> api \<Rightarrow> principal \<Rightarrow> string \<Rightarrow> string \<Rightarrow> scoped_token_req option \<Rightarrow> org
     \<Rightarrow> (token \<times> string) resp \<times> org" where
  "create_project_scoped_token flt a who scope ref body g =
     (case load_project_for_request flt who ref g of
        Inl e \<Rightarrow> (refuse e, g)
      | Inr (p, t, role) \<Rightarrow>
        if \<not> can_admin_project role then (Error 403 ''forbidden'', g)
        else (case body of None \<Rightarrow> (Error 400 ''bad_request'', g) | Some b \<Rightarrow>
          answer_token (create_for_owner flt a (pr_user who) (sq_name b) scope (pj_id p) (sq_expires b) g)))"

definition create_deployment_access_token ::
  "ofaults \<Rightarrow> api \<Rightarrow> principal \<Rightarrow> string \<Rightarrow> scoped_token_req option \<Rightarrow> org \<Rightarrow> (token \<times> string) resp \<times> org" where
  "create_deployment_access_token flt a who name body g =
     (case load_deployment_for_request flt who name g of
        Inl e \<Rightarrow> (refuse e, g)
      | Inr (d, p, t, role) \<Rightarrow>
        if \<not> can_admin_project role then (Error 403 ''forbidden'', g)
        else (case body of None \<Rightarrow> (Error 400 ''bad_request'', g) | Some b \<Rightarrow>
          answer_token (create_for_owner flt a (pr_user who) (sq_name b) ''deployment'' (d_id d) (sq_expires b) g)))"

definition delete_token :: "ofaults \<Rightarrow> api \<Rightarrow> principal \<Rightarrow> string option \<Rightarrow> org \<Rightarrow> string resp \<times> org" where
  "delete_token flt a who body g =
     (if pr_user who = [] then (Error 401 ''unauthorized'', g)
      else case body of None \<Rightarrow> (Error 400 ''bad_request'', g) | Some i \<Rightarrow>
        let hit = (\<lambda>k. tk_id k = i \<and> tk_user k = pr_user who) in
        if i = [] then (Error 400 ''missing_id'', g)
        else if flt ''delete access token'' \<or> \<not> a_is_uuid a i then (Error 500 ''internal'', g)
        else if sql_count hit (tokens g) = 0 then (Error 404 ''token_not_found'', g)
        else (Answer 200 i, record_audit flt [] (pr_user who) ''deletePersonalAccessToken'' ''accessToken'' i
                (g\<lparr>tokens := filter (\<lambda>k. \<not> hit k) (tokens g)\<rparr>)))"

section \<open>Sessions\<close>

text \<open>The pair of JWTs: \<open>iat\<close> has whole seconds.\<close>

definition whole_second :: "int \<Rightarrow> int" where
  "whole_second t = t - t mod usec"

definition issue :: "int \<Rightarrow> string \<Rightarrow> user \<Rightarrow> claims" where
  "issue t kind u = \<lparr>cl_user = us_id u, cl_email = us_email u, cl_kind = kind, cl_issued = Some (whole_second t)\<rparr>"

definition token_pair :: "int \<Rightarrow> user \<Rightarrow> claims \<times> claims \<times> user" where
  "token_pair t u = (issue t ''access'' u, issue t ''refresh'' u, u)"

record register_req =
  rq_email :: string
  rq_password :: string
  rq_name :: string

definition register ::
  "ofaults \<Rightarrow> api \<Rightarrow> register_req option \<Rightarrow> org \<Rightarrow> (claims \<times> claims \<times> user) resp \<times> org" where
  "register flt a body g =
     (case body of None \<Rightarrow> (Error 400 ''bad_request'', g) | Some b \<Rightarrow>
        let email = trim_space (rq_email b) in
        if email = [] \<or> CHR ''@'' \<notin> set email then (Error 400 ''invalid_email'', g)
        else if length (rq_password b) < 8 then (Error 400 ''weak_password'', g)
        else (case a_bcrypt a (rq_password b) of None \<Rightarrow> (Error 500 ''internal'', g) | Some hsh \<Rightarrow>
          if flt ''begin register'' \<or> flt ''lock first instance admin'' then (Error 500 ''internal'', g)
          else if flt ''create user'' then (Error 500 ''internal'', g)
          else if sql_exists (\<lambda>u. ci_eq (us_email u) email) (users g) then (Error 409 ''email_taken'', g)
          else if flt ''commit create user'' then (Error 500 ''internal'', g)
          else (let u = \<lparr>us_id = new_id (a_uuid a) g, us_email = email, us_hash = hsh, us_name = rq_name b,
                         us_admin = (users g = []), us_created = now g, us_updated = now g, us_changed = None\<rparr>
                in (Answer 201 (token_pair (now g) u), (took_id g)\<lparr>users := users g @ [u]\<rparr>))))"

record login_req =
  lq_email :: string
  lq_password :: string

definition login ::
  "ofaults \<Rightarrow> api \<Rightarrow> login_req option \<Rightarrow> org \<Rightarrow> (claims \<times> claims \<times> user) resp \<times> org" where
  "login flt a body g =
     (case body of None \<Rightarrow> (Error 400 ''bad_request'', g) | Some b \<Rightarrow>
        (case fetch flt ''lookup user'' (\<lambda>u. ci_eq (us_email u) (lq_email b)) (users g) of
           NoRows \<Rightarrow> (Error 401 ''invalid_credentials'', g)
         | DbErr \<Rightarrow> (Error 500 ''internal'', g)
         | Row u \<Rightarrow>
             if \<not> a_verify a (us_hash u) (lq_password b) then (Error 401 ''invalid_credentials'', g)
             else (Answer 200 (token_pair (now g) u), record_audit flt [] (us_id u) ''login'' ''user'' (us_id u) g)))"

definition refresh ::
  "ofaults \<Rightarrow> api \<Rightarrow> string option \<Rightarrow> org \<Rightarrow> (claims \<times> claims \<times> user) resp" where
  "refresh flt a body g =
     (case body of None \<Rightarrow> Error 400 ''bad_request'' | Some tok \<Rightarrow>
        (case a_jwt a tok of
           None \<Rightarrow> Error 401 ''invalid_refresh''
         | Some c \<Rightarrow>
             if cl_kind c \<noteq> ''refresh'' then Error 401 ''invalid_refresh''
             else (case fetch flt ''refresh user'' (\<lambda>u. us_id u = cl_user c) (users g) of
                 Row u \<Rightarrow>
                   (if (case (us_changed u, cl_issued c) of
                          (Some ch, Some iat) \<Rightarrow> iat < whole_second ch | _ \<Rightarrow> False)
                    then Error 401 ''invalid_refresh''
                    else Answer 200 (token_pair (now g) u))
               | _ \<Rightarrow> Error 401 ''user_not_found'')))"

section \<open>Password reset\<close>

definition reset_ttl :: int where "reset_ttl = 3600 * usec"
definition max_active_resets :: nat where "max_active_resets = 3"

definition active_reset :: "int \<Rightarrow> uuid \<Rightarrow> reset_token \<Rightarrow> bool" where
  "active_reset t uid r \<longleftrightarrow> rt_user r = uid \<and> rt_used r = None \<and> t < rt_expires r"

text \<open>
  The answer is always 200; the second component is the mail that is sent in the background, the
  address and the token. \<open>a_mail\<close> without a result is a missing sender.
\<close>

definition forgot_password ::
  "ofaults \<Rightarrow> api \<Rightarrow> string option \<Rightarrow> org \<Rightarrow> unit resp \<times> (string \<times> string) option \<times> org" where
  "forgot_password flt a body g =
     (case body of None \<Rightarrow> (Error 400 ''bad_request'', None, g) | Some b \<Rightarrow>
        let email = trim_space b in
        if email = [] \<or> CHR ''@'' \<notin> set email then (Answer 200 (), None, g)
        else (case fetch flt ''forgot_password lookup'' (\<lambda>u. ci_eq (us_email u) email) (users g) of
            Row u \<Rightarrow>
              if a_mail a email = None \<or> a_public_url a = [] then (Answer 200 (), None, g)
              else if flt ''forgot_password count active'' then (Answer 200 (), None, g)
              else if max_active_resets \<le> sql_count (active_reset (now g) (us_id u)) (resets g) then
                (Answer 200 (), None, g)
              else (case generate_token a ''syn_reset_'' g of
                  None \<Rightarrow> (Answer 200 (), None, g)
                | Some (plain, hsh) \<Rightarrow>
                    if flt ''forgot_password insert token'' \<or> sql_exists (\<lambda>r. rt_hash r = hsh) (resets g) then
                      (Answer 200 (), None, g)
                    else (let r = \<lparr>rt_id = new_id (a_uuid a) (took_id g), rt_user = us_id u, rt_hash = hsh,
                                   rt_expires = now g + reset_ttl, rt_used = None\<rparr>
                          in (Answer 200 (), Some (email, plain),
                              (took_id (took_id g))\<lparr>resets := resets g @ [r]\<rparr>)))
          | _ \<Rightarrow> (Answer 200 (), None, g)))"

record reset_req =
  rr_token :: string
  rr_password :: string

definition new_password :: "string \<Rightarrow> int \<Rightarrow> user \<Rightarrow> user" where
  "new_password hsh t u = u\<lparr>us_hash := hsh, us_changed := Some t, us_updated := t\<rparr>"

definition use_reset :: "int \<Rightarrow> reset_token \<Rightarrow> reset_token" where
  "use_reset t r = r\<lparr>rt_used := Some t\<rparr>"

definition reset_password :: "ofaults \<Rightarrow> api \<Rightarrow> reset_req option \<Rightarrow> org \<Rightarrow> unit resp \<times> org" where
  "reset_password flt a body g =
     (case body of None \<Rightarrow> (Error 400 ''bad_request'', g) | Some b \<Rightarrow>
        if length (rr_password b) < 8 then (Error 400 ''weak_password'', g)
        else (case a_bcrypt a (rr_password b) of None \<Rightarrow> (Error 500 ''internal'', g) | Some hsh \<Rightarrow>
          let th = a_sha256 a (trim_space (rr_token b)) in
          if flt ''begin reset_password'' then (Error 500 ''internal'', g)
          else (case fetch flt ''lookup reset token''
                  (\<lambda>r. rt_hash r = th \<and> rt_used r = None \<and> now g < rt_expires r) (resets g) of
              NoRows \<Rightarrow> (Error 400 ''invalid_token'', g)
            | DbErr \<Rightarrow> (Error 500 ''internal'', g)
            | Row r \<Rightarrow>
                if flt ''update password'' \<or> flt ''mark reset token used'' \<or> flt ''delete sibling reset tokens''
                   \<or> flt ''commit reset_password'' then (Error 500 ''internal'', g)
                else (Answer 200 (),
                  record_audit flt [] (rt_user r) ''passwordReset'' ''user'' (rt_user r)
                    (g\<lparr>users := sql_update (\<lambda>u. us_id u = rt_user r) (new_password hsh (now g)) (users g),
                       resets := filter (\<lambda>x. \<not> (rt_user x = rt_user r \<and> rt_used x = None))
                         (sql_update (\<lambda>x. rt_id x = rt_id r) (use_reset (now g)) (resets g))\<rparr>)))))"

end
