(* ===== verification/OrgSystem.thy ===== *)
theory OrgSystem
  imports Sessions
begin

text \<open>
  All requests that write the tables of accounts, teams and projects, as one step relation, and the
  locale of its invariants: what every handler writes is one of a few updates, so an invariant of these
  updates holds in every reachable state. The runs of other requests that interleave with the
  allocation of a name are runs of the same relation.
\<close>

section \<open>Requests\<close>

datatype (plugins only: code size) request =
    CreateTeam "create_team_req option" | UpdateTeam string "update_team_req option" | DeleteTeam string
  | UpdateMemberRole string "member_req option" | RemoveMember string "string option"
  | CreateProject string "string option" | InviteMember string "invite_req option"
  | CancelInvite string string | AcceptInvite "string option"
  | UpdateProfileName "string option" | DeleteAccount
  | UpdateProject string "update_project_req option" | TransferProject string "string option"
  | DeleteProject string | UpdateEnvVars string "env_change list option" | SyncEnv string
  | AddProjectMember string "member_req option" | UpdateProjectMemberRole string "member_req option"
  | RemoveProjectMember string "string option"
  | CreateToken "create_token_req option" | CreateTeamToken string "scoped_token_req option"
  | CreateProjectToken string string "scoped_token_req option"
  | CreateDeploymentToken string "scoped_token_req option" | DeleteToken "string option"
  | Register "register_req option" | Login "login_req option" | ForgotPassword "string option"
  | ResetPassword "reset_req option"

fun serve :: "ofaults \<Rightarrow> api \<Rightarrow> deployer \<Rightarrow> principal \<Rightarrow> request \<Rightarrow> org \<Rightarrow> org" where
  "serve flt a dp who (CreateTeam b) g = snd (create_team flt a who b g)"
| "serve flt a dp who (UpdateTeam t b) g = snd (update_team flt who t b g)"
| "serve flt a dp who (DeleteTeam t) g = snd (delete_team flt who t g)"
| "serve flt a dp who (UpdateMemberRole t b) g = snd (update_member_role flt who t b g)"
| "serve flt a dp who (RemoveMember t b) g = snd (remove_member flt who t b g)"
| "serve flt a dp who (CreateProject t b) g = snd (create_project flt a who t b g)"
| "serve flt a dp who (InviteMember t b) g = snd (invite_member flt a who t b g)"
| "serve flt a dp who (CancelInvite t i) g = snd (cancel_invite flt who t i g)"
| "serve flt a dp who (AcceptInvite b) g = snd (accept_invite flt who b g)"
| "serve flt a dp who (UpdateProfileName b) g = snd (update_profile_name flt who b g)"
| "serve flt a dp who DeleteAccount g = snd (delete_account flt who g)"
| "serve flt a dp who (UpdateProject p b) g = snd (update_project flt who p b g)"
| "serve flt a dp who (TransferProject p b) g = snd (transfer_project flt who p b g)"
| "serve flt a dp who (DeleteProject p) g = snd (delete_project flt dp who p g)"
| "serve flt a dp who (UpdateEnvVars p b) g = snd (update_env_vars flt (Some dp) who p b g)"
| "serve flt a dp who (SyncEnv p) g = snd (sync_env_to_deployments flt (Some dp) who p g)"
| "serve flt a dp who (AddProjectMember p b) g = snd (add_project_member flt (a_is_uuid a) who p b g)"
| "serve flt a dp who (UpdateProjectMemberRole p b) g = snd (update_project_member_role flt (a_is_uuid a) who p b g)"
| "serve flt a dp who (RemoveProjectMember p b) g = snd (remove_project_member flt who p b g)"
| "serve flt a dp who (CreateToken b) g = snd (create_token flt a who b g)"
| "serve flt a dp who (CreateTeamToken t b) g = snd (create_team_access_token flt a who t b g)"
| "serve flt a dp who (CreateProjectToken s p b) g = snd (create_project_scoped_token flt a who s p b g)"
| "serve flt a dp who (CreateDeploymentToken d b) g = snd (create_deployment_access_token flt a who d b g)"
| "serve flt a dp who (DeleteToken b) g = snd (delete_token flt a who b g)"
| "serve flt a dp who (Register b) g = snd (register flt a b g)"
| "serve flt a dp who (Login b) g = snd (login flt a b g)"
| "serve flt a dp who (ForgotPassword b) g = snd (snd (forgot_password flt a b g))"
| "serve flt a dp who (ResetPassword b) g = snd (reset_password flt a b g)"

inductive org_steps :: "org \<Rightarrow> org \<Rightarrow> bool" and org_step :: "org \<Rightarrow> org \<Rightarrow> bool" where
  steps_refl: "org_steps g g"
| steps_step: "org_steps g h \<Longrightarrow> org_step h k \<Longrightarrow> org_steps g k"
| step_serve: "(\<And>k h. org_steps h (a_others a k h)) \<Longrightarrow> org_step g (serve flt a dp who r g)"
| step_bearer: "org_step g (snd (authenticate flt hash verify tok g))"
| step_other: "org_step g (g\<lparr>pl := p, dep_docs := ds, audit := au\<rparr>)"
    \<comment> \<open>the provisioner, the agents and the handlers of deployments, hosts and cells\<close>

inductive_cases org_step_cases: "org_step g h"

section \<open>The invariants\<close>

lemma normalise_role_ok: "normalise_role x = Some r \<Longrightarrow> r \<noteq> RoleViewer"
  by (auto simp: normalise_role_def Let_def split: if_splits)

locale org_invariant =
  fixes I :: "org \<Rightarrow> bool"
  assumes on_audit: "I g \<Longrightarrow> I (g\<lparr>audit := au\<rparr>)"
    and on_plane: "I g \<Longrightarrow> I (g\<lparr>pl := p\<rparr>)"
    and on_invites: "I g \<Longrightarrow> iv_role ` set is \<subseteq> {RoleAdmin, RoleMember} \<union> iv_role ` set (invites g) \<Longrightarrow>
      I (g\<lparr>invites := is\<rparr>)"
    and on_projects: "I g \<Longrightarrow> I (g\<lparr>projects := ps\<rparr>)"
    and on_pmembers: "I g \<Longrightarrow> I (g\<lparr>pmembers := ms\<rparr>)"
    and on_tokens: "I g \<Longrightarrow> I (g\<lparr>tokens := ks\<rparr>)"
    and on_resets: "I g \<Longrightarrow> I (g\<lparr>resets := rs\<rparr>)"
    and on_dep_docs: "I g \<Longrightarrow> I (g\<lparr>dep_docs := ds\<rparr>)"
    and on_user: "I g \<Longrightarrow> I (g\<lparr>users := users g @ [u]\<rparr>)"
    and on_users: "I g \<Longrightarrow> (\<And>u. us_id (f u) = us_id u) \<Longrightarrow> I (g\<lparr>users := sql_update q f (users g)\<rparr>)"
    and on_new_team: "I g \<Longrightarrow> sql_exists (\<lambda>u. us_id u = uid) (users g) \<Longrightarrow>
      \<not> sql_exists (\<lambda>t. ci_eq (tm_slug t) sl0) (teams g) \<Longrightarrow>
      \<not> sql_exists (\<lambda>t. tm_id t = new_id (a_uuid a) g) (teams g) \<Longrightarrow> I (snd (insert_team a uid n sl0 rg0 g))"
    and on_edit_team: "I g \<Longrightarrow> \<not> (case sl of None \<Rightarrow> False | Some v \<Rightarrow>
        sql_exists (\<lambda>x. tm_id x \<noteq> tid \<and> ci_eq (tm_slug x) v) (teams g)) \<Longrightarrow>
      I (g\<lparr>teams := sql_update (\<lambda>x. tm_id x = tid) (set_team nm sl rg) (teams g)\<rparr>)"
    and on_drop_team: "I g \<Longrightarrow> I (drop_team tid g)"
    and on_role: "I g \<Longrightarrow> sql_row (\<lambda>m. mb_team m = tid \<and> mb_user m = uid) (members g) = Some m \<Longrightarrow>
      r \<noteq> RoleViewer \<Longrightarrow> mb_role m \<noteq> RoleAdmin \<or> r = RoleAdmin \<or> 1 < team_admins tid (members g) \<Longrightarrow>
      I (g\<lparr>members := sql_update (\<lambda>m. mb_team m = tid \<and> mb_user m = uid) (set_role r) (members g)\<rparr>)"
    and on_leave: "I g \<Longrightarrow> sql_row (\<lambda>m. mb_team m = tid \<and> mb_user m = uid) (members g) = Some m \<Longrightarrow>
      mb_role m \<noteq> RoleAdmin \<or> 1 < team_admins tid (members g) \<Longrightarrow>
      I (g\<lparr>members := leave_team tid uid (members g)\<rparr>)"
    and on_join: "I g \<Longrightarrow> i \<in> set (invites g) \<Longrightarrow> sql_exists (\<lambda>u. us_id u = uid) (users g) \<Longrightarrow>
      sql_exists (\<lambda>t. tm_id t = iv_team i) (teams g) \<Longrightarrow> I (join_team (iv_team i) uid (iv_role i) g)"
    and on_drop_user: "I g \<Longrightarrow> orphaned_teams uid g = 0 \<Longrightarrow> created_teams uid g = 0 \<Longrightarrow> I (drop_user uid g)"
begin

lemma on_record [intro]: "I g \<Longrightarrow> I (record_audit flt b c d e f g)"
  by (simp add: record_audit_def on_audit)

lemma on_set_sys [intro]: "I g \<Longrightarrow> I (set_sys s g)"
  by (simp add: set_sys_def on_plane)

lemma on_took [intro]: "I g \<Longrightarrow> I (took_id g)"
  by (simp add: took_id_def on_plane)

lemma on_drop_projects [intro]: "I g \<Longrightarrow> I (drop_projects P g)"
  unfolding drop_projects_def Let_def
  by (rule on_set_sys)
    (use on_dep_docs [OF on_pmembers [OF on_projects [OF on_plane]]] in simp)

lemma on_create_team:
  assumes others: "\<And>k h. I h \<Longrightarrow> I (a_others a k h)" and I: "I g"
  shows "I (snd (create_team flt a who b g))"
proof -
  have attempt: "I (fst (snd (create_team_attempt flt a uid nm rg k s)))" if "I (fst s)" for uid nm rg k s
    using that others on_new_team
    by (auto simp: create_team_attempt_def Let_def split: sum.splits prod.splits) (metis snd_conv)
  have "I (fst s')" if "with_retry_on_unique_violation (a_cancelled a) 10 (create_team_attempt flt a uid nm rg) (g, None) = (e, s')"
    for uid nm rg e s'
    using retry_keeps [of "\<lambda>s. I (fst s)" "create_team_attempt flt a uid nm rg" "(g, None)", OF attempt] I that
    by (metis fst_conv snd_conv)
  then show ?thesis
    using I by (auto simp: create_team_def Let_def on_record split: option.splits prod.splits)
qed

lemma on_create_project:
  assumes others: "\<And>k h. I h \<Longrightarrow> I (a_others a k h)" and I: "I g"
  shows "I (snd (create_project flt a who ref b g))"
proof -
  have ins: "I (snd (insert_project a tid nm sl h))" if "I h" for tid nm sl h
    using that by (auto simp: insert_project_def Let_def intro: on_projects)
  have attempt: "I (fst (snd (create_project_attempt flt a tid nm k s)))" if "I (fst s)" for tid nm k s
    using that others ins
    by (auto simp: create_project_attempt_def Let_def split: sum.splits prod.splits) (metis snd_conv)
  have "I (fst s')" if "with_retry_on_unique_violation (a_cancelled a) 10 (create_project_attempt flt a tid nm) (g, None) = (e, s')"
    for tid nm e s'
    using retry_keeps [of "\<lambda>s. I (fst s)" "create_project_attempt flt a tid nm" "(g, None)", OF attempt] I that
    by (metis fst_conv snd_conv)
  then show ?thesis
    using I by (auto simp: create_project_def Let_def on_record split: option.splits prod.splits sum.splits)
qed

lemma on_team_ops:
  assumes I: "I g"
  shows "I (snd (update_team flt who ref b1 g))" "I (snd (delete_team flt who ref g))"
    "I (snd (update_member_role flt who ref b2 g))" "I (snd (remove_member flt who ref b3 g))"
proof -
  show "I (snd (update_team flt who ref b1 g))"
    using I by (auto simp: update_team_def Let_def intro!: on_record on_edit_team
        split: option.splits sum.splits prod.splits)
  show "I (snd (delete_team flt who ref g))"
    using I by (auto simp: delete_team_def Let_def intro!: on_record on_drop_team
        split: option.splits sum.splits prod.splits)
  show "I (snd (update_member_role flt who ref b2 g))"
    using I by (auto simp: update_member_role_def Let_def dest: normalise_role_ok intro!: on_record on_role
        split: option.split sum.split prod.split fetched.split)
  show "I (snd (remove_member flt who ref b3 g))"
    using I by (auto simp: remove_member_def Let_def intro!: on_record on_leave
        split: option.split sum.split prod.split fetched.split)
qed

lemma on_account_ops:
  assumes I: "I g"
  shows "I (snd (invite_member flt a who ref b1 g))" "I (snd (cancel_invite flt who ref i g))"
    "I (snd (accept_invite flt who b2 g))" "I (snd (update_profile_name flt who b3 g))"
    "I (snd (delete_account flt who g))"
proof -
  have up: "I (snd (upsert_invite a tid email (invited_role r) by' tok h))" if "I h" for tid email r by' tok h
    using that
    by (auto simp: upsert_invite_def Let_def invited_role_def renew_invite_def sql intro!: on_invites on_took
        split: option.split)
  show "I (snd (invite_member flt a who ref b1 g))"
    using I up [OF on_took, of g]
    by (auto simp: invite_member_def Let_def intro!: on_record split: option.split sum.split prod.split)
      (metis snd_conv)+
  show "I (snd (cancel_invite flt who ref i g))"
    using I by (auto simp: cancel_invite_def Let_def intro!: on_record on_invites
        split: option.split sum.split prod.split)
  have join: "I ((join_team (iv_team v) u (iv_role v) g)\<lparr>invites := sql_update q (consume_invite t) (invites g)\<rparr>)"
    if "v \<in> set (invites g)" "sql_exists (\<lambda>x. us_id x = u) (users g)" "sql_exists (\<lambda>x. tm_id x = iv_team v) (teams g)"
    for v u q t
    using on_join [OF I that]
    by (rule on_invites) (auto simp: join_team_def consume_invite_def sql)
  show "I (snd (accept_invite flt who b2 g))"
    using I by (auto simp: accept_invite_def Let_def sql_row_exists intro!: on_record join
        split: option.split sum.split prod.split fetched.split dest: sql_row_SomeD)
  show "I (snd (update_profile_name flt who b3 g))"
    using I by (auto simp: update_profile_name_def rename_user_def intro!: on_record on_users
        split: option.split fetched.split)
  show "I (snd (delete_account flt who g))"
    using I on_drop_user [OF on_audit [OF I]]
    by (auto simp: delete_account_def Let_def record_audit_def orphaned_teams_def created_teams_def
        intro!: on_audit on_drop_user split: fetched.split)
qed

lemma on_project_ops:
  assumes I: "I g"
  shows "I (snd (update_project flt who ref b1 g))" "I (snd (transfer_project flt who ref b2 g))"
    "I (snd (delete_project flt dp who ref g))" "I (snd (update_env_vars flt odp who ref b3 g))"
    "I (snd (sync_env_to_deployments flt odp who ref g))"
    "I (snd (set_project_member x y z flt iu who ref b4 g))" "I (snd (remove_project_member flt who ref b5 g))"
proof -
  have sync: "I (snd (sync_function_env_for_project flt odp pid h))" if "I h" for pid h
    using that by (auto simp: sync_function_env_for_project_def Let_def split: option.split prod.split)
  show "I (snd (update_project flt who ref b1 g))"
    using I by (auto simp: update_project_def Let_def intro!: on_record on_projects
        split: option.split sum.split prod.split)
  show "I (snd (transfer_project flt who ref b2 g))"
    using I by (auto simp: transfer_project_def Let_def intro!: on_record on_projects
        split: option.split sum.split prod.split)
  show "I (snd (delete_project flt dp who ref g))"
    using I by (auto simp: delete_project_def Let_def intro!: on_record on_set_sys on_drop_projects
        split: sum.split prod.split outcome.split)
  show "I (snd (update_env_vars flt odp who ref b3 g))"
    using I sync [OF on_set_sys [OF I]]
    by (auto simp: update_env_vars_def Let_def intro!: on_record split: option.split sum.split prod.split)
      (metis snd_conv)+
  show "I (snd (sync_env_to_deployments flt odp who ref g))"
    using I sync [OF I]
    by (auto simp: sync_env_to_deployments_def intro!: on_record split: option.split sum.split prod.split)
      (metis snd_conv)+
  show "I (snd (set_project_member x y z flt iu who ref b4 g))"
    using I by (auto simp: set_project_member_def Let_def intro!: on_record on_pmembers
        split: option.split sum.split prod.split)
  show "I (snd (remove_project_member flt who ref b5 g))"
    using I by (auto simp: remove_project_member_def Let_def intro!: on_record on_pmembers
        split: option.split sum.split prod.split)
qed

lemma on_answer_token: "I (snd r) \<Longrightarrow> I (snd (answer_token r))"
  by (auto simp: answer_token_def split: prod.split sum.split)

lemma on_create_for_owner: "I g \<Longrightarrow> I (snd (create_for_owner flt a owner nm scope sid ex g))"
  by (auto simp: create_for_owner_def Let_def intro!: on_record on_tokens on_took split: option.split prod.split)

lemma on_session_ops:
  assumes I: "I g"
  shows "I (snd (create_token flt a who b1 g))" "I (snd (create_team_access_token flt a who ref b2 g))"
    "I (snd (create_project_scoped_token flt a who sc ref b2 g))"
    "I (snd (create_deployment_access_token flt a who ref b2 g))" "I (snd (delete_token flt a who b3 g))"
    "I (snd (register flt a b4 g))" "I (snd (login flt a b5 g))" "I (snd (snd (forgot_password flt a b6 g)))"
    "I (snd (reset_password flt a b7 g))" "I (snd (authenticate flt hash verify tok g))"
proof -
  show "I (snd (create_token flt a who b1 g))"
    using I by (auto simp: create_token_def Let_def intro!: on_answer_token on_create_for_owner split: option.split)
  show "I (snd (create_team_access_token flt a who ref b2 g))"
    using I by (auto simp: create_team_access_token_def intro!: on_answer_token on_create_for_owner
        split: option.split sum.split prod.split)
  show "I (snd (create_project_scoped_token flt a who sc ref b2 g))"
    using I by (auto simp: create_project_scoped_token_def intro!: on_answer_token on_create_for_owner
        split: option.split sum.split prod.split)
  show "I (snd (create_deployment_access_token flt a who ref b2 g))"
    using I by (auto simp: create_deployment_access_token_def intro!: on_answer_token on_create_for_owner
        split: option.split sum.split prod.split)
  show "I (snd (delete_token flt a who b3 g))"
    using I by (auto simp: delete_token_def Let_def intro!: on_record on_tokens split: option.split)
  have reg: "I ((took_id g)\<lparr>users := users g @ [u]\<rparr>)" for u
    using on_user [OF on_took [OF I], of u] by simp
  show "I (snd (register flt a b4 g))"
    using I reg by (auto simp: register_def Let_def split: option.split)
  show "I (snd (login flt a b5 g))"
    using I by (auto simp: login_def intro!: on_record split: option.split fetched.split)
  show "I (snd (snd (forgot_password flt a b6 g)))"
    using I by (auto simp: forgot_password_def Let_def intro!: on_resets on_took
        split: option.split fetched.split prod.split)
  have res: "I (g\<lparr>users := sql_update q (new_password h t) (users g), resets := rs\<rparr>)" for q h t rs
    using on_resets [OF on_users [OF I, of "new_password h t" q]] by (simp add: new_password_def)
  show "I (snd (reset_password flt a b7 g))"
    using I res by (auto simp: reset_password_def Let_def intro!: on_record split: option.split fetched.split)
  show "I (snd (authenticate flt hash verify tok g))"
    using I by (auto simp: authenticate_def Let_def intro!: on_tokens split: option.split fetched.split)
qed

lemma on_serve:
  assumes "\<And>k h. I h \<Longrightarrow> I (a_others a k h)" and "I g"
  shows "I (serve flt a dp who r g)"
  using assms
  by (cases r) (simp_all add: on_create_team on_create_project on_team_ops on_account_ops on_project_ops
      on_session_ops add_project_member_def update_project_member_role_def)

lemma on_steps: "org_steps g h \<Longrightarrow> I g \<longrightarrow> I h" and on_step: "org_step g h \<Longrightarrow> I g \<longrightarrow> I h"
  by (induction rule: org_steps_org_step.inducts) (auto intro: on_serve on_session_ops on_audit on_dep_docs on_plane)

end

section \<open>What holds in every reachable state\<close>

definition member_id :: "member \<Rightarrow> uuid \<times> uuid" where
  "member_id m = (mb_team m, mb_user m)"

definition keys_ok :: "org \<Rightarrow> bool" where
  "keys_ok g \<longleftrightarrow> distinct (map tm_id (teams g)) \<and> distinct (map member_id (members g))
     \<and> distinct (map (\<lambda>t. to_lower (tm_slug t)) (teams g))"

definition refs_ok :: "org \<Rightarrow> bool" where
  "refs_ok g \<longleftrightarrow> (\<forall>m \<in> set (members g). mb_team m \<in> tm_id ` set (teams g) \<and> mb_user m \<in> us_id ` set (users g))
     \<and> (\<forall>t \<in> set (teams g). tm_creator t \<in> us_id ` set (users g))"

definition roles_ok :: "org \<Rightarrow> bool" where
  "roles_ok g \<longleftrightarrow> RoleViewer \<notin> mb_role ` set (members g) \<and> RoleViewer \<notin> iv_role ` set (invites g)"

definition is_admin_of :: "uuid \<Rightarrow> member \<Rightarrow> bool" where
  "is_admin_of tid m \<longleftrightarrow> mb_team m = tid \<and> mb_role m = RoleAdmin"

definition admins_ok :: "org \<Rightarrow> bool" where
  "admins_ok g \<longleftrightarrow> (\<forall>t \<in> set (teams g). \<exists>m \<in> set (members g). is_admin_of (tm_id t) m)"

definition org_ok :: "org \<Rightarrow> bool" where
  "org_ok g \<longleftrightarrow> keys_ok g \<and> refs_ok g \<and> roles_ok g \<and> admins_ok g"

lemmas ok_defs = org_ok_def keys_ok_def refs_ok_def roles_ok_def admins_ok_def

lemma team_admins_alt: "team_admins tid ms = sql_count (is_admin_of tid) ms"
  by (simp add: team_admins_def is_admin_of_def [abs_def])

text \<open>Among two rows with the property and distinct keys there is one with another key.\<close>

lemma another_row:
  assumes "1 < sql_count p ms" and "distinct (map key ms)"
  shows "\<exists>m \<in> set ms. p m \<and> key m \<noteq> k"
proof (rule ccontr)
  assume "\<not> ?thesis"
  then have same: "\<forall>m \<in> set (filter p ms). key m = k" by auto
  have "distinct (map key (filter p ms))" using assms(2) by (simp add: distinct_map_filter)
  moreover have "map key (filter p ms) = replicate (length (filter p ms)) k"
    using same by (simp add: map_replicate_const [symmetric] cong: map_cong)
  ultimately have "length (filter p ms) \<le> 1"
    by (metis One_nat_def Suc_leI distinct_card length_replicate card_le_Suc0_iff_eq finite_set in_set_replicate le_SucI not_less_eq_eq set_replicate_conv_if)
  then show False using assms(1) by (simp add: sql_count_def)
qed

end
