(* ===== verification/Samples.thy ===== *)
theory Samples
  imports WorkerLoop
begin

text \<open>
  Closed instances of the model: a configuration, a worker whose external calls succeed and leave
  the state alone, one with a delete that arrives while Docker works, and small stores. They only
  serve to run the definitions and to show that the theorems' hypotheses can hold.
\<close>

definition ok_info :: "spec \<Rightarrow> info" where
  "ok_info sp = \<lparr>in_container = container_name (sp_name sp) (sp_index sp) (sp_ha sp),
     in_port = sp_port sp, in_url = ''http://u'', in_addr = ''addr''\<rparr>"

definition idle :: "'a \<Rightarrow> 'a ext" where
  "idle x = (\<lambda>s. (Ok x, s))"

definition demo_docker :: dispatcher where
  "demo_docker = \<lparr>dk_provision = (\<lambda>sp. idle (ok_info sp)), dk_destroy = (\<lambda>_. idle ()),
     dk_destroy_replica = (\<lambda>_ _ _. idle ()), dk_stop = (\<lambda>_. idle ()), dk_restart = (\<lambda>_. idle ())\<rparr>"

definition demo_config :: config where
  "demo_config = \<lparr>cf_poll = 0, cf_timeout = 300000000000, cf_concurrency = 4, cf_node = ''n1'',
     cf_hc_network = False, cf_port_min = 3210, cf_port_max = 3214, cf_public_url = [],
     cf_proxy = False, cf_base = [], cf_backup_dir = ''/b'', cf_apply = True, cf_max_attempts = 5\<rparr>"

definition demo_backups :: backup_runner where
  "demo_backups = \<lparr>bk_export = (\<lambda>_. idle ()), bk_import = (\<lambda>_. idle ()), bk_stat = (\<lambda>_ _. Inr 7)\<rparr>"

definition demo_worker :: worker where
  "demo_worker = \<lparr>wk_docker = demo_docker, wk_migrate = Some (\<lambda>_. idle ()), wk_backups = Some demo_backups,
     wk_config = demo_config, wk_decrypt = Some (\<lambda>x. Ok x), wk_convex_env = None, wk_ssh = None\<rparr>"

definition demo_dep :: "uuid \<Rightarrow> dep_status \<Rightarrow> deployment" where
  "demo_dep i st = \<lparr>d_id = i, d_project = ''p1'', d_name = ''happy-fox-1'', d_type = ''dev'', d_status = st,
     d_container = None, d_host_port = Some 3210, d_url = None, d_admin_key = ''k'', d_secret = ''x'',
     d_adopted = False, d_ha = False, d_replica_count = 1, d_last_deploy = Some 0, d_host = ''h1'',
     d_cpus = None, d_memory = None, d_schedule = SchedNone, d_retention = 7\<rparr>"

definition demo_host :: host where
  "demo_host = \<lparr>h_id = ''h1'', h_name = ''vps'', h_provider = ''unknown'', h_region = [], h_public_ip = None,
     h_private_ip = None, h_labels = [], h_status = HOnline, h_agent_version = None, h_docker_version = None, h_cpu = None,
     h_memory_mb = None, h_disk = None, h_self = True, h_is_remote = False, h_tailnet = None, h_ssh_user = ''root'',
     h_ssh_port = 22, h_ssh_pubkey = None, h_ssh_key = None, h_fingerprint = None, h_heartbeat = None, h_created = 0,
     h_updated = 0\<rparr>"

definition demo_store :: "dep_status \<Rightarrow> state" where
  "demo_store st = empty_state\<lparr>deps := [demo_dep ''d1'' st], hosts := [demo_host], clock := 1000\<rparr>"

definition demo_queued :: state where
  "demo_queued = snd (enqueue no_faults ''d1'' False (demo_store DProvisioning))"

lemmas demo_defs = demo_docker_def demo_config_def demo_backups_def demo_worker_def demo_dep_def demo_host_def
  demo_store_def demo_queued_def empty_state_def no_faults_def idle_def ok_info_def

lemma idle_keeps [simp]: "ext_keeps I (idle x)"
  by (simp add: ext_keeps_def idle_def)

lemma demo_worker_keeps [simp]: "worker_keeps I demo_worker"
  by (simp add: worker_keeps_def dispatcher_keeps_def demo_worker_def demo_docker_def demo_backups_def)

lemma demo_claim:
  "\<exists>c s'. claim_next demo_worker no_faults demo_config (\<lambda>_. False) demo_queued = (Some c, s') \<and> cj_id c = 1"
proof -
  have "map_option cj_id (fst (claim_next demo_worker no_faults demo_config (\<lambda>_. False) demo_queued)) = Some 1"
    by code_simp
  then show ?thesis
    by (cases "claim_next demo_worker no_faults demo_config (\<lambda>_. False) demo_queued") auto
qed


text \<open>The provision job of \<open>demo_queued\<close> as a worker holds it, and a Docker that loses to a delete.\<close>

definition demo_job :: "job_kind \<Rightarrow> claimed_job" where
  "demo_job k = \<lparr>cj_id = 1, cj_kind = k, cj_deployment = ''d1'', cj_project = ''p1'', cj_name = ''happy-fox-1'',
     cj_type = ''dev'', cj_port = 3210, cj_container = [], cj_admin_key = ''k'', cj_secret = ''x'',
     cj_hc = False, cj_env = [], cj_replica = [], cj_index = 0, cj_ha = False, cj_storage = None,
     cj_host = ''h1'', cj_remote = False, cj_tailnet = [], cj_ssh_user = ''root'', cj_ssh_port = 22,
     cj_action = None, cj_run = [], cj_step = [], cj_status = DProvisioning, cj_adopted = False,
     cj_cpus = None, cj_memory = None, cj_backup = []\<rparr>"

definition delete_row :: "uuid \<Rightarrow> state \<Rightarrow> state" where
  "delete_row i s = s\<lparr>deps := sql_update (\<lambda>d. d_id d = i) (\<lambda>d. d\<lparr>d_status := DDeleted\<rparr>) (deps s)\<rparr>"

definition racing_docker :: dispatcher where
  "racing_docker = demo_docker\<lparr>dk_provision := (\<lambda>sp s. (Ok (ok_info sp), delete_row (sp_deployment sp) s))\<rparr>"

definition racing_worker :: worker where
  "racing_worker = demo_worker\<lparr>wk_docker := racing_docker\<rparr>"

end
