(* ===== verification/OrgSamples.thy ===== *)
theory OrgSamples
  imports OrgSystem Samples
begin

text \<open>Two teams with their people, and handlers whose surroundings do nothing, for the witnesses.\<close>

definition demo_api :: api where
  "demo_api = \<lparr>a_uuid = dec, a_unicode = \<lparr>uc_letter = (\<lambda>r. 97 \<le> r \<and> r \<le> 122), uc_digit = (\<lambda>r. 48 \<le> r \<and> r \<le> 57),
     uc_lower = (\<lambda>r. r)\<rparr>, a_slugs = (\<lambda>_. \<lparr>sr_base = ''00'', sr_suffix = dec\<rparr>), a_others = (\<lambda>_ g. g),
     a_cancelled = (\<lambda>_. False), a_random = (\<lambda>n. Some (dec n)), a_sha256 = (\<lambda>x. x), a_bcrypt = Some,
     a_verify = (\<lambda>h p. h = p), a_jwt = (\<lambda>_. None), a_is_uuid = (\<lambda>_. True), a_mail = (\<lambda>_. Some True),
     a_public_url = ''https://s.io''\<rparr>"

definition demo_deployer :: deployer where
  "demo_deployer = \<lparr>dp_docker = demo_docker, dp_remote = None, dp_restart_replica = (\<lambda>_ _. idle ()),
     dp_recreate = (\<lambda>sp. idle (ok_info sp)), dp_admin_key = (\<lambda>_ _. idle ''key''), dp_env = None,
     dp_computer = \<lparr>c_public_url = [], c_proxy_enabled = False, c_base_domain = []\<rparr>, dp_hc_network = False,
     dp_port_min = 3210, dp_port_max = 3214\<rparr>"

definition demo_user :: "string \<Rightarrow> user" where
  "demo_user i = \<lparr>us_id = i, us_email = i @ ''@x.io'', us_hash = ''secret'', us_name = i, us_admin = False,
     us_created = 0, us_updated = 0, us_changed = None\<rparr>"

definition demo_member :: "uuid \<Rightarrow> uuid \<Rightarrow> role \<Rightarrow> member" where
  "demo_member t u r = \<lparr>mb_team = t, mb_user = u, mb_role = r, mb_created = 0\<rparr>"

definition demo_team :: "uuid \<Rightarrow> string \<Rightarrow> uuid \<Rightarrow> team" where
  "demo_team t sl u = \<lparr>tm_id = t, tm_name = sl, tm_slug = sl, tm_creator = u, tm_region = [],
     tm_suspended = False, tm_created = 0\<rparr>"

definition demo_project :: "uuid \<Rightarrow> uuid \<Rightarrow> string \<Rightarrow> project" where
  "demo_project p t sl = \<lparr>pj_id = p, pj_team = t, pj_name = sl, pj_slug = sl, pj_demo = False, pj_created = 0\<rparr>"

definition demo_org :: org where
  "demo_org = \<lparr>pl = bare_plane (empty_state\<lparr>deps := [demo_dep ''d1'' DRunning]\<rparr>),
     users = [demo_user ''a'', demo_user ''b'', demo_user ''e''],
     teams = [demo_team ''t1'' ''acme'' ''a'', demo_team ''t2'' ''evil'' ''e''],
     members = [demo_member ''t1'' ''a'' RoleAdmin, demo_member ''t1'' ''b'' RoleAdmin, demo_member ''t2'' ''e'' RoleAdmin],
     invites = [], projects = [demo_project ''p1'' ''t1'' ''web'', demo_project ''p2'' ''t2'' ''web''],
     pmembers = [], tokens = [], resets = [],
     dep_docs = [\<lparr>dd_dep = ''d1'', dd_created = 0, dd_default = True, dd_reference = None, dd_creator = Some ''a''\<rparr>],
     audit = []\<rparr>"

definition as_user :: "uuid \<Rightarrow> principal" where
  "as_user i = with_user i (i @ ''@x.io'')"

lemmas org_demo_defs = demo_api_def demo_deployer_def demo_user_def demo_member_def demo_team_def demo_project_def
  demo_org_def as_user_def with_user_def bare_plane_def

lemma demo_org_ok: "org_ok demo_org"
  by (simp add: ok_defs org_demo_defs member_id_def is_admin_of_def to_lower_def lower_char_def)

end
