(* ===== verification/CloudSamples.thy ===== *)
theory CloudSamples
  imports DeployKeys OrgSamples
begin

text \<open>A cloud with one host and one running deployment, and handlers whose surroundings answer, for the witnesses.\<close>

definition demo_fleet :: fleet where
  "demo_fleet = \<lparr>fl_dp = demo_deployer, fl_api = demo_api,
     fl_ha = \<lparr>hc_enabled = True, hc_postgres = ''postgres://db/x'', hc_endpoint = ''s3'', hc_region = ''r'', hc_access = ''ak'',
       hc_secret = ''sk'', hc_prefix = ''convex''\<rparr>,
     fl_box = Some \<lparr>sb_encrypt = Inr, sb_decrypt = Some Ok\<rparr>, fl_names = (\<lambda>_ i. (0, i, 0, 0)),
     fl_recreate_replica = (\<lambda>sp. idle (ok_info sp)), fl_valid_url = (\<lambda>_. True), fl_get = (\<lambda>_ _. idle 200)\<rparr>"

definition demo_cloud_of :: "deployment list \<Rightarrow> replica list \<Rightarrow> cloud" where
  "demo_cloud_of ds rs = \<lparr>og = set_sys (empty_state\<lparr>deps := ds, reps := rs, hosts := [demo_host]\<rparr>) demo_org,
     deploy_keys = []\<rparr>"

definition demo_cloud :: cloud where
  "demo_cloud = demo_cloud_of [demo_dep ''d1'' DRunning] []"

definition demo_creation :: create_deployment_req where
  "demo_creation = \<lparr>cd_type = ''prod'', cd_reference = [], cd_default = True, cd_ha = True, cd_overrides = None,
     cd_host = [], cd_cpus = Some (1 / 2), cd_memory = None\<rparr>"

definition demo_adopt :: adopt_deployment_req where
  "demo_adopt = \<lparr>ad_url = ''https://b.io//'', ad_key = ''k'', ad_type = [], ad_name = ''shop'', ad_default = False, ad_reference = []\<rparr>"

lemmas cloud_demo_defs = demo_fleet_def demo_cloud_of_def demo_cloud_def demo_creation_def demo_adopt_def

lemma in_attempt_none [simp]: "in_attempt k no_ofaults = no_ofaults"
  by (simp add: in_attempt_def fun_eq_iff)

lemma demo_admin_key [simp]:
  "call_out (CAdminKey nm) (dp_admin_key (fl_dp demo_fleet) nm k) s = (Ok ''key'', log_call (CAdminKey nm) s)"
  by (simp add: call_out_def demo_fleet_def demo_deployer_def idle_def)

lemma demo_uuid [simp]: "new_id (a_uuid (fl_api demo_fleet)) g \<noteq> []"
  by (simp add: demo_fleet_def demo_api_def new_id_def fresh_id_def)

end
