(* ===== verification/DomainProps.thy ===== *)
theory DomainProps
  imports Verifier CloudSamples
begin

text \<open>
  What the domain handlers promise, together with the proxy, the certificate gate and the verifier.
\<close>

section \<open>A network for the witnesses\<close>

definition demo_net :: dns_wiring where
  "demo_net = \<lparr>dw_fleet = demo_fleet, dw_ip = ''203.0.113.7'', dw_box = Some \<lparr>ev_encrypt = Inr, ev_decrypt = Inr\<rparr>,
     dw_cf = \<lparr>cf_verify = (\<lambda>_. idle (200, Some \<lparr>vd_success = True, vd_status = ''active'', vd_errors = []\<rparr>)),
       cf_zone = (\<lambda>_ z. idle (200, Some \<lparr>zd_success = True, zd_ids = [z], zd_errors = []\<rparr>)),
       cf_list = (\<lambda>_. idle [''x.dev.'']), cf_set = (\<lambda>_ _ _ _. idle ()), cf_delete = (\<lambda>_ _ _. idle ())\<rparr>,
     dw_lookup = (\<lambda>_. idle [''203.0.113.7''])\<rparr>"

definition demo_proxy :: resolver where
  "demo_proxy = \<lparr>rv_dns = True, rv_ttl = 100, rv_dashboard = [], rv_names = (\<lambda>_. None), rv_domains = (\<lambda>_. None)\<rparr>"

definition demo_domain :: "domain_status \<Rightarrow> domain_row" where
  "demo_domain st = \<lparr>dm_id = ''m1'', dm_deployment = ''d1'', dm_domain = ''api.x.dev'', dm_role = RoleApi, dm_status = st,
     dm_verified = None, dm_error = None, dm_auto = True, dm_credential = Some ''k1'', dm_created = 0, dm_updated = 0\<rparr>"

definition demo_edge :: "domain_row list \<Rightarrow> edge" where
  "demo_edge ds = \<lparr>ec = set_org (set_sys ((sys (og demo_cloud))\<lparr>domains := ds\<rparr>) (og demo_cloud)) demo_cloud,
     creds = [\<lparr>cr_id = ''k1'', cr_project = Some ''p1'', cr_label = ''cf'', cr_token = ''t'',
       cr_zones = [\<lparr>zi_id = ''z'', zi_name = ''x.dev''\<rparr>], cr_creator = None, cr_created = 0, cr_used = None, cr_error = None\<rparr>],
     er = Some demo_proxy\<rparr>"

lemma demo_edge_fields [simp]: "domains (esys (demo_edge ds)) = ds" "er (demo_edge ds) = Some demo_proxy"
  by (simp_all add: demo_edge_def esys_def eorg_def)

lemma demo_net_simps [simp]:
  "dw_lookup demo_net d s = (Ok [''203.0.113.7''], s)" "dw_ip demo_net = ''203.0.113.7''"
  "cf_set (dw_cf demo_net) tk z rc ip s = (Ok (), s)"
  by (simp_all add: demo_net_def idle_def)

section \<open>Zones\<close>

lemma best_zone_correct:
  assumes "best \<noteq> [] \<longrightarrow> under_zone d best"
  shows "(best_zone d best zs = best \<or> best_zone d best zs \<in> set zs)
    \<and> (best_zone d best zs \<noteq> [] \<longrightarrow> under_zone d (best_zone d best zs))
    \<and> length best \<le> length (best_zone d best zs)
    \<and> (\<forall>z \<in> set zs. under_zone d z \<longrightarrow> length z \<le> length (best_zone d best zs))"
  using assms
proof (induction zs arbitrary: best)
  case (Cons z zs)
  let ?b = "if under_zone d z \<and> length best < length z then z else best"
  have "?b \<noteq> [] \<longrightarrow> under_zone d ?b" using Cons.prems by auto
  from Cons.IH [OF this] show ?case by auto
qed simp

lemma trim_suffix_append [simp]: "trim_suffix (q @ p) p = q"
  by (simp add: trim_suffix_def)

lemma under_zone_split:
  assumes "under_zone d z"
  shows "d = z \<or> trim_suffix d (CHR ''.'' # z) @ CHR ''.'' # z = d"
proof (cases "d = z")
  case False
  with assms obtain q where "d = q @ CHR ''.'' # z" by (auto simp: under_zone_def has_suffix_iff)
  then show ?thesis by simp
qed simp

text \<open>
  C27: The zone that is chosen for a domain is the longest of the zones of the credential the domain lies
  in, at a label boundary, and the record that is minted in it names exactly the domain; no zone is
  chosen only if the domain lies in none.
\<close>

theorem minted_record_names_domain:
  "case longest_matching_zone u domain zs of
     None \<Rightarrow> (\<forall>z \<in> set zs. \<not> under_zone (zone_key u domain) (zone_key u (zi_name z)))
   | Some (zone, rec) \<Rightarrow>
       zone \<in> (zone_key u \<circ> zi_name) ` set zs
       \<and> (\<forall>z \<in> set zs. under_zone (zone_key u domain) (zone_key u (zi_name z)) \<longrightarrow> length (zone_key u (zi_name z)) \<le> length zone)
       \<and> (zone_key u domain = zone \<and> rec = ''@'' \<or> zone_key u domain = rec @ ''.'' @ zone)"
proof -
  let ?d = "zone_key u domain" and ?ks = "map (zone_key u \<circ> zi_name) zs"
  let ?z = "best_zone ?d [] ?ks"
  have z: "(?z = [] \<or> ?z \<in> set ?ks) \<and> (?z \<noteq> [] \<longrightarrow> under_zone ?d ?z)
    \<and> (\<forall>z \<in> set ?ks. under_zone ?d z \<longrightarrow> length z \<le> length ?z)"
    using best_zone_correct [of "[]" ?d ?ks] by auto
  show ?thesis
  proof (cases "?z = []")
    case True
    then have "\<not> under_zone ?d (zone_key u (zi_name x))" if "x \<in> set zs" for x
      using z that by (fastforce simp: under_zone_def)
    with True show ?thesis by (simp add: longest_matching_zone_def)
  next
    case False
    with z under_zone_split [of ?d ?z] show ?thesis by (auto simp: longest_matching_zone_def Let_def)
  qed
qed

theorem minted_record_names_domain_witness:
  "\<exists>zone rec. longest_matching_zone (dw_unicode demo_net) ''API.x.dev.'' [\<lparr>zi_id = ''1'', zi_name = ''dev''\<rparr>, \<lparr>zi_id = ''2'', zi_name = ''x.dev''\<rparr>]
      = Some (zone, rec) \<and> ''api.x.dev'' = rec @ ''.'' @ zone \<and> length ''dev'' \<le> length zone"
proof -
  let ?u = "dw_unicode demo_net" and ?zs = "[\<lparr>zi_id = ''1'', zi_name = ''dev''\<rparr>, \<lparr>zi_id = ''2'', zi_name = ''x.dev''\<rparr>]"
  have "longest_matching_zone ?u ''API.x.dev.'' ?zs = Some (''x.dev'', ''api'')" by code_simp
  moreover have "zone_key ?u ''API.x.dev.'' = ''api.x.dev''" "zone_key ?u ''dev'' = ''dev''" by code_simp+
  moreover have "under_zone ''api.x.dev'' ''dev''" by code_simp
  ultimately show ?thesis using minted_record_names_domain [where u = ?u and domain = "''API.x.dev.''" and zs = ?zs] by simp
qed

section \<open>The certificate gate and the proxy\<close>

lemma trim_ends_same:
  assumes "s \<noteq> []" "\<not> P (hd s)" "\<not> P (last s)"
  shows "rev (dropWhile P (rev (dropWhile P s))) = s"
proof -
  have "dropWhile P s = s" using assms by (cases s) simp_all
  moreover have "dropWhile P (rev s) = rev s" using assms by (cases s rule: rev_cases) simp_all
  ultimately show ?thesis by simp
qed

text \<open>A host as a TLS client sends it: lower case, without blanks and dots at its ends.\<close>

definition plain_host :: "string \<Rightarrow> bool" where
  "plain_host h \<longleftrightarrow> h \<noteq> [] \<and> to_lower h = h \<and> (\<forall>x \<in> {hd h, last h}. \<not> space_char x \<and> \<not> blank x) \<and> \<not> has_suffix h ''.''"

lemma plain_host_keys:
  assumes "plain_host h"
  shows "trim_space h = h" "domain_key h = h" "to_lower (trim_suffix h ''.'') = h"
proof -
  have h: "h \<noteq> []" "\<not> space_char (hd h)" "\<not> space_char (last h)" "\<not> blank (hd h)" "\<not> blank (last h)"
    using assms by (simp_all add: plain_host_def)
  show "trim_space h = h" unfolding trim_space_def using h by (intro trim_ends_same)
  have "trim_blank h = h" unfolding trim_blank_def using h by (intro trim_ends_same)
  then show "domain_key h = h" "to_lower (trim_suffix h ''.'') = h"
    using assms by (simp_all add: domain_key_def trim_suffix_def plain_host_def)
qed

definition routed_name :: "string \<Rightarrow> string \<Rightarrow> state \<Rightarrow> resolver \<Rightarrow> string" where
  "routed_name base host s rv = fst (fst (host_route (\<lambda>_. None) base 0 host s rv))"

definition serves :: "string \<Rightarrow> state \<Rightarrow> bool" where
  "serves n s \<longleftrightarrow> sql_exists (\<lambda>d. d_name d = n \<and> d_status d \<noteq> DDeleted \<and> \<not> d_adopted d) (deps s)"

lemma subdomain_routed:
  assumes "approve_subdomain flt h n s = 200" and "match_host_subdomain host base = n" and "base \<noteq> []"
  shows "serves (routed_name base host s rv) s \<or> ta_headscale h \<and> n = ''headscale''"
proof (cases "has_suffix n ''.site''")
  case True
  let ?m = "take (length n - length ''.site'') n"
  have m: "?m \<noteq> []" "CHR ''.'' \<notin> set ?m" "approve_if_deployment_exists flt ?m s = 200"
    using assms(1) True by (auto simp: approve_subdomain_def Let_def split: if_splits)
  then have "routed_name base host s rv = ?m"
    using assms(2,3) True by (auto simp: routed_name_def host_route_def match_site_subdomain_def Let_def)
  with m(3) show ?thesis by (simp add: approve_if_deployment_exists_def serves_def split: if_splits)
next
  case False
  then have n: "n \<noteq> []" "(ta_headscale h \<and> n = ''headscale'') \<or> approve_if_deployment_exists flt n s = 200"
    using assms(1) by (auto simp: approve_subdomain_def split: if_splits)
  then have "routed_name base host s rv = n"
    using assms(2,3) False by (auto simp: routed_name_def host_route_def match_site_subdomain_def Let_def)
  with n(2) show ?thesis by (auto simp: approve_if_deployment_exists_def serves_def split: if_splits)
qed

lemma custom_domain_routed:
  assumes "approve_custom_domain flt host s = 200" and "domain_key host = host" and "host \<noteq> []"
    and "\<And>r1 r2. r1 \<in> set (domains s) \<Longrightarrow> r2 \<in> set (domains s) \<Longrightarrow> ci_eq (dm_domain r1) (dm_domain r2) \<Longrightarrow> r1 = r2"
    and "\<And>d1 d2. d1 \<in> set (deps s) \<Longrightarrow> d2 \<in> set (deps s) \<Longrightarrow> d_id d1 = d_id d2 \<Longrightarrow> d1 = d2"
    and "rv_domains rv = (\<lambda>_. None)" and "to_lower host = host"
    and "base \<noteq> [] \<longrightarrow> match_host_subdomain host base = []"
  shows "serves (routed_name base host s rv) s"
proof -
  obtain r d where r: "r \<in> set (domains s)" "to_lower (dm_domain r) = host" "dm_status r = DomActive"
    and d: "d \<in> set (deps s)" "d_id d = dm_deployment r" "d_status d \<noteq> DDeleted" "\<not> d_adopted d"
    using assms(1,7) by (auto simp: approve_custom_domain_def sql ci_eq_def split: if_splits)
  have row: "sql_row (\<lambda>r. to_lower (dm_domain r) = host \<and> dm_status r = DomActive
      \<and> sql_exists (\<lambda>d. d_id d = dm_deployment r \<and> d_status d \<noteq> DDeleted) (deps s)) (domains s) = Some r"
    (is "sql_row ?Q _ = _")
  proof (cases "sql_row ?Q (domains s)")
    case None
    then have "\<not> ?Q r" using r(1) by (simp add: sql_row_None)
    then show ?thesis using r d by (auto simp: sql)
  next
    case (Some x)
    with sql_row_SomeD [OF this] r assms(4) [of x r] show ?thesis by (simp add: ci_eq_def)
  qed
  have dep: "sql_row (\<lambda>d. d_id d = dm_deployment r \<and> d_status d \<noteq> DDeleted) (deps s) = Some d" (is "sql_row ?Q _ = _")
  proof (cases "sql_row ?Q (deps s)")
    case None
    then have "\<not> ?Q d" using d(1) by (simp add: sql_row_None)
    then show ?thesis using d by simp
  next
    case (Some x)
    with sql_row_SomeD [OF this] d assms(5) [of x d] show ?thesis by simp
  qed
  have "active_domain host s = Some (d_name d, dm_role r)" unfolding active_domain_def row option.case dep by simp
  then have "routed_name base host s rv = d_name d"
    using assms(2,3,6,8)
    by (auto simp: routed_name_def host_route_def match_site_subdomain_def resolve_domain_def cache_get_def Let_def)
  with d show ?thesis by (auto simp: serves_def sql)
qed

text \<open>
  C25: Caddy gets a certificate only for the Headscale host and for hosts that the proxy routes to a
  deployment which exists and is not adopted. Domains and ids of deployments are unique; the proxy has
  nothing in its cache; the base domain carries no blanks.
\<close>

theorem certificates_for_routed_hosts:
  assumes "tls_ask_status flt h host s = 200" and "plain_host host" and "trim_base (ta_base h) = trim_dots (ta_base h)"
    and "\<And>r1 r2. r1 \<in> set (domains s) \<Longrightarrow> r2 \<in> set (domains s) \<Longrightarrow> ci_eq (dm_domain r1) (dm_domain r2) \<Longrightarrow> r1 = r2"
    and "\<And>d1 d2. d1 \<in> set (deps s) \<Longrightarrow> d2 \<in> set (deps s) \<Longrightarrow> d_id d1 = d_id d2 \<Longrightarrow> d1 = d2"
    and "rv_domains rv = (\<lambda>_. None)"
  shows "serves (routed_name (ta_base h) host s rv) s
    \<or> ta_headscale h \<and> (host = to_lower (trim_suffix (trim_space (ta_host h)) ''.'')
        \<or> match_host_subdomain host (ta_base h) = ''headscale'')"
proof -
  let ?base = "to_lower (trim_dots (ta_base h))"
  note k = plain_host_keys [OF assms(2)]
  have h: "host \<noteq> []" "to_lower host = host" "\<not> has_suffix host ''.''" using assms(2) by (auto simp: plain_host_def)
  have sub: "match_host_subdomain host (ta_base h) =
      (if has_suffix host (CHR ''.'' # ?base) \<and> host \<noteq> ?base then take (length host - length (CHR ''.'' # ?base)) host else [])"
    using h by (auto simp: match_host_subdomain_def Let_def)
  consider (headscale) "ta_headscale h" "host = to_lower (trim_suffix (trim_space (ta_host h)) ''.'')"
    | (wildcard) "ta_base h \<noteq> []" "has_suffix host (CHR ''.'' # ?base)" "host \<noteq> ?base"
        "approve_subdomain flt h (take (length host - length (CHR ''.'' # ?base)) host) s = 200"
    | (custom) "\<not> (ta_base h \<noteq> [] \<and> has_suffix host (CHR ''.'' # ?base) \<and> host \<noteq> ?base)" "approve_custom_domain flt host s = 200"
    using assms(1,3) k h by (auto simp: tls_ask_status_def Let_def split: if_splits)
  then show ?thesis
  proof cases
    case wildcard
    with sub have "match_host_subdomain host (ta_base h) = take (length host - length (CHR ''.'' # ?base)) host" by simp
    from subdomain_routed [OF wildcard(4) this wildcard(1)] this show ?thesis by auto
  next
    case custom
    then have "ta_base h \<noteq> [] \<longrightarrow> match_host_subdomain host (ta_base h) = []" using sub by auto
    then have "serves (routed_name (ta_base h) host s rv) s"
      using custom(2) k(2) h(1,2) assms(4-6) by (intro custom_domain_routed)
    then show ?thesis ..
  qed blast
qed

theorem certificates_for_routed_hosts_witness:
  "serves (routed_name ''x.io'' ''happy-fox-1.site.x.io'' (sys (og demo_cloud)) demo_proxy) (sys (og demo_cloud))"
proof -
  let ?h = "\<lparr>ta_base = ''x.io'', ta_headscale = False, ta_host = []\<rparr>"
  have "tls_ask_status no_ofaults ?h ''happy-fox-1.site.x.io'' (sys (og demo_cloud)) = 200" "plain_host ''happy-fox-1.site.x.io''"
    "trim_base (ta_base ?h) = trim_dots (ta_base ?h)" by code_simp+
  from certificates_for_routed_hosts [OF this, of demo_proxy] show ?thesis
    by (simp add: demo_cloud_def demo_cloud_of_def demo_proxy_def empty_state_def)
qed

section \<open>The verifier\<close>

definition rows_of :: "uuid \<Rightarrow> org \<Rightarrow> domain_row list" where
  "rows_of i g = filter (\<lambda>r. dm_id r = i) (domains (sys g))"

lemma rows_of_set_sys [simp]: "domains s = domains (sys g) \<Longrightarrow> rows_of i (set_sys s g) = rows_of i g"
  by (simp add: rows_of_def)

lemma sys_audit [simp]: "sys (record_audit flt a b c d e g) = sys g"
  by (simp add: sys_def)

lemma rows_of_audit [simp]: "rows_of i (record_audit flt a b c d e g) = rows_of i g"
  by (simp add: rows_of_def)

lemma rows_of_update_pending:
  assumes "\<And>r. dm_id (f r) = dm_id r"
  shows "rows_of i (update_pending j f g) = map (\<lambda>r. if i = j \<and> dm_status r = DomPending then f r else r) (rows_of i g)"
proof -
  have "filter (\<lambda>r. dm_id r = i) (map (\<lambda>r. if dm_id r = j \<and> dm_status r = DomPending then f r else r) ds)
    = map (\<lambda>r. if i = j \<and> dm_status r = DomPending then f r else r) (filter (\<lambda>r. dm_id r = i) ds)" for ds
    using assms by (induction ds) auto
  then show ?thesis by (simp add: rows_of_def update_pending_def sql_update_def)
qed

lemma update_pending_fields [simp]:
  "deps (sys (update_pending j f g)) = deps (sys g)" "projects (update_pending j f g) = projects g"
  "clock (sys (update_pending j f g)) = clock (sys g)"
  by (simp_all add: update_pending_def)

text \<open>What the verifier is in for: a DNS that answers at once and leaves everything else as it is.\<close>

definition quiet_dns :: "verifier \<Rightarrow> bool" where
  "quiet_dns v \<longleftrightarrow> (\<forall>d s. \<exists>a. vf_lookup v d s = (a, s) \<and> a \<noteq> Panic)"

definition miss_text :: "verifier \<Rightarrow> string list outcome \<Rightarrow> string" where
  "miss_text v a = (case a of Err x \<Rightarrow> ''lookup failed: '' @ x
     | Ok ips \<Rightarrow> if ips = [] then ''no A records returned'' else ''expected '' @ vf_ip v @ '', got '' @ join '', '' ips
     | Panic \<Rightarrow> [])"

definition misses :: "verifier \<Rightarrow> string \<Rightarrow> bool" where
  "misses v domain \<longleftrightarrow> (\<exists>a. (\<forall>s. vf_lookup v domain s = (a, s)) \<and> a \<noteq> Panic \<and> (\<forall>ips. a = Ok ips \<longrightarrow> vf_ip v \<notin> set ips)
     \<and> valid_utf8 (take 1024 (miss_text v a)))"

lemma check_and_flip_frame:
  assumes "quiet_dns v" and "check_and_flip flt v p g = (x, g1)"
  shows "x \<noteq> Panic \<and> deps (sys g1) = deps (sys g) \<and> projects g1 = projects g \<and> clock (sys g1) = clock (sys g)
    \<and> (pr_row p \<noteq> i \<longrightarrow> rows_of i g1 = rows_of i g)"
proof -
  obtain a where a: "vf_lookup v (pr_domain p) (log_call (CLookupIP (pr_domain p)) (sys g)) = (a, log_call (CLookupIP (pr_domain p)) (sys g))" "a \<noteq> Panic"
    using assms(1) unfolding quiet_dns_def by meson
  have l: "domains (log_call cl s) = domains s" "deps (log_call cl s) = deps s" "clock (log_call cl s) = clock s" for cl s
    by (simp_all add: log_call_def)
  show ?thesis
    using assms(2) a
    by (auto simp: check_and_flip_def call_out_def flip_to_active_def record_pending_error_def Let_def l activated_row_def
        rows_of_update_pending split: outcome.splits if_splits)
qed

lemma miss_stamps_row:
  assumes "\<not> flt ''record pending error''" and "misses v (pr_domain p)" and "rows_of (pr_row p) g = [r]" and "dm_status r = DomPending"
  shows "\<exists>g1 m. check_and_flip flt v p g = (Ok False, g1)
    \<and> rows_of (pr_row p) g1 = [r\<lparr>dm_error := Some m, dm_updated := now g\<rparr>]"
proof -
  obtain a where a: "\<And>s. vf_lookup v (pr_domain p) s = (a, s)" "a \<noteq> Panic" "\<And>ips. a = Ok ips \<Longrightarrow> vf_ip v \<notin> set ips"
    "valid_utf8 (take 1024 (miss_text v a))"
    using assms(2) unfolding misses_def by blast
  have t: "take 1024 (miss_text v a) \<noteq> []" using a(2) by (cases a) (auto simp: miss_text_def)
  have "rows_of (pr_row p) (record_pending_error flt (pr_row p) (miss_text v a) (set_sys (log_call cl (sys g)) g))
    = [r\<lparr>dm_error := Some (take 1024 (miss_text v a)), dm_updated := now g\<rparr>]" for cl
    using a(4) t assms(1,3,4)
    by (simp add: record_pending_error_def rows_of_update_pending log_call_def Let_def now_def)
  then show ?thesis
    using a by (cases a) (auto simp: check_and_flip_def call_out_def miss_text_def)
qed

lemma failed_frame:
  "pr_row p \<noteq> i \<Longrightarrow> rows_of i (mark_domain_failed flt (pr_row p) m g) = rows_of i g"
  "deps (sys (mark_domain_failed flt j m g)) = deps (sys g)" "projects (mark_domain_failed flt j m g) = projects g"
  "clock (sys (mark_domain_failed flt j m g)) = clock (sys g)"
  by (simp_all add: mark_domain_failed_def rows_of_update_pending)

text \<open>A waiting row of the domain whose last write is not older than \<open>u\<close>, with the deployment and project it joins.\<close>

definition waits :: "verifier \<Rightarrow> uuid \<Rightarrow> string \<Rightarrow> uuid \<Rightarrow> int \<Rightarrow> org \<Rightarrow> bool" where
  "waits v i domain dep u g \<longleftrightarrow> (\<exists>r. rows_of i g = [r] \<and> awaiting r \<and> dm_domain r = domain \<and> dm_deployment r = dep \<and> u \<le> dm_updated r)
     \<and> (\<exists>d p. find_dep dep (sys g) = Some d \<and> sql_row (\<lambda>p. pj_id p = d_project d) (projects g) = Some p)"

lemma check_rows_waits:
  assumes "quiet_dns v" and "misses v domain" and "\<not> flt ''record pending error''"
    and "waits v i domain dep u g" and "\<And>p. p \<in> set ps \<Longrightarrow> pr_row p = i \<Longrightarrow> pr_domain p = domain \<and> t - pr_anchor p \<le> max_age v"
    and "now g = t" and "u \<le> t" and "i \<in> pr_row ` set ps \<Longrightarrow> w \<le> t" and "i \<notin> pr_row ` set ps \<Longrightarrow> w \<le> u"
  shows "\<exists>x g1. check_rows flt v t ps g = (Ok x, g1) \<and> waits v i domain dep w g1 \<and> now g1 = t"
  using assms(4-9)
proof (induction ps arbitrary: g u)
  case Nil
  then show ?case by (auto simp: waits_def)
next
  case (Cons p ps)
  obtain r where r: "rows_of i g = [r]" "awaiting r" "dm_domain r = domain" "dm_deployment r = dep" "u \<le> dm_updated r"
    using Cons.prems(1) by (auto simp: waits_def)
  define st where "st = (if max_age v < t - pr_anchor p then
      (Ok False, mark_domain_failed flt (pr_row p) (''DNS did not propagate within '' @ vf_age_text v (max_age v)) g)
    else check_and_flip flt v p g)"
  have "\<exists>b g1. st = (Ok b, g1) \<and> waits v i domain dep (if pr_row p = i then t else u) g1 \<and> now g1 = t"
  proof (cases "pr_row p = i")
    case True
    then have "pr_domain p = domain" "\<not> max_age v < t - pr_anchor p" using Cons.prems(2) [of p] by auto
    moreover obtain g1 m where "check_and_flip flt v p g = (Ok False, g1)"
        "rows_of i g1 = [r\<lparr>dm_error := Some m, dm_updated := t\<rparr>]"
      using miss_stamps_row [of flt v p g r] assms(2,3) r(1,2) True Cons.prems(3) calculation(1) by (auto simp: awaiting_def)
    moreover from check_and_flip_frame [OF assms(1) calculation(3)]
    have "deps (sys g1) = deps (sys g)" "projects g1 = projects g" "now g1 = now g" by (auto simp: now_def)
    ultimately show ?thesis
      using True r Cons.prems(1,3) by (auto simp: st_def waits_def awaiting_def find_dep_def)
  next
    case False
    obtain b g1 where s: "st = (b, g1)" by fastforce
    have "b \<noteq> Panic \<and> rows_of i g1 = rows_of i g \<and> deps (sys g1) = deps (sys g) \<and> projects g1 = projects g \<and> clock (sys g1) = clock (sys g)
      \<and> (\<exists>c. b = Ok c)"
    proof (cases "max_age v < t - pr_anchor p")
      case True
      with s False show ?thesis by (auto simp: st_def failed_frame)
    next
      case nold: False
      with s have c: "check_and_flip flt v p g = (b, g1)" by (simp add: st_def)
      moreover from c have "b = Panic \<or> (\<exists>c. b = Ok c)"
        by (auto simp: check_and_flip_def flip_to_active_def split: outcome.splits prod.splits if_splits)
      ultimately show ?thesis using check_and_flip_frame [OF assms(1) c, of i] False by auto
    qed
    with s False Cons.prems(1,3) show ?thesis by (auto simp: waits_def find_dep_def now_def)
  qed
  then obtain b g1 where s: "st = (Ok b, g1)" "waits v i domain dep (if pr_row p = i then t else u) g1" "now g1 = t" by blast
  have "\<exists>x g2. check_rows flt v t ps g1 = (Ok x, g2) \<and> waits v i domain dep w g2 \<and> now g2 = t"
    by (rule Cons.IH [OF s(2)]) (use Cons.prems s(3) in auto)
  then show ?case using s(1) by (auto simp: st_def)
qed

lemma in_map_filter: "y \<in> set (List.map_filter f xs) \<longleftrightarrow> (\<exists>x \<in> set xs. f x = Some y)"
  by (induction xs) (auto simp: List.map_filter_def split: option.splits)

lemma pending_of_Some: "pending_of g x = Some q \<Longrightarrow> pr_row q = dm_id x \<and> pr_domain q = dm_domain x \<and> pr_anchor q = dm_updated x"
  by (auto simp: pending_of_def split: option.splits)

definition at_time :: "int \<Rightarrow> org \<Rightarrow> org" where
  "at_time t g = set_sys ((sys g)\<lparr>clock := t\<rparr>) g"

fun sweeps :: "ofaults \<Rightarrow> verifier \<Rightarrow> int list \<Rightarrow> org \<Rightarrow> org" where
  "sweeps flt v [] g = g"
| "sweeps flt v (t # ts) g = sweeps flt v ts (snd (verifier_tick flt v (at_time t g)))"

lemma waits_at_time: "waits v i domain dep u (at_time t g) = waits v i domain dep u g" "now (at_time t g) = t"
  by (simp_all add: waits_def at_time_def rows_of_def find_dep_def now_def)

lemma tick_waits:
  assumes "quiet_dns v" and "misses v domain" and "\<not> flt ''record pending error''" and "\<not> flt ''load pending rows''"
    and "waits v i domain dep u g" and "now g - u \<le> max_age v" and "u \<le> now g"
  shows "waits v i domain dep (now g) (snd (verifier_tick flt v g))"
proof -
  obtain r d p where r: "rows_of i g = [r]" "awaiting r" "dm_domain r = domain" "dm_deployment r = dep" "u \<le> dm_updated r"
    and j: "find_dep dep (sys g) = Some d" "sql_row (\<lambda>p. pj_id p = d_project d) (projects g) = Some p"
    using assms(5) by (auto simp: waits_def)
  define ps where "ps = List.map_filter (pending_of g) (sort_key dm_created (filter awaiting (domains (sys g))))"
  have only: "x = r" if "x \<in> set (domains (sys g))" "dm_id x = i" for x
  proof -
    have "x \<in> set (rows_of i g)" using that by (simp add: rows_of_def)
    with r(1) show ?thesis by simp
  qed
  have mem: "\<exists>x \<in> set (domains (sys g)). dm_id x = pr_row q \<and> dm_domain x = pr_domain q \<and> dm_updated x = pr_anchor q"
    if "q \<in> set ps" for q
    using that pending_of_Some [of g _ q] by (fastforce simp: ps_def in_map_filter)
  have old: "pr_domain q = domain \<and> now g - pr_anchor q \<le> max_age v" if q: "q \<in> set ps" "pr_row q = i" for q
  proof -
    obtain x where x: "x \<in> set (domains (sys g))" "dm_id x = pr_row q" "dm_domain x = pr_domain q" "dm_updated x = pr_anchor q"
      using mem [OF q(1)] by blast
    with only [of x] q(2) r(3,5) assms(6) show ?thesis by auto
  qed
  have "r \<in> set (domains (sys g)) \<and> dm_id r = i" using r(1) by (auto simp: rows_of_def filter_eq_Cons_iff)
  then have "\<exists>q. q \<in> set ps \<and> pr_row q = i"
    using r(2,4) j by (intro exI [of _ "the (pending_of g r)"]) (auto simp: ps_def in_map_filter pending_of_def intro!: bexI [of _ r])
  then have "i \<in> pr_row ` set ps" by blast
  with old assms(7) have "\<exists>x g1. check_rows flt v (now g) ps g = (Ok x, g1) \<and> waits v i domain dep (now g) g1 \<and> now g1 = now g"
    by (intro check_rows_waits [where flt = flt, OF assms(1-3,5)]) auto
  then obtain x g1 where "check_rows flt v (now g) ps g = (Ok x, g1)" "waits v i domain dep (now g) g1" by auto
  then show ?thesis using assms(4) by (simp add: verifier_tick_def load_pending_def ps_def)
qed

text \<open>
  C37: The verifier never gives up on a domain that does not resolve to the expected address: every failed
  check writes the row, the deadline is measured from the last write, and so a row that is checked at
  least once per deadline stays pending however long this goes on.
\<close>

theorem verifier_never_gives_up:
  assumes "quiet_dns v" and "misses v domain" and "\<not> flt ''record pending error''" and "\<not> flt ''load pending rows''"
    and "waits v i domain dep u g" and "successively (\<lambda>s t. s \<le> t \<and> t - s \<le> max_age v) (u # ts)"
  shows "\<exists>r. rows_of i (sweeps flt v ts g) = [r] \<and> dm_status r = DomPending"
  using assms(5,6)
proof (induction ts arbitrary: u g)
  case Nil
  then show ?case by (auto simp: waits_def awaiting_def)
next
  case (Cons t ts)
  have "waits v i domain dep t (snd (verifier_tick flt v (at_time t g)))"
    using tick_waits [OF assms(1-4), of i dep u "at_time t g"] Cons.prems by (simp add: waits_at_time)
  from Cons.IH [OF this] Cons.prems show ?case by (cases ts) auto
qed

theorem verifier_never_gives_up_witness:
  "\<exists>r. rows_of ''m1'' (sweeps no_ofaults \<lparr>vf_ip = ''203.0.113.7'', vf_max_age_set = 0, vf_age_text = (\<lambda>_. ''5m0s''), vf_lookup = (\<lambda>_. idle [])\<rparr>
      [15000000, 300000000, 600000000] (eorg (demo_edge [demo_domain DomPending]))) = [r] \<and> dm_status r = DomPending"
proof -
  let ?v = "\<lparr>vf_ip = ''203.0.113.7'', vf_max_age_set = 0, vf_age_text = (\<lambda>_. ''5m0s''), vf_lookup = (\<lambda>_. idle ([] :: string list))\<rparr>"
  let ?g = "eorg (demo_edge [demo_domain DomPending])"
  have utf: "valid_utf8 (take 1024 (miss_text ?v (Ok [])))" by code_simp
  have "quiet_dns ?v" by (simp add: quiet_dns_def idle_def)
  moreover have "misses ?v ''api.x.dev''"
    using utf by (simp add: misses_def idle_def)
  moreover have "waits ?v ''m1'' ''api.x.dev'' ''d1'' 0 ?g"
  proof -
    have "rows_of ''m1'' ?g = [demo_domain DomPending]" "awaiting (demo_domain DomPending)"
      "find_dep ''d1'' (sys ?g) = Some (demo_dep ''d1'' DRunning)"
      "sql_row (\<lambda>p. pj_id p = ''p1'') (projects ?g) = Some (demo_project ''p1'' ''t1'' ''web'')" by code_simp+
    then show ?thesis by (simp add: waits_def demo_domain_def demo_dep_def)
  qed
  moreover have "successively (\<lambda>s t. s \<le> t \<and> t - s \<le> max_age ?v) [0, 15000000, 300000000, 600000000]" by (simp add: max_age_def)
  ultimately show ?thesis by (intro verifier_never_gives_up [where flt = no_ofaults and domain = "''api.x.dev''" and dep = "''d1''" and u = 0]) simp_all
qed

section \<open>Registration\<close>

lemma split_on_ne [simp]: "split_on k s \<noteq> []"
  by (cases s) (auto split: list.splits)

lemma split_on_last: "split_on k (s @ [k]) = split_on k s @ [[]]"
  by (induction s) (auto split: list.splits)

lemma split_on_mem: "x \<in> set s \<Longrightarrow> x \<noteq> k \<Longrightarrow> \<exists>w \<in> set (split_on k s). x \<in> set w"
proof (induction s)
  case (Cons y s)
  then show ?case by (cases "split_on k s") auto
qed simp

lemma hostname_chars:
  assumes "list_all host_label (split_on CHR ''.'' s)" and "x \<in> set s"
  shows "label_char x \<or> x = CHR ''.''"
  using split_on_mem [OF assms(2), of "CHR ''.''"] assms(1) by (auto simp: list_all_iff host_label_def)

lemma label_char_facts:
  assumes "label_char x \<or> x = CHR ''.''"
  shows "lower_char x = x" "\<not> space_char x" "\<not> blank x"
proof -
  have "x = char_of (of_char x :: nat)" by simp
  moreover have "(of_char x :: nat) \<in> {45, 46} \<union> {48..57} \<union> {97..122}" using assms by (auto simp: label_char_def code_def)
  ultimately show "lower_char x = x" "\<not> space_char x" "\<not> blank x"
    by (auto simp: lower_char_def space_char_def blank_def)
qed

text \<open>What passes the validation is in the form in which the proxy and the gate compare hosts.\<close>

lemma validated_plain:
  assumes "validate_domain u raw = Inr d"
  shows "plain_host d"
proof -
  have d: "d \<noteq> []" "hostname_re d" using assms by (auto simp: validate_domain_def Let_def split: if_splits)
  then have c: "\<And>x. x \<in> set d \<Longrightarrow> label_char x \<or> x = CHR ''.''"
    using hostname_chars [of d] by (simp add: hostname_re_def)
  then have "to_lower d = d" unfolding to_lower_def by (intro map_idI label_char_facts)
  moreover have "\<not> has_suffix d ''.''"
  proof
    assume "has_suffix d ''.''"
    then obtain q where "d = q @ ''.''" by (auto simp: has_suffix_iff)
    then have "[] \<in> set (split_on CHR ''.'' d)" by (simp add: split_on_last)
    with d(2) show False by (auto simp: hostname_re_def list_all_iff host_label_def)
  qed
  ultimately show ?thesis using d(1) label_char_facts [OF c] by (auto simp: plain_host_def)
qed

lemma create_domain_cases:
  assumes "create_domain flt w who name body e = (Answer n val, e')"
  obtains d p t role raw rl domain r e1 where "load_deployment_for_request flt who name (eorg e) = Inr (d, p, t, role)"
    "body = Some (raw, rl)" "validate_domain (dw_unicode w) raw = Inr domain" "dm_domain r = domain" "dm_status r = DomPending"
    "\<not> sql_exists (\<lambda>x. ci_eq (dm_domain x) domain) (domains (esys e))" "domains (esys e1) = domains (esys e) @ [r]"
    "finish_create_domain flt w who d t r e1 = (Answer n val, e')"
proof -
  obtain d p t role where l: "load_deployment_for_request flt who name (eorg e) = Inr (d, p, t, role)"
    using assms by (auto simp: create_domain_def refuse_def split: sum.splits)
  obtain raw rl where b: "body = Some (raw, rl)"
    using assms l by (auto simp: create_domain_def split: if_splits option.splits)
  obtain domain where v: "validate_domain (dw_unicode w) raw = Inr domain"
    using assms l b by (auto simp: create_domain_def refuse_def split: if_splits sum.splits)
  obtain ro where ro: "validate_role rl = Inr ro"
    using assms l b v by (auto simp: create_domain_def refuse_def split: if_splits sum.splits)
  let ?r = "new_domain (new_id (a_uuid (fl_api (dw_fleet w))) (eorg e)) (d_id d) domain ro (clock (esys e))"
  let ?e1 = "set_eorg (set_sys ((esys e)\<lparr>domains := domains (esys e) @ [?r]\<rparr>) (took_id (eorg e))) e"
  have "finish_create_domain flt w who d t ?r ?e1 = (Answer n val, e')"
    and "\<not> sql_exists (\<lambda>x. ci_eq (dm_domain x) domain) (domains (esys e))"
    using assms l b v ro by (auto simp: create_domain_def Let_def split: if_splits)
  then show ?thesis by (intro that [OF l b v]) (simp_all add: new_domain_def)
qed

lemma finish_create_cases:
  assumes "finish_create_domain flt w who d t r e = (Answer n v, e')"
  obtains st msg s1 got s2 ao e2 e3 where "verify_domain_dns w (dm_domain r) (esys e) = (Ok (st, msg), s1)"
    "apply_verification flt (dm_id r) st msg s1 = (got, s2)"
    "e2 = drop_host (dm_domain r) (audit_domain flt who t ''domain.added'' (dm_id r) (set_esys s2 e))"
    "try_auto_configure_on_create flt w (dm_id r) (dm_domain r) (d_project d) e2 = (Ok ao, e3)" "do_auto v = ao"
    "do_row v = (let upd = (case got of Some x \<Rightarrow> x | None \<Rightarrow> r\<lparr>dm_error := null_str msg\<rparr>) in
       if (case ao of Some x \<Rightarrow> ao_success x | None \<Rightarrow> False) \<and> \<not> flt ''reread domain'' then
         (case sql_row (\<lambda>x. dm_id x = dm_id r) (domains (esys e3)) of Some x \<Rightarrow> x | None \<Rightarrow> upd) else upd)"
    "rebuild_if (dm_status (do_row v) = DomActive) flt w d e3 = (Some (do_restart v), e')"
proof -
  obtain st msg s1 where v: "verify_domain_dns w (dm_domain r) (esys e) = (Ok (st, msg), s1)"
    using assms by (auto simp: finish_create_domain_def split: prod.splits outcome.splits)
  obtain got s2 where a: "apply_verification flt (dm_id r) st msg s1 = (got, s2)" by fastforce
  let ?e2 = "drop_host (dm_domain r) (audit_domain flt who t ''domain.added'' (dm_id r) (set_esys s2 e))"
  obtain x e3 where x: "try_auto_configure_on_create flt w (dm_id r) (dm_domain r) (d_project d) ?e2 = (x, e3)" by fastforce
  then obtain ao where ao: "x = Ok ao" using assms v a by (cases x) (auto simp: finish_create_domain_def Let_def)
  define row where "row = (let upd = (case got of Some x \<Rightarrow> x | None \<Rightarrow> r\<lparr>dm_error := null_str msg\<rparr>) in
       if (case ao of Some x \<Rightarrow> ao_success x | None \<Rightarrow> False) \<and> \<not> flt ''reread domain'' then
         (case sql_row (\<lambda>x. dm_id x = dm_id r) (domains (esys e3)) of Some x \<Rightarrow> x | None \<Rightarrow> upd) else upd)"
  have "(case rebuild_if (dm_status row = DomActive) flt w d e3 of
      (None, e4) \<Rightarrow> (Error 500 [], e4) | (Some b, e4) \<Rightarrow> (Answer 201 \<lparr>do_row = row, do_restart = b, do_auto = ao\<rparr>, e4))
    = (Answer n v, e')"
    using assms unfolding finish_create_domain_def v a x ao row_def Let_def prod.case outcome.case
    by (simp add: a x ao split del: if_split)
  then have "do_auto v = ao" "do_row v = row" "rebuild_if (dm_status row = DomActive) flt w d e3 = (Some (do_restart v), e')"
    by (auto split: prod.splits option.splits)
  then show ?thesis using that [OF v a refl x [unfolded ao]] by (simp add: row_def)
qed

lemma sql_row_updated:
  assumes "sql_exists (\<lambda>x. dm_id x = i) ds" and "\<And>x. dm_id (f x) = dm_id x"
  shows "\<exists>x \<in> set ds. sql_row (\<lambda>x. dm_id x = i) (sql_update (\<lambda>x. dm_id x = i) f ds) = Some (f x)"
  using assms by (induction ds) (auto simp: sql_exists_def)

lemma upsert_keeps:
  assumes "\<And>tk z rc ip s. domains (snd (cf_set cf tk z rc ip s)) = domains s"
  shows "domains (snd (upsert_a_record cf token zone rec ip s)) = domains s"
proof -
  have "domains (snd (call_out (CCloudflare ''set'' zone rec) (cf_set cf token zone rec ip) s)) = domains s"
    using assms by (simp add: call_out_def log_call_def)
  then show ?thesis by (auto simp: upsert_a_record_def split: prod.split outcome.split)
qed

lemma minted_is_pending:
  assumes "try_auto_configure_on_create flt w i domain pid e = (Ok (Some a), e')" and "ao_success a"
    and "sql_exists (\<lambda>x. dm_id x = i) (domains (esys e))"
    and "\<And>tk z rc ip s. domains (snd (cf_set (dw_cf w) tk z rc ip s)) = domains s"
  shows "\<exists>x. sql_row (\<lambda>x. dm_id x = i) (domains (esys e')) = Some x \<and> dm_status x = DomPending \<and> dm_auto x"
proof -
  obtain cid token zone rec s1 where u: "upsert_a_record (dw_cf w) token zone rec (dw_ip w) (esys e) = (CfOk (), s1)"
    and e': "esys e' = update_domain i (stamp_auto cid (clock s1)) s1"
    using assms(1,2)
    by (auto simp: try_auto_configure_on_create_def Let_def split: option.splits if_splits sum.splits prod.splits cf_result.splits)
  have "domains s1 = domains (esys e)"
    using upsert_keeps [OF assms(4)] u by (metis snd_conv)
  then show ?thesis
    using sql_row_updated [OF assms(3), of "stamp_auto cid (clock s1)"] by (auto simp: e' update_domain_def stamp_auto_def)
qed

lemma lookup_keeps:
  assumes "\<And>d s. domains (snd (dw_lookup w d s)) = domains s" and "verify_domain_dns w domain s = (x, s1)"
  shows "domains s1 = domains s"
proof -
  have "domains (snd (call_out (CLookupIP domain) (dw_lookup w domain) s)) = domains s"
    using assms(1) by (simp add: call_out_def log_call_def)
  then show ?thesis using assms(2) by (auto simp: verify_domain_dns_def split: if_splits prod.splits outcome.splits)
qed

text \<open>
  Registering a domain that already resolves to this host leaves it pending, and its containers as
  they are, when a credential covers its zone: the automatic configuration runs whatever the check found
  and takes the active status back. (DNS and Cloudflare leave the table of domains alone.)
\<close>

theorem registration_takes_back_active:
  assumes "create_domain no_ofaults w who name body e = (Answer n v, e')" and "do_auto v = Some a" and "ao_success a"
    and "\<And>d s. \<exists>ips. fst (dw_lookup w d s) = Ok ips \<and> dw_ip w \<in> set ips"
    and "\<And>d s. domains (snd (dw_lookup w d s)) = domains s"
    and "\<And>tk z rc ip s. domains (snd (cf_set (dw_cf w) tk z rc ip s)) = domains s"
  shows "(\<exists>s s1 domain. verify_domain_dns w domain s = (Ok (DomActive, []), s1)) \<and> dm_status (do_row v) = DomPending \<and> \<not> do_restart v"
  using assms(1)
proof (cases rule: create_domain_cases)
  case (1 d p t role raw rl domain r e1)
  from 1(8) show ?thesis
  proof (cases rule: finish_create_cases)
    case (1 st msg s1 got s2 ao e2 e3)
    have ip: "dw_ip w \<noteq> []" using 1(4,5) assms(2,3)
      by (auto simp: try_auto_configure_on_create_def split: option.splits if_splits)
    have "fst (verify_domain_dns w (dm_domain r) (esys e1)) = Ok (DomActive, [])"
    proof -
      obtain ips where "fst (call_out (CLookupIP (dm_domain r)) (dw_lookup w (dm_domain r)) (esys e1)) = Ok ips" "dw_ip w \<in> set ips"
        using assms(4) by (auto simp: call_out_def)
      then show ?thesis using ip by (auto simp: verify_domain_dns_def split: prod.split)
    qed
    then have found: "verify_domain_dns w (dm_domain r) (esys e1) = (Ok (DomActive, []), s1)" using 1(1) by simp
    have "sql_exists (\<lambda>x. dm_id x = dm_id r) (domains (esys e2))"
    proof -
      have "domains s1 = domains (esys e) @ [r]" using lookup_keeps [OF assms(5) 1(1)] \<open>domains (esys e1) = _\<close> by simp
      then have "sql_exists (\<lambda>x. dm_id x = dm_id r) (domains s2)"
        using 1(2) by (auto simp: apply_verification_def Let_def update_domain_def sql verified_row_def image_iff split: if_splits)
      then show ?thesis using 1(3) by (simp add: audit_domain_def)
    qed
    from minted_is_pending [OF 1(4) [unfolded 1(5) [symmetric] assms(2)] assms(3) this assms(6)]
    have "dm_status (do_row v) = DomPending" using 1(5,6) assms(2,3) by (auto simp: Let_def no_ofaults_def)
    with found 1(7) show ?thesis by (auto simp: rebuild_if_def)
  qed
qed

theorem registration_takes_back_active_witness:
  "case create_domain no_ofaults demo_net (as_user ''a'') ''happy-fox-1'' (Some (''API.x.dev'', ''api'')) (demo_edge []) of
     (Answer n v, e) \<Rightarrow> dm_status (do_row v) = DomPending \<and> \<not> do_restart v | _ \<Rightarrow> False"
proof -
  let ?r = "create_domain no_ofaults demo_net (as_user ''a'') ''happy-fox-1'' (Some (''API.x.dev'', ''api'')) (demo_edge [])"
  have "(case ?r of (Answer n v, e) \<Rightarrow> (case do_auto v of Some a \<Rightarrow> ao_success a | None \<Rightarrow> False) | _ \<Rightarrow> False)" by code_simp
  then obtain n v e a where e: "?r = (Answer n v, e)" "do_auto v = Some a" "ao_success a"
    by (auto split: prod.splits resp.splits option.splits)
  from registration_takes_back_active [OF e] show ?thesis unfolding e(1) by simp
qed

section \<open>Verification\<close>

text \<open>
  A verification that is answered with 200 sets the status to what the DNS says at that moment:
  active iff the address of this host is among the answers, failed iff there are others only, pending
  otherwise; the time of verification is kept iff it is active, and containers are recreated only for a
  domain that becomes active.
\<close>

theorem verification_follows_dns:
  assumes "verify_domain flt w who name i e = (Answer n v, e')"
  shows "\<exists>r a. r \<in> set (domains (esys e)) \<and> dm_id r = i
    \<and> a = (if dw_ip w = [] then Err [] else fst (dw_lookup w (dm_domain r) (log_call (CLookupIP (dm_domain r)) (esys e))))
    \<and> (dm_status (do_row v) = DomActive \<longleftrightarrow> (\<exists>ips. a = Ok ips \<and> dw_ip w \<in> set ips))
    \<and> (dm_status (do_row v) = DomFailed \<longleftrightarrow> (\<exists>ips. a = Ok ips \<and> ips \<noteq> [] \<and> dw_ip w \<notin> set ips))
    \<and> (dm_verified (do_row v) \<noteq> None \<longleftrightarrow> dm_status (do_row v) = DomActive)
    \<and> (do_restart v \<longrightarrow> dm_status r \<noteq> DomActive \<and> dm_status (do_row v) = DomActive)"
proof -
  obtain d p t role where l: "load_deployment_for_request flt who name (eorg e) = Inr (d, p, t, role)"
    using assms by (auto simp: verify_domain_def refuse_def split: sum.splits)
  obtain r where r: "sql_row (own_domain i (d_id d)) (domains (esys e)) = Some r"
    using assms l by (auto simp: verify_domain_def split: if_splits option.splits)
  obtain st msg s1 where dns: "verify_domain_dns w (dm_domain r) (esys e) = (Ok (st, msg), s1)"
    using assms l r by (auto simp: verify_domain_def split: if_splits prod.splits outcome.splits)
  obtain upd s2 where upd: "apply_verification flt i st msg s1 = (Some upd, s2)"
    using assms l r dns by (auto simp: verify_domain_def split: if_splits prod.splits option.splits)
  let ?e2 = "drop_host (dm_domain r) (audit_domain flt who t ''domain.verified'' i (set_esys s2 e))"
  obtain b where reb: "fst (rebuild_if (dm_status r \<noteq> DomActive \<and> dm_status upd = DomActive) flt w d ?e2) = Some b"
    and v: "v = \<lparr>do_row = upd, do_restart = b, do_auto = None\<rparr>"
    using assms l r dns upd by (auto simp: verify_domain_def split: if_splits prod.splits option.splits)
  obtain x where x: "x \<in> set (domains s1)" "upd = verified_row st msg (clock s1) x"
  proof -
    have "sql_row (\<lambda>r. dm_id r = i) (sql_update (\<lambda>r. dm_id r = i) (verified_row st msg (clock s1)) (domains s1)) = Some upd"
      using upd by (auto simp: apply_verification_def update_domain_def Let_def split: if_splits)
    from sql_row_SomeD [OF this] show ?thesis using that by (auto simp: sql_update_def verified_row_def split: if_splits)
  qed
  have "b \<Longrightarrow> dm_status r \<noteq> DomActive \<and> dm_status upd = DomActive"
    using reb by (auto simp: rebuild_if_def split: if_splits)
  moreover have "r \<in> set (domains (esys e))" "dm_id r = i" using sql_row_SomeD [OF r] by (auto simp: own_domain_def)
  moreover have "dm_status upd = st" "dm_verified upd = (if st = DomActive then Some (clock s1) else None)"
    using x by (simp_all add: verified_row_def)
  ultimately show ?thesis
    using dns v
    by (intro exI [of _ r]) (auto simp: verify_domain_dns_def call_out_def split: if_splits prod.splits outcome.splits)
qed

theorem verification_follows_dns_witness:
  "case verify_domain no_ofaults demo_net (as_user ''a'') ''happy-fox-1'' ''m1'' (demo_edge [demo_domain DomPending]) of
     (Answer n v, e) \<Rightarrow> dm_status (do_row v) = DomActive | _ \<Rightarrow> False"
proof -
  let ?r = "verify_domain no_ofaults demo_net (as_user ''a'') ''happy-fox-1'' ''m1'' (demo_edge [demo_domain DomPending])"
  have "(case ?r of (Answer n v, e) \<Rightarrow> n = 200 | _ \<Rightarrow> False)" by code_simp
  then obtain v e where e: "?r = (Answer 200 v, e)" by (auto split: prod.splits resp.splits)
  from verification_follows_dns [OF e] show ?thesis unfolding e by auto
qed

section \<open>Deletion\<close>

lemma record_recreated_domains: "domains (snd (record_recreated flt i idx made s)) = domains s"
  by (simp add: record_recreated_def Let_def)

text \<open>No other process writes the table of domains while containers are recreated or records removed.\<close>

definition domains_alone :: "dns_wiring \<Rightarrow> bool" where
  "domains_alone w \<longleftrightarrow> (\<forall>sp s. domains (snd (dp_recreate (fl_dp (dw_fleet w)) sp s)) = domains s)
     \<and> (\<forall>sp s. domains (snd (fl_recreate_replica (dw_fleet w) sp s)) = domains s)
     \<and> (\<forall>tk z rc s. domains (snd (cf_delete (dw_cf w) tk z rc s)) = domains s)"

lemma call_out_domains:
  assumes "\<And>s. domains (snd (f s)) = domains s"
  shows "domains (snd (call_out c f s)) = domains s"
  using assms by (simp add: call_out_def log_call_def)

lemma recreate_domains:
  assumes "domains_alone w"
  shows "call_out c (dp_recreate (fl_dp (dw_fleet w)) sp) s = (x, s1) \<Longrightarrow> domains s1 = domains s"
    "call_out c (fl_recreate_replica (dw_fleet w) sp) s = (y, s1) \<Longrightarrow> domains s1 = domains s"
    "call_out c (cf_delete (dw_cf w) tk z rc) s = (u, s1) \<Longrightarrow> domains s1 = domains s"
proof -
  have "domains (snd (call_out c (dp_recreate (fl_dp (dw_fleet w)) sp) s)) = domains s"
    "domains (snd (call_out c (fl_recreate_replica (dw_fleet w) sp) s)) = domains s"
    "domains (snd (call_out c (cf_delete (dw_cf w) tk z rc) s)) = domains s"
    using assms by (intro call_out_domains; simp add: domains_alone_def)+
  then show "call_out c (dp_recreate (fl_dp (dw_fleet w)) sp) s = (x, s1) \<Longrightarrow> domains s1 = domains s"
    "call_out c (fl_recreate_replica (dw_fleet w) sp) s = (y, s1) \<Longrightarrow> domains s1 = domains s"
    "call_out c (cf_delete (dw_cf w) tk z rc) s = (u, s1) \<Longrightarrow> domains s1 = domains s" by auto
qed

lemma roll_replicas_domains:
  assumes "domains_alone w" and "roll_replicas flt (dw_fleet w) mk i rs s = (x, s1)"
  shows "domains s1 = domains s"
  using assms(2)
proof (induction rs arbitrary: s)
  case (Cons r rs)
  obtain y s2 where c: "call_out (CRecreate (sp_name (mk r)) (r_index r) True) (fl_recreate_replica (dw_fleet w) (mk r)) s = (y, s2)"
    by fastforce
  have s2: "domains s2 = domains s" using recreate_domains(2) [OF assms(1) c] .
  show ?case
  proof (cases y)
    case (Ok made)
    obtain b s3 where r: "record_recreated flt i (r_index r) made s2 = (b, s3)" by fastforce
    then have "domains s3 = domains s" using record_recreated_domains [of flt i "r_index r" made s2] s2 by simp
    then show ?thesis using Cons c Ok r by (cases b) auto
  qed (use Cons.prems c s2 in auto)
qed simp

lemma rebuild_domains:
  assumes "domains_alone w" and "rebuild_cors_and_restart flt (dw_fleet w) i n s = (x, s1)"
  shows "domains s1 = domains s"
  using assms(2) recreate_domains [OF assms(1)] roll_replicas_domains [OF assms(1)]
  by (auto simp: rebuild_cors_and_restart_def rebuild_ha_cors_and_restart_def Let_def
      split: option.splits prod.splits outcome.splits if_splits)

lemma audit_domain_fields [simp]:
  "esys (audit_domain flt who t act i e) = esys e" "er (audit_domain flt who t act i e) = er e"
  "er (drop_host h e) = map_option (invalidate_domain h) (er e)"
  by (simp_all add: audit_domain_def drop_host_def esys_def)

lemma delete_domain_cases:
  assumes "delete_domain flt w who name i e = (Answer n u, e')" and "domains_alone w"
  obtains r e2 where "r \<in> set (domains (esys e))" "own_domain i (dm_deployment r) r"
    "domains (esys e2) = filter (\<lambda>x. \<not> own_domain i (dm_deployment r) x) (domains (esys e))"
    "domains (esys e') = domains (esys e2)" "er e' = map_option (invalidate_domain (dm_domain r)) (er e)"
proof -
  obtain d p t role where l: "load_deployment_for_request flt who name (eorg e) = Inr (d, p, t, role)"
    using assms(1) by (auto simp: delete_domain_def refuse_def split: sum.splits)
  obtain r where row: "sql_row (own_domain i (d_id d)) (domains (esys e)) = Some r"
    using assms(1) l by (auto simp: delete_domain_def split: if_splits option.splits)
  then have r: "r \<in> set (domains (esys e))" "own_domain i (d_id d) r" by (auto dest: sql_row_SomeD)
  then have dep: "dm_deployment r = d_id d" by (simp add: own_domain_def)
  let ?e1 = "remove_domain i (d_id d) e"
  let ?c = "if dm_auto r then (case dm_credential r of None \<Rightarrow> (True, ?e1)
    | Some cid \<Rightarrow> cleanup_auto_configured_record flt w cid (dm_domain r) ?e1) else (True, ?e1)"
  obtain ok e2 where c: "?c = (ok, e2)" by fastforce
  have e2: "domains (esys e2) = domains (esys ?e1)" "er e2 = er ?e1"
    using c recreate_domains(3) [OF assms(2)]
    by (auto simp: cleanup_auto_configured_record_def delete_a_record_def
        split: if_splits option.splits sum.splits prod.splits outcome.splits)
  obtain b e3 where reb: "rebuild_if (dm_status r = DomActive) flt w d
      (drop_host (dm_domain r) (audit_domain flt who t ''domain.removed'' i e2)) = (b, e3)" by fastforce
  have e': "e' = e3"
    using assms(1) l row c reb by (cases ok) (auto simp: delete_domain_def Let_def split: if_splits option.splits)
  have "domains (esys e3) = domains (esys e2)" "er e3 = map_option (invalidate_domain (dm_domain r)) (er e2)"
    using reb rebuild_domains [OF assms(2)]
    by (auto simp: rebuild_if_def split: if_splits prod.splits outcome.splits)
  with e2 show ?thesis using that [of r e2] r dep e' by (simp add: remove_domain_def)
qed



section \<open>Credentials\<close>

text \<open>
  C28: The credential that is used for a domain is one of the project or of the instance; the one that was
  asked for, or, without a choice, the only one of its tier whose zones cover the domain, an instance-wide
  one only when no credential of the project covers it.
\<close>

theorem credential_is_visible:
  "case resolve_credential_for_domain flt w cid domain pid ks of Inl _ \<Rightarrow> True | Inr k \<Rightarrow>
     k \<in> set ks \<and> visible_credential pid k
     \<and> (if cid \<noteq> [] then cr_id k = cid
        else covers_domain (dw_unicode w) domain k
          \<and> (\<forall>x \<in> set ks. visible_credential pid x \<and> covers_domain (dw_unicode w) domain x
               \<and> (cr_project x = None \<longrightarrow> cr_project k = None) \<longrightarrow> x = k))"
proof (cases "resolve_credential_for_domain flt w cid domain pid ks")
  case (Inr k)
  show ?thesis
  proof (cases "cid = []")
    case False
    then have "sql_row (\<lambda>k. cr_id k = cid \<and> visible_credential pid k) ks = Some k"
      using Inr by (auto simp: resolve_credential_for_domain_def split: if_splits option.splits)
    from sql_row_SomeD [OF this] Inr False show ?thesis by simp
  next
    case True
    let ?m = "filter (\<lambda>k. visible_credential pid k \<and> covers_domain (dw_unicode w) domain k) ks"
    let ?own = "filter (\<lambda>k. cr_project k \<noteq> None) ?m" and ?all = "filter (\<lambda>k. cr_project k = None) ?m"
    have one: "(if ?own = [] then ?all else ?own) = [k]"
      using Inr True by (auto simp: resolve_credential_for_domain_def Let_def split: if_splits list.splits)
    then have k: "k \<in> set (if ?own = [] then ?all else ?own)" by simp
    then have "k \<in> set ks" "visible_credential pid k" "covers_domain (dw_unicode w) domain k" by (auto split: if_splits)
    moreover have "x = k" if "x \<in> set ?m" "cr_project x = None \<longrightarrow> cr_project k = None" for x
    proof -
      have "x \<in> set (if ?own = [] then ?all else ?own)"
        using that k by (auto split: if_splits simp: filter_empty_conv)
      with one show ?thesis by simp
    qed
    ultimately show ?thesis using Inr True by auto
  qed
qed simp

theorem credential_is_visible_witness:
  "\<exists>k. resolve_credential_for_domain no_ofaults demo_net [] ''api.x.dev'' ''p1'' (creds (demo_edge [])) = Inr k
     \<and> k \<in> set (creds (demo_edge [])) \<and> visible_credential ''p1'' k"
proof -
  let ?r = "resolve_credential_for_domain no_ofaults demo_net [] ''api.x.dev'' ''p1'' (creds (demo_edge []))"
  have "(case ?r of Inr k \<Rightarrow> True | Inl _ \<Rightarrow> False)" by code_simp
  then obtain k where "?r = Inr k" by (cases ?r) auto
  with credential_is_visible [where flt = no_ofaults and w = demo_net and cid = "[]" and domain = "''api.x.dev''" and pid = "''p1''" and ks = "creds (demo_edge [])"] show ?thesis by auto
qed

end
