(* ===== verification/QueueInv.thy ===== *)
theory QueueInv
  imports WorkerLoop
begin

text \<open>
  The queue as a whole: the tables' updates as instances of the keyed-update contract, the
  invariants of the job table as instances of the worker contract, and the system of all nodes as
  a step relation (enqueue, claim, work, crash, reap, start-up, any write of another component),
  with the invariants of its reachable states.
\<close>

section \<open>The updates of the job and deployment tables\<close>

interpretation claim_upd: keyed_update j_id "set_claimed node now" for node now
  by unfold_locales (simp add: set_claimed_def)

interpretation done_upd: keyed_update j_id "set_done now" for now
  by unfold_locales (simp add: set_done_def)

interpretation failed_upd: keyed_update j_id "set_failed now e" for now e
  by unfold_locales (simp add: set_failed_def)

interpretation give_up_upd: keyed_update j_id "give_up now" for now
  by unfold_locales (simp add: give_up_def)

interpretation repend_upd: keyed_update j_id repend
  by unfold_locales (simp add: repend_def)

interpretation fail_dep_upd: keyed_update d_id "fail_dep now" for now
  by unfold_locales (simp add: fail_dep_def)

interpretation run_dep_upd: keyed_update d_id "run_dep now i" for now i
  by unfold_locales (simp add: run_dep_def)

interpretation upgrade_dep_upd: keyed_update d_id "upgrade_dep now u" for now u
  by unfold_locales (simp add: upgrade_dep_def)

interpretation step_upd: keyed_update st_id "set_step st e res" for st e res
  by unfold_locales (simp add: set_step_def)

interpretation run_final_upd: keyed_update run_id "set_run_final now st c" for now st c
  by unfold_locales (simp add: set_run_final_def)

interpretation run_running_upd: keyed_update run_id "set_run_running now" for now
  by unfold_locales (simp add: set_run_running_def)

text \<open>Every state change of a job by the worker: what it keeps of a row, and where the row can go.\<close>

inductive job_move :: "int \<Rightarrow> job \<Rightarrow> job \<Rightarrow> bool" for M where
  stay: "job_move M j j"
| claimed: "j_status j = JPending \<Longrightarrow> job_move M j (set_claimed node now j)"
| finished: "job_move M j (set_done now j)"
| failed: "job_move M j (set_failed now e j)"
| gave_up: "j_status j = JClaimed \<Longrightarrow> job_move M j (give_up now j)"
| requeued: "j_status j = JClaimed \<Longrightarrow> int (j_attempts j) < M \<Longrightarrow> job_move M j (repend j)"

inductive_cases job_moveE: "job_move M j j'"

definition moves :: "int \<Rightarrow> job list \<Rightarrow> job list \<Rightarrow> bool" where
  "moves M js js' \<longleftrightarrow> list_all2 (job_move M) js js'"

lemma job_move_id: "job_move M j j' \<Longrightarrow> j_id j' = j_id j"
  by (auto elim!: job_moveE)

lemma job_move_same:
  "job_move M j j' \<Longrightarrow> j_kind j' = j_kind j \<and> j_deployment j' = j_deployment j \<and> j_step j' = j_step j
     \<and> j_run j' = j_run j \<and> j_attempts j \<le> j_attempts j'"
  by (auto elim!: job_moveE simp: set_claimed_def set_done_def set_failed_def give_up_def repend_def)

lemma job_move_in_flight: "job_move M j j' \<Longrightarrow> in_flight j' \<Longrightarrow> in_flight j"
  by (auto elim!: job_moveE
      simp: in_flight_def set_claimed_def set_done_def set_failed_def give_up_def repend_def)

lemma job_move_attempts:
  assumes "job_move M j j'" "int (j_attempts j) \<le> M" "j_status j = JPending \<Longrightarrow> int (j_attempts j) < M"
  shows "int (j_attempts j') \<le> M \<and> (j_status j' = JPending \<longrightarrow> int (j_attempts j') < M)"
  using assms
  by (auto elim!: job_moveE simp: set_claimed_def set_done_def set_failed_def give_up_def repend_def)

lemma moves_update:
  "(\<And>j. j \<in> set js \<Longrightarrow> p j \<Longrightarrow> job_move M j (f j)) \<Longrightarrow> moves M js (sql_update p f js)"
  unfolding moves_def by (induction js) (auto intro: job_move.stay)

lemma moves_refl: "moves M js js"
  unfolding moves_def by (simp add: list_all2_refl job_move.stay)

lemma moves_memE: "moves M js js' \<Longrightarrow> j' \<in> set js' \<Longrightarrow> \<exists>j \<in> set js. job_move M j j'"
  unfolding moves_def by (induction rule: list_all2_induct) auto

lemma moves_ids: "moves M js js' \<Longrightarrow> map j_id js' = map j_id js"
  unfolding moves_def by (induction rule: list_all2_induct) (auto simp: job_move_id)

section \<open>The job table\<close>

definition jobs_ok :: "int \<Rightarrow> state \<Rightarrow> bool" where
  "jobs_ok M s \<longleftrightarrow> distinct (map j_id (jobs s))
     \<and> (\<forall>j \<in> set (jobs s). j_id j < next_job s \<and> int (j_attempts j) \<le> M
          \<and> (j_status j = JPending \<longrightarrow> int (j_attempts j) < M))
     \<and> (\<forall>j \<in> set (jobs s). \<forall>j' \<in> set (jobs s). reconcile_in_flight j \<longrightarrow> reconcile_in_flight j'
          \<longrightarrow> j_id j \<noteq> j_id j'
          \<longrightarrow> j_deployment j \<noteq> j_deployment j' \<and> (j_step j = j_step j' \<longrightarrow> j_step j = None))"

lemma jobs_ok_cong: "jobs s' = jobs s \<Longrightarrow> next_job s' = next_job s \<Longrightarrow> jobs_ok M s' \<longleftrightarrow> jobs_ok M s"
  by (simp add: jobs_ok_def)

lemma jobs_ok_moves:
  assumes ok: "jobs_ok M s" and m: "moves M (jobs s) (jobs s')" and n: "next_job s' = next_job s"
  shows "jobs_ok M s'"
proof -
  have "j_id j < next_job s' \<and> int (j_attempts j) \<le> M \<and> (j_status j = JPending \<longrightarrow> int (j_attempts j) < M)"
    if mem: "j \<in> set (jobs s')" for j
  proof -
    obtain j0 where j0: "j0 \<in> set (jobs s)" "job_move M j0 j" using moves_memE [OF m mem] by blast
    then have "j_id j0 < next_job s" "int (j_attempts j0) \<le> M" "j_status j0 = JPending \<longrightarrow> int (j_attempts j0) < M"
      using ok by (auto simp: jobs_ok_def)
    with j0 show ?thesis using job_move_attempts [OF j0(2)] job_move_id [OF j0(2)] n by simp
  qed
  moreover have "j_deployment j \<noteq> j_deployment j' \<and> (j_step j = j_step j' \<longrightarrow> j_step j = None)"
    if mem: "j \<in> set (jobs s')" "j' \<in> set (jobs s')"
      and fl: "reconcile_in_flight j" "reconcile_in_flight j'" "j_id j \<noteq> j_id j'" for j j'
  proof -
    obtain a where a: "a \<in> set (jobs s)" "job_move M a j" using moves_memE [OF m mem(1)] by blast
    obtain b where b: "b \<in> set (jobs s)" "job_move M b j'" using moves_memE [OF m mem(2)] by blast
    have "reconcile_in_flight a" "reconcile_in_flight b" "j_id a \<noteq> j_id b"
      using fl a b job_move_in_flight job_move_same job_move_id by (auto simp: reconcile_in_flight_def)
    with ok a(1) b(1) have "j_deployment a \<noteq> j_deployment b \<and> (j_step a = j_step b \<longrightarrow> j_step a = None)"
      by (simp add: jobs_ok_def)
    with job_move_same [OF a(2)] job_move_same [OF b(2)] show ?thesis by simp
  qed
  ultimately show ?thesis using ok moves_ids [OF m] by (simp add: jobs_ok_def)
qed

lemma jobs_ok_filter: "jobs_ok M s \<Longrightarrow> jobs_ok M (s\<lparr>jobs := filter p (jobs s)\<rparr>)"
  unfolding jobs_ok_def by (auto simp: distinct_map_filter)

lemma jobs_ok_insert:
  assumes ok: "jobs_ok M s" and new: "j_id j = next_job s" "j_attempts j = 0" "0 < M"
    and free: "reconcile_in_flight j \<Longrightarrow> \<not> sql_exists (\<lambda>x. reconcile_in_flight x
                 \<and> (j_deployment x = j_deployment j \<or> j_step x = j_step j)) (jobs s)"
  shows "jobs_ok M (insert_job j s)"
proof -
  have lt: "j_id x \<noteq> j_id j" if "x \<in> set (jobs s)" for x using that ok new by (fastforce simp: jobs_ok_def)
  have "distinct (map j_id (jobs s @ [j]))" using ok lt by (fastforce simp: jobs_ok_def)
  moreover have "\<forall>x \<in> set (jobs s @ [j]). j_id x < next_job s + 1 \<and> int (j_attempts x) \<le> M
          \<and> (j_status x = JPending \<longrightarrow> int (j_attempts x) < M)"
    using ok new by (fastforce simp: jobs_ok_def)
  moreover have "\<forall>x \<in> set (jobs s @ [j]). \<forall>y \<in> set (jobs s @ [j]). reconcile_in_flight x
      \<longrightarrow> reconcile_in_flight y \<longrightarrow> j_id x \<noteq> j_id y
      \<longrightarrow> j_deployment x \<noteq> j_deployment y \<and> (j_step x = j_step y \<longrightarrow> j_step x = None)"
    using ok free by (auto simp: jobs_ok_def sql)
  ultimately show ?thesis by (simp add: jobs_ok_def insert_job_def)
qed

lemma jobs_ok_skip: "jobs_ok M s \<Longrightarrow> jobs_ok M (s\<lparr>next_job := next_job s + 1\<rparr>)"
  by (fastforce simp: jobs_ok_def)

text \<open>The enqueues, one lemma for each.\<close>

lemma enqueue_replica_ok:
  "jobs_ok M s \<Longrightarrow> 0 < M \<Longrightarrow> jobs_ok M (snd (enqueue_replica flt dep rep hc s))"
  by (auto simp: enqueue_replica_def blank_job_def reconcile_in_flight_def intro!: jobs_ok_insert
      split: option.split)

lemma enqueue_reconcile_ok:
  "jobs_ok M s \<Longrightarrow> 0 < M \<Longrightarrow> jobs_ok M (snd (enqueue_reconcile flt dep act run step hc s))"
  by (auto simp: enqueue_reconcile_def blank_job_def reconcile_conflict_def jobs_ok_skip sql
      intro!: jobs_ok_insert split: option.split)

lemma enqueue_backup_ok:
  "jobs_ok M s \<Longrightarrow> 0 < M \<Longrightarrow> jobs_ok M (snd (enqueue_backup flt dep b s))"
  "jobs_ok M s \<Longrightarrow> 0 < M \<Longrightarrow> jobs_ok M (snd (enqueue_restore flt dep b s))"
  by (auto simp: enqueue_backup_def enqueue_restore_def blank_job_def reconcile_in_flight_def
      intro!: jobs_ok_insert split: option.split)

lemma enqueue_upgrade_ok:
  "jobs_ok M s \<Longrightarrow> 0 < M \<Longrightarrow> jobs_ok M (snd (enqueue_upgrade_to_ha flt dep hc s))"
  by (auto simp: enqueue_upgrade_to_ha_def blank_job_def reconcile_in_flight_def
      intro!: jobs_ok_insert split: option.split)

lemma mark_moves: "moves M (jobs s) (jobs (mark_done flt i s))"
  "moves M (jobs s) (jobs (mark_job_failed flt i e s))"
  by (auto simp: mark_done_def mark_job_failed_def moves_refl intro!: moves_update job_move.intros)

lemma rollup_frame:
  "jobs (rollup_reconcile_run flt r s) = jobs s" "next_job (rollup_reconcile_run flt r s) = next_job s"
  "deps (rollup_reconcile_run flt r s) = deps s" "reps (rollup_reconcile_run flt r s) = reps s"
  "steps (rollup_reconcile_run flt r s) = steps s" "calls (rollup_reconcile_run flt r s) = calls s"
  "clock (rollup_reconcile_run flt r s) = clock s" "backups (rollup_reconcile_run flt r s) = backups s"
  by (auto simp: rollup_reconcile_run_def Let_def)

lemma swap_moves:
  assumes "finish_upgrade_swap flt k gen j us s = (err, s')"
  shows "moves M (jobs s) (jobs s') \<and> next_job s' = next_job s"
  using assms
  by (auto simp: finish_upgrade_swap_def Let_def moves_refl intro!: moves_update job_move.finished
      split: if_splits option.splits sum.splits)

lemma claim_next_SomeD:
  assumes "claim_next w flt cfg locked s = (Some c, s')"
  shows "\<exists>j0 j1. claim_query flt locked s = Some j0 \<and> with_storage w flt s j0 = Some j1 \<and> cj_id c = cj_id j0
    \<and> s' = s\<lparr>jobs := sql_update (\<lambda>j. j_id j = cj_id c) (set_claimed (cf_node cfg) (clock s)) (jobs s)\<rparr>"
proof -
  have st: "cj_id j1 = cj_id j0" if "with_storage w flt s j0 = Some j1" for j0 j1
    using that by (auto simp: with_storage_def split: if_splits option.splits)
  from assms obtain j0 j1 where "claim_query flt locked s = Some j0" "with_storage w flt s j0 = Some j1"
    "cj_id c = cj_id j1"
    "s' = s\<lparr>jobs := sql_update (\<lambda>j. j_id j = cj_id j1) (set_claimed (cf_node cfg) (clock s)) (jobs s)\<rparr>"
    by (auto simp: claim_next_def split: if_splits option.splits)
  with st show ?thesis by metis
qed

lemma claim_next_NoneD: "claim_next w flt cfg locked s = (None, s') \<Longrightarrow> s' = s"
  by (auto simp: claim_next_def split: if_splits option.splits)

lemma claim_row:
  assumes "claim_next w flt cfg locked s = (Some c, s')"
  shows "\<exists>j \<in> set (jobs s). cj_id c = j_id j \<and> j_status j = JPending \<and> \<not> locked (j_id j)"
  using claim_next_SomeD [OF assms] claim_query_job by metis

lemma claim_moves:
  assumes d: "distinct (map j_id (jobs s))" and c: "claim_next w flt cfg locked s = (res, s')"
  shows "moves M (jobs s) (jobs s') \<and> next_job s' = next_job s"
proof (cases res)
  case None
  from claim_next_NoneD [OF c [unfolded None]] show ?thesis by (simp add: moves_refl)
next
  case (Some x)
  from claim_row [OF c [unfolded Some]] obtain j where
    j: "j \<in> set (jobs s)" "cj_id x = j_id j" "j_status j = JPending" by blast
  have "job_move M y (set_claimed n t y)" if "y \<in> set (jobs s)" "j_id y = cj_id x" for y n t
    using distinct_key_eq [OF d that(1) j(1)] that j by (auto intro: job_move.claimed)
  with claim_next_SomeD [OF c [unfolded Some]] show ?thesis by (auto intro!: moves_update)
qed

lemma requeue_moves:
  assumes "cf_max_attempts cfg = M"
  shows "\<exists>js. moves M (jobs s) js \<and> moves M js (jobs (snd (requeue_stale flt cfg s)))
    \<and> next_job (snd (requeue_stale flt cfg s)) = next_job s"
proof -
  let ?t = "stale_claim (clock s) (timeout_secs cfg)"
  let ?js = "sql_update (\<lambda>j. ?t j \<and> cf_max_attempts cfg \<le> int (j_attempts j)) (give_up (clock s)) (jobs s)"
  have 1: "moves M (jobs s) ?js"
    by (rule moves_update) (auto simp: stale_claim_def intro: job_move.gave_up)
  have 2: "moves M ?js (sql_update (\<lambda>j. ?t j \<and> int (j_attempts j) < cf_max_attempts cfg) repend ?js)"
    by (rule moves_update) (use assms in \<open>auto simp: stale_claim_def intro: job_move.requeued\<close>)
  show ?thesis
    using 1 2 moves_refl [of M] by (auto simp: requeue_stale_def Let_def split: option.split)
qed

interpretation queue_inv: worker_invariant "jobs_ok M" "\<lambda>cfg. cf_max_attempts cfg = M" for M
proof unfold_locales
  fix s flt and cfg :: config
  assume "jobs_ok M s" "cf_max_attempts cfg = M"
  with requeue_moves [of cfg M s flt] obtain js where
    m: "moves M (jobs s) js" "moves M js (jobs (snd (requeue_stale flt cfg s)))"
      "next_job (snd (requeue_stale flt cfg s)) = next_job s" by blast
  have "jobs_ok M (s\<lparr>jobs := js\<rparr>)" using jobs_ok_moves [OF \<open>jobs_ok M s\<close>, of "s\<lparr>jobs := js\<rparr>"] m by simp
  then show "jobs_ok M (snd (requeue_stale flt cfg s))"
    by (rule jobs_ok_moves) (use m in simp_all)
next
  fix s w flt cfg locked res s'
  assume "jobs_ok M s" "claim_next w flt cfg locked s = (res, s')"
  then show "jobs_ok M s'" using claim_moves jobs_ok_moves by (metis jobs_ok_def)
next
  fix s flt k gen j us err s'
  assume "jobs_ok M s" "finish_upgrade_swap flt k gen j us s = (err, s')"
  then show "jobs_ok M s'" using swap_moves jobs_ok_moves by metis
next
  fix s flt i
  assume "jobs_ok M s"
  then show "jobs_ok M (mark_done flt i s)"
    by (rule jobs_ok_moves) (auto simp: mark_moves, simp add: mark_done_def)
next
  fix s flt i e
  assume "jobs_ok M s"
  then show "jobs_ok M (mark_job_failed flt i e s)"
    by (rule jobs_ok_moves) (auto simp: mark_moves, simp add: mark_job_failed_def)
qed (simp_all add: jobs_ok_def log_call_def rollup_frame)

section \<open>Further invariants of the worker\<close>

text \<open>Deployment \<open>i\<close> is deleted (or gone): every row with its id has the deleted status.\<close>

definition gone :: "uuid \<Rightarrow> state \<Rightarrow> bool" where
  "gone i s \<longleftrightarrow> (\<forall>d \<in> set (deps s). d_id d = i \<longrightarrow> d_status d = DDeleted)"

lemma gone_cong: "deps s' = deps s \<Longrightarrow> gone i s' \<longleftrightarrow> gone i s"
  by (simp add: gone_def)

lemma gone_write: "gone i s \<Longrightarrow> live_write p f \<Longrightarrow> gone i (s\<lparr>deps := sql_update p f (deps s)\<rparr>)"
  by (fastforce simp: gone_def live_write_def sql)

lemma find_dep_SomeD: "find_dep i s = Some d \<Longrightarrow> d \<in> set (deps s) \<and> d_id d = i"
  unfolding find_dep_def by (drule sql_row_SomeD) simp

lemma swap_NoneD:
  assumes "finish_upgrade_swap flt k gen j us s = (None, s')"
  shows "\<exists>d rs. find_dep (cj_deployment j) s = Some d \<and> d_status d = DRunning \<and> \<not> d_adopted d \<and> \<not> d_ha d
    \<and> length us = 2 \<and> 0 < sql_count (legacy_row (cj_deployment j)) (reps s)
    \<and> insert_replicas flt k gen (cj_deployment j) us
         (sql_update (legacy_row (cj_deployment j)) retire_replica (reps s)) = Inr rs
    \<and> \<not> port_taken (cj_deployment j) (up_port (hd us)) (deps s)
    \<and> s' = s\<lparr>reps := rs,
         deps := sql_update (\<lambda>x. d_id x = cj_deployment j) (upgrade_dep (clock s) (hd us)) (deps s),
         jobs := sql_update (\<lambda>x. j_id x = cj_id j) (set_done (clock s)) (jobs s)\<rparr>"
  using assms
  by (auto simp: finish_upgrade_swap_def Let_def split: if_splits option.splits sum.splits)

lemma swap_SomeD: "finish_upgrade_swap flt k gen j us s = (Some e, s') \<Longrightarrow> s' = s"
  by (auto simp: finish_upgrade_swap_def Let_def split: if_splits option.splits sum.splits)

lemma gone_swap:
  assumes "gone i s" "finish_upgrade_swap flt k gen j us s = (err, s')"
  shows "gone i s'"
proof (cases err)
  case None
  from swap_NoneD [OF assms(2) [unfolded None]] obtain d rs where
    d: "find_dep (cj_deployment j) s = Some d" "d_status d = DRunning" and
    s': "s' = s\<lparr>reps := rs,
         deps := sql_update (\<lambda>x. d_id x = cj_deployment j) (upgrade_dep (clock s) (hd us)) (deps s),
         jobs := sql_update (\<lambda>x. j_id x = cj_id j) (set_done (clock s)) (jobs s)\<rparr>" by blast
  have "cj_deployment j \<noteq> i" using find_dep_SomeD [OF d(1)] d(2) assms(1) by (auto simp: gone_def)
  then show ?thesis using assms(1) by (auto simp: s' gone_def sql upgrade_dep_def)
next
  case (Some e)
  with swap_SomeD assms show ?thesis by metis
qed

lemma claim_next_deps: "claim_next w flt cfg locked s = (res, s') \<Longrightarrow> deps s' = deps s"
  by (auto simp: claim_next_def split: if_splits option.splits)

lemma requeue_frame:
  "deps (snd (requeue_stale flt cfg s)) = deps s" "runs (snd (requeue_stale flt cfg s)) = runs s"
  "reps (snd (requeue_stale flt cfg s)) = reps s" "steps (snd (requeue_stale flt cfg s)) = steps s"
  "clock (snd (requeue_stale flt cfg s)) = clock s"
  by (auto simp: requeue_stale_def Let_def split: option.split)

lemma mark_frame:
  "deps (mark_done flt i s) = deps s" "deps (mark_job_failed flt i e s) = deps s"
  "runs (mark_done flt i s) = runs s" "runs (mark_job_failed flt i e s) = runs s"
  by (simp_all add: mark_done_def mark_job_failed_def)

interpretation gone_inv: worker_invariant "gone i" "\<lambda>_. True" for i
proof unfold_locales
  fix s w flt cfg locked res s'
  assume "gone i s" "claim_next w flt cfg locked s = (res, s')"
  then show "gone i s'" using gone_cong [OF claim_next_deps] by blast
next
  fix s p f
  assume "gone i s" "live_write p f"
  then show "gone i (s\<lparr>deps := sql_update p f (deps s)\<rparr>)" by (rule gone_write)
next
  fix s flt k gen j us err s'
  assume "gone i s" "finish_upgrade_swap flt k gen j us s = (err, s')"
  then show "gone i s'" by (rule gone_swap)
qed (simp_all add: gone_def log_call_def mark_frame rollup_frame requeue_frame)

text \<open>A run that reached a terminal status: its row, exactly as it was.\<close>

definition terminal_run :: "run_row \<Rightarrow> bool" where
  "terminal_run r \<longleftrightarrow> run_status r \<noteq> RQueued \<and> run_status r \<noteq> RRunning"

definition frozen :: "run_row \<Rightarrow> state \<Rightarrow> bool" where
  "frozen r s \<longleftrightarrow> terminal_run r \<longrightarrow> r \<in> set (runs s)"

lemma frozen_cong: "runs s' = runs s \<Longrightarrow> frozen r s' \<longleftrightarrow> frozen r s"
  by (simp add: frozen_def)

lemma frozen_update: "r \<in> set t \<Longrightarrow> \<not> p r \<Longrightarrow> r \<in> set (sql_update p f t)"
  by (force simp: sql)

lemma frozen_rollup: "frozen r s \<Longrightarrow> frozen r (rollup_reconcile_run flt i s)"
  by (auto simp: frozen_def rollup_reconcile_run_def Let_def terminal_run_def intro!: frozen_update)

lemma swap_runs: "finish_upgrade_swap flt k gen j us s = (err, s') \<Longrightarrow> runs s' = runs s"
  by (cases err) (auto dest: swap_NoneD swap_SomeD)

lemma claim_next_runs: "claim_next w flt cfg locked s = (res, s') \<Longrightarrow> runs s' = runs s"
  by (auto simp: claim_next_def split: if_splits option.splits)

interpretation frozen_inv: worker_invariant "frozen r" "\<lambda>_. True" for r
proof unfold_locales
  fix s w flt cfg locked res s'
  assume "frozen r s" "claim_next w flt cfg locked s = (res, s')"
  then show "frozen r s'" using frozen_cong [OF claim_next_runs] by blast
next
  fix s flt k gen j us err s'
  assume "frozen r s" "finish_upgrade_swap flt k gen j us s = (err, s')"
  then show "frozen r s'" using frozen_cong [OF swap_runs] by blast
next
  fix s flt i
  assume "frozen r s"
  then show "frozen r (rollup_reconcile_run flt i s)" by (rule frozen_rollup)
qed (simp_all add: frozen_def log_call_def mark_frame requeue_frame)

text \<open>Job \<open>i\<close> is not in the queue. Every handler keeps it so: only the recovery puts a job back.\<close>

definition not_queued :: "int \<Rightarrow> state \<Rightarrow> bool" where
  "not_queued i s \<longleftrightarrow> (\<forall>j \<in> set (jobs s). j_id j = i \<longrightarrow> j_status j \<noteq> JPending)"

lemma not_queued_cong: "jobs s' = jobs s \<Longrightarrow> not_queued i s' \<longleftrightarrow> not_queued i s"
  by (simp add: not_queued_def)

lemma not_queued_update:
  "not_queued i s \<Longrightarrow> (\<And>j. j_id (f j) = j_id j) \<Longrightarrow> (\<And>j. p j \<Longrightarrow> j_status (f j) \<noteq> JPending)
     \<Longrightarrow> not_queued i (s\<lparr>jobs := sql_update p f (jobs s)\<rparr>)"
  by (auto simp: not_queued_def sql)

lemma not_queued_jobs:
  "not_queued i s \<Longrightarrow> jobs s' = sql_update p f (jobs s) \<Longrightarrow> (\<And>j. j_id (f j) = j_id j)
     \<Longrightarrow> (\<And>j. p j \<Longrightarrow> j_status (f j) \<noteq> JPending) \<Longrightarrow> not_queued i s'"
  by (auto simp: not_queued_def sql)

interpretation not_queued_inv: handler_invariant "not_queued i" for i
proof unfold_locales
  fix s flt k gen j us err s'
  assume i: "not_queued i s" and "finish_upgrade_swap flt k gen j us s = (err, s')"
  then show "not_queued i s'"
    by (cases err) (auto dest!: swap_NoneD swap_SomeD simp: set_done_def intro: not_queued_jobs [OF i])
next
  fix s w flt cfg locked res s'
  assume i: "not_queued i s" and "claim_next w flt cfg locked s = (res, s')"
  then show "not_queued i s'"
    by (cases res) (auto dest!: claim_next_SomeD claim_next_NoneD simp: set_claimed_def intro: not_queued_jobs [OF i])
next
  fix s flt ii
  assume i: "not_queued i s"
  then show "not_queued i (mark_done flt ii s)"
    by (auto simp: mark_done_def set_done_def intro: not_queued_jobs [OF i])
next
  fix s flt ii e
  assume i: "not_queued i s"
  then show "not_queued i (mark_job_failed flt ii e s)"
    by (auto simp: mark_job_failed_def set_failed_def intro: not_queued_jobs [OF i])
qed (simp_all add: not_queued_def log_call_def rollup_frame)

end
