(* ===== verification/QueueSystem.thy ===== *)
theory QueueSystem
  imports QueueInv Samples
begin

text \<open>
  All nodes together: a state and the claimed jobs the nodes hold in memory. A step is an enqueue,
  a claim, the whole handling of a held job, the death of a node (its jobs are forgotten), the
  start-up recovery, a reaper tick, or a write of another component, which does not touch the
  queue. The workers' external calls may do anything that keeps the queue well-formed, which covers
  every other node acting while a handler waits for Docker.
\<close>

definition worker_ok :: "int \<Rightarrow> worker \<Rightarrow> bool" where
  "worker_ok M w \<longleftrightarrow> worker_keeps (jobs_ok M) w"

inductive sys_step :: "int \<Rightarrow> state \<times> claimed_job list \<Rightarrow> state \<times> claimed_job list \<Rightarrow> bool" for M where
  enq_provision: "sys_step M (s, h) (snd (enqueue_replica flt dep rep hc s), h)"
| enq_reconcile: "sys_step M (s, h) (snd (enqueue_reconcile flt dep act run step hc s), h)"
| enq_backup: "sys_step M (s, h) (snd (enqueue_backup flt dep b s), h)"
| enq_restore: "sys_step M (s, h) (snd (enqueue_restore flt dep b s), h)"
| enq_upgrade: "sys_step M (s, h) (snd (enqueue_upgrade_to_ha flt dep hc s), h)"
| claim: "claim_next w flt cfg locked s = (Some j, s') \<Longrightarrow> sys_step M (s, h) (s', j # h)"
| work: "j \<in> set h \<Longrightarrow> worker_ok M w
    \<Longrightarrow> sys_step M (s, h) (dispatch_job w flt cfg gen cancelled valid j s, remove1 j h)"
| crash: "sys_step M (s, h) (s, filter keep h)"
| startup: "cf_max_attempts cfg = M \<Longrightarrow> sys_step M (s, h) (snd (requeue_stale flt cfg s), h)"
| reap: "cf_max_attempts cfg = M \<Longrightarrow> sys_step M (s, h) (reap_stuck flt a cfg s, h)"
| cascade: "sys_step M (s, h) (s\<lparr>jobs := filter keep_job (jobs s)\<rparr>, h)"
| other: "jobs s' = jobs s \<Longrightarrow> next_job s' = next_job s \<Longrightarrow> sys_step M (s, h) (s', h)"

inductive_cases sys_stepE: "sys_step M p q"

inductive sys_reach :: "int \<Rightarrow> state \<times> claimed_job list \<Rightarrow> bool" for M where
  initial: "jobs s = [] \<Longrightarrow> sys_reach M (s, [])"
| next_step: "sys_reach M p \<Longrightarrow> sys_step M p q \<Longrightarrow> sys_reach M q"

lemma sys_step_ok: "sys_step M p q \<Longrightarrow> 0 < M \<Longrightarrow> jobs_ok M (fst p) \<Longrightarrow> jobs_ok M (fst q)"
proof (induction rule: sys_step.induct)
  case (claim w flt cfg locked s j s' h)
  from queue_inv.inv_claim [OF _ claim(1)] claim(3) show ?case by simp
next
  case (work j h w s flt cfg gen cancelled valid)
  then show ?case by (simp add: worker_ok_def queue_inv.dispatch_keeps)
next
  case (other s' s h)
  from jobs_ok_cong [OF other(1,2)] other(4) show ?case by simp
qed (simp_all add: enqueue_replica_ok enqueue_reconcile_ok enqueue_backup_ok enqueue_upgrade_ok
    queue_inv.inv_requeue queue_inv.reap_keeps jobs_ok_filter)

lemma reach_ok: "sys_reach M p \<Longrightarrow> 0 < M \<Longrightarrow> jobs_ok M (fst p)"
proof (induction rule: sys_reach.induct)
  case (initial s)
  then show ?case by (simp add: jobs_ok_def)
next
  case (next_step p q)
  then show ?case using sys_step_ok by blast
qed

section \<open>Properties of the queue\<close>

definition demo_reconcile :: state where
  "demo_reconcile = snd (enqueue_reconcile no_faults ''d1'' ActCreate ''r1'' ''s1'' False empty_state)"

lemma demo_reconcile_reach: "sys_reach 5 (demo_reconcile, [])"
  unfolding demo_reconcile_def
  by (rule sys_reach.next_step [OF sys_reach.initial sys_step.enq_reconcile]) (simp add: empty_state_def)

lemma demo_reconcile_jobs:
  "map j_id (jobs demo_reconcile) = [1]" "list_all reconcile_in_flight (jobs demo_reconcile)"
  by code_simp+

lemma demo_reconcile_mem: "hd (jobs demo_reconcile) \<in> set (jobs demo_reconcile)"
  "last (jobs demo_reconcile) \<in> set (jobs demo_reconcile)"
  using demo_reconcile_jobs(1) by (auto intro: hd_in_set last_in_set)

text \<open>
  C1: in every reachable state of the cluster, whatever nodes crash, retry or reap, a deployment
  has at most one unfinished reconcile job, and so has an operation step.
\<close>

theorem reconcile_single_flight:
  assumes "sys_reach M (s, h)" "0 < M" "j \<in> set (jobs s)" "j' \<in> set (jobs s)"
    and "reconcile_in_flight j" "reconcile_in_flight j'"
    and "j_deployment j = j_deployment j' \<or> j_step j = j_step j' \<and> j_step j \<noteq> None"
  shows "j = j'"
proof -
  from reach_ok [OF assms(1,2)] have ok: "jobs_ok M s" by simp
  then have "j_id j \<noteq> j_id j' \<longrightarrow> j_deployment j \<noteq> j_deployment j' \<and> (j_step j = j_step j' \<longrightarrow> j_step j = None)"
    using assms(3-6) by (simp add: jobs_ok_def)
  with assms(7) have "j_id j = j_id j'" by argo
  moreover from ok have "distinct (map j_id (jobs s))" by (simp add: jobs_ok_def)
  ultimately show ?thesis using assms(3,4) distinct_key_eq by metis
qed

theorem reconcile_single_flight_witness:
  "sys_reach 5 (demo_reconcile, []) \<and> hd (jobs demo_reconcile) = last (jobs demo_reconcile)"
proof -
  have "reconcile_in_flight j" if "j \<in> set (jobs demo_reconcile)" for j
    using demo_reconcile_jobs(2) that by (simp add: list_all_iff)
  moreover have "j_deployment (hd (jobs demo_reconcile)) = j_deployment (last (jobs demo_reconcile))"
    by code_simp
  ultimately show ?thesis
    using reconcile_single_flight [OF demo_reconcile_reach _ demo_reconcile_mem] demo_reconcile_mem
      demo_reconcile_reach by simp
qed

text \<open>
  C3: in every reachable state no job has been claimed more than \<open>MaxAttempts\<close> times, and a job
  that is back in the queue has an attempt left; job ids are unique and below the sequence.
\<close>

theorem attempts_bounded:
  assumes "sys_reach M (s, h)" "0 < M" "j \<in> set (jobs s)"
  shows "int (j_attempts j) \<le> M \<and> (j_status j = JPending \<longrightarrow> int (j_attempts j) < M)
    \<and> distinct (map j_id (jobs s)) \<and> j_id j < next_job s"
proof -
  from reach_ok [OF assms(1,2)] have "jobs_ok M s" by simp
  with assms(3) show ?thesis unfolding jobs_ok_def by blast
qed

theorem attempts_bounded_witness:
  "j_attempts (hd (jobs demo_reconcile)) < 5 \<and> j_status (hd (jobs demo_reconcile)) = JPending"
proof -
  have "j_status (hd (jobs demo_reconcile)) = JPending" by code_simp
  with attempts_bounded [OF demo_reconcile_reach _ demo_reconcile_mem(1)] show ?thesis by simp
qed

lemma claimed_not_queued: "not_queued i (s\<lparr>jobs := sql_update (\<lambda>j. j_id j = i) (set_claimed n t) (jobs s)\<rparr>)"
proof -
  have "j_status (set_claimed n t j) \<noteq> JPending" for j by (simp add: set_claimed_def)
  then have "list_all (\<lambda>j. j_id j = i \<longrightarrow> j_status j \<noteq> JPending)
      (sql_update (\<lambda>j. j_id j = i) (set_claimed n t) js)" for js
    by (induction js) simp_all
  then show ?thesis by (simp add: not_queued_def list_all_iff)
qed

lemma not_queued_claim:
  assumes "not_queued i s" "claim_next w flt cfg locked s = (Some c, s')"
  shows "cj_id c \<noteq> i"
proof -
  from claim_row [OF assms(2)] obtain j where "j \<in> set (jobs s)" "cj_id c = j_id j" "j_status j = JPending" by blast
  with assms(1) show ?thesis by (simp add: not_queued_def) blast
qed



text \<open>
  The recovery of stale claims, row by row: a claim older than the job timeout fails when its
  attempts are spent (keeping an error it had) and returns to the queue otherwise, every other row
  stays as it is, and the number returned is the number of rows put back.
\<close>

theorem requeue_stale_rows:
  "requeue_stale no_faults cfg s =
     (Inr (sql_count (\<lambda>j. stale_claim (clock s) (timeout_secs cfg) j
             \<and> int (j_attempts j) < cf_max_attempts cfg) (jobs s)),
      s\<lparr>jobs := map (\<lambda>j.
          if \<not> (j_status j = JClaimed \<and> (\<exists>t. j_claimed_at j = Some t \<and> t < clock s - timeout_secs cfg * 1000000)) then j
          else if cf_max_attempts cfg \<le> int (j_attempts j) then
            j\<lparr>j_status := JFailed, j_finished_at := Some (clock s),
              j_error := Some (case j_error j of None \<Rightarrow> ''exceeded max attempts; giving up''
                | Some e \<Rightarrow> if e = [] then ''exceeded max attempts; giving up'' else e)\<rparr>
          else j\<lparr>j_status := JPending, j_claimed_by := None, j_claimed_at := None\<rparr>) (jobs s)\<rparr>)"
proof -
  let ?st = "stale_claim (clock s) (timeout_secs cfg)"
  let ?over = "\<lambda>j. ?st j \<and> cf_max_attempts cfg \<le> int (j_attempts j)"
  let ?under = "\<lambda>j. ?st j \<and> int (j_attempts j) < cf_max_attempts cfg"
  have st: "?st j \<longleftrightarrow> j_status j = JClaimed \<and> (\<exists>t. j_claimed_at j = Some t \<and> t < clock s - timeout_secs cfg * 1000000)" for j
    by (cases "j_claimed_at j") (simp_all add: stale_claim_def usec_def)
  have g: "give_up t j = j\<lparr>j_status := JFailed, j_finished_at := Some t,
      j_error := Some (case j_error j of None \<Rightarrow> ''exceeded max attempts; giving up''
                | Some e \<Rightarrow> if e = [] then ''exceeded max attempts; giving up'' else e)\<rparr>" for t j
    by (simp only: give_up_def coalesce_nullif_def)
  have n: "\<not> ?st (give_up t j)" for t j by (simp add: stale_claim_def give_up_def)
  have c: "sql_count ?under (sql_update ?over (give_up (clock s)) js) = sql_count ?under js" for js
    by (rule sql_count_update_same) (auto simp: n)
  have u: "sql_update ?under repend (sql_update ?over (give_up (clock s)) js)
      = map (\<lambda>j. if \<not> ?st j then j else if cf_max_attempts cfg \<le> int (j_attempts j) then give_up (clock s) j
               else repend j) js" for js
    by (induction js) (auto simp: n)
  show ?thesis
    unfolding st [symmetric] g [symmetric] repend_def [symmetric]
    by (simp add: requeue_stale_def Let_def no_faults_def c u)
qed

end
