(* ===== verification/ProvisionProps.thy ===== *)
theory ProvisionProps
  imports QueueInv Samples
begin

text \<open>
  What a provision job does to the store on every outcome, the race with a delete, and the facts
  that hold of all handlers: jobs settle, deleted deployments stay deleted, finished runs stay as
  they are.
\<close>

section \<open>Every dispatched job settles\<close>

definition settled :: "int \<Rightarrow> state \<Rightarrow> bool" where
  "settled i s \<longleftrightarrow> (\<forall>j \<in> set (jobs s). j_id j = i \<longrightarrow> j_status j = JDone \<or> j_status j = JFailed)"

lemma settled_cong: "jobs s' = jobs s \<Longrightarrow> settled i s' \<longleftrightarrow> settled i s"
  by (simp add: settled_def)

lemma settled_log [simp]: "settled i (log_call c s) = settled i s"
  by (simp add: settled_def log_call_def)

lemma settled_call:
  "ext_keeps (settled i) f \<Longrightarrow> settled i s \<Longrightarrow> call_out c f s = (r, t) \<Longrightarrow> settled i t"
  unfolding call_out_def by (erule ext_keepsD) simp_all

lemma settled_update:
  assumes "jobs s' = sql_update (\<lambda>j. j_id j = i) f (jobs s)"
    and "\<And>j. j_status (f j) = JDone \<or> j_status (f j) = JFailed"
  shows "settled i s'"
proof -
  have "list_all (\<lambda>j. j_id j = i \<longrightarrow> j_status j = JDone \<or> j_status j = JFailed)
      (sql_update (\<lambda>j. j_id j = i) f js)" for js
    using assms(2) by (induction js) simp_all
  then show ?thesis by (simp add: settled_def assms(1) list_all_iff)
qed

lemma settled_marks [simp]:
  "settled i (mark_done no_faults i s)" "settled i (mark_job_failed no_faults i e s)"
  "settled i (mark_failed no_faults i dep e s)"
proof -
  show d: "settled i (mark_done no_faults i s)"
    by (rule settled_update [of _ i "set_done (clock s)" s]) (simp_all add: mark_done_def set_done_def)
  show f: "settled i (mark_job_failed no_faults i e s)"
    by (rule settled_update [of _ i "set_failed (clock s) e" s])
       (simp_all add: mark_job_failed_def set_failed_def)
  then show "settled i (mark_failed no_faults i dep e s)"
    by (simp add: mark_failed_def Let_def settled_def)
qed

lemma settled_ledger [simp]:
  "settled (cj_id j) (succeed_reconcile no_faults j m s)"
  "settled (cj_id j) (skip_reconcile no_faults j m s)"
  "settled (cj_id j) (no_op_reconcile no_faults j m s)"
  "settled (cj_id j) (fail_reconcile no_faults j m s)"
proof -
  have r: "settled i (rollup_reconcile_run no_faults r (write_reconcile_step no_faults st x e y t))"
    if "settled i t" for i r st x e y t
    using that settled_cong [of "rollup_reconcile_run no_faults r (write_reconcile_step no_faults st x e y t)" t i]
    by (simp add: rollup_frame write_reconcile_step_def)
  show "settled (cj_id j) (succeed_reconcile no_faults j m s)"
    "settled (cj_id j) (skip_reconcile no_faults j m s)"
    "settled (cj_id j) (no_op_reconcile no_faults j m s)"
    "settled (cj_id j) (fail_reconcile no_faults j m s)"
    by (simp_all add: succeed_reconcile_def skip_reconcile_def no_op_reconcile_def fail_reconcile_def r)
qed

lemma settled_push:
  assumes "settled i s" "worker_keeps (settled i) w" "wk_convex_env w = Some upd"
    and "push_function_env w no_faults upd j s = (False, s')"
  shows "settled i s'"
proof -
  have "ext_keeps (settled i) (upd a b c)" for a b c using assms(2,3) by (simp add: worker_keeps_def)
  then have "call_out x (upd a b c) s = (r, t) \<Longrightarrow> settled i t" for a b c x r t
    using assms(1) settled_call by blast
  then show ?thesis
    using assms(1,4) by (auto simp: push_function_env_def Let_def split: if_splits option.splits prod.splits outcome.splits)
qed

lemma settled_docker:
  "docker_for_job w no_faults j s = (None, s') \<Longrightarrow> settled (cj_id j) s'"
  by (auto simp: docker_for_job_def split: if_splits option.splits)

lemma settled_run_job:
  assumes "worker_keeps (settled (cj_id j)) w" shows "settled (cj_id j) (run_job w no_faults j s)"
proof -
  have a: "settled (cj_id j) t'" if "after_provision w no_faults dk j i t = (False, t')" for dk i t t'
    using that settled_push [OF settled_marks(1) assms]
    by (auto simp: after_provision_def Let_def split: sum.splits prod.splits if_splits outcome.splits option.splits)
  have "settled (cj_id j) t" if "run_job_body w no_faults j s = (False, t)" for t
    using that by (auto simp: run_job_body_def Let_def settled_docker split: if_splits option.splits prod.splits outcome.splits
        dest: a settled_docker)
  then show ?thesis by (auto simp: run_job_def split: prod.splits)
qed

lemma settled_run_reconcile: "settled (cj_id j) (run_reconcile w no_faults j s)"
proof -
  have "settled (cj_id j) t" if "run_reconcile_body w no_faults j s = (False, t)" for t
    using that
    by (auto simp: run_reconcile_body_def reconcile_create_def reconcile_restart_def Let_def
        split: if_splits option.splits prod.splits outcome.splits sum.splits action.splits)
  then show ?thesis by (auto simp: run_reconcile_def split: prod.splits)
qed

lemma settled_swap:
  "finish_upgrade_swap flt k gen j us s = (None, s') \<Longrightarrow> settled (cj_id j) s'"
  by (drule swap_NoneD) (auto simp: set_done_def intro!: settled_update)

section \<open>The outcomes of a provision job\<close>

lemma mark_running_gone:
  assumes "gone (cj_deployment j) s"
  shows "mark_provision_running no_faults j i s = (Inr (False, False), s)"
proof -
  have "sql_count (\<lambda>d. d_id d = cj_deployment j \<and> d_status d = DProvisioning) (deps s) = 0"
    using assms by (auto simp: gone_def sql)
  moreover have "d_status d = DDeleted" if "find_dep (cj_deployment j) s = Some d" for d
    using find_dep_SomeD [OF that] assms by (simp add: gone_def)
  ultimately show ?thesis
    by (auto simp: mark_provision_running_def Let_def find_dep_def split: option.split)
qed

lemma run_job_call:
  assumes "still_wanted no_faults j s" "\<not> cj_remote j" "sp = build_spec (wk_config w) no_faults j s"
    and "dk_provision (wk_docker w) sp (log_call (provision_call sp) s) = (r, s2)"
  shows "run_job_body w no_faults j s = (case r of
      Panic \<Rightarrow> (True, s2)
    | Err e \<Rightarrow> (False, mark_failed no_faults (cj_id j) (cj_deployment j) e s2)
    | Ok i \<Rightarrow> after_provision w no_faults (wk_docker w) j i s2)"
  using assms by (simp add: run_job_body_def docker_for_job_def Let_def call_out_def)



text \<open>
  A provision job whose container was built while the row still waits for it: the row turns
  running with the container and URL it did not have yet, no other deployment changes, the job is
  done, and nothing is destroyed.
\<close>

theorem provision_success:
  assumes "still_wanted no_faults j s" "\<not> cj_remote j" "sp = build_spec (wk_config w) no_faults j s"
    and "dk_provision (wk_docker w) sp (log_call (provision_call sp) s) = (Ok i, s2)"
    and "find_dep (cj_deployment j) s2 = Some d" "d_status d = DProvisioning"
    and "wk_convex_env w = None"
  shows "find_dep (cj_deployment j) (run_job w no_faults j s) = Some (d\<lparr>d_status := DRunning,
        d_container := Some (case d_container d of None \<Rightarrow> in_container i | Some c \<Rightarrow> c),
        d_url := Some (case d_url d of None \<Rightarrow> in_url i | Some x \<Rightarrow> x), d_last_deploy := Some (clock s2)\<rparr>)
    \<and> (\<forall>k. k \<noteq> cj_deployment j \<longrightarrow> find_dep k (run_job w no_faults j s) = find_dep k s2)
    \<and> settled (cj_id j) (run_job w no_faults j s) \<and> calls (run_job w no_faults j s) = calls s2"
proof -
  let ?hit = "\<lambda>d. d_id d = cj_deployment j \<and> d_status d = DProvisioning"
  let ?reps = "if cj_replica j = [] then reps s2 else sql_update (\<lambda>r. r_id r = cj_replica j \<and> r_status r = DProvisioning)
                 (run_replica (in_container i)) (reps s2)"
  let ?t = "s2\<lparr>reps := ?reps, deps := sql_update ?hit (run_dep (clock s2) i) (deps s2)\<rparr>"
  have "0 < sql_count ?hit (deps s2)" using find_dep_SomeD [OF assms(5)] assms(6) by (auto simp: sql)
  then have "mark_provision_running no_faults j i s2 = (Inr (True, False), ?t)"
    by (simp add: mark_provision_running_def Let_def)
  then have run: "run_job w no_faults j s = mark_done no_faults (cj_id j) ?t"
    by (simp add: run_job_def run_job_call [OF assms(1-4)] after_provision_def assms(7))
  have row: "find_dep k (run_job w no_faults j s) = map_option (\<lambda>d. if ?hit d then run_dep (clock s2) i d else d) (find_dep k s2)" for k
    by (simp add: run mark_done_def find_dep_def run_dep_upd.row_by_key)
  have other: "find_dep k (run_job w no_faults j s) = find_dep k s2" if "k \<noteq> cj_deployment j" for k
  proof (cases "find_dep k s2")
    case (Some x)
    with find_dep_SomeD [OF Some] that row [of k] show ?thesis by simp
  qed (simp add: row)
  have "d_id d = cj_deployment j" using find_dep_SomeD [OF assms(5)] by simp
  with row [of "cj_deployment j"] assms(5,6) have
    "find_dep (cj_deployment j) (run_job w no_faults j s) = Some (run_dep (clock s2) i d)" by simp
  moreover have "settled (cj_id j) (run_job w no_faults j s)" unfolding run by simp
  ultimately show ?thesis
    using other by (auto simp: run_dep_def coalesce_def run mark_done_def split: option.split)
qed

theorem provision_success_witness:
  "find_dep ''d1'' (run_job demo_worker no_faults (demo_job KProvision) demo_queued) =
     Some (demo_dep ''d1'' DProvisioning\<lparr>d_status := DRunning, d_container := Some ''convex-happy-fox-1'',
       d_url := Some ''http://u'', d_last_deploy := Some 1000\<rparr>)"
proof -
  let ?j = "demo_job KProvision"
  let ?sp = "build_spec (wk_config demo_worker) no_faults ?j demo_queued"
  let ?s2 = "log_call (provision_call ?sp) demo_queued"
  have w: "still_wanted no_faults ?j demo_queued" "\<not> cj_remote ?j" by code_simp+
  have p: "dk_provision (wk_docker demo_worker) ?sp ?s2 = (Ok (ok_info ?sp), ?s2)"
    by (simp add: demo_worker_def demo_docker_def idle_def)
  have d: "find_dep (cj_deployment ?j) ?s2 = Some (demo_dep ''d1'' DProvisioning)"
    "d_status (demo_dep ''d1'' DProvisioning) = DProvisioning" "wk_convex_env demo_worker = None"
    "cj_deployment ?j = ''d1''" "d_container (demo_dep ''d1'' DProvisioning) = None"
    "d_url (demo_dep ''d1'' DProvisioning) = None" "clock ?s2 = 1000"
    "in_container (ok_info ?sp) = ''convex-happy-fox-1''" "in_url (ok_info ?sp) = ''http://u''"
    by code_simp+
  from provision_success [OF w refl p d(1-3)] show ?thesis by (simp add: d)
qed

text \<open>
  A provision job whose container could not be built: the job fails with the error of Docker,
  the deployment fails only if it is still waiting for the job, and no other row is touched.
\<close>

theorem provision_failure:
  assumes "still_wanted no_faults j s" "\<not> cj_remote j" "sp = build_spec (wk_config w) no_faults j s"
    and "dk_provision (wk_docker w) sp (log_call (provision_call sp) s) = (Err e, s2)"
  shows "run_job w no_faults j s = s2\<lparr>
      jobs := map (\<lambda>x. if j_id x = cj_id j then x\<lparr>j_status := JFailed, j_error := Some e,
                j_finished_at := Some (clock s2)\<rparr> else x) (jobs s2),
      deps := map (\<lambda>d. if d_id d = cj_deployment j \<and> d_status d = DProvisioning
                then d\<lparr>d_status := DFailed, d_last_deploy := Some (clock s2)\<rparr> else d) (deps s2)\<rparr>"
  using assms
  by (simp add: run_job_def run_job_call [OF assms(1-4)] mark_failed_def mark_job_failed_def
      sql_update_def set_failed_def [abs_def] fail_dep_def [abs_def] Let_def)

theorem provision_failure_witness:
  "map d_status (deps (run_job (demo_worker\<lparr>wk_docker := demo_docker\<lparr>dk_provision := (\<lambda>_ s. (Err ''no image'', s))\<rparr>\<rparr>)
      no_faults (demo_job KProvision) demo_queued)) = [DFailed]"
proof -
  let ?j = "demo_job KProvision"
  let ?w = "demo_worker\<lparr>wk_docker := demo_docker\<lparr>dk_provision := (\<lambda>_ s. (Err ''no image'', s))\<rparr>\<rparr>"
  have w: "still_wanted no_faults ?j demo_queued" "\<not> cj_remote ?j" by code_simp+
  have p: "dk_provision (wk_docker ?w) sp s = (Err ''no image'', s)" for sp s by simp
  show ?thesis unfolding provision_failure [OF w refl p] by code_simp
qed

text \<open>
  Once a deployment is deleted no job and no reaper tick brings it back, as long as Docker,
  SSH and the other processes do not: the provision, reconcile, upgrade, backup and restore
  handlers, on every fault and panic.
\<close>

theorem deleted_stays_deleted:
  assumes "gone i s" "worker_keeps (gone i) w"
  shows "gone i (snd (process_one w flt cfg gen cancelled valid locked s)) \<and> gone i (reap_stuck flt a cfg s)"
  using gone_inv.process_one_keeps [OF assms] gone_inv.reap_keeps [OF assms(1) TrueI] by simp

theorem deleted_stays_deleted_witness:
  "gone ''d1'' (snd (process_one demo_worker no_faults demo_config (\<lambda>_. ''g'') (\<lambda>_. False) (\<lambda>x. x) (\<lambda>_. False)
     (delete_row ''d1'' demo_queued)))"
proof -
  have "gone ''d1'' (delete_row ''d1'' demo_queued)" by (auto simp: gone_def delete_row_def sql)
  from deleted_stays_deleted [OF this demo_worker_keeps] show ?thesis by simp
qed

text \<open>
  An operation run that has succeeded, failed or been cancelled is final: no job that
  finishes late and no reaper tick changes its row.
\<close>

theorem finished_run_is_final:
  assumes "r \<in> set (runs s)" "terminal_run r" "worker_keeps (frozen r) w"
  shows "r \<in> set (runs (snd (process_one w flt cfg gen cancelled valid locked s)))
    \<and> r \<in> set (runs (reap_stuck flt a cfg s))"
proof -
  have f: "frozen r s" using assms(1) by (simp add: frozen_def)
  show ?thesis
    using frozen_inv.process_one_keeps [OF f assms(3)] frozen_inv.reap_keeps [OF f TrueI] assms(2)
    by (simp add: frozen_def)
qed


definition demo_run :: run_row where
  "demo_run = \<lparr>run_id = ''r1'', run_status = RSucceeded, run_updated = 0, run_finished = Some 1, run_counts = None\<rparr>"

theorem finished_run_is_final_witness:
  "demo_run \<in> set (runs (reap_stuck no_faults LockFree demo_config (empty_state\<lparr>runs := [demo_run]\<rparr>)))"
proof -
  have "terminal_run demo_run" "demo_run \<in> set (runs (empty_state\<lparr>runs := [demo_run]\<rparr>))"
    by (simp_all add: terminal_run_def demo_run_def)
  from finished_run_is_final [OF this(2,1) demo_worker_keeps] show ?thesis by blast
qed

end
