(* ===== verification/ReconcileProps.thy ===== *)
theory ReconcileProps
  imports ProvisionProps
begin

text \<open>
  The reconcile handler and the ledger: what its guards refuse, the compare-and-swap that claims a
  row for a create, the roll-up of a run from its steps, and the reaper as a whole. Two races and
  one gap of the ledger are proved as the code has them.
\<close>

section \<open>Guards\<close>

lemma ledger_frame:
  "deps (mark_done flt i s) = deps s" "reps (mark_done flt i s) = reps s" "calls (mark_done flt i s) = calls s"
  "deps (write_reconcile_step flt st x e y s) = deps s" "reps (write_reconcile_step flt st x e y s) = reps s"
  "calls (write_reconcile_step flt st x e y s) = calls s"
  by (simp_all add: mark_done_def write_reconcile_step_def)

lemma skip_frame:
  "deps (skip_reconcile flt j m s) = deps s" "reps (skip_reconcile flt j m s) = reps s"
  "calls (skip_reconcile flt j m s) = calls s"
  "deps (no_op_reconcile flt j m s) = deps s" "reps (no_op_reconcile flt j m s) = reps s"
  "calls (no_op_reconcile flt j m s) = calls s"
  by (simp_all add: skip_reconcile_def no_op_reconcile_def rollup_frame ledger_frame)

lemma step_written:
  assumes "x \<in> set (steps (write_reconcile_step flt st stat e res s))" "st_id x = st" "st \<noteq> []"
    and "flt (QStepWrite st) = None"
  shows "st_status x = stat \<and> st_result x = res \<and> st_error x = (if e = [] then None else Some e)"
proof -
  have "list_all (\<lambda>x. st_id x = st \<longrightarrow> st_status x = stat \<and> st_result x = res
      \<and> st_error x = (if e = [] then None else Some e)) (sql_update (\<lambda>x. st_id x = st) (set_step stat e res) xs)" for xs
    by (induction xs) (simp_all add: set_step_def)
  with assms show ?thesis by (simp add: write_reconcile_step_def list_all_iff)
qed

text \<open>
  A reconcile job for an adopted or deleted deployment, or one that runs after apply was
  switched off, changes no deployment and no replica and makes no external call; its step is
  recorded as skipped. This holds whatever statement fails.
\<close>

theorem reconcile_guarded:
  assumes "cj_adopted j \<or> cj_status j = DDeleted \<or> \<not> apply_enabled_now w flt s"
  shows "deps (run_reconcile w flt j s) = deps s \<and> reps (run_reconcile w flt j s) = reps s
    \<and> calls (run_reconcile w flt j s) = calls s
    \<and> (flt (QStepWrite (cj_step j)) = None \<longrightarrow> cj_step j \<noteq> [] \<longrightarrow>
        (\<forall>x \<in> set (steps (run_reconcile w flt j s)). st_id x = cj_step j \<longrightarrow> st_status x = SSkipped))"
proof -
  have "\<exists>m. run_reconcile_body w flt j s = (False, skip_reconcile flt j m s)"
    using assms unfolding run_reconcile_body_def by (cases "cj_adopted j"; cases "cj_status j = DDeleted") auto
  then obtain m where m: "run_reconcile w flt j s = skip_reconcile flt j m s"
    by (auto simp: run_reconcile_def)
  have "st_status x = SSkipped" if "x \<in> set (steps (skip_reconcile flt j m s))" "st_id x = cj_step j"
    "flt (QStepWrite (cj_step j)) = None" "cj_step j \<noteq> []" for x
    using step_written [where flt = flt, OF _ that(2,4,3)] that(1)
    unfolding skip_reconcile_def rollup_frame by blast
  then show ?thesis unfolding m by (simp add: skip_frame)
qed

theorem reconcile_guarded_witness:
  "calls (run_reconcile demo_worker no_faults (demo_job KReconcile\<lparr>cj_adopted := True\<rparr>) demo_queued) = []"
  using reconcile_guarded [of "demo_job KReconcile\<lparr>cj_adopted := True\<rparr>" demo_worker no_faults demo_queued]
  by (simp add: demo_queued_def enqueue_def enqueue_replica_def insert_job_def demo_store_def empty_state_def)

section \<open>Create\<close>

lemma creatable_swapped: "sql_count (creatable i) (sql_update (creatable i) (claim_for_create t) ds) = 0"
proof -
  have "\<not> creatable i (claim_for_create t d)" for d by (simp add: creatable_def claim_for_create_def)
  then show ?thesis by (intro sql_count_update_zero) simp
qed

text \<open>
  The create action is a compare-and-swap on the deployment row: without a live, managed row
  that is not already provisioning it makes no call and changes no row, and the row it claims
  cannot be claimed by a second create.
\<close>

theorem reconcile_create_swap:
  assumes "\<not> cj_adopted j" "cj_status j \<noteq> DDeleted" "apply_enabled_now w no_faults s" "cj_action j = Some ActCreate"
  shows "(calls (run_reconcile w no_faults j s) \<noteq> calls s \<or> deps (run_reconcile w no_faults j s) \<noteq> deps s
          \<longrightarrow> (\<exists>d \<in> set (deps s). d_id d = cj_deployment j \<and> \<not> d_adopted d
                \<and> d_status d \<in> {DRunning, DStopped, DFailed}))
    \<and> sql_count (creatable (cj_deployment j))
        (sql_update (creatable (cj_deployment j)) (claim_for_create (clock s)) (deps s)) = 0"
proof (cases "sql_count (creatable (cj_deployment j)) (deps s) = 0")
  case True
  then obtain m where "run_reconcile w no_faults j s = no_op_reconcile no_faults j m s"
    using assms by (simp add: run_reconcile_def run_reconcile_body_def reconcile_create_def Let_def)
  then show ?thesis by (simp add: skip_frame creatable_swapped)
next
  case False
  then obtain d where "d \<in> set (deps s)" "creatable (cj_deployment j) d" by (auto simp: sql)
  then have "\<exists>d \<in> set (deps s). d_id d = cj_deployment j \<and> \<not> d_adopted d \<and> d_status d \<in> {DRunning, DStopped, DFailed}"
    by (cases "d_status d") (auto simp: creatable_def)
  then show ?thesis by (simp add: creatable_swapped)
qed

definition demo_create :: claimed_job where
  "demo_create = demo_job KReconcile\<lparr>cj_action := Some ActCreate, cj_status := DFailed, cj_step := ''s1'', cj_run := ''r1''\<rparr>"

theorem reconcile_create_swap_witness:
  "\<exists>d \<in> set (deps (demo_store DFailed)). d_id d = ''d1'' \<and> \<not> d_adopted d \<and> d_status d = DFailed"
proof -
  have h: "\<not> cj_adopted demo_create" "cj_status demo_create \<noteq> DDeleted"
    "apply_enabled_now demo_worker no_faults (demo_store DFailed)" "cj_action demo_create = Some ActCreate" by code_simp+
  have c: "calls (run_reconcile demo_worker no_faults demo_create (demo_store DFailed)) \<noteq> calls (demo_store DFailed)"
    by code_simp
  have i: "cj_deployment demo_create = ''d1''" "list_all (\<lambda>d. d_status d = DFailed) (deps (demo_store DFailed))" by code_simp+
  from reconcile_create_swap [OF h] c i show ?thesis by (auto simp: list_all_iff)
qed

text \<open>
  A delete that wins the race against a create. Unlike the provision job the reconcile job
  ignores that the row is gone: it destroys nothing, and records the step as succeeded.
\<close>

theorem reconcile_create_delete_race:
  assumes "\<not> cj_adopted j" "cj_status j \<noteq> DDeleted" "apply_enabled_now w no_faults s" "cj_action j = Some ActCreate"
    and "0 < sql_count (creatable (cj_deployment j)) (deps s)" "\<not> cj_remote j" "cj_step j \<noteq> []"
    and "s1 = s\<lparr>deps := sql_update (creatable (cj_deployment j)) (claim_for_create (clock s)) (deps s)\<rparr>"
    and "sp = build_spec (wk_config w) no_faults j s1"
    and "dk_provision (wk_docker w) sp (log_call (provision_call sp) s1) = (Ok i, s2)"
    and "gone (cj_deployment j) s2"
  shows "calls (run_reconcile w no_faults j s) = calls s2 \<and> gone (cj_deployment j) (run_reconcile w no_faults j s)
    \<and> (\<forall>x \<in> set (steps (run_reconcile w no_faults j s)). st_id x = cj_step j \<longrightarrow> st_status x = SSucceeded)"
proof -
  have run: "run_reconcile w no_faults j s = succeed_reconcile no_faults j ''container created'' s2"
    using assms
    by (simp add: run_reconcile_def run_reconcile_body_def reconcile_create_def docker_for_job_def call_out_def
        mark_running_gone)
  have "st_status x = SSucceeded" if "x \<in> set (steps (run_reconcile w no_faults j s))" "st_id x = cj_step j" for x
    using step_written [where flt = no_faults, OF _ that(2) assms(7)] that(1)
    unfolding run succeed_reconcile_def rollup_frame by auto
  then show ?thesis using assms(11)
    by (simp add: run succeed_reconcile_def rollup_frame ledger_frame gone_def)
qed

theorem reconcile_create_delete_race_witness:
  "calls (run_reconcile racing_worker no_faults demo_create (demo_store DFailed))
     = [CProvision ''happy-fox-1'' 0 ''convex-happy-fox-1'']"
proof -
  let ?s = "demo_store DFailed"
  let ?s1 = "?s\<lparr>deps := sql_update (creatable (cj_deployment demo_create)) (claim_for_create (clock ?s)) (deps ?s)\<rparr>"
  let ?sp = "build_spec (wk_config racing_worker) no_faults demo_create ?s1"
  let ?s2 = "delete_row (sp_deployment ?sp) (log_call (provision_call ?sp) ?s1)"
  have h: "\<not> cj_adopted demo_create" "cj_status demo_create \<noteq> DDeleted"
    "apply_enabled_now racing_worker no_faults ?s" "cj_action demo_create = Some ActCreate"
    "0 < sql_count (creatable (cj_deployment demo_create)) (deps ?s)" "\<not> cj_remote demo_create" "cj_step demo_create \<noteq> []"
    by code_simp+
  have p: "dk_provision (wk_docker racing_worker) ?sp (log_call (provision_call ?sp) ?s1) = (Ok (ok_info ?sp), ?s2)"
    by (simp add: racing_worker_def racing_docker_def)
  have g: "gone (cj_deployment demo_create) ?s2"
    by (auto simp: gone_def delete_row_def sql build_spec_def)
  have "calls ?s2 = [CProvision ''happy-fox-1'' 0 ''convex-happy-fox-1'']" by code_simp
  with reconcile_create_delete_race [OF h refl refl p g] show ?thesis by simp
qed

section \<open>The roll-up\<close>

lemma sql_update_idem: "(\<And>r. p r \<Longrightarrow> \<not> p (f r)) \<Longrightarrow> sql_update p f (sql_update p f t) = sql_update p f t"
  by (induction t) auto

lemma rollup_runs:
  assumes "r \<noteq> []"
  shows "runs (rollup_reconcile_run no_faults r s) =
    (if 0 < run_inflight r s then
       sql_update (\<lambda>x. run_id x = r \<and> run_status x = RQueued) (set_run_running (clock s)) (runs s)
     else sql_update (\<lambda>x. run_id x = r \<and> (run_status x = RQueued \<or> run_status x = RRunning))
       (set_run_final (clock s) (if 0 < step_count r SFailed s then RFailed else RSucceeded)
         (step_count r SSucceeded s, step_count r SFailed s, step_count r SSkipped s, step_count r SNoOp s,
          step_total r s)) (runs s))"
  using assms by (simp add: rollup_reconcile_run_def Let_def)

lemma rollup_counts:
  "run_inflight q (rollup_reconcile_run flt r s) = run_inflight q s"
  "step_count q st (rollup_reconcile_run flt r s) = step_count q st s"
  "step_total q (rollup_reconcile_run flt r s) = step_total q s"
  by (simp_all add: run_inflight_def step_count_def step_total_def rollup_frame)

lemma step_total_split:
  "step_total r s = step_count r SPlanned s + step_count r SSucceeded s + step_count r SFailed s
     + step_count r SSkipped s + step_count r SNoOp s"
proof -
  have "sql_count (\<lambda>x. st_run x = r) xs = sql_count (\<lambda>x. st_run x = r \<and> st_status x = SPlanned) xs
     + sql_count (\<lambda>x. st_run x = r \<and> st_status x = SSucceeded) xs + sql_count (\<lambda>x. st_run x = r \<and> st_status x = SFailed) xs
     + sql_count (\<lambda>x. st_run x = r \<and> st_status x = SSkipped) xs + sql_count (\<lambda>x. st_run x = r \<and> st_status x = SNoOp) xs" for xs
  proof (induction xs)
    case (Cons x xs)
    then show ?case by (cases "st_status x") auto
  qed simp
  then show ?thesis by (simp add: step_total_def step_count_def)
qed

lemma rollup_idem: "rollup_reconcile_run no_faults r (rollup_reconcile_run no_faults r s) = rollup_reconcile_run no_faults r s"
proof (cases "r = []")
  case False
  have eq: "runs t = runs u \<Longrightarrow> t\<lparr>runs := runs u\<rparr> = t" for t u :: state by simp
  have "rollup_reconcile_run no_faults r t = t\<lparr>runs := runs (rollup_reconcile_run no_faults r t)\<rparr>" for t
    by (simp add: rollup_reconcile_run_def Let_def)
  moreover have "runs (rollup_reconcile_run no_faults r (rollup_reconcile_run no_faults r s)) = runs (rollup_reconcile_run no_faults r s)"
  proof (cases "0 < run_inflight r s")
    case True
    with False show ?thesis
      by (simp add: rollup_runs rollup_counts rollup_frame) (rule sql_update_idem, simp add: set_run_running_def)
  next
    case no: False
    with False show ?thesis
      by (simp add: rollup_runs rollup_counts rollup_frame)
         (intro conjI impI sql_update_idem; simp add: set_run_final_def)
  qed
  ultimately show ?thesis by (metis eq)
qed (simp add: rollup_reconcile_run_def)

text \<open>
  The roll-up of a run. A run is finalised only when none of its reconcile jobs is unfinished;
  it fails exactly when a step failed; the counts it records add up to the steps of the run, those
  still planned left out; a second roll-up changes nothing.
\<close>

theorem rollup_final:
  assumes "x \<in> set (runs (rollup_reconcile_run no_faults r s))" "run_id x = r" "r \<noteq> []"
    and "x \<notin> set (runs s)" "run_status x \<noteq> RRunning"
  shows "run_inflight r s = 0
    \<and> run_status x = (if \<exists>y \<in> set (steps s). st_run y = r \<and> st_status y = SFailed then RFailed else RSucceeded)
    \<and> (\<exists>ok bad skip noop total. run_counts x = Some (ok, bad, skip, noop, total)
         \<and> total = ok + bad + skip + noop + step_count r SPlanned s)
    \<and> rollup_reconcile_run no_faults r (rollup_reconcile_run no_faults r s) = rollup_reconcile_run no_faults r s"
proof -
  have quiet: "run_inflight r s = 0"
  proof (rule ccontr)
    assume "run_inflight r s \<noteq> 0"
    then have "x \<in> set (sql_update (\<lambda>x. run_id x = r \<and> run_status x = RQueued) (set_run_running (clock s)) (runs s))"
      using assms(1,3) by (simp add: rollup_runs)
    then show False using assms(4,5) by (auto simp: sql set_run_running_def split: if_splits)
  qed
  then obtain y where y: "x = set_run_final (clock s) (if 0 < step_count r SFailed s then RFailed else RSucceeded)
         (step_count r SSucceeded s, step_count r SFailed s, step_count r SSkipped s, step_count r SNoOp s,
          step_total r s) y"
    using assms(1,3,4) by (auto simp: rollup_runs sql split: if_splits)
  have "0 < step_count r SFailed s \<longleftrightarrow> (\<exists>y \<in> set (steps s). st_run y = r \<and> st_status y = SFailed)"
    by (simp add: step_count_def sql)
  then show ?thesis
    unfolding y using quiet by (simp add: set_run_final_def rollup_idem step_total_split [of r s])
qed

definition demo_step :: "uuid \<Rightarrow> nat \<Rightarrow> step_row" where
  "demo_step i n = \<lparr>st_id = i, st_run = ''r1'', st_index = n, st_action = ActRestart, st_key = i,
     st_status = SPlanned, st_reason = [], st_result = None, st_error = None\<rparr>"

definition open_run :: run_row where
  "open_run = \<lparr>run_id = ''r1'', run_status = RRunning, run_updated = 0, run_finished = None, run_counts = None\<rparr>"

definition demo_open :: state where
  "demo_open = empty_state\<lparr>runs := [open_run], steps := [(demo_step ''s1'' 0)\<lparr>st_status := SFailed\<rparr>]\<rparr>"

theorem rollup_final_witness:
  "run_status (hd (runs (rollup_reconcile_run no_faults ''r1'' demo_open))) = RFailed"
proof -
  let ?x = "hd (runs (rollup_reconcile_run no_faults ''r1'' demo_open))"
  have 1: "?x \<in> set (runs (rollup_reconcile_run no_faults ''r1'' demo_open))" "run_id ?x = ''r1''"
    "?x \<notin> set (runs demo_open)" "run_status ?x \<noteq> RRunning" by code_simp+
  have "list_ex (\<lambda>y. st_run y = ''r1'' \<and> st_status y = SFailed) (steps demo_open)" by code_simp
  with rollup_final [OF 1(1,2) _ 1(3,4)] show ?thesis by (simp add: list_ex_iff)
qed

definition claimed_reconcile :: "int \<Rightarrow> uuid \<Rightarrow> nat \<Rightarrow> int \<Rightarrow> job" where
  "claimed_reconcile i st n t = \<lparr>j_id = i, j_deployment = st, j_replica = None, j_kind = KReconcile,
     j_status = JClaimed, j_claimed_by = Some ''n1'', j_claimed_at = Some t, j_finished_at = None,
     j_error = None, j_attempts = n, j_hc_network = False, j_created_at = 0, j_action = Some ActRestart,
     j_run = Some ''r1'', j_step = Some st, j_backup = None\<rparr>"

definition gap_state :: state where
  "gap_state = empty_state\<lparr>runs := [open_run], steps := [demo_step ''s1'' 0, demo_step ''s2'' 1],
     jobs := [claimed_reconcile 1 ''s1'' 5 0, claimed_reconcile 2 ''s2'' 1 399000000], clock := 400000000\<rparr>"

definition gap_end :: state where
  "gap_end = (let s1 = reap_stuck no_faults LockFree demo_config gap_state;
       s2 = succeed_reconcile no_faults (demo_job KReconcile\<lparr>cj_id := 2, cj_run := ''r1'', cj_step := ''s2''\<rparr>)
              ''container restarted'' s1
     in reap_stuck no_faults LockFree demo_config (s2\<lparr>clock := 900000000\<rparr>))"

text \<open>
  A gap in the ledger. Two reconcile jobs of one run: the recovery gives up the first, whose
  attempts are spent, without touching its step; the second completes. The run is then recorded as
  succeeded with one step still planned, and a later reaper tick leaves it so.
\<close>

theorem run_succeeds_with_planned_step:
  "map run_status (runs gap_end) = [RSucceeded] \<and> map run_counts (runs gap_end) = [Some (1, 0, 0, 0, 2)]
   \<and> map st_status (steps gap_end) = [SPlanned, SSucceeded]
   \<and> map j_status (jobs gap_end) = [JFailed, JDone]"
  by code_simp

section \<open>The reaper\<close>

lemma requeue_no_stale:
  "list_all (\<lambda>j. \<not> stale_claim (clock s) (timeout_secs cfg) j) (jobs (snd (requeue_stale no_faults cfg s)))"
proof -
  have g: "\<not> stale_claim t n (give_up u j)" "\<not> stale_claim t n (repend j)" for t n u j
    by (simp_all add: stale_claim_def give_up_def repend_def)
  have "list_all (\<lambda>j. \<not> stale_claim t n j)
     (sql_update (\<lambda>j. stale_claim t n j \<and> int (j_attempts j) < m) repend
       (sql_update (\<lambda>j. stale_claim t n j \<and> m \<le> int (j_attempts j)) (give_up t) js))" for t n m js
    by (induction js) (auto simp: g)
  then show ?thesis by (simp add: requeue_stale_def Let_def)
qed

definition open_run_of :: "uuid \<Rightarrow> state \<Rightarrow> bool" where
  "open_run_of r s \<longleftrightarrow> (\<exists>x \<in> set (runs s). run_id x = r \<and> \<not> terminal_run x)"

lemma close_orphans_frame:
  "jobs (close_orphans flt rs s) = jobs s" "deps (close_orphans flt rs s) = deps s"
  "clock (close_orphans flt rs s) = clock s"
  by (induction flt rs s rule: close_orphans.induct) (simp_all add: rollup_frame)

lemma rollup_open: "open_run_of q (rollup_reconcile_run flt r s) \<Longrightarrow> open_run_of q s"
  by (auto simp: open_run_of_def rollup_reconcile_run_def Let_def sql terminal_run_def set_run_running_def
      set_run_final_def split: if_splits)

lemma rollup_closes:
  assumes "r \<noteq> []" "run_inflight r s = 0"
  shows "\<not> open_run_of r (rollup_reconcile_run no_faults r s)"
proof -
  have "\<not> list_ex (\<lambda>x. run_id x = r \<and> \<not> terminal_run x)
      (sql_update (\<lambda>x. run_id x = r \<and> (run_status x = RQueued \<or> run_status x = RRunning))
        (set_run_final t (if c then RFailed else RSucceeded) cs) xs)" for t c cs xs
    by (induction xs) (auto simp: terminal_run_def set_run_final_def)
  with assms show ?thesis by (simp add: open_run_of_def rollup_runs list_ex_iff)
qed

lemma open_run_cong: "runs t = runs s \<Longrightarrow> open_run_of r t \<longleftrightarrow> open_run_of r s"
  by (simp add: open_run_of_def)

lemma close_orphans_open: "open_run_of q (close_orphans flt rs s) \<Longrightarrow> open_run_of q s"
proof (induction flt rs s rule: close_orphans.induct)
  case (2 flt r rs s)
  let ?t = "s\<lparr>steps := sql_update (\<lambda>x. st_run x = r \<and> st_status x = SPlanned) abandon_step (steps s)\<rparr>"
  show ?case
  proof (cases "flt (QReapSteps r) = None")
    case True
    with 2 have "open_run_of q (rollup_reconcile_run flt r ?t)" by simp
    then show ?thesis using rollup_open open_run_cong [of ?t s q] by auto
  qed (use 2 in simp)
qed simp

lemma close_orphans_closes:
  "r \<in> set rs \<Longrightarrow> r \<noteq> [] \<Longrightarrow> run_inflight r s = 0 \<Longrightarrow> \<not> open_run_of r (close_orphans no_faults rs s)"
proof (induction rs arbitrary: s)
  case (Cons q rs)
  let ?t = "s\<lparr>steps := sql_update (\<lambda>x. st_run x = q \<and> st_status x = SPlanned) abandon_step (steps s)\<rparr>"
  have fl: "run_inflight r ?t = 0" using Cons.prems(3) by (simp add: run_inflight_def)
  show ?case
  proof (cases "r \<in> set rs")
    case True
    with Cons fl show ?thesis by (simp add: rollup_counts)
  next
    case False
    with Cons.prems(1) have "q = r" by simp
    have eq: "close_orphans no_faults (q # rs) s = close_orphans no_faults rs (rollup_reconcile_run no_faults q ?t)"
      by simp
    show ?thesis
      unfolding eq using rollup_closes [OF Cons.prems(2) fl] close_orphans_open \<open>q = r\<close> by blast
  qed
qed simp

lemma rollup_keeps_open:
  assumes "x \<in> set (runs (rollup_reconcile_run flt q s))" "\<not> terminal_run x" "run_inflight q s = 0"
  shows "x \<in> set (runs s)"
proof -
  have "terminal_run (set_run_final t RFailed cs y)" "terminal_run (set_run_final t RSucceeded cs y)" for t cs y
    by (simp_all add: terminal_run_def set_run_final_def)
  with assms show ?thesis
    by (auto simp: rollup_reconcile_run_def Let_def sql split: if_splits)
qed

lemma close_orphans_keeps_open:
  "x \<in> set (runs (close_orphans flt rs s)) \<Longrightarrow> \<not> terminal_run x \<Longrightarrow> \<forall>q \<in> set rs. run_inflight q s = 0
     \<Longrightarrow> x \<in> set (runs s)"
proof (induction flt rs s rule: close_orphans.induct)
  case (2 flt r rs s)
  let ?t = "s\<lparr>steps := sql_update (\<lambda>x. st_run x = r \<and> st_status x = SPlanned) abandon_step (steps s)\<rparr>"
  have fl: "run_inflight q ?t = run_inflight q s" for q by (simp add: run_inflight_def)
  show ?case
  proof (cases "flt (QReapSteps r) = None")
    case True
    with 2 fl have "x \<in> set (runs (rollup_reconcile_run flt r ?t))" by (simp add: rollup_counts)
    with rollup_keeps_open [OF this] 2 fl show ?thesis by simp
  qed (use 2 in simp)
qed simp

text \<open>
  C30: one tick of the reaper on the node that holds the lock leaves nothing stuck: no claim older
  than the job timeout, no deployment provisioning for longer than that without an unfinished job,
  and no open operation run of that age without an unfinished reconcile job.
\<close>

theorem reaper_unsticks:
  assumes "\<forall>r \<in> set (runs s). run_id r \<noteq> []"
  shows "\<not> (\<exists>j \<in> set (jobs (reap_stuck no_faults LockFree cfg s)). stale_claim (clock s) (timeout_secs cfg) j)
    \<and> \<not> (\<exists>d \<in> set (deps (reap_stuck no_faults LockFree cfg s)). stuck_provisioning (clock s) (timeout_secs cfg)
            (jobs (reap_stuck no_faults LockFree cfg s)) d)
    \<and> \<not> (\<exists>r \<in> set (runs (reap_stuck no_faults LockFree cfg s)). orphan_run (clock s) (timeout_secs cfg)
            (jobs (reap_stuck no_faults LockFree cfg s)) r)"
proof -
  let ?n = "timeout_secs cfg"
  let ?s1 = "snd (requeue_stale no_faults cfg s)"
  let ?s2 = "reap_deps no_faults ?n ?s1"
  let ?os = "map run_id (filter (orphan_run (clock ?s2) ?n (jobs ?s2)) (runs ?s2))"
  have s3: "reap_stuck no_faults LockFree cfg s = close_orphans no_faults ?os ?s2"
    by (simp add: reap_stuck_def with_try_advisory_lock_def reap_body_def reap_runs_def Let_def)
  have c: "clock ?s2 = clock s" "jobs ?s2 = jobs ?s1" "runs ?s2 = runs s" by (simp_all add: reap_deps_def requeue_frame)
  have "\<not> list_ex (stuck_provisioning t ?n js) (sql_update (stuck_provisioning t ?n js) (fail_dep t) ds)" for t js ds
    by (induction ds) (auto simp: stuck_provisioning_def fail_dep_def)
  then have d: "\<not> list_ex (stuck_provisioning (clock s) ?n (jobs ?s1)) (deps ?s2)"
    by (simp add: reap_deps_def requeue_frame)
  have r: "\<not> orphan_run (clock s) ?n (jobs ?s1) x" if x: "x \<in> set (runs (close_orphans no_faults ?os ?s2))" for x
  proof
    assume o: "orphan_run (clock s) ?n (jobs ?s1) x"
    then have nt: "\<not> terminal_run x" by (auto simp: orphan_run_def terminal_run_def)
    with x have open_end: "open_run_of (run_id x) (close_orphans no_faults ?os ?s2)" by (auto simp: open_run_of_def)
    have fl: "run_inflight (run_id x) ?s2 = 0" using o by (simp add: run_inflight_def orphan_run_def c sql)
    have "run_inflight q ?s2 = 0" if "q \<in> set ?os" for q
      using that by (auto simp: run_inflight_def orphan_run_def sql)
    then have mem: "x \<in> set (runs s)" using close_orphans_keeps_open [OF x nt] c by simp
    then have "run_id x \<in> set ?os" using o by (auto simp: c)
    moreover have "run_id x \<noteq> []" using mem assms by blast
    ultimately show False using close_orphans_closes [OF _ _ fl] open_end by blast
  qed
  have "\<forall>j \<in> set (jobs ?s1). \<not> stale_claim (clock s) ?n j"
    using requeue_no_stale [of s cfg] by (simp add: list_all_iff)
  moreover have "\<forall>x \<in> set (deps ?s2). \<not> stuck_provisioning (clock s) ?n (jobs ?s1) x"
    using d by (simp add: list_ex_iff)
  ultimately show ?thesis using r unfolding s3 close_orphans_frame c by blast
qed

theorem reaper_unsticks_witness:
  "\<not> (\<exists>j \<in> set (jobs (reap_stuck no_faults LockFree demo_config gap_state)).
        stale_claim (clock gap_state) (timeout_secs demo_config) j)"
proof -
  have "list_all (\<lambda>r. run_id r \<noteq> []) (runs gap_state)" by code_simp
  with reaper_unsticks [of gap_state demo_config] show ?thesis by (simp add: list_all_iff)
qed

end
