(* ===== verification/UpgradeProps.thy ===== *)
theory UpgradeProps
  imports ProvisionProps
begin

text \<open>
  The upgrade to two replicas: the port allocator, the all-or-nothing swap under the bounded retry,
  and with it the fact that every dispatched job ends in a terminal status. One theorem shows where
  the retry cannot help.
\<close>

section \<open>Ports\<close>

lemma sorted_upto_filter: "sorted (filter p [a .. b::int])"
  by (simp add: sorted_wrt_filter)

lemma free_ports_set: "set (free_ports cfg s) = {p. cf_port_min cfg \<le> p \<and> p \<le> cf_port_max cfg \<and> p \<notin> set (used_ports s)}"
  by (auto simp: free_ports_def)

lemma take_smallest:
  assumes "sorted xs" "q \<in> set xs" "q \<notin> set (take n xs)" "p \<in> set (take n xs)" shows "p \<le> q"
proof -
  have "q \<in> set (drop n xs)" using assms(2,3) by (metis Un_iff append_take_drop_id set_append)
  moreover have "sorted (take n xs @ drop n xs)" using assms(1) by simp
  ultimately show ?thesis using assms(4) by (simp only: sorted_append)
qed

text \<open>
  The port allocator returns the number of ports asked for, in ascending order without
  repetition, each within the configured range and used by no live deployment and no live replica,
  and no smaller free port is passed over; when it fails there are not that many free ports.
\<close>

theorem allocate_ports_sound:
  "case allocate_ports no_faults k cfg n s of
     Inr ps \<Rightarrow> length ps = n \<and> sorted ps \<and> distinct ps
       \<and> list_all (\<lambda>p. cf_port_min cfg \<le> p \<and> p \<le> cf_port_max cfg
            \<and> list_all (\<lambda>d. d_status d = DDeleted \<or> d_host_port d \<noteq> Some p) (deps s)
            \<and> list_all (\<lambda>r. r_status r = DStopped \<or> r_status r = DFailed \<or> r_port r \<noteq> Some p) (reps s)) ps
       \<and> list_all (\<lambda>q. q \<in> set ps \<or> list_all (\<lambda>p. p \<le> q) ps) (free_ports cfg s)
   | Inl _ \<Rightarrow> card {p. cf_port_min cfg \<le> p \<and> p \<le> cf_port_max cfg \<and> p \<notin> set (used_ports s)} < n"
proof (cases "length (take n (free_ports cfg s)) < n")
  case True
  have "distinct (free_ports cfg s)" by (simp add: free_ports_def)
  then have "card (set (free_ports cfg s)) = length (free_ports cfg s)" by (rule distinct_card)
  with True show ?thesis by (auto simp: allocate_ports_def Let_def free_ports_set)
next
  case False
  let ?ps = "take n (free_ports cfg s)"
  have eq: "allocate_ports no_faults k cfg n s = Inr ?ps" using False by (simp add: allocate_ports_def Let_def)
  have "p \<in> set ?ps \<Longrightarrow> p \<in> set (free_ports cfg s)" for p by (rule in_set_takeD)
  then have free: "p \<in> set ?ps \<Longrightarrow> cf_port_min cfg \<le> p \<and> p \<le> cf_port_max cfg \<and> p \<notin> set (used_ports s)" for p
    by (auto simp: free_ports_set)
  have "list_all (\<lambda>d. d_status d = DDeleted \<or> d_host_port d \<noteq> Some p) (deps s)"
    "list_all (\<lambda>r. r_status r = DStopped \<or> r_status r = DFailed \<or> r_port r \<noteq> Some p) (reps s)"
    if "p \<notin> set (used_ports s)" for p
    using that by (fastforce simp: used_ports_def list_all_iff List.map_filter_def image_iff)+
  moreover have "sorted ?ps" "distinct ?ps" by (simp_all add: free_ports_def sorted_upto_filter sorted_wrt_take)
  moreover have "p \<le> q" if "q \<in> set (free_ports cfg s)" "q \<notin> set ?ps" "p \<in> set ?ps" for p q
    by (rule take_smallest [OF _ that]) (simp add: free_ports_def sorted_upto_filter)
  ultimately show ?thesis using False free by (auto simp: eq list_all_iff)
qed

theorem allocate_ports_sound_witness:
  "\<exists>ps. allocate_ports no_faults 0 demo_config 2 (demo_store DRunning) = Inr ps \<and> length ps = 2 \<and> distinct ps"
proof -
  have "case allocate_ports no_faults 0 demo_config 2 (demo_store DRunning) of Inl _ \<Rightarrow> False | Inr _ \<Rightarrow> True"
    by code_simp
  then obtain ps where "allocate_ports no_faults 0 demo_config 2 (demo_store DRunning) = Inr ps"
    by (auto split: sum.splits)
  with allocate_ports_sound [where k = 0 and cfg = demo_config and n = 2 and s = "demo_store DRunning"] show ?thesis by simp
qed

section \<open>The swap\<close>

lemma insert_replicas_InrD:
  "insert_replicas flt k gen dep us rs = Inr rs' \<Longrightarrow>
     rs' = rs @ map (new_replica gen dep) us \<and> distinct (map up_port us)
     \<and> (\<forall>u \<in> set us. \<forall>r \<in> set rs. r_port r \<noteq> Some (up_port u))"
proof (induction us arbitrary: rs)
  case Nil
  then show ?case by simp
next
  case (Cons u us)
  then have c: "insert_conflict dep u rs = None" "insert_replicas flt k gen dep us (rs @ [new_replica gen dep u]) = Inr rs'"
    by (auto split: option.splits)
  have p: "r_port (new_replica gen dep u) = Some (up_port u)" by (simp add: new_replica_def)
  from Cons.IH [OF c(2)] c(1) p show ?case
    by (auto simp: insert_conflict_def sql split: if_splits)
qed

lemma provision_indexes:
  "provision_replicas w j pub site ps u = (None, u') \<Longrightarrow>
     map up_index (us_replicas u') = map up_index (us_replicas u) @ map fst ps"
proof (induction ps arbitrary: u)
  case Nil
  then show ?case by simp
next
  case (Cons p ps)
  obtain idx port where p: "p = (idx, port)" by fastforce
  let ?sp = "replica_spec j pub site idx port"
  from Cons.prems p obtain i t where "call_out (provision_call ?sp) (dk_provision (wk_docker w) ?sp) (us_state u) = (Ok i, t)"
    "provision_replicas w j pub site ps (u\<lparr>us_state := t,
        us_replicas := us_replicas u @ [\<lparr>up_index = idx, up_port = port, up_info = i\<rparr>]\<rparr>) = (None, u')"
    by (auto simp: Let_def split: prod.splits outcome.splits)
  with Cons.IH p show ?case by fastforce
qed

definition rows_are :: "deployment list \<Rightarrow> replica list \<Rightarrow> state \<Rightarrow> bool" where
  "rows_are D R s \<longleftrightarrow> deps s = D \<and> reps s = R"

text \<open>What a committed upgrade leaves of the tables \<open>D\<close> and \<open>R\<close>.\<close>

definition upgraded :: "(int \<Rightarrow> uuid) \<Rightarrow> claimed_job \<Rightarrow> deployment list \<Rightarrow> replica list \<Rightarrow> state \<Rightarrow> bool" where
  "upgraded gen j D R s \<longleftrightarrow> (\<exists>u0 u1 now. up_index u0 = 0 \<and> up_index u1 = 1 \<and> up_port u0 \<noteq> up_port u1
     \<and> (\<exists>d \<in> set D. d_id d = cj_deployment j \<and> d_status d = DRunning \<and> \<not> d_adopted d \<and> \<not> d_ha d)
     \<and> (\<forall>d \<in> set D. d_id d \<noteq> cj_deployment j \<longrightarrow> d_host_port d \<noteq> Some (up_port u0))
     \<and> deps s = map (\<lambda>d. if d_id d = cj_deployment j then upgrade_dep now u0 d else d) D
     \<and> reps s = map (\<lambda>r. if r_deployment r = cj_deployment j \<and> r_index r = 0 then retire_replica r else r) R
          @ [new_replica gen (cj_deployment j) u0, new_replica gen (cj_deployment j) u1])"

definition swapped :: "claimed_job \<Rightarrow> up_state \<Rightarrow> bool" where
  "swapped j u \<longleftrightarrow> settled (cj_id j) (us_state u)"

lemma attempt_swap:
  assumes "upgrade_attempt w flt cfg gen mig j k u = (None, u')"
  shows "\<exists>s us. map up_index us = [0, 1] \<and> finish_upgrade_swap flt k gen j us s = (None, us_state u')"
proof -
  from assms obtain s1 ports u2 pub site where
    a: "allocate_ports flt k cfg 2 s1 = Inr ports"
    and p: "provision_replicas w j pub site (zip [0..int (length ports) - 1] ports) (u\<lparr>us_state := s1, us_replicas := []\<rparr>) = (None, u2)"
    and m: "migrate_and_swap w flt gen mig j k u2 = (None, u')"
    by (auto simp: upgrade_attempt_def Let_def split: bool.splits sum.splits prod.splits option.splits)
  have l: "length ports = 2" using a by (auto simp: allocate_ports_def Let_def split: option.splits if_splits)
  then have "[0..int (length ports) - 1] = [0, 1]" by (simp add: upto.simps)
  with provision_indexes [OF p] l have "map up_index (us_replicas u2) = [0, 1]" by simp
  moreover from m obtain s where "finish_upgrade_swap flt k gen j (us_replicas u2) s = (None, us_state u')"
    by (auto simp: migrate_and_swap_def Let_def split: outcome.splits prod.splits)
  ultimately show ?thesis by (intro exI conjI)
qed

interpretation upgrade: retried_attempt "upgrade_attempt w flt cfg gen mig j" "\<lambda>_. True" "swapped j"
  for w flt cfg gen mig j
  by unfold_locales (auto simp: swapped_def dest!: attempt_swap settled_swap)

lemma rows_swap:
  assumes "rows_are D R s" "finish_upgrade_swap flt k gen j us s = (None, s')" "map up_index us = [0, 1]"
  shows "upgraded gen j D R s'"
proof -
  let ?dep = "cj_deployment j"
  from swap_NoneD [OF assms(2)] obtain d rs where
    d: "find_dep ?dep s = Some d" "d_status d = DRunning" "\<not> d_adopted d" "\<not> d_ha d" and
    ins: "insert_replicas flt k gen ?dep us (sql_update (legacy_row ?dep) retire_replica (reps s)) = Inr rs" and
    free: "\<not> port_taken ?dep (up_port (hd us)) (deps s)" and
    s': "s' = s\<lparr>reps := rs, deps := sql_update (\<lambda>x. d_id x = ?dep) (upgrade_dep (clock s) (hd us)) (deps s),
         jobs := sql_update (\<lambda>x. j_id x = cj_id j) (set_done (clock s)) (jobs s)\<rparr>" by blast
  from assms(3) obtain u0 u1 where us: "us = [u0, u1]" "up_index u0 = 0" "up_index u1 = 1"
    by (auto simp: map_eq_Cons_conv)
  from insert_replicas_InrD [OF ins] us have rs: "rs = sql_update (legacy_row ?dep) retire_replica R
      @ [new_replica gen ?dep u0, new_replica gen ?dep u1]" "up_port u0 \<noteq> up_port u1"
    using assms(1) by (auto simp: rows_are_def)
  have "d \<in> set D" "d_id d = ?dep" using find_dep_SomeD [OF d(1)] assms(1) by (auto simp: rows_are_def)
  moreover have "\<forall>d \<in> set D. d_id d \<noteq> ?dep \<longrightarrow> d_host_port d \<noteq> Some (up_port u0)"
    using free us(1) assms(1) by (auto simp: port_taken_def sql rows_are_def)
  moreover have "deps s' = map (\<lambda>d. if d_id d = ?dep then upgrade_dep (clock s) u0 d else d) D"
    using us(1) assms(1) by (simp add: s' rows_are_def sql_update_def)
  moreover have "reps s' = map (\<lambda>r. if r_deployment r = ?dep \<and> r_index r = 0 then retire_replica r else r) R
      @ [new_replica gen ?dep u0, new_replica gen ?dep u1]"
    using rs(1) by (simp add: s' sql_update_def legacy_row_def)
  ultimately show ?thesis unfolding upgraded_def using us(2,3) rs(2) d(2-4) by blast
qed

lemma rows_call: "ext_keeps (rows_are D R) f \<Longrightarrow> rows_are D R s \<Longrightarrow> call_out c f s = (r, t) \<Longrightarrow> rows_are D R t"
  unfolding call_out_def by (erule ext_keepsD) (simp_all add: rows_are_def log_call_def)

lemma upgraded_call:
  "(\<And>D R. ext_keeps (rows_are D R) f) \<Longrightarrow> upgraded gen j D R s \<Longrightarrow> call_out c f s = (r, t) \<Longrightarrow> upgraded gen j D R t"
  using rows_call [of "deps s" "reps s" f s c r t] by (simp add: upgraded_def rows_are_def)

lemma upgraded_mark: "upgraded gen j D R (mark_job_failed flt i e s) = upgraded gen j D R s"
  "rows_are D R (mark_job_failed flt i e s) = rows_are D R s"
  by (simp_all add: upgraded_def rows_are_def mark_job_failed_def)

lemma rows_cleanup:
  "rows_are D R s \<Longrightarrow> worker_keeps (rows_are D R) w \<Longrightarrow> rows_are D R (snd (cleanup_upgrade_replicas w n us s))"
proof (induction us arbitrary: s)
  case (Cons u us)
  obtain x t where c: "call_out (CDestroyReplica n (up_index u) True)
      (dk_destroy_replica (wk_docker w) n (up_index u) True) s = (x, t)" by fastforce
  have "rows_are D R t" using rows_call [OF dispatcher_keepsD(3) [OF worker_keeps_docker] Cons.prems(1) c] Cons.prems(2)
    by blast
  with Cons c show ?case by (cases x) auto
qed simp

lemma rows_provision:
  "rows_are D R (us_state u) \<Longrightarrow> worker_keeps (rows_are D R) w
     \<Longrightarrow> rows_are D R (us_state (snd (provision_replicas w j pub site ps u)))"
proof (induction ps arbitrary: u)
  case (Cons p ps)
  obtain idx port where p: "p = (idx, port)" by fastforce
  let ?sp = "replica_spec j pub site idx port"
  obtain x t where c: "call_out (provision_call ?sp) (dk_provision (wk_docker w) ?sp) (us_state u) = (x, t)"
    by fastforce
  have "rows_are D R t" using rows_call [OF dispatcher_keepsD(1) [OF worker_keeps_docker] Cons.prems(1) c] Cons.prems(2)
    by blast
  with Cons c p show ?case by (cases x) (auto simp: Let_def)
qed simp

text \<open>One attempt: nothing written on an error, the whole swap on success.\<close>

lemma rows_attempt:
  assumes "rows_are D R (us_state u)" "worker_keeps (rows_are D R) w" "wk_migrate w = Some mig"
    and "upgrade_attempt w flt cfg gen mig j k u = (e, u')"
  shows "if e = None then upgraded gen j D R (us_state u') else rows_are D R (us_state u')"
proof -
  obtain b s1 where c: "cleanup_upgrade_replicas w (cj_name j) (us_replicas u) (us_state u) = (b, s1)" by fastforce
  have s1: "rows_are D R s1" using rows_cleanup [OF assms(1,2), of "cj_name j" "us_replicas u"] c by simp
  show ?thesis
  proof (cases "b \<or> (\<exists>x. allocate_ports flt k cfg 2 s1 = Inl x)")
    case True
    with c s1 assms(4) show ?thesis by (cases b) (auto simp: upgrade_attempt_def Let_def)
  next
    case False
    then obtain ports where a: "\<not> b" "allocate_ports flt k cfg 2 s1 = Inr ports" by (cases "allocate_ports flt k cfg 2 s1") auto
    then have l: "length ports = 2" by (auto simp: allocate_ports_def Let_def split: option.splits if_splits)
    then have z: "[0..int (length ports) - 1] = [0, 1]" by (simp add: upto.simps)
    let ?pub = "compute_public_origin (wk_config w) flt (cj_deployment j) (cj_name j) (hd ports) s1"
    let ?site = "compute_site_origin (wk_config w) flt (cj_deployment j) (cj_name j) s1"
    obtain e2 u2 where p: "provision_replicas w j ?pub ?site (zip [0, 1] ports)
        (u\<lparr>us_state := s1, us_replicas := []\<rparr>) = (e2, u2)" by fastforce
    have u2: "rows_are D R (us_state u2)"
      using rows_provision [of D R "u\<lparr>us_state := s1, us_replicas := []\<rparr>" w j ?pub ?site "zip [0, 1] ports"]
        s1 assms(2) p by simp
    have att: "upgrade_attempt w flt cfg gen mig j k u = (case e2 of Some e \<Rightarrow> (Some e, u2) | None \<Rightarrow> migrate_and_swap w flt gen mig j k u2)"
      using c a p z by (simp add: upgrade_attempt_def Let_def)
    show ?thesis
    proof (cases e2)
      case None
      from provision_indexes [OF p [unfolded None]] l have us: "map up_index (us_replicas u2) = [0, 1]" by simp
      obtain x t where m: "call_out (CMigrate (ms_source (migration j)) (ms_targets (migration j))) (mig (migration j)) (us_state u2) = (x, t)"
        by fastforce
      have t: "rows_are D R t" using rows_call [OF _ u2 m] assms(2,3) by (simp add: worker_keeps_def)
      have sw: "finish_upgrade_swap flt k gen j (us_replicas u2) t = (y, s') \<Longrightarrow>
          (if y = None then upgraded gen j D R s' else rows_are D R s')" for y s'
        using rows_swap [OF t _ us] swap_SomeD t by (cases y) fastforce+
      show ?thesis
        using assms(4) att None m t
        by (auto simp: migrate_and_swap_def Let_def split: outcome.splits prod.splits if_splits dest: sw)
    next
      case (Some e)
      with att assms(4) u2 show ?thesis by auto
    qed
  qed
qed

text \<open>
  The upgrade is all or nothing. Whatever fails or panics, and however often the swap is
  retried, either no deployment row and no replica row has changed, or the whole swap has: the row
  was running, managed and single-replica and is now a two-replica deployment on a port no other
  deployment holds, its old replica is retired, and exactly two running replicas with indices 0
  and 1 on different ports are added.
\<close>

theorem upgrade_all_or_nothing:
  assumes "\<And>D R. worker_keeps (rows_are D R) w"
  shows "rows_are (deps s) (reps s) (run_upgrade_to_ha w flt cfg gen cancelled j s)
    \<or> upgraded gen j (deps s) (reps s) (run_upgrade_to_ha w flt cfg gen cancelled j s)"
proof (cases "wk_migrate w = None \<or> cj_storage j = None \<or> cj_admin_key j = [] \<or> cj_secret j = []
    \<or> ensure_upgradeable flt j s \<noteq> None")
  case True
  then have "\<exists>m. run_upgrade_to_ha w flt cfg gen cancelled j s = mark_job_failed flt (cj_id j) m s"
    by (auto simp: run_upgrade_to_ha_def split: option.splits)
  then show ?thesis by (auto simp: upgraded_mark) (simp add: rows_are_def)
next
  case False
  then obtain mig where mig: "wk_migrate w = Some mig" by (cases "wk_migrate w") auto
  let ?D = "deps s" and ?R = "reps s" and ?u0 = "\<lparr>us_state = s, us_replicas = [], us_panicked = False\<rparr>"
  have att: "retried_attempt (upgrade_attempt w flt cfg gen mig j) (\<lambda>u. rows_are ?D ?R (us_state u))
      (\<lambda>u. upgraded gen j ?D ?R (us_state u))"
    by unfold_locales (use rows_attempt [OF _ assms mig] in fastforce)+
  obtain e u where r: "with_retry_on_unique_violation cancelled 5 (upgrade_attempt w flt cfg gen mig j) ?u0 = (e, u)"
    by fastforce
  have s0: "rows_are ?D ?R (us_state ?u0)" by (simp add: rows_are_def)
  have ok: "if e = None then upgraded gen j ?D ?R (us_state u) else rows_are ?D ?R (us_state u)"
    using retried_attempt.retry_won [OF att s0] retried_attempt.retry_lost [OF att s0] r by (cases e) auto
  have clean: "rows_are ?D ?R (us_state u) \<Longrightarrow> cleanup_upgrade_replicas w n us (us_state u) = (b, t) \<Longrightarrow> rows_are ?D ?R t"
    for n us b t using rows_cleanup [OF _ assms, of ?D ?R "us_state u" n us] by simp
  have stop: "upgraded gen j ?D ?R (us_state u) \<Longrightarrow> call_out c (dk_stop (wk_docker w) n) (us_state u) = (x, t)
      \<Longrightarrow> upgraded gen j ?D ?R t" for c n x t
    using upgraded_call [OF dispatcher_keepsD(4) [OF worker_keeps_docker [OF assms]]] by blast
  have "run_upgrade_to_ha w flt cfg gen cancelled j s =
      (if us_panicked u then mark_job_failed flt (cj_id j) ''panic in upgrade_to_ha worker'' (us_state u)
       else case e of
         Some err \<Rightarrow> (case cleanup_upgrade_replicas w (cj_name j) (us_replicas u) (us_state u) of
             (True, t) \<Rightarrow> mark_job_failed flt (cj_id j) ''panic in upgrade_to_ha worker'' t
           | (False, t) \<Rightarrow> mark_job_failed flt (cj_id j) (error_text err) t)
       | None \<Rightarrow> (case call_out (CStop (cj_name j)) (dk_stop (wk_docker w) (cj_name j)) (us_state u) of
             (Panic, t) \<Rightarrow> mark_job_failed flt (cj_id j) ''panic in upgrade_to_ha worker'' t
           | (_, t) \<Rightarrow> t))"
    using False mig r by (cases "cj_storage j") (simp_all add: run_upgrade_to_ha_def)
  then show ?thesis
    using ok clean stop
    by (auto simp: upgraded_mark split: if_splits option.splits prod.splits bool.splits outcome.splits)
qed

lemma settled_run_upgrade:
  assumes "worker_keeps (settled (cj_id j)) w"
  shows "settled (cj_id j) (run_upgrade_to_ha w no_faults cfg gen cancelled j s)"
proof -
  have stop: "settled (cj_id j) t" if "call_out c (dk_stop (wk_docker w) n) u = (x, t)" "settled (cj_id j) u" for c n u x t
    using settled_call [OF dispatcher_keepsD(4) [OF worker_keeps_docker [OF assms]] that(2,1)] .
  have won: "settled (cj_id j) (us_state u)"
    if "with_retry_on_unique_violation cancelled 5 (upgrade_attempt w no_faults cfg gen mig j) v = (None, u)" for mig v u
    using upgrade.retry_won [OF TrueI that] by (simp add: swapped_def)
  show ?thesis
    by (auto simp: run_upgrade_to_ha_def split: option.splits prod.splits bool.splits outcome.splits if_splits
        dest: won stop)
qed


definition demo_up :: claimed_job where
  "demo_up = demo_job KUpgradeToHA\<lparr>cj_storage := Some \<lparr>se_postgres = [], se_no_ssl = True, se_endpoint = [],
     se_region = [], se_access = [], se_secret = [], se_files = [], se_modules = [], se_search = [],
     se_exports = [], se_snapshots = []\<rparr>\<rparr>"

definition demo_replica :: "uuid \<Rightarrow> uuid \<Rightarrow> int \<Rightarrow> dep_status \<Rightarrow> int \<Rightarrow> replica" where
  "demo_replica i dep n st p = \<lparr>r_id = i, r_deployment = dep, r_index = n, r_container = None, r_port = Some p,
     r_status = st, r_last_seen = None\<rparr>"

definition demo_single :: "replica list \<Rightarrow> state" where
  "demo_single rs = (demo_store DRunning)\<lparr>reps := demo_replica ''r0'' ''d1'' 0 DRunning 3210 # rs,
     jobs := jobs demo_queued\<rparr>"

theorem upgrade_all_or_nothing_witness:
  "upgraded (\<lambda>_. ''g'') demo_up (deps (demo_single [])) (reps (demo_single []))
     (run_upgrade_to_ha demo_worker no_faults demo_config (\<lambda>_. ''g'') (\<lambda>_. False) demo_up (demo_single []))"
proof -
  have "map d_ha (deps (run_upgrade_to_ha demo_worker no_faults demo_config (\<lambda>_. ''g'') (\<lambda>_. False) demo_up (demo_single []))) = [True]"
    "map d_ha (deps (demo_single [])) = [False]"
    by code_simp+
  then have "\<not> rows_are (deps (demo_single [])) (reps (demo_single []))
     (run_upgrade_to_ha demo_worker no_faults demo_config (\<lambda>_. ''g'') (\<lambda>_. False) demo_up (demo_single []))"
    by (auto simp: rows_are_def)
  with upgrade_all_or_nothing [OF demo_worker_keeps, of "demo_single []" no_faults demo_config "\<lambda>_. ''g''" "\<lambda>_. False" demo_up]
  show ?thesis by blast
qed


text \<open>
  Where the retry cannot help. A stopped replica keeps its port under the unique constraint,
  but the allocator offers that port as free, and offers the same two ports to every attempt: the
  upgrade builds and destroys two containers five times and fails, with free ports left in the range.
\<close>

theorem upgrade_port_conflict_repeats:
  "let s = run_upgrade_to_ha demo_worker no_faults demo_config (\<lambda>_. ''g'') (\<lambda>_. False) demo_up
             (demo_single [demo_replica ''r9'' ''d9'' 0 DStopped 3211])
   in map j_status (jobs s) = [JFailed] \<and> map d_ha (deps s) = [False]
    \<and> length (filter (\<lambda>c. case c of CProvision _ _ _ \<Rightarrow> True | _ \<Rightarrow> False) (calls s)) = 10
    \<and> map j_error (jobs s) = [Some (''duplicate key value violates unique constraint ''
          @ ''deployment_replicas_host_port_key'')]
    \<and> free_ports demo_config s = [3211, 3212, 3213, 3214]"
  by code_simp

end
