(* ===== verification/BackupProps.thy ===== *)
theory BackupProps
  imports UpgradeProps
begin

text \<open>
  Backup and restore jobs: a backup is recorded complete only with its archive, a restore imports
  nothing but a complete backup, and neither writes a deployment or a replica; with the two helpers
  of the worker that decide what leaves the process: the substring scan behind the Postgres TLS
  heuristic and the filter on variables pushed to a backend.
\<close>

section \<open>Backup\<close>

lemma fail_backup_rows:
  "b \<in> set (backups (fail_backup no_faults valid j m s)) \<Longrightarrow> b_id b = cj_backup j \<Longrightarrow> b_status b = BFailed"
  by (auto simp: fail_backup_def mark_job_failed_def sql fail_backup_row_def split: if_splits)

lemma mark_backups [simp]:
  "backups (mark_job_failed flt i e s) = backups s" "backups (mark_done flt i s) = backups s"
  "backups (log_call c s) = backups s"
  by (simp_all add: mark_job_failed_def mark_done_def log_call_def)

lemma start_backup_rows:
  "b \<in> set (backups (start_backup j s)) \<Longrightarrow> b_id b = cj_backup j \<Longrightarrow> b_status b = BRunning"
  by (auto simp: start_backup_def sql split: if_splits)

lemma finish_backup_rows:
  "b \<in> set (backups (finish_backup no_faults j n s)) \<Longrightarrow> b_id b = cj_backup j \<Longrightarrow> b_size b = Some n"
  by (auto simp: finish_backup_def sql complete_backup_row_def split: if_splits)

text \<open>
  A backup job leaves its row complete only if the export into the row's archive path succeeded
  and the archive is there, and the size recorded is the size of that archive.
\<close>

theorem backup_complete_needs_archive:
  assumes "wk_backups w = Some bk"
    and ext: "\<And>sp X. ext_keeps (\<lambda>s. backups s = X) (bk_export bk sp)"
    and "b' \<in> set (backups (snd (run_backup w no_faults valid j s)))" "b_id b' = cj_backup j"
    and "b_status b' = BComplete" "\<And>b. b \<in> set (backups s) \<Longrightarrow> b_id b = cj_backup j \<Longrightarrow> b_status b \<noteq> BComplete"
  shows "\<exists>b sp s1 s2 n. find_backup (cj_backup j) s = Some b \<and> xs_path sp = b_path b
    \<and> bk_export bk sp s1 = (Ok (), s2) \<and> bk_stat bk (b_path b) s2 = Inr n \<and> b_size b' = Some n"
proof (cases "cj_backup j = [] \<or> find_backup (cj_backup j) s = None")
  case True
  then have "\<exists>m. snd (run_backup w no_faults valid j s) = mark_job_failed no_faults (cj_id j) m s
      \<or> snd (run_backup w no_faults valid j s) = fail_backup no_faults valid j m s"
    by (auto simp: run_backup_def assms(1))
  moreover have "b' \<notin> set (backups s)" using assms(4-6) by blast
  ultimately have False using assms(3-5) fail_backup_rows [of b' valid j] by auto
  then show ?thesis ..
next
  case False
  then obtain b where b: "find_backup (cj_backup j) s = Some b" "cj_backup j \<noteq> []" by auto
  let ?s1 = "start_backup j s"
  have not_failed: "b' \<notin> set (backups (fail_backup no_faults valid j m t))" for m t
    using fail_backup_rows assms(4,5) by fastforce
  obtain src where src: "backup_endpoint_url no_faults j ?s1 = Inr src"
    using assms(3) b not_failed by (cases "backup_endpoint_url no_faults j ?s1") (auto simp: run_backup_def assms(1) Let_def)
  let ?sp = "\<lparr>xs_name = cj_name j, xs_deployment = cj_deployment j, xs_project = cj_project j, xs_source = src,
      xs_admin_key = cj_admin_key j, xs_path = b_path b\<rparr>"
  obtain r s2 where x: "bk_export bk ?sp (log_call (CExport src (b_path b)) ?s1) = (r, s2)" by fastforce
  have s2: "backups s2 = backups ?s1" using ext_keepsD [OF ext _ x] by simp
  then have "b' \<notin> set (backups s2)" using start_backup_rows assms(4,5) by fastforce
  with assms(3) b src x not_failed obtain n where
    n: "r = Ok ()" "bk_stat bk (b_path b) s2 = Inr n" "b' \<in> set (backups (finish_backup no_faults j n s2))"
    by (cases r; cases "bk_stat bk (b_path b) s2") (auto simp: run_backup_def assms(1) Let_def call_out_def)
  have "b_size b' = Some n" by (rule finish_backup_rows [OF n(3) assms(4)])
  moreover have "xs_path ?sp = b_path b" by simp
  ultimately show ?thesis using b(1) x [unfolded n(1)] n(2) by blast
qed

definition demo_backup :: "backup_status \<Rightarrow> backup" where
  "demo_backup st = \<lparr>b_id = ''b1'', b_deployment = ''d1'', b_status = st, b_path = ''d1/b1.zip'', b_size = None,
     b_error = [], b_requested_by = None, b_created = 0, b_completed = None, b_restored = None\<rparr>"

definition demo_backup_state :: "backup_status \<Rightarrow> state" where
  "demo_backup_state st = (demo_store DRunning)\<lparr>backups := [demo_backup st]\<rparr>"

definition demo_backup_job :: "job_kind \<Rightarrow> claimed_job" where
  "demo_backup_job k = demo_job k\<lparr>cj_backup := ''b1''\<rparr>"

theorem backup_complete_needs_archive_witness:
  "\<exists>n. map b_size (backups (snd (run_backup demo_worker no_faults (\<lambda>x. x) (demo_backup_job KBackup)
     (demo_backup_state BPending)))) = [Some n] \<and> bk_stat demo_backups ''d1/b1.zip'' empty_state = Inr n"
proof -
  let ?t = "snd (run_backup demo_worker no_faults (\<lambda>x. x) (demo_backup_job KBackup) (demo_backup_state BPending))"
  have w: "wk_backups demo_worker = Some demo_backups" by (simp add: demo_worker_def)
  have k: "ext_keeps I (bk_export demo_backups sp)" for I sp by (simp add: demo_backups_def)
  have len: "length (backups ?t) = 1" by code_simp
  then obtain b' where b': "backups ?t = [b']" by (cases "backups ?t") auto
  have st: "map b_status (backups ?t) = [BComplete]" "map b_id (backups ?t) = [''b1'']"
    "list_all (\<lambda>b. b_status b \<noteq> BComplete) (backups (demo_backup_state BPending))"
    "cj_backup (demo_backup_job KBackup) = ''b1''" by code_simp+
  have stat: "bk_stat demo_backups p u = Inr 7" for p u by (simp add: demo_backups_def)
  from backup_complete_needs_archive [OF w k, of b' "\<lambda>x. x" "demo_backup_job KBackup" "demo_backup_state BPending"] b' st
  show ?thesis by (auto simp: list_all_iff stat)
qed

section \<open>Restore\<close>

text \<open>
  A restore job reaches the import tool only for a backup that is recorded complete; whatever it
  does, no backup row changes its status, and no deployment and no replica row changes.
\<close>

theorem restore_needs_complete_backup:
  assumes "\<And>D R. worker_keeps (rows_are D R) w" "\<And>X. worker_keeps (\<lambda>s. map b_status (backups s) = X) w"
  shows "(calls (snd (run_restore w flt j s)) \<noteq> calls s \<longrightarrow>
      (\<exists>b. find_backup (cj_backup j) s = Some b \<and> b_status b = BComplete))
    \<and> rows_are (deps s) (reps s) (snd (run_restore w flt j s))
    \<and> map b_status (backups (snd (run_restore w flt j s))) = map b_status (backups s)"
proof -
  have mk: "calls (mark_job_failed flt i e s) = calls s" "rows_are (deps s) (reps s) (mark_job_failed flt i e s)" for i e
    by (simp_all add: mark_job_failed_def rows_are_def)
  show ?thesis
  proof (cases "\<exists>bk b ts. cj_backup j \<noteq> [] \<and> wk_backups w = Some bk \<and> flt QRestoreLoad = None
      \<and> find_backup (cj_backup j) s = Some b \<and> b_status b = BComplete \<and> restore_target_urls flt j s = Inr ts")
    case False
    then have "\<exists>m. run_restore w flt j s = (False, mark_job_failed flt (cj_id j) m s)"
      by (auto simp: run_restore_def Let_def split: option.splits sum.splits)
    then show ?thesis using mk by auto
  next
    case True
    then obtain bk b ts where h: "cj_backup j \<noteq> []" "wk_backups w = Some bk" "flt QRestoreLoad = None"
      "find_backup (cj_backup j) s = Some b" "b_status b = BComplete" "restore_target_urls flt j s = Inr ts" by blast
    let ?sp = "\<lparr>is_name = cj_name j, is_deployment = cj_deployment j, is_project = cj_project j, is_targets = ts,
        is_admin_key = cj_admin_key j, is_path = b_path b\<rparr>"
    obtain r t where x: "bk_import bk ?sp (log_call (CImport ts (b_path b)) s) = (r, t)" by fastforce
    have k: "ext_keeps (rows_are D R) (bk_import bk ?sp)" "ext_keeps (\<lambda>s. map b_status (backups s) = X) (bk_import bk ?sp)" for D R X
      using assms h(2) by (simp_all add: worker_keeps_def)
    have t: "rows_are (deps s) (reps s) t" "map b_status (backups t) = map b_status (backups s)"
      using ext_keepsD [OF k(1) _ x, of "deps s" "reps s"] ext_keepsD [OF k(2) _ x, of "map b_status (backups s)"]
      by (simp_all add: rows_are_def log_call_def)
    have st: "map b_status (sql_update p (\<lambda>b. b\<lparr>b_restored := y\<rparr>) bs) = map b_status bs" for p y bs
      by (induction bs) auto
    show ?thesis
      using h x t
      by (cases r) (auto simp: run_restore_def Let_def call_out_def mark_job_failed_def mark_done_def stamp_restored_def
          rows_are_def st)
  qed
qed

theorem restore_needs_complete_backup_witness:
  "\<exists>b. find_backup ''b1'' (demo_backup_state BComplete) = Some b \<and> b_status b = BComplete"
proof -
  let ?j = "demo_backup_job KRestore"
  have "calls (snd (run_restore demo_worker no_faults ?j (demo_backup_state BComplete))) \<noteq> calls (demo_backup_state BComplete)"
    "cj_backup ?j = ''b1''" by code_simp+
  with restore_needs_complete_backup [OF demo_worker_keeps demo_worker_keeps, of no_faults ?j "demo_backup_state BComplete"]
  show ?thesis by simp
qed

section \<open>The TLS heuristic\<close>

text \<open>
  The hand-written substring test of the worker is substring containment, so the Postgres TLS
  requirement is dropped exactly when the URL contains none of the three \<open>sslmode\<close> settings.
\<close>

theorem contains_is_substring:
  "(contains s sub \<longleftrightarrow> sublist sub s)
   \<and> (has_ssl_prefix url \<longleftrightarrow> sublist ''sslmode=require'' url \<or> sublist ''sslmode=verify-ca'' url
        \<or> sublist ''sslmode=verify-full'' url)"
proof -
  have main: "contains s sub \<longleftrightarrow> sublist sub s" for s sub
  proof
    assume "contains s sub"
    then have "index_from s sub 0 = int (nat (index_from s sub 0))" by (simp add: contains_def index_of_def)
    from index_from_hit [OF this] have "take (length sub) (drop (nat (index_from s sub 0)) s) = sub" by simp
    then have "s = take (nat (index_from s sub 0)) s @ sub @ drop (length sub) (drop (nat (index_from s sub 0)) s)"
      by (metis append_take_drop_id)
    then show "sublist sub s" unfolding sublist_def by blast
  next
    assume "sublist sub s"
    then obtain p q where s: "s = p @ sub @ q" by (auto simp: sublist_def)
    then have "0 \<le> index_from s sub 0" using index_from_miss [of s sub 0 "length p"] by fastforce
    with s show "contains s sub" by (simp add: contains_def index_of_def)
  qed
  show ?thesis by (simp add: main has_ssl_prefix_def)
qed

section \<open>Variables pushed to a backend\<close>

text \<open>
  The filter keeps the order and the values of the variables it lets through, drops exactly the
  names the CLI manages (up to surrounding white space), and reports each name it dropped; after it
  no managed name is left.
\<close>

theorem filter_managed_split:
  "filter_managed cs = (filter (\<lambda>c. \<not> is_managed_name (fst c)) cs, map fst (filter (\<lambda>c. is_managed_name (fst c)) cs))
   \<and> filter_managed (fst (filter_managed cs)) = (fst (filter_managed cs), [])"
proof -
  have eq: "filter_managed cs = (filter (\<lambda>c. \<not> is_managed_name (fst c)) cs, map fst (filter (\<lambda>c. is_managed_name (fst c)) cs))" for cs
    by (induction cs) auto
  show ?thesis by (simp add: eq)
qed

end
