(* ===== verification/Health.thy ===== *)
theory Health
  imports QueueInv Samples
begin

text \<open>
  Package health: the sweep that reconciles the status of replicas and deployments with what Docker
  (local, or over SSH for a remote host) and an HTTP probe (adopted deployments) report, with the
  optional auto-restart and the deployment-down alert. Docker, the restarter, the remote reporters
  and the HTTP client are arguments. The alert is sent from a goroutine of its own: it is recorded
  in the trace and leaves the state alone.
\<close>

section \<open>Configuration and collaborators\<close>

datatype hsite = HList | HScan | HReplica uuid | HAggregate uuid | HDeployment uuid
  | HRestartFailed uuid | HRestartDone uuid | HAdoptedList | HAdopted uuid

type_synonym hfaults = "hsite \<Rightarrow> bool"

record health_config =
  hc_interval :: int
  hc_timeout :: int
  hc_auto :: bool
  hc_delay :: int

definition health_sane :: "health_config \<Rightarrow> health_config" where
  "health_sane c = c\<lparr>
     hc_interval := (if hc_interval c < second then 30 * second else hc_interval c),
     hc_timeout := (if hc_timeout c \<le> 0 then 5 * second else hc_timeout c),
     hc_delay := (if hc_delay c \<le> 0 then 2 * second else hc_delay c)\<rparr>"

text \<open>An answer or an error, and the state other processes left meanwhile.\<close>

type_synonym 'a reply = "state \<Rightarrow> (string + 'a) \<times> state"

record status_reporter =
  sr_status :: "string \<Rightarrow> string reply"
  sr_replica :: "string \<Rightarrow> int \<Rightarrow> string reply"

record restarter =
  rs_restart :: "string \<Rightarrow> unit reply"
  rs_replica :: "string \<Rightarrow> int \<Rightarrow> unit reply"

record remote_reporter =
  rr_status :: "string \<Rightarrow> string reply"
  rr_restart :: "string \<Rightarrow> unit reply"

record health =
  hl_docker :: status_reporter
  hl_restarter :: "restarter option"
  hl_alerter :: bool
  hl_config :: health_config
  hl_remote :: "(target \<Rightarrow> remote_reporter option) option"
  hl_http :: "string \<Rightarrow> int reply"        \<comment> \<open>GET: the status code\<close>

section \<open>classify\<close>

definition classify :: "string \<Rightarrow> dep_status option" where
  "classify st = (if st = [] then Some DStopped
     else if st = ''exited'' then Some DStopped
     else if st = ''dead'' then Some DFailed
     else if st = ''paused'' then Some DStopped
     else None)"

section \<open>The replicas to check\<close>

record replica_item =
  hi_replica :: uuid
  hi_dep :: uuid
  hi_name :: string
  hi_index :: int
  hi_ha :: bool
  hi_host :: uuid
  hi_remote :: bool
  hi_tailnet :: string
  hi_user :: string
  hi_port :: int

definition health_item :: "replica \<Rightarrow> deployment \<Rightarrow> host option \<Rightarrow> replica_item" where
  "health_item r d h = \<lparr>hi_replica = r_id r, hi_dep = d_id d, hi_name = d_name d, hi_index = r_index r,
     hi_ha = d_ha d, hi_host = d_host d,
     hi_remote = (case h of None \<Rightarrow> False | Some x \<Rightarrow> h_is_remote x),
     hi_tailnet = (case h of None \<Rightarrow> [] | Some x \<Rightarrow> text_of (h_tailnet x)),
     hi_user = (case h of None \<Rightarrow> [] | Some x \<Rightarrow> h_ssh_user x),
     hi_port = (case h of None \<Rightarrow> 0 | Some x \<Rightarrow> h_ssh_port x)\<rparr>"

definition running_items :: "state \<Rightarrow> replica_item list" where
  "running_items s = List.map_filter (\<lambda>r.
     if r_status r \<noteq> DRunning then None
     else case find_dep (r_deployment r) s of
       None \<Rightarrow> None
     | Some d \<Rightarrow> if d_adopted d \<or> d_status d = DDeleted then None
                 else Some (health_item r d (find_host (d_host d) s))) (reps s)"

definition item_target :: "replica_item \<Rightarrow> target" where
  "item_target it = \<lparr>tg_host = hi_host it, tg_tailnet = hi_tailnet it, tg_user = hi_user it, tg_port = hi_port it\<rparr>"

section \<open>tryRestartReplica\<close>

definition set_rep_status :: "uuid \<Rightarrow> dep_status \<Rightarrow> dep_status \<Rightarrow> state \<Rightarrow> state" where
  "set_rep_status i old new s =
     s\<lparr>reps := sql_update (\<lambda>r. r_id r = i \<and> r_status r = old) (\<lambda>r. r\<lparr>r_status := new\<rparr>) (reps s)\<rparr>"

text \<open>The call that restarts the container, \<open>None\<close> when there is nobody to ask.\<close>

definition restart_call :: "health \<Rightarrow> replica_item \<Rightarrow> (call \<times> unit reply) option" where
  "restart_call w it =
     (if hi_remote it then
        (case hl_remote w of None \<Rightarrow> None
         | Some f \<Rightarrow> map_option (\<lambda>r. (CRestart (hi_name it), rr_restart r (hi_name it))) (f (item_target it)))
      else case hl_restarter w of None \<Rightarrow> None
      | Some r \<Rightarrow> Some (if hi_ha it then (CRestartReplica (hi_name it) (hi_index it), rs_replica r (hi_name it) (hi_index it))
                        else (CRestart (hi_name it), rs_restart r (hi_name it))))"

definition try_restart_replica :: "health \<Rightarrow> hfaults \<Rightarrow> replica_item \<Rightarrow> state \<Rightarrow> state" where
  "try_restart_replica w flt it s =
     (case restart_call w it of
        None \<Rightarrow> s
      | Some (c, f) \<Rightarrow>
          (case f (log_call c s) of
             (Inl e, s1) \<Rightarrow>
               if e = ''container not found'' \<and> \<not> flt (HRestartFailed (hi_replica it))
               then set_rep_status (hi_replica it) DStopped DFailed s1 else s1
           | (Inr _, s1) \<Rightarrow>
               if flt (HRestartDone (hi_replica it)) then s1
               else set_rep_status (hi_replica it) DStopped DRunning s1))"

section \<open>reconcileReplica\<close>

text \<open>Who is asked for the container's status; \<open>None\<close>: nobody can answer for it.\<close>

definition status_call :: "health \<Rightarrow> replica_item \<Rightarrow> string reply option" where
  "status_call w it =
     (if hi_remote it then
        (case hl_remote w of None \<Rightarrow> None
         | Some f \<Rightarrow> map_option (\<lambda>r. rr_status r (hi_name it)) (f (item_target it)))
      else if hi_ha it then Some (sr_replica (hl_docker w) (hi_name it) (hi_index it))
      else Some (sr_status (hl_docker w) (hi_name it)))"

definition reconcile_replica :: "health \<Rightarrow> hfaults \<Rightarrow> health_config \<Rightarrow> replica_item \<Rightarrow> state \<Rightarrow> bool \<times> state" where
  "reconcile_replica w flt cfg it s =
     (case status_call w it of
        None \<Rightarrow> (False, s)
      | Some f \<Rightarrow>
          (case f s of
             (Inl e, s1) \<Rightarrow> (False, s1)
           | (Inr st, s1) \<Rightarrow>
               (case classify st of
                  None \<Rightarrow> (False, s1)
                | Some target \<Rightarrow>
                    if flt (HReplica (hi_replica it)) then (False, s1)
                    else if sql_count (\<lambda>r. r_id r = hi_replica it \<and> r_status r = DRunning) (reps s1) = 0 then (False, s1)
                    else
                      (let s2 = set_rep_status (hi_replica it) DRunning target s1
                       in (True, if hc_auto cfg \<and> target = DStopped then try_restart_replica w flt it s2 else s2)))))"

section \<open>recomputeDeploymentStatus\<close>

definition aggregate :: "uuid \<Rightarrow> state \<Rightarrow> dep_status" where
  "aggregate i s =
     (if 0 < sql_count (\<lambda>r. r_deployment r = i \<and> r_status r = DRunning) (reps s) then DRunning
      else if 0 < sql_count (\<lambda>r. r_deployment r = i \<and> r_status r = DFailed) (reps s) then DFailed
      else DStopped)"

definition alert :: "health \<Rightarrow> uuid \<Rightarrow> dep_status \<Rightarrow> dep_status \<Rightarrow> state \<Rightarrow> state" where
  "alert w i old new s = (if hl_alerter w \<and> (new = DStopped \<or> new = DFailed) then log_call (CAlert i old new) s else s)"

definition recompute_status :: "health \<Rightarrow> hfaults \<Rightarrow> uuid \<Rightarrow> state \<Rightarrow> state" where
  "recompute_status w flt i s =
     (if flt (HAggregate i) then s
      else if sql_count (\<lambda>r. r_deployment r = i) (reps s) = 0 then s
      else
        (let target = aggregate i s;
             hit = (\<lambda>d. d_id d = i \<and> d_status d \<noteq> DDeleted \<and> d_status d \<noteq> DFailed \<and> d_status d \<noteq> target)
         in if flt (HDeployment i) then s
            else case sql_row hit (deps s) of
              None \<Rightarrow> s
            | Some prev \<Rightarrow>
                alert w i (d_status prev) target
                  (s\<lparr>deps := sql_update hit (\<lambda>d. d\<lparr>d_status := target\<rparr>) (deps s)\<rparr>)))"

section \<open>Adopted deployments\<close>

record adopted_item =
  ai_id :: uuid
  ai_url :: string
  ai_status :: dep_status

definition adopted_items :: "state \<Rightarrow> adopted_item list" where
  "adopted_items s = map (\<lambda>d. \<lparr>ai_id = d_id d, ai_url = text_of (d_url d), ai_status = d_status d\<rparr>)
     (filter (\<lambda>d. d_adopted d \<and> (d_status d = DRunning \<or> d_status d = DStopped)) (deps s))"

definition probe_adopted :: "health \<Rightarrow> string \<Rightarrow> state \<Rightarrow> bool \<times> state" where
  "probe_adopted w url s =
     (case hl_http w (trim_right_slashes url @ ''/version'') s of
        (Inl e, s1) \<Rightarrow> (False, s1)
      | (Inr code, s1) \<Rightarrow> (200 \<le> code \<and> code < 300, s1))"

text \<open>\<open>cancelled\<close>: the context ends during the pause between the two probes.\<close>

definition reconcile_adopted :: "health \<Rightarrow> hfaults \<Rightarrow> bool \<Rightarrow> adopted_item \<Rightarrow> state \<Rightarrow> bool \<times> state" where
  "reconcile_adopted w flt cancelled it s =
     (if ai_url it = [] then (False, s)
      else
        (case probe_adopted w (ai_url it) s of (up1, s1) \<Rightarrow>
         if \<not> up1 \<and> ai_status it = DRunning \<and> cancelled then (False, s1)
         else
          (case (if \<not> up1 \<and> ai_status it = DRunning then probe_adopted w (ai_url it) s1 else (up1, s1)) of (up, s2) \<Rightarrow>
           (let target = (if up then DRunning else DStopped);
                hit = (\<lambda>d. d_id d = ai_id it \<and> d_adopted d \<and> d_url d = Some (ai_url it)
                         \<and> (d_status d = DRunning \<or> d_status d = DStopped) \<and> d_status d \<noteq> target)
            in if target = ai_status it then (False, s2)
               else if flt (HAdopted (ai_id it)) then (False, s2)
               else case sql_row hit (deps s2) of
                 None \<Rightarrow> (False, s2)
               | Some prev \<Rightarrow>
                   (let s3 = s2\<lparr>deps := sql_update hit (\<lambda>d. d\<lparr>d_status := target\<rparr>) (deps s2)\<rparr>
                    in (True, if hl_alerter w \<and> target = DStopped
                              then log_call (CAlert (ai_id it) (d_status prev) target) s3 else s3))))))"

section \<open>The sweep\<close>

text \<open>The deployments of changed replicas, each once.\<close>

fun reconcile_items :: "health \<Rightarrow> hfaults \<Rightarrow> health_config \<Rightarrow> replica_item list \<Rightarrow> uuid list \<Rightarrow> state \<Rightarrow> uuid list \<times> state" where
  "reconcile_items w flt cfg [] touched s = (touched, s)"
| "reconcile_items w flt cfg (it # its) touched s =
     (case reconcile_replica w flt cfg it s of (changed, s1) \<Rightarrow>
        reconcile_items w flt cfg its (if changed then List.insert (hi_dep it) touched else touched) s1)"

fun sweep_adopted_items :: "health \<Rightarrow> hfaults \<Rightarrow> (uuid \<Rightarrow> bool) \<Rightarrow> adopted_item list \<Rightarrow> state \<Rightarrow> state" where
  "sweep_adopted_items w flt cancelled [] s = s"
| "sweep_adopted_items w flt cancelled (it # its) s =
     sweep_adopted_items w flt cancelled its (snd (reconcile_adopted w flt (cancelled (ai_id it)) it s))"

text \<open>
  The probes run concurrently; each writes at most the row it probed, so some order of the rows
  gives the same tables. \<open>order\<close> is that order, and the order in which the map of touched
  deployments is ranged over.
\<close>

definition sweep_adopted :: "health \<Rightarrow> hfaults \<Rightarrow> (uuid \<Rightarrow> bool) \<Rightarrow> (adopted_item list \<Rightarrow> adopted_item list) \<Rightarrow> state \<Rightarrow> state" where
  "sweep_adopted w flt cancelled order s =
     (if flt HAdoptedList then s else sweep_adopted_items w flt cancelled (order (adopted_items s)) s)"

definition sweep ::
  "health \<Rightarrow> hfaults \<Rightarrow> health_config \<Rightarrow> (uuid \<Rightarrow> bool) \<Rightarrow> (uuid list \<Rightarrow> uuid list)
     \<Rightarrow> (adopted_item list \<Rightarrow> adopted_item list) \<Rightarrow> state \<Rightarrow> state" where
  "sweep w flt cfg cancelled visit order s =
     (if flt HList \<or> flt HScan then s
      else
        (case reconcile_items w flt cfg (running_items s) [] s of (touched, s1) \<Rightarrow>
           sweep_adopted w flt cancelled order (foldl (\<lambda>t i. recompute_status w flt i t) s1 (visit touched))))"

definition health_tick ::
  "health \<Rightarrow> hfaults \<Rightarrow> acquire \<Rightarrow> (uuid \<Rightarrow> bool) \<Rightarrow> (uuid list \<Rightarrow> uuid list)
     \<Rightarrow> (adopted_item list \<Rightarrow> adopted_item list) \<Rightarrow> state \<Rightarrow> state" where
  "health_tick w flt a cancelled visit order s =
     snd (with_try_advisory_lock a (\<lambda>s. (None, sweep w flt (health_sane (hl_config w)) cancelled visit order s)) s)"

section \<open>Local and remote\<close>

definition demo_health :: health where
  "demo_health = \<lparr>hl_docker = \<lparr>sr_status = (\<lambda>_ s. (Inr ''exited'', s)), sr_replica = (\<lambda>_ _ s. (Inr ''exited'', s))\<rparr>,
     hl_restarter = Some \<lparr>rs_restart = (\<lambda>_ s. (Inr (), s)), rs_replica = (\<lambda>_ _ s. (Inr (), s))\<rparr>,
     hl_alerter = True, hl_config = \<lparr>hc_interval = 0, hc_timeout = 0, hc_auto = False, hc_delay = 0\<rparr>,
     hl_remote = None, hl_http = (\<lambda>_ s. (Inr 503, s))\<rparr>"

definition demo_health_state :: state where
  "demo_health_state = (demo_store DRunning)\<lparr>reps := [\<lparr>r_id = ''r0'', r_deployment = ''d1'', r_index = 0,
     r_container = None, r_port = Some 3210, r_status = DRunning, r_last_seen = None\<rparr>]\<rparr>"

definition demo_item :: "bool \<Rightarrow> replica_item" where
  "demo_item remote = \<lparr>hi_replica = ''r0'', hi_dep = ''d1'', hi_name = ''happy-fox-1'', hi_index = 0, hi_ha = False,
     hi_host = ''h1'', hi_remote = remote, hi_tailnet = [], hi_user = ''root'', hi_port = 22\<rparr>"

text \<open>
  A replica on a remote host is never judged or restarted by the Docker daemon of this node:
  exchanging the local reporter and restarter for any other changes nothing, and without a remote
  dispatcher the replica is left alone.
\<close>

theorem remote_not_judged_locally:
  assumes "hi_remote it"
  shows "reconcile_replica (w\<lparr>hl_docker := D, hl_restarter := R\<rparr>) flt cfg it s = reconcile_replica w flt cfg it s
    \<and> reconcile_replica (w\<lparr>hl_remote := None\<rparr>) flt cfg it s = (False, s)"
proof -
  have 1: "try_restart_replica (w\<lparr>hl_docker := D, hl_restarter := R\<rparr>) flt it = try_restart_replica w flt it"
    using assms by (simp add: try_restart_replica_def restart_call_def fun_eq_iff)
  have 2: "status_call (w\<lparr>hl_docker := D, hl_restarter := R\<rparr>) it = status_call w it"
    "status_call (w\<lparr>hl_remote := None\<rparr>) it = None"
    using assms by (simp_all add: status_call_def)
  show ?thesis unfolding reconcile_replica_def 1 2 by simp
qed

theorem remote_not_judged_locally_witness:
  "reconcile_replica (demo_health\<lparr>hl_remote := None\<rparr>) (\<lambda>_. False) (hl_config demo_health) (demo_item True) demo_health_state
     = (False, demo_health_state)"
proof -
  have "hi_remote (demo_item True)" by code_simp
  from remote_not_judged_locally [OF this] show ?thesis by blast
qed

section \<open>The deployment's status\<close>

lemma aggregate_cong: "reps t = reps s \<Longrightarrow> aggregate i t = aggregate i s"
  by (simp add: aggregate_def)

lemma row_and:
  assumes "sql_row (\<lambda>d. d_id d = i) ds = Some d" "\<And>x. x \<in> set ds \<Longrightarrow> d_id x = i \<Longrightarrow> x = d"
  shows "sql_row (\<lambda>d. d_id d = i \<and> p d) ds = (if p d then Some d else None)"
proof -
  have "d \<in> set ds \<and> d_id d = i" using sql_row_SomeD [OF assms(1)] .
  show ?thesis
  proof (cases "p d")
    case True
    then obtain e where "sql_row (\<lambda>d. d_id d = i \<and> p d) ds = Some e"
      using \<open>d \<in> set ds \<and> d_id d = i\<close> by (cases "sql_row (\<lambda>d. d_id d = i \<and> p d) ds") (auto simp: sql)
    with sql_row_SomeD [OF this] assms(2) True show ?thesis by auto
  next
    case False
    then have "\<forall>x \<in> set ds. \<not> (d_id x = i \<and> p x)" using assms(2) by blast
    then show ?thesis using False by (simp add: sql_row_None)
  qed
qed

lemma find_dep_unique:
  "distinct (map d_id (deps s)) \<Longrightarrow> find_dep i s = Some d \<Longrightarrow> x \<in> set (deps s) \<Longrightarrow> d_id x = i \<Longrightarrow> x = d"
  using find_dep_SomeD distinct_key_eq by metis

lemma recompute_eq:
  assumes "distinct (map d_id (deps s))" "find_dep i s = Some d" "r \<in> set (reps s)" "r_deployment r = i"
  shows "recompute_status w (\<lambda>_. False) i s =
    (if d_status d \<in> {DDeleted, DFailed, aggregate i s} then s
     else alert w i (d_status d) (aggregate i s)
       (s\<lparr>deps := sql_update (\<lambda>x. d_id x = i) (\<lambda>x. x\<lparr>d_status := aggregate i s\<rparr>) (deps s)\<rparr>))"
proof -
  let ?p = "\<lambda>x. d_status x \<noteq> DDeleted \<and> d_status x \<noteq> DFailed \<and> d_status x \<noteq> aggregate i s"
  have n: "sql_count (\<lambda>r. r_deployment r = i) (reps s) \<noteq> 0" using assms(3,4) by (auto simp: sql_count_0)
  have row: "sql_row (\<lambda>x. d_id x = i \<and> ?p x) (deps s) = (if ?p d then Some d else None)"
    using row_and [of i "deps s" d ?p] assms(2) find_dep_unique [OF assms(1,2)] unfolding find_dep_def by blast
  have upd: "?p d \<Longrightarrow> sql_update (\<lambda>x. d_id x = i \<and> ?p x) f (deps s) = sql_update (\<lambda>x. d_id x = i) f (deps s)" for f
    unfolding sql_update_def using find_dep_unique [OF assms(1,2)] by auto
  show ?thesis using n row upd by (auto simp: recompute_status_def Let_def)
qed

text \<open>
  The status of a deployment is the aggregate of its replicas: running while one runs, else
  failed if one failed, else stopped; a deleted or failed deployment keeps its status. The alert is
  raised exactly on a transition to stopped or failed, once: a second pass changes nothing and
  raises nothing.
\<close>

theorem recompute_aggregates:
  assumes "distinct (map d_id (deps s))" "find_dep i s = Some d" "r \<in> set (reps s)" "r_deployment r = i"
    and "target = (if \<exists>x \<in> set (reps s). r_deployment x = i \<and> r_status x = DRunning then DRunning
                   else if \<exists>x \<in> set (reps s). r_deployment x = i \<and> r_status x = DFailed then DFailed else DStopped)"
    and "s' = recompute_status w (\<lambda>_. False) i s"
  shows "find_dep i s' = Some (d\<lparr>d_status := if d_status d \<in> {DDeleted, DFailed} then d_status d else target\<rparr>)
    \<and> calls s' = calls s @ (if hl_alerter w \<and> d_status d \<notin> {DDeleted, DFailed} \<and> target \<noteq> d_status d \<and> target \<noteq> DRunning
                              then [CAlert i (d_status d) target] else [])
    \<and> recompute_status w (\<lambda>_. False) i s' = s'"
proof -
  have agg: "aggregate i s = target" by (simp add: aggregate_def sql assms(5))
  have id: "d_id d = i" using find_dep_SomeD [OF assms(2)] by simp
  note eq = recompute_eq [OF assms(1-4), of w]
  have t: "target \<in> {DRunning, DFailed, DStopped}" by (simp add: assms(5))
  show ?thesis
  proof (cases "d_status d \<in> {DDeleted, DFailed, target}")
    case True
    then have "s' = s" using eq by (simp add: assms(6) agg)
    with True assms(2) show ?thesis by (auto simp: assms(6))
  next
    case False
    let ?u = "s\<lparr>deps := sql_update (\<lambda>x. d_id x = i) (\<lambda>x. x\<lparr>d_status := target\<rparr>) (deps s)\<rparr>"
    have s': "s' = alert w i (d_status d) target ?u" using False eq by (simp add: assms(6) agg)
    have k: "keyed_update d_id (\<lambda>x. x\<lparr>d_status := target\<rparr>)" by unfold_locales simp
    have d': "find_dep i s' = Some (d\<lparr>d_status := target\<rparr>)"
      using keyed_update.row_by_key [OF k, of i "\<lambda>x. d_id x = i" "deps s"] assms(2) id
      by (simp add: s' alert_def find_dep_def log_call_def)
    have dist: "distinct (map d_id (deps s'))"
      using keyed_update.distinct_keys [OF k, of "\<lambda>x. d_id x = i" "deps s"] assms(1) by (simp add: s' alert_def log_call_def)
    have reps: "reps s' = reps s" by (simp add: s' alert_def log_call_def)
    have "recompute_status w (\<lambda>_. False) i s' = s'"
      using recompute_eq [OF dist d', of r w] assms(3,4) reps aggregate_cong [OF reps, of i] agg by simp
    then show ?thesis using d' False t by (auto simp: s' alert_def log_call_def)
  qed
qed

theorem recompute_aggregates_witness:
  "calls (recompute_status demo_health (\<lambda>_. False) ''d1'' (set_rep_status ''r0'' DRunning DStopped demo_health_state))
     = [CAlert ''d1'' DRunning DStopped]"
proof -
  obtain s where s: "s = set_rep_status ''r0'' DRunning DStopped demo_health_state" by simp
  have h: "distinct (map d_id (deps s))" "find_dep ''d1'' s = Some (demo_dep ''d1'' DRunning)"
    "map r_status (reps s) = [DStopped]" "map r_deployment (reps s) = [''d1'']" "calls s = []"
    "d_status (demo_dep ''d1'' DRunning) = DRunning" "hl_alerter demo_health"
    unfolding s by code_simp+
  then obtain r where r: "reps s = [r]" "r_status r = DStopped" "r_deployment r = ''d1''"
    by (cases "reps s") auto
  have mem: "r \<in> set (reps s)" by (simp add: r)
  have "calls (recompute_status demo_health (\<lambda>_. False) ''d1'' s) = [CAlert ''d1'' DRunning DStopped]"
    using recompute_aggregates [OF h(1,2) mem r(3) refl refl, of demo_health] by (simp add: r(1,2) h)
  then show ?thesis by (simp add: s)
qed

section \<open>Adopted deployments\<close>

text \<open>
  A running adopted deployment is taken down only by two failed probes in a row, of the URL the
  row still has when it is written; the alert is raised with that write and only with it.
\<close>

theorem adopted_down_needs_two_probes:
  assumes "reconcile_adopted w flt cancelled it s = (True, s')" "ai_status it = DRunning"
  shows "\<exists>s1 s2 d. probe_adopted w (ai_url it) s = (False, s1) \<and> probe_adopted w (ai_url it) s1 = (False, s2) \<and> \<not> cancelled
    \<and> d \<in> set (deps s2) \<and> d_id d = ai_id it \<and> d_adopted d \<and> d_url d = Some (ai_url it) \<and> d_status d = DRunning
    \<and> deps s' = map (\<lambda>x. if d_id x = ai_id it \<and> d_adopted x \<and> d_url x = Some (ai_url it) \<and> d_status x = DRunning
                        then x\<lparr>d_status := DStopped\<rparr> else x) (deps s2)
    \<and> calls s' = calls s2 @ (if hl_alerter w then [CAlert (ai_id it) DRunning DStopped] else [])"
proof -
  obtain up1 s1 where p1: "probe_adopted w (ai_url it) s = (up1, s1)" by fastforce
  obtain up2 s2 where p2: "probe_adopted w (ai_url it) s1 = (up2, s2)" by fastforce
  let ?hit = "\<lambda>d. d_id d = ai_id it \<and> d_adopted d \<and> d_url d = Some (ai_url it)
      \<and> (d_status d = DRunning \<or> d_status d = DStopped) \<and> d_status d \<noteq> DStopped"
  have down: "\<not> up1" "\<not> cancelled" "\<not> up2"
    using assms p1 p2 by (auto simp: reconcile_adopted_def Let_def split: if_splits)
  have ne: "DStopped \<noteq> ai_status it" using assms(2) by simp
  have "reconcile_adopted w flt cancelled it s = (if flt (HAdopted (ai_id it)) then (False, s2)
      else case sql_row ?hit (deps s2) of None \<Rightarrow> (False, s2) | Some prev \<Rightarrow>
        (True, let s3 = s2\<lparr>deps := sql_update ?hit (\<lambda>d. d\<lparr>d_status := DStopped\<rparr>) (deps s2)\<rparr>
               in if hl_alerter w then log_call (CAlert (ai_id it) (d_status prev) DStopped) s3 else s3))"
    if "ai_url it \<noteq> []"
    using that p1 p2 down assms(2) ne by (simp add: reconcile_adopted_def Let_def split: option.split)
  moreover have "ai_url it \<noteq> []" using assms(1) by (auto simp: reconcile_adopted_def)
  ultimately obtain d where d: "sql_row ?hit (deps s2) = Some d" "s' = (let s3 = s2\<lparr>deps := sql_update ?hit (\<lambda>d. d\<lparr>d_status := DStopped\<rparr>) (deps s2)\<rparr>
      in if hl_alerter w then log_call (CAlert (ai_id it) (d_status d) DStopped) s3 else s3)"
    using assms(1) by (simp split: if_splits option.splits)
  have hit: "?hit = (\<lambda>x. d_id x = ai_id it \<and> d_adopted x \<and> d_url x = Some (ai_url it) \<and> d_status x = DRunning)"
    by auto
  have dd: "d \<in> set (deps s2)" "d_id d = ai_id it" "d_adopted d" "d_url d = Some (ai_url it)" "d_status d = DRunning"
    using sql_row_SomeD [OF d(1)] by auto
  show ?thesis
    using p1 p2 down dd d(2) unfolding hit by (auto simp: sql_update_def log_call_def Let_def)
qed

definition demo_adopted :: state where
  "demo_adopted = (demo_store DRunning)\<lparr>deps := [demo_dep ''d1'' DRunning\<lparr>d_adopted := True, d_url := Some ''http://x''\<rparr>]\<rparr>"

theorem adopted_down_needs_two_probes_witness:
  "map d_status (deps (snd (reconcile_adopted demo_health (\<lambda>_. False) False (hd (adopted_items demo_adopted)) demo_adopted)))
     = [DStopped]"
proof -
  let ?it = "hd (adopted_items demo_adopted)"
  obtain c s' where r: "reconcile_adopted demo_health (\<lambda>_. False) False ?it demo_adopted = (c, s')" by fastforce
  have "fst (reconcile_adopted demo_health (\<lambda>_. False) False ?it demo_adopted)" "ai_status ?it = DRunning" by code_simp+
  with r have "reconcile_adopted demo_health (\<lambda>_. False) False ?it demo_adopted = (True, s')" by simp
  from adopted_down_needs_two_probes [OF this \<open>ai_status ?it = DRunning\<close>] obtain s1 s2 where
    p: "probe_adopted demo_health (ai_url ?it) demo_adopted = (False, s1)" "probe_adopted demo_health (ai_url ?it) s1 = (False, s2)"
    "deps s' = map (\<lambda>x. if d_id x = ai_id ?it \<and> d_adopted x \<and> d_url x = Some (ai_url ?it) \<and> d_status x = DRunning
                        then x\<lparr>d_status := DStopped\<rparr> else x) (deps s2)" by blast
  have "s2 = demo_adopted" using p(1,2) by (simp add: probe_adopted_def demo_health_def)
  then have "map d_status (deps s') = map d_status (map (\<lambda>x. if d_id x = ai_id ?it \<and> d_adopted x \<and> d_url x = Some (ai_url ?it) \<and> d_status x = DRunning
                        then x\<lparr>d_status := DStopped\<rparr> else x) (deps demo_adopted))" using p(3) by simp
  also have "\<dots> = [DStopped]" by code_simp
  finally show ?thesis by (simp add: r)
qed

section \<open>What a tick leaves alone\<close>

definition health_keeps :: "(state \<Rightarrow> bool) \<Rightarrow> health \<Rightarrow> bool" where
  "health_keeps I w \<longleftrightarrow>
     (let keeps = (\<lambda>f. \<forall>s. I s \<longrightarrow> I (snd (f s)))
      in (\<forall>n. keeps (sr_status (hl_docker w) n)) \<and> (\<forall>n i. keeps (sr_replica (hl_docker w) n i))
       \<and> (\<forall>u. \<forall>s. I s \<longrightarrow> I (snd (hl_http w u s)))
       \<and> (\<forall>r n. hl_restarter w = Some r \<longrightarrow> (\<forall>s. I s \<longrightarrow> I (snd (rs_restart r n s))))
       \<and> (\<forall>r n i. hl_restarter w = Some r \<longrightarrow> (\<forall>s. I s \<longrightarrow> I (snd (rs_replica r n i s))))
       \<and> (\<forall>f t r n. hl_remote w = Some f \<longrightarrow> f t = Some r \<longrightarrow> keeps (rr_status r n))
       \<and> (\<forall>f t r n. hl_remote w = Some f \<longrightarrow> f t = Some r \<longrightarrow> (\<forall>s. I s \<longrightarrow> I (snd (rr_restart r n s)))))"

text \<open>The writes of the sweep; a property that survives them survives the tick.\<close>

locale health_invariant =
  fixes I :: "state \<Rightarrow> bool"
  assumes hinv_log: "I s \<Longrightarrow> I (log_call c s)"
    and hinv_reps: "I s \<Longrightarrow> I (s\<lparr>reps := rs\<rparr>)"
    and hinv_deps: "I s \<Longrightarrow> (\<And>d. p d \<Longrightarrow> d_status d \<noteq> DDeleted \<and> d_status d \<noteq> DFailed) \<Longrightarrow> x \<noteq> DDeleted
      \<Longrightarrow> I (s\<lparr>deps := sql_update p (\<lambda>d. d\<lparr>d_status := x\<rparr>) (deps s)\<rparr>)"
begin

lemma set_rep_keeps: "I s \<Longrightarrow> I (set_rep_status i old new s)"
  by (simp add: set_rep_status_def hinv_reps)

lemma restart_keeps:
  assumes "I s" "health_keeps I w" shows "I (try_restart_replica w flt it s)"
proof -
  have "I t'" if "restart_call w it = Some (c, f)" "f (log_call c s) = (x, t')" for c f x t'
    using that hinv_log [OF assms(1), of c] assms(2)
    by (auto simp: restart_call_def health_keeps_def Let_def split: if_splits option.splits) (metis snd_conv)+
  then show ?thesis using assms(1)
    by (auto simp: try_restart_replica_def set_rep_keeps split: option.splits prod.splits sum.splits)
qed

lemma reconcile_replica_keeps:
  assumes "I s" "health_keeps I w" shows "I (snd (reconcile_replica w flt cfg it s))"
proof -
  have "I t'" if "status_call w it = Some f" "f s = (x, t')" for f x t'
    using that assms
    by (auto simp: status_call_def health_keeps_def Let_def split: if_splits option.splits) (metis snd_conv)+
  then show ?thesis using assms
    by (auto simp: reconcile_replica_def Let_def set_rep_keeps restart_keeps split: option.splits prod.splits sum.splits)
qed

lemma aggregate_live: "aggregate i s \<noteq> DDeleted"
  by (simp add: aggregate_def)

lemma recompute_keeps: "I s \<Longrightarrow> I (recompute_status w flt i s)"
  by (auto simp: recompute_status_def alert_def Let_def aggregate_live intro!: hinv_log hinv_deps split: option.splits)

lemma probe_keeps: "I s \<Longrightarrow> health_keeps I w \<Longrightarrow> probe_adopted w u s = (b, t) \<Longrightarrow> I t"
  by (auto simp: probe_adopted_def health_keeps_def Let_def split: prod.splits sum.splits) (metis snd_conv)+

lemma adopted_keeps:
  assumes "I s" "health_keeps I w" shows "I (snd (reconcile_adopted w flt c it s))"
proof -
  obtain up1 s1 where p1: "probe_adopted w (ai_url it) s = (up1, s1)" by fastforce
  obtain up2 s2 where p2: "probe_adopted w (ai_url it) s1 = (up2, s2)" by fastforce
  have "I s1" "I s2" using probe_keeps [OF assms p1] probe_keeps [OF _ assms(2) p2] by blast+
  then show ?thesis using assms(1) p1 p2
    by (auto simp: reconcile_adopted_def Let_def intro!: hinv_log hinv_deps split: option.splits if_splits)
qed

lemma items_keep: "I s \<Longrightarrow> health_keeps I w \<Longrightarrow> I (snd (reconcile_items w flt cfg its touched s))"
proof (induction its arbitrary: touched s)
  case (Cons it its)
  then show ?case using reconcile_replica_keeps [of s w flt cfg it] by (auto split: prod.splits)
qed simp

lemma adopted_items_keep: "I s \<Longrightarrow> health_keeps I w \<Longrightarrow> I (sweep_adopted_items w flt c its s)"
  by (induction its arbitrary: s) (simp_all add: adopted_keeps)

lemma recompute_all_keeps: "I s \<Longrightarrow> I (foldl (\<lambda>t i. recompute_status w flt i t) s is)"
  by (induction "is" arbitrary: s) (simp_all add: recompute_keeps)

lemma tick_keeps:
  assumes "I s" "health_keeps I w" shows "I (health_tick w flt a c visit order s)"
proof -
  have "I (sweep w flt cfg c visit order s)" for cfg
    using assms items_keep [OF assms, of flt cfg "running_items s" "[]"]
    by (auto simp: sweep_def sweep_adopted_def adopted_items_keep recompute_all_keeps split: prod.splits)
  with assms(1) show ?thesis
    by (auto simp: health_tick_def with_try_advisory_lock_def split: acquire.splits)
qed

end

text \<open>A row that is deleted or failed, exactly as it is.\<close>

definition parked :: "deployment \<Rightarrow> state \<Rightarrow> bool" where
  "parked d s \<longleftrightarrow> (d_status d = DDeleted \<or> d_status d = DFailed) \<and> d \<in> set (deps s)"

lemma parked_kept: "d \<in> set ds \<Longrightarrow> \<not> p d \<Longrightarrow> d \<in> set (sql_update p f ds)"
  by (force simp: sql)

interpretation parked_health: health_invariant "parked d" for d
proof unfold_locales
  fix s and p :: "deployment \<Rightarrow> bool" and x
  assume "parked d s" "\<And>d. p d \<Longrightarrow> d_status d \<noteq> DDeleted \<and> d_status d \<noteq> DFailed"
  then show "parked d (s\<lparr>deps := sql_update p (\<lambda>d. d\<lparr>d_status := x\<rparr>) (deps s)\<rparr>)"
    by (auto simp: parked_def intro!: parked_kept)
qed (simp_all add: parked_def log_call_def)

interpretation gone_health: health_invariant "gone i" for i
proof unfold_locales
  fix s and p :: "deployment \<Rightarrow> bool" and x :: dep_status
  assume "gone i s" "\<And>d. p d \<Longrightarrow> d_status d \<noteq> DDeleted \<and> d_status d \<noteq> DFailed" "x \<noteq> DDeleted"
  then have "live_write p (\<lambda>d. d\<lparr>d_status := x\<rparr>)" by (simp add: live_write_def)
  with \<open>gone i s\<close> show "gone i (s\<lparr>deps := sql_update p (\<lambda>d. d\<lparr>d_status := x\<rparr>) (deps s)\<rparr>)" by (rule gone_write)
qed (simp_all add: gone_def log_call_def)

text \<open>
  No health tick changes a deployment row that is deleted or failed, and none revives a deleted
  deployment: a deployment that failed stays failed until somebody intervenes.
\<close>

theorem health_leaves_terminal_rows:
  assumes "health_keeps (parked d) w" "health_keeps (gone i) w"
    and "d \<in> set (deps s)" "d_status d = DDeleted \<or> d_status d = DFailed" "gone i s"
  shows "d \<in> set (deps (health_tick w flt a cancelled visit order s)) \<and> gone i (health_tick w flt a cancelled visit order s)"
proof -
  have "parked d s" using assms(3,4) by (simp add: parked_def)
  from parked_health.tick_keeps [OF this assms(1)] gone_health.tick_keeps [OF assms(5,2)]
  show ?thesis by (simp add: parked_def)
qed

lemma demo_health_keeps: "health_keeps I demo_health"
  by (simp add: health_keeps_def demo_health_def Let_def)

theorem health_leaves_terminal_rows_witness:
  "demo_dep ''d1'' DFailed \<in> set (deps (health_tick demo_health (\<lambda>_. False) LockFree (\<lambda>_. False) id id
     (demo_health_state\<lparr>deps := [demo_dep ''d1'' DFailed, demo_dep ''d2'' DDeleted]\<rparr>)))"
proof -
  let ?s = "demo_health_state\<lparr>deps := [demo_dep ''d1'' DFailed, demo_dep ''d2'' DDeleted]\<rparr>"
  have "d_status (demo_dep ''d1'' DFailed) = DDeleted \<or> d_status (demo_dep ''d1'' DFailed) = DFailed" "gone ''d2'' ?s"
    "demo_dep ''d1'' DFailed \<in> set (deps ?s)"
    by (simp_all add: demo_dep_def gone_def)
  with health_leaves_terminal_rows [OF demo_health_keeps demo_health_keeps, of "demo_dep ''d1'' DFailed" ?s "''d2''"
      "\<lambda>_. False" LockFree "\<lambda>_. False" id id]
  show ?thesis by blast
qed

end
