(* ===== verification/Sweeper.thy ===== *)
theory Sweeper
  imports Queue Samples "HOL-Library.Multiset"
begin

text \<open>
  Package backups: the sweeper that times out stuck backup rows, enqueues the daily backups and
  prunes complete backups beyond the retention of their deployment, archive first. Removing a file
  is an argument; the identifiers the database generates are \<open>gen\<close>.
\<close>

section \<open>failStale\<close>

datatype bsite = BStale | BDue | BDueScan | BBegin uuid | BInsert uuid | BPath uuid | BJob uuid | BCommit uuid
  | BPrunable | BDelete uuid

type_synonym bfaults = "bsite \<Rightarrow> bool"

definition hour :: int where "hour = 3600 * usec"

definition time_out :: "int \<Rightarrow> backup \<Rightarrow> backup" where
  "time_out now b = b\<lparr>b_status := BFailed, b_error := ''timed out'', b_completed := Some now\<rparr>"

definition fail_stale :: "bfaults \<Rightarrow> state \<Rightarrow> state" where
  "fail_stale flt s =
     (if flt BStale then s
      else s\<lparr>backups := sql_update (\<lambda>b. (b_status b = BPending \<or> b_status b = BRunning) \<and> b_created b < clock s - hour)
               (time_out (clock s)) (backups s)\<rparr>)"

section \<open>enqueueScheduled\<close>

text \<open>A backup that keeps its deployment quiet for now.\<close>

definition blocks_backup :: "int \<Rightarrow> backup \<Rightarrow> bool" where
  "blocks_backup now b \<longleftrightarrow> b_status b = BPending \<or> b_status b = BRunning
     \<or> b_status b = BComplete \<and> b_created b > now - 24 * hour
     \<or> b_status b = BFailed \<and> b_created b > now - hour"

definition backup_due :: "state \<Rightarrow> deployment \<Rightarrow> bool" where
  "backup_due s d \<longleftrightarrow> d_schedule d = SchedDaily \<and> d_status d = DRunning \<and> \<not> d_adopted d
     \<and> (case find_host (d_host d) s of None \<Rightarrow> True | Some h \<Rightarrow> \<not> h_is_remote h)
     \<and> \<not> sql_exists (\<lambda>b. b_deployment b = d_id d \<and> blocks_backup (clock s) b) (backups s)"

definition due :: "state \<Rightarrow> uuid list" where
  "due s = map d_id (filter (backup_due s) (deps s))"

definition new_backup :: "uuid \<Rightarrow> uuid \<Rightarrow> int \<Rightarrow> backup" where
  "new_backup dep bid now = \<lparr>b_id = bid, b_deployment = dep, b_status = BPending,
     b_path = dep @ ''/'' @ bid @ ''.zip'', b_size = None, b_error = [], b_requested_by = None, b_created = now,
     b_completed = None, b_restored = None\<rparr>"

text \<open>One transaction: on an error nothing is written.\<close>

definition enqueue_one :: "bfaults \<Rightarrow> (uuid \<Rightarrow> uuid) \<Rightarrow> uuid \<Rightarrow> state \<Rightarrow> state" where
  "enqueue_one flt gen dep s =
     (if flt (BBegin dep) \<or> flt (BInsert dep) \<or> flt (BPath dep) \<or> flt (BJob dep) \<or> flt (BCommit dep) then s
      else snd (enqueue_backup no_faults dep (gen dep)
             (s\<lparr>backups := backups s @ [new_backup dep (gen dep) (clock s)]\<rparr>)))"

definition enqueue_scheduled :: "bfaults \<Rightarrow> (uuid \<Rightarrow> uuid) \<Rightarrow> state \<Rightarrow> state" where
  "enqueue_scheduled flt gen s =
     (if flt BDue \<or> flt BDueScan then s else foldl (\<lambda>t i. enqueue_one flt gen i t) s (due s))"

section \<open>pruneRetention\<close>

definition complete_of :: "uuid \<Rightarrow> state \<Rightarrow> backup list" where
  "complete_of i s = sort_key (\<lambda>b. - b_created b)
     (filter (\<lambda>b. b_deployment b = i \<and> b_status b = BComplete) (backups s))"

definition victims :: "state \<Rightarrow> backup list" where
  "victims s = concat (map (\<lambda>d. drop (d_retention d) (complete_of (d_id d) s)) (deps s))"

datatype removal = Removed | NotThere | RemoveFailed

text \<open>The jobs of a deleted backup row go with it (\<open>ON DELETE CASCADE\<close>).\<close>

definition delete_backup :: "uuid \<Rightarrow> state \<Rightarrow> state" where
  "delete_backup i s = s\<lparr>backups := filter (\<lambda>b. b_id b \<noteq> i) (backups s), jobs := filter (\<lambda>j. j_backup j \<noteq> Some i) (jobs s)\<rparr>"

definition prune_one :: "bfaults \<Rightarrow> string \<Rightarrow> (string \<Rightarrow> removal) \<Rightarrow> backup \<Rightarrow> state \<Rightarrow> state" where
  "prune_one flt dir rm v s =
     (let s1 = (if b_path v \<noteq> [] \<and> dir \<noteq> [] then log_call (CRemoveFile (b_path v)) s else s)
      in if b_path v \<noteq> [] \<and> dir \<noteq> [] \<and> rm (b_path v) = RemoveFailed then s1
         else if flt (BDelete (b_id v)) then s1
         else delete_backup (b_id v) s1)"

definition prune_retention :: "bfaults \<Rightarrow> string \<Rightarrow> (string \<Rightarrow> removal) \<Rightarrow> state \<Rightarrow> state" where
  "prune_retention flt dir rm s =
     (if flt BPrunable then s else foldl (\<lambda>t v. prune_one flt dir rm v t) s (victims s))"

definition sweeper_tick :: "bfaults \<Rightarrow> (uuid \<Rightarrow> uuid) \<Rightarrow> string \<Rightarrow> (string \<Rightarrow> removal) \<Rightarrow> state \<Rightarrow> state" where
  "sweeper_tick flt gen dir rm s = prune_retention flt dir rm (enqueue_scheduled flt gen (fail_stale flt s))"

section \<open>Properties\<close>

lemma enqueue_one_eq:
  "enqueue_one (\<lambda>_. False) gen i s = s\<lparr>backups := backups s @ [new_backup i (gen i) (clock s)],
     jobs := jobs s @ [blank_job i KBackup False s\<lparr>j_backup := Some (gen i)\<rparr>], next_job := next_job s + 1\<rparr>"
  by (simp add: enqueue_one_def enqueue_backup_def insert_job_def blank_job_def)

lemma enqueue_all:
  "backups (foldl (\<lambda>t i. enqueue_one (\<lambda>_. False) gen i t) s is) = backups s @ map (\<lambda>i. new_backup i (gen i) (clock s)) is
   \<and> clock (foldl (\<lambda>t i. enqueue_one (\<lambda>_. False) gen i t) s is) = clock s
   \<and> deps (foldl (\<lambda>t i. enqueue_one (\<lambda>_. False) gen i t) s is) = deps s
   \<and> hosts (foldl (\<lambda>t i. enqueue_one (\<lambda>_. False) gen i t) s is) = hosts s"
  by (induction "is" arbitrary: s) (simp_all add: enqueue_one_eq)

text \<open>
  The daily schedule. A backup is enqueued for a deployment exactly when it is scheduled,
  running, managed and local with nothing in flight, no complete backup of the last 24 hours and no
  failed one of the last hour; directly afterwards nothing is due any more, so a second tick at the
  same time enqueues nothing.
\<close>

theorem schedule_enqueues_once:
  "map b_deployment (drop (length (backups s)) (backups (enqueue_scheduled (\<lambda>_. False) gen s))) = due s
   \<and> due (enqueue_scheduled (\<lambda>_. False) gen s) = []
   \<and> enqueue_scheduled (\<lambda>_. False) gen2 (enqueue_scheduled (\<lambda>_. False) gen s) = enqueue_scheduled (\<lambda>_. False) gen s"
proof -
  let ?t = "enqueue_scheduled (\<lambda>_. False) gen s"
  have t: "backups ?t = backups s @ map (\<lambda>i. new_backup i (gen i) (clock s)) (due s)" "clock ?t = clock s"
    "deps ?t = deps s" "hosts ?t = hosts s"
    using enqueue_all [of gen s "due s"] by (simp_all add: enqueue_scheduled_def)
  have fh: "find_host x ?t = find_host x s" for x by (simp add: find_host_def t)
  have "\<not> backup_due ?t d" if d: "d \<in> set (deps s)" for d
  proof
    assume b: "backup_due ?t d"
    then have "backup_due s d" by (auto simp: backup_due_def t fh sql)
    then have "d_id d \<in> set (due s)" using d by (auto simp: due_def)
    then have "new_backup (d_id d) (gen (d_id d)) (clock s) \<in> set (backups ?t)" by (auto simp: t)
    moreover have "blocks_backup (clock s) (new_backup (d_id d) (gen (d_id d)) (clock s))"
      by (simp add: blocks_backup_def new_backup_def)
    moreover have "b_deployment (new_backup (d_id d) (gen (d_id d)) (clock s)) = d_id d" by (simp add: new_backup_def)
    ultimately show False using b by (auto simp: backup_due_def sql t)
  qed
  then have none: "due ?t = []" by (simp add: due_def t)
  have "map b_deployment (map (\<lambda>i. new_backup i (gen i) (clock s)) (due s)) = due s"
    by (simp add: new_backup_def comp_def)
  then show ?thesis using none by (simp add: t enqueue_scheduled_def [of _ gen2])
qed

lemma prune_one_kept:
  "rm (b_path v) \<noteq> RemoveFailed \<Longrightarrow> backups (prune_one (\<lambda>_. False) dir rm v s) = filter (\<lambda>b. b_id b \<noteq> b_id v) (backups s)"
  by (simp add: prune_one_def Let_def delete_backup_def log_call_def)

lemma prune_all:
  "\<forall>v \<in> set vs. rm (b_path v) \<noteq> RemoveFailed \<Longrightarrow>
     backups (foldl (\<lambda>t v. prune_one (\<lambda>_. False) dir rm v t) s vs)
       = filter (\<lambda>b. b_id b \<notin> b_id ` set vs) (backups s)"
proof (induction vs arbitrary: s)
  case (Cons v vs)
  then show ?case by (simp add: prune_one_kept conj_commute cong: filter_cong)
qed simp

lemma victim_of:
  "v \<in> set (victims s) \<longleftrightarrow> (\<exists>d \<in> set (deps s). v \<in> set (drop (d_retention d) (complete_of (d_id d) s)))"
  by (auto simp: victims_def)

lemma complete_of_mem: "b \<in> set (complete_of i s) \<longleftrightarrow> b \<in> set (backups s) \<and> b_deployment b = i \<and> b_status b = BComplete"
  by (auto simp: complete_of_def)

lemma length_filter_sort: "length (filter p (sort_key k xs)) = length (filter p xs)"
  by (metis mset_filter mset_sort size_mset)

text \<open>
  Retention. When the archives can be removed, a prune leaves at most the retention of a
  deployment in complete backups, and what it removes is never newer than what it keeps; backups
  that are not complete and backups of no deployment are kept.
\<close>

theorem prune_keeps_newest:
  assumes "distinct (map b_id (backups s))" "\<forall>v \<in> set (victims s). rm (b_path v) \<noteq> RemoveFailed"
    and "s' = prune_retention (\<lambda>_. False) dir rm s" "d \<in> set (deps s)"
  shows "length (filter (\<lambda>b. b_deployment b = d_id d \<and> b_status b = BComplete) (backups s')) \<le> d_retention d
    \<and> (\<forall>b \<in> set (backups s). b \<notin> set (backups s') \<longrightarrow> b_status b = BComplete
         \<and> (\<exists>e \<in> set (deps s). d_id e = b_deployment b \<and> (\<forall>k \<in> set (backups s'). b_deployment k = b_deployment b
              \<longrightarrow> b_status k = BComplete \<longrightarrow> b_created b \<le> b_created k)))"
proof -
  have s': "backups s' = filter (\<lambda>b. b_id b \<notin> b_id ` set (victims s)) (backups s)"
    using prune_all [OF assms(2)] by (simp add: assms(3) prune_retention_def)
  let ?c = "complete_of (d_id d) s" and ?n = "d_retention d"
  let ?p = "\<lambda>b. b_id b \<notin> b_id ` set (victims s)"
  have "filter ?p (drop ?n ?c) = []" using assms(4) by (auto simp: filter_empty_conv victim_of intro!: imageI)
  then have "length (filter ?p ?c) = length (filter ?p (take ?n ?c))"
    by (metis append_Nil2 append_take_drop_id filter_append)
  also have "\<dots> \<le> ?n" using length_filter_le [of ?p "take ?n ?c"] by simp
  finally have "length (filter ?p ?c) \<le> ?n" .
  then have len: "length (filter (\<lambda>b. b_deployment b = d_id d \<and> b_status b = BComplete) (backups s')) \<le> ?n"
    by (simp add: s' complete_of_def length_filter_sort conj_ac)
  have removed: "b_status b = BComplete \<and> (\<exists>e \<in> set (deps s). d_id e = b_deployment b \<and> (\<forall>k \<in> set (backups s').
      b_deployment k = b_deployment b \<longrightarrow> b_status k = BComplete \<longrightarrow> b_created b \<le> b_created k))"
    if b: "b \<in> set (backups s)" "b \<notin> set (backups s')" for b
  proof -
    from b obtain v where v: "v \<in> set (victims s)" "b_id b = b_id v" by (auto simp: s')
    then obtain e where e: "e \<in> set (deps s)" "v \<in> set (drop (d_retention e) (complete_of (d_id e) s))"
      by (auto simp: victim_of)
    have vm: "v \<in> set (backups s)" "b_deployment v = d_id e" "b_status v = BComplete"
      using in_set_dropD [OF e(2)] by (simp_all add: complete_of_mem)
    have "b = v" using distinct_key_eq [OF assms(1) b(1) vm(1) v(2)] .
    moreover have "b_created v \<le> b_created k" if k: "k \<in> set (backups s')" "b_deployment k = d_id e" "b_status k = BComplete" for k
    proof -
      have "k \<notin> set (drop (d_retention e) (complete_of (d_id e) s))" using k(1) e(1) victim_of [of k s] by (auto simp: s')
      moreover have "k \<in> set (complete_of (d_id e) s)" using k by (simp add: s' complete_of_mem)
      ultimately have "k \<in> set (take (d_retention e) (complete_of (d_id e) s))"
        by (metis Un_iff append_take_drop_id set_append)
      moreover have "sorted (map (\<lambda>b. - b_created b) (take (d_retention e) (complete_of (d_id e) s) @ drop (d_retention e) (complete_of (d_id e) s)))"
        by (simp add: complete_of_def)
      ultimately have "- b_created k \<le> - b_created v" using e(2) unfolding map_append sorted_append by auto
      then show ?thesis by simp
    qed
    ultimately show ?thesis using vm e(1) by auto
  qed
  show ?thesis using len removed by blast
qed

definition old_backup :: "uuid \<Rightarrow> int \<Rightarrow> backup" where
  "old_backup i t = new_backup ''d1'' i t\<lparr>b_status := BComplete\<rparr>"

definition demo_archive :: state where
  "demo_archive = (demo_store DRunning)\<lparr>deps := [demo_dep ''d1'' DRunning\<lparr>d_retention := 1\<rparr>],
     backups := [old_backup ''b1'' 10, old_backup ''b2'' 30, old_backup ''b3'' 20]\<rparr>"

theorem prune_keeps_newest_witness:
  "length (filter (\<lambda>b. b_deployment b = ''d1'' \<and> b_status b = BComplete)
     (backups (prune_retention (\<lambda>_. False) ''/b'' (\<lambda>_. Removed) demo_archive))) \<le> 1"
proof -
  let ?d = "demo_dep ''d1'' DRunning\<lparr>d_retention := 1\<rparr>"
  have 1: "distinct (map b_id (backups demo_archive))" by code_simp
  have 2: "?d \<in> set (deps demo_archive)" "d_id ?d = ''d1''" "d_retention ?d = 1"
    by (simp_all add: demo_archive_def demo_dep_def)
  from prune_keeps_newest [OF 1 _ refl 2(1), of "\<lambda>_. Removed" "''/b''"] 2(2,3) show ?thesis by simp
qed

end
