(* ===== verification/ProxyProps.thy ===== *)
theory ProxyProps
  imports Proxy ReconcileProps
begin

text \<open>
  The proxy's contracts: the TTL cache as an interface with its two instances, what the resolver
  returns and for how long, the hosts handed out by package deploymenturl routed back to the
  deployment they name, and the retry over replicas with the two places where it falls short.
\<close>

section \<open>The cache contract\<close>

locale ttl_cache =
  fixes get :: "'c \<Rightarrow> int \<Rightarrow> string \<Rightarrow> 'v option"
    and put :: "'c \<Rightarrow> int \<Rightarrow> string \<Rightarrow> 'v \<Rightarrow> 'c"
    and drop_key :: "'c \<Rightarrow> string \<Rightarrow> 'c"
  assumes get_put: "get (put c e k v) now k = (if now < e then Some v else None)"
    and get_put_other: "k' \<noteq> k \<Longrightarrow> get (put c e k v) now k' = get c now k'"
    and get_drop: "get (drop_key c k) now k = None"
    and get_drop_other: "k' \<noteq> k \<Longrightarrow> get (drop_key c k) now k' = get c now k'"
begin

text \<open>Reading through the cache: a hit, or what \<open>fetch\<close> says now, remembered until \<open>e\<close>.\<close>

definition read :: "int \<Rightarrow> int \<Rightarrow> string \<Rightarrow> ('e + 'v) \<Rightarrow> 'c \<Rightarrow> ('e + 'v) \<times> 'c" where
  "read now e k fetched c =
     (case get c now k of Some v \<Rightarrow> (Inr v, c)
      | None \<Rightarrow> (case fetched of Inl x \<Rightarrow> (Inl x, c) | Inr v \<Rightarrow> (Inr v, put c e k v)))"

lemma read_miss: "get c now k = None \<Longrightarrow> fst (read now e k fetched c) = fetched"
  by (auto simp: read_def split: sum.splits)

lemma read_after_put:
  "fst (read now e k fetched (put c e0 k v)) = (if now < e0 then Inr v else fetched)"
  by (auto simp: read_def get_put split: sum.splits)

lemma read_after_drop: "fst (read now e k fetched (drop_key c k)) = fetched"
  by (rule read_miss) (rule get_drop)

lemma read_other: "k' \<noteq> k \<Longrightarrow> fst (read now e k' fetched (put c e0 k v)) = fst (read now e k' fetched c)"
  by (auto simp: read_def get_put_other split: option.splits sum.splits)

end

interpretation name_cache: ttl_cache "cache_get :: name_entry cache \<Rightarrow> int \<Rightarrow> string \<Rightarrow> name_entry option" cache_put cache_drop
  by unfold_locales (auto simp: cache_get_def cache_put_def cache_drop_def)

interpretation domain_cache: ttl_cache "cache_get :: (string \<times> domain_role) cache \<Rightarrow> int \<Rightarrow> string \<Rightarrow> (string \<times> domain_role) option"
    cache_put cache_drop
  by unfold_locales (auto simp: cache_get_def cache_put_def cache_drop_def)

section \<open>The resolver\<close>

lemma resolve_db_cong:
  assumes "rv_dns rv' = rv_dns rv" shows "resolve_db rv' flt n s = resolve_db rv flt n s"
proof -
  have "address_for rv' = address_for rv" by (intro ext) (simp only: address_for_def assms)
  then have eqs: "legacy_address rv' = legacy_address rv" "replica_address rv' = replica_address rv"
    by (intro ext; simp only: legacy_address_def replica_address_def assms)+
  show ?thesis unfolding resolve_db_def eqs ..
qed

lemma resolve_all_read:
  "resolve_all flt now n s rv =
     (case name_cache.read now (now + cache_ttl rv) n (resolve_db rv flt n s) (rv_names rv) of
        (r, c) \<Rightarrow> (map_sum id ne_replicas r, rv\<lparr>rv_names := c\<rparr>))"
  by (auto simp: resolve_all_def name_cache.read_def split: option.splits sum.splits)

lemma resolve_all_fst:
  "fst (resolve_all flt now n s rv) =
     map_sum id ne_replicas (fst (name_cache.read now (now + cache_ttl rv) n (resolve_db rv flt n s) (rv_names rv)))"
  by (simp add: resolve_all_read split: prod.splits)

text \<open>
  C31: how stale a route can be. After a lookup that missed the cache, the answer for that name is
  the remembered one until the TTL is over and the database's afterwards; once the name is
  invalidated it is the database's at once; other names are not affected.
\<close>

theorem resolver_staleness:
  assumes "cache_get (rv_names rv) t0 n = None" "resolve_db rv flt n s0 = Inr e"
    and "rv1 = snd (resolve_all flt t0 n s0 rv)"
  shows "fst (resolve_all flt1 t1 n s1 rv1)
      = (if t1 < t0 + cache_ttl rv then Inr (ne_replicas e) else map_sum id ne_replicas (resolve_db rv flt1 n s1))
    \<and> fst (resolve_all flt1 t1 n s1 (invalidate n rv1)) = map_sum id ne_replicas (resolve_db rv flt1 n s1)
    \<and> (m \<noteq> n \<longrightarrow> fst (resolve_all flt1 t1 m s1 rv1) = fst (resolve_all flt1 t1 m s1 rv))"
proof -
  have rv1: "rv1 = rv\<lparr>rv_names := cache_put (rv_names rv) (t0 + cache_ttl rv) n e\<rparr>"
    using assms by (simp add: resolve_all_def)
  have ttl: "cache_ttl rv1 = cache_ttl rv" "cache_ttl (invalidate n rv1) = cache_ttl rv"
    by (simp_all add: rv1 cache_ttl_def invalidate_def)
  have db: "resolve_db rv1 flt1 m s1 = resolve_db rv flt1 m s1" "resolve_db (invalidate n rv1) flt1 m s1 = resolve_db rv flt1 m s1" for m
    by (rule resolve_db_cong, simp add: rv1 invalidate_def)+
  show ?thesis
    unfolding resolve_all_fst ttl db
    by (simp add: rv1 invalidate_def name_cache.read_after_put name_cache.read_after_drop name_cache.read_other)
qed

definition demo_resolver :: resolver where
  "demo_resolver = \<lparr>rv_dns = True, rv_ttl = 100, rv_dashboard = [], rv_names = (\<lambda>_. None), rv_domains = (\<lambda>_. None)\<rparr>"

definition demo_routed :: "dep_status \<Rightarrow> state" where
  "demo_routed st = (demo_store st)\<lparr>reps := [\<lparr>r_id = ''r0'', r_deployment = ''d1'', r_index = 0,
     r_container = None, r_port = Some 3210, r_status = st, r_last_seen = None\<rparr>]\<rparr>"

theorem resolver_staleness_witness:
  "fst (resolve_all (\<lambda>_. None) 50 ''happy-fox-1'' empty_state
      (snd (resolve_all (\<lambda>_. None) 0 ''happy-fox-1'' (demo_routed DRunning) demo_resolver))) = Inr [''convex-happy-fox-1:3210'']"
proof -
  have db: "resolve_db demo_resolver (\<lambda>_. None) ''happy-fox-1'' (demo_routed DRunning)
      = Inr \<lparr>ne_replicas = [''convex-happy-fox-1:3210''], ne_remote = False\<rparr>"
    by code_simp
  have miss: "cache_get (rv_names demo_resolver) 0 ''happy-fox-1'' = None" "cache_ttl demo_resolver = 100"
    by (simp_all add: demo_resolver_def cache_get_def cache_ttl_def)
  show ?thesis
    using resolver_staleness [OF miss(1) db refl, of "\<lambda>_. None" 50 empty_state] miss(2) by simp
qed

lemma pick_order_set: "set (pick_order rs) = set rs"
  by (auto simp: pick_order_def Let_def)

lemma address_for_remote:
  "remote \<Longrightarrow> tailnet = Some t \<Longrightarrow> t \<noteq> [] \<Longrightarrow> replica_address rv n ha remote tailnet r = Some a
     \<Longrightarrow> \<exists>p. r_port r = Some p \<and> a = t @ '':'' @ fmt_d p"
  by (auto simp: replica_address_def address_for_def text_of_def split: option.splits)

text \<open>
  What the resolver routes to. A resolved name is a running deployment; every address is that
  of a running replica of it, in the picker's order, or of the deployment itself when it has no
  replica row at all; a deployment on a remote host is reached at the tailnet address of that host
  and nowhere else.
\<close>

theorem resolved_addresses:
  assumes "resolve_db rv flt n s = Inr e"
  shows "\<exists>d. dep_named n s = Some d \<and> d_status d = DRunning \<and> ne_replicas e \<noteq> []
    \<and> ne_replicas e = (if any_replica n s
        then List.map_filter (replica_address rv n (d_ha d) (host_remote d s) (host_tailnet d s))
               (pick_order (filter (\<lambda>r. r_status r = DRunning
                  \<and> (\<exists>x \<in> set (deps s). d_id x = r_deployment r \<and> d_name x = n)) (reps s)))
        else [the (legacy_address rv flt n (host_remote d s) (host_tailnet d s) s)])
    \<and> (host_remote d s \<longrightarrow> (\<exists>t. host_tailnet d s = Some t \<and> t \<noteq> []
         \<and> (\<forall>a \<in> set (ne_replicas e). \<exists>p. a = t @ '':'' @ fmt_d p)))"
proof -
  from assms obtain d where d: "dep_named n s = Some d" "d_status d = DRunning" and flt: "flt RvDep = None" "flt RvReplicas = None"
    and tn: "\<not> (host_remote d s \<and> (host_tailnet d s = None \<or> host_tailnet d s = Some []))"
    by (auto simp: resolve_db_def Let_def split: option.splits if_splits)
  let ?rs = "running_replicas n s"
  let ?leg = "legacy_address rv flt n (host_remote d s) (host_tailnet d s) s"
  let ?addrs = "List.map_filter (replica_address rv n (d_ha d) (host_remote d s) (host_tailnet d s)) ?rs"
  have rs: "?rs = pick_order (filter (\<lambda>r. r_status r = DRunning
                  \<and> (\<exists>x \<in> set (deps s). d_id x = r_deployment r \<and> d_name x = n)) (reps s))"
    by (simp add: running_replicas_def sql)
  have any: "any_replica n s" if ne: "?rs \<noteq> []"
  proof -
    from ne obtain r where "r \<in> set ?rs" by (cases ?rs) auto
    then show ?thesis unfolding rs pick_order_set by (auto simp: any_replica_def sql)
  qed
  have eqs: "if ?rs \<noteq> [] then ne_replicas e = ?addrs \<and> ?addrs \<noteq> []
       else \<not> any_replica n s \<and> (\<exists>a. ?leg = Some a \<and> ne_replicas e = [a])"
  proof -
    let ?lc = "if ?rs \<noteq> [] then Some [] else if any_replica n s then None else map_option (\<lambda>a. [a]) ?leg"
    have "resolve_db rv flt n s = (case ?lc of None \<Rightarrow> Inl NoReplicas
      | Some pre \<Rightarrow> (let addrs = pre @ ?addrs in if addrs = [] then Inl NoReplicas
          else Inr \<lparr>ne_replicas = addrs, ne_remote = host_remote d s\<rparr>))"
      unfolding resolve_db_def Let_def using d flt tn by auto
    then have "(case ?lc of None \<Rightarrow> Inl NoReplicas
      | Some pre \<Rightarrow> (let addrs = pre @ ?addrs in if addrs = [] then Inl NoReplicas
          else Inr \<lparr>ne_replicas = addrs, ne_remote = host_remote d s\<rparr>)) = Inr e"
      using assms by simp
    then show ?thesis
      by (cases "?rs = []"; cases "any_replica n s"; cases ?leg) (auto simp: map_filter_simps Let_def split: if_splits)
  qed
  have reply: "ne_replicas e = (if any_replica n s then ?addrs else [the ?leg])" "ne_replicas e \<noteq> []"
    using eqs any by (auto split: if_splits simp: map_filter_simps)
  have remote: "\<exists>t. host_tailnet d s = Some t \<and> t \<noteq> [] \<and> (\<forall>a \<in> set (ne_replicas e). \<exists>p. a = t @ '':'' @ fmt_d p)"
    if r: "host_remote d s"
  proof -
    from tn r obtain t where t: "host_tailnet d s = Some t" "t \<noteq> []" by (cases "host_tailnet d s") auto
    have "\<exists>p. a = t @ '':'' @ fmt_d p" if "a \<in> set ?addrs" for a
    proof -
      from that obtain x where "replica_address rv n (d_ha d) (host_remote d s) (host_tailnet d s) x = Some a"
        by (auto simp: List.map_filter_def)
      with address_for_remote [OF r t] show ?thesis by blast
    qed
    moreover have "\<exists>p. a = t @ '':'' @ fmt_d p" if "?leg = Some a" for a
      using that r t by (auto simp: legacy_address_def text_of_def split: if_splits option.splits)
    ultimately show ?thesis using t eqs by (auto split: if_splits)
  qed
  show ?thesis using d reply remote unfolding rs [symmetric] by blast
qed

theorem resolved_addresses_witness:
  "\<exists>d. dep_named ''happy-fox-1'' (demo_routed DRunning) = Some d \<and> d_status d = DRunning"
proof -
  have "resolve_db demo_resolver (\<lambda>_. None) ''happy-fox-1'' (demo_routed DRunning)
      = Inr \<lparr>ne_replicas = [''convex-happy-fox-1:3210''], ne_remote = False\<rparr>" by code_simp
  from resolved_addresses [OF this] show ?thesis by blast
qed

section \<open>Hosts\<close>

lemma to_lower_append [simp]: "to_lower (a @ b) = to_lower a @ to_lower b"
  by (simp add: to_lower_def)

lemma match_host_own:
  assumes "n \<noteq> []" "to_lower n = n" "to_lower base = base" "trim_dots base = base" "base \<noteq> []"
  shows "match_host_subdomain (n @ ''.'' @ base) base = n"
proof -
  have dot: "to_lower ''.'' = ''.''" by code_simp
  have "has_suffix (n @ CHR ''.'' # base) (CHR ''.'' # base)" using has_suffix_append [of n "CHR ''.'' # base"] by simp
  moreover have "n @ CHR ''.'' # base \<noteq> base"
    by (metis append_Cons append_assoc length_append less_add_same_cancel2 length_greater_0_conv list.distinct(1) Nil_is_append_conv append.right_neutral append_self_conv2 list.simps(3) nat_neq_iff)
  ultimately show ?thesis
    using assms dot by (simp add: match_host_subdomain_def Let_def to_lower_def)
qed

lemma no_dot_suffix: "CHR ''.'' \<notin> set n \<Longrightarrow> \<not> has_suffix n ''.site''"
  by (auto dest: has_suffixE)

text \<open>
  C32: with a base domain the URLs the control plane hands out come back to the deployment they
  name: the host of the public URL is routed to the cloud listener of that deployment with the path
  unchanged, the host of the site URL to its site listener; neither host is ever looked up as a
  custom domain.
\<close>

theorem handed_out_hosts_route_back:
  assumes "n \<noteq> []" "CHR ''.'' \<notin> set n" "CHR '':'' \<notin> set n" "to_lower n = n"
    and "base \<noteq> []" "CHR '':'' \<notin> set base" "to_lower base = base" "trim_dots base = base"
    and "u_name d = n" "\<not> u_adopted d" "c_base_domain c = base"
  shows "public_url c (Some d) [] = ''https://'' @ n @ ''.'' @ base
    \<and> cli_url c (Some d) [] = ''https://'' @ n @ ''.'' @ base
    \<and> handler flt base now (n @ ''.'' @ base) path s rv = route_to flt now n False (root_path path) s rv
    \<and> site_url c (Some d) [] = ''https://'' @ n @ ''.site.'' @ base
    \<and> handler flt base now (n @ ''.site.'' @ base) path s rv = route_to flt now n True (root_path path) s rv"
proof -
  have cut: "takeWhile (\<lambda>c. c \<noteq> CHR '':'') h = h" if "CHR '':'' \<notin> set h" for h
    using that by (auto simp: takeWhile_eq_all_conv)
  have h1: "takeWhile (\<lambda>c. c \<noteq> CHR '':'') (n @ ''.'' @ base) = n @ ''.'' @ base"
    by (rule cut) (use assms(3,6) in simp)
  have h2: "takeWhile (\<lambda>c. c \<noteq> CHR '':'') (n @ ''.site.'' @ base) = (n @ ''.site'') @ ''.'' @ base"
    by (subst cut) (use assms(3,6) in simp_all)
  have lower: "to_lower (n @ ''.site'') = n @ ''.site''"
  proof -
    have "to_lower ''.site'' = ''.site''" by code_simp
    then show ?thesis using assms(4) by simp
  qed
  have m1: "match_host_subdomain (n @ ''.'' @ base) base = n" by (rule match_host_own) (use assms in auto)
  have m2: "match_host_subdomain ((n @ ''.site'') @ ''.'' @ base) base = n @ ''.site''"
    by (rule match_host_own) (use assms lower in auto)
  have s1: "match_site_subdomain (n @ ''.'' @ base) base = []"
    unfolding match_site_subdomain_def m1 by (simp add: no_dot_suffix assms(2))
  have s2: "match_site_subdomain ((n @ ''.site'') @ ''.'' @ base) base = n"
    unfolding match_site_subdomain_def m2 using assms(1,2) by simp
  have "handler flt base now (n @ ''.'' @ base) path s rv = route_to flt now n False (root_path path) s rv"
    unfolding handler_def h1 host_route_def s1 m1 using assms(1,5) by simp
  moreover have "handler flt base now (n @ ''.site.'' @ base) path s rv = route_to flt now n True (root_path path) s rv"
    unfolding handler_def h2 host_route_def s2 m2 using assms(1,5) by simp
  ultimately show ?thesis
    using assms by (simp add: public_url_def cli_url_def site_url_def)
qed

theorem handed_out_hosts_route_back_witness:
  "handler (\<lambda>_. None) ''x.io'' 0 ''happy-fox-1.site.x.io'' ''/a'' (demo_routed DRunning) demo_resolver
     = route_to (\<lambda>_. None) 0 ''happy-fox-1'' True ''/a'' (demo_routed DRunning) demo_resolver"
proof -
  let ?d = "\<lparr>u_name = ''happy-fox-1'', u_adopted = False, u_url = [], u_port = 0\<rparr>"
  let ?c = "\<lparr>c_public_url = [], c_proxy_enabled = False, c_base_domain = ''x.io''\<rparr>"
  have l: "to_lower ''happy-fox-1'' = ''happy-fox-1''" "to_lower ''x.io'' = ''x.io''" "trim_dots ''x.io'' = ''x.io''" by code_simp+
  from handed_out_hosts_route_back [of "''happy-fox-1''" "''x.io''" ?d ?c "\<lambda>_. None" 0 "''/a''" "demo_routed DRunning" demo_resolver] l
  show ?thesis by (simp add: root_path_def)
qed

section \<open>Retry over replicas\<close>

lemma failover_prefix:
  "(\<forall>x \<in> set dead. is_conn_error (up x body)) \<Longrightarrow> up a body = Answer r \<Longrightarrow>
     failover_loop up (dead @ a # rest) body = (Some r, map (\<lambda>x. (x, body)) (dead @ [a]))"
proof (induction dead)
  case (Cons x dead)
  then show ?case by (cases "up x body") (auto split: prod.splits)
qed simp

text \<open>
  The client of an HA deployment sees the first replica that answers: the replicas tried before
  it could not be connected to, it is sent the whole body, and no replica after it is contacted.
\<close>

theorem failover_first_answer:
  assumes "\<forall>x \<in> set dead. is_conn_error (up x (Some b))" "up a (Some b) = Answer r" "length b \<le> limit"
  shows "proxy_with_failover limit up (dead @ a # rest) (Some (Inr b))
    = (Some r, map (\<lambda>x. (x, Some b)) (dead @ [a]))"
  using failover_prefix [of dead up "Some b" a r rest] assms
  by (simp add: proxy_with_failover_def Let_def)

definition demo_upstream :: "string \<Rightarrow> string option \<Rightarrow> attempt" where
  "demo_upstream a body = (if a = ''b:3210'' then Answer \<lparr>rs_status = 200, rs_header = [], rs_body = ''ok''\<rparr>
     else NetError ''dial tcp: connection refused'')"

theorem failover_first_answer_witness:
  "proxy_with_failover max_body_for_retry demo_upstream [''a:3210'', ''b:3210'', ''c:3210''] (Some (Inr ''q''))
     = (Some \<lparr>rs_status = 200, rs_header = [], rs_body = ''ok''\<rparr>, [(''a:3210'', Some ''q''), (''b:3210'', Some ''q'')])"
  using failover_first_answer [of "[''a:3210'']" demo_upstream "''q''" "''b:3210''"
      "\<lparr>rs_status = 200, rs_header = [], rs_body = ''ok''\<rparr>" max_body_for_retry "[''c:3210'']"]
  by (simp add: demo_upstream_def max_body_for_retry_def)

lemma failover_none: "as \<noteq> [] \<Longrightarrow> (\<forall>x \<in> set as. is_conn_error (up x body)) \<Longrightarrow> fst (failover_loop up as body) = None"
proof (induction "as")
  case (Cons x xs)
  then show ?case by (cases "up x body"; cases "xs = []") (auto split: prod.splits)
qed simp

text \<open>
  When every replica of an HA deployment is unreachable the handler writes nothing, so the
  client gets an empty 200; for a single replica the same failure is a 502.
\<close>

theorem all_replicas_dead:
  assumes "as \<noteq> []" "\<And>x. x \<in> set as \<Longrightarrow> is_conn_error (up x None)"
  shows "rs_status (to_client (fst (proxy_with_failover limit up as None))) = 200
    \<and> rs_body (to_client (fst (proxy_with_failover limit up as None))) = []
    \<and> rs_status (to_client (fst (proxy_once up (hd as) None))) = 502"
proof -
  have "is_conn_error (up (hd as) None)" using assms by (cases "as") auto
  then have "fst (proxy_once up (hd as) None) = Some upstream_error"
    by (cases "up (hd as) None") (simp_all add: proxy_once_def)
  then show ?thesis
    using failover_none [OF assms(1), of up None] assms(2)
    by (simp add: proxy_with_failover_def to_client_def upstream_error_def)
qed

theorem all_replicas_dead_witness:
  "rs_status (to_client (fst (proxy_with_failover max_body_for_retry demo_upstream [''a:3210'', ''c:3210''] None))) = 200"
proof -
  have "is_conn_error (demo_upstream x None)" if "x \<in> set [''a:3210'', ''c:3210'']" for x
    using that by (auto simp: demo_upstream_def)
  with all_replicas_dead [of "[''a:3210'', ''c:3210'']" demo_upstream max_body_for_retry] show ?thesis by blast
qed

text \<open>
  A request body over the retry limit is cut: the replica is sent the first \<open>limit + 1\<close> bytes of
  it, and no other replica is tried.
\<close>

theorem large_body_is_cut:
  assumes "limit + 1 < length b"
  shows "snd (proxy_with_failover limit up (a # as) (Some (Inr b))) = [(a, Some (take (limit + 1) b))]
    \<and> take (limit + 1) b \<noteq> b"
proof -
  have "take (limit + 1) b \<noteq> b"
  proof
    assume "take (limit + 1) b = b"
    then have "length (take (limit + 1) b) = length b" by (rule arg_cong)
    with assms show False by simp
  qed
  with assms show ?thesis
    by (cases "up a (Some (take (limit + 1) b))") (simp_all add: proxy_with_failover_def Let_def proxy_once_def)
qed

theorem large_body_is_cut_witness:
  "snd (proxy_with_failover max_body_for_retry demo_upstream [''b:3210'', ''c:3210''] (Some (Inr (replicate 2000000 CHR ''x''))))
     = [(''b:3210'', Some (replicate 1048577 CHR ''x''))]"
proof -
  have "max_body_for_retry + 1 < length (replicate 2000000 CHR ''x'')" by (simp add: max_body_for_retry_def)
  from large_body_is_cut [OF this, of demo_upstream "''b:3210''" "[''c:3210'']"] show ?thesis
    by (simp add: max_body_for_retry_def)
qed

section \<open>Reconcile and the proxy\<close>

text \<open>
  A reconcile job that brings a stopped deployment up writes the deployment row only. Its
  replica row stays stopped, so the proxy keeps answering that the deployment has no replicas.
\<close>

theorem reconciled_deployment_unroutable:
  "let s = run_reconcile demo_worker no_faults (demo_create\<lparr>cj_action := Some ActRestart, cj_status := DStopped\<rparr>) (demo_routed DStopped)
   in map d_status (deps s) = [DRunning] \<and> map r_status (reps s) = [DStopped] \<and> calls s = [CRestart ''happy-fox-1'']
    \<and> (case resolve_db demo_resolver (\<lambda>_. None) ''happy-fox-1'' s of Inl NoReplicas \<Rightarrow> True | _ \<Rightarrow> False)"
  by code_simp

end
