(* ===== verification/Drift.thy ===== *)
theory Drift
  imports Observed Desired Worker
begin

text \<open>
  The drift engine (api/drift.go): it loads what a host, a cell or a project should run and what the
  agents reported, correlates the two, classifies every pair, and turns the classification into a
  report or into a plan that is never executed. Nothing here writes a desired or an observed state.
\<close>

section \<open>Scopes\<close>

datatype scope_kind = ScopeHost | ScopeCell | ScopeProject

record drift_scope =
  sc_kind :: scope_kind
  sc_host :: uuid
  sc_cell :: uuid
  sc_project :: uuid
  sc_team :: uuid

definition scope_id :: "drift_scope \<Rightarrow> uuid" where
  "scope_id s = (case sc_kind s of ScopeHost \<Rightarrow> sc_host s | ScopeCell \<Rightarrow> sc_cell s
     | ScopeProject \<Rightarrow> sc_project s)"

definition scope_text :: "scope_kind \<Rightarrow> string" where
  "scope_text k = (case k of ScopeHost \<Rightarrow> ''host'' | ScopeCell \<Rightarrow> ''cell'' | ScopeProject \<Rightarrow> ''project'')"

definition op_run_input :: "drift_scope \<Rightarrow> string \<Rightarrow> uuid option \<Rightarrow> op_input" where
  "op_run_input s typ actor =
     \<lparr>oi_type = typ,
      oi_team = (case sc_kind s of ScopeHost \<Rightarrow> None | _ \<Rightarrow> null_str (sc_team s)),
      oi_project = (case sc_kind s of ScopeHost \<Rightarrow> None | _ \<Rightarrow> null_str (sc_project s)),
      oi_cell = (case sc_kind s of ScopeCell \<Rightarrow> null_str (sc_cell s) | _ \<Rightarrow> None),
      oi_host = (case sc_kind s of ScopeHost \<Rightarrow> null_str (sc_host s) | _ \<Rightarrow> None),
      oi_by = actor,
      oi_input = [(''scope'', JStr (scope_text (sc_kind s))), (''scopeId'', JStr (scope_id s))]\<rparr>"

text \<open>The handler's thresholds; durations in nanoseconds, zero or less is unset.\<close>

record drift_config =
  df_stale :: int
  df_offline :: int
  df_apply :: bool
  df_dangerous :: bool
  df_hc_network :: bool

definition stale_after :: "drift_config \<Rightarrow> int" where
  "stale_after c = (if 0 < df_stale c then df_stale c else 60 * second)"

definition offline_after :: "drift_config \<Rightarrow> int" where
  "offline_after c = (if 0 < df_offline c then df_offline c else 300 * second)"

section \<open>Trust in a host's observation\<close>

record obs_facts =
  of_docker :: "bool option"
  of_succeeded :: "bool option"
  of_complete :: "bool option"

definition no_facts :: obs_facts where
  "no_facts = \<lparr>of_docker = None, of_succeeded = None, of_complete = None\<rparr>"

definition scan_degraded :: "obs_facts \<Rightarrow> bool" where
  "scan_degraded f \<longleftrightarrow> of_succeeded f = Some False \<or> of_complete f = Some False"

datatype live = LvOnline | LvStale | LvOffline

fun live_text :: "live \<Rightarrow> string" where
  "live_text LvOnline = ''online''"
| "live_text LvStale = ''stale''"
| "live_text LvOffline = ''offline''"

text \<open>Timestamps are microseconds; the age is compared in nanoseconds.\<close>

definition liveness :: "int option \<Rightarrow> int \<Rightarrow> int \<Rightarrow> int \<Rightarrow> live" where
  "liveness beat stale offline now =
     (case beat of
        None \<Rightarrow> LvOffline
      | Some t \<Rightarrow> (let age = (now - t) * 1000 in
          if age \<le> stale then LvOnline else if age \<le> offline then LvStale else LvOffline))"

record trust =
  tr_ok :: bool
  tr_status :: live
  tr_reason :: string
  tr_severity :: severity
  tr_draining :: bool

text \<open>A host id without a row reads as the zero host, which never sent a heartbeat.\<close>

definition host_trust :: "host option \<Rightarrow> obs_facts \<Rightarrow> int \<Rightarrow> int \<Rightarrow> int \<Rightarrow> trust" where
  "host_trust hst f stale offline now =
     (let draining = (case hst of None \<Rightarrow> False | Some h \<Rightarrow> h_status h = HDraining);
          beat = (case hst of None \<Rightarrow> None | Some h \<Rightarrow> h_heartbeat h);
          bad = (\<lambda>st why sev. \<lparr>tr_ok = False, tr_status = st, tr_reason = why, tr_severity = sev,
                                tr_draining = draining\<rparr>)
      in if beat = None then
           bad LvOffline ''no agent has reported observed state for this host yet'' SevWarning
         else (case liveness beat stale offline now of
             LvStale \<Rightarrow> bad LvStale ''host agent heartbeat is stale'' SevWarning
           | LvOffline \<Rightarrow> bad LvOffline ''host agent is offline'' SevCritical
           | LvOnline \<Rightarrow>
               if of_docker f = Some False then
                 bad LvOnline ''docker daemon is unavailable on this host'' SevWarning
               else if scan_degraded f then
                 bad LvOnline ''container scan failed or was incomplete; observation can't be trusted'' SevWarning
               else \<lparr>tr_ok = True, tr_status = LvOnline, tr_reason = [], tr_severity = SevInfo,
                     tr_draining = draining\<rparr>))"

section \<open>What is compared\<close>

record desired_cmp =
  dc_id :: uuid
  dc_host :: uuid
  dc_cell :: "uuid option"
  dc_project :: "uuid option"
  dc_dep :: string
  dc_name :: string
  dc_key :: string
  dc_status :: string

record observed_cmp =
  ob_id :: uuid
  ob_host :: uuid
  ob_key :: string
  ob_state :: string
  ob_managed :: bool
  ob_dep :: string
  ob_name :: string
  ob_cell :: string
  ob_project :: string

definition in_scope_desired :: "drift_scope \<Rightarrow> desired_row \<Rightarrow> bool" where
  "in_scope_desired s r \<longleftrightarrow> ds_status r = DsActive \<and> ds_type r = res_deployment
     \<and> (case sc_kind s of ScopeHost \<Rightarrow> ds_host r = sc_host s
        | ScopeCell \<Rightarrow> ds_cell r = Some (sc_cell s)
        | ScopeProject \<Rightarrow> ds_project r = Some (sc_project s))"

definition dep_name_of :: "string option \<Rightarrow> state \<Rightarrow> string" where
  "dep_name_of res s = (case res of None \<Rightarrow> []
     | Some i \<Rightarrow> (case find_dep i s of None \<Rightarrow> [] | Some d \<Rightarrow> d_name d))"

definition desired_view :: "state \<Rightarrow> desired_row \<Rightarrow> desired_cmp" where
  "desired_view s r = \<lparr>dc_id = ds_id r, dc_host = ds_host r, dc_cell = ds_cell r,
     dc_project = ds_project r, dc_dep = (case ds_resource r of None \<Rightarrow> [] | Some i \<Rightarrow> i),
     dc_name = dep_name_of (ds_resource r) s, dc_key = ds_key r,
     dc_status = (case db_status (ds_body r) of None \<Rightarrow> ''running'' | Some x \<Rightarrow> x)\<rparr>"

definition load_desired :: "drift_scope \<Rightarrow> plane \<Rightarrow> desired_cmp list" where
  "load_desired s p = map (desired_view (core p)) (filter (in_scope_desired s) (desired p))"

text \<open>\<open>observed_json->'labels'->>k\<close>, coalesced to the empty text.\<close>

definition body_label :: "string \<Rightarrow> obs_row \<Rightarrow> string" where
  "body_label k r = (case o_body r of OContainer c \<Rightarrow> label_at k (oc_labels c) | OFacts _ \<Rightarrow> [])"

definition body_state :: "obs_row \<Rightarrow> string" where
  "body_state r = (case o_body r of OContainer c \<Rightarrow> oc_state c | OFacts _ \<Rightarrow> [])"

definition observed_view :: "obs_row \<Rightarrow> observed_cmp" where
  "observed_view r = \<lparr>ob_id = o_id r, ob_host = o_host r, ob_key = o_key r, ob_state = body_state r,
     ob_managed = (body_label ''synapse.managed'' r = ''true''),
     ob_dep = body_label ''synapse.deployment_id'' r, ob_name = body_label ''synapse.deployment'' r,
     ob_cell = body_label ''synapse.cell_id'' r, ob_project = body_label ''synapse.project_id'' r\<rparr>"

definition label_is :: "string \<Rightarrow> string \<Rightarrow> obs_row \<Rightarrow> bool" where
  "label_is k v r = (case o_body r of OContainer c \<Rightarrow> map_of (oc_labels c) k = Some v | OFacts _ \<Rightarrow> False)"

definition in_scope_observed :: "drift_scope \<Rightarrow> obs_row \<Rightarrow> bool" where
  "in_scope_observed s r \<longleftrightarrow> o_type r = res_container
     \<and> (case sc_kind s of ScopeHost \<Rightarrow> o_host r = sc_host s
        | ScopeCell \<Rightarrow> label_is ''synapse.cell_id'' (sc_cell s) r
        | ScopeProject \<Rightarrow> label_is ''synapse.project_id'' (sc_project s) r)"

definition load_observed :: "drift_scope \<Rightarrow> plane \<Rightarrow> observed_cmp list" where
  "load_observed s p = map observed_view (filter (in_scope_observed s) (observed p))"

definition legacy_container :: "uuid list \<Rightarrow> obs_row \<Rightarrow> bool" where
  "legacy_container hs r \<longleftrightarrow> o_type r = res_container \<and> o_host r \<in> set hs
     \<and> body_label ''synapse.deployment_id'' r = [] \<and> body_label ''synapse.deployment'' r \<noteq> []"

definition load_legacy :: "uuid list \<Rightarrow> plane \<Rightarrow> observed_cmp list" where
  "load_legacy hs p = map (\<lambda>r. (observed_view r)\<lparr>ob_dep := []\<rparr>) (filter (legacy_container hs) (observed p))"

text \<open>The facts row of each host; a later row of the same host replaces an earlier one.\<close>

fun facts_view :: "obs_body \<Rightarrow> obs_facts" where
  "facts_view (OFacts f) = \<lparr>of_docker = hf_docker f, of_succeeded = map_option fst (hf_scan f),
     of_complete = map_option (\<lambda>x. fst (snd x)) (hf_scan f)\<rparr>"
| "facts_view (OContainer c) = no_facts"

definition load_facts :: "plane \<Rightarrow> uuid \<Rightarrow> obs_facts" where
  "load_facts p h = foldl (\<lambda>f r. if o_type r = res_facts \<and> o_host r = h then facts_view (o_body r) else f)
     no_facts (observed p)"

definition dep_exists :: "state \<Rightarrow> string \<Rightarrow> bool" where
  "dep_exists s i = sql_exists (\<lambda>d. d_id d = i \<and> d_status d \<noteq> DDeleted) (deps s)"

section \<open>The labels the provisioner stamps (docker/provisioner.go)\<close>

definition merge_labels :: "(string \<times> string) list \<Rightarrow> uuid \<Rightarrow> uuid \<Rightarrow> (string \<times> string) list" where
  "merge_labels base dep project = base
     @ (if dep = [] then [] else [(''synapse.deployment_id'', dep)])
     @ (if project = [] then [] else [(''synapse.project_id'', project)])"

definition provision_labels :: "spec \<Rightarrow> (string \<times> string) list" where
  "provision_labels sp =
     merge_labels [(''synapse.managed'', ''true''), (''synapse.deployment'', sp_name sp)]
       (sp_deployment sp) (sp_project sp)
     @ (if sp_ha sp then [(''synapse.replica_index'', fmt_d (sp_index sp))] else [])"

section \<open>Redaction\<close>

definition sensitive_words :: "string list" where
  "sensitive_words = [''token'', ''secret'', ''password'', ''adminkey'', ''admin_key'', ''instancesecret'',
     ''instance_secret'', ''database'', ''authorization'', ''env'']"

definition is_sensitive_key :: "string \<Rightarrow> bool" where
  "is_sensitive_key k = (let lk = to_lower k in list_ex (\<lambda>bad. sublist bad lk) sensitive_words)"

text \<open>Lists are not entered; a nested map is.\<close>

fun redact_value :: "json \<Rightarrow> json" and redact_entries :: "doc \<Rightarrow> doc" where
  "redact_value (JMap m) = JMap (redact_entries m)"
| "redact_value j = j"
| "redact_entries [] = []"
| "redact_entries ((k, v) # m) =
     (k, if is_sensitive_key k then JStr ''[redacted]'' else redact_value v) # redact_entries m"

definition redact_diff :: "doc option \<Rightarrow> doc option" where
  "redact_diff m = map_option redact_entries m"

section \<open>Items\<close>

definition new_drift_item ::
  "uuid \<Rightarrow> uuid option \<Rightarrow> string \<Rightarrow> uuid option \<Rightarrow> uuid option \<Rightarrow> drift_status \<Rightarrow> severity \<Rightarrow> action \<Rightarrow> doc
     \<Rightarrow> drift_item" where
  "new_drift_item h c k des obs st sev act diff = \<lparr>it_host = null_str h, it_cell = c, it_type = res_deployment,
     it_key = k, it_desired = des, it_observed = obs, it_status = st, it_severity = sev,
     it_diff = redact_diff (Some diff), it_action = act\<rparr>"

definition diff_set :: "string \<Rightarrow> json \<Rightarrow> drift_item \<Rightarrow> drift_item" where
  "diff_set k v it = it\<lparr>it_diff := Some (doc_set k v (case it_diff it of None \<Rightarrow> [] | Some m \<Rightarrow> m))\<rparr>"

definition annotate_draining :: "bool \<Rightarrow> drift_item \<Rightarrow> drift_item" where
  "annotate_draining draining it =
     (if draining then diff_set ''lifecycle'' (JStr ''draining'') it else it)"

definition annotate_legacy_fallback :: "bool \<Rightarrow> drift_item \<Rightarrow> drift_item" where
  "annotate_legacy_fallback fallback it =
     (if fallback then diff_set ''recommendedLabelRefresh'' (JBool True)
        (diff_set ''legacyLabel'' (JStr ''synapse.deployment'')
          (diff_set ''legacyLabelFallback'' (JBool True) it)) else it)"

definition legacy_project_ok :: "observed_cmp \<Rightarrow> desired_cmp \<Rightarrow> bool" where
  "legacy_project_ok o' d \<longleftrightarrow> ob_project o' = [] \<or> dc_project d = Some (ob_project o')"

definition compare_state :: "desired_cmp \<Rightarrow> observed_cmp \<Rightarrow> drift_item" where
  "compare_state d o' =
     (let running = (ob_state o' = ''running'');
          item = (\<lambda>st sev act diff. new_drift_item (dc_host d) (dc_cell d) (dc_key d) (Some (dc_id d))
                    (Some (ob_id o')) st sev act diff);
          states = [(''desiredStatus'', JStr (dc_status d)), (''observedState'', JStr (ob_state o'))];
          why = (\<lambda>r. (''reason'', JStr r) # states)
      in if dc_status d = ''running'' then
           (if running then item DrInSync SevInfo ActNone states
            else item DrDrifted SevCritical ActRestart
              (why ''desired running but observed container is not running''))
         else if dc_status d = ''stopped'' then
           (if running then item DrDrifted SevWarning ActStop
              (why ''desired stopped but observed container is running'')
            else item DrInSync SevInfo ActNone states)
         else item DrDrifted SevWarning ActRemove
           (why ''desired absent but a matching container still exists''))"

definition mismatched :: "uuid option \<Rightarrow> string \<Rightarrow> bool" where
  "mismatched want seen = (case want of None \<Rightarrow> False | Some w \<Rightarrow> w \<noteq> [] \<and> seen \<noteq> [] \<and> seen \<noteq> w)"

definition mismatch_entry :: "string \<Rightarrow> uuid option \<Rightarrow> string \<Rightarrow> doc" where
  "mismatch_entry k want seen = (if mismatched want seen
     then [(k, JMap [(''desired'', opt_str want), (''observed'', JStr seen)])] else [])"

definition label_mismatch :: "desired_cmp \<Rightarrow> observed_cmp \<Rightarrow> doc option" where
  "label_mismatch d o' =
     (let m = mismatch_entry ''cellId'' (dc_cell d) (ob_cell o')
            @ mismatch_entry ''projectId'' (dc_project d) (ob_project o')
      in if m = [] then None
         else Some [(''reason'', JStr ''observed container labels disagree with desired placement''),
                    (''labelMismatch'', JMap m)])"

section \<open>Correlation\<close>

definition dep_key :: "uuid \<Rightarrow> string \<Rightarrow> string" where
  "dep_key h i = h @ ''|'' @ i"

definition index_by_dep :: "observed_cmp list \<Rightarrow> string \<Rightarrow> observed_cmp option" where
  "index_by_dep obs = foldl (\<lambda>m o'. if ob_managed o' \<and> ob_dep o' \<noteq> []
     then m(dep_key (ob_host o') (ob_dep o') \<mapsto> o') else m) Map.empty obs"

definition legacy_pool :: "drift_scope \<Rightarrow> plane \<Rightarrow> observed_cmp list" where
  "legacy_pool s p =
     (let obs = load_observed s p;
          seen = map ob_id obs;
          own = filter (\<lambda>o'. ob_managed o' \<and> ob_dep o' = [] \<and> ob_name o' \<noteq> []) obs
      in if sc_kind s = ScopeHost then own
         else own @ filter (\<lambda>o'. ob_id o' \<notin> set seen) (load_legacy (map dc_host (load_desired s p)) p))"

definition name_count :: "observed_cmp list \<Rightarrow> string \<Rightarrow> nat" where
  "name_count pool k = sql_count (\<lambda>o'. dep_key (ob_host o') (ob_name o') = k) pool"

text \<open>A (host, name) pair that two containers carry is dropped.\<close>

definition index_by_name :: "observed_cmp list \<Rightarrow> string \<Rightarrow> observed_cmp option" where
  "index_by_name pool k = (if 1 < name_count pool k then None
     else foldl (\<lambda>m o'. m(dep_key (ob_host o') (ob_name o') \<mapsto> o')) Map.empty pool k)"

text \<open>The match of a desired state and whether it is the fallback by name.\<close>

definition match_of :: "(string \<Rightarrow> observed_cmp option) \<Rightarrow> (string \<Rightarrow> observed_cmp option) \<Rightarrow> desired_cmp
    \<Rightarrow> observed_cmp option \<times> bool" where
  "match_of by_dep by_name d =
     (case by_dep (dep_key (dc_host d) (dc_dep d)) of
        Some o' \<Rightarrow> (Some o', False)
      | None \<Rightarrow>
          if dc_name d \<noteq> [] then
            (case by_name (dep_key (dc_host d) (dc_name d)) of
               Some c \<Rightarrow> if legacy_project_ok c d then (Some c, True) else (None, False)
             | None \<Rightarrow> (None, False))
          else (None, False))"

text \<open>The item of one desired state, and the observed container it accounts for.\<close>

definition compare_desired ::
  "(string \<Rightarrow> bool) \<Rightarrow> (uuid \<Rightarrow> trust) \<Rightarrow> (desired_cmp \<Rightarrow> observed_cmp option \<times> bool) \<Rightarrow> desired_cmp
     \<Rightarrow> drift_item \<times> uuid option" where
  "compare_desired exists_dep tr match d =
     (let item = new_drift_item (dc_host d) (dc_cell d) (dc_key d) (Some (dc_id d)); t = tr (dc_host d) in
      if dc_dep d \<noteq> [] \<and> \<not> exists_dep (dc_dep d) then
        (item None DrOrphaned SevWarning ActInvestigate
           [(''reason'', JStr ''active desired state references a deployment that no longer exists''),
            (''deploymentId'', JStr (dc_dep d))], None)
      else case match d of (o', fallback) \<Rightarrow>
        if \<not> tr_ok t then
          (annotate_draining (tr_draining t) (item (map_option ob_id o') DrUnreachable (tr_severity t) ActInvestigate
             [(''reason'', JStr (tr_reason t)), (''hostStatus'', JStr (live_text (tr_status t))),
              (''desiredStatus'', JStr (dc_status d))]), map_option ob_id o')
        else (case o' of
          None \<Rightarrow>
            (annotate_draining (tr_draining t)
              (if dc_status d = ''running'' then item None DrMissing SevCritical ActCreate
                 [(''reason'', JStr ''desired running but no matching container observed on the host''),
                  (''desiredStatus'', JStr (dc_status d)), (''deploymentId'', JStr (dc_dep d))]
               else item None DrInSync SevInfo ActNone
                 [(''desiredStatus'', JStr (dc_status d)), (''observed'', JStr ''absent'')]), None)
        | Some c \<Rightarrow>
            (annotate_draining (tr_draining t)
              (case label_mismatch d c of
                 Some mm \<Rightarrow> item (Some (ob_id c)) DrDrifted SevCritical ActInvestigate mm
               | None \<Rightarrow> annotate_legacy_fallback fallback (compare_state d c)), Some (ob_id c))))"

definition observed_cell :: "observed_cmp \<Rightarrow> uuid option" where
  "observed_cell o' = null_str (ob_cell o')"

text \<open>The item of an observed container no desired state accounts for, if there is one.\<close>

definition leftover_items :: "(uuid \<Rightarrow> trust) \<Rightarrow> uuid list \<Rightarrow> observed_cmp \<Rightarrow> drift_item list" where
  "leftover_items tr matched o' =
     (let item = new_drift_item (ob_host o') (observed_cell o') (ob_key o') None (Some (ob_id o')); t = tr (ob_host o') in
      if ob_id o' \<in> set matched then []
      else if \<not> ob_managed o' then
        [item DrIgnored SevInfo ActNone [(''reason'', JStr ''container is not synapse-managed'')]]
      else if \<not> tr_ok t then []
      else [annotate_draining (tr_draining t) (item DrUnmanaged SevWarning ActInvestigate
        [(''reason'', JStr ''synapse-managed container has no active desired state on this host''),
         (''observedState'', JStr (ob_state o')),
         (if ob_dep o' = [] then (''note'', JStr ''container is missing the synapse.deployment_id label'')
          else (''deploymentId'', JStr (ob_dep o')))])])"

section \<open>computeDrift\<close>

text \<open>A loader with nothing to look up issues no statement, so it cannot fail.\<close>

definition drift_fault :: "pfaults \<Rightarrow> drift_scope \<Rightarrow> plane \<Rightarrow> string option" where
  "drift_fault flt s p =
     (let des = load_desired s p; obs = load_observed s p;
          unless = (\<lambda>skip site. if skip then None else flt site);
          sites = [flt PLoadDesired, flt PLoadObserved, unless (des = [] \<and> obs = []) PLoadHosts,
                   unless (des = [] \<and> obs = []) PLoadFacts,
                   unless (\<forall>d \<in> set des. dc_dep d = []) PLoadExists,
                   unless (sc_kind s = ScopeHost \<or> des = []) PLoadLegacy]
      in case filter (\<lambda>x. x \<noteq> None) sites of [] \<Rightarrow> None | e # _ \<Rightarrow> e)"

definition trust_of :: "drift_config \<Rightarrow> plane \<Rightarrow> uuid \<Rightarrow> trust" where
  "trust_of cfg p h = host_trust (find_host h (core p)) (load_facts p h) (stale_after cfg) (offline_after cfg)
     (clock (core p))"

definition drift_match :: "drift_scope \<Rightarrow> plane \<Rightarrow> desired_cmp \<Rightarrow> observed_cmp option \<times> bool" where
  "drift_match s p = match_of (index_by_dep (load_observed s p)) (index_by_name (legacy_pool s p))"

definition drift_rows :: "drift_config \<Rightarrow> drift_scope \<Rightarrow> plane \<Rightarrow> (drift_item \<times> uuid option) list" where
  "drift_rows cfg s p = map (compare_desired (dep_exists (core p)) (trust_of cfg p) (drift_match s p)) (load_desired s p)"

definition matched_ids :: "(drift_item \<times> uuid option) list \<Rightarrow> uuid list" where
  "matched_ids rows = List.map_filter snd rows"

definition drift_items :: "drift_config \<Rightarrow> drift_scope \<Rightarrow> plane \<Rightarrow> drift_item list" where
  "drift_items cfg s p =
     (let rows = drift_rows cfg s p in
      map fst rows @ concat (map (leftover_items (trust_of cfg p) (matched_ids rows)) (load_observed s p)))"

definition status_key :: "drift_status \<Rightarrow> string" where
  "status_key d = (case d of DrInSync \<Rightarrow> ''inSync'' | DrMissing \<Rightarrow> ''missing'' | DrDrifted \<Rightarrow> ''drifted''
     | DrUnmanaged \<Rightarrow> ''unmanaged'' | DrOrphaned \<Rightarrow> ''orphaned'' | DrUnreachable \<Rightarrow> ''hostUnreachable''
     | DrIgnored \<Rightarrow> ''ignored'')"

definition severity_text :: "severity \<Rightarrow> string" where
  "severity_text v = (case v of SevInfo \<Rightarrow> ''info'' | SevWarning \<Rightarrow> ''warning'' | SevCritical \<Rightarrow> ''critical'')"

definition count_keys :: "string list" where
  "count_keys = [''total'', ''inSync'', ''missing'', ''drifted'', ''unmanaged'', ''orphaned'', ''hostUnreachable'',
     ''ignored'', ''critical'', ''warning'', ''info'']"

definition bump :: "string \<Rightarrow> (string \<Rightarrow> int) \<Rightarrow> string \<Rightarrow> int" where
  "bump k c = c(k := c k + 1)"

definition counts_of :: "drift_item list \<Rightarrow> string \<Rightarrow> int" where
  "counts_of its = foldl (\<lambda>c it. bump (severity_text (it_severity it)) (bump (status_key (it_status it))
     (bump ''total'' c))) (\<lambda>_. 0) its"

definition summarize :: "drift_item list \<Rightarrow> doc" where
  "summarize its = map (\<lambda>k. (k, JNum (counts_of its k))) count_keys"

definition compute_drift :: "pfaults \<Rightarrow> drift_config \<Rightarrow> drift_scope \<Rightarrow> plane \<Rightarrow> string + drift_item list \<times> doc" where
  "compute_drift flt cfg s p =
     (case drift_fault flt s p of
        Some e \<Rightarrow> Inl e
      | None \<Rightarrow> (let its = drift_items cfg s p in Inr (its, summarize its)))"

definition rollup_report_status :: "drift_item list \<Rightarrow> report_status" where
  "rollup_report_status its =
     (let issues = filter (\<lambda>it. it_status it \<noteq> DrInSync \<and> it_status it \<noteq> DrIgnored) its in
      if list_ex (\<lambda>it. it_severity it = SevCritical) issues then RepDrifted
      else if issues \<noteq> [] then RepWarning else RepClean)"

end
