(* ===== verification/DriftReport.thy ===== *)
theory DriftReport
  imports Drift
begin

text \<open>
  What the drift engine writes (api/drift.go): a report with its items in one transaction, and the
  dry-run plan with its steps. Both are bracketed by an operation run.
\<close>

section \<open>Reports\<close>

fun insert_items :: "pfaults \<Rightarrow> nat \<Rightarrow> uuid \<Rightarrow> drift_item list \<Rightarrow> plane \<Rightarrow> string + plane" where
  "insert_items flt n rep [] p = Inr p"
| "insert_items flt n rep (it # its) p =
     (case flt (PReportItem n) of
        Some e \<Rightarrow> Inl e
      | None \<Rightarrow> insert_items flt (Suc n) rep its (p\<lparr>items := items p @ [(rep, it)]\<rparr>))"

definition persist_report ::
  "pfaults \<Rightarrow> uuids \<Rightarrow> drift_scope \<Rightarrow> uuid \<Rightarrow> report_status \<Rightarrow> doc \<Rightarrow> drift_item list \<Rightarrow> plane
     \<Rightarrow> (string + uuid) \<times> plane" where
  "persist_report flt gen s run st sm its p =
     (let rep = fresh_id gen p;
          row = \<lparr>dr_id = rep,
            dr_host = (case sc_kind s of ScopeHost \<Rightarrow> null_str (sc_host s) | _ \<Rightarrow> None),
            dr_project = (case sc_kind s of ScopeHost \<Rightarrow> None | _ \<Rightarrow> null_str (sc_project s)),
            dr_cell = (case sc_kind s of ScopeCell \<Rightarrow> null_str (sc_cell s) | _ \<Rightarrow> None),
            dr_run = run, dr_status = st, dr_summary = sm, dr_created = clock (core p)\<rparr>
      in case flt PReportBegin of Some e \<Rightarrow> (Inl e, p) | None \<Rightarrow>
         case flt PReportRow of Some e \<Rightarrow> (Inl e, p) | None \<Rightarrow>
         (case insert_items flt 0 rep its ((drawn p)\<lparr>reports := reports p @ [row]\<rparr>) of
            Inl e \<Rightarrow> (Inl e, p)
          | Inr q \<Rightarrow> (case flt PReportCommit of Some e \<Rightarrow> (Inl e, p) | None \<Rightarrow> (Inr rep, q))))"

definition report_status_text :: "report_status \<Rightarrow> string" where
  "report_status_text r = (case r of RepClean \<Rightarrow> ''clean'' | RepDrifted \<Rightarrow> ''drifted''
     | RepWarning \<Rightarrow> ''warning'' | RepFailed \<Rightarrow> ''failed'')"

text \<open>The reply is an error or the id of the report; the reload of its rows is \<open>load_report\<close>.\<close>

definition recompute ::
  "pfaults \<Rightarrow> uuids \<Rightarrow> drift_config \<Rightarrow> drift_scope \<Rightarrow> uuid option \<Rightarrow> plane \<Rightarrow> (string + uuid) \<times> plane" where
  "recompute flt gen cfg s actor p =
     (case start_operation_run flt gen (op_run_input s ''compute_drift'' actor) p of
        (Inl e, p1) \<Rightarrow> (Inl e, p1)
      | (Inr r, p1) \<Rightarrow>
          (case compute_drift flt cfg s p1 of
             Inl e \<Rightarrow> (Inl e, finish_operation_run flt r RFailed None None e p1)
           | Inr (its, sm) \<Rightarrow>
               (let st = rollup_report_status its in
                case persist_report flt gen s r st sm its p1 of
                  (Inl e, p2) \<Rightarrow> (Inl e, finish_operation_run flt r RFailed None None e p2)
                | (Inr rep, p2) \<Rightarrow> (Inr rep, finish_operation_run flt r RSucceeded
                    (Some [(''driftReportId'', JStr rep), (''status'', JStr (report_status_text st)),
                           (''summary'', JMap sm)]) None [] p2))))"

definition load_report :: "uuid \<Rightarrow> plane \<Rightarrow> drift_report option" where
  "load_report i p = sql_row (\<lambda>r. dr_id r = i) (reports p)"

text \<open>\<open>ORDER BY resource_key, drift_status\<close>: the collation of the database is \<open>key\<close>.\<close>

definition load_items :: "(string \<times> drift_status \<Rightarrow> nat) \<Rightarrow> uuid \<Rightarrow> plane \<Rightarrow> drift_item list" where
  "load_items key i p = sort_key (\<lambda>it. key (it_key it, it_status it))
     (map snd (filter (\<lambda>(r, it). r = i) (items p)))"

definition of_scope :: "drift_scope \<Rightarrow> drift_report \<Rightarrow> bool" where
  "of_scope s r = (case sc_kind s of ScopeHost \<Rightarrow> dr_host r = Some (sc_host s)
     | ScopeCell \<Rightarrow> dr_cell r = Some (sc_cell s) | ScopeProject \<Rightarrow> dr_project r = Some (sc_project s))"

fun newest :: "drift_report list \<Rightarrow> drift_report option" where
  "newest [] = None"
| "newest (r # rs) = (case newest rs of None \<Rightarrow> Some r
     | Some x \<Rightarrow> if dr_created x \<le> dr_created r then Some r else Some x)"

text \<open>\<open>ORDER BY created_at DESC LIMIT 1\<close>.\<close>

definition latest :: "(string \<times> drift_status \<Rightarrow> nat) \<Rightarrow> drift_scope \<Rightarrow> plane \<Rightarrow> (drift_report \<times> drift_item list) option" where
  "latest key s p = map_option (\<lambda>r. (r, load_items key (dr_id r) p)) (newest (filter (of_scope s) (reports p)))"

section \<open>Plans\<close>

record plan_step =
  ps_action :: action
  ps_type :: string
  ps_key :: string
  ps_status :: step_status
  ps_reason :: string
  ps_severity :: severity
  ps_drift :: drift_status
  ps_dangerous :: bool

definition plan_of :: "drift_item \<Rightarrow> action \<times> step_status \<times> string \<times> bool" where
  "plan_of it = (case it_status it of
       DrInSync \<Rightarrow> (ActNoOp, SNoOp, ''resource already in sync'', False)
     | DrMissing \<Rightarrow> (ActCreate, SPlanned, ''desired resource has no matching container; would create'', False)
     | DrDrifted \<Rightarrow> (case it_action it of
           ActRestart \<Rightarrow> (ActRestart, SPlanned, ''observed container not running; would restart'', False)
         | ActStop \<Rightarrow> (ActStop, SPlanned, ''observed container running but desired stopped; would stop'', False)
         | ActRemove \<Rightarrow> (ActRemove, SPlanned, ''desired absent but container exists; dry-run only '' @ em_dash
             @ '' removal not implemented'', True)
         | _ \<Rightarrow> (ActInvestigate, SPlanned, ''divergence requires investigation'', False))
     | DrUnmanaged \<Rightarrow> (ActInvestigate, SPlanned, ''unmanaged synapse container; investigate before any action'', False)
     | DrOrphaned \<Rightarrow> (ActInvestigate, SPlanned, ''orphaned control-plane state; investigate'', False)
     | DrUnreachable \<Rightarrow> (ActInvestigate, SSkipped, ''host unreachable; observation can't be trusted'', False)
     | DrIgnored \<Rightarrow> (ActNoOp, SSkipped, ''resource ignored'', False))"

definition build_plan_step :: "drift_item \<Rightarrow> plan_step" where
  "build_plan_step it = (case plan_of it of (act, st, why, danger) \<Rightarrow>
     \<lparr>ps_action = act, ps_type = it_type it, ps_key = it_key it, ps_status = st, ps_reason = why,
      ps_severity = it_severity it, ps_drift = it_status it, ps_dangerous = danger\<rparr>)"

definition build_plan_steps :: "drift_item list \<Rightarrow> plan_step list" where
  "build_plan_steps its = map build_plan_step its"

definition step_text :: "step_status \<Rightarrow> string" where
  "step_text x = (case x of SPlanned \<Rightarrow> ''planned'' | SSkipped \<Rightarrow> ''skipped'' | SNoOp \<Rightarrow> ''no_op''
     | SSucceeded \<Rightarrow> ''succeeded'' | SFailed \<Rightarrow> ''failed'')"

definition drift_text :: "drift_status \<Rightarrow> string" where
  "drift_text d = (case d of DrInSync \<Rightarrow> ''in_sync'' | DrMissing \<Rightarrow> ''missing'' | DrDrifted \<Rightarrow> ''drifted''
     | DrUnmanaged \<Rightarrow> ''unmanaged'' | DrOrphaned \<Rightarrow> ''orphaned'' | DrUnreachable \<Rightarrow> ''host_unreachable''
     | DrIgnored \<Rightarrow> ''ignored'')"

definition step_input :: "plan_step \<Rightarrow> doc" where
  "step_input x = [(''willApply'', JBool False), (''dryRunOnly'', JBool True), (''dangerous'', JBool (ps_dangerous x)),
     (''severity'', JStr (severity_text (ps_severity x))), (''driftStatus'', JStr (drift_text (ps_drift x)))]"

definition insert_step :: "uuids \<Rightarrow> uuid \<Rightarrow> nat \<Rightarrow> plan_step \<Rightarrow> step_status \<Rightarrow> string \<Rightarrow> plane \<Rightarrow> uuid \<times> plane" where
  "insert_step gen run n x st why p =
     (let i = fresh_id gen p; c = core p in
      (i, (drawn p)\<lparr>core := c\<lparr>steps := steps c @ [\<lparr>st_id = i, st_run = run, st_index = n,
        st_action = ps_action x, st_key = ps_key x, st_status = st, st_reason = why, st_result = None,
        st_error = None\<rparr>]\<rparr>\<rparr>))"

fun insert_plan :: "pfaults \<Rightarrow> uuids \<Rightarrow> uuid \<Rightarrow> nat \<Rightarrow> plan_step list \<Rightarrow> plane \<Rightarrow> string + plane" where
  "insert_plan flt gen run n [] p = Inr p"
| "insert_plan flt gen run n (x # xs) p =
     (case flt (PStepRow n) of
        Some e \<Rightarrow> Inl e
      | None \<Rightarrow> (case insert_step gen run n x (ps_status x) (ps_reason x) p of (i, q) \<Rightarrow>
          insert_plan flt gen run (Suc n) xs (q\<lparr>step_inputs := step_inputs q @ [(i, step_input x)]\<rparr>)))"

definition persist_steps :: "pfaults \<Rightarrow> uuids \<Rightarrow> uuid \<Rightarrow> plan_step list \<Rightarrow> plane \<Rightarrow> string option \<times> plane" where
  "persist_steps flt gen run xs p =
     (if xs = [] then (None, p)
      else case flt PStepBegin of Some e \<Rightarrow> (Some e, p) | None \<Rightarrow>
        (case insert_plan flt gen run 0 xs p of
           Inl e \<Rightarrow> (Some e, p)
         | Inr q \<Rightarrow> (case flt PStepCommit of Some e \<Rightarrow> (Some e, p) | None \<Rightarrow> (None, q))))"

definition plan_entry :: "plan_step \<Rightarrow> json" where
  "plan_entry x = JMap [(''action'', JStr (action_text (ps_action x))), (''resourceType'', JStr (ps_type x)),
     (''resourceKey'', JStr (ps_key x)), (''status'', JStr (step_text (ps_status x))),
     (''reason'', JStr (ps_reason x)), (''willApply'', JBool False)]"

definition count_steps :: "(plan_step \<Rightarrow> bool) \<Rightarrow> plan_step list \<Rightarrow> json" where
  "count_steps q xs = JNum (int (sql_count q xs))"

definition build_plan_json :: "drift_scope \<Rightarrow> plan_step list \<Rightarrow> doc" where
  "build_plan_json s xs = [(''mode'', JStr ''dry-run''), (''applyAllowed'', JBool False),
     (''scope'', JMap [(''type'', JStr (scope_text (sc_kind s))), (''id'', JStr (scope_id s))]),
     (''summary'', JMap [(''planned'', count_steps (\<lambda>x. ps_status x = SPlanned) xs),
        (''noOp'', count_steps (\<lambda>x. ps_status x = SNoOp) xs),
        (''skipped'', count_steps (\<lambda>x. ps_status x = SSkipped) xs),
        (''investigate'', count_steps (\<lambda>x. ps_action x = ActInvestigate) xs),
        (''dangerous'', count_steps ps_dangerous xs)]),
     (''steps'', JList (map plan_entry xs))]"

definition dry_run ::
  "pfaults \<Rightarrow> uuids \<Rightarrow> drift_config \<Rightarrow> drift_scope \<Rightarrow> uuid option \<Rightarrow> plane
     \<Rightarrow> (string + uuid \<times> plan_step list) \<times> plane" where
  "dry_run flt gen cfg s actor p =
     (case start_operation_run flt gen (op_run_input s ''reconcile_dry_run'' actor) p of
        (Inl e, p1) \<Rightarrow> (Inl e, p1)
      | (Inr r, p1) \<Rightarrow>
          (case compute_drift flt cfg s p1 of
             Inl e \<Rightarrow> (Inl e, finish_operation_run flt r RFailed None None e p1)
           | Inr (its, sm) \<Rightarrow>
               (let xs = build_plan_steps its in
                case persist_steps flt gen r xs p1 of
                  (Some e, p2) \<Rightarrow> (Inl e, finish_operation_run flt r RFailed None None e p2)
                | (None, p2) \<Rightarrow> (Inr (r, xs),
                    finish_operation_run flt r RSucceeded None (Some (build_plan_json s xs)) [] p2))))"

end
