(* ===== verification/Apply.thy ===== *)
theory Apply
  imports DriftReport Provision
begin

text \<open>
  The apply endpoint (api/reconcile_apply.go, api/apply_settings.go): the gate, the fresh drift, and
  one transaction that writes the run, its steps and the reconcile jobs. The worker's half of the
  story is \<open>Reconcile\<close>.
\<close>

section \<open>The gate\<close>

text \<open>
  The row of the dashboard toggle, with both flags; without a row the environment's defaults, and an
  unreadable row closes the gate.
\<close>

definition resolve_apply_settings ::
  "string option \<Rightarrow> (bool \<times> bool) option \<Rightarrow> bool \<Rightarrow> bool \<Rightarrow> bool \<times> bool" where
  "resolve_apply_settings fault row env_enabled env_dangerous =
     (if fault \<noteq> None then (False, False)
      else case row of Some (e, d) \<Rightarrow> (e, d) | None \<Rightarrow> (env_enabled, env_dangerous))"

text \<open>Of the row only the enable flag is used after this point.\<close>

definition effective_apply_enabled :: "pfaults \<Rightarrow> drift_config \<Rightarrow> plane \<Rightarrow> bool" where
  "effective_apply_enabled flt cfg p = fst (resolve_apply_settings (flt PGate)
     (map_option (\<lambda>e. (e, False)) (apply_row (core p))) (df_apply cfg) (df_dangerous cfg))"

section \<open>One step\<close>

datatype verdict = Enqueue | Skip string | NoOp string

text \<open>
  A statement of the transaction that fails aborts it: Postgres refuses every later statement, so the
  insert of the step fails. The second component says whether that has happened.
\<close>

definition busy_jobs :: "uuid \<Rightarrow> state \<Rightarrow> nat" where
  "busy_jobs d s = sql_count (\<lambda>j. j_deployment j = d \<and> in_flight j) (jobs s)"

definition decide_apply_step ::
  "pfaults \<Rightarrow> nat \<Rightarrow> plan_step \<Rightarrow> string \<Rightarrow> string list \<Rightarrow> state \<Rightarrow> verdict \<times> bool" where
  "decide_apply_step flt n x d only s =
     (if ps_status x = SNoOp then (NoOp (ps_reason x), False)
      else if ps_dangerous x then
        (Skip (''data-affecting action '' @ em_dash @ '' not enabled (Phase 2)''), False)
      else if ps_action x \<noteq> ActCreate \<and> ps_action x \<noteq> ActRestart then
        (Skip ''no automatic action for this drift'', False)
      else if only \<noteq> [] \<and> d \<notin> set only then (Skip ''not selected'', False)
      else if flt (PAdopted n) \<noteq> None then (Skip ''deployment not found'', True)
      else case find_dep d s of
          None \<Rightarrow> (Skip ''deployment not found'', False)
        | Some row \<Rightarrow>
            if d_adopted row then (Skip (''adopted deployment '' @ em_dash @ '' not reconciled''), False)
            else if flt (PBusy n) \<noteq> None then (Skip ''could not check in-flight work'', True)
            else if 0 < busy_jobs d s then (Skip ''deployment has work in flight'', False)
            else (Enqueue, False))"

fun verdict_status :: "verdict \<Rightarrow> step_status" where
  "verdict_status Enqueue = SPlanned"
| "verdict_status (Skip _) = SSkipped"
| "verdict_status (NoOp _) = SNoOp"

fun verdict_reason :: "verdict \<Rightarrow> string" where
  "verdict_reason Enqueue = []"
| "verdict_reason (Skip r) = r"
| "verdict_reason (NoOp r) = r"

record tally =
  ta_queued :: nat
  ta_skipped :: nat
  ta_noop :: nat
  ta_danger :: nat

definition no_tally :: tally where
  "no_tally = \<lparr>ta_queued = 0, ta_skipped = 0, ta_noop = 0, ta_danger = 0\<rparr>"

definition lost_race :: "step_row \<Rightarrow> step_row" where
  "lost_race x = x\<lparr>st_status := SSkipped, st_reason := ''deployment has work in flight''\<rparr>"

definition skip_step :: "uuid \<Rightarrow> plane \<Rightarrow> plane" where
  "skip_step i p = (let c = core p in
     p\<lparr>core := c\<lparr>steps := sql_update (\<lambda>x. st_id x = i) lost_race (steps c)\<rparr>\<rparr>)"

text \<open>The statement of \<open>EnqueueReconcile\<close> fails with the fault of this step.\<close>

definition job_faults :: "pfaults \<Rightarrow> nat \<Rightarrow> faults" where
  "job_faults flt n = (\<lambda>site. flt (PApplyJob n))"

definition step_dep :: "plan_step \<Rightarrow> uuid" where
  "step_dep x = trim_prefix (ps_key x) ''convex_deployment:''"

fun apply_steps ::
  "pfaults \<Rightarrow> uuids \<Rightarrow> bool \<Rightarrow> string list \<Rightarrow> uuid \<Rightarrow> nat \<Rightarrow> plan_step list \<Rightarrow> tally \<Rightarrow> plane
     \<Rightarrow> string + tally \<times> plane" where
  "apply_steps flt gen hc only run n [] t p = Inr (t, p)"
| "apply_steps flt gen hc only run n (x # xs) t p =
     (case decide_apply_step flt n x (step_dep x) only (core p) of (v, aborted) \<Rightarrow>
      if aborted then Inl ''Failed to start apply''
      else case flt (PApplyStep n) of
        Some _ \<Rightarrow> Inl ''Failed to start apply''
      | None \<Rightarrow>
          (case insert_step gen run n x (verdict_status v) (verdict_reason v) p of (i, p1) \<Rightarrow>
           case v of
             Enqueue \<Rightarrow>
               (case enqueue_reconcile (job_faults flt n) (step_dep x) (ps_action x) run i hc (core p1) of
                  (Inl _, _) \<Rightarrow> Inl ''Failed to enqueue reconcile work''
                | (Inr None, c) \<Rightarrow>
                    (case flt (PApplySkip n) of
                       Some _ \<Rightarrow> Inl ''Failed to enqueue reconcile work''
                     | None \<Rightarrow> apply_steps flt gen hc only run (Suc n) xs
                         (t\<lparr>ta_skipped := ta_skipped t + 1\<rparr>) (skip_step i (p1\<lparr>core := c\<rparr>)))
                | (Inr (Some _), c) \<Rightarrow> apply_steps flt gen hc only run (Suc n) xs
                    (t\<lparr>ta_queued := ta_queued t + 1\<rparr>) (p1\<lparr>core := c\<rparr>))
           | NoOp _ \<Rightarrow> apply_steps flt gen hc only run (Suc n) xs (t\<lparr>ta_noop := ta_noop t + 1\<rparr>) p1
           | Skip _ \<Rightarrow> apply_steps flt gen hc only run (Suc n) xs
               (if ps_dangerous x then t\<lparr>ta_danger := ta_danger t + 1\<rparr>
                else t\<lparr>ta_skipped := ta_skipped t + 1\<rparr>) p1))"

section \<open>The endpoint\<close>

definition tally_doc :: "tally \<Rightarrow> doc" where
  "tally_doc t = [(''queued'', JNum (int (ta_queued t))), (''skipped'', JNum (int (ta_skipped t))),
     (''noOp'', JNum (int (ta_noop t))), (''dangerousSkipped'', JNum (int (ta_danger t)))]"

datatype apply_reply = Refused nat string | Accepted uuid run_status tally

definition close_run :: "uuid \<Rightarrow> doc \<Rightarrow> plane \<Rightarrow> plane" where
  "close_run run d p = (let c = core p in
     p\<lparr>core := c\<lparr>runs := sql_update (\<lambda>r. run_id r = run) (end_run (clock c) RSucceeded) (runs c)\<rparr>,
       run_docs := sql_update (\<lambda>x. rd_run x = run) (\<lambda>x. x\<lparr>rd_result := Some d\<rparr>) (run_docs p)\<rparr>)"

definition do_apply ::
  "pfaults \<Rightarrow> uuids \<Rightarrow> drift_config \<Rightarrow> string list \<Rightarrow> uuid \<Rightarrow> drift_scope \<Rightarrow> plane \<Rightarrow> apply_reply \<times> plane" where
  "do_apply flt gen cfg only actor s p =
     (if \<not> effective_apply_enabled flt cfg p then
        (Refused 404 ''Reconcile apply is not enabled on this instance'', p)
      else case compute_drift flt cfg s p of
        Inl _ \<Rightarrow> (Refused 500 ''Failed to compute drift'', p)
      | Inr (its, _) \<Rightarrow>
          if flt PApplyBegin \<noteq> None \<or> flt PApplyRun \<noteq> None then (Refused 500 ''Failed to start apply'', p)
          else (case insert_run gen (op_run_input s ''reconcile_apply'' (Some actor)) p of (run, p1) \<Rightarrow>
            (case apply_steps flt gen (df_hc_network cfg) (map trim_space only) run 0
                    (build_plan_steps its) no_tally p1 of
               Inl msg \<Rightarrow> (Refused 500 msg, p)
             | Inr (t, p2) \<Rightarrow>
                 if ta_queued t = 0 then
                   (if flt PApplyClose \<noteq> None then (Refused 500 ''Failed to finalize apply'', p)
                    else if flt PApplyCommit \<noteq> None then (Refused 500 ''Failed to start apply'', p)
                    else (Accepted run RSucceeded t, close_run run (tally_doc t) p2))
                 else if flt PApplyCommit \<noteq> None then (Refused 500 ''Failed to start apply'', p)
                 else (Accepted run RRunning t, p2))))"

end
