(* ===== verification/DesiredProps.thy ===== *)
theory DesiredProps
  imports Desired
begin

text \<open>
  The synchronisation of desired states as an update of one map, from (host, type, key) to the
  active row: what the partial unique index of the table makes well defined.
\<close>

section \<open>The active rows\<close>

definition is_active :: "desired_row \<Rightarrow> bool" where
  "is_active r \<longleftrightarrow> ds_status r = DsActive"

definition plain :: "string \<Rightarrow> bool" where
  "plain s \<longleftrightarrow> CHR ''|'' \<notin> set s"

text \<open>
  The invariant of the table: the primary key, ids drawn from the generator, one active row for a
  resource on a host, and the stored hash is the hash of the body. Host ids are UUIDs.
\<close>

definition rows_ok :: "(desired_body \<Rightarrow> string) \<Rightarrow> desired_row list \<Rightarrow> bool" where
  "rows_ok hash t \<longleftrightarrow> distinct (map ds_id t) \<and> distinct (map row_dkey (filter is_active t))
     \<and> (\<forall>r \<in> set t. ds_hash r = hash (ds_body r) \<and> plain (ds_host r))"

definition ids_drawn :: "uuids \<Rightarrow> plane \<Rightarrow> bool" where
  "ids_drawn gen p \<longleftrightarrow> (\<forall>r \<in> set (desired p). \<exists>n < next_uuid p. ds_id r = gen n)"

definition desired_ok :: "uuids \<Rightarrow> (desired_body \<Rightarrow> string) \<Rightarrow> plane \<Rightarrow> bool" where
  "desired_ok gen hash p \<longleftrightarrow> rows_ok hash (desired p) \<and> ids_drawn gen p"

lemma sql_row_filter_unique:
  "distinct (map key t) \<Longrightarrow> sql_row (\<lambda>r. key r = x) (filter q t)
     = (case sql_row (\<lambda>r. key r = x) t of None \<Rightarrow> None | Some r \<Rightarrow> if q r then Some r else None)"
proof (induction t)
  case (Cons a t)
  have "sql_row (\<lambda>r. key r = key a) t = None"
    unfolding sql_row_None using Cons.prems by (metis distinct.simps(2) image_eqI list.simps(9) set_map)
  with Cons show ?case by auto
qed simp

lemma active_at_filter: "active_at x t = sql_row (\<lambda>r. row_dkey r = x) (filter is_active t)"
  by (induction t) (auto simp: active_at_def is_active_def)

lemma active_atD: "active_at x t = Some r \<Longrightarrow> r \<in> set t \<and> is_active r \<and> row_dkey r = x"
  unfolding active_at_def is_active_def by (drule sql_row_SomeD) simp

lemma active_at_row:
  "rows_ok hash t \<Longrightarrow> r \<in> set t \<Longrightarrow> is_active r \<Longrightarrow> active_at (row_dkey r) t = Some r"
  unfolding active_at_filter by (rule sql_row_key) (auto simp: rows_ok_def)

section \<open>Superseding and inserting\<close>

lemma filter_active_supersede:
  "filter is_active (sql_update q supersede t) = filter (\<lambda>r. \<not> q r) (filter is_active t)"
  by (induction t) (auto simp: is_active_def supersede_def)

lemma distinct_map_filterI: "distinct (map f t) \<Longrightarrow> distinct (map f (filter q t))"
  by (induction t) auto

lemma rows_ok_supersede: "rows_ok hash t \<Longrightarrow> rows_ok hash (sql_update q supersede t)"
proof -
  have "map ds_id (sql_update q supersede t) = map ds_id t" by (induction t) (auto simp: supersede_def)
  moreover have "\<forall>r \<in> set t. ds_hash r = hash (ds_body r) \<and> plain (ds_host r) \<Longrightarrow>
      \<forall>r \<in> set (sql_update q supersede t). ds_hash r = hash (ds_body r) \<and> plain (ds_host r)"
    by (induction t) (auto simp: supersede_def)
  ultimately show "rows_ok hash t \<Longrightarrow> rows_ok hash (sql_update q supersede t)"
    unfolding rows_ok_def filter_active_supersede by (simp add: distinct_map_filterI del: filter_filter)
qed

lemma active_at_supersede:
  "rows_ok hash t \<Longrightarrow> active_at x (sql_update q supersede t)
     = (case active_at x t of None \<Rightarrow> None | Some r \<Rightarrow> if q r then None else Some r)"
  unfolding active_at_filter filter_active_supersede
  by (subst sql_row_filter_unique) (auto simp: rows_ok_def split: option.splits)

lemma retire_ok: "desired_ok gen hash p \<Longrightarrow> desired_ok gen hash (retire i p)"
  unfolding desired_ok_def retire_def ids_drawn_def
  by (auto simp: rows_ok_supersede set_sql_update supersede_def split: if_splits)

lemma active_at_retire:
  assumes "desired_ok gen hash p" "active_at x (desired p) = Some r"
  shows "active_at y (desired (retire (ds_id r) p)) = (if y = x then None else active_at y (desired p))"
proof -
  have ok: "rows_ok hash (desired p)" using assms(1) by (simp add: desired_ok_def)
  have "ds_id r' = ds_id r \<longleftrightarrow> y = x" if "active_at y (desired p) = Some r'" for r'
  proof
    assume "ds_id r' = ds_id r"
    then have "r' = r"
      using ok active_atD [OF that] active_atD [OF assms(2)] distinct_key_eq
      unfolding rows_ok_def by metis
    with active_atD [OF that] active_atD [OF assms(2)] show "y = x" by simp
  qed (use that assms(2) in simp)
  then show ?thesis
    by (auto simp: retire_def active_at_supersede [OF ok] assms(2) split: option.splits)
qed

lemma insert_desired_ok:
  assumes "desired_ok gen hash p" "active_at (want_dkey w) (desired p) = None" "inj gen" "plain (wa_host w)"
  shows "desired_ok gen hash (insert_desired gen hash team project w v p)"
    and "active_at y (desired (insert_desired gen hash team project w v p))
      = (if y = want_dkey w
         then Some (new_desired (fresh_id gen p) team project w (hash (desired_payload project w)) v)
         else active_at y (desired p))"
proof -
  let ?r = "new_desired (fresh_id gen p) team project w (hash (desired_payload project w)) v"
  have r: "row_dkey ?r = want_dkey w" "is_active ?r" "ds_id ?r = gen (next_uuid p)"
    "ds_hash ?r = hash (ds_body ?r)" "ds_host ?r = wa_host w"
    by (simp_all add: new_desired_def row_dkey_def want_dkey_def is_active_def fresh_id_def)
  have "ds_id ?r \<notin> ds_id ` set (desired p)"
    using assms(1,3) unfolding r(3) desired_ok_def ids_drawn_def
    by (metis image_iff injD less_irrefl)
  moreover have "row_dkey ?r \<notin> row_dkey ` set (filter is_active (desired p))"
    using assms(2) unfolding r(1) active_at_filter by (auto simp: sql_row_None)
  ultimately have "rows_ok hash (desired p @ [?r])"
    using assms(1,4) r by (auto simp: desired_ok_def rows_ok_def)
  moreover have "\<exists>n < Suc (next_uuid p). ds_id x = gen n" if "x \<in> set (desired p @ [?r])" for x
    using assms(1) that r(3) unfolding desired_ok_def ids_drawn_def
    by (auto intro: less_SucI)
  ultimately show "desired_ok gen hash (insert_desired gen hash team project w v p)"
    by (simp add: desired_ok_def insert_desired_def drawn_def ids_drawn_def)
  show "active_at y (desired (insert_desired gen hash team project w v p))
      = (if y = want_dkey w then Some ?r else active_at y (desired p))"
  proof (cases "y = want_dkey w")
    case True
    with assms(2) r show ?thesis
      by (simp add: insert_desired_def active_at_def sql_row_append is_active_def)
  next
    case False
    with r show ?thesis
      by (simp add: insert_desired_def active_at_def sql_row_append is_active_def split: option.splits)
  qed
qed

section \<open>The transaction\<close>

lemma sync_wants_rows:
  assumes "sync_wants flt gen hash team project n ws cnt p = Inr (cnt', p')"
    and "desired_ok gen hash p" "inj gen" "distinct (map want_dkey ws)"
    and "\<And>w. w \<in> set ws \<Longrightarrow> plain (wa_host w)"
    and "\<And>w r. w \<in> set ws \<Longrightarrow> active_at (want_dkey w) (desired p) = Some r
       \<Longrightarrow> ds_hash r = hash (desired_payload project w) \<Longrightarrow> ds_body r = desired_payload project w"
  shows "desired_ok gen hash p'
    \<and> (\<forall>w \<in> set ws. map_option ds_body (active_at (want_dkey w) (desired p')) = Some (desired_payload project w))
    \<and> (\<forall>x. x \<notin> want_dkey ` set ws \<longrightarrow> active_at x (desired p') = active_at x (desired p))"
  using assms
proof (induction ws arbitrary: n cnt p)
  case Nil
  then show ?case by auto
next
  case (Cons w ws)
  obtain c u k where cnt: "cnt = (c, u, k)" by (cases cnt)
  have step: ?case
    if run: "sync_wants flt gen hash team project (Suc n) ws cnt2 q = Inr (cnt', p')"
      and ok: "desired_ok gen hash q"
      and here: "map_option ds_body (active_at (want_dkey w) (desired q)) = Some (desired_payload project w)"
      and rest: "\<And>x. x \<noteq> want_dkey w \<Longrightarrow> active_at x (desired q) = active_at x (desired p)" for q cnt2
  proof -
    have other: "want_dkey v \<noteq> want_dkey w" if "v \<in> set ws" for v
      using Cons.prems(4) that by (metis distinct.simps(2) image_eqI list.map(2) list.set_map)
    have hyp: "ds_body r = desired_payload project v"
      if "v \<in> set ws" "active_at (want_dkey v) (desired q) = Some r"
        "ds_hash r = hash (desired_payload project v)" for v r
      using Cons.prems(6) [of v r] that rest [OF other] by simp
    have dist: "distinct (map want_dkey ws)" using Cons.prems(4) by simp
    have pl: "plain (wa_host v)" if "v \<in> set ws" for v using Cons.prems(5) that by simp
    note IH = Cons.IH [OF run ok Cons.prems(3) dist pl hyp]
    have notin: "want_dkey w \<notin> want_dkey ` set ws" by (metis imageE other)
    have "active_at (want_dkey w) (desired p') = active_at (want_dkey w) (desired q)"
      using IH notin by blast
    then have "map_option ds_body (active_at (want_dkey w) (desired p')) = Some (desired_payload project w)"
      using here by (simp only:)
    moreover have "active_at x (desired p') = active_at x (desired p)"
      if "x \<notin> want_dkey ` set (w # ws)" for x
      using IH rest [of x] that by (metis image_insert insert_iff list.simps(15))
    ultimately show ?case using IH unfolding list.set ball_simps by blast
  qed
  show ?case
  proof (cases "active_at (want_dkey w) (desired p)")
    case None
    with Cons.prems(1) obtain cnt2 where run: "sync_wants flt gen hash team project (Suc n) ws cnt2
        (insert_desired gen hash team project w 1 p) = Inr (cnt', p')"
      unfolding cnt by (auto split: option.splits)
    have pl: "plain (wa_host w)" using Cons.prems(5) by simp
    note ins = insert_desired_ok [OF Cons.prems(2) None Cons.prems(3) pl]
    show ?thesis by (rule step [OF run ins(1)]) (simp_all add: ins(2) new_desired_def)
  next
    case (Some r)
    show ?thesis
    proof (cases "ds_hash r = hash (desired_payload project w)")
      case True
      with Cons.prems(1) Some obtain cnt2 where "sync_wants flt gen hash team project (Suc n) ws cnt2 p = Inr (cnt', p')"
        unfolding cnt by (auto split: option.splits)
      moreover have "ds_body r = desired_payload project w" using Cons.prems(6) [of w r] Some True by simp
      ultimately show ?thesis using step Cons.prems(2) Some by simp
    next
      case False
      let ?q = "retire (ds_id r) p"
      from False Cons.prems(1) Some obtain cnt2 where run: "sync_wants flt gen hash team project (Suc n) ws cnt2
          (insert_desired gen hash team project w (ds_version r + 1) ?q) = Inr (cnt', p')"
        unfolding cnt by (auto split: option.splits)
      have pl: "plain (wa_host w)" using Cons.prems(5) by simp
      note ret = active_at_retire [OF Cons.prems(2) Some]
      have none: "active_at (want_dkey w) (desired ?q) = None" by (simp add: ret)
      note ins = insert_desired_ok [OF retire_ok [OF Cons.prems(2)] none Cons.prems(3) pl]
      show ?thesis by (rule step [OF run ins(1)]) (simp_all add: ins(2) ret new_desired_def)
    qed
  qed
qed

lemma supersede_twice:
  "sql_update (\<lambda>r. ds_id r = i \<or> q r) supersede t = sql_update q supersede (sql_update (\<lambda>r. ds_id r = i) supersede t)"
  if "\<And>r. q (supersede r) = q r"
  using that by (induction t) (auto simp: supersede_def)

lemma retire_all_rows:
  "retire_all flt n is p = Inr p' \<Longrightarrow>
     p' = p\<lparr>desired := sql_update (\<lambda>r. ds_id r \<in> set is) supersede (desired p)\<rparr>"
proof (induction "is" arbitrary: n p)
  case (Cons i "is")
  then have "p' = (retire i p)\<lparr>desired := sql_update (\<lambda>r. ds_id r \<in> set is) supersede (desired (retire i p))\<rparr>"
    by (auto split: option.splits)
  moreover have "sql_update (\<lambda>r. ds_id r = i \<or> ds_id r \<in> set is) supersede (desired p)
      = sql_update (\<lambda>r. ds_id r \<in> set is) supersede (sql_update (\<lambda>r. ds_id r = i) supersede (desired p))"
    by (rule supersede_twice) (simp add: supersede_def)
  ultimately show ?case by (simp add: retire_def)
qed (simp add: sql_update_id)

lemma plain_key: "plain h \<Longrightarrow> plain h' \<Longrightarrow> h @ ''|'' @ k = h' @ ''|'' @ k' \<longleftrightarrow> h = h' \<and> k = k'"
proof (induction h arbitrary: h')
  case Nil
  then show ?case by (cases h') (auto simp: plain_def)
next
  case (Cons a h)
  then show ?case by (cases h') (auto simp: plain_def)
qed

text \<open>What the schema says of placements and cells: one placement per deployment, one cell per id.\<close>

definition placements_ok :: "plane \<Rightarrow> bool" where
  "placements_ok p \<longleftrightarrow> distinct (map pl_deployment (placements p)) \<and> distinct (map ce_id (cells p))
     \<and> (\<forall>x \<in> set (placements p). case pl_host x of None \<Rightarrow> True | Some h \<Rightarrow> plain h)"

lemma wants_at_most_one:
  assumes "distinct (map ce_id t)"
  shows "length (filter (\<lambda>c. ce_id c = i \<and> q c) t) \<le> 1"
  using assms
proof (induction t)
  case (Cons a t)
  show ?case
  proof (cases "ce_id a = i")
    case True
    then have "filter (\<lambda>c. ce_id c = i \<and> q c) t = []"
      using Cons.prems by (auto simp: filter_empty_conv image_iff)
    then show ?thesis by simp
  next
    case False
    with Cons show ?thesis by simp
  qed
qed simp

lemma want_rows_dep: "w \<in> set (want_rows project cs x) \<Longrightarrow> wa_dep w = pl_deployment x \<and> pl_host x = Some (wa_host w)"
  by (auto simp: want_rows_def split: option.splits)

lemma want_rows_at_most_one: "distinct (map ce_id cs) \<Longrightarrow> length (want_rows project cs x) \<le> 1"
  using wants_at_most_one [of cs "pl_cell x" "\<lambda>c. ce_project c = project"]
  by (simp add: want_rows_def split: option.splits)

lemma short_distinct: "length l \<le> 1 \<Longrightarrow> distinct (map f l)"
  by (cases l) auto

lemma below_disjoint: "A \<subseteq> {x} \<Longrightarrow> B \<subseteq> S \<Longrightarrow> x \<notin> S \<Longrightarrow> A \<inter> B = {}"
  by blast

lemma want_rows_distinct:
  "distinct (map ce_id cs) \<Longrightarrow> distinct (map pl_deployment ps)
     \<Longrightarrow> distinct (map wa_dep (concat (map (want_rows project cs) ps)))"
proof (induction ps)
  case (Cons x ps)
  have "wa_dep ` set (want_rows project cs x) \<subseteq> {pl_deployment x}"
    "wa_dep ` set (concat (map (want_rows project cs) ps)) \<subseteq> pl_deployment ` set ps"
    using want_rows_dep by auto
  moreover have "pl_deployment x \<notin> pl_deployment ` set ps" using Cons.prems by simp
  ultimately have "wa_dep ` set (want_rows project cs x) \<inter> wa_dep ` set (concat (map (want_rows project cs) ps)) = {}"
    by (rule below_disjoint)
  moreover have "distinct (map wa_dep (concat (map (want_rows project cs) ps)))"
    using Cons by (simp only: list.map distinct.simps)
  moreover note short_distinct [OF want_rows_at_most_one [OF Cons.prems(1)]]
  ultimately show ?case by (simp only: list.map concat.simps map_append distinct_append set_map simp_thms)
qed simp

lemma wants_distinct: "placements_ok p \<Longrightarrow> distinct (map want_dkey (wants_of project p))"
proof -
  assume "placements_ok p"
  then have "distinct (map wa_dep (wants_of project p))"
    by (simp add: placements_ok_def wants_of_def want_rows_distinct)
  moreover have "inj_on want_dkey S" if "inj_on wa_dep S" for S
    using that by (auto simp: inj_on_def want_dkey_def want_key_def)
  ultimately show ?thesis by (simp add: distinct_map)
qed

lemma wants_plain: "placements_ok p \<Longrightarrow> w \<in> set (wants_of project p) \<Longrightarrow> plain (wa_host w)"
  by (auto simp: placements_ok_def wants_of_def dest!: want_rows_dep split: option.splits)

section \<open>What a synchronisation leaves\<close>

definition no_collision :: "(desired_body \<Rightarrow> string) \<Rightarrow> uuid \<Rightarrow> plane \<Rightarrow> bool" where
  "no_collision hash project p \<longleftrightarrow> (\<forall>r \<in> set (desired p). \<forall>w \<in> set (wants_of project p).
     hash (ds_body r) = hash (desired_payload project w) \<longrightarrow> ds_body r = desired_payload project w)"

lemma sync_wants_frame:
  "sync_wants flt gen hash team project n ws cnt p = Inr (cnt', p')
     \<Longrightarrow> placements p' = placements p \<and> cells p' = cells p \<and> core p' = core p \<and> observed p' = observed p"
proof (induction ws arbitrary: n cnt p)
  case (Cons w ws)
  obtain c u k where "cnt = (c, u, k)" by (cases cnt)
  with Cons show ?case
    by (fastforce simp: insert_desired_def drawn_def retire_def split: option.splits if_splits)
qed simp

lemma sync_unfold:
  assumes "sync_desired_from_placements flt gen hash project team p = (Inr res, p')"
  obtains c u k q where "sync_wants flt gen hash team project 0 (wants_of project p) (0, 0, 0) p = Inr ((c, u, k), q)"
    "p' = q\<lparr>desired := sql_update (\<lambda>r. ds_id r \<in> set (orphans project (wants_of project p) q)) supersede (desired q)\<rparr>"
    "res = \<lparr>sy_created = c, sy_updated = u, sy_unchanged = k,
       sy_superseded = length (orphans project (wants_of project p) q), sy_total = length (wants_of project p)\<rparr>"
  using assms retire_all_rows unfolding sync_desired_from_placements_def
  by (auto simp: Let_def split: option.splits sum.splits prod.splits)

lemma orphan_iff:
  assumes "rows_ok hash (desired p)" "r \<in> set (desired p)"
  shows "ds_id r \<in> set (orphans project ws p)
    \<longleftrightarrow> project_placed project r \<and> ds_host r @ ''|'' @ ds_key r \<notin> set (wanted_keys ws)"
  using assms distinct_key_eq [of ds_id "desired p" r] unfolding orphans_def rows_ok_def by auto

lemma wanted_iff:
  assumes "plain (ds_host r)" "ds_type r = res_deployment" "\<And>w. w \<in> set ws \<Longrightarrow> plain (wa_host w)"
  shows "ds_host r @ ''|'' @ ds_key r \<in> set (wanted_keys ws) \<longleftrightarrow> row_dkey r \<in> want_dkey ` set ws"
proof -
  have "ds_host r @ ''|'' @ ds_key r = wa_host w @ ''|'' @ want_key w \<longleftrightarrow> row_dkey r = want_dkey w"
    if "w \<in> set ws" for w
    using plain_key [OF assms(1) assms(3) [OF that]] assms(2) by (simp add: row_dkey_def want_dkey_def)
  then show ?thesis unfolding wanted_keys_def by (auto simp: image_iff)
qed

lemma sync_active:
  assumes run: "sync_desired_from_placements flt gen hash project team p = (Inr res, p')"
    and ok: "desired_ok gen hash p" and pl: "placements_ok p" and "inj gen" "no_collision hash project p"
  shows "desired_ok gen hash p'"
    and "w \<in> set (wants_of project p)
      \<Longrightarrow> map_option ds_body (active_at (want_dkey w) (desired p')) = Some (desired_payload project w)"
    and "x \<notin> want_dkey ` set (wants_of project p) \<Longrightarrow> active_at x (desired p')
      = (case active_at x (desired p) of None \<Rightarrow> None
         | Some r \<Rightarrow> if project_placed project r then None else Some r)"
proof -
  let ?ws = "wants_of project p"
  obtain c u k q where q: "sync_wants flt gen hash team project 0 ?ws (0, 0, 0) p = Inr ((c, u, k), q)"
    and p': "p' = q\<lparr>desired := sql_update (\<lambda>r. ds_id r \<in> set (orphans project ?ws q)) supersede (desired q)\<rparr>"
    using run by (rule sync_unfold)
  have wp: "plain (wa_host w)" if "w \<in> set ?ws" for w using wants_plain [OF pl that] .
  have col: "ds_body r = desired_payload project w"
    if "w \<in> set ?ws" "active_at (want_dkey w) (desired p) = Some r"
      "ds_hash r = hash (desired_payload project w)" for w r
    using assms(5) that ok active_atD [OF that(2)] unfolding no_collision_def desired_ok_def rows_ok_def by auto
  from sync_wants_rows [OF q ok assms(4) wants_distinct [OF pl] wp col]
  have rows: "desired_ok gen hash q"
    "\<And>w. w \<in> set ?ws \<Longrightarrow> map_option ds_body (active_at (want_dkey w) (desired q)) = Some (desired_payload project w)"
    "\<And>x. x \<notin> want_dkey ` set ?ws \<Longrightarrow> active_at x (desired q) = active_at x (desired p)" by blast+
  have okq: "rows_ok hash (desired q)" using rows(1) by (simp add: desired_ok_def)
  show "desired_ok gen hash p'"
    using rows(1) unfolding p' desired_ok_def ids_drawn_def
    by (auto simp: rows_ok_supersede set_sql_update supersede_def split: if_splits)
  have gone: "ds_id r \<in> set (orphans project ?ws q) \<longleftrightarrow> project_placed project r \<and> x \<notin> want_dkey ` set ?ws"
    if r: "active_at x (desired q) = Some r" for x r
  proof -
    have in_q: "r \<in> set (desired q)" "row_dkey r = x" using active_atD [OF r] by auto
    have "plain (ds_host r)" using okq in_q(1) by (simp add: rows_ok_def)
    then have "project_placed project r \<Longrightarrow>
        ds_host r @ ''|'' @ ds_key r \<in> set (wanted_keys ?ws) \<longleftrightarrow> x \<in> want_dkey ` set ?ws"
      using wanted_iff [OF _ _ wp] in_q(2) by (simp add: project_placed_def)
    with orphan_iff [OF okq in_q(1)] show ?thesis by metis
  qed
  have at: "active_at x (desired p') = (case active_at x (desired q) of None \<Rightarrow> None
      | Some r \<Rightarrow> if project_placed project r \<and> x \<notin> want_dkey ` set ?ws then None else Some r)" for x
    unfolding p' by (auto simp: active_at_supersede [OF okq] gone split: option.splits)
  show "map_option ds_body (active_at (want_dkey w) (desired p')) = Some (desired_payload project w)"
    if "w \<in> set ?ws"
    using rows(2) [OF that] imageI [OF that, of want_dkey] unfolding at by (auto split: option.splits)
  show "active_at x (desired p') = (case active_at x (desired p) of None \<Rightarrow> None
         | Some r \<Rightarrow> if project_placed project r then None else Some r)"
    if "x \<notin> want_dkey ` set ?ws"
    using that rows(3) [OF that] unfolding at by (auto split: option.splits)
qed

lemma sync_wants_same:
  "\<forall>w \<in> set ws. map_option ds_hash (active_at (want_dkey w) (desired p)) = Some (hash (desired_payload project w))
     \<Longrightarrow> sync_wants no_pfaults gen hash team project n ws (c, u, k) p = Inr ((c, u, k + length ws), p)"
  by (induction ws arbitrary: n k) (auto split: option.splits)

lemma synced_no_orphans:
  assumes "sync_desired_from_placements flt gen hash project team p = (Inr res, p')"
    and "desired_ok gen hash p" "placements_ok p" "inj gen" "no_collision hash project p"
    and r: "r \<in> set (desired p')" "project_placed project r"
  shows "row_dkey r \<in> want_dkey ` set (wants_of project p)"
proof (rule ccontr)
  note sync = sync_active [OF assms(1-5)]
  assume "row_dkey r \<notin> want_dkey ` set (wants_of project p)"
  moreover have "active_at (row_dkey r) (desired p') = Some r"
    using active_at_row [of hash, OF _ r(1)] sync(1) r(2)
    by (simp add: desired_ok_def is_active_def project_placed_def)
  ultimately show False using sync(3) [of "row_dkey r"] r(2) by (auto split: option.splits if_splits)
qed

definition demo_want :: want where
  "demo_want = \<lparr>wa_dep = ''d1'', wa_cell = ''c1'', wa_host = ''h1'', wa_status = ''running'', wa_team = ''t1''\<rparr>"

definition demo_hash :: "desired_body \<Rightarrow> string" where
  "demo_hash b = db_deployment b @ ''/'' @ db_host b @ ''/'' @ (case db_status b of None \<Rightarrow> [] | Some x \<Rightarrow> x)"

definition demo_desired :: "uuid \<Rightarrow> uuid \<Rightarrow> desired_row" where
  "demo_desired i d = new_desired i ''t1'' ''p1'' (demo_want\<lparr>wa_dep := d\<rparr>)
     (demo_hash (desired_payload ''p1'' (demo_want\<lparr>wa_dep := d\<rparr>))) 1"

text \<open>A project with one placement, whose active desired states still hold a deployment that has left.\<close>

definition demo_plane :: plane where
  "demo_plane = \<lparr>core = empty_state, agents = [], adoptions = [],
     cells = [\<lparr>ce_id = ''c1'', ce_team = ''t1'', ce_project = ''p1'', ce_name = ''core'', ce_slug = ''core'', ce_kind = ''core'',
       ce_env = ''prod'', ce_region = [], ce_tier = ''shared'', ce_status = ''active'', ce_primary = None, ce_host = None,
       ce_description = [], ce_created = 0, ce_updated = 0\<rparr>],
     placements = [\<lparr>pl_id = ''l1'', pl_deployment = ''d1'', pl_cell = ''c1'', pl_host = Some ''h1'', pl_desired = ''running'',
       pl_observed = ''running'', pl_container = None, pl_port = None, pl_url = None, pl_seen = None, pl_created = 0,
       pl_updated = 0\<rparr>],
     cell_resources = [], cell_links = [], service_tokens = [], desired = [demo_desired ''0'' ''d0''], observed = [], reports = [], items = [],
     run_docs = [], step_inputs = [], next_uuid = 1\<rparr>"

definition demo_synced :: plane where
  "demo_synced = snd (sync_desired_from_placements no_pfaults dec demo_hash ''p1'' ''t1'' demo_plane)"

lemma demo_plane_facts:
  "desired_ok dec demo_hash demo_plane" "placements_ok demo_plane" "inj dec" "no_collision demo_hash ''p1'' demo_plane"
  "sync_desired_from_placements no_pfaults dec demo_hash ''p1'' ''t1'' demo_plane
     = (Inr \<lparr>sy_created = 1, sy_updated = 0, sy_unchanged = 0, sy_superseded = 1, sy_total = 1\<rparr>, demo_synced)"
proof -
  have "dec 0 = ''0''" by code_simp
  then show "desired_ok dec demo_hash demo_plane"
    by (simp add: desired_ok_def rows_ok_def ids_drawn_def demo_plane_def demo_desired_def new_desired_def
        is_active_def plain_def demo_want_def)
  show "placements_ok demo_plane" by code_simp
  show "inj dec" by (simp add: inj_def)
  show "no_collision demo_hash ''p1'' demo_plane" by code_simp
  show "sync_desired_from_placements no_pfaults dec demo_hash ''p1'' ''t1'' demo_plane
     = (Inr \<lparr>sy_created = 1, sy_updated = 0, sy_unchanged = 0, sy_superseded = 1, sy_total = 1\<rparr>, demo_synced)"
    unfolding demo_synced_def by code_simp
qed

text \<open>
  C8: a synchronisation refines one update of the map of active desired states: every placement with
  a host gets exactly its intent, no placement-sourced row of the project stays active without a
  placement, every other active row is the row it was, and the table keeps its invariant.
\<close>

theorem sync_mirrors_placements:
  assumes "sync_desired_from_placements flt gen hash project team p = (Inr res, p')"
    and "desired_ok gen hash p" "placements_ok p" "inj gen" "no_collision hash project p"
  shows "desired_ok gen hash p'
    \<and> (\<forall>w \<in> set (wants_of project p).
         map_option ds_body (active_at (want_dkey w) (desired p')) = Some (desired_payload project w))
    \<and> (\<forall>r \<in> set (desired p'). project_placed project r \<longrightarrow> row_dkey r \<in> want_dkey ` set (wants_of project p))
    \<and> (\<forall>x r. x \<notin> want_dkey ` set (wants_of project p) \<longrightarrow> active_at x (desired p) = Some r
         \<longrightarrow> \<not> project_placed project r \<longrightarrow> active_at x (desired p') = Some r)"
  using sync_active [OF assms] synced_no_orphans [OF assms] by (intro conjI ballI allI impI) simp_all

theorem sync_mirrors_placements_witness:
  "map_option ds_body (active_at (want_dkey demo_want) (desired demo_synced)) = Some (desired_payload ''p1'' demo_want)"
proof -
  have "demo_want \<in> set (wants_of ''p1'' demo_plane)" by code_simp
  with sync_mirrors_placements [OF demo_plane_facts(5,1-4)] show ?thesis by blast
qed

text \<open>
  The synchronisation is idempotent: run again with unchanged placements it reports every
  placement as unchanged and writes nothing.
\<close>

theorem sync_idempotent:
  assumes "sync_desired_from_placements flt gen hash project team p = (Inr res, p')"
    and "desired_ok gen hash p" "placements_ok p" "inj gen" "no_collision hash project p"
  shows "sync_desired_from_placements no_pfaults gen hash project team p'
    = (Inr \<lparr>sy_created = 0, sy_updated = 0, sy_unchanged = sy_total res, sy_superseded = 0,
            sy_total = sy_total res\<rparr>, p')"
proof -
  let ?ws = "wants_of project p"
  obtain c u k q where q: "sync_wants flt gen hash team project 0 ?ws (0, 0, 0) p = Inr ((c, u, k), q)"
    and p': "p' = q\<lparr>desired := sql_update (\<lambda>r. ds_id r \<in> set (orphans project ?ws q)) supersede (desired q)\<rparr>"
    and res: "sy_total res = length ?ws"
    using assms(1) by (rule sync_unfold) simp
  have ws: "wants_of project p' = ?ws" using sync_wants_frame [OF q] unfolding p' by (simp add: wants_of_def)
  note sync = sync_active [OF assms]
  have ok: "rows_ok hash (desired p')" using sync(1) by (simp add: desired_ok_def)
  have "map_option ds_hash (active_at (want_dkey w) (desired p')) = Some (hash (desired_payload project w))"
    if mem: "w \<in> set ?ws" for w
  proof -
    obtain z where z: "active_at (want_dkey w) (desired p') = Some z" "ds_body z = desired_payload project w"
      using sync(2) [OF mem] by auto
    moreover have "ds_hash z = hash (ds_body z)" using ok active_atD [OF z(1)] by (simp add: rows_ok_def)
    ultimately show ?thesis by simp
  qed
  then have same: "sync_wants no_pfaults gen hash team project 0 ?ws (0, 0, 0) p' = Inr ((0, 0, 0 + length ?ws), p')"
    by (intro sync_wants_same) blast
  have "ds_host r @ ''|'' @ ds_key r \<in> set (wanted_keys ?ws)" if "r \<in> set (desired p')" "project_placed project r" for r
    using wanted_iff [OF _ _ wants_plain [OF assms(3)]] synced_no_orphans [OF assms that] ok that
    by (simp add: rows_ok_def project_placed_def)
  then have "orphans project ?ws p' = []" by (auto simp: orphans_def filter_empty_conv)
  with same show ?thesis unfolding sync_desired_from_placements_def ws res by (simp add: Let_def)
qed

theorem sync_idempotent_witness:
  "sync_desired_from_placements no_pfaults dec demo_hash ''p1'' ''t1'' demo_synced
     = (Inr \<lparr>sy_created = 0, sy_updated = 0, sy_unchanged = 1, sy_superseded = 0, sy_total = 1\<rparr>, demo_synced)"
  using sync_idempotent [OF demo_plane_facts(5,1-4)] by simp

end
