(* ===== verification/DriftProps.thy ===== *)
theory DriftProps
  imports DriftReport DesiredProps Samples
begin

text \<open>
  What the drift engine promises: nothing but an investigation is ever recommended for a host whose
  report cannot be believed, the counts of a report add up, no sensitive key leaves in a diff, and
  a dry run executes nothing; and where it does not look.
\<close>

section \<open>Items\<close>

definition acts :: "action \<Rightarrow> bool" where
  "acts a \<longleftrightarrow> a = ActCreate \<or> a = ActRestart \<or> a = ActStop \<or> a = ActRemove"

lemma acts_simps [simp]: "acts ActCreate" "acts ActRestart" "acts ActStop" "acts ActRemove"
  "\<not> acts ActNone" "\<not> acts ActInvestigate" "\<not> acts ActNoOp" "\<not> acts ActUpdate"
  by (simp_all add: acts_def)

text \<open>Annotations change the diff and nothing else.\<close>

lemma diff_set_fields [simp]:
  "it_host (diff_set k v it) = it_host it" "it_key (diff_set k v it) = it_key it"
  "it_desired (diff_set k v it) = it_desired it" "it_observed (diff_set k v it) = it_observed it"
  "it_status (diff_set k v it) = it_status it" "it_severity (diff_set k v it) = it_severity it"
  "it_action (diff_set k v it) = it_action it" "it_type (diff_set k v it) = it_type it"
  by (simp_all add: diff_set_def)

lemma annotate_fields [simp]:
  "it_host (annotate_draining b it) = it_host it" "it_key (annotate_draining b it) = it_key it"
  "it_desired (annotate_draining b it) = it_desired it" "it_status (annotate_draining b it) = it_status it"
  "it_severity (annotate_draining b it) = it_severity it" "it_action (annotate_draining b it) = it_action it"
  "it_host (annotate_legacy_fallback b it) = it_host it" "it_key (annotate_legacy_fallback b it) = it_key it"
  "it_desired (annotate_legacy_fallback b it) = it_desired it"
  "it_status (annotate_legacy_fallback b it) = it_status it"
  "it_severity (annotate_legacy_fallback b it) = it_severity it"
  "it_action (annotate_legacy_fallback b it) = it_action it"
  by (simp_all add: annotate_draining_def annotate_legacy_fallback_def)

lemma drift_item_fields [simp]:
  "it_host (new_drift_item h c k des obs st sev act diff) = null_str h"
  "it_key (new_drift_item h c k des obs st sev act diff) = k"
  "it_desired (new_drift_item h c k des obs st sev act diff) = des"
  "it_status (new_drift_item h c k des obs st sev act diff) = st"
  "it_severity (new_drift_item h c k des obs st sev act diff) = sev"
  "it_action (new_drift_item h c k des obs st sev act diff) = act"
  by (simp_all add: new_drift_item_def)

lemma compare_state_fields [simp]:
  "it_host (compare_state d c) = null_str (dc_host d)" "it_key (compare_state d c) = dc_key d"
  "it_desired (compare_state d c) = Some (dc_id d)"
  by (simp_all add: compare_state_def Let_def)

lemma compare_desired_fields:
  "it_host (fst (compare_desired ex tr m d)) = null_str (dc_host d)" "it_key (fst (compare_desired ex tr m d)) = dc_key d"
  "it_desired (fst (compare_desired ex tr m d)) = Some (dc_id d)"
  by (simp_all add: compare_desired_def Let_def split: prod.splits option.splits)

lemma compare_desired_acts:
  "acts (it_action (fst (compare_desired ex tr m d))) \<Longrightarrow>
     tr_ok (tr (dc_host d)) \<and> (dc_dep d = [] \<or> ex (dc_dep d))"
  by (auto simp: compare_desired_def Let_def split: prod.splits option.splits if_splits)

lemma leftover_acts: "it \<in> set (leftover_items tr ids c) \<Longrightarrow> \<not> acts (it_action it)"
  by (auto simp: leftover_items_def Let_def split: if_splits)

lemma drift_items_acts:
  assumes "it \<in> set (drift_items cfg s p)" "acts (it_action it)"
  obtains d where "d \<in> set (load_desired s p)" "it = fst (compare_desired (dep_exists (core p)) (trust_of cfg p) (drift_match s p) d)"
proof -
  have "it \<notin> set (leftover_items tr ids c)" for tr ids c
    using assms(2) leftover_acts by blast
  with assms(1) that show ?thesis
    by (auto simp: drift_items_def drift_rows_def Let_def image_iff)
qed

lemma trust_ok:
  "tr_ok (trust_of cfg p h) \<longleftrightarrow>
     (\<exists>x t. find_host h (core p) = Some x \<and> h_heartbeat x = Some t
        \<and> (clock (core p) - t) * 1000 \<le> stale_after cfg)
     \<and> of_docker (load_facts p h) \<noteq> Some False \<and> \<not> scan_degraded (load_facts p h)"
  by (auto simp: trust_of_def host_trust_def liveness_def Let_def split: option.splits if_splits live.splits)

section \<open>Counts\<close>

lemma foldl_counts: "foldl (\<lambda>c it. bump (severity_text (it_severity it)) (bump (status_key (it_status it))
     (bump ''total'' c))) c its k = c k + counts_of its k"
proof (induction its arbitrary: c)
  case (Cons it its)
  show ?case unfolding counts_of_def
    by (simp only: foldl.simps Cons.IH) (simp add: bump_def)
qed (simp add: counts_of_def)

lemma counts_Nil [simp]: "counts_of [] k = 0"
  by (simp add: counts_of_def)

lemma counts_Cons: "counts_of (it # its) k =
   (if k = ''total'' then 1 else 0) + (if k = status_key (it_status it) then 1 else 0)
   + (if k = severity_text (it_severity it) then 1 else 0) + counts_of its k"
  unfolding counts_of_def
  by (simp only: foldl.simps foldl_counts)
    (simp add: bump_def status_key_def severity_text_def split: drift_status.splits severity.splits)

definition status_keys :: "string list" where
  "status_keys = map status_key [DrInSync, DrMissing, DrDrifted, DrUnmanaged, DrOrphaned, DrUnreachable, DrIgnored]"

definition severity_keys :: "string list" where
  "severity_keys = map severity_text [SevInfo, SevWarning, SevCritical]"

lemma counts_total: "counts_of its ''total'' = int (length its)"
  by (induction its) (simp_all add: counts_Cons status_key_def severity_text_def split: drift_status.splits severity.splits)

lemma counts_status: "(\<Sum>k\<leftarrow>status_keys. counts_of its k) = int (length its)"
proof (induction its)
  case (Cons it its)
  then show ?case
    by (cases "it_status it"; cases "it_severity it")
      (simp_all add: counts_Cons status_key_def severity_text_def status_keys_def)
qed (simp add: status_keys_def)

lemma counts_severity: "(\<Sum>k\<leftarrow>severity_keys. counts_of its k) = int (length its)"
proof (induction its)
  case (Cons it its)
  then show ?case
    by (cases "it_status it"; cases "it_severity it")
      (simp_all add: counts_Cons status_key_def severity_text_def severity_keys_def)
qed (simp add: severity_keys_def)

section \<open>Redaction\<close>

text \<open>The entries of a document at every depth that redaction visits.\<close>

fun entries_value :: "json \<Rightarrow> doc" and entries_doc :: "doc \<Rightarrow> doc" where
  "entries_value (JMap m) = entries_doc m"
| "entries_value j = []"
| "entries_doc [] = []"
| "entries_doc ((k, v) # m) = (k, v) # entries_value v @ entries_doc m"

definition clean :: "doc \<Rightarrow> bool" where
  "clean m \<longleftrightarrow> (\<forall>(k, v) \<in> set m. is_sensitive_key k \<longrightarrow> v = JStr ''[redacted]'')"

lemma redact_clean:
  "clean (entries_value (redact_value j))" "clean (entries_doc (redact_entries m))"
  by (induction j and m rule: redact_value_redact_entries.induct) (auto simp: clean_def)

lemma redact_keys: "map fst (redact_entries m) = map fst m"
  by (induction m) auto

lemma redact_id:
  "list_all (\<lambda>(k, v). \<not> is_sensitive_key k) (entries_value j) \<Longrightarrow> redact_value j = j"
  "list_all (\<lambda>(k, v). \<not> is_sensitive_key k) (entries_doc m) \<Longrightarrow> redact_entries m = m"
  by (induction j and m rule: entries_value_entries_doc.induct) auto

lemma clean_append: "clean (a @ b) \<longleftrightarrow> clean a \<and> clean b"
  by (auto simp: clean_def)

lemma entries_update:
  "\<not> is_sensitive_key k \<Longrightarrow> entries_value v = [] \<Longrightarrow> clean (entries_doc m) \<Longrightarrow> clean (entries_doc (AList.update k v m))"
proof (induction m)
  case (Cons a m)
  obtain k' v' where "a = (k', v')" by (cases a)
  with Cons show ?case by (auto simp: clean_def)
qed (simp add: clean_def)

definition clean_item :: "drift_item \<Rightarrow> bool" where
  "clean_item it \<longleftrightarrow> (case it_diff it of None \<Rightarrow> True | Some m \<Rightarrow> clean (entries_doc m))"

lemma clean_drift_item [simp]: "clean_item (new_drift_item h c k des obs st sev act diff)"
  by (simp add: clean_item_def new_drift_item_def redact_diff_def redact_clean)

lemma clean_diff_set:
  "clean_item it \<Longrightarrow> \<not> is_sensitive_key k \<Longrightarrow> entries_value v = [] \<Longrightarrow> clean_item (diff_set k v it)"
  by (cases "it_diff it") (simp_all add: clean_item_def diff_set_def doc_set_def entries_update, simp add: clean_def)

lemma plain_keys: "\<not> is_sensitive_key ''lifecycle''" "\<not> is_sensitive_key ''legacyLabelFallback''"
  "\<not> is_sensitive_key ''legacyLabel''" "\<not> is_sensitive_key ''recommendedLabelRefresh''"
  by code_simp+

lemma clean_annotations [simp]:
  "clean_item it \<Longrightarrow> clean_item (annotate_draining b it)"
  "clean_item it \<Longrightarrow> clean_item (annotate_legacy_fallback b it)"
  by (simp_all add: annotate_draining_def annotate_legacy_fallback_def clean_diff_set plain_keys)

lemma clean_compare [simp]: "clean_item (compare_state d c)"
  by (simp add: compare_state_def Let_def)

lemma clean_classify: "clean_item (fst (compare_desired ex tr m d))"
  by (simp add: compare_desired_def Let_def split: prod.splits option.splits)

lemma clean_left: "it \<in> set (leftover_items tr ids c) \<Longrightarrow> clean_item it"
  by (auto simp: leftover_items_def Let_def split: if_splits)

section \<open>What an operation of the engine leaves alone\<close>

definition same_world :: "plane \<Rightarrow> plane \<Rightarrow> bool" where
  "same_world p q \<longleftrightarrow> desired q = desired p \<and> observed q = observed p \<and> placements q = placements p
     \<and> cells q = cells p \<and> jobs (core q) = jobs (core p) \<and> deps (core q) = deps (core p)
     \<and> reps (core q) = reps (core p) \<and> hosts (core q) = hosts (core p) \<and> calls (core q) = calls (core p)
     \<and> clock (core q) = clock (core p)"

lemma same_world_refl [simp]: "same_world p p"
  by (simp add: same_world_def)

lemma same_world_trans: "same_world p q \<Longrightarrow> same_world q r \<Longrightarrow> same_world p r"
  by (simp add: same_world_def)

lemma same_world_finish [simp]: "same_world p (finish_operation_run flt r st a b e q) \<longleftrightarrow> same_world p q"
  by (simp add: same_world_def finish_operation_run_def Let_def)

lemma same_world_start: "start_operation_run flt gen i p = (r, q) \<Longrightarrow> same_world p q"
  by (auto simp: start_operation_run_def insert_run_def Let_def drawn_def same_world_def split: option.splits)

lemma same_world_insert_step: "insert_step gen run n x st why p = (i, q) \<Longrightarrow> same_world p q"
  by (auto simp: insert_step_def Let_def drawn_def same_world_def)

lemma same_world_items: "insert_items flt n rep its p = Inr q \<Longrightarrow>
   same_world p q \<and> items q = items p @ map (Pair rep) its \<and> reports q = reports p"
proof (induction its arbitrary: n p)
  case (Cons it its)
  then have "insert_items flt (Suc n) rep its (p\<lparr>items := items p @ [(rep, it)]\<rparr>) = Inr q"
    by (auto split: option.splits)
  from Cons.IH [OF this] show ?case by (auto simp: same_world_def)
qed simp

lemma same_world_report: "persist_report flt gen s run st sm its p = (r, q) \<Longrightarrow> same_world p q"
  unfolding persist_report_def
  by (auto simp: Let_def split: option.splits sum.splits dest!: same_world_items)
    (auto simp: same_world_def drawn_def)

lemma drift_same_world: "same_world p q \<Longrightarrow> drift_items cfg s q = drift_items cfg s p"
proof -
  assume w: "same_world p q"
  have "desired_view (core q) = desired_view (core p)"
    using w by (intro ext) (simp add: desired_view_def dep_name_of_def find_dep_def same_world_def cong: option.case_cong)
  then have des: "load_desired s q = load_desired s p" using w by (simp add: load_desired_def same_world_def)
  have obs: "load_observed s q = load_observed s p" "load_legacy hs q = load_legacy hs p" for hs
    using w by (simp_all add: load_observed_def load_legacy_def same_world_def)
  have "trust_of cfg q = trust_of cfg p"
    using w by (intro ext) (simp add: trust_of_def load_facts_def find_host_def same_world_def)
  moreover have "dep_exists (core q) = dep_exists (core p)"
    using w by (intro ext) (simp add: dep_exists_def same_world_def)
  moreover have "drift_match s q = drift_match s p"
    by (intro ext) (simp add: drift_match_def legacy_pool_def des obs Let_def)
  ultimately show ?thesis unfolding drift_items_def drift_rows_def des obs by simp
qed

section \<open>Plans\<close>

lemma compare_desired_missing: "it_status (fst (compare_desired ex tr m d)) = DrMissing \<Longrightarrow> it_action (fst (compare_desired ex tr m d)) = ActCreate"
  by (auto simp: compare_desired_def compare_state_def Let_def split: prod.splits option.splits if_splits)

lemma items_missing: "it \<in> set (drift_items cfg s p) \<Longrightarrow> it_status it = DrMissing \<Longrightarrow> it_action it = ActCreate"
  using compare_desired_missing by (auto simp: drift_items_def drift_rows_def Let_def leftover_items_def split: if_splits)

lemma plan_statuses: "ps_status (build_plan_step it) \<in> {SPlanned, SNoOp, SSkipped}"
  by (auto simp: build_plan_step_def plan_of_def split: drift_status.splits action.splits)

lemma plan_acts:
  "acts (ps_action (build_plan_step it)) \<Longrightarrow> (it_status it = DrMissing \<Longrightarrow> it_action it = ActCreate)
     \<Longrightarrow> ps_action (build_plan_step it) = it_action it \<and> ps_status (build_plan_step it) = SPlanned"
  by (auto simp: build_plan_step_def plan_of_def acts_def split: drift_status.splits action.splits)

lemma insert_plan_rows:
  "insert_plan flt gen run n xs p = Inr q \<Longrightarrow> same_world p q \<and> (\<exists>new. steps (core q) = steps (core p) @ new
     \<and> map st_status new = map ps_status xs \<and> list_all (\<lambda>x. st_run x = run) new)"
proof (induction xs arbitrary: n p)
  case (Cons x xs)
  obtain i p1 where ins: "insert_step gen run n x (ps_status x) (ps_reason x) p = (i, p1)"
    by (cases "insert_step gen run n x (ps_status x) (ps_reason x) p")
  let ?p2 = "p1\<lparr>step_inputs := step_inputs p1 @ [(i, step_input x)]\<rparr>"
  have run: "insert_plan flt gen run (Suc n) xs ?p2 = Inr q"
    using Cons.prems ins by (auto split: option.splits)
  have w: "same_world p ?p2" using same_world_insert_step [OF ins] by (simp add: same_world_def)
  from Cons.IH [OF run] obtain new where new: "same_world ?p2 q" "steps (core q) = steps (core p1) @ new"
    "map st_status new = map ps_status xs" "list_all (\<lambda>x. st_run x = run) new" by auto
  obtain row where "steps (core p1) = steps (core p) @ [row]" "st_status row = ps_status x" "st_run row = run"
    using ins by (auto simp: insert_step_def Let_def drawn_def)
  with new same_world_trans [OF w new(1)] show ?case by (intro conjI exI [of _ "row # new"]) simp_all
qed simp

lemma persist_steps_rows:
  assumes "persist_steps flt gen run xs p = (e, q)"
  shows "same_world p q"
    and "e = None \<Longrightarrow> \<exists>new. steps (core q) = steps (core p) @ new
      \<and> map st_status new = map ps_status xs \<and> list_all (\<lambda>x. st_run x = run) new"
  using assms insert_plan_rows [of flt gen run 0 xs p q] unfolding persist_steps_def
  by (auto split: if_splits option.splits sum.splits)

section \<open>A host whose scan failed\<close>

definition facts_row :: "uuid \<Rightarrow> obs_row \<Rightarrow> bool" where
  "facts_row h r \<longleftrightarrow> o_type r = res_facts \<and> o_host r = h"

definition facts_keyed :: "uuid \<Rightarrow> plane \<Rightarrow> bool" where
  "facts_keyed h p \<longleftrightarrow> (\<forall>r \<in> set (observed p). facts_row h r \<longrightarrow> o_key r = ''host:'' @ h)"

definition facts_are :: "uuid \<Rightarrow> obs_body \<Rightarrow> plane \<Rightarrow> bool" where
  "facts_are h b p \<longleftrightarrow> sql_exists (facts_row h) (observed p) \<and> list_all (\<lambda>r. facts_row h r \<longrightarrow> o_body r = b) (observed p)"

lemma sql_exists_update:
  "(\<And>r. q (f r) = q r) \<Longrightarrow> sql_exists q (sql_update u f t) = sql_exists q t"
  by (induction t) (auto simp: sql_exists_def)

lemma list_all_update:
  "list_all q t \<Longrightarrow> (\<And>r. r \<in> set t \<Longrightarrow> u r \<Longrightarrow> q (f r)) \<Longrightarrow> list_all q (sql_update u f t)"
  by (induction t) auto

lemma facts_row_assign [simp]: "facts_row h (obs_assign a res body now r) = facts_row h r"
  by (simp add: facts_row_def obs_assign_def)

lemma load_facts_are: "facts_are h b p \<Longrightarrow> load_facts p h = facts_view b"
proof -
  have "list_all (\<lambda>r. facts_row h r \<longrightarrow> o_body r = b) t \<Longrightarrow>
     foldl (\<lambda>f r. if o_type r = res_facts \<and> o_host r = h then facts_view (o_body r) else f) f t
       = (if sql_exists (facts_row h) t then facts_view b else f)" for t f
    by (induction t arbitrary: f) (auto simp: facts_row_def sql_exists_def)
  then show "facts_are h b p \<Longrightarrow> load_facts p h = facts_view b"
    unfolding load_facts_def facts_are_def by simp
qed

lemma facts_are_record:
  assumes "facts_keyed h p"
  shows "facts_are h (OFacts (facts_of req)) (record_facts gen h a req p)"
proof (cases "sql_exists (\<lambda>r. obs_key r = (h, res_facts, ''host:'' @ h)) (observed p)")
  case True
  then have "sql_exists (facts_row h) (observed p)"
    by (auto simp: sql_exists_iff obs_key_def facts_row_def)
  moreover have "list_all (\<lambda>r. facts_row h r \<longrightarrow> o_body r = OFacts (facts_of req))
      (sql_update (\<lambda>r. obs_key r = (h, res_facts, ''host:'' @ h)) (obs_assign a None (OFacts (facts_of req)) n) t)"
    if "\<forall>r \<in> set t. facts_row h r \<longrightarrow> o_key r = ''host:'' @ h" for n t
    using that by (induction t) (auto simp: obs_key_def facts_row_def obs_assign_def)
  ultimately show ?thesis
    using True assms unfolding record_facts_def upsert_observed_def facts_are_def facts_keyed_def Let_def
    by (simp add: sql_exists_update)
next
  case False
  then have "\<not> facts_row h r" if "r \<in> set (observed p)" for r
    using assms that by (auto simp: sql_exists_iff obs_key_def facts_row_def facts_keyed_def)
  then have "list_all (\<lambda>r. facts_row h r \<longrightarrow> o_body r = OFacts (facts_of req)) (observed p)"
    by (simp add: list_all_iff)
  with False show ?thesis
    unfolding record_facts_def upsert_observed_def facts_are_def Let_def
    by (simp add: drawn_def sql_exists_def) (simp add: facts_row_def)
qed

lemma facts_are_container: "facts_are h b p \<Longrightarrow> facts_are h b (record_container gen h' a c p)"
proof -
  have "list_all (\<lambda>r. facts_row h r \<longrightarrow> o_body r = b)
      (sql_update (\<lambda>r. obs_key r = (h', res_container, k)) (obs_assign a res body n) t)"
    if "list_all (\<lambda>r. facts_row h r \<longrightarrow> o_body r = b) t" for k res body n t
    using that by (rule list_all_update) (auto simp: facts_row_def obs_key_def obs_assign_def)
  then show "facts_are h b p \<Longrightarrow> facts_are h b (record_container gen h' a c p)"
    unfolding facts_are_def record_container_def upsert_observed_def Let_def
    by (auto simp: sql_exists_update drawn_def) (auto simp: sql_exists_def facts_row_def)
qed

lemma facts_are_containers: "facts_are h b p \<Longrightarrow> facts_are h b (snd (record_containers flt gen h' a n cs p))"
  by (induction cs arbitrary: n p) (auto simp: facts_are_container split: option.splits)

lemma facts_are_prune: "facts_are h b p \<Longrightarrow> facts_are h b (prune_observed_containers h' keep p)"
proof -
  have "sql_exists (facts_row h) (filter (\<lambda>r. \<not> (o_host r = h' \<and> o_type r = res_container \<and> o_key r \<notin> set keep)) t)
      = sql_exists (facts_row h) t" for t
    by (induction t) (auto simp: sql_exists_def facts_row_def)
  then show "facts_are h b p \<Longrightarrow> facts_are h b (prune_observed_containers h' keep p)"
    by (simp add: facts_are_def prune_observed_containers_def list_all_iff)
qed

lemma recorded_facts:
  assumes "record_observed_states flt gen h a req p = (None, p')" "facts_keyed h p"
  shows "load_facts p' h = facts_view (OFacts (facts_of req))"
proof -
  let ?cs = "pay_containers (hb_observed req)"
  obtain ok full err where scan: "resolve_container_scan (hb_observed req) = (ok, full, err)" by (rule prod_cases3)
  obtain q where q: "record_containers flt gen h a 0 ?cs (record_facts gen h a req p) = (None, q)"
    and p': "p' = (if ok \<and> full then prune_observed_containers h (map container_key ?cs) q else q)"
    using assms(1) scan unfolding record_observed_states_def
    by (auto simp: Let_def split: option.splits prod.splits if_splits)
  have "facts_are h (OFacts (facts_of req)) q"
    using facts_are_containers [OF facts_are_record [OF assms(2), of req gen a], of flt gen h a 0 ?cs] q by simp
  then have "facts_are h (OFacts (facts_of req)) p'" unfolding p' by (simp add: facts_are_prune)
  then show ?thesis by (rule load_facts_are)
qed

lemma untrusted_scan:
  "\<not> scan_trusted (hb_observed req) \<or> \<not> pay_docker (hb_observed req) \<Longrightarrow>
     of_docker (facts_view (OFacts (facts_of req))) = Some False \<or> scan_degraded (facts_view (OFacts (facts_of req)))"
  by (auto simp: scan_trusted_def facts_of_def Let_def scan_degraded_def split: prod.splits)

section \<open>Scope of a cell\<close>

text \<open>Every observed container was stamped by the provisioner for a deployment.\<close>

definition provisioned :: "plane \<Rightarrow> bool" where
  "provisioned p \<longleftrightarrow> (\<forall>r \<in> set (observed p). o_type r = res_container \<longrightarrow>
     (\<exists>c sp. o_body r = OContainer c \<and> oc_labels c = safe_synapse_labels (provision_labels sp) \<and> sp_deployment sp \<noteq> []))"

lemma provision_label_at:
  "map_of (safe_synapse_labels (provision_labels sp)) ''synapse.cell_id'' = None"
  "sp_deployment sp \<noteq> [] \<Longrightarrow>
     map_of (safe_synapse_labels (provision_labels sp)) ''synapse.deployment_id'' = Some (sp_deployment sp)"
  by (simp_all add: provision_labels_def merge_labels_def safe_synapse_labels_def has_prefix_def)

lemma cell_observed_empty: "provisioned p \<Longrightarrow> sc_kind s = ScopeCell \<Longrightarrow> load_observed s p = []"
  by (auto simp: load_observed_def filter_empty_conv in_scope_observed_def label_is_def provisioned_def
      provision_label_at dest!: bspec)

lemma provisioned_no_legacy:
  assumes "provisioned p"
  shows "load_legacy hs p = []"
proof -
  have "\<not> legacy_container hs r" if "r \<in> set (observed p)" for r
    using assms that unfolding provisioned_def legacy_container_def body_label_def label_at_def
    by (fastforce simp: provision_label_at)
  then show ?thesis by (simp add: load_legacy_def filter_empty_conv)
qed

lemma cell_match_none: "provisioned p \<Longrightarrow> sc_kind s = ScopeCell \<Longrightarrow> drift_match s p d = (None, False)"
  by (simp add: drift_match_def match_of_def legacy_pool_def cell_observed_empty provisioned_no_legacy
      index_by_dep_def index_by_name_def Let_def)

section \<open>Closed instances\<close>

definition live_host :: host where
  "live_host = demo_host\<lparr>h_heartbeat := Some 1000\<rparr>"

definition demo_drift_config :: drift_config where
  "demo_drift_config = \<lparr>df_stale = 0, df_offline = 0, df_apply = True, df_dangerous = False, df_hc_network = False\<rparr>"

definition demo_scope :: "scope_kind \<Rightarrow> drift_scope" where
  "demo_scope k = \<lparr>sc_kind = k, sc_host = ''h1'', sc_cell = ''c1'', sc_project = ''p1'', sc_team = ''t1''\<rparr>"

definition demo_spec_labels :: "(string \<times> string) list" where
  "demo_spec_labels = [(''synapse.managed'', ''true''), (''synapse.deployment'', ''happy-fox-1''),
     (''synapse.deployment_id'', ''d1''), (''synapse.project_id'', ''p1'')]"

definition demo_running :: obs_container where
  "demo_running = (demo_container ''convex-happy-fox-1'' ''d1'' ''running'')\<lparr>oc_labels := demo_spec_labels\<rparr>"

text \<open>A live host on which the deployment \<open>d1\<close> is wanted; with and without its container observed.\<close>

definition wanted_plane :: plane where
  "wanted_plane = demo_plane\<lparr>core := (demo_store DRunning)\<lparr>hosts := [live_host]\<rparr>,
     desired := [demo_desired ''0'' ''d1'']\<rparr>"

definition healthy_plane :: plane where
  "healthy_plane = snd (record_observed_states no_pfaults dec ''h1'' None (demo_beat [demo_running] True) wanted_plane)"

definition blind_plane :: plane where
  "blind_plane = snd (record_observed_states no_pfaults dec ''h1'' None (demo_beat [demo_running] False) wanted_plane)"

section \<open>Properties\<close>


lemma wanted_drift: "compute_drift no_pfaults demo_drift_config (demo_scope ScopeHost) wanted_plane
   = Inr (drift_items demo_drift_config (demo_scope ScopeHost) wanted_plane,
          summarize (drift_items demo_drift_config (demo_scope ScopeHost) wanted_plane))"
  by (simp add: compute_drift_def drift_fault_def Let_def)

lemma wanted_missing: "map (\<lambda>it. (it_status it, it_action it)) (drift_items demo_drift_config (demo_scope ScopeHost) wanted_plane)
   = [(DrMissing, ActCreate)]"
  by code_simp


text \<open>
  A report whose scan failed, was incomplete, or came from a host without Docker blocks every
  action on that host: whatever is desired there, the next drift recommends at most an investigation.
\<close>

theorem failed_scan_blocks_actions:
  assumes "record_observed_states flt gen h a req p = (None, p')" "facts_keyed h p" "h \<noteq> []"
    and "\<not> (scan_trusted (hb_observed req) \<and> pay_docker (hb_observed req))"
    and "compute_drift flt' cfg s p' = Inr (its, sm)" "it \<in> set its" "it_host it = Some h"
  shows "\<not> acts (it_action it)"
proof
  assume act: "acts (it_action it)"
  have "it \<in> set (drift_items cfg s p')"
    using assms(5,6) by (auto simp: compute_drift_def Let_def split: option.splits)
  then obtain d where d: "it = fst (compare_desired (dep_exists (core p')) (trust_of cfg p') (drift_match s p') d)"
    using act by (rule drift_items_acts)
  then have ok: "tr_ok (trust_of cfg p' (dc_host d))" using act compare_desired_acts by blast
  have "null_str (dc_host d) = Some h" using assms(7) d by (simp add: compare_desired_fields)
  then have "dc_host d = h" by (simp add: null_str_def split: if_splits)
  with ok have "of_docker (load_facts p' h) \<noteq> Some False" "\<not> scan_degraded (load_facts p' h)"
    unfolding trust_ok by (simp_all only: simp_thms)
  moreover have "of_docker (load_facts p' h) = Some False \<or> scan_degraded (load_facts p' h)"
    unfolding recorded_facts [OF assms(1,2)] by (rule untrusted_scan) (use assms(4) in argo)
  ultimately show False by argo
qed

theorem failed_scan_blocks_actions_witness:
  "list_all (\<lambda>it. it_host it = Some ''h1'' \<and> \<not> acts (it_action it)) (drift_items demo_drift_config (demo_scope ScopeHost) blind_plane)
   \<and> drift_items demo_drift_config (demo_scope ScopeHost) blind_plane \<noteq> []"
proof -
  let ?its = "drift_items demo_drift_config (demo_scope ScopeHost) blind_plane"
  have run: "record_observed_states no_pfaults dec ''h1'' None (demo_beat [demo_running] False) wanted_plane = (None, blind_plane)"
    unfolding blind_plane_def by code_simp
  have keyed: "facts_keyed ''h1'' wanted_plane"
    by (simp add: facts_keyed_def wanted_plane_def demo_plane_def)
  have bad: "\<not> (scan_trusted (hb_observed (demo_beat [demo_running] False)) \<and> pay_docker (hb_observed (demo_beat [demo_running] False)))"
    by code_simp
  have drift: "compute_drift no_pfaults demo_drift_config (demo_scope ScopeHost) blind_plane = Inr (?its, summarize ?its)"
    by (simp add: compute_drift_def drift_fault_def Let_def)
  have "list_all (\<lambda>it. it_host it = Some ''h1'') ?its" "?its \<noteq> []" by code_simp+
  with failed_scan_blocks_actions [OF run keyed _ bad drift] show ?thesis by (auto simp: list_all_iff)
qed

text \<open>
  In the scope of a cell the drift engine looks for containers by a label the provisioner never
  stamps: every deployment of the cell that should run is reported missing, to be created again, even
  while its container runs.
\<close>

theorem cell_scope_reports_missing:
  assumes "provisioned p" "sc_kind s = ScopeCell" "d \<in> set (load_desired s p)"
    and "dc_status d = ''running''" "dep_exists (core p) (dc_dep d)" "tr_ok (trust_of cfg p (dc_host d))"
  shows "\<exists>it \<in> set (drift_items cfg s p). it_desired it = Some (dc_id d)
     \<and> it_status it = DrMissing \<and> it_severity it = SevCritical \<and> it_action it = ActCreate"
proof -
  let ?it = "fst (compare_desired (dep_exists (core p)) (trust_of cfg p) (drift_match s p) d)"
  have "?it \<in> set (drift_items cfg s p)"
    using assms(3) by (auto simp: drift_items_def drift_rows_def Let_def)
  moreover have "it_status ?it = DrMissing \<and> it_severity ?it = SevCritical \<and> it_action ?it = ActCreate"
    using assms(4-6) by (simp add: compare_desired_def Let_def cell_match_none [OF assms(1,2)])
  ultimately show ?thesis by (intro bexI [of _ ?it]) (simp_all add: compare_desired_fields)
qed

theorem cell_scope_reports_missing_witness:
  "map it_status (drift_items demo_drift_config (demo_scope ScopeHost) healthy_plane) = [DrInSync]
   \<and> DrMissing \<in> it_status ` set (drift_items demo_drift_config (demo_scope ScopeCell) healthy_plane)"
proof -
  have "map o_type (observed healthy_plane) = [res_facts, res_container]"
    "map o_body (tl (observed healthy_plane)) = [OContainer demo_running]" by code_simp+
  then have rows: "r \<in> set (observed healthy_plane) \<Longrightarrow> o_type r = res_container \<Longrightarrow> o_body r = OContainer demo_running" for r
    by (auto simp: map_eq_Cons_conv Cons_eq_map_conv)
  have "oc_labels demo_running = safe_synapse_labels (provision_labels (build_spec demo_config no_faults (demo_job KProvision) empty_state))"
    "sp_deployment (build_spec demo_config no_faults (demo_job KProvision) empty_state) \<noteq> []" by code_simp+
  with rows have prov: "provisioned healthy_plane" unfolding provisioned_def by blast
  let ?ds = "load_desired (demo_scope ScopeCell) healthy_plane"
  have len: "?ds \<noteq> []" by code_simp
  have facts: "dc_status (hd ?ds) = ''running''" "dep_exists (core healthy_plane) (dc_dep (hd ?ds))"
    "tr_ok (trust_of demo_drift_config healthy_plane (dc_host (hd ?ds)))" by code_simp+
  have "map it_status (drift_items demo_drift_config (demo_scope ScopeHost) healthy_plane) = [DrInSync]" by code_simp
  moreover have "sc_kind (demo_scope ScopeCell) = ScopeCell" by (simp add: demo_scope_def)
  then have "DrMissing \<in> it_status ` set (drift_items demo_drift_config (demo_scope ScopeCell) healthy_plane)"
    using cell_scope_reports_missing [OF prov _ hd_in_set [OF len] facts] by force
  ultimately show ?thesis ..
qed

text \<open>
  A successful drift computation stores exactly one report with its items; the counts of its
  summary add up, by status and by severity, to the number of items; the verdict is clean only if
  every item is in sync or ignored, and drifted only if an issue is critical; nothing the engine
  compares, and no job, is touched.
\<close>

theorem report_adds_up:
  assumes "recompute flt gen cfg s actor p = (Inr rep, p')"
  defines "its \<equiv> drift_items cfg s p"
  shows "items p' = items p @ map (Pair rep) its \<and> same_world p p'
     \<and> (\<exists>r. reports p' = reports p @ [r] \<and> dr_id r = rep \<and> dr_summary r = summarize its
          \<and> (dr_status r = RepClean \<longleftrightarrow> list_all (\<lambda>it. it_status it = DrInSync \<or> it_status it = DrIgnored) its)
          \<and> (dr_status r = RepDrifted \<longleftrightarrow> list_ex (\<lambda>it. it_severity it = SevCritical
               \<and> it_status it \<noteq> DrInSync \<and> it_status it \<noteq> DrIgnored) its))
     \<and> map_of (summarize its) ''total'' = Some (JNum (int (length its)))
     \<and> (\<Sum>k\<leftarrow>status_keys. counts_of its k) = int (length its)
     \<and> (\<Sum>k\<leftarrow>severity_keys. counts_of its k) = int (length its)"
proof -
  obtain run p1 where start: "start_operation_run flt gen (op_run_input s ''compute_drift'' actor) p = (Inr run, p1)"
    using assms(1) by (auto simp: recompute_def split: prod.splits sum.splits)
  have w1: "same_world p p1" by (rule same_world_start [OF start])
  note its = drift_same_world [OF w1, of cfg s]
  obtain p2 where rep: "persist_report flt gen s run (rollup_report_status its) (summarize its) its p1 = (Inr rep, p2)"
    and p': "same_world p2 p'" "items p' = items p2" "reports p' = reports p2"
    using assms(1) start its unfolding its_def
    by (auto simp: recompute_def compute_drift_def Let_def finish_operation_run_def same_world_def
        split: prod.splits sum.splits option.splits)
  have w2: "same_world p1 p2" by (rule same_world_report [OF rep])
  have base: "items p1 = items p" "reports p1 = reports p"
    using start by (auto simp: start_operation_run_def insert_run_def Let_def drawn_def split: option.splits)
  obtain r where r: "reports p2 = reports p1 @ [r]" "items p2 = items p1 @ map (Pair rep) its" "dr_id r = rep"
    "dr_summary r = summarize its" "dr_status r = rollup_report_status its"
    using rep unfolding persist_report_def
    by (auto simp: Let_def drawn_def split: option.splits sum.splits dest!: same_world_items)
  have "rollup_report_status its = RepClean \<longleftrightarrow> list_all (\<lambda>it. it_status it = DrInSync \<or> it_status it = DrIgnored) its"
    by (auto simp: rollup_report_status_def Let_def list_all_iff filter_empty_conv)
  moreover have "rollup_report_status its = RepDrifted \<longleftrightarrow> list_ex (\<lambda>it. it_severity it = SevCritical
               \<and> it_status it \<noteq> DrInSync \<and> it_status it \<noteq> DrIgnored) its"
    by (auto simp: rollup_report_status_def Let_def list_ex_iff)
  ultimately show ?thesis
    using r base p' same_world_trans [OF same_world_trans [OF w1 w2] p'(1)]
    by (simp add: counts_status counts_severity) (simp add: summarize_def count_keys_def counts_total)
qed

text \<open>
  No diff that leaves the engine shows the value of a sensitive key, at any depth of nested maps;
  redaction keeps every key and leaves a document without sensitive keys as it is.
\<close>

theorem items_redacted:
  "list_all clean_item (drift_items cfg s p) \<and> map fst (redact_entries m) = map fst m
   \<and> clean (entries_doc (redact_entries m))
   \<and> (list_all (\<lambda>(k, v). \<not> is_sensitive_key k) (entries_doc m) \<longrightarrow> redact_entries m = m)"
  by (auto simp: list_all_iff drift_items_def drift_rows_def Let_def clean_classify clean_left redact_keys
      redact_clean redact_id(2))

theorem items_redacted_witness:
  "redact_entries [(''image'', JStr ''x''), (''spec'', JMap [(''a'', JNull)])] = [(''image'', JStr ''x''), (''spec'', JMap [(''a'', JNull)])]"
proof -
  let ?m = "[(''image'', JStr ''x''), (''spec'', JMap [(''a'', JNull)])]"
  have "list_all (\<lambda>(k, v). \<not> is_sensitive_key k) (entries_doc ?m)" by code_simp
  then show ?thesis using items_redacted [of demo_drift_config "demo_scope ScopeHost" healthy_plane ?m] by blast
qed

text \<open>
  A dry run executes nothing: whatever fails, it changes no desired or observed state, job,
  deployment, replica or host and makes no call; when it succeeds it has written one step per drift
  item, each planned, no-op or skipped, and a step acts only where the item recommends it.
\<close>

theorem dry_run_is_dry:
  assumes "dry_run flt gen cfg s actor p = (res, p')"
  shows "same_world p p' \<and> (case res of Inl e \<Rightarrow> True | Inr (run, xs) \<Rightarrow>
      map ps_key xs = map it_key (drift_items cfg s p)
      \<and> list_all2 (\<lambda>x it. acts (ps_action x) \<longrightarrow> ps_action x = it_action it \<and> ps_status x = SPlanned) xs (drift_items cfg s p)
      \<and> (\<exists>new. steps (core p') = steps (core p) @ new \<and> map st_status new = map ps_status xs
           \<and> list_all (\<lambda>x. st_run x = run \<and> st_status x \<in> {SPlanned, SNoOp, SSkipped}) new))"
proof -
  consider e where "start_operation_run flt gen (op_run_input s ''reconcile_dry_run'' actor) p = (Inl e, p')" "res = Inl e"
    | run p1 where "start_operation_run flt gen (op_run_input s ''reconcile_dry_run'' actor) p = (Inr run, p1)"
    using assms by (auto simp: dry_run_def split: prod.splits sum.splits)
  then show ?thesis
  proof cases
    case 1
    then show ?thesis using same_world_start by simp
  next
    case 2
    let ?its = "drift_items cfg s p" let ?xs = "build_plan_steps (drift_items cfg s p)"
    have w1: "same_world p p1" by (rule same_world_start [OF 2])
    note its = drift_same_world [OF w1, of cfg s]
    have base: "steps (core p1) = steps (core p)"
      using 2 by (auto simp: start_operation_run_def insert_run_def Let_def drawn_def split: option.splits)
    show ?thesis
    proof (cases "compute_drift flt cfg s p1")
      case (Inl e)
      then show ?thesis using assms 2 w1 by (auto simp: dry_run_def)
    next
      case (Inr r)
      then have r: "fst r = ?its" by (auto simp: compute_drift_def Let_def its split: option.splits)
      obtain e p2 where pers: "persist_steps flt gen run ?xs p1 = (e, p2)" by (cases "persist_steps flt gen run ?xs p1")
      note new = persist_steps_rows [OF pers]
      have w2: "same_world p p2" using same_world_trans [OF w1] new(1) by blast
      show ?thesis
      proof (cases e)
        case None
        with assms 2 Inr r pers have res: "res = Inr (run, ?xs)"
          and p': "p' = finish_operation_run flt run RSucceeded None (Some (build_plan_json s ?xs)) [] p2"
          by (auto simp: dry_run_def Let_def split: prod.splits)
        have "steps (core p') = steps (core p2)" unfolding p' by (simp add: finish_operation_run_def Let_def)
        then obtain rows where rows: "steps (core p') = steps (core p) @ rows" "map st_status rows = map ps_status ?xs"
          "list_all (\<lambda>x. st_run x = run) rows" using new(2) None base by auto
        have "st_status x \<in> {SPlanned, SNoOp, SSkipped}" if "x \<in> set rows" for x
        proof -
          have "st_status x \<in> set (map ps_status ?xs)" using rows(2) that by (metis image_eqI list.set_map)
          then obtain it where "st_status x = ps_status (build_plan_step it)" by (auto simp: build_plan_steps_def)
          then show ?thesis by (simp only: plan_statuses)
        qed
        with rows have "\<exists>new. steps (core p') = steps (core p) @ new \<and> map st_status new = map ps_status ?xs
           \<and> list_all (\<lambda>x. st_run x = run \<and> st_status x \<in> {SPlanned, SNoOp, SSkipped}) new"
          unfolding list_all_iff by blast
        moreover have "list_all2 (\<lambda>x it. acts (ps_action x) \<longrightarrow> ps_action x = it_action it \<and> ps_status x = SPlanned) ?xs ?its"
          unfolding build_plan_steps_def list_all2_map1 using items_missing plan_acts by (auto intro: list.rel_refl_strong)
        moreover have "map ps_key ?xs = map it_key ?its" by (simp add: build_plan_steps_def build_plan_step_def split: prod.splits)
        moreover have "same_world p p'" unfolding p' using w2 by simp
        ultimately show ?thesis unfolding res sum.case prod.case by blast
      next
        case (Some x)
        with assms 2 Inr r pers have "res = Inl x" "p' = finish_operation_run flt run RFailed None None x p2"
          by (auto simp: dry_run_def Let_def split: prod.splits)
        with w2 show ?thesis by simp
      qed
    qed
  qed
qed

definition demo_dry :: "(string + uuid \<times> plan_step list) \<times> plane" where
  "demo_dry = dry_run no_pfaults dec demo_drift_config (demo_scope ScopeHost) None wanted_plane"

theorem dry_run_is_dry_witness:
  "same_world wanted_plane (snd demo_dry) \<and> map st_status (steps (core (snd demo_dry))) = [SPlanned]"
proof -
  have "dry_run no_pfaults dec demo_drift_config (demo_scope ScopeHost) None wanted_plane = (fst demo_dry, snd demo_dry)"
    by (simp add: demo_dry_def)
  then have "same_world wanted_plane (snd demo_dry)" using dry_run_is_dry by blast
  moreover have "map st_status (steps (core (snd demo_dry))) = [SPlanned]" by code_simp
  ultimately show ?thesis ..
qed

definition demo_report :: plane where
  "demo_report = snd (recompute no_pfaults dec demo_drift_config (demo_scope ScopeHost) None wanted_plane)"

theorem report_adds_up_witness:
  "map dr_status (reports demo_report) = [RepDrifted] \<and> length (items demo_report) = 1"
proof -
  have run: "recompute no_pfaults dec demo_drift_config (demo_scope ScopeHost) None wanted_plane = (Inr ''2'', demo_report)"
    unfolding demo_report_def by code_simp
  have its: "length (drift_items demo_drift_config (demo_scope ScopeHost) wanted_plane) = 1"
    using wanted_missing by (metis length_map length_Cons list.size(3) One_nat_def)
  have "items wanted_plane = []" by (simp add: wanted_plane_def demo_plane_def)
  with report_adds_up [OF run] its have "length (items demo_report) = 1" by simp
  moreover have "map dr_status (reports demo_report) = [RepDrifted]" by code_simp
  ultimately show ?thesis by simp
qed

section \<open>Where observation and reality part\<close>

text \<open>The containers of two replicas carry the same deployment label, so they share one row.\<close>

lemma replicas_share_key:
  assumes "oc_labels c = provision_labels sp" "oc_labels c' = provision_labels sp'"
    and "sp_deployment sp = sp_deployment sp'" "sp_deployment sp \<noteq> []"
  shows "container_key c = container_key c'"
  using assms provision_label_at(2) [of sp] provision_label_at(2) [of sp']
  by (simp add: container_key_def container_dep_def label_at_def)

text \<open>
  Of two replicas of one deployment, one exited, only the one reported last is seen: in one order the
  deployment is in sync, in the other it is to be restarted.
\<close>

theorem replica_masks_replica:
  "map it_status (drift_items demo_drift_config (demo_scope ScopeHost)
     (snd (record_observed_states no_pfaults dec ''h1'' None
        (demo_beat [demo_running\<lparr>oc_state := ''exited''\<rparr>, demo_running] True) wanted_plane))) = [DrInSync]
   \<and> map it_action (drift_items demo_drift_config (demo_scope ScopeHost)
     (snd (record_observed_states no_pfaults dec ''h1'' None
        (demo_beat [demo_running, demo_running\<lparr>oc_state := ''exited''\<rparr>] True) wanted_plane))) = [ActRestart]"
  by (rule conjI) code_simp+

text \<open>
  A report whose facts are stored but whose containers are not, because a statement between failed,
  leaves a trusted host without containers: a deployment the very report says is running is missing.
\<close>

theorem partial_report_misleads:
  "map (\<lambda>it. (it_status it, it_action it)) (drift_items demo_drift_config (demo_scope ScopeHost)
     (snd (record_observed_states (\<lambda>x. if x = PContainer 0 then Some ''timeout'' else None) dec ''h1'' None
        (demo_beat [demo_running] True) wanted_plane))) = [(DrMissing, ActCreate)]"
  by code_simp

text \<open>
  In the scope of a project the loaded containers already carry the project's label, so a container
  of the deployment under another project is not a label mismatch: it is not seen at all.
\<close>

lemma project_scope_no_mismatch:
  assumes "sc_kind s = ScopeProject" "d \<in> set (load_desired s p)" "c \<in> set (load_observed s p)"
  shows "\<not> mismatched (dc_project d) (ob_project c)"
  using assms by (auto simp: mismatched_def load_desired_def load_observed_def in_scope_desired_def
      in_scope_observed_def desired_view_def observed_view_def label_is_def body_label_def label_at_def
      split: obs_body.splits)

end
