(* ===== verification/ApplyProps.thy ===== *)
theory ApplyProps
  imports Apply DriftProps QueueSystem
begin

text \<open>
  What an accepted apply has done: which jobs it queued and for whom, and that the whole request is
  one transaction that keeps the queue well formed.
\<close>

section \<open>The jobs of an apply\<close>

text \<open>A job that the apply of \<open>run\<close> queued for one of the plan steps, in view of the state before.\<close>

definition applied_job :: "uuid \<Rightarrow> plan_step list \<Rightarrow> state \<Rightarrow> job \<Rightarrow> bool" where
  "applied_job run xs s j \<longleftrightarrow> j_kind j = KReconcile \<and> j_status j = JPending \<and> j_run j = Some run
     \<and> (\<exists>x \<in> set xs. step_dep x = j_deployment j \<and> j_action j = Some (ps_action x) \<and> \<not> ps_dangerous x
          \<and> (ps_action x = ActCreate \<or> ps_action x = ActRestart) \<and> ps_status x \<noteq> SNoOp)
     \<and> (\<exists>d. find_dep (j_deployment j) s = Some d \<and> \<not> d_adopted d) \<and> busy_jobs (j_deployment j) s = 0"

text \<open>The tables an apply does not write.\<close>

definition apply_frame :: "plane \<Rightarrow> plane \<Rightarrow> bool" where
  "apply_frame p q \<longleftrightarrow> deps (core q) = deps (core p) \<and> reps (core q) = reps (core p)
     \<and> hosts (core q) = hosts (core p) \<and> calls (core q) = calls (core p)
     \<and> desired q = desired p \<and> observed q = observed p \<and> placements q = placements p"

lemma apply_frame_trans: "apply_frame p q \<Longrightarrow> apply_frame q r \<Longrightarrow> apply_frame p r"
  by (simp add: apply_frame_def)

lemma decide_enqueue: "decide_apply_step flt n x d only s = (Enqueue, ab) \<Longrightarrow>
   \<not> ps_dangerous x \<and> (ps_action x = ActCreate \<or> ps_action x = ActRestart) \<and> ps_status x \<noteq> SNoOp
   \<and> (\<exists>row. find_dep d s = Some row \<and> \<not> d_adopted row) \<and> busy_jobs d s = 0 \<and> (only = [] \<or> d \<in> set only)"
  unfolding decide_apply_step_def by (auto split: if_splits option.splits)

lemma insert_step_keeps: "insert_step gen run n x st why p = (i, q) \<Longrightarrow>
   jobs (core q) = jobs (core p) \<and> next_job (core q) = next_job (core p) \<and> apply_frame p q"
  by (auto simp: insert_step_def Let_def drawn_def apply_frame_def)

lemma skip_step_keeps [simp]:
  "jobs (core (skip_step i p)) = jobs (core p)" "next_job (core (skip_step i p)) = next_job (core p)"
  "apply_frame p (skip_step i q) = apply_frame p q"
  by (simp_all add: skip_step_def Let_def apply_frame_def)

lemma busy_append: "busy_jobs d s = 0 \<Longrightarrow> jobs s = jobs s0 @ js \<Longrightarrow>
   busy_jobs d s0 = 0 \<and> (\<forall>j \<in> set js. in_flight j \<longrightarrow> j_deployment j \<noteq> d)"
  by (auto simp: busy_jobs_def sql_count_0)

lemma applied_job_mono: "applied_job run xs s j \<Longrightarrow> applied_job run (x # xs) s j"
  unfolding applied_job_def by auto

lemma apply_steps_jobs:
  assumes "apply_steps flt gen hc only run n xs t p = Inr (t', q)"
  shows "apply_frame p q \<and> (\<exists>js. jobs (core q) = jobs (core p) @ js \<and> ta_queued t' = ta_queued t + length js
     \<and> list_all (applied_job run xs (core p)) js \<and> distinct (map j_deployment js))"
  using assms
proof (induction xs arbitrary: n t p)
  case Nil
  then show ?case by (auto simp: apply_frame_def)
next
  case (Cons x xs)
  obtain v ab where dec: "decide_apply_step flt n x (step_dep x) only (core p) = (v, ab)"
    by (cases "decide_apply_step flt n x (step_dep x) only (core p)")
  obtain i p1 where ins: "insert_step gen run n x (verdict_status v) (verdict_reason v) p = (i, p1)"
    by (cases "insert_step gen run n x (verdict_status v) (verdict_reason v) p")
  note p1 = insert_step_keeps [OF ins]
  have quiet: ?case
    if rec: "apply_steps flt gen hc only run (Suc n) xs t1 p2 = Inr (t', q)" and "ta_queued t1 = ta_queued t"
      and p2: "jobs (core p2) = jobs (core p)" "apply_frame p p2" for t1 p2
  proof -
    from Cons.IH [OF rec] obtain js where "apply_frame p2 q" "jobs (core q) = jobs (core p2) @ js"
      "ta_queued t' = ta_queued t1 + length js" "list_all (applied_job run xs (core p2)) js" "distinct (map j_deployment js)" by auto
    moreover have "applied_job run xs (core p2) j = applied_job run xs (core p) j" for j
      using p2 by (simp add: applied_job_def find_dep_def busy_jobs_def apply_frame_def)
    ultimately show ?thesis using that apply_frame_trans [OF p2(2)]
      by (auto simp: list_all_iff intro!: exI [of _ js] applied_job_mono)
  qed
  from Cons.prems dec have "\<not> ab" "flt (PApplyStep n) = None" by (auto split: if_splits option.splits)
  with Cons.prems dec ins have run: "(case v of
             Enqueue \<Rightarrow>
               (case enqueue_reconcile (job_faults flt n) (step_dep x) (ps_action x) run i hc (core p1) of
                  (Inl _, _) \<Rightarrow> Inl ''Failed to enqueue reconcile work''
                | (Inr None, c) \<Rightarrow>
                    (case flt (PApplySkip n) of
                       Some _ \<Rightarrow> Inl ''Failed to enqueue reconcile work''
                     | None \<Rightarrow> apply_steps flt gen hc only run (Suc n) xs
                         (t\<lparr>ta_skipped := ta_skipped t + 1\<rparr>) (skip_step i (p1\<lparr>core := c\<rparr>)))
                | (Inr (Some _), c) \<Rightarrow> apply_steps flt gen hc only run (Suc n) xs
                    (t\<lparr>ta_queued := ta_queued t + 1\<rparr>) (p1\<lparr>core := c\<rparr>))
           | NoOp _ \<Rightarrow> apply_steps flt gen hc only run (Suc n) xs (t\<lparr>ta_noop := ta_noop t + 1\<rparr>) p1
           | Skip _ \<Rightarrow> apply_steps flt gen hc only run (Suc n) xs
               (if ps_dangerous x then t\<lparr>ta_danger := ta_danger t + 1\<rparr>
                else t\<lparr>ta_skipped := ta_skipped t + 1\<rparr>) p1) = Inr (t', q)"
    by simp
  show ?case
  proof (cases v)
    case Enqueue
    note good = decide_enqueue [OF dec [unfolded Enqueue]]
    obtain r c where enq: "enqueue_reconcile (job_faults flt n) (step_dep x) (ps_action x) run i hc (core p1) = (r, c)"
      by (cases "enqueue_reconcile (job_faults flt n) (step_dep x) (ps_action x) run i hc (core p1)")
    show ?thesis
    proof (cases "\<exists>jid. r = Inr (Some jid)")
      case True
      then obtain jid where r: "r = Inr (Some jid)" ..
      then obtain j where j: "c = insert_job j (core p1)" "j_kind j = KReconcile" "j_status j = JPending"
        "j_run j = Some run" "j_deployment j = step_dep x" "j_action j = Some (ps_action x)"
        using enq by (auto simp: enqueue_reconcile_def blank_job_def split: option.splits if_splits)
      let ?p2 = "p1\<lparr>core := c\<rparr>"
      have rec: "apply_steps flt gen hc only run (Suc n) xs (t\<lparr>ta_queued := ta_queued t + 1\<rparr>) ?p2 = Inr (t', q)"
        using run enq r Enqueue by simp
      have p2: "jobs (core ?p2) = jobs (core p) @ [j]" "apply_frame p ?p2"
        using p1 j(1) by (auto simp: insert_job_def apply_frame_def)
      from Cons.IH [OF rec] obtain js where js: "apply_frame ?p2 q" "jobs (core q) = jobs (core ?p2) @ js"
        "ta_queued t' = ta_queued t + 1 + length js" "list_all (applied_job run xs (core ?p2)) js"
        "distinct (map j_deployment js)" by auto
      have first: "applied_job run (x # xs) (core p) j"
        using good j by (auto simp: applied_job_def)
      have rest: "applied_job run (x # xs) (core p) j' \<and> j_deployment j' \<noteq> j_deployment j" if "j' \<in> set js" for j'
      proof -
        have a: "applied_job run xs (core ?p2) j'" using js(4) that by (simp add: list_all_iff)
        then have "busy_jobs (j_deployment j') (core ?p2) = 0" by (simp only: applied_job_def)
        from busy_append [OF this p2(1)] have "busy_jobs (j_deployment j') (core p) = 0" "j_deployment j \<noteq> j_deployment j'"
          using j(3) by (auto simp: in_flight_def)
        moreover have "find_dep (j_deployment j') (core ?p2) = find_dep (j_deployment j') (core p)"
          using p2(2) by (simp add: find_dep_def apply_frame_def)
        ultimately show ?thesis using a unfolding applied_job_def by auto
      qed
      then have "j_deployment j \<notin> j_deployment ` set js" by (metis imageE)
      then show ?thesis
        using apply_frame_trans [OF p2(2) js(1)] js(2,3,5) p2(1) first rest
        by (intro conjI exI [of _ "j # js"]) (simp_all add: list_all_iff)
    next
      case False
      with run enq Enqueue have r: "r = Inr None" and
        rec: "apply_steps flt gen hc only run (Suc n) xs (t\<lparr>ta_skipped := ta_skipped t + 1\<rparr>)
          (skip_step i (p1\<lparr>core := c\<rparr>)) = Inr (t', q)"
        by (auto split: sum.splits option.splits)
      have "jobs c = jobs (core p1)" "apply_frame p1 (p1\<lparr>core := c\<rparr>)"
        using enq r by (auto simp: enqueue_reconcile_def apply_frame_def split: option.splits if_splits)
      with p1 apply_frame_trans show ?thesis by (intro quiet [OF rec]) auto
    qed
  next
    case (Skip why)
    show ?thesis by (rule quiet [OF run [unfolded Skip verdict.case]]) (use p1 in simp_all)
  next
    case (NoOp why)
    show ?thesis by (rule quiet [OF run [unfolded NoOp verdict.case]]) (use p1 in simp_all)
  qed
qed

lemma apply_steps_queue:
  "apply_steps flt gen hc only run n xs t p = Inr (t', q) \<Longrightarrow> jobs_ok M (core p) \<Longrightarrow> 0 < M \<Longrightarrow> jobs_ok M (core q)"
proof (induction xs arbitrary: n t p)
  case (Cons x xs)
  obtain v ab where dec: "decide_apply_step flt n x (step_dep x) only (core p) = (v, ab)"
    by (cases "decide_apply_step flt n x (step_dep x) only (core p)")
  obtain i p1 where ins: "insert_step gen run n x (verdict_status v) (verdict_reason v) p = (i, p1)"
    by (cases "insert_step gen run n x (verdict_status v) (verdict_reason v) p")
  have ok: "jobs_ok M (core p1)" using insert_step_keeps [OF ins] jobs_ok_cong Cons.prems(2) by blast
  obtain r c where enq: "enqueue_reconcile (job_faults flt n) (step_dep x) (ps_action x) run i hc (core p1) = (r, c)"
    by (cases "enqueue_reconcile (job_faults flt n) (step_dep x) (ps_action x) run i hc (core p1)")
  have okc: "jobs_ok M c"
    using enqueue_reconcile_ok [OF ok Cons.prems(3), of "job_faults flt n" "step_dep x" "ps_action x" run i hc] enq by simp
  have "jobs_ok M (core (skip_step i (p1\<lparr>core := c\<rparr>)))"
    using okc jobs_ok_cong [of "core (skip_step i (p1\<lparr>core := c\<rparr>))" c] by simp
  with Cons.prems(1) dec ins enq ok okc Cons.IH [OF _ _ Cons.prems(3)] show ?case
    by (auto split: if_splits option.splits sum.splits verdict.splits)
qed simp

section \<open>The endpoint\<close>

lemma do_apply_accepted:
  assumes "do_apply flt gen cfg only actor s p = (Accepted run st t, p')"
  obtains p1 p2 where "effective_apply_enabled flt cfg p"
    "insert_run gen (op_run_input s ''reconcile_apply'' (Some actor)) p = (run, p1)"
    "apply_steps flt gen (df_hc_network cfg) (map trim_space only) run 0
       (build_plan_steps (drift_items cfg s p)) no_tally p1 = Inr (t, p2)"
    "st = (if ta_queued t = 0 then RSucceeded else RRunning)"
    "p' = (if ta_queued t = 0 then close_run run (tally_doc t) p2 else p2)"
proof -
  obtain its sm where its: "compute_drift flt cfg s p = Inr (its, sm)" and on: "effective_apply_enabled flt cfg p"
    using assms unfolding do_apply_def by (auto split: if_splits sum.splits)
  have "its = drift_items cfg s p" using its by (auto simp: compute_drift_def Let_def split: option.splits)
  note fresh = this
  obtain run' p1 where ins: "insert_run gen (op_run_input s ''reconcile_apply'' (Some actor)) p = (run', p1)"
    by (cases "insert_run gen (op_run_input s ''reconcile_apply'' (Some actor)) p")
  show thesis
    using assms its on ins fresh unfolding do_apply_def
    by (auto split: if_splits sum.splits intro!: that)
qed

lemma close_run_keeps [simp]:
  "jobs (core (close_run run d p)) = jobs (core p)" "next_job (core (close_run run d p)) = next_job (core p)"
  "apply_frame p (close_run run d q) = apply_frame p q"
  by (simp_all add: close_run_def Let_def apply_frame_def)

lemma insert_run_keeps: "insert_run gen i p = (run, q) \<Longrightarrow>
   jobs (core q) = jobs (core p) \<and> next_job (core q) = next_job (core p) \<and> apply_frame p q
   \<and> clock (core q) = clock (core p)"
  by (auto simp: insert_run_def Let_def drawn_def apply_frame_def)


definition demo_applied :: "apply_reply \<times> plane" where
  "demo_applied = do_apply no_pfaults dec demo_drift_config [] ''u1'' (demo_scope ScopeHost) wanted_plane"

lemma demo_applied_accepted: "\<exists>t. do_apply no_pfaults dec demo_drift_config [] ''u1'' (demo_scope ScopeHost) wanted_plane
     = (Accepted ''1'' RRunning t, snd demo_applied) \<and> ta_queued t = 1"
proof -
  have "(case fst demo_applied of Accepted r st t \<Rightarrow> r = ''1'' \<and> st = RRunning \<and> ta_queued t = 1 | Refused c m \<Rightarrow> False)"
    by code_simp
  then show ?thesis
    by (cases "fst demo_applied"; cases demo_applied) (auto simp: demo_applied_def)
qed


text \<open>
  An apply is one transaction: a refused one changes nothing at all, and an accepted one keeps the
  queue well formed, so that the single-flight invariant of the cluster survives it.
\<close>

theorem apply_all_or_nothing:
  assumes "do_apply flt gen cfg only actor s p = (r, p')" "jobs_ok M (core p)" "0 < M"
  shows "jobs_ok M (core p') \<and> (case r of Refused code msg \<Rightarrow> p' = p | Accepted run st t \<Rightarrow> True)"
proof (cases r)
  case (Refused code msg)
  then have "p' = p" using assms(1) unfolding do_apply_def
    by (auto split: if_splits sum.splits prod.splits)
  with Refused assms(2) show ?thesis by simp
next
  case (Accepted run st t)
  obtain p1 p2 where run: "effective_apply_enabled flt cfg p"
    "insert_run gen (op_run_input s ''reconcile_apply'' (Some actor)) p = (run, p1)"
    "apply_steps flt gen (df_hc_network cfg) (map trim_space only) run 0
       (build_plan_steps (drift_items cfg s p)) no_tally p1 = Inr (t, p2)"
    "st = (if ta_queued t = 0 then RSucceeded else RRunning)"
    "p' = (if ta_queued t = 0 then close_run run (tally_doc t) p2 else p2)"
    using assms(1) unfolding Accepted by (rule do_apply_accepted)
  have "jobs_ok M (core p1)" using insert_run_keeps [OF run(2)] jobs_ok_cong assms(2) by blast
  then have "jobs_ok M (core p2)" using apply_steps_queue [OF run(3)] assms(3) by blast
  then have "jobs_ok M (core p')" using run(5) jobs_ok_cong [of "core (close_run run (tally_doc t) p2)" "core p2"] by simp
  with Accepted show ?thesis by simp
qed

theorem apply_all_or_nothing_witness:
  "jobs_ok 5 (core (snd demo_applied)) \<and> jobs (core (snd demo_applied)) \<noteq> []"
proof -
  obtain t where t: "do_apply no_pfaults dec demo_drift_config [] ''u1'' (demo_scope ScopeHost) wanted_plane
     = (Accepted ''1'' RRunning t, snd demo_applied)"
    using demo_applied_accepted by blast
  have "jobs_ok 5 (core wanted_plane)"
    by (simp add: wanted_plane_def demo_plane_def demo_store_def empty_state_def jobs_ok_def)
  with apply_all_or_nothing [OF t] have "jobs_ok 5 (core (snd demo_applied))" by simp
  moreover have "jobs (core (snd demo_applied)) \<noteq> []" by code_simp
  ultimately show ?thesis ..
qed

end
