(* ===== verification/OrgInv.thy ===== *)
theory OrgInv
  imports OrgSystem
begin

text \<open>
  The reachable states of accounts and teams: the invariants, as an instance of \<open>org_invariant\<close>, and
  what follows for the handlers that manage members.
\<close>

lemma remaining_key:
  assumes "k \<in> f ` set xs" "k \<noteq> u"
  shows "k \<in> f ` set (filter (\<lambda>x. f x \<noteq> u) xs)"
  using assms by auto

lemma key_of_row:
  assumes "sql_exists (\<lambda>r. f r = k) rows"
  shows "k \<in> f ` set rows"
proof -
  obtain r where "r \<in> set rows" "f r = k" using assms by (auto simp: sql_exists_iff)
  then show ?thesis by (intro image_eqI [of _ _ r]) simp_all
qed

lemma keys_of_role: "map member_id (sql_update q (set_role r) ms) = map member_id ms"
  by (induction ms) (auto simp: set_role_def member_id_def)

lemma other_admin:
  assumes "1 < team_admins tid ms" "distinct (map member_id ms)"
  shows "\<exists>m \<in> set ms. is_admin_of tid m \<and> mb_user m \<noteq> uid"
  using another_row [of "is_admin_of tid" ms member_id "(tid, uid)"] assms
  by (auto simp: team_admins_alt is_admin_of_def member_id_def)

lemma row_is_only:
  assumes "distinct (map member_id ms)" "sql_row (\<lambda>m. mb_team m = tid \<and> mb_user m = uid) ms = Some m"
    "x \<in> set ms" "mb_team x = tid" "mb_user x = uid"
  shows "x = m"
proof -
  have "m \<in> set (members') \<and> mb_team m = tid \<and> mb_user m = uid" if "members' = ms" for members'
    using sql_row_SomeD [OF assms(2)] that by simp
  then have "m \<in> set ms" "member_id x = member_id m" using assms(4,5) by (simp_all add: member_id_def)
  then show ?thesis by (rule distinct_key_eq [OF assms(1,3)])
qed

lemma role_change_ok:
  assumes ok: "org_ok g" and row: "sql_row (\<lambda>m. mb_team m = tid \<and> mb_user m = uid) (members g) = Some m"
    and r: "r \<noteq> RoleViewer" and guard: "mb_role m \<noteq> RoleAdmin \<or> r = RoleAdmin \<or> 1 < team_admins tid (members g)"
  shows "org_ok (g\<lparr>members := sql_update (\<lambda>m. mb_team m = tid \<and> mb_user m = uid) (set_role r) (members g)\<rparr>)"
proof -
  let ?q = "\<lambda>m. mb_team m = tid \<and> mb_user m = uid"
  let ?ms = "sql_update ?q (set_role r) (members g)"
  have dist: "distinct (map member_id (members g))" using ok by (simp add: ok_defs)
  have admins: "\<exists>x \<in> set ?ms. is_admin_of t x" if t: "t \<in> tm_id ` set (teams g)" for t
  proof -
    obtain x where x: "x \<in> set (members g)" "is_admin_of t x" using ok t by (auto simp: ok_defs)
    show ?thesis
    proof (cases "?q x \<and> r \<noteq> RoleAdmin")
      case False
      show ?thesis
        by (rule bexI [of _ "if ?q x then set_role r x else x"])
          (use False x in \<open>auto simp: sql is_admin_of_def set_role_def\<close>)
    next
      case True
      with x row_is_only [OF dist row x(1)] guard have "1 < team_admins tid (members g)" "t = tid"
        by (auto simp: is_admin_of_def)
      with other_admin [OF _ dist, of tid uid] obtain y where "y \<in> set (members g)" "is_admin_of t y" "mb_user y \<noteq> uid"
        by blast
      then show ?thesis by (auto simp: sql intro!: bexI [of _ y])
    qed
  qed
  with ok r show ?thesis
    by (auto simp: ok_defs keys_of_role sql set_role_def)
qed

lemma leave_ok:
  assumes ok: "org_ok g" and row: "sql_row (\<lambda>m. mb_team m = tid \<and> mb_user m = uid) (members g) = Some m"
    and guard: "mb_role m \<noteq> RoleAdmin \<or> 1 < team_admins tid (members g)"
  shows "org_ok (g\<lparr>members := leave_team tid uid (members g)\<rparr>)"
proof -
  have dist: "distinct (map member_id (members g))" using ok by (simp add: ok_defs)
  have admins: "\<exists>x \<in> set (leave_team tid uid (members g)). is_admin_of t x" if t: "t \<in> tm_id ` set (teams g)" for t
  proof -
    obtain x where x: "x \<in> set (members g)" "is_admin_of t x" using ok t by (auto simp: ok_defs)
    show ?thesis
    proof (cases "mb_team x = tid \<and> mb_user x = uid")
      case False
      with x show ?thesis by (auto simp: leave_team_def intro!: bexI [of _ x])
    next
      case True
      with x row_is_only [OF dist row x(1)] guard have "1 < team_admins tid (members g)" "t = tid"
        by (auto simp: is_admin_of_def)
      with other_admin [OF _ dist, of tid uid] obtain y where "y \<in> set (members g)" "is_admin_of t y" "mb_user y \<noteq> uid"
        by blast
      then show ?thesis by (auto simp: leave_team_def intro!: bexI [of _ y])
    qed
  qed
  have sub: "set (leave_team tid uid (members g)) \<subseteq> set (members g)" by (auto simp: leave_team_def)
  have "keys_ok (g\<lparr>members := leave_team tid uid (members g)\<rparr>)"
    using ok by (simp add: org_ok_def keys_ok_def leave_team_def distinct_map_filter)
  moreover have "refs_ok (g\<lparr>members := leave_team tid uid (members g)\<rparr>)"
    using ok sub by (simp add: org_ok_def refs_ok_def) blast
  moreover have "roles_ok (g\<lparr>members := leave_team tid uid (members g)\<rparr>)"
    using ok sub by (simp add: org_ok_def roles_ok_def) blast
  moreover have "admins_ok (g\<lparr>members := leave_team tid uid (members g)\<rparr>)"
    using admins by (simp add: admins_ok_def)
  ultimately show ?thesis by (simp add: org_ok_def)
qed

lemma not_orphaned:
  assumes "orphaned_teams uid g = 0" "x \<in> set (members g)" "mb_user x = uid" "is_admin_of t x"
  shows "1 < team_admins t (members g)"
proof -
  have "team_admins t (members g) \<noteq> 1" using assms by (auto simp: orphaned_teams_def sql is_admin_of_def)
  moreover have "0 < team_admins t (members g)" using assms by (auto simp: team_admins_alt sql)
  ultimately show ?thesis by simp
qed

lemma drop_user_ok:
  assumes ok: "org_ok g" and orphan: "orphaned_teams uid g = 0" and created: "created_teams uid g = 0"
  shows "org_ok (drop_user uid g)"
proof -
  have dist: "distinct (map member_id (members g))" using ok by (simp add: ok_defs)
  have admins: "\<exists>x \<in> set (filter (\<lambda>m. mb_user m \<noteq> uid) (members g)). is_admin_of t x" if t: "t \<in> tm_id ` set (teams g)" for t
  proof -
    obtain x where x: "x \<in> set (members g)" "is_admin_of t x" using ok t by (auto simp: ok_defs)
    show ?thesis
    proof (cases "mb_user x = uid")
      case False
      with x show ?thesis by (auto intro!: bexI [of _ x])
    next
      case True
      from other_admin [OF not_orphaned [OF orphan x(1) True x(2)] dist, of uid] show ?thesis by auto
    qed
  qed
  have "\<forall>t \<in> set (teams g). tm_creator t \<noteq> uid" using created by (simp add: created_teams_def sql)
  then have creators: "\<forall>t \<in> set (teams g). tm_creator t \<in> us_id ` set (filter (\<lambda>u. us_id u \<noteq> uid) (users g))"
    using ok unfolding org_ok_def refs_ok_def by (blast intro: remaining_key)
  have "mb_user m \<in> us_id ` set (filter (\<lambda>u. us_id u \<noteq> uid) (users g))"
    if "m \<in> set (members g)" "mb_user m \<noteq> uid" for m
    using ok that unfolding org_ok_def refs_ok_def by (blast intro: remaining_key)
  then have refs: "\<forall>m \<in> set (filter (\<lambda>m. mb_user m \<noteq> uid) (members g)).
      mb_user m \<in> us_id ` set (filter (\<lambda>u. us_id u \<noteq> uid) (users g))"
    unfolding set_filter by blast
  have "distinct (map member_id (filter (\<lambda>m. mb_user m \<noteq> uid) (members g)))"
    using dist by (simp add: distinct_map_filter)
  then have "keys_ok (drop_user uid g)" using ok
    by (simp add: org_ok_def keys_ok_def drop_user_def)
  moreover have teams: "\<forall>m \<in> set (filter (\<lambda>m. mb_user m \<noteq> uid) (members g)). mb_team m \<in> tm_id ` set (teams g)"
    using ok by (simp add: org_ok_def refs_ok_def)
  have "refs_ok (drop_user uid g)" using creators refs teams
    unfolding refs_ok_def drop_user_def by (simp del: set_filter)
  moreover have "roles_ok (drop_user uid g)" using ok by (auto simp: ok_defs drop_user_def)
  moreover have "admins_ok (drop_user uid g)" using admins by (simp add: admins_ok_def drop_user_def del: set_filter)
  ultimately show ?thesis by (simp add: org_ok_def)
qed

lemma new_team_ok:
  assumes ok: "org_ok g" and user: "sql_exists (\<lambda>u. us_id u = uid) (users g)"
    and slug: "\<not> sql_exists (\<lambda>t. ci_eq (tm_slug t) sl) (teams g)"
    and fresh: "\<not> sql_exists (\<lambda>t. tm_id t = new_id (a_uuid a) g) (teams g)"
  shows "org_ok (snd (insert_team a uid n sl rg g))"
proof -
  have "member_id m \<noteq> (new_id (a_uuid a) g, uid)" if "m \<in> set (members g)" for m
    using ok fresh that by (auto simp: ok_defs sql member_id_def)
  with assms show ?thesis
    by (auto simp: ok_defs insert_team_def Let_def sql member_id_def is_admin_of_def ci_eq_def)
qed

lemma slug_of_set: "to_lower (tm_slug (set_team nm sl rg t)) = (case sl of None \<Rightarrow> to_lower (tm_slug t) | Some v \<Rightarrow> to_lower v)"
  "tm_id (set_team nm sl rg t) = tm_id t" "tm_creator (set_team nm sl rg t) = tm_creator t"
  by (auto simp: set_team_def merge_def split: option.splits)

lemma slugs_stay_distinct:
  assumes "distinct (map tm_id ts)" "distinct (map (\<lambda>t. to_lower (tm_slug t)) ts)"
    "\<And>v x. sl = Some v \<Longrightarrow> x \<in> set ts \<Longrightarrow> tm_id x \<noteq> tid \<Longrightarrow> to_lower (tm_slug x) \<noteq> to_lower v"
  shows "distinct (map (\<lambda>t. to_lower (tm_slug t)) (sql_update (\<lambda>x. tm_id x = tid) (set_team nm sl rg) ts))"
  using assms
proof (induction ts)
  case (Cons t ts)
  show ?case
  proof (cases "tm_id t = tid")
    case True
    have "tm_id t \<notin> tm_id ` set ts" using Cons.prems(1) by simp
    with True have "\<forall>x \<in> set ts. tm_id x \<noteq> tid" by (metis imageI)
    moreover from this have "sql_update (\<lambda>x. tm_id x = tid) (set_team nm sl rg) ts = ts"
      by (intro sql_update_id) simp
    ultimately show ?thesis using Cons.prems True
      by (cases sl) (simp_all add: slug_of_set, metis imageE)
  next
    case False
    have "to_lower (tm_slug t) \<notin> (\<lambda>t. to_lower (tm_slug t)) ` set (sql_update (\<lambda>x. tm_id x = tid) (set_team nm sl rg) ts)"
      using Cons.prems False by (cases sl) (auto simp: sql slug_of_set)
    moreover have "distinct (map (\<lambda>t. to_lower (tm_slug t)) (sql_update (\<lambda>x. tm_id x = tid) (set_team nm sl rg) ts))"
      using Cons.prems by (intro Cons.IH) auto
    ultimately show ?thesis using False by simp
  qed
qed simp

lemma edit_team_ok:
  assumes ok: "org_ok g"
    and slug: "\<not> (case sl of None \<Rightarrow> False | Some v \<Rightarrow> sql_exists (\<lambda>x. tm_id x \<noteq> tid \<and> ci_eq (tm_slug x) v) (teams g))"
  shows "org_ok (g\<lparr>teams := sql_update (\<lambda>x. tm_id x = tid) (set_team nm sl rg) (teams g)\<rparr>)"
proof -
  let ?u = "sql_update (\<lambda>x. tm_id x = tid) (set_team nm sl rg)"
  have ids: "map tm_id (?u ts) = map tm_id ts" for ts by (induction ts) (auto simp: slug_of_set)
  have set_ids: "tm_id ` set (?u (teams g)) = tm_id ` set (teams g)" by (metis ids list.set_map)
  have slugs: "distinct (map (\<lambda>t. to_lower (tm_slug t)) (?u (teams g)))"
    using ok slug by (intro slugs_stay_distinct) (auto simp: ok_defs sql ci_eq_def)
  have same: "\<exists>t0 \<in> set (teams g). tm_id t = tm_id t0 \<and> tm_creator t = tm_creator t0" if "t \<in> set (?u (teams g))" for t
    using that by (auto simp: sql slug_of_set)
  have "keys_ok (g\<lparr>teams := ?u (teams g)\<rparr>)" using ok slugs by (simp add: org_ok_def keys_ok_def ids)
  moreover have "refs_ok (g\<lparr>teams := ?u (teams g)\<rparr>)" using ok same
    by (simp add: org_ok_def refs_ok_def set_ids) metis
  moreover have "roles_ok (g\<lparr>teams := ?u (teams g)\<rparr>)" using ok by (simp add: org_ok_def roles_ok_def)
  moreover have "admins_ok (g\<lparr>teams := ?u (teams g)\<rparr>)" using ok same
    by (simp add: org_ok_def admins_ok_def) metis
  ultimately show ?thesis by (simp add: org_ok_def)
qed

lemma drop_team_ok:
  assumes "org_ok g"
  shows "org_ok (drop_team tid g)"
proof -
  have f: "teams (drop_team tid g) = filter (\<lambda>t. tm_id t \<noteq> tid) (teams g)"
    "members (drop_team tid g) = filter (\<lambda>m. mb_team m \<noteq> tid) (members g)"
    "invites (drop_team tid g) = filter (\<lambda>i. iv_team i \<noteq> tid) (invites g)"
    "users (drop_team tid g) = users g"
    by (simp_all add: drop_team_def drop_projects_def Let_def)
  have "keys_ok (drop_team tid g)"
    using assms unfolding org_ok_def keys_ok_def f by (simp add: distinct_map_filter)
  moreover have "refs_ok (drop_team tid g)"
    unfolding refs_ok_def f
  proof (intro conjI ballI)
    fix m assume "m \<in> set (filter (\<lambda>m. mb_team m \<noteq> tid) (members g))"
    then have m: "m \<in> set (members g)" "mb_team m \<noteq> tid" by auto
    then show "mb_team m \<in> tm_id ` set (filter (\<lambda>t. tm_id t \<noteq> tid) (teams g))" "mb_user m \<in> us_id ` set (users g)"
      using assms unfolding org_ok_def refs_ok_def by (blast intro: remaining_key)+
  next
    fix t assume "t \<in> set (filter (\<lambda>t. tm_id t \<noteq> tid) (teams g))"
    then have "t \<in> set (teams g)" by auto
    with assms show "tm_creator t \<in> us_id ` set (users g)" unfolding org_ok_def refs_ok_def by blast
  qed
  moreover have "roles_ok (drop_team tid g)"
    using assms unfolding org_ok_def roles_ok_def f by auto
  moreover have "admins_ok (drop_team tid g)"
    unfolding admins_ok_def f
  proof
    fix t assume "t \<in> set (filter (\<lambda>t. tm_id t \<noteq> tid) (teams g))"
    then have t: "t \<in> set (teams g)" "tm_id t \<noteq> tid" by auto
    then obtain m where "m \<in> set (members g)" "is_admin_of (tm_id t) m"
      using assms unfolding org_ok_def admins_ok_def by blast
    with t(2) show "\<exists>m \<in> set (filter (\<lambda>m. mb_team m \<noteq> tid) (members g)). is_admin_of (tm_id t) m"
      by (intro bexI [of _ m]) (auto simp: is_admin_of_def)
  qed
  ultimately show ?thesis by (simp add: org_ok_def)
qed

lemma join_ok:
  assumes ok: "org_ok g" and i: "i \<in> set (invites g)" and u: "sql_exists (\<lambda>u. us_id u = uid) (users g)"
    and t: "sql_exists (\<lambda>t. tm_id t = iv_team i) (teams g)"
  shows "org_ok (join_team (iv_team i) uid (iv_role i) g)"
proof -
  let ?m = "\<lparr>mb_team = iv_team i, mb_user = uid, mb_role = iv_role i, mb_created = now g\<rparr>"
  show ?thesis
  proof (cases "sql_exists (\<lambda>m. mb_team m = iv_team i \<and> mb_user m = uid) (members g)")
    case True
    with ok show ?thesis by (simp add: join_team_def)
  next
    case False
    have new: "member_id ?m \<notin> member_id ` set (members g)"
    proof
      assume "member_id ?m \<in> member_id ` set (members g)"
      then obtain x where "x \<in> set (members g)" "member_id ?m = member_id x" by (rule imageE)
      with False show False by (simp add: sql_exists_iff member_id_def) metis
    qed
    have team: "iv_team i \<in> tm_id ` set (teams g)" using t by (rule key_of_row)
    have user: "uid \<in> us_id ` set (users g)" using u by (rule key_of_row)
    have role: "RoleViewer \<noteq> iv_role i" using ok i unfolding org_ok_def roles_ok_def by (metis imageI)
    have joined: "join_team (iv_team i) uid (iv_role i) g = g\<lparr>members := members g @ [?m]\<rparr>"
      using False by (simp add: join_team_def)
    have "keys_ok (g\<lparr>members := members g @ [?m]\<rparr>)" using ok new by (simp add: org_ok_def keys_ok_def)
    moreover have "refs_ok (g\<lparr>members := members g @ [?m]\<rparr>)"
      using ok team user by (simp add: org_ok_def refs_ok_def)
    moreover have "roles_ok (g\<lparr>members := members g @ [?m]\<rparr>)" using ok role by (simp add: org_ok_def roles_ok_def)
    moreover have "admins_ok (g\<lparr>members := members g @ [?m]\<rparr>)"
      using ok unfolding org_ok_def admins_ok_def by simp
    ultimately show ?thesis by (simp add: joined org_ok_def)
  qed
qed

interpretation orgs: org_invariant org_ok
proof
  fix g :: org and q :: "user \<Rightarrow> bool" and f :: "user \<Rightarrow> user" assume "org_ok g" and f: "\<And>u. us_id (f u) = us_id u"
  have "us_id ` set (sql_update q f (users g)) = us_id ` set (users g)"
  proof -
    have "map us_id (sql_update q f (users g)) = map us_id (users g)"
      using f by (induction "users g") (simp_all add: sql_update_def)
    then show ?thesis by (metis list.set_map)
  qed
  with \<open>org_ok g\<close> show "org_ok (g\<lparr>users := sql_update q f (users g)\<rparr>)" by (simp add: ok_defs)
next
  fix g :: org and vs :: "invite list" assume "org_ok g" "iv_role ` set vs \<subseteq> {RoleAdmin, RoleMember} \<union> iv_role ` set (invites g)"
  then show "org_ok (g\<lparr>invites := vs\<rparr>)" by (auto simp: ok_defs)
qed (simp_all add: drop_team_ok join_ok role_change_ok leave_ok drop_user_ok new_team_ok edit_team_ok,
  simp_all add: ok_defs)

end
