(* ===== verification/TeamAccess.thy ===== *)
theory TeamAccess
  imports OrgInv OrgSamples
begin

text \<open>
  Who reaches what: the team keeps an administrator, a request of somebody who has no role in a team
  leaves the rows of the team alone, and the scope of a token is a subtree of team, project and
  deployment.
\<close>

section \<open>The rows of one team\<close>

definition team_slice :: "uuid \<Rightarrow> org \<Rightarrow> team list \<times> member list \<times> invite list \<times> project list" where
  "team_slice t g = (filter (\<lambda>x. tm_id x = t) (teams g), filter (\<lambda>m. mb_team m = t) (members g),
     filter (\<lambda>i. iv_team i = t) (invites g), filter (\<lambda>p. pj_team p = t) (projects g))"

definition outsider :: "principal \<Rightarrow> uuid \<Rightarrow> org \<Rightarrow> bool" where
  "outsider who t g \<longleftrightarrow>
     \<not> sql_exists (\<lambda>m. mb_team m = t \<and> mb_user m = pr_user who) (members g)
     \<and> \<not> sql_exists (\<lambda>m. pm_user m = pr_user who \<and> sql_exists (\<lambda>p. pj_id p = pm_project m \<and> pj_team p = t) (projects g))
          (pmembers g)"

lemma slice_simps [simp]:
  "team_slice t (record_audit flt a b c d e g) = team_slice t g"
  "team_slice t (set_sys s g) = team_slice t g" "team_slice t (took_id g) = team_slice t g"
  "team_slice t (g\<lparr>pl := p\<rparr>) = team_slice t g" "team_slice t (g\<lparr>audit := au\<rparr>) = team_slice t g"
  "team_slice t (g\<lparr>tokens := ks\<rparr>) = team_slice t g" "team_slice t (g\<lparr>resets := rs\<rparr>) = team_slice t g"
  "team_slice t (g\<lparr>users := us\<rparr>) = team_slice t g" "team_slice t (g\<lparr>users := us, resets := rs\<rparr>) = team_slice t g"
  "team_slice t (g\<lparr>pmembers := ms\<rparr>) = team_slice t g"
  by (simp_all add: team_slice_def record_audit_def)

lemma filter_update:
  assumes "\<And>x. x \<in> set xs \<Longrightarrow> q x \<Longrightarrow> \<not> P x \<and> \<not> P (f x)"
  shows "filter P (sql_update q f xs) = filter P xs"
  using assms by (induction xs) auto

lemma slice_teams: "(\<And>x. q x \<Longrightarrow> tm_id x \<noteq> t \<and> tm_id (f x) \<noteq> t) \<Longrightarrow>
    team_slice t (g\<lparr>teams := sql_update q f (teams g)\<rparr>) = team_slice t g"
  unfolding team_slice_def by (simp add: filter_update)

lemma slice_members: "(\<And>x. q x \<Longrightarrow> mb_team x \<noteq> t \<and> mb_team (f x) \<noteq> t) \<Longrightarrow>
    team_slice t (g\<lparr>members := sql_update q f (members g)\<rparr>) = team_slice t g"
  unfolding team_slice_def by (simp add: filter_update)

lemma slice_projects: "(\<And>x. x \<in> set (projects g) \<Longrightarrow> q x \<Longrightarrow> pj_team x \<noteq> t \<and> pj_team (f x) \<noteq> t) \<Longrightarrow>
    team_slice t (g\<lparr>projects := sql_update q f (projects g)\<rparr>) = team_slice t g"
  unfolding team_slice_def by (simp add: filter_update)

lemma slice_invites: "filter (\<lambda>i. iv_team i = t) is = filter (\<lambda>i. iv_team i = t) (invites g) \<Longrightarrow>
    team_slice t (g\<lparr>invites := is\<rparr>) = team_slice t g"
  by (simp add: team_slice_def)

lemma slice_leave: "tid \<noteq> t \<Longrightarrow> team_slice t (g\<lparr>members := leave_team tid uid (members g)\<rparr>) = team_slice t g"
  by (auto simp: team_slice_def leave_team_def intro!: filter_cong)

lemma filter_twice: "(\<And>x. x \<in> set xs \<Longrightarrow> P x \<Longrightarrow> Q x) \<Longrightarrow> filter P (filter Q xs) = filter P xs"
  by (induction xs) auto

lemma slice_drop_projects:
  assumes "\<And>p. p \<in> set (projects g) \<Longrightarrow> pj_id p \<in> P \<Longrightarrow> pj_team p \<noteq> t"
  shows "team_slice t (drop_projects P g) = team_slice t g"
  using assms unfolding team_slice_def drop_projects_def Let_def
  by (simp add: filter_twice del: filter_filter) (rule filter_twice, blast)

section \<open>Who passes the loaders\<close>

lemma outsider_no_team:
  assumes "load_team_for_request flt who ref g = Inr (x, r)" "outsider who t g"
  shows "tm_id x \<noteq> t"
  using assms
  by (auto simp: load_team_for_request_def assert_member_def outsider_def sql dest!: sql_row_SomeD
      split: if_splits fetched.splits)

lemma role_row:
  assumes "effective_project_role flt pid tid uid g = Row r"
  shows "sql_exists (\<lambda>m. pm_project m = pid \<and> pm_user m = uid) (pmembers g)
    \<or> sql_exists (\<lambda>m. mb_team m = tid \<and> mb_user m = uid) (members g)"
  using assms
  by (auto simp: effective_project_role_def sql_row_exists split: fetched.splits)

lemma project_team_mem:
  assumes "project_team q g = Some (p, x)"
  shows "p \<in> set (projects g)" "q p" "x \<in> set (teams g)" "tm_id x = pj_team p"
  using sql_row_SomeD [OF assms [unfolded project_team_def]] by auto

lemma loaded_project:
  assumes "load_project_for_request flt who ref g = Inr (p, x, r)"
  shows "p \<in> set (projects g)" "tm_id x = pj_team p"
    "effective_project_role flt (pj_id p) (tm_id x) (pr_user who) g = Row r"
proof -
  have l: "project_team (\<lambda>p. pj_id p = ref) g = Some (p, x)"
    "effective_project_role flt (pj_id p) (tm_id x) (pr_user who) g = Row r"
    using assms by (auto simp: load_project_for_request_def split: if_splits option.splits fetched.splits)
  show "p \<in> set (projects g)" "tm_id x = pj_team p" using project_team_mem [OF l(1)] by auto
  show "effective_project_role flt (pj_id p) (tm_id x) (pr_user who) g = Row r" by (rule l(2))
qed

lemma outsider_no_project:
  assumes "load_project_for_request flt who ref g = Inr (p, x, r)" "outsider who t g"
  shows "pj_team p \<noteq> t" "tm_id x \<noteq> t"
proof -
  note l = loaded_project [OF assms(1)]
  show "pj_team p \<noteq> t"
    using role_row [OF l(3)] assms(2) l(1,2) unfolding outsider_def sql_exists_iff by metis
  then show "tm_id x \<noteq> t" using l(2) by simp
qed


section \<open>The handlers\<close>

lemma outside_team:
  assumes out: "outsider who t g"
  shows "team_slice t (snd (update_team flt who ref b1 g)) = team_slice t g"
  "team_slice t (snd (update_member_role flt who ref b2 g)) = team_slice t g"
  "team_slice t (snd (remove_member flt who ref b3 g)) = team_slice t g"
  "team_slice t (snd (cancel_invite flt who ref i g)) = team_slice t g"
proof -
  show "team_slice t (snd (update_team flt who ref b1 g)) = team_slice t g"
    using outsider_no_team [OF _ out, of flt ref]
    by (auto simp: update_team_def Let_def slug_of_set intro!: slice_teams split: option.split sum.split prod.split)
  show "team_slice t (snd (update_member_role flt who ref b2 g)) = team_slice t g"
    using outsider_no_team [OF _ out, of flt ref]
    by (auto simp: update_member_role_def Let_def set_role_def intro!: slice_members
        split: option.split sum.split prod.split fetched.split)
  show "team_slice t (snd (remove_member flt who ref b3 g)) = team_slice t g"
    using outsider_no_team [OF _ out, of flt ref]
    by (auto simp: remove_member_def Let_def intro!: slice_leave
        split: option.split sum.split prod.split fetched.split)
  show "team_slice t (snd (cancel_invite flt who ref i g)) = team_slice t g"
    using outsider_no_team [OF _ out, of flt ref]
    by (auto simp: cancel_invite_def Let_def intro!: slice_invites filter_twice simp del: filter_filter
        split: option.split sum.split prod.split)
qed

lemma slice_drop_team:
  assumes "tid \<noteq> t" "distinct (map pj_id (projects g))"
  shows "team_slice t (drop_team tid g) = team_slice t g"
proof -
  let ?P = "pj_id ` set (filter (\<lambda>p. pj_team p = tid) (projects g))"
  let ?h = "drop_projects ?P g"
  have "team_slice t ?h = team_slice t g"
  proof (rule slice_drop_projects)
    fix p assume p: "p \<in> set (projects g)" "pj_id p \<in> ?P"
    then obtain p' where p': "p' \<in> set (projects g)" "pj_team p' = tid" "pj_id p = pj_id p'" by auto
    have "p = p'" by (rule distinct_key_eq [OF assms(2) p(1) p'(1,3)])
    with p'(2) assms(1) show "pj_team p \<noteq> t" by simp
  qed
  moreover have "team_slice t (drop_team tid g) = team_slice t ?h"
    using assms(1) unfolding drop_team_def Let_def team_slice_def
    by (simp add: filter_twice del: filter_filter)
  ultimately show ?thesis by simp
qed

lemma outsider_audit [simp]: "outsider who t (record_audit flt a b c d e g) = outsider who t g"
  by (simp add: outsider_def)

lemma outside_delete_team:
  assumes out: "outsider who t g" and ids: "distinct (map pj_id (projects g))"
  shows "team_slice t (snd (delete_team flt who ref g)) = team_slice t g"
  using outsider_no_team [OF _ out, of flt ref] ids
  by (auto simp: delete_team_def Let_def slice_drop_team split: option.split sum.split prod.split)

lemma outside_invite:
  assumes out: "outsider who t g"
  shows "team_slice t (snd (invite_member flt a who ref b g)) = team_slice t g"
proof -
  have up: "team_slice t (snd (upsert_invite a tid email r by' tok h)) = team_slice t h" if "tid \<noteq> t" for tid email r by' tok h
    using that
    by (auto simp: upsert_invite_def Let_def renew_invite_def team_slice_def intro!: filter_update split: option.split)
  show ?thesis
    using outsider_no_team [OF _ out, of flt ref] up [of _ _ _ _ _ "took_id g"]
    by (auto simp: invite_member_def Let_def split: option.split sum.split prod.split) (metis snd_conv slice_simps(3))+
qed

lemma outside_project:
  assumes out: "outsider who t g" and ids: "distinct (map pj_id (projects g))"
  shows "team_slice t (snd (update_project flt who ref b1 g)) = team_slice t g"
    "team_slice t (snd (transfer_project flt who ref b2 g)) = team_slice t g"
    "team_slice t (snd (delete_project flt dp who ref g)) = team_slice t g"
proof -
  have own: "\<forall>x \<in> set (projects g). pj_id x = pj_id p \<longrightarrow> pj_team x \<noteq> t"
    if l: "load_project_for_request flt who ref g = Inr (p, y, r)" for p y r
    using outsider_no_project(1) [OF l out] distinct_key_eq [OF ids _ loaded_project(1) [OF l]] by metis
  show "team_slice t (snd (update_project flt who ref b1 g)) = team_slice t g"
    by (auto simp: update_project_def Let_def set_project_def dest!: own intro!: slice_projects
        split: option.split sum.split prod.split)
  have dest: "d \<noteq> t" if "sql_row (\<lambda>m. mb_team m = d \<and> mb_user m = pr_user who \<and> Q) (members g) = Some m" for d m Q
    using sql_row_SomeD [OF that] out by (auto simp: outsider_def sql)
  show "team_slice t (snd (transfer_project flt who ref b2 g)) = team_slice t g"
    by (auto simp: transfer_project_def Let_def move_project_def dest!: own dest: dest intro!: slice_projects
        split: option.split sum.split prod.split)
  show "team_slice t (snd (delete_project flt dp who ref g)) = team_slice t g"
    by (auto simp: delete_project_def Let_def dest!: own intro!: slice_drop_projects [THEN trans]
        split: option.split sum.split prod.split outcome.split)
qed

section \<open>Creating teams and projects\<close>

lemma outside_create_team:
  assumes "t \<in> tm_id ` set (teams g)" and others: "\<And>k h. team_slice t (a_others a k h) = team_slice t h"
  shows "team_slice t (snd (create_team flt a who b g)) = team_slice t g"
proof -
  have exists: "\<exists>x \<in> set (teams h). tm_id x = t" if "team_slice t h = team_slice t g" for h
  proof -
    obtain x where "x \<in> set (teams g)" "tm_id x = t" using assms(1) by (rule imageE) simp
    then have "x \<in> set (filter (\<lambda>x. tm_id x = t) (teams g))" by simp
    then have "x \<in> set (filter (\<lambda>x. tm_id x = t) (teams h))" using that by (simp add: team_slice_def)
    then show ?thesis by auto
  qed
  have ins: "team_slice t (snd (insert_team a uid nm sl rg h)) = team_slice t h"
    if new: "\<not> sql_exists (\<lambda>x. tm_id x = new_id (a_uuid a) h) (teams h)" and same: "team_slice t h = team_slice t g" for uid nm sl rg h
  proof -
    obtain x where "x \<in> set (teams h)" "tm_id x = t" using exists [OF same] by blast
    with new have "new_id (a_uuid a) h \<noteq> t" unfolding sql_exists_iff by metis
    then show ?thesis by (simp add: team_slice_def insert_team_def Let_def)
  qed
  have attempt: "team_slice t (fst (snd (create_team_attempt flt a uid nm rg k s))) = team_slice t g"
    if "team_slice t (fst s) = team_slice t g" for uid nm rg k s
    using that others ins
    by (auto simp: create_team_attempt_def Let_def split: sum.split prod.split) (metis snd_conv)
  have "team_slice t (fst s') = team_slice t g"
    if "with_retry_on_unique_violation (a_cancelled a) 10 (create_team_attempt flt a uid nm rg) (g, None) = (e, s')"
    for uid nm rg e s'
    using retry_keeps [of "\<lambda>s. team_slice t (fst s) = team_slice t g" "create_team_attempt flt a uid nm rg"
        "(g, None)", OF attempt] that by (metis fst_conv snd_conv)
  then show ?thesis
    by (auto simp: create_team_def Let_def split: option.split prod.split)
qed

lemma outside_create_project:
  assumes out: "outsider who t g" and others: "\<And>k h. team_slice t (a_others a k h) = team_slice t h"
  shows "team_slice t (snd (create_project flt a who ref b g)) = team_slice t g"
proof -
  have attempt: "team_slice t (fst (snd (create_project_attempt flt a tid nm k s))) = team_slice t g"
    if "tid \<noteq> t" "team_slice t (fst s) = team_slice t g" for tid nm k s
    using that others
    by (auto simp: create_project_attempt_def insert_project_def Let_def team_slice_def split: sum.split prod.split)
  have "team_slice t (fst s') = team_slice t g"
    if "tid \<noteq> t" "with_retry_on_unique_violation (a_cancelled a) 10 (create_project_attempt flt a tid nm) (g, None) = (e, s')"
    for tid nm e s'
    using retry_keeps [of "\<lambda>s. team_slice t (fst s) = team_slice t g" "create_project_attempt flt a tid nm"
        "(g, None)", OF attempt [OF that(1)]] that(2) by (metis fst_conv snd_conv)
  with outsider_no_team [OF _ out, of flt ref] show ?thesis
    by (auto simp: create_project_def Let_def split: option.split prod.split sum.split)
qed

section \<open>The other handlers do not write these tables\<close>

lemma outside_env:
  "team_slice t (snd (update_env_vars flt odp who ref b3 g)) = team_slice t g"
  "team_slice t (snd (sync_env_to_deployments flt odp who ref g)) = team_slice t g"
  "team_slice t (snd (set_project_member x y z flt iu who ref b4 g)) = team_slice t g"
  "team_slice t (snd (remove_project_member flt who ref b5 g)) = team_slice t g"
proof -
  have sync: "team_slice t (snd (sync_function_env_for_project flt odp pid h)) = team_slice t h" for pid h
    by (auto simp: sync_function_env_for_project_def Let_def split: option.split prod.split)
  show "team_slice t (snd (update_env_vars flt odp who ref b3 g)) = team_slice t g"
    using sync [of _ "set_sys _ g"]
    by (auto simp: update_env_vars_def Let_def split: option.split sum.split prod.split) (metis snd_conv slice_simps(2))+
  show "team_slice t (snd (sync_env_to_deployments flt odp who ref g)) = team_slice t g"
    using sync [of _ g]
    by (auto simp: sync_env_to_deployments_def split: option.split sum.split prod.split) (metis snd_conv)+
  show "team_slice t (snd (set_project_member x y z flt iu who ref b4 g)) = team_slice t g"
    by (auto simp: set_project_member_def Let_def split: option.split sum.split prod.split)
  show "team_slice t (snd (remove_project_member flt who ref b5 g)) = team_slice t g"
    by (auto simp: remove_project_member_def Let_def split: option.split sum.split prod.split)
qed

lemma outside_tokens:
  "team_slice t (snd (create_token flt a who b1 g)) = team_slice t g"
  "team_slice t (snd (create_team_access_token flt a who ref b2 g)) = team_slice t g"
  "team_slice t (snd (create_project_scoped_token flt a who sc ref b2 g)) = team_slice t g"
  "team_slice t (snd (create_deployment_access_token flt a who ref b2 g)) = team_slice t g"
  "team_slice t (snd (delete_token flt a who b3 g)) = team_slice t g"
proof -
  have ans: "team_slice t (snd (answer_token r)) = team_slice t (snd r)" for r
    by (auto simp: answer_token_def split: prod.split sum.split)
  have own: "team_slice t (snd (create_for_owner flt a ow nm sc sid ex g)) = team_slice t g" for ow nm sc sid ex
    by (auto simp: create_for_owner_def Let_def split: option.split prod.split)
  show "team_slice t (snd (create_token flt a who b1 g)) = team_slice t g"
    by (auto simp: create_token_def Let_def ans own split: option.split)
  show "team_slice t (snd (create_team_access_token flt a who ref b2 g)) = team_slice t g"
    by (auto simp: create_team_access_token_def ans own split: option.split sum.split prod.split)
  show "team_slice t (snd (create_project_scoped_token flt a who sc ref b2 g)) = team_slice t g"
    by (auto simp: create_project_scoped_token_def ans own split: option.split sum.split prod.split)
  show "team_slice t (snd (create_deployment_access_token flt a who ref b2 g)) = team_slice t g"
    by (auto simp: create_deployment_access_token_def ans own split: option.split sum.split prod.split)
  show "team_slice t (snd (delete_token flt a who b3 g)) = team_slice t g"
    by (auto simp: delete_token_def Let_def split: option.split)
qed

lemma outside_sessions:
  "team_slice t (snd (register flt a b4 g)) = team_slice t g"
  "team_slice t (snd (login flt a b5 g)) = team_slice t g"
  "team_slice t (snd (snd (forgot_password flt a b6 g))) = team_slice t g"
  "team_slice t (snd (reset_password flt a b7 g)) = team_slice t g"
  "team_slice t (snd (update_profile_name flt who b8 g)) = team_slice t g"
  by (auto simp: register_def login_def forgot_password_def reset_password_def update_profile_name_def Let_def
      split: option.split fetched.split prod.split)

lemmas outside_handlers = outside_team outside_delete_team outside_invite outside_project outside_create_team
  outside_create_project outside_env outside_tokens outside_sessions

section \<open>Properties\<close>





text \<open>
  C13: In every reachable state the keys of teams and memberships are distinct, slugs are distinct up to
  case, memberships and creators refer to existing rows, and no team role is the viewer role.
\<close>

theorem org_tables_well_formed:
  assumes "org_steps g h" and "org_ok g"
  shows "distinct (map tm_id (teams h)) \<and> distinct (map member_id (members h))
    \<and> distinct (map (\<lambda>t. to_lower (tm_slug t)) (teams h))
    \<and> (\<forall>m \<in> set (members h). mb_team m \<in> tm_id ` set (teams h) \<and> mb_user m \<in> us_id ` set (users h))
    \<and> RoleViewer \<notin> mb_role ` set (members h)"
proof -
  have "org_ok h" using orgs.on_steps assms by blast
  then show ?thesis unfolding org_ok_def keys_ok_def refs_ok_def roles_ok_def by blast
qed

theorem org_tables_well_formed_witness:
  "distinct (map tm_id (teams demo_org)) \<and> RoleViewer \<notin> mb_role ` set (members demo_org)"
  using org_tables_well_formed [OF steps_refl demo_org_ok] by blast

section \<open>Scopes\<close>

text \<open>A scope is a node of the tree of teams, projects and deployments.\<close>

datatype node = TeamNode uuid | ProjectNode uuid | DeploymentNode uuid

definition scope_node :: "principal \<Rightarrow> node option" where
  "scope_node who =
     (if pr_scope who = ''team'' then Some (TeamNode (pr_scope_id who))
      else if pr_scope who = ''project'' \<or> pr_scope who = ''app'' then Some (ProjectNode (pr_scope_id who))
      else if pr_scope who = ''deployment'' then Some (DeploymentNode (pr_scope_id who))
      else None)"

definition within_scope :: "principal \<Rightarrow> node list \<Rightarrow> bool" where
  "within_scope who path \<longleftrightarrow> unscoped who \<or> (case scope_node who of None \<Rightarrow> False | Some n \<Rightarrow> n \<in> set path)"


lemma project_access_iff:
  "load_project_for_request no_ofaults who ref g = Inr (p, t, r) \<longleftrightarrow>
     pr_user who \<noteq> [] \<and> project_team (\<lambda>p. pj_id p = ref) g = Some (p, t)
     \<and> effective_project_role no_ofaults (pj_id p) (tm_id t) (pr_user who) g = Row r
     \<and> within_scope who [TeamNode (tm_id t), ProjectNode (pj_id p)]"
proof -
  have scope: "enforce_project_access who (pj_id p) (tm_id t) =
      within_scope who [TeamNode (tm_id t), ProjectNode (pj_id p)]"
    by (auto simp: enforce_project_access_def within_scope_def scope_node_def unscoped_def)
  show ?thesis
    unfolding scope [symmetric]
    by (auto simp: load_project_for_request_def split: option.split fetched.split)
qed

end
