(* ===== verification/AdminRace.thy ===== *)
theory AdminRace
  imports OrgInv OrgSamples
begin

text \<open>
  The last-admin guard of updateMemberRole (api/teams.go) statement by statement. The transaction locks
  the row of its target, counts the admins with a plain \<open>SELECT\<close> that sees the committed rows and locks
  none, updates the row and commits. Transactions are interleaved by a schedule of transaction numbers;
  one that waits for a lock, or has ended, does nothing in its turn.
\<close>

datatype phase = TxStart | TxLocked role | TxCounted | TxUpdated | TxDone | TxRefused

record role_tx =
  tx_target :: uuid
  tx_role :: role
  tx_phase :: phase

definition holds_lock :: "role_tx \<Rightarrow> bool" where
  "holds_lock x \<longleftrightarrow> tx_phase x \<noteq> TxStart \<and> tx_phase x \<noteq> TxDone \<and> tx_phase x \<noteq> TxRefused"

definition locked :: "uuid \<Rightarrow> role_tx list \<Rightarrow> bool" where
  "locked u txs \<longleftrightarrow> list_ex (\<lambda>y. holds_lock y \<and> tx_target y = u) txs"

text \<open>The next statement of one transaction, by what it reads: the outcome is its phase and the rows.\<close>

definition tx_statement :: "uuid \<Rightarrow> bool \<Rightarrow> member list \<Rightarrow> role_tx \<Rightarrow> phase \<times> member list" where
  "tx_statement tid busy ms x =
     (case tx_phase x of
        TxStart \<Rightarrow>
          (case sql_row (\<lambda>m. mb_team m = tid \<and> mb_user m = tx_target x) ms of
             None \<Rightarrow> (TxRefused, ms)
           | Some m \<Rightarrow> if busy then (TxStart, ms) else (TxLocked (mb_role m), ms))
      | TxLocked r \<Rightarrow>
          (if r = tx_role x then (TxDone, ms)
           else if r = RoleAdmin \<and> tx_role x \<noteq> RoleAdmin \<and> team_admins tid ms \<le> 1 then (TxRefused, ms)
           else (TxCounted, ms))
      | TxCounted \<Rightarrow> (TxUpdated, ms)
      | TxUpdated \<Rightarrow> (TxDone, sql_update (\<lambda>m. mb_team m = tid \<and> mb_user m = tx_target x) (set_role (tx_role x)) ms)
      | TxDone \<Rightarrow> (TxDone, ms)
      | TxRefused \<Rightarrow> (TxRefused, ms))"

definition tx_turn :: "uuid \<Rightarrow> nat \<Rightarrow> role_tx list \<times> member list \<Rightarrow> role_tx list \<times> member list" where
  "tx_turn tid i s =
     (case s of (txs, ms) \<Rightarrow>
        if i < length txs then
          (case tx_statement tid (locked (tx_target (txs ! i)) txs) ms (txs ! i) of
             (ph, ms1) \<Rightarrow> (txs[i := (txs ! i)\<lparr>tx_phase := ph\<rparr>], ms1))
        else s)"

definition tx_run :: "uuid \<Rightarrow> nat list \<Rightarrow> role_tx list \<times> member list \<Rightarrow> role_tx list \<times> member list" where
  "tx_run tid sched s = foldl (\<lambda>s i. tx_turn tid i s) s sched"

definition tx_at :: "uuid \<Rightarrow> role \<Rightarrow> phase \<Rightarrow> role_tx" where
  "tx_at u r p = \<lparr>tx_target = u, tx_role = r, tx_phase = p\<rparr>"

definition new_tx :: "uuid \<Rightarrow> role \<Rightarrow> role_tx" where
  "new_tx u r = tx_at u r TxStart"

text \<open>One transaction after the other.\<close>

definition serial :: "nat \<Rightarrow> nat list" where
  "serial n = concat (map (\<lambda>i. replicate 4 i) [0..<n])"

lemma tx_run_simps [simp]: "tx_run tid [] s = s" "tx_run tid (i # is) s = tx_run tid is (tx_turn tid i s)"
  by (simp_all add: tx_run_def)

section \<open>Two demotions at once\<close>

lemma admins_of_two:
  assumes "team_admins tid ms = 2" "distinct (map member_id ms)"
    and a: "a \<in> set ms" "is_admin_of tid a" and b: "b \<in> set ms" "is_admin_of tid b" "mb_user a \<noteq> mb_user b"
    and m: "m \<in> set ms" "is_admin_of tid m"
  shows "mb_user m = mb_user a \<or> mb_user m = mb_user b"
proof (rule ccontr)
  assume "\<not> ?thesis"
  then have "distinct [a, b, m]" "set [a, b, m] \<subseteq> set (filter (is_admin_of tid) ms)"
    using a b m by auto
  then have "3 \<le> card (set (filter (is_admin_of tid) ms))"
    using card_mono [of "set (filter (is_admin_of tid) ms)" "set [a, b, m]"] distinct_card [of "[a, b, m]"] by simp
  also have "\<dots> \<le> length (filter (is_admin_of tid) ms)" by (rule card_length)
  also have "\<dots> = 2" using assms(1) by (simp add: team_admins_alt sql_count_def)
  finally show False by simp
qed

lemma row_found:
  assumes "distinct (map member_id ms)" "a \<in> set ms" "mb_team a = tid" "mb_user a = u"
  shows "sql_row (\<lambda>m. mb_team m = tid \<and> mb_user m = u) ms = Some a"
proof -
  have "sql_row (\<lambda>m. mb_team m = tid \<and> mb_user m = u) ms \<noteq> None"
    using assms(2-4) by (auto simp: sql_row_None)
  then obtain m where m: "sql_row (\<lambda>m. mb_team m = tid \<and> mb_user m = u) ms = Some m" by auto
  with row_is_only [OF assms(1) m assms(2-4)] show ?thesis by simp
qed

definition demote :: "uuid \<Rightarrow> uuid \<Rightarrow> role \<Rightarrow> member list \<Rightarrow> member list" where
  "demote tid u r ms = sql_update (\<lambda>m. mb_team m = tid \<and> mb_user m = u) (set_role r) ms"

lemma admins_demoted:
  assumes "\<And>m. m \<in> set ms \<Longrightarrow> is_admin_of tid m \<Longrightarrow> mb_user m = u \<or> mb_user m = v" "r \<noteq> RoleAdmin"
  shows "team_admins tid (demote tid v r (demote tid u r ms)) = 0"
  using assms(1)
proof (induction ms)
  case (Cons m ms)
  then have "team_admins tid (demote tid v r (demote tid u r ms)) = 0" by simp
  moreover have "is_admin_of tid m \<longrightarrow> mb_user m = u \<or> mb_user m = v" using Cons.prems by simp
  ultimately show ?case
    using assms(2) by (auto simp: team_admins_alt demote_def is_admin_of_def set_role_def)
qed (simp add: team_admins_alt demote_def)

text \<open>
  In a team with exactly two admins, two demotions, one of each, whose statements alternate, both
  succeed and leave the team without an admin: the guard counts with a plain SELECT, so each transaction
  still sees the other's admin row, and the rows they lock are different. The comment above the
  transaction says that two concurrent demotions cannot race past the guard.
\<close>

theorem demotions_race:
  assumes "team_admins tid ms = 2" and "distinct (map member_id ms)"
    and "a \<in> set ms" "is_admin_of tid a" and "b \<in> set ms" "is_admin_of tid b" and "mb_user a \<noteq> mb_user b"
    and "r \<noteq> RoleAdmin"
  shows "map tx_phase (fst (tx_run tid [0, 1, 0, 1, 0, 1, 0, 1] ([new_tx (mb_user a) r, new_tx (mb_user b) r], ms)))
      = [TxDone, TxDone]
    \<and> team_admins tid (snd (tx_run tid [0, 1, 0, 1, 0, 1, 0, 1] ([new_tx (mb_user a) r, new_tx (mb_user b) r], ms))) = 0"
proof -
  have ra: "sql_row (\<lambda>m. mb_team m = tid \<and> mb_user m = mb_user a) ms = Some a"
    using assms(2-4) by (intro row_found) (auto simp: is_admin_of_def)
  have rb: "sql_row (\<lambda>m. mb_team m = tid \<and> mb_user m = mb_user b) ms = Some b"
    using assms(2,5,6) by (intro row_found) (auto simp: is_admin_of_def)
  have "mb_role a = RoleAdmin" "mb_role b = RoleAdmin" using assms(4,6) by (auto simp: is_admin_of_def)
  with assms(1,7,8) ra rb
  have "tx_run tid [0, 1, 0, 1, 0, 1, 0, 1] ([new_tx (mb_user a) r, new_tx (mb_user b) r], ms)
    = ([tx_at (mb_user a) r TxDone, tx_at (mb_user b) r TxDone],
       demote tid (mb_user b) r (demote tid (mb_user a) r ms))"
    by (simp add: tx_turn_def tx_statement_def new_tx_def tx_at_def locked_def holds_lock_def demote_def)
  with admins_demoted [OF admins_of_two [OF assms(1-7)] assms(8)] show ?thesis by (simp add: tx_at_def)
qed

theorem demotions_race_witness:
  "team_admins ''t1'' (snd (tx_run ''t1'' [0, 1, 0, 1, 0, 1, 0, 1]
     ([new_tx ''a'' RoleMember, new_tx ''b'' RoleMember], members demo_org))) = 0"
  using demotions_race [of "''t1''" "members demo_org" "demo_member ''t1'' ''a'' RoleAdmin"
      "demo_member ''t1'' ''b'' RoleAdmin" RoleMember]
  by (simp add: org_demo_defs team_admins_def sql_count_def is_admin_of_def member_id_def split_pairs)

section \<open>One after the other\<close>

text \<open>A transaction that runs alone, next to others that have not begun or have ended.\<close>

definition idle_txs :: "role_tx list \<Rightarrow> bool" where
  "idle_txs txs \<longleftrightarrow> list_all (\<lambda>y. \<not> holds_lock y) txs"

lemma idle_not_locked: "idle_txs txs \<Longrightarrow> \<not> locked u txs"
  by (auto simp: idle_txs_def locked_def list_all_iff list_ex_iff)

lemma turn_at:
  assumes "i < length txs"
  shows "tx_turn tid i (txs[i := x], ms) =
    (case tx_statement tid (locked (tx_target x) (txs[i := x])) ms x of
       (ph, ms1) \<Rightarrow> (txs[i := x\<lparr>tx_phase := ph\<rparr>], ms1))"
  using assms by (simp add: tx_turn_def split: prod.split)

lemma tx_alone:
  assumes "i < length txs" "txs ! i = new_tx u r" "idle_txs txs"
  shows "\<exists>p ms1. tx_run tid (replicate 4 i) (txs, ms) = (txs[i := tx_at u r p], ms1)
    \<and> (p = TxDone \<or> p = TxRefused)
    \<and> (ms1 = ms \<or> ms1 = demote tid u r ms \<and>
         (\<exists>m. sql_row (\<lambda>m. mb_team m = tid \<and> mb_user m = u) ms = Some m
            \<and> (mb_role m \<noteq> RoleAdmin \<or> r = RoleAdmin \<or> 1 < team_admins tid ms)))"
proof -
  have four: "replicate 4 i = [i, i, i, i]" by (simp add: numeral_eq_Suc)
  let ?tx = "tx_at u r"
  have self: "txs = txs[i := ?tx TxStart]" using assms(2) by (metis list_update_id new_tx_def)
  have turn: "tx_turn tid i (txs[i := ?tx p], ms) =
      (case tx_statement tid (locked u (txs[i := ?tx p])) ms (?tx p) of (ph, ms1) \<Rightarrow> (txs[i := ?tx ph], ms1))" for p ms
    using turn_at [OF assms(1), of tid "?tx p" ms] by (simp add: tx_at_def)
  have free: "\<not> locked u (txs[i := ?tx TxStart])" using idle_not_locked [OF assms(3)] self by metis
  have start: "tx_run tid (replicate 4 i) (txs, ms) = tx_run tid [i, i, i, i] (txs[i := ?tx TxStart], ms)"
    unfolding four using self by metis
  have st: "tx_statement tid busy ms (?tx p) =
     (case p of
        TxStart \<Rightarrow> (case sql_row (\<lambda>m. mb_team m = tid \<and> mb_user m = u) ms of
             None \<Rightarrow> (TxRefused, ms) | Some m \<Rightarrow> if busy then (TxStart, ms) else (TxLocked (mb_role m), ms))
      | TxLocked q \<Rightarrow> (if q = r then (TxDone, ms)
           else if q = RoleAdmin \<and> r \<noteq> RoleAdmin \<and> team_admins tid ms \<le> 1 then (TxRefused, ms)
           else (TxCounted, ms))
      | TxCounted \<Rightarrow> (TxUpdated, ms)
      | TxUpdated \<Rightarrow> (TxDone, demote tid u r ms)
      | TxDone \<Rightarrow> (TxDone, ms) | TxRefused \<Rightarrow> (TxRefused, ms))" for busy ms p
    by (cases p) (simp_all add: tx_statement_def tx_at_def demote_def)
  show ?thesis
  proof (cases "sql_row (\<lambda>m. mb_team m = tid \<and> mb_user m = u) ms")
    case None
    then show ?thesis unfolding start by (auto simp: turn st)
  next
    case (Some m)
    consider "mb_role m = r" | "mb_role m \<noteq> r" "mb_role m = RoleAdmin" "team_admins tid ms \<le> 1"
      | "mb_role m \<noteq> r" "mb_role m \<noteq> RoleAdmin \<or> r = RoleAdmin \<or> 1 < team_admins tid ms" by fastforce
    then show ?thesis
    proof cases
      case 1
      with Some free show ?thesis unfolding start by (auto simp: turn st)
    next
      case 2
      with Some free show ?thesis unfolding start by (auto simp: turn st)
    next
      case 3
      with Some free show ?thesis unfolding start by (auto simp: turn st)
    qed
  qed
qed

definition team_ok :: "uuid \<Rightarrow> member list \<Rightarrow> bool" where
  "team_ok tid ms \<longleftrightarrow> distinct (map member_id ms) \<and> 1 \<le> team_admins tid ms"

lemma demote_keeps:
  assumes "team_ok tid ms" "sql_row (\<lambda>m. mb_team m = tid \<and> mb_user m = u) ms = Some m"
    "mb_role m \<noteq> RoleAdmin \<or> r = RoleAdmin \<or> 1 < team_admins tid ms"
  shows "team_ok tid (demote tid u r ms)"
proof -
  have dist: "distinct (map member_id ms)" using assms(1) by (simp add: team_ok_def)
  have m: "m \<in> set ms" "mb_team m = tid" "mb_user m = u" using sql_row_SomeD [OF assms(2)] by auto
  have "\<exists>x \<in> set (demote tid u r ms). is_admin_of tid x"
  proof (cases "r = RoleAdmin")
    case True
    have "set_role r m \<in> set (demote tid u r ms)"
      using m unfolding demote_def set_sql_update by (intro image_eqI [of _ _ m]) auto
    then show ?thesis by (rule rev_bexI) (use True m in \<open>simp add: is_admin_of_def set_role_def\<close>)
  next
    case False
    have "\<exists>y \<in> set ms. is_admin_of tid y \<and> mb_user y \<noteq> u"
    proof (cases "mb_role m = RoleAdmin")
      case True
      with False assms(3) have "1 < team_admins tid ms" by blast
      from other_admin [OF this dist] show ?thesis .
    next
      case other: False
      obtain y where y: "y \<in> set ms" "is_admin_of tid y"
        using assms(1) by (auto simp: team_ok_def team_admins_alt sql Suc_le_eq)
      with row_is_only [OF dist assms(2) y(1)] other show ?thesis by (auto simp: is_admin_of_def)
    qed
    then obtain y where "y \<in> set ms" "is_admin_of tid y" "mb_user y \<noteq> u" by blast
    then show ?thesis
      unfolding demote_def set_sql_update by (intro bexI [of _ y]) (auto intro: image_eqI [of _ _ y])
  qed
  with dist show ?thesis
    by (auto simp: team_ok_def demote_def keys_of_role team_admins_alt sql Suc_le_eq)
qed

lemma serial_Suc: "serial (Suc n) = serial n @ replicate 4 n"
  by (simp add: serial_def)

lemma tx_run_append: "tx_run tid (is @ js) s = tx_run tid js (tx_run tid is s)"
  by (simp add: tx_run_def)

lemma serial_runs:
  assumes "list_all (\<lambda>y. tx_phase y = TxStart) txs" "team_ok tid ms" "n \<le> length txs"
  shows "\<exists>txs1 ms1. tx_run tid (serial n) (txs, ms) = (txs1, ms1) \<and> team_ok tid ms1 \<and> length txs1 = length txs
    \<and> idle_txs txs1 \<and> (\<forall>i < length txs. n \<le> i \<longrightarrow> txs1 ! i = txs ! i)
    \<and> (\<forall>i < n. tx_phase (txs1 ! i) = TxDone \<or> tx_phase (txs1 ! i) = TxRefused)"
  using assms(3)
proof (induction n)
  case 0
  from assms(1,2) show ?case by (auto simp: serial_def idle_txs_def list_all_iff holds_lock_def)
next
  case (Suc n)
  then obtain txs1 ms1 where ih: "tx_run tid (serial n) (txs, ms) = (txs1, ms1)" "team_ok tid ms1"
    "length txs1 = length txs" "idle_txs txs1" "\<forall>i < length txs. n \<le> i \<longrightarrow> txs1 ! i = txs ! i"
    "\<forall>i < n. tx_phase (txs1 ! i) = TxDone \<or> tx_phase (txs1 ! i) = TxRefused" by auto
  let ?x = "txs ! n"
  have "tx_phase ?x = TxStart" using assms(1) Suc.prems by (simp add: list_all_length)
  then have new: "txs1 ! n = new_tx (tx_target ?x) (tx_role ?x)"
    using ih(5) Suc.prems by (simp add: new_tx_def tx_at_def)
  obtain p ms2 where run: "tx_run tid (replicate 4 n) (txs1, ms1) = (txs1[n := tx_at (tx_target ?x) (tx_role ?x) p], ms2)"
    and p: "p = TxDone \<or> p = TxRefused"
    and ms2: "ms2 = ms1 \<or> ms2 = demote tid (tx_target ?x) (tx_role ?x) ms1 \<and>
         (\<exists>m. sql_row (\<lambda>m. mb_team m = tid \<and> mb_user m = tx_target ?x) ms1 = Some m
            \<and> (mb_role m \<noteq> RoleAdmin \<or> tx_role ?x = RoleAdmin \<or> 1 < team_admins tid ms1))"
    using tx_alone [OF _ new ih(4), of tid ms1] Suc.prems ih(3) by auto
  have "team_ok tid ms2" using ms2 ih(2) demote_keeps by blast
  moreover have "idle_txs (txs1[n := tx_at (tx_target ?x) (tx_role ?x) p])"
    using ih(4) p set_update_subset_insert [of txs1 n "tx_at (tx_target ?x) (tx_role ?x) p"]
    by (auto simp: idle_txs_def list_all_iff holds_lock_def tx_at_def)
  ultimately show ?case
    using ih Suc.prems p
    by (auto simp: serial_Suc tx_run_append run tx_at_def nth_list_update less_Suc_eq)
qed

text \<open>
  Run one after the other, any number of role changes of any members ends, each done or refused, and
  leaves the team with an admin: the guard is right as long as its transactions do not overlap.
\<close>

theorem serial_role_changes_keep_admin:
  assumes "distinct (map member_id ms)" and "1 \<le> team_admins tid ms"
  shows "1 \<le> team_admins tid (snd (tx_run tid (serial (length us)) (map (\<lambda>(u, r). new_tx u r) us, ms)))
    \<and> (\<forall>x \<in> set (fst (tx_run tid (serial (length us)) (map (\<lambda>(u, r). new_tx u r) us, ms))).
         tx_phase x = TxDone \<or> tx_phase x = TxRefused)"
proof -
  let ?txs = "map (\<lambda>(u, r). new_tx u r) us"
  have "list_all (\<lambda>y. tx_phase y = TxStart) ?txs" by (auto simp: list_all_iff new_tx_def tx_at_def)
  moreover have "team_ok tid ms" using assms by (simp add: team_ok_def)
  ultimately obtain txs1 ms1 where "tx_run tid (serial (length us)) (?txs, ms) = (txs1, ms1)" "team_ok tid ms1"
    "length txs1 = length us" "\<forall>i < length us. tx_phase (txs1 ! i) = TxDone \<or> tx_phase (txs1 ! i) = TxRefused"
    using serial_runs [of ?txs tid ms "length us"] by auto
  then show ?thesis by (auto simp: team_ok_def in_set_conv_nth)
qed

theorem serial_role_changes_keep_admin_witness:
  "1 \<le> team_admins ''t1'' (snd (tx_run ''t1'' (serial 2)
     ([new_tx ''a'' RoleMember, new_tx ''b'' RoleMember], members demo_org)))"
  using serial_role_changes_keep_admin [of "members demo_org" "''t1''" "[(''a'', RoleMember), (''b'', RoleMember)]"]
  by (simp add: org_demo_defs team_admins_def sql_count_def member_id_def numeral_eq_Suc)

end
