(* ===== verification/AccessProps.thy ===== *)
theory AccessProps
  imports TeamAccess AdminRace
begin

text \<open>
  Tokens and overrides: a token authenticates as what it was created for, and the ways in which a role
  or a scope outlives the decision that limited it.
\<close>

section \<open>Tokens\<close>

lemma now_of_tokens [simp]: "now (g\<lparr>tokens := ks\<rparr>) = now g" "now (g\<lparr>pmembers := ps\<rparr>) = now g"
  by (simp_all add: now_def sys_def)

lemma created_token:
  assumes "create_for_owner flt a owner nm sc sid ex g = (Inr (k, plain), h)"
  shows "tokens h = tokens g @ [k]" "users h = users g" "now h = now g"
    "tk_user k = owner" "tk_scope k = sc" "tk_scope_id k = null_str sid" "tk_hash k = a_sha256 a plain"
    "has_prefix plain ''syn_''" "token_live (now g) k" "sql_exists (\<lambda>u. us_id u = owner) (users g)"
    "\<not> sql_exists (\<lambda>x. tk_hash x = a_sha256 a plain) (tokens g)"
  using assms
  by (auto simp: create_for_owner_def generate_token_def token_live_def Let_def has_prefix_def
      split: if_splits option.splits)

lemma appended_row: "sql_row p xs = None \<Longrightarrow> p x \<Longrightarrow> sql_row p (xs @ [x]) = Some x"
  by (induction xs) (auto split: if_splits)

lemma created_token_authenticates:
  assumes "create_for_owner flt a owner nm sc sid ex g = (Inr (k, plain), h)"
  shows "\<exists>w h1. authenticate no_ofaults (a_sha256 a) verify plain h = (Some w, h1)
    \<and> pr_user w = owner \<and> pr_scope w = sc \<and> pr_scope_id w = sid"
proof -
  note c = created_token [OF assms]
  let ?hit = "\<lambda>x. tk_hash x = a_sha256 a plain \<and> token_live (now h) x \<and> sql_exists (\<lambda>u. us_id u = tk_user x) (users h)"
  have "sql_row ?hit (tokens g) = None" using c(11) by (auto simp: sql_row_None sql_exists_iff)
  moreover have "?hit k" using c by simp
  ultimately have hit: "sql_row ?hit (tokens h) = Some k" unfolding c(1) by (rule appended_row)
  obtain u where u: "sql_row (\<lambda>u. us_id u = tk_user k) (users h) = Some u"
    using c(2,4,10) by (auto simp: sql_row_exists)
  then have "us_id u = owner" using sql_row_SomeD [OF u] c(4) by simp
  then show ?thesis
    using c(5,6,8) hit u
    by (auto simp: authenticate_def Let_def fetch_def null_str_def split: if_splits)
qed

text \<open>
  A token that was just created, in any scope, authenticates as its owner with exactly that scope.
\<close>

theorem new_token_authenticates:
  assumes "create_for_owner flt a owner nm sc sid ex g = (Inr (k, plain), h)"
  shows "\<exists>w h1. authenticate no_ofaults (a_sha256 a) verify plain h = (Some w, h1)
    \<and> pr_user w = owner \<and> pr_scope w = sc \<and> pr_scope_id w = sid"
  by (rule created_token_authenticates [OF assms])

theorem new_token_authenticates_witness:
  "\<exists>w h1. authenticate no_ofaults (\<lambda>x. x) (\<lambda>_. None) ''syn_0''
       (snd (create_for_owner no_ofaults demo_api ''a'' ''ci'' ''team'' ''t1'' None demo_org)) = (Some w, h1)
     \<and> pr_user w = ''a'' \<and> pr_scope w = ''team'' \<and> pr_scope_id w = ''t1''"
proof -
  obtain k h where "create_for_owner no_ofaults demo_api ''a'' ''ci'' ''team'' ''t1'' None demo_org = (Inr (k, ''syn_0''), h)"
    by (simp add: create_for_owner_def generate_token_def org_demo_defs Let_def trim_space_def space_char_def sql
        token_scopes_def dec.simps digit_def)
  from new_token_authenticates [OF this, of "\<lambda>_. None"] this show ?thesis by (simp add: demo_api_def)
qed

text \<open>
  C33: POST /v1/create_personal_access_token does not look at the scope of its caller: a token of any
  scope (a single deployment's, or one that reaches nothing) mints a token that authenticates as the
  same user without a restriction.
\<close>

theorem scoped_token_escalates:
  assumes "create_token flt a who (Some b) g = (Answer 201 (k, plain), h)" and "cq_scope b = []"
  shows "\<exists>w h1. authenticate no_ofaults (a_sha256 a) verify plain h = (Some w, h1)
    \<and> pr_user w = pr_user who \<and> unscoped w"
proof -
  have "create_for_owner flt a (pr_user who) (cq_name b) ''user'' [] (cq_expires b) g = (Inr (k, plain), h)"
    using assms
    by (auto simp: create_token_def answer_token_def refuse_def Let_def split: if_splits prod.splits sum.splits)
  from created_token_authenticates [OF this, of verify] show ?thesis by (auto simp: unscoped_def)
qed

theorem scoped_token_escalates_witness:
  "\<exists>w h1. authenticate no_ofaults (\<lambda>x. x) (\<lambda>_. None) ''syn_0''
       (snd (create_token no_ofaults demo_api \<lparr>pr_user = ''a'', pr_email = [], pr_scope = ''deployment'', pr_scope_id = ''d9''\<rparr>
          (Some \<lparr>cq_name = ''x'', cq_scope = [], cq_scope_id = [], cq_expires = None\<rparr>) demo_org)) = (Some w, h1)
     \<and> pr_user w = ''a'' \<and> unscoped w"
proof -
  let ?w = "\<lparr>pr_user = ''a'', pr_email = [], pr_scope = ''deployment'', pr_scope_id = ''d9''\<rparr>"
  let ?b = "\<lparr>cq_name = ''x'', cq_scope = [], cq_scope_id = [], cq_expires = None\<rparr>"
  obtain k h where "create_token no_ofaults demo_api ?w (Some ?b) demo_org = (Answer 201 (k, ''syn_0''), h)"
    by (simp add: create_token_def answer_token_def create_for_owner_def generate_token_def org_demo_defs Let_def
        trim_space_def space_char_def sql token_scopes_def dec.simps digit_def)
  from scoped_token_escalates [OF this, of "\<lambda>_. None"] this show ?thesis by (simp add: demo_api_def)
qed

section \<open>Overrides\<close>

lemma role_of_override:
  assumes "sql_row (\<lambda>m. pm_project m = pid \<and> pm_user m = uid) (pmembers g) = Some m"
  shows "effective_project_role no_ofaults pid tid uid g = Row (pm_role m)"
  using assms by (simp add: effective_project_role_def fetch_def)

text \<open>
  RemoveMember deletes the membership and nothing else: somebody who has an override on a project of
  the team keeps its role there after the removal, while without an override the access is gone. The
  migration of project_members calls the team the security boundary.
\<close>

theorem removed_member_access:
  assumes "remove_member no_ofaults who ref (Some u) g = (Answer 200 uid, h)"
    and "load_team_for_request no_ofaults who ref g = Inr (t, r)"
  shows "effective_project_role no_ofaults pid (tm_id t) uid h =
    (case sql_row (\<lambda>m. pm_project m = pid \<and> pm_user m = uid) (pmembers g) of None \<Rightarrow> NoRows | Some m \<Rightarrow> Row (pm_role m))"
proof -
  have h: "members h = leave_team (tm_id t) uid (members g)" "pmembers h = pmembers g"
    using assms by (auto simp: remove_member_def Let_def split: if_splits fetched.splits)
  have "sql_row (\<lambda>m. mb_team m = tm_id t \<and> mb_user m = uid) (members h) = None"
    by (auto simp: h leave_team_def sql_row_None)
  then show ?thesis
    by (simp add: effective_project_role_def fetch_def h split: option.split)
qed

theorem removed_member_access_witness:
  "effective_project_role no_ofaults ''p1'' ''t1'' ''b''
     (snd (remove_member no_ofaults (as_user ''a'') ''acme'' (Some ''b'')
        (demo_org\<lparr>pmembers := [\<lparr>pm_project = ''p1'', pm_user = ''b'', pm_role = RoleAdmin, pm_created = 0\<rparr>]\<rparr>)))
   = Row RoleAdmin"
proof -
  let ?g = "demo_org\<lparr>pmembers := [\<lparr>pm_project = ''p1'', pm_user = ''b'', pm_role = RoleAdmin, pm_created = 0\<rparr>]\<rparr>"
  have t: "load_team_for_request no_ofaults (as_user ''a'') ''acme'' ?g = Inr (demo_team ''t1'' ''acme'' ''a'', RoleAdmin)"
    by (simp add: load_team_for_request_def resolve_team_def assert_member_def fetch_def org_demo_defs
        enforce_team_access_def unscoped_def)
  obtain h where "remove_member no_ofaults (as_user ''a'') ''acme'' (Some ''b'') ?g = (Answer 200 ''b'', h)"
    using t by (simp add: remove_member_def fetch_def org_demo_defs Let_def trim_space_def space_char_def
        team_admins_def sql_count_def)
  from removed_member_access [OF this t, of "''p1''"] this show ?thesis by (simp add: demo_team_def)
qed

text \<open>
  Removing one's own override needs no role on the project, so a member of the team whom an admin has
  made a viewer of a project gets the team role back by one request.
\<close>

theorem viewer_regains_team_role:
  assumes "load_project_for_request no_ofaults who ref g = Inr (p, t, RoleViewer)"
    and "sql_row (\<lambda>m. mb_team m = tm_id t \<and> mb_user m = pr_user who) (members g) = Some m"
    and "mb_role m \<noteq> RoleViewer" and "trim_space (pr_user who) = pr_user who"
  shows "effective_project_role no_ofaults (pj_id p) (tm_id t) (pr_user who)
    (snd (remove_project_member no_ofaults who ref (Some (pr_user who)) g)) = Row (mb_role m)"
proof -
  have l: "effective_project_role no_ofaults (pj_id p) (tm_id t) (pr_user who) g = Row RoleViewer" "pr_user who \<noteq> []"
    using assms(1) unfolding project_access_iff by blast+
  then have "sql_exists (\<lambda>m. pm_project m = pj_id p \<and> pm_user m = pr_user who) (pmembers g)"
    using assms(2,3) by (auto simp: effective_project_role_def fetch_def sql_row_exists split: option.splits)
  then have "0 < sql_count (\<lambda>m. pm_project m = pj_id p \<and> pm_user m = pr_user who) (pmembers g)" by (auto simp: sql)
  then have "members (snd (remove_project_member no_ofaults who ref (Some (pr_user who)) g)) = members g"
    "pmembers (snd (remove_project_member no_ofaults who ref (Some (pr_user who)) g))
       = filter (\<lambda>m. \<not> (pm_project m = pj_id p \<and> pm_user m = pr_user who)) (pmembers g)"
    using assms(1,4) l(2) by (simp_all add: remove_project_member_def Let_def)
  moreover have "sql_row (\<lambda>m. pm_project m = pj_id p \<and> pm_user m = pr_user who)
      (filter (\<lambda>m. \<not> (pm_project m = pj_id p \<and> pm_user m = pr_user who)) (pmembers g)) = None"
    by (auto simp: sql_row_None)
  ultimately show ?thesis using assms(2) by (simp add: effective_project_role_def fetch_def)
qed

theorem viewer_regains_team_role_witness:
  "effective_project_role no_ofaults ''p1'' ''t1'' ''b''
     (snd (remove_project_member no_ofaults (as_user ''b'') ''p1'' (Some ''b'')
        (demo_org\<lparr>pmembers := [\<lparr>pm_project = ''p1'', pm_user = ''b'', pm_role = RoleViewer, pm_created = 0\<rparr>]\<rparr>)))
   = Row RoleAdmin"
proof -
  let ?g = "demo_org\<lparr>pmembers := [\<lparr>pm_project = ''p1'', pm_user = ''b'', pm_role = RoleViewer, pm_created = 0\<rparr>]\<rparr>"
  have p: "load_project_for_request no_ofaults (as_user ''b'') ''p1'' ?g
      = Inr (demo_project ''p1'' ''t1'' ''web'', demo_team ''t1'' ''acme'' ''a'', RoleViewer)"
    by (simp add: load_project_for_request_def project_team_def effective_project_role_def fetch_def org_demo_defs
        enforce_project_access_def unscoped_def)
  have m: "sql_row (\<lambda>m. mb_team m = tm_id (demo_team ''t1'' ''acme'' ''a'') \<and> mb_user m = pr_user (as_user ''b'')) (members ?g)
      = Some (demo_member ''t1'' ''b'' RoleAdmin)"
    by (simp add: org_demo_defs)
  from viewer_regains_team_role [OF p m] show ?thesis
    by (simp add: demo_member_def demo_project_def demo_team_def as_user_def with_user_def trim_space_def space_char_def)
qed

section \<open>Operation runs\<close>

text \<open>
  The detail view of a run that belongs to a project refuses only when both role lookups come back
  empty: a lookup that fails, or a run whose team is not known, is served to every authenticated caller,
  and the scope of the token plays no part.
\<close>

theorem operation_run_fails_open:
  assumes "pr_user who \<noteq> []" and "sql_row (\<lambda>r. rd_run r = ref) rs = Some r" and "rd_project r = Some pid"
    and "\<not> flt ''load operation run''" and "flt ''project role'' \<or> rd_team r = Some []"
  shows "get_operation_run flt who ref rs g = Answer 200 r"
  using assms
  by (auto simp: get_operation_run_def fetch_def effective_project_role_def Let_def split: option.splits fetched.splits)

theorem operation_run_fails_open_witness:
  "get_operation_run (\<lambda>l. l = ''project role'') (as_user ''e'') ''r''
     [\<lparr>rd_run = ''r'', rd_type = [], rd_team = Some ''t1'', rd_project = Some ''p1'', rd_cell = None, rd_host = None,
       rd_input = [], rd_by = None, rd_result = None, rd_plan = None, rd_error = None\<rparr>] demo_org
   = Answer 200 \<lparr>rd_run = ''r'', rd_type = [], rd_team = Some ''t1'', rd_project = Some ''p1'', rd_cell = None,
       rd_host = None, rd_input = [], rd_by = None, rd_result = None, rd_plan = None, rd_error = None\<rparr>"
  using operation_run_fails_open [of "as_user ''e''" "''r''"
      "[\<lparr>rd_run = ''r'', rd_type = [], rd_team = Some ''t1'', rd_project = Some ''p1'', rd_cell = None, rd_host = None,
         rd_input = [], rd_by = None, rd_result = None, rd_plan = None, rd_error = None\<rparr>]" _ "''p1''"
      "\<lambda>l. l = ''project role''" demo_org]
  by (simp add: as_user_def with_user_def)

end
