(* ===== verification/ListingProps.thy ===== *)
theory ListingProps
  imports OrgSamples
begin

text \<open>
  A client that follows the cursors of a list endpoint: the pages it gets, put together, are all rows of
  the scope, each exactly once, in the order of the endpoint, and the walk ends.
\<close>

section \<open>The order of the rows\<close>

definition ordered :: "bool \<Rightarrow> ('r \<Rightarrow> int \<times> uuid) \<Rightarrow> 'r list \<Rightarrow> 'r list" where
  "ordered desc key rows = (if desc then rev (sort_key key rows) else sort_key key rows)"

definition before :: "bool \<Rightarrow> int \<times> uuid \<Rightarrow> int \<times> uuid \<Rightarrow> bool" where
  "before desc k k' \<longleftrightarrow> (if desc then k' < k else k < k')"

lemma set_ordered [simp]: "set (ordered desc key rows) = set rows"
  by (simp add: ordered_def)

lemma length_ordered [simp]: "length (ordered desc key rows) = length rows"
  by (simp add: ordered_def)

lemma ordered_filter: "ordered desc key (filter P rows) = filter P (ordered desc key rows)"
  by (simp add: ordered_def filter_sort [symmetric] rev_filter)

lemma before_irrefl [simp]: "\<not> before desc k k"
  by (simp add: before_def)

lemma before_asym: "before desc k k' \<Longrightarrow> \<not> before desc k' k"
  by (auto simp: before_def split: if_splits)

lemma ordered_wrt:
  assumes "distinct (map key rows)"
  shows "sorted_wrt (\<lambda>a b. before desc (key a) (key b)) (ordered desc key rows)"
proof -
  have "distinct (map key (sort_key key rows))"
    using assms by (metis distinct_map distinct_sort set_sort)
  moreover have "sorted (map key (sort_key key rows))" by simp
  ultimately have "sorted_wrt (<) (map key (sort_key key rows))" by (simp add: strict_sorted_iff)
  then have "sorted_wrt (\<lambda>a b. key a < key b) (sort_key key rows)" by (simp add: sorted_wrt_map)
  then show ?thesis
    by (cases desc) (simp_all add: ordered_def before_def sorted_wrt_rev)
qed

lemma page_alt:
  "page desc key after n rows =
     (let l = (case after of None \<Rightarrow> ordered desc key rows
               | Some k \<Rightarrow> filter (\<lambda>r. before desc k (key r)) (ordered desc key rows))
      in if n < length l then (take n l, Some (snd (key (l ! (n - 1))))) else (l, None))"
proof -
  have "page desc key after n rows =
     (let l = ordered desc key (case after of None \<Rightarrow> rows | Some k \<Rightarrow> filter (\<lambda>r. before desc k (key r)) rows)
      in if n < length l then (take n l, Some (snd (key (l ! (n - 1))))) else (l, None))"
    by (auto simp: page_def ordered_def before_def Let_def min_def nth_take split: option.split)
  then show ?thesis by (cases after) (simp_all only: ordered_filter option.case)
qed

lemma after_nth:
  assumes "sorted_wrt (\<lambda>a b. before desc (key a) (key b)) l" "m < length l"
  shows "filter (\<lambda>r. before desc (key (l ! m)) (key r)) l = drop (Suc m) l"
proof -
  have l: "l = take m l @ l ! m # drop (Suc m) l" using assms(2) by (rule id_take_nth_drop)
  have s: "sorted_wrt (\<lambda>a b. before desc (key a) (key b)) (take m l @ l ! m # drop (Suc m) l)"
    using assms(1) l by simp
  have "filter (\<lambda>r. before desc (key (l ! m)) (key r)) (take m l) = []"
    using s by (auto simp: filter_empty_conv sorted_wrt_append dest: before_asym)
  moreover have "filter (\<lambda>r. before desc (key (l ! m)) (key r)) (drop (Suc m) l) = drop (Suc m) l"
    using s by (simp add: sorted_wrt_append)
  ultimately show ?thesis using l by (metis (no_types, lifting) append_Nil before_irrefl filter.simps(2) filter_append)
qed

section \<open>The walk\<close>

fun walk :: "nat \<Rightarrow> (string \<Rightarrow> ('r list \<times> uuid option) resp) \<Rightarrow> string \<Rightarrow> 'r list option" where
  "walk 0 ep cursor = None"
| "walk (Suc fuel) ep cursor =
     (case ep cursor of
        Error _ _ \<Rightarrow> None
      | Answer _ (rows, None) \<Rightarrow> Some rows
      | Answer _ (rows, Some next) \<Rightarrow> map_option (\<lambda>rest. rows @ rest) (walk fuel ep next))"

definition well_keyed :: "('r \<Rightarrow> int \<times> uuid) \<Rightarrow> 'r list \<Rightarrow> bool" where
  "well_keyed key rows \<longleftrightarrow> distinct (map (\<lambda>r. snd (key r)) rows) \<and> (\<forall>r \<in> set rows. snd (key r) \<noteq> [])"

lemma well_keyed_keys: "well_keyed key rows \<Longrightarrow> distinct (map key rows)"
  unfolding well_keyed_def distinct_map inj_on_def by metis

lemma walk_from:
  assumes "well_keyed key cursors" "set rows \<subseteq> set cursors" "distinct (map key rows)" "0 < n"
    and "m < length rows" "length rows - Suc m < fuel"
  shows "walk fuel (list_page no_ofaults site desc key cursors rows (int n)) (snd (key (ordered desc key rows ! m)))
    = Some (drop (Suc m) (ordered desc key rows))"
  using assms(5,6)
proof (induction fuel arbitrary: m)
  case (Suc fuel)
  let ?l = "ordered desc key rows"
  let ?c = "?l ! m"
  have c: "?c \<in> set cursors"
    using Suc.prems(1) assms(2) nth_mem [of m ?l] by auto
  then have row: "sql_row (\<lambda>r. snd (key r) = snd (key ?c)) cursors = Some ?c" and ne: "snd (key ?c) \<noteq> []"
    using assms(1) sql_row_key [of "\<lambda>r. snd (key r)" cursors ?c] by (auto simp: well_keyed_def)
  have rest: "filter (\<lambda>r. before desc (key ?c) (key r)) ?l = drop (Suc m) ?l"
    using after_nth [OF ordered_wrt [OF assms(3)], where m = m] Suc.prems(1) by simp
  have ans: "list_page no_ofaults site desc key cursors rows (int n) (snd (key ?c)) =
      Answer 200 (if n < length rows - Suc m then (take n (drop (Suc m) ?l), Some (snd (key (?l ! (m + n)))))
                  else (drop (Suc m) ?l, None))"
    using ne row assms(4) unfolding list_page_def page_alt Let_def fetch_def by (simp add: rest)
  show ?case
  proof (cases "n < length rows - Suc m")
    case False
    then show ?thesis unfolding walk.simps ans by simp
  next
    case True
    with Suc.prems assms(4) have "walk fuel (list_page no_ofaults site desc key cursors rows (int n)) (snd (key (?l ! (m + n))))
        = Some (drop (Suc (m + n)) ?l)"
      by (intro Suc.IH) linarith+
    moreover have "take n (drop (Suc m) ?l) @ drop (Suc (m + n)) ?l = drop (Suc m) ?l"
      by (metis add_Suc append_take_drop_id drop_drop add.commute)
    ultimately show ?thesis using True unfolding walk.simps ans by simp
  qed
qed simp

lemma walk_all:
  assumes "well_keyed key cursors" "set rows \<subseteq> set cursors" "distinct (map key rows)" "0 < n"
  shows "walk (Suc (length rows)) (list_page no_ofaults site desc key cursors rows (int n)) []
    = Some (ordered desc key rows)"
proof (cases "n < length rows")
  case False
  then show ?thesis by (simp add: list_page_def page_alt Let_def)
next
  case True
  let ?l = "ordered desc key rows"
  have "walk (length rows) (list_page no_ofaults site desc key cursors rows (int n)) (snd (key (?l ! (n - 1))))
      = Some (drop (Suc (n - 1)) ?l)"
    using True assms(4) by (intro walk_from [OF assms]) auto
  then show ?thesis using True assms(4) by (simp add: list_page_def page_alt Let_def)
qed

lemma page_cursor:
  assumes "page desc key after n rows = (got, Some c)" "0 < n"
  shows "\<exists>r \<in> set rows. snd (key r) = c"
proof -
  define l where "l = (case after of None \<Rightarrow> ordered desc key rows
     | Some k \<Rightarrow> filter (\<lambda>r. before desc k (key r)) (ordered desc key rows))"
  have "page desc key after n rows = (if n < length l then (take n l, Some (snd (key (l ! (n - 1))))) else (l, None))"
    by (simp add: page_alt l_def Let_def)
  with assms(1) have "n < length l" "c = snd (key (l ! (n - 1)))" by (auto split: if_splits)
  moreover have "set l \<subseteq> set rows" by (auto simp: l_def split: option.split)
  ultimately show ?thesis using assms(2) by (metis less_imp_diff_less nth_mem subsetD)
qed

lemma walk_guarded:
  assumes "\<And>c. P c \<Longrightarrow> e1 c = e2 c" and "\<And>c k rows next. e2 c = Answer k (rows, Some next) \<Longrightarrow> P next" and "P c"
  shows "walk fuel e1 c = walk fuel e2 c"
  using assms(3)
proof (induction fuel arbitrary: c)
  case (Suc fuel)
  with assms(1,2) show ?case by (auto split: resp.split option.split)
qed simp

lemma parse_list_limit_bounds: "parse_list_limit s = Some n \<Longrightarrow> 1 \<le> n \<and> n \<le> 500"
  "parse_token_list_limit s = Some n \<Longrightarrow> 1 \<le> n \<and> n \<le> 200"
  by (auto simp: parse_list_limit_def parse_token_list_limit_def clamp_limit_def split: if_splits option.splits)

text \<open>
  C36: Following the cursors of GET /v1/teams/{ref}/list_projects with any accepted limit ends after at
  most one request more than there are projects, and yields all projects of the team, each once, oldest
  first; an accepted limit lies between 1 and 500.
\<close>

theorem list_projects_walk:
  assumes "load_team_for_request no_ofaults who ref g = Inr (t, r)" and "parse_list_limit limit = Some n"
    and "well_keyed project_key (projects g)"
  shows "walk (Suc (length (filter (\<lambda>p. pj_team p = tm_id t) (projects g))))
      (\<lambda>cursor. list_projects no_ofaults who ref limit cursor g) []
    = Some (sort_key project_key (filter (\<lambda>p. pj_team p = tm_id t) (projects g)))
    \<and> 1 \<le> n \<and> n \<le> 500"
proof -
  let ?rows = "filter (\<lambda>p. pj_team p = tm_id t) (projects g)"
  have n: "1 \<le> n" "n \<le> 500" using parse_list_limit_bounds(1) [OF assms(2)] by auto
  have "well_keyed project_key ?rows"
    using assms(3) by (auto simp: well_keyed_def distinct_map_filter)
  from walk_all [OF this subset_refl well_keyed_keys [OF this], of "nat n" "''projects''" False] n
  show ?thesis
    by (simp add: list_projects_def assms with_limit_def ordered_def Let_def)
qed

theorem list_projects_walk_witness:
  "walk 2 (\<lambda>cursor. list_projects no_ofaults (as_user ''a'') ''acme'' ''1'' cursor demo_org) []
     = Some [demo_project ''p1'' ''t1'' ''web'']"
proof -
  have t: "load_team_for_request no_ofaults (as_user ''a'') ''acme'' demo_org = Inr (demo_team ''t1'' ''acme'' ''a'', RoleAdmin)"
    by (simp add: load_team_for_request_def resolve_team_def assert_member_def fetch_def org_demo_defs
        enforce_team_access_def unscoped_def)
  have l: "parse_list_limit ''1'' = Some 1"
    by (simp add: parse_list_limit_def clamp_limit_def atoi_def undec_def digit_val_def digit_char_def)
  from list_projects_walk [OF t l] show ?thesis
    by (simp add: well_keyed_def org_demo_defs project_key_def numeral_eq_Suc)
qed

text \<open>
  The same for the caller's access tokens, newest first, whatever scope the endpoint filters by: the
  cursor is looked up among all tokens of the owner.
\<close>

theorem list_tokens_walk:
  assumes "parse_token_list_limit limit = Some n" and "well_keyed token_key (tokens g)"
    and "\<And>k. k \<in> set (tokens g) \<Longrightarrow> is_uuid (tk_id k)"
  shows "walk (Suc (length (owner_tokens uid scope sid g)))
      (\<lambda>cursor. list_for_owner no_ofaults is_uuid uid scope sid n cursor g) []
    = Some (rev (sort_key token_key (owner_tokens uid scope sid g)))"
proof -
  have "well_keyed token_key (owner_tokens uid [] [] g)" "distinct (map token_key (owner_tokens uid scope sid g))"
    using assms(2) well_keyed_keys [OF assms(2)]
    by (auto simp: well_keyed_def owner_tokens_def distinct_map_filter)
  moreover have "set (owner_tokens uid scope sid g) \<subseteq> set (owner_tokens uid [] [] g)" by (auto simp: owner_tokens_def)
  moreover have n: "1 \<le> n" using parse_list_limit_bounds(2) [OF assms(1)] by simp
  ultimately have w: "walk (Suc (length (owner_tokens uid scope sid g)))
      (list_page no_ofaults ''access tokens'' True token_key (owner_tokens uid [] [] g) (owner_tokens uid scope sid g) n) []
    = Some (rev (sort_key token_key (owner_tokens uid scope sid g)))"
    using walk_all [of token_key "owner_tokens uid [] [] g" "owner_tokens uid scope sid g" "nat n"
        "''access tokens''" True] by (simp add: ordered_def)
  have "walk fuel (\<lambda>cursor. list_for_owner no_ofaults is_uuid uid scope sid n cursor g) []
    = walk fuel (list_page no_ofaults ''access tokens'' True token_key (owner_tokens uid [] [] g) (owner_tokens uid scope sid g) n) []"
    for fuel
  proof (rule walk_guarded [where P = "\<lambda>c. c = [] \<or> is_uuid c"])
    fix c k rows nxt
    assume "list_page no_ofaults ''access tokens'' True token_key (owner_tokens uid [] [] g)
        (owner_tokens uid scope sid g) n c = Answer k (rows, Some nxt)"
    then obtain after where "page True token_key after (nat n) (owner_tokens uid scope sid g) = (rows, Some nxt)"
      by (auto simp: list_page_def split: if_splits fetched.splits)
    from page_cursor [OF this] n obtain x where "x \<in> set (owner_tokens uid scope sid g)" "tk_id x = nxt"
      by (auto simp: token_key_def)
    with assms(3) [of x] show "nxt = [] \<or> is_uuid nxt" by (auto simp: owner_tokens_def)
  qed (auto simp: list_for_owner_def)
  with w show ?thesis by simp
qed

definition demo_token :: "string \<Rightarrow> int \<Rightarrow> token" where
  "demo_token i t = \<lparr>tk_id = i, tk_user = ''a'', tk_name = i, tk_hash = i, tk_scope = ''user'', tk_scope_id = None,
     tk_created = t, tk_expires = None, tk_used = None\<rparr>"

theorem list_tokens_walk_witness:
  "walk 3 (\<lambda>cursor. list_for_owner no_ofaults (\<lambda>_. True) ''a'' [] [] 1 cursor
        (demo_org\<lparr>tokens := [demo_token ''k1'' 1, demo_token ''k2'' 2]\<rparr>)) []
     = Some [demo_token ''k2'' 2, demo_token ''k1'' 1]"
proof -
  let ?g = "demo_org\<lparr>tokens := [demo_token ''k1'' 1, demo_token ''k2'' 2]\<rparr>"
  have l: "parse_token_list_limit ''1'' = Some 1"
    by (simp add: parse_token_list_limit_def clamp_limit_def atoi_def undec_def digit_val_def digit_char_def)
  have k: "well_keyed token_key (tokens ?g)" by (simp add: well_keyed_def demo_token_def token_key_def)
  from list_tokens_walk [OF l k, of "\<lambda>_. True" "''a''" "[]" "[]"] show ?thesis
    by (simp add: owner_tokens_def demo_token_def token_key_def numeral_eq_Suc)
qed

end
