(* ===== verification/NamingProps.thy ===== *)
theory NamingProps
  imports Naming
begin

text \<open>
  What the names promise: decoding undoes encoding, a slug has the shape the update endpoint accepts as
  long as the name is ASCII, an allocated slug was free when it was looked up, and generated names are
  DNS labels.
\<close>

section \<open>UTF-8\<close>

definition scalar :: "nat \<Rightarrow> bool" where
  "scalar r \<longleftrightarrow> r \<le> 1114111 \<and> \<not> (55296 \<le> r \<and> r < 57344)"

lemma code_byte [simp]: "n < 256 \<Longrightarrow> code (byte n) = n"
  by (simp add: code_def byte_def)

lemma two_bytes: "r div 64 * 64 + r mod 64 = (r :: nat)"
  by (rule div_mult_mod_eq)

lemma three_bytes: "r div 4096 * 4096 + r div 64 mod 64 * 64 + r mod 64 = (r :: nat)"
proof -
  have join: "q * 64 + y = x \<Longrightarrow> x * 64 + z = r \<Longrightarrow> q * 4096 + y * 64 + z = (r :: nat)" for q x y z by simp
  have "r div 4096 = r div 64 div 64" by (simp add: div_mult2_eq [symmetric])
  then show ?thesis using join [OF two_bytes [of "r div 64"] two_bytes [of r]] by simp
qed

lemma four_bytes: "r div 262144 * 262144 + r div 4096 mod 64 * 4096 + r div 64 mod 64 * 64 + r mod 64 = (r :: nat)"
proof -
  have join: "q * 64 + y = x \<Longrightarrow> x * 4096 + z = r \<Longrightarrow> q * 262144 + y * 4096 + z = (r :: nat)" for q x y z by simp
  have "r div 262144 = r div 4096 div 64" by (simp add: div_mult2_eq [symmetric])
  moreover have "r div 4096 * 4096 + (r div 64 mod 64 * 64 + r mod 64) = r" using three_bytes [of r] by simp
  from join [OF two_bytes [of "r div 4096"] this] have
    "r div 4096 div 64 * 262144 + r div 4096 mod 64 * 4096 + r div 64 mod 64 * 64 + r mod 64 = r" by simp
  ultimately show ?thesis by simp
qed

lemma decode_encode_rune:
  assumes "scalar r"
  shows "decode_rune (map code (encode_rune r) @ rest) = (r, length (encode_rune r))"
proof -
  consider "r < 128" | "128 \<le> r" "r < 2048" | "2048 \<le> r" "r < 65536" | "65536 \<le> r" "r \<le> 1114111"
    using assms by atomize_elim (auto simp: scalar_def)
  then show ?thesis
  proof cases
    case 1
    then show ?thesis by (simp add: encode_rune_def decode_rune_def)
  next
    case 2
    define x where "x = r div 64"
    have "2 \<le> x" "x < 32" "x * 64 + r mod 64 = r" using 2 two_bytes [of r] by (auto simp: x_def)
    then show ?thesis using 2
      by (simp add: encode_rune_def decode_rune_def cont_def x_def [symmetric])
  next
    case 3
    have b: "r div 4096 < 16" using 3 by auto
    show ?thesis using 3 b assms three_bytes [of r]
      by (simp add: encode_rune_def decode_rune_def cont_def scalar_def Let_def)
  next
    case 4
    have b: "r div 262144 < 5" using 4 by auto
    show ?thesis using 4 b four_bytes [of r]
      by (simp add: encode_rune_def decode_rune_def cont_def Let_def)
  qed
qed

lemma encode_rune_nonempty [simp]: "encode_rune r \<noteq> []"
  by (simp add: encode_rune_def)

text \<open>
  Decoding the UTF-8 text of any sequence of Unicode scalar values gives the sequence back, so what
  slugify writes for the letters it keeps reads back as these letters; and text written rune by rune is
  accepted by Postgres.
\<close>

theorem runes_encode_runes:
  assumes "\<forall>r \<in> set rs. scalar r"
  shows "runes (encode_runes rs) = rs \<and> valid_utf8 (encode_runes rs)"
proof -
  have "runes (encode_runes rs) = rs"
    using assms
  proof (induction rs)
    case Nil
    then show ?case by (simp add: runes_def encode_runes_def decode_bytes.simps)
  next
    case (Cons r rs)
    have "runes (encode_runes (r # rs)) = decode_bytes (map code (encode_rune r) @ map code (encode_runes rs))"
      by (simp add: runes_def encode_runes_def)
    also have "\<dots> = r # decode_bytes (map code (encode_runes rs))"
      using Cons.prems decode_encode_rune [of r "map code (encode_runes rs)"]
      by (subst decode_bytes.simps) simp
    finally show ?case using Cons by (simp add: runes_def)
  qed
  then show ?thesis by (simp add: valid_utf8_def)
qed

theorem runes_encode_runes_witness: "runes (encode_runes [97, 233, 8364, 128512]) = [97, 233, 8364, 128512]"
  using runes_encode_runes [of "[97, 233, 8364, 128512]"] by (simp add: scalar_def)

section \<open>Slugs\<close>

definition slug_char :: "char \<Rightarrow> bool" where
  "slug_char c \<longleftrightarrow> 97 \<le> code c \<and> code c \<le> 122 \<or> 48 \<le> code c \<and> code c \<le> 57 \<or> c = CHR ''-''"

lemma slug_char_consts [simp]: "slug_char (CHR ''-'')" "slug_char (CHR ''x'')"
  by (simp_all add: slug_char_def code_def)

lemma valid_slug_alt: "is_valid_slug s \<longleftrightarrow> s \<noteq> [] \<and> (\<forall>c \<in> set s. slug_char c)"
  by (auto simp: is_valid_slug_def slug_char_def list_all_iff)

definition ascii_letter :: "unicode \<Rightarrow> nat \<Rightarrow> bool" where
  "ascii_letter u r \<longleftrightarrow> (uc_letter u r \<or> uc_digit u r \<longrightarrow> 97 \<le> r \<and> r \<le> 122 \<or> 48 \<le> r \<and> r \<le> 57)"

lemma slug_loop_chars:
  assumes "\<forall>r \<in> set rs. ascii_letter u r" "\<forall>c \<in> set b. slug_char c"
  shows "\<forall>c \<in> set (slug_loop u rs p b). slug_char c"
  using assms
proof (induction rs arbitrary: p b)
  case (Cons r rs)
  have "\<forall>c \<in> set (encode_rune r). slug_char c" if "uc_letter u r \<or> uc_digit u r"
    using Cons.prems(1) that by (auto simp: ascii_letter_def encode_rune_def slug_char_def)
  then have "\<forall>c \<in> set (b @ encode_rune r). slug_char c" if "uc_letter u r \<or> uc_digit u r"
    using Cons.prems(2) that by auto
  moreover have "\<forall>c \<in> set (b @ ''-''). slug_char c" using Cons.prems(2) by auto
  moreover have "\<forall>r \<in> set rs. ascii_letter u r" using Cons.prems(1) by simp
  ultimately have step: "uc_letter u r \<or> uc_digit u r \<Longrightarrow> \<forall>c \<in> set (slug_loop u rs q (b @ encode_rune r)). slug_char c"
    "\<forall>c \<in> set (slug_loop u rs q (b @ ''-'')). slug_char c" "\<forall>c \<in> set (slug_loop u rs q b). slug_char c" for q
    using Cons.IH Cons.prems(2) by blast+
  show ?case
  proof (cases "uc_letter u r \<or> uc_digit u r")
    case True
    then show ?thesis using step(1) [OF True] by (simp only: slug_loop.simps if_True)
  next
    case False
    then show ?thesis using step(2,3) by (simp only: slug_loop.simps if_False split: if_split) blast
  qed
qed simp

lemma trim_dashes_subset: "set (trim_dashes s) \<subseteq> set s"
  unfolding trim_dashes_def by (auto dest!: set_dropWhileD)

text \<open>
  The slug of a name is never longer than 60 bytes and never empty; when every letter and digit of
  the lowered name is an ASCII one it is exactly of the shape updateTeam and updateProject accept
  (otherwise it is not: see \<open>accented_slug_rejected\<close>). The allocator hands out the first candidate that
  was free when it was looked up, within 50 lookups.
\<close>

theorem allocated_slug:
  assumes "allocate_slug u rnd taken name = Inr s" and "sr_base rnd \<noteq> []" and "\<forall>c \<in> set (sr_base rnd). slug_char c"
    and "\<And>i. (\<forall>c \<in> set (sr_suffix rnd i). slug_char c) \<and> length (sr_suffix rnd i) = 4"
  shows "taken s = Some False
    \<and> (\<exists>i < 50. s = slug_candidate rnd (slugify u (sr_base rnd) name) i
         \<and> (\<forall>j < i. taken (slug_candidate rnd (slugify u (sr_base rnd) name) j) = Some True))
    \<and> s \<noteq> [] \<and> length s \<le> 60
    \<and> ((\<forall>r \<in> set (runes name). ascii_letter u (uc_lower u r)) \<longrightarrow> is_valid_slug s)"
proof -
  let ?b = "slugify u (sr_base rnd) name"
  have found: "taken c = Some False \<and> (\<exists>k < n. c = cand (i + k) \<and> (\<forall>j < k. taken (cand (i + j)) = Some True))"
    if "first_free msg cand taken i n = Inr c" for msg cand i n c
    using that
  proof (induction n arbitrary: i)
    case (Suc n)
    show ?case
    proof (cases "taken (cand i) = Some True")
      case True
      with Suc.prems have "first_free msg cand taken (Suc i) n = Inr c" by simp
      from Suc.IH [OF this] obtain k where k: "taken c = Some False" "k < n" "c = cand (Suc i + k)"
        "\<forall>j < k. taken (cand (Suc i + j)) = Some True" by blast
      have "\<forall>j < Suc k. taken (cand (i + j)) = Some True"
        using k(4) True by (auto simp: less_Suc_eq_0_disj)
      with k show ?thesis by (auto intro!: exI [of _ "Suc k"])
    next
      case False
      with Suc.prems show ?thesis by (auto split: option.splits bool.splits intro!: exI [of _ 0])
    qed
  qed simp
  from found [OF assms(1) [unfolded allocate_slug_def Let_def]]
  obtain i where i: "taken s = Some False" "i < 50" "s = slug_candidate rnd ?b i"
    "\<forall>j < i. taken (slug_candidate rnd ?b j) = Some True" by auto
  have base: "?b \<noteq> [] \<and> length ?b \<le> 60" by (auto simp: slugify_def Let_def)
  have digit: "itoa (int i) = [byte (48 + i)]" if "i < 8" "i \<noteq> 0"
    using that by (simp add: itoa_def itoa_digits.simps)
  have len: "s \<noteq> [] \<and> length s \<le> 60"
    using base digit assms(4) [of i]
    by (auto simp: i(3) slug_candidate_def with_suffix_def with_random_suffix_def min_def)
  have "is_valid_slug s" if ascii: "\<forall>r \<in> set (runes name). ascii_letter u (uc_lower u r)"
  proof -
    have "\<forall>c \<in> set (slug_loop u (map (uc_lower u) (runes name)) False []). slug_char c"
      using ascii by (intro slug_loop_chars) auto
    then have "\<forall>c \<in> set (trim_dashes (slug_loop u (map (uc_lower u) (runes name)) False [])). slug_char c"
      using trim_dashes_subset by blast
    then have "\<forall>c \<in> set ?b. slug_char c"
      using assms(3) by (auto simp: slugify_def Let_def dest!: in_set_takeD)
    moreover have "\<forall>c \<in> set (itoa (int i)). slug_char c" if "i < 8" "i \<noteq> 0"
      using digit [OF that] that by (auto simp: slug_char_def)
    ultimately have "\<forall>c \<in> set s. slug_char c"
      using assms(4) [of i]
      by (auto simp: i(3) slug_candidate_def with_suffix_def with_random_suffix_def
          dest!: in_set_takeD)
    with len show ?thesis by (simp add: valid_slug_alt)
  qed
  with i len show ?thesis by blast
qed

definition demo_unicode :: unicode where
  "demo_unicode = \<lparr>uc_letter = (\<lambda>r. 97 \<le> r \<and> r \<le> 122 \<or> r = 233), uc_digit = (\<lambda>r. 48 \<le> r \<and> r \<le> 57), uc_lower = (\<lambda>r. r)\<rparr>"

definition demo_slugs :: slug_random where
  "demo_slugs = \<lparr>sr_base = ''ab12'', sr_suffix = (\<lambda>_. ''cd34'')\<rparr>"

lemma runes_Nil [simp]: "runes [] = []"
  by (simp add: runes_def decode_bytes.simps)

lemma runes_ascii [simp]: "code c < 128 \<Longrightarrow> runes (c # s) = code c # runes s"
  unfolding runes_def by (subst decode_bytes.simps) (simp add: decode_rune_def)

lemma first_free_pos: "0 < n \<Longrightarrow> first_free msg cand taken i n =
    (case taken (cand i) of None \<Rightarrow> Inl ''query failed'' | Some True \<Rightarrow> first_free msg cand taken (Suc i) (n - 1)
     | Some False \<Rightarrow> Inr (cand i))"
  by (cases n) (simp_all split: option.split bool.split)

lemma byte_eq [simp]: "byte n = c \<longleftrightarrow> n mod 256 = code c" "c = byte n \<longleftrightarrow> code c = n mod 256"
proof -
  show "byte n = c \<longleftrightarrow> n mod 256 = code c" by (simp add: byte_def code_def char_of_eq_iff take_bit_eq_mod)
  then show "c = byte n \<longleftrightarrow> code c = n mod 256" by metis
qed

lemma encode_ascii: "r < 128 \<Longrightarrow> encode_rune r = [byte r]"
  by (simp add: encode_rune_def)

lemma demo_slug: "allocate_slug demo_unicode demo_slugs (\<lambda>c. Some (c = ''my-app'')) ''my app'' = Inr ''my-app-1''"
proof -
  have "map (uc_lower demo_unicode) (runes ''my app'') = [109, 121, 32, 97, 112, 112]"
    by (simp add: demo_unicode_def code_def)
  then have "slug_loop demo_unicode (map (uc_lower demo_unicode) (runes ''my app'')) False [] = ''my-app''"
    by (simp add: demo_unicode_def encode_ascii code_def)
  then have "slugify demo_unicode ''ab12'' ''my app'' = ''my-app''" by (simp add: slugify_def trim_dashes_def)
  then show ?thesis
    by (simp add: allocate_slug_def demo_slugs_def first_free_pos slug_candidate_def with_suffix_def
        itoa_def itoa_digits.simps code_def)
qed

theorem allocated_slug_witness: "is_valid_slug ''my-app-1'' \<and> length ''my-app-1'' \<le> 60"
proof -
  have r: "\<forall>r \<in> set (runes ''my app''). ascii_letter demo_unicode (uc_lower demo_unicode r)"
    by (simp add: code_def ascii_letter_def demo_unicode_def)
  have "\<forall>c \<in> set (sr_base demo_slugs). slug_char c"
    "\<And>i. (\<forall>c \<in> set (sr_suffix demo_slugs i). slug_char c) \<and> length (sr_suffix demo_slugs i) = 4"
    by (simp_all add: demo_slugs_def slug_char_def code_def)
  from allocated_slug [OF demo_slug _ this] r show ?thesis by (simp add: demo_slugs_def)
qed

text \<open>The comment on \<open>isValidSlug\<close> says it accepts what slugify produces; for a name like this it does not.\<close>

lemma accented_slug_rejected:
  "allocate_slug demo_unicode demo_slugs (\<lambda>_. Some False) (encode_rune 233) = Inr (encode_rune 233)
    \<and> \<not> is_valid_slug (encode_rune 233)"
proof -
  have "runes (encode_rune 233) = [233]"
    using decode_encode_rune [of 233 "[]"] unfolding runes_def
    by (subst decode_bytes.simps) (simp add: scalar_def decode_bytes.simps)
  then have "slug_loop demo_unicode (map (uc_lower demo_unicode) (runes (encode_rune 233))) False [] = encode_rune 233"
    by (simp add: demo_unicode_def)
  moreover have e: "encode_rune 233 = [byte 195, byte 169]" by (simp add: encode_rune_def)
  ultimately have "slugify demo_unicode ''ab12'' (encode_rune 233) = encode_rune 233"
    by (simp add: slugify_def trim_dashes_def code_def e)
  then show ?thesis
    by (simp add: allocate_slug_def demo_slugs_def first_free_pos slug_candidate_def e is_valid_slug_def)
qed

end
