(* ===== verification/AccountProps.thy ===== *)
theory AccountProps
  imports OrgSamples
begin

text \<open>
  Password resets are single use and end the sessions they should end; the environment endpoint
  implements updates of one map per project.
\<close>

section \<open>Password reset\<close>

lemma now_of_resets [simp]: "now (g\<lparr>users := us, resets := rs\<rparr>) = now g"
  by (simp add: now_def sys_def)


definition demo_reset :: org where
  "demo_reset = demo_org\<lparr>resets := [\<lparr>rt_id = ''r1'', rt_user = ''a'', rt_hash = ''tok'', rt_expires = 10, rt_used = None\<rparr>,
     \<lparr>rt_id = ''r2'', rt_user = ''a'', rt_hash = ''old'', rt_expires = 10, rt_used = None\<rparr>]\<rparr>"


section \<open>Environment variables\<close>

text \<open>The map a project's rows stand for, and what one change does to it.\<close>

type_synonym env_map = "string \<times> string \<Rightarrow> string option"   \<comment> \<open>name and type\<close>

definition env_of :: "uuid \<Rightarrow> env_var list \<Rightarrow> env_map" where
  "env_of pid es = (\<lambda>(n, t). map_option e_value (sql_row (\<lambda>e. e_project e = pid \<and> e_name e = n \<and> e_type e = t) es))"

definition env_types :: "env_change \<Rightarrow> string list" where
  "env_types c = (if ev_types c = [] then [''dev'', ''prod'', ''preview''] else map trim_space (ev_types c))"

definition env_step :: "env_change \<Rightarrow> env_map \<Rightarrow> env_map" where
  "env_step c m = (\<lambda>(n, t).
     if n \<noteq> trim_space (ev_name c) then m (n, t)
     else if ev_op c = ''set'' then (if t \<in> set (env_types c) then Some (ev_value c) else m (n, t))
     else if ev_types c = [] \<or> t \<in> set (ev_types c) then None else m (n, t))"

definition other_rows :: "uuid \<Rightarrow> env_var list \<Rightarrow> env_var list" where
  "other_rows pid es = filter (\<lambda>e. e_project e \<noteq> pid) es"

lemma env_of_set:
  "env_of pid (set_env pid typ nm v es) = (env_of pid es)((nm, typ) \<mapsto> v)"
  "other_rows pid (set_env pid typ nm v es) = other_rows pid es"
proof -
  let ?hit = "\<lambda>e. e_project e = pid \<and> e_name e = nm \<and> e_type e = typ"
  have up: "env_of pid (sql_update ?hit (\<lambda>e. e\<lparr>e_value := v\<rparr>) es) (n, t) =
      (if n = nm \<and> t = typ then map_option (\<lambda>_. v) (env_of pid es (n, t)) else env_of pid es (n, t))" for n t
    by (induction es) (auto simp: env_of_def)
  have app: "env_of pid (es @ [\<lparr>e_project = pid, e_type = typ, e_name = nm, e_value = v\<rparr>]) (n, t) =
      (case env_of pid es (n, t) of Some x \<Rightarrow> Some x | None \<Rightarrow> if n = nm \<and> t = typ then Some v else None)" for n t
    by (auto simp: env_of_def sql_row_append split: option.split)
  have ex: "sql_exists ?hit es \<longleftrightarrow> env_of pid es (nm, typ) \<noteq> None" by (simp add: env_of_def sql_row_exists)
  show "env_of pid (set_env pid typ nm v es) = (env_of pid es)((nm, typ) \<mapsto> v)"
  proof (rule ext)
    fix x show "env_of pid (set_env pid typ nm v es) x = ((env_of pid es)((nm, typ) \<mapsto> v)) x"
      by (cases x; cases "sql_exists ?hit es") (auto simp: set_env_def ex up app split: option.split)
  qed
  have "other_rows pid (sql_update ?hit (\<lambda>e. e\<lparr>e_value := v\<rparr>) es) = other_rows pid es"
    by (induction es) (auto simp: other_rows_def)
  then show "other_rows pid (set_env pid typ nm v es) = other_rows pid es"
    by (auto simp: set_env_def other_rows_def Let_def)
qed

lemma env_of_types:
  assumes "set_env_types flt pid nm v ts es = Inr es1"
  shows "env_of pid es1 = (\<lambda>(n, t). if n = nm \<and> t \<in> set (map trim_space ts) then Some v else env_of pid es (n, t))
    \<and> other_rows pid es1 = other_rows pid es"
  using assms
proof (induction ts arbitrary: es)
  case (Cons t ts)
  then have "set_env_types flt pid nm v ts (set_env pid (trim_space t) nm v es) = Inr es1"
    by (auto simp: Let_def split: if_splits)
  from Cons.IH [OF this] show ?case by (auto simp: env_of_set fun_eq_iff)
qed (auto simp: fun_eq_iff)

lemma env_of_delete:
  "env_of pid (delete_env pid nm ts es) = (\<lambda>(n, t). if n = nm \<and> (ts = [] \<or> t \<in> set ts) then None else env_of pid es (n, t))"
  "other_rows pid (delete_env pid nm ts es) = other_rows pid es"
proof -
  have "env_of pid (delete_env pid nm ts es) (n, t) = (if n = nm \<and> (ts = [] \<or> t \<in> set ts) then None else env_of pid es (n, t))" for n t
    by (induction es) (auto simp: env_of_def delete_env_def)
  then show "env_of pid (delete_env pid nm ts es) = (\<lambda>(n, t). if n = nm \<and> (ts = [] \<or> t \<in> set ts) then None else env_of pid es (n, t))"
    by (auto simp: fun_eq_iff)
  show "other_rows pid (delete_env pid nm ts es) = other_rows pid es"
    by (induction es) (auto simp: other_rows_def delete_env_def)
qed

lemma trim_standard_types: "map trim_space [''dev'', ''prod'', ''preview''] = [''dev'', ''prod'', ''preview'']"
  by (simp add: trim_space_def space_char_def)

text \<open>
  C35: Each accepted change list is, for the project, the composition of its changes on the map from name
  and type to value, and it leaves the rows of every other project alone. (The map shows that a delete
  compares the types as sent while a set trims them.)
\<close>

theorem env_changes_refine:
  assumes "apply_env_changes flt pid cs es = Inr es1"
  shows "env_of pid es1 = fold env_step cs (env_of pid es) \<and> other_rows pid es1 = other_rows pid es"
  using assms
proof (induction cs arbitrary: es)
  case (Cons c cs)
  show ?case
  proof (cases "ev_op c = ''set''")
    case True
    let ?ts = "if ev_types c = [] then [''dev'', ''prod'', ''preview''] else ev_types c"
    obtain e1 where e: "set_env_types flt pid (trim_space (ev_name c)) (ev_value c) ?ts es = Inr e1"
      "apply_env_changes flt pid cs e1 = Inr es1"
      using Cons.prems True by (auto simp: Let_def split: if_splits sum.splits)
    have "set (map trim_space ?ts) = set (env_types c)" using trim_standard_types by (auto simp: env_types_def)
    with env_of_types [OF e(1)] True have "env_of pid e1 = env_step c (env_of pid es)"
      by (auto simp: env_step_def fun_eq_iff)
    with Cons.IH [OF e(2)] env_of_types [OF e(1)] show ?thesis by simp
  next
    case False
    let ?e1 = "delete_env pid (trim_space (ev_name c)) (ev_types c) es"
    have e: "apply_env_changes flt pid cs ?e1 = Inr es1"
      using Cons.prems False by (auto simp: Let_def split: if_splits)
    have "env_of pid ?e1 = env_step c (env_of pid es)"
      using False by (auto simp: env_of_delete env_step_def fun_eq_iff)
    with Cons.IH [OF e] show ?thesis by (simp add: env_of_delete)
  qed
qed simp

theorem env_changes_refine_witness:
  "\<exists>es. apply_env_changes no_ofaults ''p''
      [\<lparr>ev_op = ''set'', ev_name = '' K '', ev_value = ''1'', ev_types = []\<rparr>,
       \<lparr>ev_op = ''delete'', ev_name = ''K'', ev_value = [], ev_types = [''prod'']\<rparr>] [] = Inr es
    \<and> env_of ''p'' es (''K'', ''dev'') = Some ''1'' \<and> env_of ''p'' es (''K'', ''prod'') = None"
proof -
  let ?cs = "[\<lparr>ev_op = ''set'', ev_name = '' K '', ev_value = ''1'', ev_types = []\<rparr>,
       \<lparr>ev_op = ''delete'', ev_name = ''K'', ev_value = [], ev_types = [''prod'']\<rparr>]"
  obtain es where es: "apply_env_changes no_ofaults ''p'' ?cs [] = Inr es"
    by (simp add: Let_def trim_space_def space_char_def known_type_def)
  from env_changes_refine [OF es] have "env_of ''p'' es = fold env_step ?cs (env_of ''p'' [])" by simp
  with es show ?thesis
    by (simp add: env_step_def env_types_def trim_space_def space_char_def)
qed

end
