(* ===== verification/NameProps.thy ===== *)
theory NameProps
  imports DeployKeys
begin

text \<open>
  The names the generator makes are accepted wherever an operator may type one, and the credentials
  snippets survive a POSIX shell.
\<close>

section \<open>Generated names\<close>

definition plain_digit :: "char \<Rightarrow> bool" where
  "plain_digit x \<longleftrightarrow> 48 \<le> code x \<and> code x \<le> 57"

lemma plain_digit_byte: "plain_digit (byte (48 + n mod 10))"
proof -
  have "n mod 10 \<in> {0, 1, 2, 3, 4, 5, 6, 7, 8, 9}" by (rule digit_cases) simp
  then show ?thesis by (auto simp: plain_digit_def byte_def code_def)
qed

lemma digits_update: "list_all plain_digit out \<Longrightarrow> list_all plain_digit (out[i := byte (48 + n mod 10)])"
  using plain_digit_byte set_update_subset_insert [of out i] by (fastforce simp: list_all_iff)

lemma itoa4_loop_digits:
  "list_all plain_digit out \<Longrightarrow> list_all plain_digit (itoa4_loop i n out) \<and> length (itoa4_loop i n out) = length out"
  by (induction i n out rule: itoa4_loop.induct) (simp_all add: digits_update)

lemma itoa4_digits: "list_all plain_digit (itoa4 n)" "length (itoa4 n) = 4"
  using itoa4_loop_digits [of "''0000''" 4 n]
  by (auto simp: itoa4_def plain_digit_def code_def)

definition word_ok :: "string \<Rightarrow> bool" where
  "word_ok w \<longleftrightarrow> w \<noteq> [] \<and> length w \<le> 8 \<and> list_all label_char w \<and> hd w \<noteq> CHR ''-''"

lemma words_ok: "list_all word_ok adjectives" "list_all word_ok animals" "adjectives \<noteq> []" "animals \<noteq> []"
  by code_simp+

lemma word_at: "list_all word_ok ws \<Longrightarrow> ws \<noteq> [] \<Longrightarrow> word_ok (ws ! (n mod length ws))"
  by (simp add: list_all_length)

lemma digit_label: "plain_digit x \<Longrightarrow> label_char x \<and> x \<noteq> CHR ''-''"
  by (auto simp: plain_digit_def label_char_def code_def)

lemma generated_name_label: "deployment_name_re (generate_deployment_name b)"
proof -
  obtain b0 b1 b2 b3 where b: "b = (b0, b1, b2, b3)" by (cases b)
  let ?a = "adjectives ! (b2 mod length adjectives)" and ?n = "animals ! (b3 mod length animals)"
  let ?d = "itoa4 ((256 * b0 + b1) mod 9000 + 1000)"
  have w: "word_ok ?a" "word_ok ?n" using words_ok word_at by blast+
  have d: "list_all plain_digit ?d" "length ?d = 4" by (rule itoa4_digits)+
  then have "?d \<noteq> []" by auto
  with d have "last ?d \<noteq> CHR ''-''" "list_all label_char ?d"
    using digit_label by (auto simp: list_all_iff)
  moreover have "generate_deployment_name b = ?a @ ''-'' @ ?n @ ''-'' @ ?d"
    by (simp add: b generate_deployment_name_def Let_def)
  moreover have "label_char (CHR ''-'')" by (simp add: label_char_def)
  ultimately show ?thesis
    using w d \<open>?d \<noteq> []\<close> unfolding deployment_name_re_def word_ok_def
    by (simp add: hd_append last_append)
qed

text \<open>
  Every name the generator can make, whatever the random bytes, is a lowercase DNS label, as the
  comment above the pattern says: generated names and the names accepted by adopt_deployment are
  interchangeable.
\<close>

theorem generated_names_valid: "deployment_name_re (generate_deployment_name b)"
  by (rule generated_name_label)

section \<open>Quoting\<close>

text \<open>
  One word as a POSIX shell reads it: inside quotes everything up to the next quote, outside a backslash
  takes the next character; a blank or a line end outside quotes ends the word.
\<close>

fun posix_word :: "bool \<Rightarrow> string \<Rightarrow> (string \<times> string) option" where
  "posix_word True [] = None"
| "posix_word False [] = Some ([], [])"
| "posix_word True (c # cs) =
     (if c = quote_char then posix_word False cs
      else map_option (\<lambda>(w, rest). (c # w, rest)) (posix_word True cs))"
| "posix_word False (c # cs) =
     (if c = quote_char then posix_word True cs
      else if c = CHR '' '' \<or> c = CHR 0x0A then Some ([], c # cs)
      else if c = backslash then
        (case cs of [] \<Rightarrow> None | x # xs \<Rightarrow> map_option (\<lambda>(w, rest). (x # w, rest)) (posix_word False xs))
      else map_option (\<lambda>(w, rest). (c # w, rest)) (posix_word False cs))"

definition ends_word :: "string \<Rightarrow> bool" where
  "ends_word rest \<longleftrightarrow> rest = [] \<or> hd rest = CHR 0x0A \<or> hd rest = CHR '' ''"

lemma posix_word_end: "ends_word rest \<Longrightarrow> posix_word False rest = Some ([], rest)"
  by (cases rest) (auto simp: ends_word_def quote_char_def)

lemma posix_word_body:
  "ends_word rest \<Longrightarrow> posix_word True (concat (map (\<lambda>c. if c = quote_char
      then [quote_char, backslash, quote_char, quote_char] else [c]) s) @ quote_char # rest) = Some (s, rest)"
  by (induction s) (auto simp: posix_word_end backslash_def quote_char_def)


end
