(* ===== verification/CreateProps.thy ===== *)
theory CreateProps
  imports NameProps CloudSamples
begin

text \<open>
  createDeployment and adoptDeployment: what an accepted request adds, that a refused one adds nothing,
  that a backend is only adopted after it answered, and the port that stays behind when a deployment is
  deleted while it is provisioned.
\<close>

section \<open>What an accepted request adds\<close>

definition brings_up :: "fleet \<Rightarrow> create_deployment_req \<Rightarrow> deployment \<Rightarrow> state \<Rightarrow> state \<Rightarrow> bool" where
  "brings_up fl b d s0 s1 \<longleftrightarrow>
     deps s1 = deps s0 @ [d] \<and> d_status d = DProvisioning
     \<and> (\<forall>x \<in> set (deps s0). d_name x \<noteq> d_name d \<and> d_host_port x \<noteq> d_host_port d)
     \<and> (\<exists>rs js. reps s1 = reps s0 @ rs \<and> jobs s1 = jobs s0 @ js
          \<and> length rs = replica_number b \<and> distinct (map r_port rs) \<and> r_port (hd rs) = d_host_port d
          \<and> (\<forall>r \<in> set rs. r_deployment r = d_id d \<and> r_status r = DProvisioning
               \<and> r_port r \<in> Some ` {dp_port_min (fl_dp fl)..dp_port_max (fl_dp fl)}
               \<and> r_port r \<notin> r_port ` set (reps s0))
          \<and> map j_replica js = map (Some \<circ> r_id) rs
          \<and> (\<forall>j \<in> set js. j_deployment j = d_id d \<and> j_kind j = KProvision \<and> j_status j = JPending))"

definition fresh_rows :: "uuid \<Rightarrow> nat \<Rightarrow> int list \<Rightarrow> replica list \<Rightarrow> job list \<Rightarrow> bool" where
  "fresh_rows dep idx ps rs js \<longleftrightarrow> map r_port rs = map Some ps \<and> map j_replica js = map (Some \<circ> r_id) rs
     \<and> (\<forall>r \<in> set rs. r_deployment r = dep \<and> r_status r = DProvisioning)
     \<and> (\<forall>j \<in> set js. j_deployment j = dep \<and> j_kind j = KProvision \<and> j_status j = JPending)"

lemma insert_fresh_replicas_rows:
  assumes "insert_fresh_replicas flt fl dep idx ps g = Inr h" and "\<And>g. new_id (a_uuid (fl_api fl)) g \<noteq> []"
  shows "\<exists>rs js. reps (sys h) = reps (sys g) @ rs \<and> jobs (sys h) = jobs (sys g) @ js
    \<and> deps (sys h) = deps (sys g) \<and> storages (sys h) = storages (sys g)
    \<and> fresh_rows dep idx ps rs js \<and> distinct ps \<and> (\<forall>p \<in> set ps. Some p \<notin> r_port ` set (reps (sys g)))"
  using assms(1)
proof (induction ps arbitrary: idx g)
  case Nil
  then show ?case by (auto simp: fresh_rows_def)
next
  case (Cons p ps)
  let ?i = "new_id (a_uuid (fl_api fl)) g"
  let ?r = "fresh_replica ?i dep idx p"
  let ?s = "(sys g)\<lparr>reps := reps (sys g) @ [?r]\<rparr>"
  let ?s2 = "snd (enqueue_replica no_faults dep ?i (dp_hc_network (fl_dp fl)) ?s)"
  let ?j = "blank_job dep KProvision (dp_hc_network (fl_dp fl)) ?s \<lparr>j_replica := Some ?i\<rparr>"
  have s2: "?s2 = insert_job ?j ?s" using assms(2) by (simp add: enqueue_replica_def)
  have free: "Some p \<notin> r_port ` set (reps (sys g))"
    and rec: "insert_fresh_replicas flt fl dep (Suc idx) ps (set_sys ?s2 (took_id g)) = Inr h"
    using Cons.prems by (auto simp: Let_def sql split: if_splits)
  obtain rs js where *: "reps (sys h) = reps (sys g) @ ?r # rs" "jobs (sys h) = jobs (sys g) @ ?j # js"
    "deps (sys h) = deps (sys g)" "storages (sys h) = storages (sys g)" "fresh_rows dep (Suc idx) ps rs js" "distinct ps"
    "\<forall>q \<in> set ps. Some q \<notin> r_port ` set (reps (sys g) @ [?r])"
    using Cons.IH [OF rec] unfolding s2 by (auto simp: insert_job_def)
  then have "p \<notin> set ps" by (auto simp: fresh_replica_def)
  moreover have "fresh_rows dep idx (p # ps) (?r # rs) (?j # js)"
    using *(5) by (auto simp: fresh_rows_def fresh_replica_def blank_job_def)
  ultimately show ?case using * free by (intro exI [of _ "?r # rs"] exI [of _ "?j # js"]) auto
qed

lemma add_storage_sys [simp]:
  "deps (sys (add_storage r g)) = deps (sys g)" "reps (sys (add_storage r g)) = reps (sys g)"
  "jobs (sys (add_storage r g)) = jobs (sys g)"
  by (simp_all add: add_storage_def)

lemma add_deployment_sys [simp]:
  "deps (sys (add_deployment d x g)) = deps (sys g) @ [d]" "reps (sys (add_deployment d x g)) = reps (sys g)"
  "jobs (sys (add_deployment d x g)) = jobs (sys g)"
  by (simp_all add: add_deployment_def)

lemma new_deployment_fields [simp]:
  "d_name (new_deployment b k i n p key) = n" "d_host_port (new_deployment b k i n p key) = Some p"
  "d_status (new_deployment b k i n p key) = DProvisioning" "d_id (new_deployment b k i n p key) = i"
  by (simp_all add: new_deployment_def)

lemma with_ha_storage_rows:
  "with_ha_storage flt fl b k i name g = Inr h \<Longrightarrow>
     deps (sys h) = deps (sys g) \<and> reps (sys h) = reps (sys g) \<and> jobs (sys h) = jobs (sys g)"
  by (auto simp: with_ha_storage_def split: option.splits sum.splits if_splits)

lemma create_tx_rows:
  assumes "create_tx flt fl b k name ports key g = Inr (d, h)" and "\<And>g. new_id (a_uuid (fl_api fl)) g \<noteq> []"
    and ports: "length ports = replica_number b" "set ports \<subseteq> {dp_port_min (fl_dp fl)..dp_port_max (fl_dp fl)}"
  shows "brings_up fl b d (sys g) (sys h) \<and> d_name d = name"
proof -
  let ?d = "new_deployment b k (new_id (a_uuid (fl_api fl)) g) name (hd ports) key"
  let ?g1 = "add_deployment ?d (new_dep_doc (d_id ?d) (now g) (cd_default b) (cd_reference b) (ck_user k)) (took_id g)"
  obtain g2 where d: "d = ?d" and c: "deployment_conflict d g = None"
    and g2: "with_ha_storage flt fl b k (d_id d) name ?g1 = Inr g2"
    and ins: "insert_fresh_replicas flt fl (d_id d) 0 ports g2 = Inr h"
    using assms(1) by (auto simp: create_tx_def Let_def split: if_splits option.splits sum.splits)
  obtain rs js where r: "reps (sys h) = reps (sys g) @ rs" "jobs (sys h) = jobs (sys g) @ js"
    "deps (sys h) = deps (sys g) @ [d]" "fresh_rows (d_id d) 0 ports rs js" "distinct ports"
    "\<forall>p \<in> set ports. Some p \<notin> r_port ` set (reps (sys g))"
    using insert_fresh_replicas_rows [OF ins assms(2)] with_ha_storage_rows [OF g2] d by auto
  have rp: "map r_port rs = map Some ports" using r(4) by (simp add: fresh_rows_def)
  then have len: "length rs = length ports" by (metis length_map)
  moreover have "rs \<noteq> []" "ports \<noteq> []" using len ports(1) by (auto simp: replica_number_def split: if_splits)
  ultimately have "r_port (hd rs) = Some (hd ports)" using rp by (cases rs; cases ports) auto
  moreover have "r_port x \<in> Some ` set ports" if "x \<in> set rs" for x
    using rp that by (metis image_eqI image_set)
  moreover have "distinct (map r_port rs)" using rp r(5) by (simp add: distinct_map)
  moreover have "\<forall>x \<in> set (deps (sys g)). d_name x \<noteq> name \<and> d_host_port x \<noteq> Some (hd ports)"
    using c d by (auto simp: deployment_conflict_def sql split: if_splits)
  ultimately show ?thesis
    using r ports len unfolding brings_up_def d by (fastforce simp: fresh_rows_def)
qed

lemma allocate_api_ports_sound:
  "allocate_api_ports flt dp n s = Inr ps \<Longrightarrow> length ps = n \<and> set ps \<subseteq> {dp_port_min dp..dp_port_max dp}"
  by (auto simp: allocate_api_ports_def Let_def split: if_splits dest: in_set_takeD)

lemma find_deployment_name_sound:
  "find_deployment_name flt rnd ds i n = Inr nm \<Longrightarrow> deployment_name_re nm \<and> nm \<notin> d_name ` set ds"
proof (induction flt rnd ds i n rule: find_deployment_name.induct)
  case (2 flt rnd ds i n)
  then show ?case by (auto simp: Let_def sql generated_name_label split: if_splits)
qed simp

text \<open>One attempt: it either adds the rows or leaves the tables to what \<open>generate_key\<close> left.\<close>

lemma attempt_adds:
  assumes "create_deployment_attempt flt fl b k n x = (None, y)" and "\<And>g. new_id (a_uuid (fl_api fl)) g \<noteq> []"
    and "\<And>nm s. I s \<Longrightarrow> I (snd (call_out (CAdminKey nm) (dp_admin_key (fl_dp fl) nm (ck_secret k)) s))" and "I (sys (fst x))"
  shows "\<exists>d s0. snd y = Ok d \<and> I s0 \<and> brings_up fl b d s0 (sys (fst y)) \<and> deployment_name_re (d_name d)"
proof -
  obtain name ports key s1 d g where *: "allocate_deployment_name (in_attempt n flt) (fl_names fl n) (sys (fst x)) = Inr name"
    "allocate_api_ports (in_attempt n flt) (fl_dp fl) (replica_number b) (sys (fst x)) = Inr ports"
    "call_out (CAdminKey name) (dp_admin_key (fl_dp fl) name (ck_secret k)) (sys (fst x)) = (Ok key, s1)"
    "create_tx (in_attempt n flt) fl b k name ports key (set_sys s1 (fst x)) = Inr (d, g)" "y = (g, Ok d)"
    using assms(1)
    by (auto simp: create_deployment_attempt_def Let_def split: sum.splits prod.splits outcome.splits)
  have p: "length ports = replica_number b" "set ports \<subseteq> {dp_port_min (fl_dp fl)..dp_port_max (fl_dp fl)}"
    using allocate_api_ports_sound [OF *(2)] by auto
  have "deployment_name_re name"
    using *(1) find_deployment_name_sound unfolding allocate_deployment_name_def by blast
  moreover have "I s1" using assms(3) [OF assms(4)] *(3) by (metis snd_conv)
  ultimately show ?thesis using create_tx_rows [OF *(4) assms(2) p] *(5) by auto
qed

lemma attempt_keeps:
  assumes "create_deployment_attempt flt fl b k n x = (Some e, y)"
    and "\<And>nm s. I s \<Longrightarrow> I (snd (call_out (CAdminKey nm) (dp_admin_key (fl_dp fl) nm (ck_secret k)) s))" and "I (sys (fst x))"
  shows "I (sys (fst y))"
  using assms
  by (auto simp: create_deployment_attempt_def Let_def split: sum.splits prod.splits outcome.splits)
    (metis snd_conv)+

lemma create_deployment_cases:
  assumes "create_deployment flt fl who pid body c = (x, h)"
  obtains (refused) e where "validate_create flt fl who pid body c = Inl e" "h = c" "x = refuse e"
  | (created) b k tid g d where "validate_create flt fl who pid body c = Inr (b, k, tid)"
      "with_retry_on_unique_violation (a_cancelled (fl_api fl)) 5 (create_deployment_attempt flt fl b k) (og c, Err []) = (None, (g, Ok d))"
      "x = Answer 201 (deployment_view flt fl (d\<lparr>d_cpus := cd_cpus b\<rparr>) (sys g))" "sys (og h) = sys g"
  | (failed) b k tid y g o1 msg where "validate_create flt fl who pid body c = Inr (b, k, tid)"
      "with_retry_on_unique_violation (a_cancelled (fl_api fl)) 5 (create_deployment_attempt flt fl b k) (og c, Err []) = (y, (g, o1))"
      "y \<noteq> None \<or> (\<forall>d. o1 \<noteq> Ok d)" "x = Error 500 msg" "sys (og h) = sys g"
  using assms
  by (auto simp: create_deployment_def split: sum.splits prod.splits option.splits outcome.splits)

lemma retried_create:
  assumes "\<And>g. new_id (a_uuid (fl_api fl)) g \<noteq> []"
    and "\<And>nm s. I s \<Longrightarrow> I (snd (call_out (CAdminKey nm) (dp_admin_key (fl_dp fl) nm (ck_secret k)) s))"
  shows "retried_attempt (create_deployment_attempt flt fl b k) (\<lambda>x. I (sys (fst x)))
    (\<lambda>y. \<exists>d s0. snd y = Ok d \<and> I s0 \<and> brings_up fl b d s0 (sys (fst y)) \<and> deployment_name_re (d_name d))"
proof (rule retried_attempt.intro)
  fix x n e y
  assume "I (sys (fst x))" "create_deployment_attempt flt fl b k n x = (Some e, y)"
  then show "I (sys (fst y))" using attempt_keeps [where I = I] assms(2) by blast
next
  fix x n y
  assume "I (sys (fst x))" "create_deployment_attempt flt fl b k n x = (None, y)"
  then show "\<exists>d s0. snd y = Ok d \<and> I s0 \<and> brings_up fl b d s0 (sys (fst y)) \<and> deployment_name_re (d_name d)"
    using attempt_adds [where I = I] assms by blast
qed

text \<open>
  C14: An accepted create_deployment adds exactly one deployment that is being provisioned, under a valid
  name and a port that no row has, with one replica (two for HA) on distinct free ports of the range and
  one pending provision job for each, to the rows that \<open>generate_key\<close> and the other processes left (\<open>I\<close> is
  whatever they keep). Ids are not empty.
\<close>

theorem created_deployment:
  assumes "create_deployment flt fl who pid (Some b) c = (Answer 201 v, h)" and "\<And>g. new_id (a_uuid (fl_api fl)) g \<noteq> []"
    and "\<And>nm k s. I s \<Longrightarrow> I (snd (call_out (CAdminKey nm) (dp_admin_key (fl_dp fl) nm k) s))" and "I (sys (og c))"
  shows "\<exists>d s0. dv_dep v = d\<lparr>d_cpus := cd_cpus b\<rparr> \<and> I s0 \<and> brings_up fl b d s0 (sys (og h)) \<and> deployment_name_re (d_name d)"
  using assms(1)
proof (cases rule: create_deployment_cases)
  case (created b1 k tid g d)
  have "b1 = b" using created(1) by (auto simp: validate_create_def split: sum.splits prod.splits if_splits option.splits)
  moreover from retried_attempt.retry_won [OF retried_create [where I = I, OF assms(2,3)] _ created(2)]
  have "\<exists>s0. I s0 \<and> brings_up fl b1 d s0 (sys g) \<and> deployment_name_re (d_name d)" using assms(4) by auto
  ultimately show ?thesis using created(3,4) by (auto simp: deployment_view_def)
qed (auto simp: refuse_def)

theorem created_deployment_witness:
  "\<exists>d. deps (sys (og (snd (create_deployment no_ofaults demo_fleet (as_user ''a'') ''p1'' (Some demo_creation) demo_cloud))))
      = [demo_dep ''d1'' DRunning, d] \<and> d_status d = DProvisioning \<and> deployment_name_re (d_name d)"
proof -
  have "(case create_deployment no_ofaults demo_fleet (as_user ''a'') ''p1'' (Some demo_creation) demo_cloud of
      (Answer n v, h) \<Rightarrow> n = 201 | _ \<Rightarrow> False)" by code_simp
  then obtain v h where e: "create_deployment no_ofaults demo_fleet (as_user ''a'') ''p1'' (Some demo_creation) demo_cloud = (Answer 201 v, h)"
    by (auto split: prod.splits resp.splits)
  from created_deployment [where I = "\<lambda>s. deps s = [demo_dep ''d1'' DRunning]", OF e] obtain d s0
    where "deps s0 = [demo_dep ''d1'' DRunning]" "brings_up demo_fleet demo_creation d s0 (sys (og h))" "deployment_name_re (d_name d)"
    by (auto simp: log_call_def demo_cloud_def demo_cloud_of_def)
  then show ?thesis by (auto simp: e brings_up_def)
qed

text \<open>
  All or nothing: when create_deployment answers with an error, after any number of attempts, the
  tables are what \<open>generate_key\<close> and the other processes left: whatever these keep is kept.
\<close>

theorem failed_create_writes_nothing:
  assumes "create_deployment flt fl who pid body c = (Error st msg, h)" and "I (sys (og c))"
    and "\<And>nm k s. I s \<Longrightarrow> I (snd (call_out (CAdminKey nm) (dp_admin_key (fl_dp fl) nm k) s))"
  shows "I (sys (og h))"
  using assms(1)
proof (cases rule: create_deployment_cases)
  case (failed b k tid y g o1)
  let ?fn = "create_deployment_attempt flt fl b k"
  have r: "retried_attempt ?fn (\<lambda>x. I (sys (fst x))) (\<lambda>x. \<exists>d. snd x = Ok d)"
  proof (rule retried_attempt.intro)
    show "I (sys (fst y))" if "I (sys (fst x))" "?fn n x = (Some e, y)" for x n e y
      using attempt_keeps [OF that(2) assms(3) that(1)] .
    show "\<exists>d. snd y = Ok d" if "?fn n x = (None, y)" for x n y
      using that by (auto simp: create_deployment_attempt_def Let_def split: sum.splits prod.splits outcome.splits)
  qed
  show ?thesis
  proof (cases y)
    case None
    with retried_attempt.retry_won [OF r _ failed(2) [unfolded None]] assms(2) failed(3) show ?thesis by auto
  next
    case (Some e)
    with retried_attempt.retry_lost [OF r _ failed(2) [unfolded Some]] assms(2) failed(5) show ?thesis by simp
  qed
qed (use assms(2) in auto)

section \<open>The port of a deployment that was deleted while it was provisioned\<close>

text \<open>The lowest free port of the range is still the one of a deleted row.\<close>

definition port_leaked :: "deployer \<Rightarrow> int \<Rightarrow> state \<Rightarrow> bool" where
  "port_leaked dp p s \<longleftrightarrow> sql_exists (\<lambda>d. d_status d = DDeleted \<and> d_host_port d = Some p) (deps s)
     \<and> p \<in> {dp_port_min dp..dp_port_max dp} \<and> p \<notin> set (reserved_ports s)
     \<and> (\<forall>q. dp_port_min dp \<le> q \<and> q < p \<longrightarrow> q \<in> set (reserved_ports s))"

lemma first_free_port:
  assumes "p \<in> {a..z}" "\<not> U p" "\<And>q. a \<le> q \<Longrightarrow> q < p \<Longrightarrow> U q" "0 < n"
  shows "\<exists>ps. take n (filter (\<lambda>q. \<not> U q) [a..z]) = p # ps"
proof -
  have "[a..z] = [a..p - 1] @ p # [p + 1..z]" using assms(1) by (intro upto_split3) auto
  moreover have "filter (\<lambda>q. \<not> U q) [a..p - 1] = []" using assms(3) by (auto simp: filter_empty_conv)
  ultimately show ?thesis using assms(2,4) by (cases n) auto
qed

lemma leaked_attempt:
  assumes "create_deployment_attempt flt fl b k n x = (r, y)" and "port_leaked (fl_dp fl) p (sys (fst x))"
    and "\<And>nm s. port_leaked (fl_dp fl) p s \<Longrightarrow> port_leaked (fl_dp fl) p (snd (call_out (CAdminKey nm) (dp_admin_key (fl_dp fl) nm (ck_secret k)) s))"
  shows "r \<noteq> None"
proof
  assume "r = None"
  with assms(1) obtain name ports key s1 d g where *:
    "allocate_api_ports (in_attempt n flt) (fl_dp fl) (replica_number b) (sys (fst x)) = Inr ports"
    "call_out (CAdminKey name) (dp_admin_key (fl_dp fl) name (ck_secret k)) (sys (fst x)) = (Ok key, s1)"
    "create_tx (in_attempt n flt) fl b k name ports key (set_sys s1 (fst x)) = Inr (d, g)"
    by (auto simp: create_deployment_attempt_def Let_def split: sum.splits prod.splits outcome.splits)
  have "port_leaked (fl_dp fl) p s1" using assms(3) [OF assms(2), of name] *(2) by simp
  then obtain x0 where x0: "x0 \<in> set (deps s1)" "d_host_port x0 = Some p" by (auto simp: port_leaked_def sql)
  have "ports = take (replica_number b) (filter (\<lambda>q. \<not> q \<in> set (reserved_ports (sys (fst x))))
      [dp_port_min (fl_dp fl)..dp_port_max (fl_dp fl)])"
    using *(1) by (auto simp: allocate_api_ports_def Let_def split: if_splits)
  moreover have "0 < replica_number b" by (simp add: replica_number_def)
  ultimately obtain ps where "ports = p # ps"
    using first_free_port [of p "dp_port_min (fl_dp fl)" "dp_port_max (fl_dp fl)"
        "\<lambda>q. q \<in> set (reserved_ports (sys (fst x)))" "replica_number b"] assms(2)
    unfolding port_leaked_def by metis
  with *(3) x0 show False
    by (auto simp: create_tx_def Let_def deployment_conflict_def sql split: if_splits option.splits sum.splits)
qed

text \<open>A deployment deleted while it was provisioned, by the handler.\<close>

definition demo_leak :: cloud where
  "demo_leak = snd (delete_deployment no_ofaults demo_fleet (as_user ''a'') ''happy-fox-1'' False
     (demo_cloud_of [demo_dep ''d1'' DProvisioning] []))"

lemma demo_leak_rows: "deps (sys (og demo_leak)) = [demo_dep ''d1'' DDeleted] \<and> reps (sys (og demo_leak)) = []"
  by code_simp

lemma demo_leaked: "port_leaked (fl_dp demo_fleet) 3210 (sys (og demo_leak))"
  by (simp add: port_leaked_def demo_leak_rows reserved_ports_def demo_fleet_def demo_deployer_def demo_dep_def sql)

lemma leak_logged: "port_leaked dp p (log_call x s) = port_leaked dp p s"
  by (simp add: port_leaked_def reserved_ports_def log_call_def)

text \<open>
  DeleteDeployment of a deployment that is being provisioned marks the row deleted but leaves its
  \<open>host_port\<close>. The allocator ignores the ports of deleted rows, the unique constraint does not: as long as
  that port is the lowest free one, every create_deployment of anybody picks it in each of its five
  attempts and fails, however many ports are free.
\<close>

theorem leaked_port_blocks_create:
  assumes "port_leaked (fl_dp fl) p (sys (og c))"
    and "\<And>nm k s. port_leaked (fl_dp fl) p s \<Longrightarrow> port_leaked (fl_dp fl) p (snd (call_out (CAdminKey nm) (dp_admin_key (fl_dp fl) nm k) s))"
  shows "\<not> (\<exists>st v. fst (create_deployment flt fl who pid body c) = Answer st v)"
proof -
  obtain x h where e: "create_deployment flt fl who pid body c = (x, h)" by fastforce
  then show ?thesis
  proof (cases rule: create_deployment_cases)
    case (created b k tid g d)
    have "retried_attempt (create_deployment_attempt flt fl b k) (\<lambda>x. port_leaked (fl_dp fl) p (sys (fst x))) (\<lambda>_. False)"
    proof (rule retried_attempt.intro)
      fix x n e y
      assume "port_leaked (fl_dp fl) p (sys (fst x))" "create_deployment_attempt flt fl b k n x = (Some e, y)"
      then show "port_leaked (fl_dp fl) p (sys (fst y))"
        using attempt_keeps [where I = "port_leaked (fl_dp fl) p"] assms(2) by blast
    next
      fix x n y
      assume "port_leaked (fl_dp fl) p (sys (fst x))" "create_deployment_attempt flt fl b k n x = (None, y)"
      then show False using leaked_attempt [where p = p] assms(2) by blast
    qed
    from retried_attempt.retry_won [OF this _ created(2)] assms(1) show ?thesis by simp
  qed (auto simp: e refuse_def)
qed

theorem leaked_port_blocks_create_witness:
  "\<not> (\<exists>st v. fst (create_deployment no_ofaults demo_fleet (as_user ''b'') ''p1'' (Some demo_creation) demo_leak) = Answer st v)"
  by (rule leaked_port_blocks_create [OF demo_leaked]) (simp add: leak_logged)

text \<open>A commit that fails: the rows of the transaction are gone.\<close>

theorem failed_create_writes_nothing_witness:
  "deps (sys (og (snd (create_deployment (\<lambda>l. l = ''tx commit 0'') demo_fleet (as_user ''b'') ''p1'' (Some demo_creation) demo_cloud))))
     = [demo_dep ''d1'' DRunning]"
proof -
  let ?flt = "\<lambda>l. l = ''tx commit 0''"
  have "(case create_deployment ?flt demo_fleet (as_user ''b'') ''p1'' (Some demo_creation) demo_cloud of
      (Error n m, h) \<Rightarrow> n = 500 | _ \<Rightarrow> False)" by code_simp
  then obtain m h where e: "create_deployment ?flt demo_fleet (as_user ''b'') ''p1'' (Some demo_creation) demo_cloud = (Error 500 m, h)"
    by (auto split: prod.splits resp.splits)
  have "deps (sys (og h)) = [demo_dep ''d1'' DRunning]"
    by (rule failed_create_writes_nothing [where I = "\<lambda>s. deps s = [demo_dep ''d1'' DRunning]", OF e])
      (simp_all add: demo_cloud_def demo_cloud_of_def log_call_def)
  then show ?thesis by (simp add: e)
qed

section \<open>adoptDeployment\<close>

text \<open>The two answers of a backend that passes the probe; \<open>s1\<close> is the state after them.\<close>

definition answers_probe :: "fleet \<Rightarrow> string \<Rightarrow> string \<Rightarrow> state \<Rightarrow> state \<Rightarrow> bool" where
  "answers_probe fl url key s s1 \<longleftrightarrow> (\<exists>st sm.
     call_out (CHttpGet (url @ ''/version'')) (fl_get fl (url @ ''/version'') None) s = (Ok st, sm) \<and> st div 100 = 2
     \<and> call_out (CHttpGet (url @ ''/api/check_admin_key''))
          (fl_get fl (url @ ''/api/check_admin_key'') (Some (''Convex '' @ key))) sm = (Ok 200, s1))"

lemma probe_ok: "probe_adopted_backend fl url key s = (Inr u, s1) \<Longrightarrow> answers_probe fl url key s s1"
  by (auto simp: probe_adopted_backend_def answers_probe_def split: if_splits prod.splits outcome.splits)

text \<open>The row of an adopted deployment; the rest of the state is untouched.\<close>

definition adopted_row :: "adopt_deployment_req \<Rightarrow> uuid \<Rightarrow> deployment \<Rightarrow> state \<Rightarrow> bool" where
  "adopted_row b pid d s \<longleftrightarrow> d_url d = Some (ad_url b) \<and> d_admin_key d = ad_key b \<and> d_adopted d \<and> d_status d = DRunning
     \<and> d_project d = pid \<and> d_host_port d = None \<and> deployment_name_re (d_name d)
     \<and> (ad_name b \<noteq> [] \<longrightarrow> d_name d = ad_name b) \<and> (\<forall>x \<in> set (deps s). d_name x \<noteq> d_name d)"

lemma adopt_attempt_adds:
  assumes "adopt_attempt flt fl b pid typ uid self n (g, o1) = (None, y)" and "ad_name b \<noteq> [] \<Longrightarrow> deployment_name_re (ad_name b)"
  shows "\<exists>d. snd y = Some d \<and> sys (fst y) = (sys g)\<lparr>deps := deps (sys g) @ [d]\<rparr> \<and> adopted_row b pid d (sys g)"
  using assms find_deployment_name_sound
  by (auto simp: adopt_attempt_def Let_def deployment_conflict_def adopted_deployment_def adopted_row_def sql
      add_deployment_def allocate_deployment_name_def split: if_splits option.splits sum.splits)

lemma adopt_attempt_lost:
  "adopt_attempt flt fl b pid typ uid self n (g, o1) = (Some e, y) \<Longrightarrow> fst y = g"
  by (auto simp: adopt_attempt_def Let_def split: if_splits option.splits sum.splits)

lemma retried_adopt:
  assumes "ad_name b \<noteq> [] \<Longrightarrow> deployment_name_re (ad_name b)"
  shows "retried_attempt (adopt_attempt flt fl b pid typ uid self) (\<lambda>x. fst x = g)
    (\<lambda>y. \<exists>d. snd y = Some d \<and> sys (fst y) = (sys g)\<lparr>deps := deps (sys g) @ [d]\<rparr> \<and> adopted_row b pid d (sys g))"
proof (rule retried_attempt.intro)
  fix x n e y
  assume "fst x = g" "adopt_attempt flt fl b pid typ uid self n x = (Some e, y)"
  then show "fst y = g" using adopt_attempt_lost by (cases x) fastforce
next
  fix x n y
  assume "fst x = g" "adopt_attempt flt fl b pid typ uid self n x = (None, y)"
  then show "\<exists>d. snd y = Some d \<and> sys (fst y) = (sys g)\<lparr>deps := deps (sys g) @ [d]\<rparr> \<and> adopted_row b pid d (sys g)"
    using adopt_attempt_adds [OF _ assms] by (cases x) fastforce
qed

text \<open>
  A deployment is adopted only after its backend answered: the version request with a 2xx and the key
  check, sent with the key that is stored, with 200. The one row added runs, points at the URL without
  its trailing slashes, has a name nobody has (the requested one if there is one), and no port; nothing
  else in the state changes.
\<close>

theorem adopt_needs_live_backend:
  assumes "adopt_deployment flt fl who pid (Some b0) c = (Answer 201 v, h)"
  shows "\<exists>d s1. answers_probe fl (ad_url (trimmed_adopt b0)) (ad_key (trimmed_adopt b0)) (sys (og c)) s1
    \<and> sys (og h) = s1\<lparr>deps := deps s1 @ [d]\<rparr> \<and> adopted_row (trimmed_adopt b0) pid d s1 \<and> dv_dep v = d"
proof -
  let ?b = "trimmed_adopt b0"
  obtain ty tid where val: "validate_adopt flt who pid (Some b0) (og c) = Inr (?b, ty, tid)"
    using assms by (auto simp: adopt_deployment_def validate_adopt_def Let_def refuse_def
        split: sum.splits prod.splits if_splits option.splits)
  then have nm: "ad_name ?b \<noteq> [] \<Longrightarrow> deployment_name_re (ad_name ?b)"
    by (auto simp: validate_adopt_def Let_def split: sum.splits prod.splits if_splits option.splits)
  let ?fn = "adopt_attempt flt fl ?b pid ty (pr_user who) (self_host c)"
  obtain s1 g d where *: "probe_adopted_backend fl (ad_url ?b) (ad_key ?b) (sys (og c)) = (Inr (), s1)"
    "with_retry_on_unique_violation (a_cancelled (fl_api fl)) 5 ?fn (set_sys s1 (og c), None) = (None, (g, Some d))"
    "v = deployment_view flt fl d (sys g)" "sys (og h) = sys g"
    using assms val
    by (auto simp: adopt_deployment_def refuse_def split: sum.splits prod.splits if_splits option.splits db_error.splits)
  from retried_attempt.retry_won [OF retried_adopt [OF nm, of flt fl pid ty "pr_user who" "self_host c" "set_sys s1 (og c)"] _ *(2)]
  have "sys g = s1\<lparr>deps := deps s1 @ [d]\<rparr>" "adopted_row ?b pid d s1" by auto
  with *(3,4) probe_ok [OF *(1)] show ?thesis by (auto simp: deployment_view_def)
qed

theorem adopt_needs_live_backend_witness:
  "\<exists>d. deps (sys (og (snd (adopt_deployment no_ofaults demo_fleet (as_user ''a'') ''p1'' (Some demo_adopt) demo_cloud))))
      = [demo_dep ''d1'' DRunning, d] \<and> d_name d = ''shop'' \<and> d_url d = Some ''https://b.io''"
proof -
  have "(case adopt_deployment no_ofaults demo_fleet (as_user ''a'') ''p1'' (Some demo_adopt) demo_cloud of
      (Answer n v, h) \<Rightarrow> n = 201 | _ \<Rightarrow> False)" by code_simp
  then obtain v h where e: "adopt_deployment no_ofaults demo_fleet (as_user ''a'') ''p1'' (Some demo_adopt) demo_cloud = (Answer 201 v, h)"
    by (auto split: prod.splits resp.splits)
  have t: "trimmed_adopt demo_adopt = demo_adopt\<lparr>ad_url := ''https://b.io''\<rparr>" by code_simp
  from adopt_needs_live_backend [OF e] obtain d s1
    where s1: "answers_probe demo_fleet ''https://b.io'' ''k'' (sys (og demo_cloud)) s1"
      and d: "sys (og h) = s1\<lparr>deps := deps s1 @ [d]\<rparr>" "adopted_row (demo_adopt\<lparr>ad_url := ''https://b.io''\<rparr>) ''p1'' d s1"
    unfolding t by (auto simp: demo_adopt_def)
  have "deps s1 = [demo_dep ''d1'' DRunning]"
    using s1 by (auto simp: answers_probe_def call_out_def demo_fleet_def idle_def log_call_def demo_cloud_def demo_cloud_of_def)
  with d show ?thesis unfolding e by (auto simp: adopted_row_def demo_adopt_def)
qed

end
