(* ===== verification/LifecycleProps.thy ===== *)
theory LifecycleProps
  imports ProxyProps CloudSamples
begin

text \<open>
  What delete, restart and the upgrade request do to a deployment, its replicas, its ports and its place
  in the cells, and how the three interact with the worker and the proxy.
\<close>

section \<open>The upgrade request\<close>

definition upgrades_in_flight :: "uuid \<Rightarrow> state \<Rightarrow> nat" where
  "upgrades_in_flight i s = sql_count (\<lambda>j. j_deployment j = i \<and> j_kind j = KUpgradeToHA \<and> in_flight j) (jobs s)"

lemma upgrade_active_count: "upgrade_active i s \<longleftrightarrow> 0 < upgrades_in_flight i s"
  by (simp add: upgrade_active_def upgrades_in_flight_def sql)

lemma upgrade_tx_Inr:
  assumes "upgrade_tx flt hc i r s = Inr (j, s1)"
  shows "j = next_job s \<and> \<not> upgrade_active i s \<and> (\<exists>d. find_dep i s = Some d \<and> upgradeable d = None)
    \<and> s1 = insert_job (blank_job i KUpgradeToHA hc s) (s\<lparr>storages := put_storage r (storages s)\<rparr>)"
  using assms
  by (auto simp: upgrade_tx_def enqueue_upgrade_to_ha_def blank_job_def split: if_splits option.splits prod.splits)

lemma upgrade_request_cases:
  assumes "upgrade_to_ha flt fl who name body c = (x, h)"
  obtains (refused) st m where "x = Error st m" "h = c"
  | (queued) box d p t role ov r j s1 where "ha_ready fl = Inr box"
      "load_deployment_for_request flt who name (og c) = Inr (d, p, t, role)" "can_admin_project role"
      "seal_storage box (d_id d) (derive_per_deployment_storage (d_name d) (fl_ha fl) ov) = Inr r"
      "upgrade_tx flt (dp_hc_network (fl_dp fl)) (d_id d) r (sys (og c)) = Inr (j, s1)"
      "x = Answer 202 \<lparr>hu_name = d_name d, hu_job = j\<rparr>" "sys (og h) = s1"
  using assms
  by (auto simp: upgrade_to_ha_def refuse_def split: sum.splits prod.splits if_splits option.splits)

text \<open>
  C16: The upgrade endpoint never lets a deployment have two unfinished upgrade jobs, whatever the faults
  and however often it is called; a request that is refused changes nothing at all.
\<close>

theorem upgrade_single_flight:
  assumes "\<And>i. upgrades_in_flight i (sys (og c)) \<le> 1" and "upgrade_to_ha flt fl who name body c = (x, h)"
  shows "upgrades_in_flight i (sys (og h)) \<le> 1 \<and> ((\<exists>st m. x = Error st m) \<longrightarrow> h = c)"
  using assms(2)
proof (cases rule: upgrade_request_cases)
  case (queued box d p t role ov r j s1)
  from upgrade_tx_Inr [OF queued(5)]
  have "upgrades_in_flight (d_id d) (sys (og c)) = 0"
    and s1: "jobs s1 = jobs (sys (og c)) @ [blank_job (d_id d) KUpgradeToHA (dp_hc_network (fl_dp fl)) (sys (og c))]"
    by (auto simp: upgrade_active_count insert_job_def)
  moreover have "j_deployment (blank_job (d_id d) KUpgradeToHA hc s) = d_id d" for hc s by (simp add: blank_job_def)
  ultimately have "upgrades_in_flight i s1 \<le> 1"
    using assms(1) [of i] by (auto simp: upgrades_in_flight_def sql_count_def)
  with queued(6,7) show ?thesis by simp
qed (use assms(1) in auto)

lemma demo_upgrade:
  "\<exists>v h. upgrade_to_ha no_ofaults demo_fleet (as_user ''a'') ''happy-fox-1'' None demo_cloud = (Answer 202 v, h)"
proof -
  have "(case upgrade_to_ha no_ofaults demo_fleet (as_user ''a'') ''happy-fox-1'' None demo_cloud of
      (Answer n v, h) \<Rightarrow> n = 202 | _ \<Rightarrow> False)" by code_simp
  then show ?thesis by (auto split: prod.splits resp.splits)
qed

theorem upgrade_single_flight_witness:
  "upgrades_in_flight ''d1'' (sys (og (snd (upgrade_to_ha no_ofaults demo_fleet (as_user ''a'') ''happy-fox-1'' None demo_cloud)))) \<le> 1"
proof -
  obtain v h where e: "upgrade_to_ha no_ofaults demo_fleet (as_user ''a'') ''happy-fox-1'' None demo_cloud = (Answer 202 v, h)"
    using demo_upgrade by blast
  have "upgrades_in_flight i (sys (og demo_cloud)) \<le> 1" for i
    by (simp add: upgrades_in_flight_def cloud_demo_defs empty_state_def sql_count_def)
  from upgrade_single_flight [OF this e] show ?thesis by (simp add: e)
qed

text \<open>
  What the endpoint seals the worker can open: after an accepted request the claim of the upgrade job
  loads exactly the derived settings (the database and the buckets of this deployment, the overrides of
  the request), for an encrypter that can read what it wrote.
\<close>

theorem upgrade_storage_opens:
  assumes "upgrade_to_ha flt fl who name body c = (Answer 202 v, h)" and "fl_box fl = Some box"
    and "\<And>x y. sb_encrypt box x = Inr y \<Longrightarrow> dcr y = Ok x"
  shows "\<exists>d ov ps. load_deployment_for_request flt who name (og c) = Inr d
    \<and> ps = derive_per_deployment_storage (d_name (fst d)) (fl_ha fl) ov
    \<and> load_storage no_faults dcr (d_id (fst d)) (sys (og h)) = Some
        \<lparr>se_postgres = ps_postgres ps, se_no_ssl = (\<not> has_ssl_prefix (ps_postgres ps)), se_endpoint = ps_endpoint ps,
         se_region = ps_region ps, se_access = ps_access ps, se_secret = ps_secret ps, se_files = ps_files ps,
         se_modules = ps_modules ps, se_search = ps_search ps, se_exports = ps_exports ps, se_snapshots = ps_snapshots ps\<rparr>"
  using assms(1)
proof (cases rule: upgrade_request_cases)
  case (queued bx d p t role ov r j s1)
  have bx: "bx = box" using queued(1) assms(2) by (simp add: ha_ready_def split: if_splits)
  have s1: "storages s1 = put_storage r (storages (sys (og c)))"
    using upgrade_tx_Inr [OF queued(5)] by (simp add: insert_job_def)
  have r: "s_deployment r = d_id d" using queued(4) by (auto simp: seal_storage_def split: sum.splits)
  have row: "sql_row (\<lambda>x. s_deployment x = d_id d) (put_storage r rs) = Some r" for rs
  proof (cases "sql_exists (\<lambda>x. s_deployment x = d_id d) rs")
    case True
    then have "sql_row (\<lambda>x. s_deployment x = d_id d) (sql_update (\<lambda>x. s_deployment x = d_id d) (\<lambda>_. r) rs) = Some r"
      using r by (induction rs) (auto simp: sql_exists_def)
    with True r show ?thesis by (simp add: put_storage_def)
  next
    case False
    then show ?thesis using r by (simp add: put_storage_def sql_row_append sql_row_exists)
  qed
  show ?thesis
    using queued(4) assms(3) queued(2,7) row bx
    by (intro exI [of _ "(d, p, t, role)"] exI [of _ ov] exI [of _ "derive_per_deployment_storage (d_name d) (fl_ha fl) ov"])
      (auto simp: load_storage_def s1 seal_storage_def decrypt3_def split: sum.splits)
qed simp

theorem upgrade_storage_opens_witness:
  "\<exists>i r. load_storage no_faults Ok i
    (sys (og (snd (upgrade_to_ha no_ofaults demo_fleet (as_user ''a'') ''happy-fox-1'' None demo_cloud)))) = Some r"
proof -
  obtain v h where e: "upgrade_to_ha no_ofaults demo_fleet (as_user ''a'') ''happy-fox-1'' None demo_cloud = (Answer 202 v, h)"
    using demo_upgrade by blast
  have "fl_box demo_fleet = Some \<lparr>sb_encrypt = Inr, sb_decrypt = Some Ok\<rparr>" by (simp add: demo_fleet_def)
  from upgrade_storage_opens [OF e this, of Ok] show ?thesis by (auto simp: e)
qed

section \<open>Delete\<close>

lemma demo_calls [simp]:
  "dk_destroy (dp_docker (fl_dp demo_fleet)) nm = idle ()" "dk_destroy_replica (dp_docker (fl_dp demo_fleet)) nm i w = idle ()"
  "dp_remote (fl_dp demo_fleet) = None" "dp_restart_replica (fl_dp demo_fleet) nm i = idle ()"
  "call_out cl (idle x) s = (Ok x, log_call cl s)"
  by (simp_all add: demo_fleet_def demo_deployer_def demo_docker_def call_out_def idle_def)

lemma demo_cloud_deps [simp]: "deps (sys (og demo_cloud)) = [demo_dep ''d1'' DRunning]"
  by (simp add: demo_cloud_def demo_cloud_of_def)

text \<open>What the theorems ask of Docker and SSH: the calls keep a property of the state, or do not panic.\<close>

definition teardown_keeps :: "(state \<Rightarrow> bool) \<Rightarrow> deployer \<Rightarrow> bool" where
  "teardown_keeps I dp \<longleftrightarrow>
     (\<forall>nm s. I s \<longrightarrow> I (snd (call_out (CDestroy nm) (dk_destroy (dp_docker dp) nm) s)))
     \<and> (\<forall>nm i s. I s \<longrightarrow> I (snd (call_out (CDestroyReplica nm i False) (dk_destroy_replica (dp_docker dp) nm i False) s)))
     \<and> (\<forall>far tg nm s. dp_remote dp = Some far \<longrightarrow> I s \<longrightarrow> I (snd (call_out (CDestroy nm) (dk_destroy (far tg) nm) s)))"

definition teardown_returns :: "deployer \<Rightarrow> bool" where
  "teardown_returns dp \<longleftrightarrow> (\<forall>nm s. fst (dk_destroy (dp_docker dp) nm s) \<noteq> Panic)
     \<and> (\<forall>nm i s. fst (dk_destroy_replica (dp_docker dp) nm i False s) \<noteq> Panic)
     \<and> (\<forall>far tg nm s. dp_remote dp = Some far \<longrightarrow> fst (dk_destroy (far tg) nm s) \<noteq> Panic)"

lemma destroy_all_keeps:
  "teardown_keeps I dp \<Longrightarrow> I s \<Longrightarrow> I (snd (destroy_all_replicas dp nm force i n orphaned s))"
proof (induction dp nm force i n orphaned s rule: destroy_all_replicas.induct)
  case (2 dp nm force i n orphaned s)
  have "I (snd (call_out (CDestroyReplica nm (int i) False) (dk_destroy_replica (dp_docker dp) nm (int i) False) s))"
    using 2(3,4) by (simp add: teardown_keeps_def)
  with 2 show ?case by (auto split: prod.split outcome.split)
qed simp

lemma docker_for_cases:
  assumes "docker_for dp d s = Inr dk"
  obtains "dk = dp_docker dp" | far tg where "dp_remote dp = Some far" "dk = far tg"
  using assms by (auto simp: docker_for_def split: option.splits if_splits)

lemma tear_down_keeps:
  assumes "teardown_keeps I dp" and "I s"
  shows "I (snd (tear_down dp force d s))"
proof -
  have "I (snd (call_out (CDestroy (d_name d)) (dk_destroy dk (d_name d)) s))" if "docker_for dp d s = Inr dk" for dk
    using that assms by (cases rule: docker_for_cases) (auto simp: teardown_keeps_def)
  then show ?thesis
    using assms destroy_all_keeps [OF assms]
    by (auto simp: tear_down_def split: sum.split prod.split outcome.split)
qed

lemma destroy_all_forced:
  "teardown_returns dp \<Longrightarrow> \<exists>o1. fst (destroy_all_replicas dp nm True i n orphaned s) = Inr o1"
proof (induction n arbitrary: i orphaned s)
  case (Suc n)
  let ?r = "call_out (CDestroyReplica nm (int i) False) (dk_destroy_replica (dp_docker dp) nm (int i) False) s"
  have "fst ?r \<noteq> Panic" using Suc.prems by (simp add: teardown_returns_def call_out_def)
  with Suc show ?case by (cases ?r) (auto split: outcome.split)
qed simp

lemma tear_down_forced:
  assumes "teardown_returns dp"
  shows "\<exists>o1. fst (tear_down dp True d s) = Inr o1"
proof -
  have "fst (call_out (CDestroy (d_name d)) (dk_destroy dk (d_name d)) s) \<noteq> Panic" if "docker_for dp d s = Inr dk" for dk
    using that assms by (cases rule: docker_for_cases) (auto simp: teardown_returns_def call_out_def)
  then show ?thesis
    using destroy_all_forced [OF assms]
    by (auto simp: tear_down_def split: sum.split prod.split outcome.split)
qed

lemma core_cleanup [simp]: "core (cleanup_deployment_cell_state flt i p) = core p"
  by (simp add: cleanup_deployment_cell_state_def Let_def)

lemma sys_after_delete:
  "sys (after_delete flt i tid uid g) =
     (if flt ''free replica ports'' then sys g
      else (sys g)\<lparr>reps := sql_update (\<lambda>r. r_deployment r = i) free_replica (reps (sys g))\<rparr>)"
  by (simp add: after_delete_def Let_def) (simp add: sys_def set_sys_def)

lemma delete_cases:
  assumes "delete_deployment flt fl who name force c = (x, h)"
  obtains (unloaded) e where "load_deployment_for_request flt who name (og c) = Inl e" "x = refuse e" "h = c"
  | (refused) st m where "x = Error st m" "h = c"
  | (failed) d p t r st m where "load_deployment_for_request flt who name (og c) = Inr (d, p, t, r)"
      "x = Error st m" "h = set_org (set_sys (snd (tear_down (fl_dp fl) force d (sys (og c)))) (og c)) c"
  | (deleted) d p t r f s1 where "load_deployment_for_request flt who name (og c) = Inr (d, p, t, r)" "can_admin_project r"
      "x = Answer 200 (d_name d)"
      "h = set_org (after_delete flt (d_id d) (tm_id t) (pr_user who)
             (set_sys (s1\<lparr>deps := sql_update (\<lambda>x. d_id x = d_id d) f (deps s1)\<rparr>) (og c))) c"
      "d_status d = DProvisioning \<and> f = soft_delete \<and> s1 = sys (og c)
       \<or> d_status d \<noteq> DProvisioning \<and> f = bury \<and> s1 = snd (tear_down (fl_dp fl) force d (sys (og c)))"
proof (cases "load_deployment_for_request flt who name (og c)")
  case (Inl e)
  show ?thesis by (rule that(1) [OF Inl]) (use assms Inl in \<open>simp_all add: delete_deployment_def\<close>)
next
  case (Inr y)
  obtain d p t r where l: "load_deployment_for_request flt who name (og c) = Inr (d, p, t, r)" using Inr by (cases y) auto
  note del = assms [unfolded delete_deployment_def l Let_def, simplified]
  consider (no_admin) "\<not> can_admin_project r"
    | (early) "can_admin_project r" "d_status d = DProvisioning"
    | (late) "can_admin_project r" "d_status d \<noteq> DProvisioning" by blast
  then show ?thesis
  proof cases
    case no_admin
    with del show ?thesis by (intro that(2) [of 403 "''forbidden''"]) simp_all
  next
    case early
    show ?thesis
    proof (cases "flt ''mark provisioning row deleted''")
      case True
      with early del show ?thesis by (intro that(2) [of 500 "''internal''"]) simp_all
    next
      case False
      with early del show ?thesis by (intro that(4) [OF l, of soft_delete "sys (og c)"]) simp_all
    qed
  next
    case late
    obtain e s1 where td: "tear_down (fl_dp fl) force d (sys (og c)) = (e, s1)" by fastforce
    show ?thesis
    proof (cases e)
      case (Inl z)
      with late del td show ?thesis by (intro that(3) [OF l, of "fst z" "snd z"]) (simp_all add: refuse_def)
    next
      case (Inr z)
      show ?thesis
      proof (cases "flt ''mark deleted''")
        case True
        with late del td Inr show ?thesis by (intro that(3) [OF l, of 500 "''internal''"]) simp_all
      next
        case False
        with late del td Inr show ?thesis by (intro that(4) [OF l, of bury s1]) simp_all
      qed
    qed
  qed
qed

text \<open>
  A delete that is answered with an error writes no row: the state is what the teardown calls left
  (\<open>I\<close> is whatever they keep), so the deployment stays listed and the delete can be repeated.
\<close>

theorem failed_delete_keeps_rows:
  assumes "delete_deployment flt fl who name force c = (Error st m, h)" and "teardown_keeps I (fl_dp fl)" and "I (sys (og c))"
  shows "I (sys (og h)) \<and> og h = set_sys (sys (og h)) (og c)"
  using assms(1)
proof (cases rule: delete_cases)
  case (failed d p t r st m)
  then show ?thesis using tear_down_keeps [OF assms(2,3)] by simp
qed (use assms(3) in auto)

theorem failed_delete_keeps_rows_witness:
  "\<exists>h. delete_deployment (\<lambda>l. l = ''mark deleted'') demo_fleet (as_user ''a'') ''happy-fox-1'' False demo_cloud = (Error 500 ''internal'', h)
    \<and> deps (sys (og h)) = [demo_dep ''d1'' DRunning]"
proof -
  let ?r = "delete_deployment (\<lambda>l. l = ''mark deleted'') demo_fleet (as_user ''a'') ''happy-fox-1'' False demo_cloud"
  have "(case ?r of (Error n m, h) \<Rightarrow> n = 500 \<and> m = ''internal'' | _ \<Rightarrow> False)" by code_simp
  then obtain h where e: "?r = (Error 500 ''internal'', h)" by (auto split: prod.splits resp.splits)
  from failed_delete_keeps_rows [where I = "\<lambda>s. deps s = [demo_dep ''d1'' DRunning]", OF e]
  show ?thesis by (simp add: e teardown_keeps_def log_call_def)
qed

text \<open>
  A forced delete by a project admin is always answered with 200, whatever Docker or the remote host
  answer, as long as they answer: no deployment is undeletable.
\<close>

theorem forced_delete_succeeds:
  assumes "load_deployment_for_request no_ofaults who name (og c) = Inr (d, p, t, RoleAdmin)"
    and "teardown_returns (fl_dp fl)"
  shows "fst (delete_deployment no_ofaults fl who name True c) = Answer 200 (d_name d)"
  using assms(1) tear_down_forced [OF assms(2), of d "sys (og c)"]
  by (auto simp: delete_deployment_def can_admin_project_def Let_def split: prod.split sum.split)

theorem forced_delete_succeeds_witness:
  "fst (delete_deployment no_ofaults demo_fleet (as_user ''a'') ''happy-fox-1'' True demo_cloud) = Answer 200 ''happy-fox-1''"
proof -
  have "(case load_deployment_for_request no_ofaults (as_user ''a'') ''happy-fox-1'' (og demo_cloud) of
      Inr (d, p, t, r) \<Rightarrow> r = RoleAdmin \<and> d_name d = ''happy-fox-1'' | _ \<Rightarrow> False)" by code_simp
  then obtain d p t where l: "load_deployment_for_request no_ofaults (as_user ''a'') ''happy-fox-1'' (og demo_cloud) = Inr (d, p, t, RoleAdmin)"
    "d_name d = ''happy-fox-1''" by (auto split: sum.splits)
  have "teardown_returns (fl_dp demo_fleet)" by (simp add: teardown_returns_def idle_def)
  from forced_delete_succeeds [OF l(1) this] l(2) show ?thesis by simp
qed



section \<open>Restart after an upgrade\<close>

text \<open>The row \<open>finishUpgradeSwap\<close> retired: index -1, no port, stopped.\<close>

definition retired_row :: "uuid \<Rightarrow> replica \<Rightarrow> bool" where
  "retired_row i r \<longleftrightarrow> r_deployment r = i \<and> r_index r = -1 \<and> r_port r = None"

lemma swap_retires:
  assumes "finish_upgrade_swap flt attempt gen j us s = (None, h)"
  shows "\<exists>r \<in> set (reps h). retired_row (cj_deployment j) r"
proof -
  have keep: "insert_replicas flt attempt gen dep us rs = Inr rs2 \<Longrightarrow> x \<in> set rs \<Longrightarrow> x \<in> set rs2" for x dep us rs rs2
    by (induction us arbitrary: rs) (fastforce split: if_splits option.splits)+
  obtain rs2 where ins: "insert_replicas flt attempt gen (cj_deployment j) us
      (sql_update (legacy_row (cj_deployment j)) retire_replica (reps s)) = Inr rs2" "reps h = rs2"
    and "0 < sql_count (legacy_row (cj_deployment j)) (reps s)"
    using assms by (auto simp: finish_upgrade_swap_def Let_def split: option.splits if_splits sum.splits)
  then obtain r where r: "r \<in> set (reps s)" "legacy_row (cj_deployment j) r" by (auto simp: sql)
  then have "retire_replica r \<in> set (sql_update (legacy_row (cj_deployment j)) retire_replica (reps s))"
    by (auto simp: sql image_iff)
  from keep [OF ins(1) this] ins(2) have "retire_replica r \<in> set (reps h)" by auto
  moreover have "retired_row (cj_deployment j) (retire_replica r)"
    using r(2) by (simp add: retired_row_def retire_replica_def legacy_row_def)
  ultimately show ?thesis by blast
qed

lemma restart_replicas_quiet:
  assumes "\<And>nm i s. call_out (CRestartReplica nm i) (dp_restart_replica dp nm i) s = (Ok (), log_call (CRestartReplica nm i) s)"
  shows "\<exists>cs. restart_replicas dp nm i n s = (Inr (), s\<lparr>calls := cs\<rparr>)"
proof (induction n arbitrary: i s)
  case 0
  have "s = s\<lparr>calls := calls s\<rparr>" by simp
  then show ?case unfolding restart_replicas.simps by metis
next
  case (Suc n)
  obtain cs where "restart_replicas dp nm (Suc i) n (log_call (CRestartReplica nm (int i)) s)
      = (Inr (), (log_call (CRestartReplica nm (int i)) s)\<lparr>calls := cs\<rparr>)"
    using Suc.IH by blast
  then show ?case using assms [of nm "int i" s] by (auto simp: log_call_def)
qed

lemma deployment_up_same: "d_id (deployment_up d) = d_id d" "d_name (deployment_up d) = d_name d"
  and deployment_up_status: "d_status (deployment_up d) = DRunning"
  by (simp_all add: deployment_up_def)

lemma in_pick_order [simp]: "set (pick_order rs) = set rs"
  by (auto simp: pick_order_def Let_def)

text \<open>
  Restarting a deployment that was upgraded to HA marks the retired row of the old replica as running
  (the statement updates every replica row of the deployment). In the mode that addresses containers by
  name the proxy then hands out the container of replica -1, which does not exist; and a rebuild of the
  containers gives up, because that row has no port. Names of deployments are unique.
\<close>

theorem restart_revives_retired:
  assumes "load_deployment_for_request no_ofaults who name (og c) = Inr (d, p, t, role)" and "can_edit_project role"
    and "d_ha d" and "0 < d_replica_count d" and "\<not> d_adopted d" and "d_status d = DRunning \<or> d_status d = DStopped"
    and "\<And>nm i s. call_out (CRestartReplica nm i) (dp_restart_replica (fl_dp fl) nm i) s = (Ok (), log_call (CRestartReplica nm i) s)"
    and "r \<in> set (reps (sys (og c)))" and "retired_row (d_id d) r"
    and "dep_named (d_name d) (sys (og c)) = Some d" and "find_dep (d_id d) (sys (og c)) = Some d"
    and "\<not> on_remote_host d (sys (og c))" and "rv_dns rv"
    and "restart_deployment no_ofaults fl who name c = (x, h)"
  shows "x = Answer 200 (d_name d)
    \<and> (\<exists>e. resolve_db rv (\<lambda>_. None) (d_name d) (sys (og h)) = Inr e \<and> ''convex-'' @ d_name d @ ''--1:3210'' \<in> set (ne_replicas e))
    \<and> rebuild_cors_and_restart no_ofaults fl (d_id d) (d_name d) (sys (og h)) = (Ok False, sys (og h))"
proof -
  obtain cs where cs: "restart_replicas (fl_dp fl) (d_name d) 0 (d_replica_count d) (sys (og c)) = (Inr (), (sys (og c))\<lparr>calls := cs\<rparr>)"
    using restart_replicas_quiet [OF assms(7)] by blast
  let ?s = "mark_restarted no_ofaults (d_id d) ((sys (og c))\<lparr>calls := cs\<rparr>)"
  have x: "x = Answer 200 (d_name d)" and h: "sys (og h) = ?s"
    using assms(1-6,14) cs by (auto simp: restart_deployment_def restart_containers_def)
  have deps: "deps ?s = sql_update (\<lambda>y. d_id y = d_id d \<and> d_status y \<noteq> DDeleted) deployment_up (deps (sys (og c)))"
    and reps: "reps ?s = sql_update (\<lambda>y. r_deployment y = d_id d) replica_up (reps (sys (og c)))"
    and hosts: "hosts ?s = hosts (sys (og c))"
    by (simp_all add: mark_restarted_def Let_def)
  have up: "sql_row q (sql_update (\<lambda>y. d_id y = d_id d \<and> d_status y \<noteq> DDeleted) deployment_up ds) = Some (deployment_up d)"
    if "sql_row q ds = Some d" "\<And>y. q (deployment_up y) = q y" for q and ds :: "deployment list"
    using that assms(6) by (induction ds) (auto split: if_splits)
  have named: "dep_named (d_name d) ?s = Some (deployment_up d)" "find_dep (d_id d) ?s = Some (deployment_up d)"
    using assms(10,11) unfolding dep_named_def find_dep_def deps
    by (auto intro!: up simp: deployment_up_status deployment_up_same)
  let ?r = "replica_up r"
  have mem: "?r \<in> set (reps ?s)" "r_status ?r = DRunning" "r_deployment ?r = d_id d" "r_index ?r = -1" "r_port ?r = None"
    using assms(8,9) by (auto simp: reps sql replica_up_def retired_row_def image_iff)
  have remote: "\<not> host_remote (deployment_up d) ?s"
    using assms(12) by (simp add: host_remote_def on_remote_host_def host_of_def find_host_def hosts deployment_up_def)
  have "sql_exists (\<lambda>y. d_id y = d_id d \<and> d_name y = d_name d) (deps ?s)"
    using sql_row_SomeD [OF named(1) [unfolded dep_named_def]]
    by (auto simp: sql deployment_up_same intro!: bexI [of _ "deployment_up d"])
  then have "?r \<in> set (running_replicas (d_name d) ?s)" using mem by (simp add: running_replicas_def)
  moreover have "replica_address rv (d_name d) True False tn ?r = Some (''convex-'' @ d_name d @ ''--1:3210'')" for tn
    using mem(4,5) assms(13) by (simp add: replica_address_def address_for_def fmt_d_def dec.simps digit_def)
  ultimately have "''convex-'' @ d_name d @ ''--1:3210'' \<in> set (List.map_filter (replica_address rv (d_name d) True False tn)
      (running_replicas (d_name d) ?s))" for tn
    by (auto simp: List.map_filter_def intro!: image_eqI [of _ _ ?r])
  with named(1) remote assms(3) have "\<exists>e. resolve_db rv (\<lambda>_. None) (d_name d) ?s = Inr e
      \<and> ''convex-'' @ d_name d @ ''--1:3210'' \<in> set (ne_replicas e)"
    by (auto simp: resolve_db_def Let_def deployment_up_def split: option.split) (metis empty_iff empty_set)+
  moreover have "list_ex (\<lambda>r. port_of (r_port r) = 0)
      (sort_key r_index (filter (\<lambda>r. r_deployment r = d_id d \<and> r_status r = DRunning) (reps ?s)))"
    using mem by (auto simp: list_ex_iff port_of_def intro!: bexI [of _ ?r])
  then have "rebuild_cors_and_restart no_ofaults fl (d_id d) (d_name d) ?s = (Ok False, ?s)"
    using named(2) assms(3)
    by (auto simp: rebuild_cors_and_restart_def rebuild_ha_cors_and_restart_def deployment_up_def Let_def split: option.split)
  ultimately show ?thesis using x h by simp
qed

definition demo_live_replica :: replica where
  "demo_live_replica = \<lparr>r_id = ''r1'', r_deployment = ''d1'', r_index = 0, r_container = Some ''c1'', r_port = Some 3210,
     r_status = DRunning, r_last_seen = None\<rparr>"

definition demo_upgraded :: cloud where
  "demo_upgraded = demo_cloud_of [(demo_dep ''d1'' DRunning)\<lparr>d_ha := True, d_replica_count := 2\<rparr>]
     [retire_replica demo_live_replica]"

theorem restart_revives_retired_witness:
  "rebuild_cors_and_restart no_ofaults demo_fleet ''d1'' ''happy-fox-1''
      (sys (og (snd (restart_deployment no_ofaults demo_fleet (as_user ''a'') ''happy-fox-1'' demo_upgraded))))
    = (Ok False, sys (og (snd (restart_deployment no_ofaults demo_fleet (as_user ''a'') ''happy-fox-1'' demo_upgraded))))"
proof -
  let ?d = "(demo_dep ''d1'' DRunning)\<lparr>d_ha := True, d_replica_count := 2\<rparr>"
  let ?r = "retire_replica demo_live_replica"
  have "(case load_deployment_for_request no_ofaults (as_user ''a'') ''happy-fox-1'' (og demo_upgraded) of
      Inr (d, p, t, r) \<Rightarrow> d = ?d \<and> r = RoleAdmin | _ \<Rightarrow> False)" by code_simp
  then obtain p t where l: "load_deployment_for_request no_ofaults (as_user ''a'') (d_name ?d) (og demo_upgraded) = Inr (?d, p, t, RoleAdmin)"
    by (auto simp: demo_dep_def split: sum.splits)
  obtain x h where e: "restart_deployment no_ofaults demo_fleet (as_user ''a'') (d_name ?d) demo_upgraded = (x, h)" by fastforce
  have "x = Answer 200 (d_name ?d)
    \<and> (\<exists>e. resolve_db demo_resolver (\<lambda>_. None) (d_name ?d) (sys (og h)) = Inr e \<and> ''convex-'' @ d_name ?d @ ''--1:3210'' \<in> set (ne_replicas e))
    \<and> rebuild_cors_and_restart no_ofaults demo_fleet (d_id ?d) (d_name ?d) (sys (og h)) = (Ok False, sys (og h))"
    by (rule restart_revives_retired [OF l, where r = ?r and rv = demo_resolver])
      (use e in \<open>auto simp: can_edit_project_def demo_dep_def demo_upgraded_def demo_cloud_of_def retired_row_def
        retire_replica_def demo_live_replica_def dep_named_def find_dep_def on_remote_host_def host_of_def find_host_def demo_host_def
        demo_resolver_def\<close>)
  then show ?thesis using e by (simp add: demo_dep_def)
qed

end
