(* ===== verification/Hosts.thy ===== *)
theory Hosts
  imports Fleet
begin

text \<open>
  The hosts Synapse places deployments on (api/hosts.go, api/remote_setup.go): their registry with the
  computed liveness, the tokens an agent joins with, and the removal of a host with everything that
  hangs on it. Every handler of this theory sits behind the gate of instance administrators.
\<close>

section \<open>Wiring\<close>

text \<open>The client of Headscale: the nodes with their addresses, the removal of a node, a new key.\<close>

record headscale =
  hs_nodes :: "(string \<times> string list) list ext"
  hs_delete :: "string \<Rightarrow> unit ext"
  hs_key :: "int \<Rightarrow> string ext"          \<comment> \<open>the key that expires at this time\<close>

text \<open>
  Durations are in microseconds. \<open>hw_teardown\<close> answers with the class of the result, or fails;
  \<open>hw_stamp\<close> is the time in the name of a token.
\<close>

record hosts_wiring =
  hw_api :: api
  hw_public_url :: string
  hw_stale :: int
  hw_offline :: int
  hw_headscale :: "headscale option"
  hw_server_url :: string
  hw_teardown :: "(target \<Rightarrow> string ext) option"
  hw_stamp :: "int \<Rightarrow> string"

definition host_stale_after :: "hosts_wiring \<Rightarrow> int" where
  "host_stale_after w = (if 0 < hw_stale w then hw_stale w else 60000000)"

definition host_offline_after :: "hosts_wiring \<Rightarrow> int" where
  "host_offline_after w = (if 0 < hw_offline w then hw_offline w else 300000000)"

definition set_pl :: "plane \<Rightarrow> org \<Rightarrow> org" where
  "set_pl p g = g\<lparr>pl := p\<rparr>"

lemma set_pl_fields [simp]:
  "pl (set_pl p g) = p" "users (set_pl p g) = users g" "teams (set_pl p g) = teams g" "members (set_pl p g) = members g"
  "projects (set_pl p g) = projects g" "pmembers (set_pl p g) = pmembers g" "audit (set_pl p g) = audit g"
  "dep_docs (set_pl p g) = dep_docs g" "sys (set_pl p g) = core p"
  by (simp_all add: set_pl_def sys_def)

section \<open>Liveness\<close>

fun host_status_text :: "host_status \<Rightarrow> string" where
  "host_status_text HOnline = ''online''"
| "host_status_text HOffline = ''offline''"
| "host_status_text HDraining = ''draining''"
| "host_status_text HUnknown = ''unknown''"

definition effective_host_status :: "int \<Rightarrow> int \<Rightarrow> int \<Rightarrow> host \<Rightarrow> string" where
  "effective_host_status stale offline t h =
     (if h_status h = HDraining then ''draining''
      else if h_self h then ''online''
      else case h_heartbeat h of
          None \<Rightarrow> host_status_text (h_status h)
        | Some b \<Rightarrow> if t - b \<le> stale then ''online'' else if t - b \<le> offline then ''stale'' else ''offline'')"

definition host_shown :: "hosts_wiring \<Rightarrow> org \<Rightarrow> host \<Rightarrow> host \<times> string" where
  "host_shown w g h = (h, effective_host_status (host_stale_after w) (host_offline_after w) (now g) h)"

section \<open>The registry\<close>

definition load_host :: "ofaults \<Rightarrow> string \<Rightarrow> org \<Rightarrow> refusal + host" where
  "load_host flt ref g =
     (case fetch flt ''load host'' (\<lambda>h. h_id h = ref \<or> h_name h = ref) (hosts (sys g)) of
        DbErr \<Rightarrow> Inl internal | NoRows \<Rightarrow> Inl (404, ''host_not_found'') | Row h \<Rightarrow> Inr h)"

definition list_hosts :: "ofaults \<Rightarrow> hosts_wiring \<Rightarrow> org \<Rightarrow> (host \<times> string) list resp" where
  "list_hosts flt w g =
     (if flt ''list hosts'' then Error 500 ''internal''
      else Answer 200 (map (host_shown w g) (sort_key (\<lambda>h. (\<not> h_self h, h_created h)) (hosts (sys g)))))"

definition get_host :: "ofaults \<Rightarrow> hosts_wiring \<Rightarrow> string \<Rightarrow> org \<Rightarrow> (host \<times> string) resp" where
  "get_host flt w ref g = (case load_host flt ref g of Inl e \<Rightarrow> refuse e | Inr h \<Rightarrow> Answer 200 (host_shown w g h))"

record create_host_req =
  nh_name :: string
  nh_provider :: string
  nh_region :: string
  nh_public_ip :: string
  nh_private_ip :: string
  nh_labels :: "(string \<times> string) list"
  nh_cpu :: "int option"
  nh_memory :: "int option"
  nh_disk :: "int option"

definition fresh_host :: "uuid \<Rightarrow> string \<Rightarrow> string \<Rightarrow> host_status \<Rightarrow> int \<Rightarrow> host" where
  "fresh_host i name provider st t = \<lparr>h_id = i, h_name = name, h_provider = provider, h_region = [],
     h_public_ip = None, h_private_ip = None, h_labels = [], h_status = st, h_agent_version = None,
     h_docker_version = None, h_cpu = None, h_memory_mb = None, h_disk = None, h_self = False, h_is_remote = False,
     h_tailnet = None, h_ssh_user = ''synapse-deployer'', h_ssh_port = 22, h_ssh_pubkey = None, h_ssh_key = None,
     h_fingerprint = None, h_heartbeat = None, h_created = t, h_updated = t\<rparr>"

definition host_name_taken :: "uuid \<Rightarrow> string \<Rightarrow> org \<Rightarrow> bool" where
  "host_name_taken i name g \<longleftrightarrow> sql_exists (\<lambda>h. h_id h \<noteq> i \<and> h_name h = name) (hosts (sys g))"

definition insert_host :: "host \<Rightarrow> org \<Rightarrow> org" where
  "insert_host h g = set_sys ((sys g)\<lparr>hosts := hosts (sys g) @ [h]\<rparr>) (took_id g)"

definition audit_host :: "ofaults \<Rightarrow> uuid \<Rightarrow> string \<Rightarrow> uuid \<Rightarrow> org \<Rightarrow> org" where
  "audit_host flt uid act i g = record_audit flt [] uid act ''host'' i g"

definition create_host ::
  "ofaults \<Rightarrow> hosts_wiring \<Rightarrow> uuid \<Rightarrow> create_host_req option \<Rightarrow> org \<Rightarrow> (host \<times> string) resp \<times> org" where
  "create_host flt w uid body g =
     (case body of None \<Rightarrow> (Error 400 ''bad_request'', g) | Some r \<Rightarrow>
      let name = trim_space (nh_name r); i = new_id (a_uuid (hw_api w)) g in
      if name = [] then (Error 400 ''missing_name'', g)
      else if 200 < length name then (Error 400 ''invalid_name'', g)
      else if flt ''insert host'' then (Error 500 ''internal'', g)
      else if host_name_taken i name g then (Error 409 ''host_name_taken'', g)
      else (let h = (fresh_host i name (or_default (trim_space (nh_provider r)) ''unknown'') HUnknown (now g))
                  \<lparr>h_region := trim_space (nh_region r), h_public_ip := null_str (nh_public_ip r),
                   h_private_ip := null_str (nh_private_ip r), h_labels := nh_labels r, h_cpu := nh_cpu r,
                   h_memory_mb := nh_memory r, h_disk := nh_disk r\<rparr>
            in (Answer 201 (host_shown w g h), audit_host flt uid ''createHost'' i (insert_host h g))))"

record update_host_req =
  uh_name :: "string option"
  uh_provider :: "string option"
  uh_region :: "string option"
  uh_public_ip :: "string option"
  uh_private_ip :: "string option"
  uh_status :: "string option"
  uh_labels :: "(string \<times> string) list option"

definition valid_host_status :: "string \<Rightarrow> host_status option" where
  "valid_host_status s = find (\<lambda>st. host_status_text st = s) [HOnline, HOffline, HDraining, HUnknown]"

definition given :: "'a option \<Rightarrow> 'a \<Rightarrow> 'a" where
  "given x old = (case x of None \<Rightarrow> old | Some v \<Rightarrow> v)"

definition trimmed_ip :: "string option \<Rightarrow> string option \<Rightarrow> string option" where
  "trimmed_ip x old = (case x of None \<Rightarrow> old | Some v \<Rightarrow> null_str (trim_space v))"

definition patched_host :: "update_host_req \<Rightarrow> host_status \<Rightarrow> host \<Rightarrow> host" where
  "patched_host r st h = h\<lparr>h_name := given (map_option trim_space (uh_name r)) (h_name h),
     h_provider := given (map_option trim_space (uh_provider r)) (h_provider h),
     h_region := given (map_option trim_space (uh_region r)) (h_region h),
     h_public_ip := trimmed_ip (uh_public_ip r) (h_public_ip h),
     h_private_ip := trimmed_ip (uh_private_ip r) (h_private_ip h),
     h_status := st, h_labels := given (uh_labels r) (h_labels h)\<rparr>"

text \<open>The columns of the \<open>UPDATE\<close>, from the row as it was loaded.\<close>

definition write_host :: "host \<Rightarrow> int \<Rightarrow> host \<Rightarrow> host" where
  "write_host x t h = h\<lparr>h_name := h_name x, h_provider := h_provider x, h_region := h_region x,
     h_public_ip := h_public_ip x, h_private_ip := h_private_ip x, h_status := h_status x, h_labels := h_labels x,
     h_updated := t\<rparr>"

definition update_host_row :: "uuid \<Rightarrow> (host \<Rightarrow> host) \<Rightarrow> org \<Rightarrow> org" where
  "update_host_row i f g = set_sys ((sys g)\<lparr>hosts := sql_update (\<lambda>h. h_id h = i) f (hosts (sys g))\<rparr>) g"

definition update_host ::
  "ofaults \<Rightarrow> hosts_wiring \<Rightarrow> uuid \<Rightarrow> string \<Rightarrow> update_host_req option \<Rightarrow> org \<Rightarrow> (host \<times> string) resp \<times> org" where
  "update_host flt w uid ref body g =
     (case load_host flt ref g of Inl e \<Rightarrow> (refuse e, g) | Inr h \<Rightarrow>
      (case body of None \<Rightarrow> (Error 400 ''bad_request'', g) | Some r \<Rightarrow>
       if (case uh_name r of None \<Rightarrow> False | Some n \<Rightarrow> trim_space n = [] \<or> 200 < length (trim_space n)) then
         (Error 400 ''invalid_name'', g)
       else (case (case uh_status r of None \<Rightarrow> Some (h_status h) | Some s \<Rightarrow> valid_host_status s) of
           None \<Rightarrow> (Error 400 ''invalid_status'', g)
         | Some st \<Rightarrow>
             (let x = patched_host r st h in
              if flt ''update host'' then (Error 500 ''internal'', g)
              else if host_name_taken (h_id h) (h_name x) g then (Error 409 ''host_name_taken'', g)
              else (Answer 200 (host_shown w g (write_host x (now g) h)),
                    audit_host flt uid ''updateHost'' (h_id h) (update_host_row (h_id h) (write_host x (now g)) g))))))"

definition drained :: "int \<Rightarrow> host \<Rightarrow> host" where
  "drained t h = h\<lparr>h_status := HDraining, h_updated := t\<rparr>"

definition drain_host :: "ofaults \<Rightarrow> hosts_wiring \<Rightarrow> uuid \<Rightarrow> string \<Rightarrow> org \<Rightarrow> (host \<times> string) resp \<times> org" where
  "drain_host flt w uid ref g =
     (case load_host flt ref g of Inl e \<Rightarrow> (refuse e, g) | Inr h \<Rightarrow>
      if flt ''drain host'' then (Error 500 ''internal'', g)
      else (Answer 200 (host_shown w g (drained (now g) h)),
            audit_host flt uid ''drainHost'' (h_id h) (update_host_row (h_id h) (drained (now g)) g)))"

section \<open>What is recorded of a host\<close>

definition load_active_desired_by_host :: "uuid \<Rightarrow> plane \<Rightarrow> desired_row list" where
  "load_active_desired_by_host i p = filter (\<lambda>r. ds_host r = i \<and> ds_status r = DsActive) (desired p)"

definition get_host_desired_state :: "ofaults \<Rightarrow> string \<Rightarrow> org \<Rightarrow> desired_row list resp" where
  "get_host_desired_state flt ref g =
     (case load_host flt ref g of Inl e \<Rightarrow> refuse e | Inr h \<Rightarrow>
      if flt ''host desired state'' then Error 500 ''internal''
      else Answer 200 (load_active_desired_by_host (h_id h) (pl g)))"

definition get_host_observed_state :: "ofaults \<Rightarrow> string \<Rightarrow> org \<Rightarrow> obs_row list resp" where
  "get_host_observed_state flt ref g =
     (case load_host flt ref g of Inl e \<Rightarrow> refuse e | Inr h \<Rightarrow>
      if flt ''host observed state'' then Error 500 ''internal''
      else Answer 200 (sort_key (\<lambda>r. (o_type r, o_key r)) (filter (\<lambda>r. o_host r = h_id h) (observed (pl g)))))"

section \<open>Agents\<close>

record agent_view =
  av_id :: uuid
  av_host :: uuid
  av_status :: agent_status
  av_seen :: "int option"
  av_created :: int
  av_updated :: int
  av_observed :: "(bool \<times> nat) option"  \<comment> \<open>Docker available, managed containers\<close>

definition summarize_observed :: "observed_payload option \<Rightarrow> (bool \<times> nat) option" where
  "summarize_observed p = map_option (\<lambda>x. (pay_docker x,
     if pay_containers x = [] then length (pay_names x) else length (pay_containers x))) p"

definition agent_shown :: "host_agent \<Rightarrow> agent_view" where
  "agent_shown x = \<lparr>av_id = ag_id x, av_host = ag_host x, av_status = ag_status x, av_seen = ag_seen x,
     av_created = ag_created x, av_updated = ag_updated x, av_observed = summarize_observed (ag_payload x)\<rparr>"

definition list_host_agents :: "ofaults \<Rightarrow> string \<Rightarrow> org \<Rightarrow> (string \<times> agent_view list) resp" where
  "list_host_agents flt ref g =
     (case load_host flt ref g of Inl e \<Rightarrow> refuse e | Inr h \<Rightarrow>
      if flt ''list host agents'' then Error 500 ''internal''
      else Answer 200 (text_of (h_agent_version h),
        map agent_shown (sort_key ag_created (filter (\<lambda>x. ag_host x = h_id h) (agents (pl g))))))"

definition update_agent :: "uuid \<Rightarrow> (host_agent \<Rightarrow> host_agent) \<Rightarrow> org \<Rightarrow> org" where
  "update_agent i f g = set_pl ((pl g)\<lparr>agents := sql_update (\<lambda>x. ag_id x = i) f (agents (pl g))\<rparr>) g"

definition revoke_agent :: "ofaults \<Rightarrow> uuid \<Rightarrow> string \<Rightarrow> org \<Rightarrow> unit resp \<times> org" where
  "revoke_agent flt uid i g =
     (case fetch flt ''revoke agent'' (\<lambda>x. ag_id x = i) (agents (pl g)) of
        NoRows \<Rightarrow> (Error 404 ''agent_not_found'', g)
      | DbErr \<Rightarrow> (Error 500 ''internal'', g)
      | Row x \<Rightarrow> (Answer 200 (), record_audit flt [] uid ''revokeHostAgent'' ''hostAgent'' i
          (update_agent i (\<lambda>x. x\<lparr>ag_status := AgRevoked, ag_updated := now g\<rparr>) g)))"

text \<open>The new token; the old one stops working, and a revoked agent is let in again.\<close>

definition rotate_agent_token :: "ofaults \<Rightarrow> hosts_wiring \<Rightarrow> uuid \<Rightarrow> string \<Rightarrow> org \<Rightarrow> string resp \<times> org" where
  "rotate_agent_token flt w uid i g =
     (case generate_token (hw_api w) ''syn_agent_'' g of None \<Rightarrow> (Error 500 ''internal'', g) | Some (plain, hash) \<Rightarrow>
      (case fetch flt ''rotate agent token'' (\<lambda>x. ag_id x = i) (agents (pl g)) of
         NoRows \<Rightarrow> (Error 404 ''agent_not_found'', took_id g)
       | DbErr \<Rightarrow> (Error 500 ''internal'', took_id g)
       | Row x \<Rightarrow>
           if sql_exists (\<lambda>y. ag_id y \<noteq> i \<and> ag_hash y = hash) (agents (pl g)) then (Error 500 ''internal'', took_id g)
           else (Answer 200 plain, record_audit flt [] uid ''rotateHostAgentToken'' ''hostAgent'' i
           (update_agent i (\<lambda>x. x\<lparr>ag_hash := hash, ag_status := AgOnline, ag_updated := now g\<rparr>) (took_id g)))))"

section \<open>Adoption tokens\<close>

record adoption_resp =
  ad_token :: string
  ad_id :: uuid
  ad_host :: uuid
  ad_name :: string
  ad_expires :: int
  ad_join :: string

text \<open>The lifetime in seconds: an hour by default, seven days at most.\<close>

definition adoption_ttl :: "int \<Rightarrow> int" where
  "adoption_ttl n = min (if n \<le> 0 then 3600 else n) (7 * 24 * 3600)"

definition insert_adoption :: "hosts_wiring \<Rightarrow> uuid \<Rightarrow> uuid \<Rightarrow> string \<Rightarrow> string \<Rightarrow> int \<Rightarrow> org \<Rightarrow> uuid \<times> org" where
  "insert_adoption w uid host hash name expires g =
     (let i = new_id (a_uuid (hw_api w)) g;
          k = \<lparr>at_id = i, at_host = Some host, at_hash = hash, at_name = name, at_expires = Some expires,
               at_used = None, at_revoked = None, at_creator = null_str uid, at_created = now g\<rparr>;
          g1 = took_id g
      in (i, set_pl ((pl g1)\<lparr>adoptions := adoptions (pl g1) @ [k]\<rparr>) g1))"

definition adoption_hash_taken :: "string \<Rightarrow> org \<Rightarrow> bool" where
  "adoption_hash_taken hash g \<longleftrightarrow> sql_exists (\<lambda>k. at_hash k = hash) (adoptions (pl g))"

text \<open>The body: unreadable, or the name and the lifetime.\<close>

definition create_adoption_token ::
  "ofaults \<Rightarrow> hosts_wiring \<Rightarrow> uuid \<Rightarrow> string \<Rightarrow> (string \<times> int) option \<Rightarrow> org \<Rightarrow> adoption_resp resp \<times> org" where
  "create_adoption_token flt w uid ref body g =
     (case load_host flt ref g of Inl e \<Rightarrow> (refuse e, g) | Inr h \<Rightarrow>
      (case body of None \<Rightarrow> (Error 400 ''bad_request'', g) | Some (name0, ttl) \<Rightarrow>
       (case generate_token (hw_api w) ''syn_'' g of None \<Rightarrow> (Error 500 ''internal'', g) | Some (plain, hash) \<Rightarrow>
        if flt ''insert adoption token'' \<or> adoption_hash_taken hash g then (Error 500 ''internal'', g)
        else (let name = trim_space name0; expires = now g + adoption_ttl ttl * 1000000 in
          case insert_adoption w uid (h_id h) hash name expires g of (i, g1) \<Rightarrow>
            (Answer 201 \<lparr>ad_token = plain, ad_id = i, ad_host = h_id h, ad_name = name, ad_expires = expires,
               ad_join = ''synapse-agent join --control-url '' @ or_default (hw_public_url w) ''<your-synapse-url>''
                 @ '' --token '' @ plain\<rparr>,
             audit_host flt uid ''createHostAdoptionToken'' (h_id h) g1)))))"

section \<open>The bundle for a remote host\<close>

record remote_setup_resp =
  rm_token :: string
  rm_key :: string
  rm_line :: string
  rm_expires :: int

definition one_liner :: "string \<Rightarrow> string \<Rightarrow> string \<Rightarrow> string" where
  "one_liner url key token = ''curl -fsSL '' @ url @ ''/v1/install_agent/script | sudo bash -s -- --control-url='' @ url
     @ '' --headscale-auth='' @ key @ '' --adoption-token='' @ token"

definition create_remote_setup ::
  "ofaults \<Rightarrow> hosts_wiring \<Rightarrow> uuid \<Rightarrow> string \<Rightarrow> org \<Rightarrow> remote_setup_resp resp \<times> org" where
  "create_remote_setup flt w uid i g =
     (case hw_headscale w of None \<Rightarrow> (Error 503 ''remote_hosts_disabled'', g) | Some hs \<Rightarrow>
      if hw_server_url w = [] then (Error 503 ''remote_hosts_disabled'', g)
      else (case fetch flt ''remote_setup: load host'' (\<lambda>h. h_id h = i) (hosts (sys g)) of
          NoRows \<Rightarrow> (Error 404 ''host_not_found'', g)
        | DbErr \<Rightarrow> (Error 500 ''internal'', g)
        | Row h \<Rightarrow>
            (case generate_token (hw_api w) ''syn_adopt_'' g of None \<Rightarrow> (Error 500 ''internal'', g) | Some (plain, hash) \<Rightarrow>
             if flt ''remote_setup: insert adoption token'' \<or> adoption_hash_taken hash g then (Error 500 ''internal'', g)
             else (let expires = now g + 3600000000 in
               case insert_adoption w uid i hash (''remote-setup-'' @ hw_stamp w (now g)) expires g of (_, g1) \<Rightarrow>
                 (case call_out (CHeadscale ''key'' []) (hs_key hs expires) (sys g1) of
                    (Panic, s) \<Rightarrow> (Error 500 [], set_sys s g1)
                  | (Err _, s) \<Rightarrow> (Error 502 ''headscale_unreachable'', set_sys s g1)
                  | (Ok key, s) \<Rightarrow>
                      (Answer 201 \<lparr>rm_token = plain, rm_key = key, rm_line = one_liner (hw_public_url w) key plain,
                         rm_expires = expires\<rparr>,
                       audit_host flt uid ''mintRemoteSetup'' i (set_sys s g1)))))))"

section \<open>Removal\<close>

text \<open>The teardown on the box and the removal of its node; the result is what is reported of each.\<close>

definition deregister_headscale_node :: "hosts_wiring \<Rightarrow> string \<Rightarrow> state \<Rightarrow> string outcome \<times> state" where
  "deregister_headscale_node w addr s =
     (case hw_headscale w of None \<Rightarrow> (Ok ''skipped'', s) | Some hs \<Rightarrow>
      if addr = [] then (Ok ''skipped'', s)
      else (case call_out (CHeadscale ''nodes'' []) (hs_nodes hs) s of
          (Panic, s1) \<Rightarrow> (Panic, s1)
        | (Err _, s1) \<Rightarrow> (Ok ''failed'', s1)
        | (Ok ns, s1) \<Rightarrow>
            (case find (\<lambda>n. addr \<in> set (snd n)) ns of
               None \<Rightarrow> (Ok ''not_found'', s1)
             | Some n \<Rightarrow>
                 (case call_out (CHeadscale ''delete'' (fst n)) (hs_delete hs (fst n)) s1 of
                    (Panic, s2) \<Rightarrow> (Panic, s2)
                  | (Err _, s2) \<Rightarrow> (Ok ''failed'', s2)
                  | (Ok _, s2) \<Rightarrow> (Ok ''ok'', s2)))))"

definition teardown_agent :: "hosts_wiring \<Rightarrow> target \<Rightarrow> state \<Rightarrow> string outcome \<times> state" where
  "teardown_agent w t s =
     (case hw_teardown w of None \<Rightarrow> (Ok ''skipped'', s) | Some f \<Rightarrow>
      if tg_tailnet t = [] then (Ok ''skipped'', s)
      else (case call_out (CSsh (tg_tailnet t) ''synapse-agent-teardown'') (f t) s of
          (Panic, s1) \<Rightarrow> (Panic, s1)
        | (Err _, s1) \<Rightarrow> (Ok ''failed'', s1)
        | (Ok st, s1) \<Rightarrow> (Ok (or_default st ''failed''), s1)))"

definition ssh_coordinates :: "ofaults \<Rightarrow> uuid \<Rightarrow> state \<Rightarrow> target" where
  "ssh_coordinates flt i s =
     (case (if flt ''load host ssh coords for teardown'' then None else find_host i s) of
        None \<Rightarrow> \<lparr>tg_host = i, tg_tailnet = [], tg_user = [], tg_port = 0\<rparr>
      | Some h \<Rightarrow> \<lparr>tg_host = i, tg_tailnet = text_of (h_tailnet h), tg_user = h_ssh_user h, tg_port = h_ssh_port h\<rparr>)"

text \<open>\<open>None\<close> is a panic; otherwise the results of the two steps, if they were due.\<close>

definition decommission ::
  "ofaults \<Rightarrow> hosts_wiring \<Rightarrow> bool \<Rightarrow> uuid \<Rightarrow> state \<Rightarrow> (string \<times> string) option option \<times> state" where
  "decommission flt w due i s =
     (if \<not> due then (Some None, s)
      else (let t = ssh_coordinates flt i s in
        case teardown_agent w t s of
          (Ok a, s1) \<Rightarrow>
            (case deregister_headscale_node w (tg_tailnet t) s1 of
               (Ok b, s2) \<Rightarrow> (Some (Some (a, b)), s2)
             | (_, s2) \<Rightarrow> (None, s2))
        | (_, s1) \<Rightarrow> (None, s1)))"

definition live_on_host :: "uuid \<Rightarrow> deployment \<Rightarrow> bool" where
  "live_on_host i d \<longleftrightarrow> d_host d = i \<and> d_status d \<noteq> DDeleted"

definition busy_on_host :: "uuid \<Rightarrow> state \<Rightarrow> bool" where
  "busy_on_host i s \<longleftrightarrow> sql_exists (\<lambda>j. (j_status j = JPending \<or> j_status j = JClaimed)
     \<and> sql_exists (\<lambda>d. d_id d = j_deployment j \<and> d_host d = i) (deps s)) (jobs s)"

definition forget :: "uuid set \<Rightarrow> uuid option \<Rightarrow> uuid option" where
  "forget D x = (case x of Some i \<Rightarrow> if i \<in> D then None else x | None \<Rightarrow> None)"

text \<open>What the foreign keys do when the row of the host goes.\<close>

definition drop_host_rows :: "uuid \<Rightarrow> plane \<Rightarrow> plane" where
  "drop_host_rows i p =
     (let A = ag_id ` set (filter (\<lambda>x. ag_host x = i) (agents p));
          D = ds_id ` set (filter (\<lambda>r. ds_host r = i) (desired p));
          B = o_id ` set (filter (\<lambda>r. o_host r = i) (observed p));
          R = dr_id ` set (filter (\<lambda>r. dr_host r = Some i) (reports p))
      in p\<lparr>agents := filter (\<lambda>x. ag_host x \<noteq> i) (agents p),
           adoptions := filter (\<lambda>k. at_host k \<noteq> Some i) (adoptions p),
           desired := filter (\<lambda>r. ds_host r \<noteq> i) (desired p),
           observed := map (\<lambda>r. r\<lparr>o_agent := forget A (o_agent r)\<rparr>) (filter (\<lambda>r. o_host r \<noteq> i) (observed p)),
           reports := filter (\<lambda>r. dr_host r \<noteq> Some i) (reports p),
           items := map (\<lambda>(q, x). (q, x\<lparr>it_host := forget {i} (it_host x), it_desired := forget D (it_desired x),
             it_observed := forget B (it_observed x)\<rparr>)) (filter (\<lambda>x. fst x \<notin> R) (items p)),
           cells := map (\<lambda>c. c\<lparr>ce_host := forget {i} (ce_host c)\<rparr>) (cells p),
           placements := map (\<lambda>x. x\<lparr>pl_host := forget {i} (pl_host x)\<rparr>) (placements p),
           run_docs := map (\<lambda>d. d\<lparr>rd_host := forget {i} (rd_host d)\<rparr>) (run_docs p)\<rparr>)"

text \<open>
  The history moves to the host of Synapse itself. Without such a host it has nowhere to go: the column
  refuses NULL.
\<close>

definition reassign_history :: "ofaults \<Rightarrow> uuid \<Rightarrow> state \<Rightarrow> deployment list option" where
  "reassign_history flt i s =
     (if flt ''reassign soft-deleted deployments'' then None
      else (case sql_row h_self (hosts s) of
          None \<Rightarrow> if sql_exists (\<lambda>d. d_host d = i \<and> d_status d = DDeleted) (deps s) then None else Some (deps s)
        | Some x \<Rightarrow> Some (sql_update (\<lambda>d. d_host d = i \<and> d_status d = DDeleted) (\<lambda>d. d\<lparr>d_host := h_id x\<rparr>) (deps s))))"

text \<open>The transaction: the guard again, the history, the row. Its failure changes nothing.\<close>

definition delete_host_tx :: "ofaults \<Rightarrow> uuid \<Rightarrow> plane \<Rightarrow> refusal + plane" where
  "delete_host_tx flt i p =
     (let s = core p in
      if flt ''begin delete host tx'' \<or> flt ''lock host for delete'' \<or> flt ''recheck host deployments'' then Inl internal
      else if sql_exists (live_on_host i) (deps s) then Inl (409, ''host_has_deployments'')
      else (case reassign_history flt i s of None \<Rightarrow> Inl internal | Some ds \<Rightarrow>
        if flt ''delete host'' \<or> sql_exists (\<lambda>d. d_host d = i) ds \<or> flt ''commit delete host'' then Inl internal
        else Inr (drop_host_rows i (p\<lparr>core := s\<lparr>deps := ds, hosts := filter (\<lambda>h. h_id h \<noteq> i) (hosts s)\<rparr>\<rparr>))))"

definition delete_host ::
  "ofaults \<Rightarrow> hosts_wiring \<Rightarrow> uuid \<Rightarrow> string \<Rightarrow> bool \<Rightarrow> org \<Rightarrow> (string \<times> string) option resp \<times> org" where
  "delete_host flt w uid ref skip g =
     (case load_host flt ref g of Inl e \<Rightarrow> (refuse e, g) | Inr h \<Rightarrow>
      if h_self h then (Error 409 ''cannot_remove_self_host'', g)
      else if flt ''count host deployments'' then (Error 500 ''internal'', g)
      else if sql_exists (live_on_host (h_id h)) (deps (sys g)) then (Error 409 ''host_has_deployments'', g)
      else if flt ''count host provisioning jobs'' then (Error 500 ''internal'', g)
      else if busy_on_host (h_id h) (sys g) then (Error 409 ''host_has_pending_jobs'', g)
      else (case decommission flt w (h_is_remote h \<and> \<not> skip) (h_id h) (sys g) of
          (None, s) \<Rightarrow> (Error 500 [], set_sys s g)
        | (Some cleanup, s) \<Rightarrow>
            (let g1 = set_sys s g in
             case delete_host_tx flt (h_id h) (pl g1) of
               Inl e \<Rightarrow> (refuse e, g1)
             | Inr p \<Rightarrow> (Answer 200 cleanup, audit_host flt uid ''deleteHost'' (h_id h) (set_pl p g1)))))"

end
