(* ===== verification/Agents.thy ===== *)
theory Agents
  imports Hosts
begin

text \<open>
  The endpoints of the agents (api/agents.go): the registration, which claims an adoption token and
  binds a new agent to its host in one transaction, and the requests an agent authenticates with its own
  token. The heartbeat itself is in \<open>Observed\<close>.
\<close>

section \<open>Wiring and request\<close>

text \<open>\<open>aw_fingerprint\<close> is the fingerprint of a public key, if it can be parsed.\<close>

record agents_wiring =
  aw_api :: api
  aw_public_url :: string
  aw_observed :: bool
  aw_desired :: bool
  aw_box :: "secret_box option"
  aw_fingerprint :: "string \<Rightarrow> string option"

record agent_register_req =
  rq_token :: string
  rq_hostname :: string
  rq_agent_version :: string
  rq_docker_version :: string
  rq_cpu :: "int option"
  rq_memory :: "int option"
  rq_disk :: "int option"
  rq_tailnet :: string
  rq_pubkey :: string
  rq_user :: string
  rq_port :: "int option"
  rq_public_ip :: string
  rq_privkey :: string

record agent_register_resp =
  rp_host :: uuid
  rp_agent :: uuid
  rp_token :: string

section \<open>register\<close>

definition token_claimable :: "int \<Rightarrow> string \<Rightarrow> adoption_token \<Rightarrow> bool" where
  "token_claimable t hash k \<longleftrightarrow> at_hash k = hash \<and> at_used k = None \<and> at_revoked k = None
     \<and> (case at_expires k of None \<Rightarrow> True | Some e \<Rightarrow> t < e)"

text \<open>Why the claim failed; only the answer depends on it.\<close>

definition deny_adoption_token :: "ofaults \<Rightarrow> string \<Rightarrow> org \<Rightarrow> 'a resp" where
  "deny_adoption_token flt hash g =
     (case fetch flt ''deny adoption token'' (\<lambda>k. at_hash k = hash) (adoptions (pl g)) of
        Row k \<Rightarrow>
          if at_revoked k \<noteq> None then Error 401 ''adoption_token_revoked''
          else if at_used k \<noteq> None then Error 401 ''adoption_token_used''
          else if (case at_expires k of None \<Rightarrow> False | Some e \<Rightarrow> e \<le> now g) then Error 401 ''adoption_token_expired''
          else Error 401 ''invalid_adoption_token''
      | _ \<Rightarrow> Error 401 ''invalid_adoption_token'')"

definition claim_token :: "string \<Rightarrow> org \<Rightarrow> org" where
  "claim_token hash g = set_pl ((pl g)\<lparr>adoptions := sql_update (token_claimable (now g) hash)
     (\<lambda>k. k\<lparr>at_used := Some (now g)\<rparr>) (adoptions (pl g))\<rparr>) g"

definition host_from_hostname :: "string \<Rightarrow> string" where
  "host_from_hostname n = or_default (trim_space n) ''agent-host''"

text \<open>The host of the token, or a new one for a token without a host.\<close>

definition resolve_or_create_host ::
  "ofaults \<Rightarrow> agents_wiring \<Rightarrow> uuid option \<Rightarrow> string \<Rightarrow> org \<Rightarrow> (uuid \<times> org) option" where
  "resolve_or_create_host flt w bound hostname g =
     (case bound of Some i \<Rightarrow> Some (i, g) | None \<Rightarrow>
      let i = new_id (a_uuid (aw_api w)) g; name = host_from_hostname hostname in
      if flt ''create host for agent'' \<or> host_name_taken i name g then None
      else Some (i, insert_host (fresh_host i name ''unknown'' HOnline (now g)) g))"

definition agent_name :: "string \<Rightarrow> string" where
  "agent_name n = or_default (trim_space n) ''synapse-agent''"

definition new_agent :: "uuid \<Rightarrow> uuid \<Rightarrow> string \<Rightarrow> string \<Rightarrow> int \<Rightarrow> host_agent" where
  "new_agent i host name hash t = \<lparr>ag_id = i, ag_host = host, ag_name = name, ag_hash = hash, ag_status = AgOnline,
     ag_seen = Some t, ag_payload = None, ag_created = t, ag_updated = t\<rparr>"

definition insert_agent :: "agents_wiring \<Rightarrow> uuid \<Rightarrow> string \<Rightarrow> string \<Rightarrow> org \<Rightarrow> uuid \<times> org" where
  "insert_agent w host name hash g =
     (let i = new_id (a_uuid (aw_api w)) g; g1 = took_id g
      in (i, set_pl ((pl g1)\<lparr>agents := agents (pl g1) @ [new_agent i host name hash (now g)]\<rparr>) g1))"

text \<open>
  The address and the key of a remote host. The columns are overwritten with what was sent, also when
  one of the two was not: \<open>tailnet_addr = NULLIF($2, '')\<close>.
\<close>

definition remote_fields :: "agent_register_req \<Rightarrow> host \<Rightarrow> host" where
  "remote_fields r h = h\<lparr>h_tailnet := null_str (trim_space (rq_tailnet r)), h_ssh_pubkey := null_str (trim_space (rq_pubkey r)),
     h_ssh_user := or_default (trim_space (rq_user r)) ''synapse-deployer'',
     h_ssh_port := (case rq_port r of Some p \<Rightarrow> if 0 < p then p else 22 | None \<Rightarrow> 22), h_is_remote := True,
     h_public_ip := reported_or (null_str (trim_space (rq_public_ip r))) (h_public_ip h)\<rparr>"

definition tailnet_taken :: "uuid \<Rightarrow> string \<Rightarrow> org \<Rightarrow> bool" where
  "tailnet_taken i addr g \<longleftrightarrow> addr \<noteq> [] \<and> sql_exists (\<lambda>h. h_id h \<noteq> i \<and> h_tailnet h = Some addr) (hosts (sys g))"

definition apply_remote_fields :: "ofaults \<Rightarrow> agent_register_req \<Rightarrow> uuid \<Rightarrow> org \<Rightarrow> refusal + org" where
  "apply_remote_fields flt r i g =
     (if trim_space (rq_tailnet r) = [] \<and> trim_space (rq_pubkey r) = [] then Inr g
      else if flt ''apply remote host fields on register'' \<or> tailnet_taken i (trim_space (rq_tailnet r)) g then Inl internal
      else Inr (update_host_row i (remote_fields r) g))"

definition apply_privkey :: "ofaults \<Rightarrow> agents_wiring \<Rightarrow> agent_register_req \<Rightarrow> uuid \<Rightarrow> org \<Rightarrow> refusal + org" where
  "apply_privkey flt w r i g =
     (if trim_space (rq_privkey r) = [] then Inr g
      else case aw_box w of None \<Rightarrow> Inl (503, ''crypto_disabled'') | Some box \<Rightarrow>
        (case sb_encrypt box (rq_privkey r) of Inl _ \<Rightarrow> Inl internal | Inr enc \<Rightarrow>
         if flt ''apply host ssh privkey on register'' then Inl internal
         else Inr (update_host_row i (\<lambda>h. h\<lparr>h_ssh_key := Some enc,
                h_fingerprint := (case aw_fingerprint w (trim_space (rq_pubkey r)) of None \<Rightarrow> None | Some f \<Rightarrow> null_str f)\<rparr>) g)))"

text \<open>The transaction behind the claim; \<open>Inl\<close> rolls the claim back too.\<close>

definition join_host ::
  "ofaults \<Rightarrow> agents_wiring \<Rightarrow> agent_register_req \<Rightarrow> string \<Rightarrow> uuid option \<Rightarrow> org \<Rightarrow> refusal + (uuid \<times> uuid) \<times> org" where
  "join_host flt w r ahash bound g =
     (case resolve_or_create_host flt w bound (rq_hostname r) g of None \<Rightarrow> Inl internal | Some (i, g1) \<Rightarrow>
      if flt ''insert host_agent'' \<or> sql_exists (\<lambda>x. ag_hash x = ahash) (agents (pl g1)) then Inl internal
      else (case insert_agent w i (agent_name (rq_hostname r)) ahash g1 of (a, g2) \<Rightarrow>
        if flt ''apply host facts on register'' then Inl internal
        else (case apply_remote_fields flt r i (set_sys (apply_host_facts i (rq_agent_version r) (rq_docker_version r)
                      (rq_cpu r) (rq_memory r) (rq_disk r) (sys g2)) g2) of
            Inl e \<Rightarrow> Inl e
          | Inr g3 \<Rightarrow>
              (case apply_privkey flt w r i g3 of
                 Inl e \<Rightarrow> Inl e
               | Inr g4 \<Rightarrow> if flt ''agent register commit'' then Inl internal else Inr ((i, a), g4)))))"

definition register_agent ::
  "ofaults \<Rightarrow> agents_wiring \<Rightarrow> agent_register_req option \<Rightarrow> org \<Rightarrow> agent_register_resp resp \<times> org" where
  "register_agent flt w body g =
     (case body of None \<Rightarrow> (Error 400 ''bad_request'', g) | Some r \<Rightarrow>
      if trim_space (rq_token r) = [] then (Error 400 ''missing_token'', g)
      else (case generate_token (aw_api w) ''syn_agent_'' g of None \<Rightarrow> (Error 500 ''internal'', g) | Some (plain, ahash) \<Rightarrow>
        let hash = a_sha256 (aw_api w) (trim_space (rq_token r)); g0 = took_id g in
        if flt ''agent register begin'' \<or> flt ''claim adoption token'' then (Error 500 ''internal'', g0)
        else (case sql_row (token_claimable (now g) hash) (adoptions (pl g)) of
            None \<Rightarrow> (deny_adoption_token flt hash g0, g0)
          | Some k \<Rightarrow>
              (case join_host flt w r ahash (at_host k) (claim_token hash g0) of
                 Inl e \<Rightarrow> (refuse e, g0)
               | Inr ((i, a), g1) \<Rightarrow> (Answer 201 \<lparr>rp_host = i, rp_agent = a, rp_token = plain\<rparr>, g1)))))"

section \<open>Requests of an agent\<close>

definition agent_bearer :: "string \<Rightarrow> string" where
  "agent_bearer header = (if has_prefix header ''Bearer '' then trim_space (drop (length ''Bearer '') header) else [])"

definition authenticate_agent :: "ofaults \<Rightarrow> agents_wiring \<Rightarrow> string \<Rightarrow> org \<Rightarrow> refusal + uuid \<times> uuid" where
  "authenticate_agent flt w header g =
     (let tok = agent_bearer header in
      if tok = [] then Inl (401, ''missing_authorization'')
      else case fetch flt ''agent token lookup'' (\<lambda>x. ag_hash x = a_sha256 (aw_api w) tok \<and> ag_status x \<noteq> AgRevoked)
                (agents (pl g)) of
          NoRows \<Rightarrow> Inl (401, ''invalid_agent_token'')
        | DbErr \<Rightarrow> Inl internal
        | Row x \<Rightarrow> Inr (ag_id x, ag_host x))"

definition agent_heartbeat ::
  "ofaults \<Rightarrow> pfaults \<Rightarrow> agents_wiring \<Rightarrow> string \<Rightarrow> heartbeat_req option \<Rightarrow> org \<Rightarrow> uuid resp \<times> org" where
  "agent_heartbeat flt pf w header body g =
     (case authenticate_agent flt w header g of Inl e \<Rightarrow> (refuse e, g) | Inr (a, h) \<Rightarrow>
      (case body of None \<Rightarrow> (Error 400 ''bad_request'', g) | Some req \<Rightarrow>
       (case heartbeat pf (a_uuid (aw_api w)) (aw_observed w) h a req (pl g) of
          (True, p) \<Rightarrow> (Answer 200 h, set_pl p g)
        | (False, p) \<Rightarrow> (Error 500 ''internal'', set_pl p g))))"

definition agent_desired_state :: "ofaults \<Rightarrow> agents_wiring \<Rightarrow> string \<Rightarrow> org \<Rightarrow> desired_row list resp" where
  "agent_desired_state flt w header g =
     (case authenticate_agent flt w header g of Inl e \<Rightarrow> refuse e | Inr (a, h) \<Rightarrow>
      if \<not> aw_desired w then Answer 200 []
      else if flt ''agent desired_state load'' then Error 500 ''internal''
      else Answer 200 (load_active_desired_by_host h (pl g)))"

end
