(* ===== verification/HostProps.thy ===== *)
theory HostProps
  imports Agents CloudSamples
begin

text \<open>
  Hosts and their agents: an adoption token lets one agent in, an agent reaches its own host only, a
  removed host leaves no row behind, and two ways in which a write undoes an earlier decision.
\<close>

section \<open>A host with an agent, for the witnesses\<close>

definition demo_remote :: host where
  "demo_remote = demo_host\<lparr>h_id := ''h2'', h_name := ''edge'', h_self := False, h_is_remote := True,
     h_tailnet := Some ''100.64.0.2''\<rparr>"

definition demo_agents_wiring :: agents_wiring where
  "demo_agents_wiring = \<lparr>aw_api = demo_api, aw_public_url = [], aw_observed = True, aw_desired = True, aw_box = None,
     aw_fingerprint = (\<lambda>_. None)\<rparr>"

definition demo_hosts_wiring :: hosts_wiring where
  "demo_hosts_wiring = \<lparr>hw_api = demo_api, hw_public_url = [], hw_stale = 0, hw_offline = 0, hw_headscale = None,
     hw_server_url = [], hw_teardown = None, hw_stamp = (\<lambda>_. [])\<rparr>"

definition demo_join :: adoption_token where
  "demo_join = \<lparr>at_id = ''k1'', at_host = Some ''h2'', at_hash = ''syn_join'', at_name = [], at_expires = Some 5000,
     at_used = None, at_revoked = None, at_creator = None, at_created = 0\<rparr>"

definition demo_park :: org where
  "demo_park = set_pl ((bare_plane (empty_state\<lparr>deps := [demo_dep ''d1'' DRunning], hosts := [demo_host, demo_remote],
     clock := 1000\<rparr>))\<lparr>agents := [new_agent ''ag1'' ''h2'' ''edge'' ''syn_agent_1'' 0], adoptions := [demo_join]\<rparr>) demo_org"

definition demo_registration :: agent_register_req where
  "demo_registration = \<lparr>rq_token = ''syn_join'', rq_hostname = ''edge'', rq_agent_version = [], rq_docker_version = [],
     rq_cpu = None, rq_memory = None, rq_disk = None, rq_tailnet = [], rq_pubkey = ''ssh-ed25519'', rq_user = [],
     rq_port = None, rq_public_ip = [], rq_privkey = []\<rparr>"

lemmas park_defs = demo_remote_def demo_agents_wiring_def demo_hosts_wiring_def demo_join_def demo_park_def
  demo_registration_def demo_host_def

section \<open>The shape of a registration\<close>

lemma pl_set_sys [simp]: "pl (set_sys s g) = (pl g)\<lparr>core := s\<rparr>"
  by (simp add: set_sys_def)

lemma plane_of_took [simp]: "adoptions (pl (took_id g)) = adoptions (pl g)" "agents (pl (took_id g)) = agents (pl g)"
  by (simp_all add: took_id_def drawn_def)

lemma set_sys_set_pl [simp]: "set_sys s (set_pl p g) = set_pl (p\<lparr>core := s\<rparr>) g"
  by (simp add: set_sys_def set_pl_def)

lemma now_set_pl [simp]: "now (set_pl p g) = clock (core p)"
  by (simp add: now_def)

lemma now_set_sys [simp]: "now (set_sys s g) = clock s"
  by (simp add: now_def)

lemma core_is_sys: "core (pl g) = sys g"
  by (simp add: sys_def)

lemma update_host_row_fields [simp]:
  "adoptions (pl (update_host_row i f g)) = adoptions (pl g)" "agents (pl (update_host_row i f g)) = agents (pl g)"
  "now (update_host_row i f g) = now g" "hosts (sys (update_host_row i f g)) = sql_update (\<lambda>h. h_id h = i) f (hosts (sys g))"
  by (simp_all add: update_host_row_def now_def)

lemma insert_host_fields [simp]:
  "adoptions (pl (insert_host h g)) = adoptions (pl g)" "now (insert_host h g) = now g"
  "hosts (sys (insert_host h g)) = hosts (sys g) @ [h]" "agents (pl (insert_host h g)) = agents (pl g)"
  by (simp_all add: insert_host_def now_def)

lemma resolve_fields:
  assumes "resolve_or_create_host flt w bound n g = Some (i, g1)"
  shows "adoptions (pl g1) = adoptions (pl g)" "now g1 = now g" "agents (pl g1) = agents (pl g)"
    "bound = Some i \<Longrightarrow> g1 = g" "bound \<noteq> None \<Longrightarrow> bound = Some i"
  using assms by (auto simp: resolve_or_create_host_def Let_def split: option.splits if_splits)

lemma remote_apply_fields:
  assumes "apply_remote_fields flt r i g = Inr h"
  shows "adoptions (pl h) = adoptions (pl g)" "now h = now g" "agents (pl h) = agents (pl g)"
  using assms by (auto simp: apply_remote_fields_def split: if_splits)

lemma privkey_apply_fields:
  assumes "apply_privkey flt w r i g = Inr h"
  shows "adoptions (pl h) = adoptions (pl g)" "now h = now g" "agents (pl h) = agents (pl g)"
  using assms by (auto simp: apply_privkey_def split: if_splits option.splits sum.splits)

lemma clock_host_facts [simp]: "clock (apply_host_facts i a d c m k s) = clock s"
  by (simp add: apply_host_facts_def)

lemma join_host_shape:
  assumes "join_host flt w r ahash bound g = Inr ((i, a), h)"
  obtains g1 g2 g3 where "resolve_or_create_host flt w bound (rq_hostname r) g = Some (i, g1)"
    "insert_agent w i (agent_name (rq_hostname r)) ahash g1 = (a, g2)"
    "apply_remote_fields flt r i (set_sys (apply_host_facts i (rq_agent_version r) (rq_docker_version r)
       (rq_cpu r) (rq_memory r) (rq_disk r) (sys g2)) g2) = Inr g3" "apply_privkey flt w r i g3 = Inr h"
proof -
  obtain i' g1 where 1: "resolve_or_create_host flt w bound (rq_hostname r) g = Some (i', g1)"
    using assms by (auto simp: join_host_def split: option.splits)
  obtain a' g2 where 2: "insert_agent w i' (agent_name (rq_hostname r)) ahash g1 = (a', g2)" by fastforce
  obtain g3 where 3: "apply_remote_fields flt r i' (set_sys (apply_host_facts i' (rq_agent_version r) (rq_docker_version r)
       (rq_cpu r) (rq_memory r) (rq_disk r) (sys g2)) g2) = Inr g3"
    using assms by (auto simp: join_host_def 1 2 split: if_splits sum.splits)
  have 4: "apply_privkey flt w r i' g3 = Inr h \<and> i' = i \<and> a' = a"
    using assms by (auto simp: join_host_def 1 2 3 split: if_splits sum.splits)
  show thesis using that 1 2 3 4 by auto
qed

lemma join_host_adoptions:
  assumes "join_host flt w r ahash bound g = Inr (ia, h)"
  shows "adoptions (pl h) = adoptions (pl g) \<and> now h = now g"
proof -
  obtain i a where ia: "ia = (i, a)" by fastforce
  show ?thesis using assms unfolding ia
  proof (rule join_host_shape)
    fix g1 g2 g3
    assume 1: "resolve_or_create_host flt w bound (rq_hostname r) g = Some (i, g1)"
      and 2: "insert_agent w i (agent_name (rq_hostname r)) ahash g1 = (a, g2)"
      and 3: "apply_remote_fields flt r i (set_sys (apply_host_facts i (rq_agent_version r) (rq_docker_version r)
       (rq_cpu r) (rq_memory r) (rq_disk r) (sys g2)) g2) = Inr g3" and 4: "apply_privkey flt w r i g3 = Inr h"
    have "adoptions (pl g2) = adoptions (pl g1) \<and> now g2 = now g1"
      using 2 by (auto simp: insert_agent_def Let_def now_def took_id_def drawn_def sys_def)
    then show ?thesis
      using resolve_fields(1,2) [OF 1] remote_apply_fields(1,2) [OF 3] privkey_apply_fields(1,2) [OF 4]
      by (simp add: now_def)
  qed
qed

lemma registered_shape:
  assumes "register_agent flt w (Some r) g = (Answer n rp, h)"
  obtains k g1 ahash where "sql_row (token_claimable (now g) (a_sha256 (aw_api w) (trim_space (rq_token r)))) (adoptions (pl g)) = Some k"
    "join_host flt w r ahash (at_host k) (claim_token (a_sha256 (aw_api w) (trim_space (rq_token r))) (took_id g))
       = Inr ((rp_host rp, rp_agent rp), h)" "n = 201"
  using assms
  by (auto simp: register_agent_def deny_adoption_token_def refuse_def Let_def
      split: if_splits option.splits prod.splits sum.splits fetched.splits)

section \<open>One token, one agent\<close>

definition hash_of :: "agents_wiring \<Rightarrow> agent_register_req \<Rightarrow> string" where
  "hash_of w r = a_sha256 (aw_api w) (trim_space (rq_token r))"

text \<open>No row of this hash can be claimed at time \<open>t\<close> or later.\<close>

definition spent :: "int \<Rightarrow> string \<Rightarrow> adoption_token list \<Rightarrow> bool" where
  "spent t hash ks \<longleftrightarrow> list_all (\<lambda>k. \<not> token_claimable t hash k) ks"

lemma not_claimable_later: "\<not> token_claimable t hash k \<Longrightarrow> t \<le> u \<Longrightarrow> \<not> token_claimable u hash k"
  by (auto simp: token_claimable_def split: option.splits)

lemma spent_later: "spent t hash ks \<Longrightarrow> t \<le> u \<Longrightarrow> spent u hash ks"
  by (auto simp: spent_def list_all_iff dest: not_claimable_later)

lemma spent_subset: "spent t hash ks \<Longrightarrow> set js \<subseteq> set ks \<Longrightarrow> spent t hash js"
  by (auto simp: spent_def list_all_iff)

lemma claimed_gone [simp]: "\<not> token_claimable t hash (k\<lparr>at_used := Some u\<rparr>)"
  by (simp add: token_claimable_def)

lemma spent_claimed: "spent t hash (sql_update (token_claimable t hash) (\<lambda>k. k\<lparr>at_used := Some t\<rparr>) ks)"
  by (simp add: spent_def list_all_iff set_sql_update ball_Un)

lemma spent_other_claimed:
  "spent t hash ks \<Longrightarrow> spent t hash (sql_update (token_claimable t other) (\<lambda>k. k\<lparr>at_used := Some t\<rparr>) ks)"
  by (simp add: spent_def list_all_iff set_sql_update ball_Un)

lemma registered_adoptions:
  assumes "register_agent flt w (Some r) g = (Answer n rp, h)"
  shows "adoptions (pl h) = sql_update (token_claimable (now g) (hash_of w r)) (\<lambda>k. k\<lparr>at_used := Some (now g)\<rparr>) (adoptions (pl g))
    \<and> now h = now g \<and> \<not> spent (now g) (hash_of w r) (adoptions (pl g))"
  using assms
proof (rule registered_shape)
  fix k ahash
  assume k: "sql_row (token_claimable (now g) (a_sha256 (aw_api w) (trim_space (rq_token r)))) (adoptions (pl g)) = Some k"
    and j: "join_host flt w r ahash (at_host k) (claim_token (a_sha256 (aw_api w) (trim_space (rq_token r))) (took_id g))
       = Inr ((rp_host rp, rp_agent rp), h)"
  show ?thesis using join_host_adoptions [OF j] sql_row_SomeD [OF k]
    by (auto simp: claim_token_def hash_of_def spent_def list_all_iff core_is_sys) (auto simp: now_def)
qed

lemma refused_registration: "register_agent flt w b g = (Error n c, h) \<Longrightarrow> adoptions (pl h) = adoptions (pl g) \<and> now h = now g"
  by (auto simp: register_agent_def refuse_def Let_def split: if_splits option.splits prod.splits sum.splits)

lemma register_keeps_spent:
  assumes "register_agent flt w b g = (x, h)" "spent (now g) hash (adoptions (pl g))"
  shows "spent (now h) hash (adoptions (pl h)) \<and> now h = now g"
proof (cases x)
  case (Error n c)
  with refused_registration [of flt w b g n c h] assms show ?thesis by simp
next
  case (Answer n rp)
  then obtain r where b: "b = Some r" using assms(1) by (cases b) (auto simp: register_agent_def)
  show ?thesis using registered_adoptions [OF assms(1) [unfolded b Answer]] spent_other_claimed assms(2) by simp
qed

lemma insert_adoption_rows:
  "insert_adoption v uid i hash nm ex g = (k, h) \<Longrightarrow>
     \<exists>y. adoptions (pl h) = adoptions (pl g) @ [y] \<and> at_hash y = hash"
  by (auto simp: insert_adoption_def Let_def)

lemma adoption_token_rows:
  assumes "create_adoption_token flt v uid ref b g = (x, h)"
  shows "adoptions (pl h) = adoptions (pl g)
    \<or> (\<exists>y p. generate_token (hw_api v) ''syn_'' g = Some (p, at_hash y) \<and> adoptions (pl h) = adoptions (pl g) @ [y])"
  using assms
  by (auto simp: create_adoption_token_def audit_host_def Let_def insert_adoption_def split: if_splits option.splits prod.splits sum.splits)

lemma remote_setup_rows:
  assumes "create_remote_setup flt v uid i g = (x, h)"
  shows "adoptions (pl h) = adoptions (pl g)
    \<or> (\<exists>y p. generate_token (hw_api v) ''syn_adopt_'' g = Some (p, at_hash y) \<and> adoptions (pl h) = adoptions (pl g) @ [y])"
  using assms
  by (auto simp: create_remote_setup_def audit_host_def Let_def insert_adoption_def
      split: if_splits option.splits prod.splits sum.splits fetched.splits outcome.splits)

lemma drop_host_adoptions: "set (adoptions (drop_host_rows i p)) \<subseteq> set (adoptions p)"
  by (auto simp: drop_host_rows_def Let_def)

lemma delete_tx_adoptions: "delete_host_tx flt i p = Inr q \<Longrightarrow> set (adoptions q) \<subseteq> set (adoptions p)"
  using drop_host_adoptions by (fastforce simp: delete_host_tx_def Let_def split: if_splits option.splits)

lemma delete_host_adoptions:
  assumes "delete_host flt v uid ref skip g = (x, h)"
  shows "set (adoptions (pl h)) \<subseteq> set (adoptions (pl g))"
  using assms
  by (auto simp: delete_host_def Let_def audit_host_def dest!: delete_tx_adoptions
      split: if_splits option.splits prod.splits sum.splits)

text \<open>
  The instance goes on: registrations with any token, new tokens, removed hosts, and everything else that
  leaves the table alone. Time does not run backwards and no new token has the hash of an old one.
\<close>

inductive token_step :: "string \<Rightarrow> org \<Rightarrow> org \<Rightarrow> bool" for hash :: string where
  other: "adoptions (pl h) = adoptions (pl g) \<Longrightarrow> now g \<le> now h \<Longrightarrow> token_step hash g h"
| register: "register_agent flt w b g = (x, h) \<Longrightarrow> token_step hash g h"
| mint: "create_adoption_token flt v uid ref b g = (x, h) \<Longrightarrow> now g \<le> now h
    \<Longrightarrow> map_option snd (generate_token (hw_api v) ''syn_'' g) \<noteq> Some hash \<Longrightarrow> token_step hash g h"
| bundle_key: "create_remote_setup flt v uid i g = (x, h) \<Longrightarrow> now g \<le> now h
    \<Longrightarrow> map_option snd (generate_token (hw_api v) ''syn_adopt_'' g) \<noteq> Some hash \<Longrightarrow> token_step hash g h"
| delete: "delete_host flt v uid ref skip g = (x, h) \<Longrightarrow> now g \<le> now h \<Longrightarrow> token_step hash g h"

lemma spent_added: "spent t hash ks \<Longrightarrow> at_hash y \<noteq> hash \<Longrightarrow> spent t hash (ks @ [y])"
  by (simp add: spent_def token_claimable_def)

lemma token_step_spent:
  assumes "token_step hash g h" "spent (now g) hash (adoptions (pl g))"
  shows "spent (now h) hash (adoptions (pl h))"
  using assms
proof induction
  case (other h g)
  then show ?case by (metis spent_later)
next
  case (register flt w b g x h)
  then show ?case using register_keeps_spent by blast
next
  case (mint flt v uid ref b g x h)
  from adoption_token_rows [OF mint(1)] have "spent (now g) hash (adoptions (pl h))"
    using mint(3,4) by (auto intro: spent_added)
  then show ?case using mint(2) by (rule spent_later)
next
  case (bundle_key flt v uid i g x h)
  from remote_setup_rows [OF bundle_key(1)] have "spent (now g) hash (adoptions (pl h))"
    using bundle_key(3,4) by (auto intro: spent_added)
  then show ?case using bundle_key(2) by (rule spent_later)
next
  case (delete flt v uid ref skip g x h)
  from spent_subset [OF delete(3) delete_host_adoptions [OF delete(1)]] delete(2) show ?case by (rule spent_later)
qed

lemma token_steps_spent:
  "(token_step hash)\<^sup>*\<^sup>* g h \<Longrightarrow> spent (now g) hash (adoptions (pl g)) \<Longrightarrow> spent (now h) hash (adoptions (pl h))"
  by (induction rule: rtranclp_induct) (auto intro: token_step_spent)

text \<open>
  C17: an adoption token lets one agent in. A registration succeeds only against a row that is neither used
  nor revoked nor expired, and whatever the instance does after it, no registration with that token
  succeeds again.
\<close>

theorem adoption_token_single_use:
  assumes "register_agent flt w (Some r) g = (Answer n rp, h)" "(token_step (hash_of w r))\<^sup>*\<^sup>* h h1"
    "register_agent flt' w' (Some r') h1 = (x, h2)" "hash_of w' r' = hash_of w r"
  shows "sql_exists (token_claimable (now g) (hash_of w r)) (adoptions (pl g)) \<and> (\<forall>m rp'. x \<noteq> Answer m rp')"
proof -
  note r = registered_adoptions [OF assms(1)]
  then have "spent (now h1) (hash_of w r) (adoptions (pl h1))"
    using token_steps_spent [OF assms(2)] by (simp add: spent_claimed)
  then have "x \<noteq> Answer m rp'" for m rp'
    using registered_adoptions [of flt' w' r' h1 m rp' h2] assms(3,4) by auto
  moreover have "sql_exists (token_claimable (now g) (hash_of w r)) (adoptions (pl g))"
    using r by (auto simp: spent_def list_all_iff sql_exists_iff)
  ultimately show ?thesis by blast
qed

theorem adoption_token_single_use_witness:
  "\<exists>n c. fst (register_agent no_ofaults demo_agents_wiring (Some demo_registration)
       (snd (register_agent no_ofaults demo_agents_wiring (Some demo_registration) demo_park))) = Error n c"
proof -
  have "case register_agent no_ofaults demo_agents_wiring (Some demo_registration) demo_park of
      (Answer n rp, h) \<Rightarrow> True | _ \<Rightarrow> False" by code_simp
  then obtain n rp h where h: "register_agent no_ofaults demo_agents_wiring (Some demo_registration) demo_park = (Answer n rp, h)"
    by (auto split: prod.splits resp.splits)
  obtain x h2 where x: "register_agent no_ofaults demo_agents_wiring (Some demo_registration) h = (x, h2)" by fastforce
  from adoption_token_single_use [OF h rtranclp.rtrancl_refl x refl] show ?thesis
    unfolding h by (cases x) (auto simp: x)
qed

section \<open>An agent reaches its own host\<close>

text \<open>What a request of an agent of host \<open>i\<close> leaves alone.\<close>

definition elsewhere :: "uuid \<Rightarrow> uuid \<Rightarrow> plane \<Rightarrow> host list \<times> host_agent list \<times> obs_row list" where
  "elsewhere i a p = (filter (\<lambda>h. h_id h \<noteq> i) (hosts (core p)), filter (\<lambda>x. ag_id x \<noteq> a) (agents p),
     filter (\<lambda>r. o_host r \<noteq> i) (observed p))"

text \<open>The plane without the three tables and the supply of ids.\<close>

definition rest :: "plane \<Rightarrow> plane" where
  "rest p = p\<lparr>core := (core p)\<lparr>hosts := []\<rparr>, agents := [], observed := [], next_uuid := 0\<rparr>"

lemma filter_update_other: "(\<And>x. p x \<Longrightarrow> \<not> q x) \<Longrightarrow> (\<And>x. p x \<Longrightarrow> \<not> q (f x)) \<Longrightarrow> filter q (sql_update p f t) = filter q t"
  by (induction t) auto

lemma upsert_elsewhere [simp]:
  "filter (\<lambda>r. o_host r \<noteq> i) (observed (upsert_observed gen i a t res k body p)) = filter (\<lambda>r. o_host r \<noteq> i) (observed p)"
  "rest (upsert_observed gen i a t res k body p) = rest p" "agents (upsert_observed gen i a t res k body p) = agents p"
  by (auto simp: upsert_observed_def Let_def drawn_def rest_def obs_key_def obs_assign_def intro!: filter_update_other)

lemma facts_elsewhere [simp]:
  "filter (\<lambda>r. o_host r \<noteq> i) (observed (record_facts gen i a req p)) = filter (\<lambda>r. o_host r \<noteq> i) (observed p)"
  "rest (record_facts gen i a req p) = rest p" "agents (record_facts gen i a req p) = agents p"
  by (simp_all add: record_facts_def)

lemma containers_elsewhere [simp]:
  "filter (\<lambda>r. o_host r \<noteq> i) (observed (snd (record_containers flt gen i a n cs p))) = filter (\<lambda>r. o_host r \<noteq> i) (observed p)"
  "rest (snd (record_containers flt gen i a n cs p)) = rest p"
  "agents (snd (record_containers flt gen i a n cs p)) = agents p"
  by (induction cs arbitrary: n p) (auto simp: record_container_def split: option.splits)

lemma prune_elsewhere [simp]:
  "filter (\<lambda>r. o_host r \<noteq> i) (observed (prune_observed_containers i ks p)) = filter (\<lambda>r. o_host r \<noteq> i) (observed p)"
  "rest (prune_observed_containers i ks p) = rest p" "agents (prune_observed_containers i ks p) = agents p"
  by (auto simp: prune_observed_containers_def rest_def intro!: filter_cong)

lemma record_elsewhere:
  "elsewhere i a (snd (record_observed_states flt gen i b req p)) = elsewhere i a p"
  "rest (snd (record_observed_states flt gen i b req p)) = rest p"
proof -
  have "filter (\<lambda>r. o_host r \<noteq> i) (observed q) = filter (\<lambda>r. o_host r \<noteq> i) (observed p) \<and> rest q = rest p \<and> agents q = agents p"
    if "record_containers flt gen i b 0 cs (record_facts gen i b req p) = (r, q)" for cs r q
    using containers_elsewhere [where i = i and flt = flt and gen = gen and a = b and n = 0 and cs = cs and p = "record_facts gen i b req p"]
    unfolding that by simp
  then have "filter (\<lambda>r. o_host r \<noteq> i) (observed (snd (record_observed_states flt gen i b req p)))
      = filter (\<lambda>r. o_host r \<noteq> i) (observed p)
    \<and> rest (snd (record_observed_states flt gen i b req p)) = rest p
    \<and> agents (snd (record_observed_states flt gen i b req p)) = agents p"
    unfolding record_observed_states_def by (auto simp: Let_def split: prod.splits option.splits)
  then show "elsewhere i a (snd (record_observed_states flt gen i b req p)) = elsewhere i a p"
    "rest (snd (record_observed_states flt gen i b req p)) = rest p"
    by (simp_all add: elsewhere_def)
qed

lemma heartbeat_elsewhere:
  assumes "heartbeat flt gen en i a req p = (ok, q)"
  shows "elsewhere i a q = elsewhere i a p \<and> rest q = rest p"
proof -
  let ?p1 = "p\<lparr>core := apply_host_facts i (hb_agent_version req) (hb_docker_version req) (hb_cpu req)
                       (hb_memory req) (hb_disk req) (core p),
                     agents := sql_update (\<lambda>x. ag_id x = a) (beat_agent (clock (core p)) req) (agents p)\<rparr>"
  have "elsewhere i a ?p1 = elsewhere i a p \<and> rest ?p1 = rest p"
    by (auto simp: elsewhere_def rest_def apply_host_facts_def beat_host_def beat_agent_def intro!: filter_update_other)
  moreover have "q = p \<or> q = ?p1 \<or> q = snd (record_observed_states flt gen i (Some a) req ?p1)"
    using assms unfolding heartbeat_def by (auto simp: Let_def split: if_splits)
  ultimately show ?thesis using record_elsewhere by metis
qed

text \<open>
  C18: whatever an agent sends, its heartbeat touches the row of the host its token belongs to, its own row
  and what is observed on that host; no other host, agent or observation and no other table changes. The
  ids in the body play no part.
\<close>

theorem agent_confined:
  assumes "agent_heartbeat flt pf w header body g = (x, h)"
  shows "h = g \<or> (\<exists>a i. authenticate_agent flt w header g = Inr (a, i) \<and> h = set_pl (pl h) g
    \<and> elsewhere i a (pl h) = elsewhere i a (pl g) \<and> rest (pl h) = rest (pl g))"
proof -
  show ?thesis
  proof (cases "h = g")
    case False
    then obtain a i where u: "authenticate_agent flt w header g = Inr (a, i)"
      using assms by (auto simp: agent_heartbeat_def split: sum.splits)
    then obtain req where b: "body = Some req"
      using assms False by (auto simp: agent_heartbeat_def split: option.splits)
    obtain ok p where p: "heartbeat pf (a_uuid (aw_api w)) (aw_observed w) i a req (pl g) = (ok, p)" by fastforce
    have "h = set_pl p g" using assms by (auto simp: agent_heartbeat_def u b p split: bool.splits)
    then show ?thesis using u heartbeat_elsewhere [OF p] by simp
  qed simp
qed

text \<open>A beat that names containers of other hosts, from the agent of \<open>h2\<close>.\<close>

theorem agent_confined_witness:
  "filter (\<lambda>h. h_id h \<noteq> ''h2'') (hosts (sys (snd (agent_heartbeat no_ofaults no_pfaults demo_agents_wiring ''Bearer syn_agent_1''
      (Some (demo_beat [demo_container ''a'' ''d1'' ''exited''] True)) demo_park)))) = [demo_host]"
proof -
  let ?r = "agent_heartbeat no_ofaults no_pfaults demo_agents_wiring ''Bearer syn_agent_1''
      (Some (demo_beat [demo_container ''a'' ''d1'' ''exited''] True)) demo_park"
  have a: "authenticate_agent no_ofaults demo_agents_wiring ''Bearer syn_agent_1'' demo_park = Inr (''ag1'', ''h2'')" by code_simp
  have g: "elsewhere ''h2'' ''ag1'' (pl demo_park) = ([demo_host], [], [])" by code_simp
  have "?r = (fst ?r, snd ?r)" by simp
  from agent_confined [OF this] have "snd ?r = demo_park \<or> elsewhere ''h2'' ''ag1'' (pl (snd ?r)) = ([demo_host], [], [])"
    unfolding a using g by auto
  then have "elsewhere ''h2'' ''ag1'' (pl (snd ?r)) = ([demo_host], [], [])" using g by auto
  then show ?thesis by (simp add: elsewhere_def core_is_sys)
qed

section \<open>Revocation\<close>

lemma agent_after_beat:
  assumes "heartbeat no_pfaults gen en i a req p = (True, q)"
  shows "agents q = sql_update (\<lambda>x. ag_id x = a) (beat_agent (clock (core p)) req) (agents p)"
proof -
  have k: "agents (snd (record_observed_states flt gen i b req r)) = agents r" for flt b r
  proof -
    have "agents q = agents r"
      if "record_containers flt gen i b 0 cs (record_facts gen i b req r) = (e, q)" for cs e q
      using containers_elsewhere(3) [where i = i and flt = flt and gen = gen and a = b and n = 0 and cs = cs and p = "record_facts gen i b req r"]
      unfolding that by simp
    then show ?thesis unfolding record_observed_states_def by (auto simp: Let_def split: prod.splits option.splits)
  qed
  show ?thesis using assms unfolding heartbeat_def by (auto simp: Let_def k split: if_splits)
qed

lemma revoked_agents:
  assumes "revoke_agent flt uid a g = (Answer n y, h)"
  shows "agents (pl h) = sql_update (\<lambda>x. ag_id x = a) (\<lambda>x. x\<lparr>ag_status := AgRevoked, ag_updated := now g\<rparr>) (agents (pl g))
    \<and> now h = now g"
  using assms
  by (auto simp: revoke_agent_def update_agent_def split: fetched.splits) (simp_all add: now_def core_is_sys)

lemma agent_row:
  assumes "authenticate_agent flt w header g = Inr (a, i)"
  obtains x where "x \<in> set (agents (pl g))" "ag_id x = a" "ag_host x = i" "agent_bearer header \<noteq> []"
    "ag_hash x = a_sha256 (aw_api w) (agent_bearer header)"
  using assms by (auto simp: authenticate_agent_def Let_def split: if_splits fetched.splits dest!: sql_row_SomeD)

lemma authenticate_by_row:
  assumes "distinct (map ag_hash (agents (pl g)))" "x \<in> set (agents (pl g))" "ag_status x \<noteq> AgRevoked"
    "ag_hash x = a_sha256 (aw_api w) (agent_bearer header)" "agent_bearer header \<noteq> []"
  shows "authenticate_agent no_ofaults w header g = Inr (ag_id x, ag_host x)"
proof -
  have "distinct (map ag_hash t) \<Longrightarrow> x \<in> set t
    \<Longrightarrow> sql_row (\<lambda>y. ag_hash y = ag_hash x \<and> ag_status y \<noteq> AgRevoked) t = Some x" for t
    using assms(3) by (induction t) force+
  with assms show ?thesis by (simp add: authenticate_agent_def fetch_def)
qed

lemma authenticate_none:
  assumes "\<And>y. y \<in> set (agents (pl g)) \<Longrightarrow> ag_hash y = a_sha256 (aw_api w) (agent_bearer header) \<Longrightarrow> ag_status y = AgRevoked"
    "agent_bearer header \<noteq> []"
  shows "authenticate_agent no_ofaults w header g = Inl (401, ''invalid_agent_token'')"
proof -
  have "sql_row (\<lambda>y. ag_hash y = a_sha256 (aw_api w) (agent_bearer header) \<and> ag_status y \<noteq> AgRevoked) (agents (pl g)) = None"
    using assms(1) by (auto simp: sql_row_None)
  then show ?thesis using assms(2) by (simp add: authenticate_agent_def fetch_def)
qed

lemma map_hash_update: "(\<And>x. ag_hash (f x) = ag_hash x) \<Longrightarrow> map ag_hash (sql_update p f t) = map ag_hash t"
  by (induction t) auto

text \<open>
  C38: a request that was authenticated before the revocation undoes it. The heartbeat sets the status of
  its agent to online without looking at it, so an agent that is revoked between the lookup of its token and
  that statement authenticates again with the same token. Without the heartbeat it is locked out.
\<close>

theorem revocation_undone:
  assumes "distinct (map ag_hash (agents (pl g)))" "authenticate_agent flt w header g = Inr (a, i)"
    "revoke_agent flt' uid a g = (Answer n y, g1)" "heartbeat no_pfaults gen en i a req (pl g1) = (True, p)"
  shows "authenticate_agent no_ofaults w header g1 = Inl (401, ''invalid_agent_token'')
    \<and> authenticate_agent no_ofaults w header (set_pl p g1) = Inr (a, i)"
proof -
  obtain x where x: "x \<in> set (agents (pl g))" "ag_id x = a" "ag_host x = i" "agent_bearer header \<noteq> []"
    "ag_hash x = a_sha256 (aw_api w) (agent_bearer header)" using agent_row [OF assms(2)] .
  let ?off = "\<lambda>x. x\<lparr>ag_status := AgRevoked, ag_updated := now g\<rparr>" and ?on = "beat_agent (clock (core (pl g1))) req"
  have g1: "agents (pl g1) = sql_update (\<lambda>x. ag_id x = a) ?off (agents (pl g))" using revoked_agents [OF assms(3)] by simp
  have p: "agents p = sql_update (\<lambda>x. ag_id x = a) ?on (agents (pl g1))" by (rule agent_after_beat [OF assms(4)])
  have one: "y = x" if "y \<in> set (agents (pl g))" "ag_hash y = ag_hash x" for y
    using assms(1) that x(1) by (metis distinct_map inj_onD)
  have "authenticate_agent no_ofaults w header g1 = Inl (401, ''invalid_agent_token'')"
    by (rule authenticate_none [OF _ x(4)]) (auto simp: g1 set_sql_update x(2) x(5) [symmetric] dest: one)
  moreover have "authenticate_agent no_ofaults w header (set_pl p g1) = Inr (ag_id (?on (?off x)), ag_host (?on (?off x)))"
  proof (rule authenticate_by_row)
    show "distinct (map ag_hash (agents (pl (set_pl p g1))))"
      using assms(1) by (simp add: p g1 map_hash_update beat_agent_def)
    show "?on (?off x) \<in> set (agents (pl (set_pl p g1)))"
      using x(1,2) by (auto simp: p g1 set_sql_update)
  qed (use x in \<open>simp_all add: beat_agent_def\<close>)
  ultimately show ?thesis using x by (simp add: beat_agent_def)
qed

theorem revocation_undone_witness:
  "authenticate_agent no_ofaults demo_agents_wiring ''Bearer syn_agent_1''
     (set_pl (snd (heartbeat no_pfaults dec True ''h2'' ''ag1'' (demo_beat [] True)
        (pl (snd (revoke_agent no_ofaults ''a'' ''ag1'' demo_park)))))
      (snd (revoke_agent no_ofaults ''a'' ''ag1'' demo_park))) = Inr (''ag1'', ''h2'')"
proof -
  have d: "distinct (map ag_hash (agents (pl demo_park)))" by code_simp
  have a: "authenticate_agent no_ofaults demo_agents_wiring ''Bearer syn_agent_1'' demo_park = Inr (''ag1'', ''h2'')" by code_simp
  have "fst (revoke_agent no_ofaults ''a'' ''ag1'' demo_park) = Answer 200 ()" by code_simp
  then obtain g1 where r: "revoke_agent no_ofaults ''a'' ''ag1'' demo_park = (Answer 200 (), g1)"
    by (metis prod.collapse)
  have "fst (heartbeat no_pfaults dec True ''h2'' ''ag1'' (demo_beat [] True) (pl g1))" by (simp add: heartbeat_def Let_def)
  then obtain p where p: "heartbeat no_pfaults dec True ''h2'' ''ag1'' (demo_beat [] True) (pl g1) = (True, p)"
    by (metis prod.collapse)
  from revocation_undone [OF d a r p] show ?thesis by (simp add: r p)
qed

section \<open>A registration with one of the two fields\<close>

lemma update_row_found: "(\<And>h. h_id (f h) = h_id h) \<Longrightarrow> sql_row (\<lambda>h. h_id h = i) (sql_update (\<lambda>h. h_id h = i) f t)
     = map_option f (sql_row (\<lambda>h. h_id h = i) t)"
  by (induction t) auto

lemma fields_of_privkey:
  assumes "apply_privkey flt w r i g = Inr h" "find_host i (sys g) = Some y"
  obtains z where "find_host i (sys h) = Some z" "h_tailnet z = h_tailnet y" "h_is_remote z = h_is_remote y"
  using assms
  by (auto simp: apply_privkey_def update_host_row_def find_host_def update_row_found
      split: if_splits option.splits sum.splits)

text \<open>
  C39: the address of a remote host does not survive a registration that sends only a public key. The
  comment promises that one of the two fields does not wipe the other; the statement writes NULL for the
  one that was not sent, and the host stays marked as remote without an address.
\<close>

theorem partial_registration_wipes_address:
  assumes "register_agent flt w (Some r) g = (Answer n rp, h)"
    and "trim_space (rq_tailnet r) = []" "trim_space (rq_pubkey r) \<noteq> []"
    and "find_host (rp_host rp) (sys g) = Some y"
  shows "\<exists>z. find_host (rp_host rp) (sys h) = Some z \<and> h_tailnet z = None \<and> h_is_remote z"
  using assms(1)
proof (rule registered_shape)
  fix k ahash
  let ?i = "rp_host rp"
  let ?g = "claim_token (a_sha256 (aw_api w) (trim_space (rq_token r))) (took_id g)"
  assume "join_host flt w r ahash (at_host k) ?g = Inr ((?i, rp_agent rp), h)"
  then show ?thesis
  proof (rule join_host_shape)
    fix g1 g2 g3
    assume 1: "resolve_or_create_host flt w (at_host k) (rq_hostname r) ?g = Some (?i, g1)"
      and 2: "insert_agent w ?i (agent_name (rq_hostname r)) ahash g1 = (rp_agent rp, g2)"
      and 3: "apply_remote_fields flt r ?i (set_sys (apply_host_facts ?i (rq_agent_version r) (rq_docker_version r)
       (rq_cpu r) (rq_memory r) (rq_disk r) (sys g2)) g2) = Inr g3" and 4: "apply_privkey flt w r ?i g3 = Inr h"
    have "find_host ?i (sys ?g) = Some y" using assms(4) by (simp add: claim_token_def core_is_sys)
    then have "\<exists>y1. find_host ?i (sys g1) = Some y1"
      using 1 by (auto simp: resolve_or_create_host_def find_host_def sql_row_append Let_def split: option.splits if_splits)
    moreover have "sys g2 = sys g1" using 2 by (auto simp: insert_agent_def Let_def core_is_sys)
    ultimately obtain y2 where y2: "find_host ?i (sys g2) = Some y2" by auto
    obtain y3 where y3: "find_host ?i (sys g3) = Some y3" "h_tailnet y3 = None" "h_is_remote y3"
      using 3 y2 assms(2,3)
      by (auto simp: apply_remote_fields_def find_host_def update_row_found remote_fields_def null_str_def
          apply_host_facts_def beat_host_def split: if_splits)
    obtain z where "find_host ?i (sys h) = Some z" "h_tailnet z = h_tailnet y3" "h_is_remote z = h_is_remote y3"
      using fields_of_privkey [OF 4 y3(1)] .
    with y3 show ?thesis by auto
  qed
qed

theorem partial_registration_wipes_address_witness:
  "h_tailnet demo_remote = Some ''100.64.0.2''
   \<and> map_option h_tailnet (find_host ''h2'' (sys (snd (register_agent no_ofaults demo_agents_wiring (Some demo_registration) demo_park))))
     = Some None"
proof -
  have "case register_agent no_ofaults demo_agents_wiring (Some demo_registration) demo_park of
      (Answer n rp, h) \<Rightarrow> rp_host rp = ''h2'' | _ \<Rightarrow> False" by code_simp
  then obtain n rp h where h: "register_agent no_ofaults demo_agents_wiring (Some demo_registration) demo_park = (Answer n rp, h)"
    "rp_host rp = ''h2''"
    by (auto split: prod.splits resp.splits)
  have t: "trim_space (rq_tailnet demo_registration) = []" "trim_space (rq_pubkey demo_registration) \<noteq> []" by code_simp+
  have f: "find_host (rp_host rp) (sys demo_park) = Some demo_remote" unfolding h(2) by code_simp
  from partial_registration_wipes_address [OF h(1) t f] show ?thesis by (auto simp: h demo_remote_def)
qed

section \<open>Removing a host\<close>

text \<open>Some row still refers to the host.\<close>

definition host_traces :: "uuid \<Rightarrow> plane \<Rightarrow> bool" where
  "host_traces i p \<longleftrightarrow> sql_exists (\<lambda>h. h_id h = i) (hosts (core p)) \<or> sql_exists (\<lambda>d. d_host d = i) (deps (core p))
     \<or> sql_exists (\<lambda>x. ag_host x = i) (agents p) \<or> sql_exists (\<lambda>k. at_host k = Some i) (adoptions p)
     \<or> sql_exists (\<lambda>r. ds_host r = i) (desired p) \<or> sql_exists (\<lambda>r. o_host r = i) (observed p)
     \<or> sql_exists (\<lambda>r. dr_host r = Some i) (reports p) \<or> sql_exists (\<lambda>x. it_host (snd x) = Some i) (items p)
     \<or> sql_exists (\<lambda>c. ce_host c = Some i) (cells p) \<or> sql_exists (\<lambda>x. pl_host x = Some i) (placements p)
     \<or> sql_exists (\<lambda>d. rd_host d = Some i) (run_docs p)"

lemma forget_gone: "i \<in> D \<Longrightarrow> forget D x \<noteq> Some i"
  by (auto simp: forget_def split: option.splits)

lemma core_drop_host [simp]: "core (drop_host_rows i p) = core p"
  by (simp add: drop_host_rows_def Let_def)

lemma dropped_host_traces:
  assumes "\<not> sql_exists (\<lambda>h. h_id h = i) (hosts (core p))" "\<not> sql_exists (\<lambda>d. d_host d = i) (deps (core p))"
  shows "\<not> host_traces i (drop_host_rows i p)"
  unfolding host_traces_def using assms
  by (auto simp: sql_exists_iff drop_host_rows_def Let_def forget_gone split: prod.splits)

lemma delete_tx_shape:
  assumes "delete_host_tx flt i p = Inr q"
  obtains ds where "reassign_history flt i (core p) = Some ds" "\<not> sql_exists (live_on_host i) (deps (core p))"
    "\<not> sql_exists (\<lambda>d. d_host d = i) ds"
    "q = drop_host_rows i (p\<lparr>core := (core p)\<lparr>deps := ds, hosts := filter (\<lambda>h. h_id h \<noteq> i) (hosts (core p))\<rparr>\<rparr>)"
  using assms by (auto simp: delete_host_tx_def Let_def split: if_splits option.splits)

lemma history_keeps_live:
  assumes "reassign_history flt i s = Some ds"
  shows "filter (\<lambda>d. d_status d \<noteq> DDeleted) ds = filter (\<lambda>d. d_status d \<noteq> DDeleted) (deps s)"
    "map d_id ds = map d_id (deps s)"
proof -
  have u: "filter (\<lambda>d. d_status d \<noteq> DDeleted) (sql_update (\<lambda>d. d_host d = i \<and> d_status d = DDeleted) (\<lambda>d. d\<lparr>d_host := n\<rparr>) t)
      = filter (\<lambda>d. d_status d \<noteq> DDeleted) t"
    "map d_id (sql_update (\<lambda>d. d_host d = i \<and> d_status d = DDeleted) (\<lambda>d. d\<lparr>d_host := n\<rparr>) t) = map d_id t" for n t
    by (induction t) auto
  show "filter (\<lambda>d. d_status d \<noteq> DDeleted) ds = filter (\<lambda>d. d_status d \<noteq> DDeleted) (deps s)" "map d_id ds = map d_id (deps s)"
    using assms by (auto simp: reassign_history_def u split: if_splits option.splits)
qed

lemma delete_host_shape:
  assumes "delete_host flt w uid ref skip g = (Answer n c, h)"
  obtains x s p where "load_host flt ref g = Inr x" "\<not> h_self x"
    "decommission flt w (h_is_remote x \<and> \<not> skip) (h_id x) (sys g) = (Some c, s)"
    "delete_host_tx flt (h_id x) (pl (set_sys s g)) = Inr p" "pl h = p" "n = 200"
    "\<not> sql_exists (live_on_host (h_id x)) (deps (sys g))" "\<not> busy_on_host (h_id x) (sys g)"
proof -
  obtain x where x: "load_host flt ref g = Inr x"
    using assms by (auto simp: delete_host_def refuse_def split: sum.splits)
  have no: "\<not> h_self x" "\<not> sql_exists (live_on_host (h_id x)) (deps (sys g))" "\<not> busy_on_host (h_id x) (sys g)"
    using assms by (auto simp: delete_host_def x split: if_splits)
  obtain c0 s where d: "decommission flt w (h_is_remote x \<and> \<not> skip) (h_id x) (sys g) = (c0, s)" by fastforce
  obtain p where p: "delete_host_tx flt (h_id x) (pl (set_sys s g)) = Inr p" "c0 = Some c" "pl h = p" "n = 200"
    using assms d
    by (auto simp: delete_host_def x Let_def refuse_def audit_host_def split: if_splits option.splits sum.splits)
  show thesis by (rule that [OF x no(1) _ p(1) p(3,4) no(2,3)]) (simp add: d p(2))
qed

text \<open>
  C19: removing a host is refused for the host of Synapse itself and while a deployment that is not deleted or
  a queued job is on it. When it is answered with 200 no row refers to the host any more (not even a
  report, a placement or the history of deleted deployments), and no deployment that is not deleted has
  changed since the teardown on the box.
\<close>

theorem deleted_host_leaves_no_trace:
  assumes "delete_host flt w uid ref skip g = (Answer n c, h)" "load_host flt ref g = Inr x"
  shows "\<not> host_traces (h_id x) (pl h) \<and> \<not> h_self x \<and> \<not> sql_exists (live_on_host (h_id x)) (deps (sys g))
    \<and> \<not> busy_on_host (h_id x) (sys g)
    \<and> filter (\<lambda>d. d_status d \<noteq> DDeleted) (deps (sys h))
      = filter (\<lambda>d. d_status d \<noteq> DDeleted) (deps (snd (decommission flt w (h_is_remote x \<and> \<not> skip) (h_id x) (sys g))))"
  using assms(1)
proof (rule delete_host_shape)
  fix x' s p
  assume x': "load_host flt ref g = Inr x'" "\<not> h_self x'"
    "\<not> sql_exists (live_on_host (h_id x')) (deps (sys g))" "\<not> busy_on_host (h_id x') (sys g)"
    and d: "decommission flt w (h_is_remote x' \<and> \<not> skip) (h_id x') (sys g) = (Some c, s)"
    and p: "delete_host_tx flt (h_id x') (pl (set_sys s g)) = Inr p" and h: "pl h = p"
  have x: "x' = x" using x'(1) assms(2) by simp
  obtain ds where ds: "reassign_history flt (h_id x) s = Some ds" "\<not> sql_exists (\<lambda>d. d_host d = h_id x) ds"
    "p = drop_host_rows (h_id x) ((pl g)\<lparr>core := s\<lparr>deps := ds, hosts := filter (\<lambda>h. h_id h \<noteq> h_id x) (hosts s)\<rparr>\<rparr>)"
    using delete_tx_shape [OF p] unfolding x by auto
  have "\<not> host_traces (h_id x) (pl h)"
    unfolding h ds(3) by (rule dropped_host_traces) (use ds(2) in \<open>auto simp: sql_exists_iff\<close>)
  moreover have "deps (sys h) = ds" by (simp add: sys_def h ds(3))
  ultimately show ?thesis using x' d history_keeps_live(1) [OF ds(1)] by (simp add: x)
qed

theorem deleted_host_leaves_no_trace_witness:
  "\<not> host_traces ''h2'' (pl (snd (delete_host no_ofaults demo_hosts_wiring ''a'' ''edge'' False demo_park)))
   \<and> host_traces ''h2'' (pl demo_park)"
proof -
  have "case delete_host no_ofaults demo_hosts_wiring ''a'' ''edge'' False demo_park of (Answer n c, h) \<Rightarrow> True | _ \<Rightarrow> False"
    by code_simp
  then obtain n c h where h: "delete_host no_ofaults demo_hosts_wiring ''a'' ''edge'' False demo_park = (Answer n c, h)"
    by (auto split: prod.splits resp.splits)
  have x: "load_host no_ofaults ''edge'' demo_park = Inr demo_remote" by code_simp
  have "host_traces ''h2'' (pl demo_park)" by code_simp
  with deleted_host_leaves_no_trace [OF h x] show ?thesis by (simp add: h demo_remote_def)
qed

end
