(* ===== verification/Cells.thy ===== *)
theory Cells
  imports Hosts
begin

text \<open>
  Cells (api/cells.go): operational units of a project with the deployments that live in them and the
  host they run on. Creation with its retried slug, editing, draining, deletion with what the foreign
  keys take along, and the attachment of deployments and hosts.
\<close>

section \<open>What a cell may be\<close>

definition or_trimmed :: "string \<Rightarrow> string \<Rightarrow> string" where
  "or_trimmed v dflt = or_default (trim_space v) dflt"

definition valid_cell_kind :: "string \<Rightarrow> bool" where
  "valid_cell_kind s \<longleftrightarrow> s \<in> set [''core'', ''runtime'', ''integration'', ''preview'', ''enterprise-app'']"

definition valid_cell_env :: "string \<Rightarrow> bool" where
  "valid_cell_env s \<longleftrightarrow> s \<in> set [''dev'', ''staging'', ''prod'', ''preview'']"

definition valid_cell_tier :: "string \<Rightarrow> bool" where
  "valid_cell_tier s \<longleftrightarrow> s \<in> set [''shared'', ''premium'', ''dedicated'', ''internal'']"

definition valid_cell_status :: "string \<Rightarrow> bool" where
  "valid_cell_status s \<longleftrightarrow> s \<in> set [''active'', ''inactive'', ''draining'', ''migrating'', ''maintenance'']"

definition valid_resource_role :: "string \<Rightarrow> bool" where
  "valid_resource_role s \<longleftrightarrow> s \<in> set [''primary'', ''secondary'', ''backup'', ''internal'']"

definition observed_from_status :: "dep_status \<Rightarrow> string" where
  "observed_from_status st = (case st of DRunning \<Rightarrow> ''running'' | DStopped \<Rightarrow> ''stopped'' | DFailed \<Rightarrow> ''failed''
     | _ \<Rightarrow> ''unknown'')"

definition load_cell :: "ofaults \<Rightarrow> principal \<Rightarrow> string \<Rightarrow> org \<Rightarrow> refusal + cell \<times> role" where
  "load_cell flt who ref g = load_cell_for_request flt who ref (cells (pl g)) g"

definition audit_cell :: "ofaults \<Rightarrow> uuid \<Rightarrow> uuid \<Rightarrow> string \<Rightarrow> uuid \<Rightarrow> org \<Rightarrow> org" where
  "audit_cell flt team uid act i g = record_audit flt team uid act ''cell'' i g"

section \<open>List and create\<close>

definition list_cells_by_project :: "ofaults \<Rightarrow> principal \<Rightarrow> string \<Rightarrow> org \<Rightarrow> cell list resp" where
  "list_cells_by_project flt who pref g =
     (case load_project_for_request flt who pref g of Inl e \<Rightarrow> refuse e | Inr (p, _, _) \<Rightarrow>
      if flt ''list cells'' then Error 500 ''internal''
      else Answer 200 (sort_key ce_created (filter (\<lambda>c. ce_project c = pj_id p) (cells (pl g)))))"

record create_cell_req =
  nc_name :: string
  nc_slug :: string
  nc_kind :: string
  nc_env :: string
  nc_region :: string
  nc_tier :: string
  nc_description :: string

record cell_plan =
  cp_team :: uuid
  cp_project :: uuid
  cp_name :: string
  cp_kind :: string
  cp_env :: string
  cp_region :: string
  cp_tier :: string
  cp_description :: string

definition plan_cell :: "create_cell_req \<Rightarrow> project \<Rightarrow> team \<Rightarrow> refusal + cell_plan" where
  "plan_cell r p t =
     (let name = trim_space (nc_name r); kind = or_trimmed (nc_kind r) ''core''; env = or_trimmed (nc_env r) ''prod'';
          tier = or_trimmed (nc_tier r) ''shared''; region = trim_space (nc_region r)
      in if name = [] then Inl (400, ''missing_name'')
         else if 200 < length name then Inl (400, ''invalid_name'')
         else if \<not> valid_cell_kind kind then Inl (400, ''invalid_kind'')
         else if \<not> valid_cell_env env then Inl (400, ''invalid_environment'')
         else if \<not> valid_cell_tier tier then Inl (400, ''invalid_isolation_tier'')
         else Inr \<lparr>cp_team = pj_team p, cp_project = pj_id p, cp_name = name, cp_kind = kind, cp_env = env,
           cp_region = (if region = [] \<and> tm_region t \<noteq> [] \<and> tm_region t \<noteq> ''self-hosted'' then tm_region t else region),
           cp_tier = tier, cp_description = trim_space (nc_description r)\<rparr>)"

text \<open>The slug of attempt \<open>k\<close>: the base, the base with 2, then random suffixes.\<close>

definition cell_slug :: "slug_random \<Rightarrow> string \<Rightarrow> nat \<Rightarrow> string" where
  "cell_slug rnd base k = (if k = 0 then base else if k = 1 then with_suffix base 2 else with_random_suffix base (sr_suffix rnd k))"

definition fresh_cell :: "uuid \<Rightarrow> cell_plan \<Rightarrow> string \<Rightarrow> int \<Rightarrow> cell" where
  "fresh_cell i c slug t = \<lparr>ce_id = i, ce_team = cp_team c, ce_project = cp_project c, ce_name = cp_name c, ce_slug = slug,
     ce_kind = cp_kind c, ce_env = cp_env c, ce_region = cp_region c, ce_tier = cp_tier c, ce_status = ''active'',
     ce_primary = None, ce_host = None, ce_description = cp_description c, ce_created = t, ce_updated = t\<rparr>"

definition cell_slug_taken :: "uuid \<Rightarrow> string \<Rightarrow> plane \<Rightarrow> bool" where
  "cell_slug_taken p slug x \<longleftrightarrow> sql_exists (\<lambda>c. ce_project c = p \<and> ci_eq (ce_slug c) slug) (cells x)"

definition insert_cell :: "cell \<Rightarrow> org \<Rightarrow> org" where
  "insert_cell c g = set_pl ((pl (took_id g))\<lparr>cells := cells (pl g) @ [c]\<rparr>) g"

text \<open>One attempt; what the others write in the meantime comes first.\<close>

definition create_cell_attempt ::
  "ofaults \<Rightarrow> api \<Rightarrow> cell_plan \<Rightarrow> string \<Rightarrow> nat \<Rightarrow> org \<times> cell option \<Rightarrow> db_error option \<times> (org \<times> cell option)" where
  "create_cell_attempt flt a c base k x =
     (let g = a_others a k (fst x); slug = cell_slug (a_slugs a 0) base k;
          row = fresh_cell (new_id (a_uuid a) g) c slug (now g)
      in if in_attempt k flt ''insert cell'' \<or> \<not> valid_utf8 slug then (Some (OtherError ''query failed''), (g, snd x))
         else if cell_slug_taken (cp_project c) slug (pl g) then
           (Some (UniqueViolation ''cells_project_id_slug_key''), (g, snd x))
         else (None, (insert_cell row g, Some row)))"

definition create_cell ::
  "ofaults \<Rightarrow> api \<Rightarrow> principal \<Rightarrow> string \<Rightarrow> create_cell_req option \<Rightarrow> org \<Rightarrow> cell resp \<times> org" where
  "create_cell flt a who pref body g =
     (case load_project_for_request flt who pref g of Inl e \<Rightarrow> (refuse e, g) | Inr (p, t, role) \<Rightarrow>
      if \<not> can_edit_project role then (Error 403 ''forbidden'', g)
      else (case body of None \<Rightarrow> (Error 400 ''bad_request'', g) | Some r \<Rightarrow>
       (case plan_cell r p t of Inl e \<Rightarrow> (refuse e, g) | Inr c \<Rightarrow>
        let base = slugify (a_unicode a) (sr_base (a_slugs a 0)) (if nc_slug r = [] then cp_name c else nc_slug r) in
        case with_retry_on_unique_violation (a_cancelled a) 6 (create_cell_attempt flt a c base) (g, None) of
          (None, (g1, Some x)) \<Rightarrow> (Answer 201 x, audit_cell flt (pj_team p) (pr_user who) ''createCell'' (ce_id x) g1)
        | (_, (g1, _)) \<Rightarrow> (Error 500 ''internal'', g1))))"

section \<open>Read, edit, drain\<close>

definition get_cell :: "ofaults \<Rightarrow> principal \<Rightarrow> string \<Rightarrow> org \<Rightarrow> cell resp" where
  "get_cell flt who ref g = (case load_cell flt who ref g of Inl e \<Rightarrow> refuse e | Inr (c, _) \<Rightarrow> Answer 200 c)"

record update_cell_req =
  uc_name :: "string option"
  uc_description :: "string option"
  uc_status :: "string option"
  uc_region :: "string option"
  uc_tier :: "string option"

definition patched_cell :: "update_cell_req \<Rightarrow> cell \<Rightarrow> cell" where
  "patched_cell r c = c\<lparr>ce_name := given (map_option trim_space (uc_name r)) (ce_name c),
     ce_description := given (map_option trim_space (uc_description r)) (ce_description c),
     ce_status := given (uc_status r) (ce_status c),
     ce_region := given (map_option trim_space (uc_region r)) (ce_region c),
     ce_tier := given (uc_tier r) (ce_tier c)\<rparr>"

definition write_cell :: "cell \<Rightarrow> int \<Rightarrow> cell \<Rightarrow> cell" where
  "write_cell x t c = c\<lparr>ce_name := ce_name x, ce_description := ce_description x, ce_status := ce_status x,
     ce_region := ce_region x, ce_tier := ce_tier x, ce_updated := t\<rparr>"

definition update_cell_row :: "uuid \<Rightarrow> (cell \<Rightarrow> cell) \<Rightarrow> org \<Rightarrow> org" where
  "update_cell_row i f g = set_pl ((pl g)\<lparr>cells := sql_update (\<lambda>c. ce_id c = i) f (cells (pl g))\<rparr>) g"

definition update_cell ::
  "ofaults \<Rightarrow> principal \<Rightarrow> string \<Rightarrow> update_cell_req option \<Rightarrow> org \<Rightarrow> cell resp \<times> org" where
  "update_cell flt who ref body g =
     (case load_cell flt who ref g of Inl e \<Rightarrow> (refuse e, g) | Inr (c, role) \<Rightarrow>
      if \<not> can_edit_project role then (Error 403 ''forbidden'', g)
      else (case body of None \<Rightarrow> (Error 400 ''bad_request'', g) | Some r \<Rightarrow>
        if (case uc_name r of None \<Rightarrow> False | Some n \<Rightarrow> trim_space n = [] \<or> 200 < length (trim_space n)) then
          (Error 400 ''invalid_name'', g)
        else if (case uc_status r of None \<Rightarrow> False | Some s \<Rightarrow> \<not> valid_cell_status s) then (Error 400 ''invalid_status'', g)
        else if (case uc_tier r of None \<Rightarrow> False | Some s \<Rightarrow> \<not> valid_cell_tier s) then (Error 400 ''invalid_isolation_tier'', g)
        else if flt ''update cell'' then (Error 500 ''internal'', g)
        else (let f = write_cell (patched_cell r c) (now g) in
          (Answer 200 (f c), audit_cell flt (ce_team c) (pr_user who) ''updateCell'' (ce_id c) (update_cell_row (ce_id c) f g)))))"

definition drain_cell :: "ofaults \<Rightarrow> principal \<Rightarrow> string \<Rightarrow> org \<Rightarrow> cell resp \<times> org" where
  "drain_cell flt who ref g =
     (case load_cell flt who ref g of Inl e \<Rightarrow> (refuse e, g) | Inr (c, role) \<Rightarrow>
      if \<not> can_edit_project role then (Error 403 ''forbidden'', g)
      else if flt ''drain cell'' then (Error 500 ''internal'', g)
      else (let f = (\<lambda>x. x\<lparr>ce_status := ''draining'', ce_updated := now g\<rparr>) in
        (Answer 200 (f c), audit_cell flt (ce_team c) (pr_user who) ''drainCell'' (ce_id c) (update_cell_row (ce_id c) f g))))"

section \<open>Delete\<close>

text \<open>What the foreign keys do when the row of the cell goes.\<close>

definition drop_cell_rows :: "uuid \<Rightarrow> plane \<Rightarrow> plane" where
  "drop_cell_rows i p =
     (let L = ln_id ` set (filter (\<lambda>l. ln_source l = i \<or> ln_target l = i) (cell_links p))
      in p\<lparr>cells := filter (\<lambda>c. ce_id c \<noteq> i) (cells p),
           cell_resources := filter (\<lambda>x. cx_cell x \<noteq> i) (cell_resources p),
           placements := filter (\<lambda>x. pl_cell x \<noteq> i) (placements p),
           cell_links := filter (\<lambda>l. ln_source l \<noteq> i \<and> ln_target l \<noteq> i) (cell_links p),
           service_tokens := filter (\<lambda>k. sv_link k \<notin> L \<and> sv_source k \<noteq> i \<and> sv_target k \<noteq> i) (service_tokens p),
           desired := map (\<lambda>r. r\<lparr>ds_cell := forget {i} (ds_cell r)\<rparr>) (desired p),
           reports := map (\<lambda>r. r\<lparr>dr_cell := forget {i} (dr_cell r)\<rparr>) (reports p),
           items := map (\<lambda>(q, x). (q, x\<lparr>it_cell := forget {i} (it_cell x)\<rparr>)) (items p),
           run_docs := map (\<lambda>d. d\<lparr>rd_cell := forget {i} (rd_cell d)\<rparr>) (run_docs p)\<rparr>)"

definition delete_cell :: "ofaults \<Rightarrow> principal \<Rightarrow> string \<Rightarrow> org \<Rightarrow> uuid resp \<times> org" where
  "delete_cell flt who ref g =
     (case load_cell flt who ref g of Inl e \<Rightarrow> (refuse e, g) | Inr (c, role) \<Rightarrow>
      if \<not> can_admin_project role then (Error 403 ''forbidden'', g)
      else if flt ''count cell links'' then (Error 500 ''internal'', g)
      else if sql_exists (\<lambda>l. ln_source l = ce_id c \<or> ln_target l = ce_id c) (cell_links (pl g)) then
        (Error 409 ''cell_has_links'', g)
      else if flt ''delete cell'' then (Error 500 ''internal'', g)
      else (Answer 200 (ce_id c),
        audit_cell flt (ce_team c) (pr_user who) ''deleteCell'' (ce_id c) (set_pl (drop_cell_rows (ce_id c) (pl g)) g)))"

section \<open>attach_deployment\<close>

text \<open>
  The deployment that is to be attached. A deployment of another project is only admitted to exist if
  the caller has a role there.
\<close>

definition attachable :: "ofaults \<Rightarrow> principal \<Rightarrow> cell \<Rightarrow> string \<Rightarrow> org \<Rightarrow> refusal + deployment" where
  "attachable flt who c name g =
     (if flt ''load deployment for attach'' then Inl internal
      else case load_deployment name g of None \<Rightarrow> Inl (404, ''deployment_not_found'') | Some (d, p, t) \<Rightarrow>
        if d_project d = ce_project c then Inr d
        else (case effective_project_role flt (d_project d) (tm_id t) (pr_user who) g of
            NoRows \<Rightarrow> Inl (404, ''deployment_not_found'')
          | DbErr \<Rightarrow> Inl internal
          | Row _ \<Rightarrow> Inl (400, ''deployment_wrong_project'')))"

definition resource_taken :: "uuid \<Rightarrow> uuid \<Rightarrow> plane \<Rightarrow> bool" where
  "resource_taken c dep p \<longleftrightarrow> sql_exists (\<lambda>x. cx_type x = res_deployment \<and> cx_resource x = dep) (cell_resources p)"

definition insert_resource :: "uuids \<Rightarrow> uuid \<Rightarrow> uuid \<Rightarrow> string \<Rightarrow> plane \<Rightarrow> plane" where
  "insert_resource gen c dep role p = (drawn p)\<lparr>cell_resources := cell_resources p @
     [\<lparr>cx_id = fresh_id gen p, cx_cell = c, cx_type = res_deployment, cx_resource = dep, cx_role = role,
       cx_created = clock (core p)\<rparr>]\<rparr>"

record placement_facts =
  pf_host :: "uuid option"
  pf_desired :: string
  pf_observed :: string
  pf_container :: "string option"
  pf_port :: "int option"
  pf_url :: "string option"

definition placement_facts_of :: "cell \<Rightarrow> deployment \<Rightarrow> placement_facts" where
  "placement_facts_of c d = \<lparr>pf_host = (if d_adopted d then None else ce_host c), pf_desired = ''running'',
     pf_observed = observed_from_status (d_status d),
     pf_container = (case d_container d of None \<Rightarrow> None | Some x \<Rightarrow> null_str x),
     pf_port = (case d_host_port d of Some n \<Rightarrow> if 0 < n then Some n else None | None \<Rightarrow> None),
     pf_url = (case d_url d of None \<Rightarrow> None | Some x \<Rightarrow> null_str x)\<rparr>"

definition new_placement :: "uuid \<Rightarrow> uuid \<Rightarrow> uuid \<Rightarrow> placement_facts \<Rightarrow> int \<Rightarrow> placement" where
  "new_placement i dep c f t = \<lparr>pl_id = i, pl_deployment = dep, pl_cell = c, pl_host = pf_host f, pl_desired = pf_desired f,
     pl_observed = pf_observed f, pl_container = pf_container f, pl_port = pf_port f, pl_url = pf_url f,
     pl_seen = Some t, pl_created = t, pl_updated = t\<rparr>"

text \<open>On a conflict everything but the desired status follows the new cell.\<close>

definition move_placement :: "uuid \<Rightarrow> placement_facts \<Rightarrow> int \<Rightarrow> placement \<Rightarrow> placement" where
  "move_placement c f t x = x\<lparr>pl_cell := c, pl_host := pf_host f, pl_observed := pf_observed f,
     pl_container := pf_container f, pl_port := pf_port f, pl_url := pf_url f, pl_seen := Some t, pl_updated := t\<rparr>"

definition upsert_placement :: "uuids \<Rightarrow> uuid \<Rightarrow> uuid \<Rightarrow> placement_facts \<Rightarrow> plane \<Rightarrow> plane" where
  "upsert_placement gen dep c f p =
     (if sql_exists (\<lambda>x. pl_deployment x = dep) (placements p)
      then p\<lparr>placements := sql_update (\<lambda>x. pl_deployment x = dep) (move_placement c f (clock (core p))) (placements p)\<rparr>
      else (drawn p)\<lparr>placements := placements p @ [new_placement (fresh_id gen p) dep c f (clock (core p))]\<rparr>)"

definition point_primary :: "uuid \<Rightarrow> uuid \<Rightarrow> plane \<Rightarrow> plane" where
  "point_primary c dep p = p\<lparr>cells := sql_update (\<lambda>x. ce_id x = c)
     (\<lambda>x. x\<lparr>ce_primary := Some dep, ce_updated := clock (core p)\<rparr>) (cells p)\<rparr>"

text \<open>The transaction.\<close>

definition attach_tx :: "ofaults \<Rightarrow> uuids \<Rightarrow> cell \<Rightarrow> deployment \<Rightarrow> string \<Rightarrow> plane \<Rightarrow> refusal + plane" where
  "attach_tx flt gen c d role p =
     (if flt ''attach begin tx'' \<or> flt ''insert cell_resource'' then Inl internal
      else if resource_taken (ce_id c) (d_id d) p then Inl (409, ''deployment_already_attached'')
      else if flt ''upsert placement'' then Inl internal
      else (let p1 = upsert_placement gen (d_id d) (ce_id c) (placement_facts_of c d)
                       (insert_resource gen (ce_id c) (d_id d) role p);
                point = (role = ''primary'' \<or> ce_primary c = None)
            in if point \<and> flt ''set primary deployment'' \<or> flt ''attach commit'' then Inl internal
               else Inr (if point then point_primary (ce_id c) (d_id d) p1 else p1)))"

definition reload_cell :: "ofaults \<Rightarrow> string \<Rightarrow> uuid \<Rightarrow> org \<Rightarrow> cell option" where
  "reload_cell flt l i g = (if flt l then None else sql_row (\<lambda>c. ce_id c = i) (cells (pl g)))"

definition attach_deployment ::
  "ofaults \<Rightarrow> api \<Rightarrow> principal \<Rightarrow> string \<Rightarrow> (string \<times> string) option \<Rightarrow> org \<Rightarrow> (cell \<times> placement option) resp \<times> org" where
  "attach_deployment flt a who ref body g =
     (case load_cell flt who ref g of Inl e \<Rightarrow> (refuse e, g) | Inr (c, role) \<Rightarrow>
      if \<not> can_edit_project role then (Error 403 ''forbidden'', g)
      else (case body of None \<Rightarrow> (Error 400 ''bad_request'', g) | Some (name0, role0) \<Rightarrow>
        let name = trim_space name0; rr = or_trimmed role0 ''primary'' in
        if name = [] then (Error 400 ''missing_deployment'', g)
        else if \<not> valid_resource_role rr then (Error 400 ''invalid_role'', g)
        else (case attachable flt who c name g of Inl e \<Rightarrow> (refuse e, g) | Inr d \<Rightarrow>
          (case attach_tx flt (a_uuid a) c d rr (pl g) of Inl e \<Rightarrow> (refuse e, g) | Inr p \<Rightarrow>
           let g1 = set_pl p g in
           case reload_cell flt ''reload cell post-attach'' (ce_id c) g1 of None \<Rightarrow> (Error 500 ''internal'', g1) | Some x \<Rightarrow>
             (Answer 200 (x, sql_row (\<lambda>y. pl_deployment y = d_id d) (placements p)),
              audit_cell flt (ce_team c) (pr_user who) ''attachDeploymentToCell'' (ce_id c) g1)))))"

section \<open>attach_host\<close>

definition set_cell_host :: "uuid \<Rightarrow> uuid \<Rightarrow> plane \<Rightarrow> plane" where
  "set_cell_host c h p = p\<lparr>cells := sql_update (\<lambda>x. ce_id x = c)
     (\<lambda>x. x\<lparr>ce_host := Some h, ce_updated := clock (core p)\<rparr>) (cells p)\<rparr>"

text \<open>Placements that are pinned to a host stay there.\<close>

definition backfill_placement_host :: "uuid \<Rightarrow> uuid \<Rightarrow> plane \<Rightarrow> plane" where
  "backfill_placement_host c h p = p\<lparr>placements := sql_update (\<lambda>x. pl_cell x = c \<and> pl_host x = None)
     (\<lambda>x. x\<lparr>pl_host := Some h, pl_updated := clock (core p)\<rparr>) (placements p)\<rparr>"

definition attach_host :: "ofaults \<Rightarrow> principal \<Rightarrow> string \<Rightarrow> string option \<Rightarrow> org \<Rightarrow> cell resp \<times> org" where
  "attach_host flt who ref body g =
     (case load_cell flt who ref g of Inl e \<Rightarrow> (refuse e, g) | Inr (c, role) \<Rightarrow>
      if \<not> can_edit_project role then (Error 403 ''forbidden'', g)
      else (case body of None \<Rightarrow> (Error 400 ''bad_request'', g) | Some href0 \<Rightarrow>
        let href = trim_space href0 in
        if href = [] then (Error 400 ''missing_host'', g)
        else (case fetch flt ''resolve host for attach'' (\<lambda>h. h_id h = href \<or> h_name h = href) (hosts (sys g)) of
            NoRows \<Rightarrow> (Error 404 ''host_not_found'', g)
          | DbErr \<Rightarrow> (Error 500 ''internal'', g)
          | Row h \<Rightarrow>
              if flt ''attach host begin tx'' \<or> flt ''set primary host'' \<or> flt ''backfill placement host''
                 \<or> flt ''attach host commit'' then (Error 500 ''internal'', g)
              else (let g1 = set_pl (backfill_placement_host (ce_id c) (h_id h) (set_cell_host (ce_id c) (h_id h) (pl g))) g in
                case reload_cell flt ''reload cell post-attach-host'' (ce_id c) g1 of None \<Rightarrow> (Error 500 ''internal'', g1)
                | Some x \<Rightarrow> (Answer 200 x, audit_cell flt (ce_team c) (pr_user who) ''updateCell'' (ce_id c) g1)))))"

section \<open>Resources\<close>

definition list_cell_resources ::
  "ofaults \<Rightarrow> principal \<Rightarrow> string \<Rightarrow> org \<Rightarrow> (cell_resource list \<times> placement list) resp" where
  "list_cell_resources flt who ref g =
     (case load_cell flt who ref g of Inl e \<Rightarrow> refuse e | Inr (c, _) \<Rightarrow>
      if flt ''list cell resources'' \<or> flt ''list placements'' then Error 500 ''internal''
      else Answer 200 (sort_key cx_created (filter (\<lambda>x. cx_cell x = ce_id c) (cell_resources (pl g))),
        sort_key pl_created (filter (\<lambda>x. pl_cell x = ce_id c) (placements (pl g)))))"

end
