(* ===== verification/CellLinks.thy ===== *)
theory CellLinks
  imports Proxy Cells Agents
begin

text \<open>
  The contracts between cells (api/cell_links.go): links with the commands and events they allow, the
  service tokens of a link, and the public discovery that a service token gives access to.
\<close>

section \<open>Links as they are shown\<close>

definition is_public_url :: "string \<Rightarrow> bool" where
  "is_public_url u \<longleftrightarrow> (has_prefix u ''http://'' \<or> has_prefix u ''https://'')
     \<and> \<not> str_contains u ''127.0.0.1'' \<and> \<not> str_contains u ''localhost''"

text \<open>
  Where a cell can be reached: the first active api domain of its primary deployment, or the stored URL
  if it is public. A query that fails counts as no answer.
\<close>

definition resolve_cell_endpoint :: "ofaults \<Rightarrow> uuid \<Rightarrow> plane \<Rightarrow> string option \<times> string" where
  "resolve_cell_endpoint flt c p =
     (let s = core p in
      case (if flt ''cell primary'' then None else sql_row (\<lambda>x. ce_id x = c) (cells p)) of
        None \<Rightarrow> (None, ''none'')
      | Some x \<Rightarrow>
          (case ce_primary x of None \<Rightarrow> (None, ''none'') | Some d \<Rightarrow>
           (case (if flt ''cell route'' then [] else sort_key dm_created (filter (\<lambda>r. dm_deployment r = d
                    \<and> dm_status r = DomActive \<and> dm_role r = RoleApi \<and> dm_domain r \<noteq> []) (domains s))) of
              r # _ \<Rightarrow> (Some (''https://'' @ dm_domain r), ''route'')
            | [] \<Rightarrow>
                (case (if flt ''cell deployment'' then None else find_dep d s) of
                   None \<Rightarrow> (None, ''none'')
                 | Some y \<Rightarrow>
                     (case d_url y of None \<Rightarrow> (None, ''none'') | Some u \<Rightarrow>
                      if is_public_url u then (Some u, ''deployment'') else (None, ''none''))))))"

record link_shown =
  ls_link :: cell_link
  ls_tokens :: nat
  ls_endpoint :: "string option"
  ls_source :: string

definition active_tokens :: "uuid \<Rightarrow> plane \<Rightarrow> nat" where
  "active_tokens l p = length (filter (\<lambda>k. sv_link k = l \<and> \<not> sv_revoked k) (service_tokens p))"

definition decorate_link :: "ofaults \<Rightarrow> plane \<Rightarrow> cell_link \<Rightarrow> link_shown" where
  "decorate_link flt p l =
     (case resolve_cell_endpoint flt (ln_target l) p of (e, src) \<Rightarrow>
        \<lparr>ls_link = l, ls_tokens = active_tokens (ln_id l) p, ls_endpoint = e,
         ls_source = (if src = ''none'' then [] else src)\<rparr>)"

definition undecorated :: "plane \<Rightarrow> cell_link \<Rightarrow> link_shown" where
  "undecorated p l = \<lparr>ls_link = l, ls_tokens = active_tokens (ln_id l) p, ls_endpoint = None, ls_source = []\<rparr>"

definition load_cell_link_for_request ::
  "ofaults \<Rightarrow> principal \<Rightarrow> string \<Rightarrow> org \<Rightarrow> refusal + cell_link \<times> role" where
  "load_cell_link_for_request flt who ref g =
     (if pr_user who = [] then Inl (401, ''unauthorized'')
      else case fetch flt ''load cell link'' (\<lambda>l. ln_id l = ref) (cell_links (pl g)) of
          NoRows \<Rightarrow> Inl (404, ''cell_link_not_found'')
        | DbErr \<Rightarrow> Inl internal
        | Row l \<Rightarrow>
            (case effective_project_role flt (ln_project l) (ln_team l) (pr_user who) g of
               NoRows \<Rightarrow> Inl forbidden
             | DbErr \<Rightarrow> Inl internal
             | Row r \<Rightarrow> if enforce_project_access who (ln_project l) (ln_team l) then Inr (l, r) else Inl scope_denied))"

section \<open>Links\<close>

text \<open>Trimmed, without empty entries, each once, in order.\<close>

fun clean_from :: "string list \<Rightarrow> string list \<Rightarrow> string list" where
  "clean_from seen [] = []"
| "clean_from seen (s # ss) =
     (let t = trim_space s in
      if t = [] \<or> t \<in> set seen then clean_from seen ss else t # clean_from (t # seen) ss)"

definition clean_strings :: "string list \<Rightarrow> string list" where
  "clean_strings ss = clean_from [] ss"

definition valid_link_protocol :: "string \<Rightarrow> bool" where
  "valid_link_protocol s \<longleftrightarrow> s \<in> set [''http'', ''convex_action'', ''outbox'', ''webhook'', ''polling'']"

definition valid_link_auth :: "string \<Rightarrow> bool" where
  "valid_link_auth s \<longleftrightarrow> s \<in> set [''service_token'', ''mtls'', ''none'']"

definition list_cell_links :: "ofaults \<Rightarrow> principal \<Rightarrow> string \<Rightarrow> org \<Rightarrow> link_shown list resp" where
  "list_cell_links flt who pref g =
     (case load_project_for_request flt who pref g of Inl e \<Rightarrow> refuse e | Inr (p, _, _) \<Rightarrow>
      if flt ''list cell links'' then Error 500 ''internal''
      else Answer 200 (map (decorate_link flt (pl g))
        (sort_key ln_created (filter (\<lambda>l. ln_project l = pj_id p) (cell_links (pl g))))))"

definition cell_in_project :: "uuid \<Rightarrow> uuid \<Rightarrow> plane \<Rightarrow> bool" where
  "cell_in_project c pid p \<longleftrightarrow> (case sql_row (\<lambda>x. ce_id x = c) (cells p) of None \<Rightarrow> False | Some x \<Rightarrow> ce_project x = pid)"

record create_link_req =
  nl_source :: string
  nl_target :: string
  nl_protocol :: string
  nl_auth :: string
  nl_commands :: "string list"
  nl_events :: "string list"

definition link_taken :: "uuid \<Rightarrow> uuid \<Rightarrow> string \<Rightarrow> plane \<Rightarrow> bool" where
  "link_taken src tgt prot p \<longleftrightarrow> sql_exists (\<lambda>l. ln_source l = src \<and> ln_target l = tgt \<and> ln_protocol l = prot
     \<and> ln_status l = LnActive) (cell_links p)"

definition audit_link :: "ofaults \<Rightarrow> cell_link \<Rightarrow> uuid \<Rightarrow> string \<Rightarrow> org \<Rightarrow> org" where
  "audit_link flt l uid act g = record_audit flt (ln_team l) uid act ''cellLink'' (ln_id l) g"

definition create_cell_link ::
  "ofaults \<Rightarrow> api \<Rightarrow> principal \<Rightarrow> string \<Rightarrow> create_link_req option \<Rightarrow> org \<Rightarrow> link_shown resp \<times> org" where
  "create_cell_link flt a who pref body g =
     (case load_project_for_request flt who pref g of Inl e \<Rightarrow> (refuse e, g) | Inr (p, _, role) \<Rightarrow>
      if \<not> can_edit_project role then (Error 403 ''forbidden'', g)
      else (case body of None \<Rightarrow> (Error 400 ''bad_request'', g) | Some r \<Rightarrow>
        let src = trim_space (nl_source r); tgt = trim_space (nl_target r);
            prot = or_trimmed (nl_protocol r) ''outbox''; auth = or_trimmed (nl_auth r) ''service_token'' in
        if src = [] \<or> tgt = [] then (Error 400 ''missing_cell'', g)
        else if src = tgt then (Error 400 ''self_link'', g)
        else if flt ''verify source in project'' then (Error 500 ''internal'', g)
        else if \<not> cell_in_project src (pj_id p) (pl g) then (Error 400 ''invalid_cell'', g)
        else if flt ''verify target in project'' then (Error 500 ''internal'', g)
        else if \<not> cell_in_project tgt (pj_id p) (pl g) then (Error 400 ''invalid_cell'', g)
        else if \<not> valid_link_protocol prot then (Error 400 ''invalid_protocol'', g)
        else if \<not> valid_link_auth auth then (Error 400 ''invalid_auth_mode'', g)
        else if flt ''insert cell link'' then (Error 500 ''internal'', g)
        else if link_taken src tgt prot (pl g) then (Error 409 ''link_already_exists'', g)
        else (let l = \<lparr>ln_id = new_id (a_uuid a) g, ln_team = pj_team p, ln_project = pj_id p, ln_source = src,
                    ln_target = tgt, ln_protocol = prot, ln_auth = auth, ln_commands = clean_strings (nl_commands r),
                    ln_events = clean_strings (nl_events r), ln_status = LnActive, ln_created = now g, ln_updated = now g\<rparr>;
                  g1 = set_pl ((pl (took_id g))\<lparr>cell_links := cell_links (pl g) @ [l]\<rparr>) g
              in (Answer 201 ((decorate_link flt (pl g1) l)\<lparr>ls_tokens := 0\<rparr>),
                  audit_link flt l (pr_user who) ''createCellLink'' g1))))"

definition get_cell_link :: "ofaults \<Rightarrow> principal \<Rightarrow> string \<Rightarrow> org \<Rightarrow> link_shown resp" where
  "get_cell_link flt who ref g =
     (case load_cell_link_for_request flt who ref g of Inl e \<Rightarrow> refuse e
      | Inr (l, _) \<Rightarrow> Answer 200 (decorate_link flt (pl g) l))"

record update_link_req =
  ul_auth :: "string option"
  ul_commands :: "string list option"
  ul_events :: "string list option"

definition patched_link :: "update_link_req \<Rightarrow> cell_link \<Rightarrow> cell_link" where
  "patched_link r l = l\<lparr>ln_auth := given (ul_auth r) (ln_auth l),
     ln_commands := given (map_option clean_strings (ul_commands r)) (ln_commands l),
     ln_events := given (map_option clean_strings (ul_events r)) (ln_events l)\<rparr>"

definition write_link :: "cell_link \<Rightarrow> int \<Rightarrow> cell_link \<Rightarrow> cell_link" where
  "write_link x t l = l\<lparr>ln_auth := ln_auth x, ln_commands := ln_commands x, ln_events := ln_events x, ln_updated := t\<rparr>"

definition update_link_row :: "uuid \<Rightarrow> (cell_link \<Rightarrow> cell_link) \<Rightarrow> org \<Rightarrow> org" where
  "update_link_row i f g = set_pl ((pl g)\<lparr>cell_links := sql_update (\<lambda>l. ln_id l = i) f (cell_links (pl g))\<rparr>) g"

text \<open>When the row cannot be read again, the answer counts no tokens.\<close>

definition update_cell_link ::
  "ofaults \<Rightarrow> principal \<Rightarrow> string \<Rightarrow> update_link_req option \<Rightarrow> org \<Rightarrow> link_shown resp \<times> org" where
  "update_cell_link flt who ref body g =
     (case load_cell_link_for_request flt who ref g of Inl e \<Rightarrow> (refuse e, g) | Inr (l, role) \<Rightarrow>
      if \<not> can_edit_project role then (Error 403 ''forbidden'', g)
      else (case body of None \<Rightarrow> (Error 400 ''bad_request'', g) | Some r \<Rightarrow>
        if (case ul_auth r of None \<Rightarrow> False | Some s \<Rightarrow> \<not> valid_link_auth s) then (Error 400 ''invalid_auth_mode'', g)
        else if flt ''update cell link'' then (Error 500 ''internal'', g)
        else (let f = write_link (patched_link r l) (now g);
                  g1 = audit_link flt l (pr_user who) ''updateCellLink'' (update_link_row (ln_id l) f g)
              in (Answer 200 (if flt ''reload cell link'' then (undecorated (pl g1) (f l))\<lparr>ls_tokens := 0\<rparr>
                              else undecorated (pl g1) (f l)), g1))))"

definition disable_cell_link :: "ofaults \<Rightarrow> principal \<Rightarrow> string \<Rightarrow> org \<Rightarrow> link_shown option resp \<times> org" where
  "disable_cell_link flt who ref g =
     (case load_cell_link_for_request flt who ref g of Inl e \<Rightarrow> (refuse e, g) | Inr (l, role) \<Rightarrow>
      if \<not> can_edit_project role then (Error 403 ''forbidden'', g)
      else if flt ''disable cell link'' then (Error 500 ''internal'', g)
      else (let f = (\<lambda>x. x\<lparr>ln_status := LnDisabled, ln_updated := now g\<rparr>);
                g1 = audit_link flt l (pr_user who) ''disableCellLink'' (update_link_row (ln_id l) f g)
            in (Answer 200 (if flt ''reload cell link'' then None else Some (undecorated (pl g1) (f l))), g1)))"

section \<open>Service tokens\<close>

definition token_effective_status :: "int \<Rightarrow> service_token \<Rightarrow> string" where
  "token_effective_status t k =
     (if sv_revoked k then ''revoked''
      else if (case sv_expires k of None \<Rightarrow> False | Some e \<Rightarrow> e \<le> t) then ''expired'' else ''active'')"

definition list_service_tokens :: "ofaults \<Rightarrow> principal \<Rightarrow> string \<Rightarrow> org \<Rightarrow> (service_token \<times> string) list resp" where
  "list_service_tokens flt who ref g =
     (case load_cell_link_for_request flt who ref g of Inl e \<Rightarrow> refuse e | Inr (l, _) \<Rightarrow>
      if flt ''list service tokens'' then Error 500 ''internal''
      else Answer 200 (map (\<lambda>k. (k, token_effective_status (now g) k))
        (sort_key sv_created (filter (\<lambda>k. sv_link k = ln_id l) (service_tokens (pl g))))))"

record create_service_token_req =
  nk_name :: string
  nk_scopes :: "string list"
  nk_expires :: "int option"

definition token_scopes_of :: "create_service_token_req \<Rightarrow> string list" where
  "token_scopes_of r = (let ss = clean_strings (nk_scopes r) in if ss = [] then [''discovery:read''] else ss)"

definition create_service_token ::
  "ofaults \<Rightarrow> api \<Rightarrow> principal \<Rightarrow> string \<Rightarrow> create_service_token_req option \<Rightarrow> org \<Rightarrow> (string \<times> service_token) resp \<times> org" where
  "create_service_token flt a who ref body g =
     (case load_cell_link_for_request flt who ref g of Inl e \<Rightarrow> (refuse e, g) | Inr (l, role) \<Rightarrow>
      if \<not> can_edit_project role then (Error 403 ''forbidden'', g)
      else if ln_auth l \<noteq> ''service_token'' then (Error 400 ''auth_mode_not_token'', g)
      else (case body of None \<Rightarrow> (Error 400 ''bad_request'', g) | Some r \<Rightarrow>
        if (case nk_expires r of None \<Rightarrow> False | Some e \<Rightarrow> e \<le> now g) then (Error 400 ''invalid_expires_at'', g)
        else if 20 < length (token_scopes_of r) then (Error 400 ''too_many_scopes'', g)
        else if list_ex (\<lambda>s. 64 < length s) (token_scopes_of r) then (Error 400 ''invalid_scope'', g)
        else (case generate_token a ''syn_svc_'' g of None \<Rightarrow> (Error 500 ''internal'', g) | Some (plain, hash) \<Rightarrow>
          if flt ''insert service token'' \<or> sql_exists (\<lambda>k. sv_hash k = hash) (service_tokens (pl g)) then (Error 500 ''internal'', g)
          else (let k = \<lparr>sv_id = new_id (a_uuid a) g, sv_link = ln_id l, sv_source = ln_source l, sv_target = ln_target l,
                      sv_name = trim_space (nk_name r), sv_hash = hash, sv_scopes = token_scopes_of r, sv_revoked = False,
                      sv_expires = nk_expires r, sv_used = None, sv_created = now g, sv_updated = now g\<rparr>;
                    g1 = set_pl ((pl (took_id g))\<lparr>service_tokens := service_tokens (pl g) @ [k]\<rparr>) g
                in (Answer 201 (plain, k),
                    record_audit flt (ln_team l) (pr_user who) ''createServiceToken'' ''serviceToken'' (sv_id k) g1)))))"

definition token_with_link :: "uuid \<Rightarrow> plane \<Rightarrow> (service_token \<times> cell_link) option" where
  "token_with_link i p = sql_row (\<lambda>(k, l). sv_id k = i \<and> ln_id l = sv_link k)
     (List.product (service_tokens p) (cell_links p))"

definition revoke_service_token :: "ofaults \<Rightarrow> principal \<Rightarrow> string \<Rightarrow> org \<Rightarrow> uuid resp \<times> org" where
  "revoke_service_token flt who i g =
     (if pr_user who = [] then (Error 401 ''unauthorized'', g)
      else if flt ''resolve service token'' then (Error 500 ''internal'', g)
      else case token_with_link i (pl g) of
          None \<Rightarrow> (Error 404 ''service_token_not_found'', g)
        | Some (k, l) \<Rightarrow>
            (case effective_project_role flt (ln_project l) (ln_team l) (pr_user who) g of
               NoRows \<Rightarrow> (Error 403 ''forbidden'', g)
             | DbErr \<Rightarrow> (Error 500 ''internal'', g)
             | Row role \<Rightarrow>
                 if \<not> enforce_project_access who (ln_project l) (ln_team l) then (refuse scope_denied, g)
                 else if \<not> can_edit_project role then (Error 403 ''forbidden'', g)
                 else if flt ''revoke service token'' then (Error 500 ''internal'', g)
                 else (Answer 200 i, record_audit flt (ln_team l) (pr_user who) ''revokeServiceToken'' ''serviceToken'' i
                   (set_pl ((pl g)\<lparr>service_tokens := sql_update (\<lambda>k. sv_id k = i)
                      (\<lambda>k. k\<lparr>sv_revoked := True, sv_updated := now g\<rparr>) (service_tokens (pl g))\<rparr>) g))))"

section \<open>Discovery\<close>

record discovery_link =
  dl_link :: uuid
  dl_target :: uuid
  dl_name :: string
  dl_kind :: string
  dl_env :: string
  dl_protocol :: string
  dl_auth :: string
  dl_commands :: "string list"
  dl_events :: "string list"
  dl_endpoint :: "string option"
  dl_source :: string

definition usable_token :: "int \<Rightarrow> string \<Rightarrow> service_token \<Rightarrow> bool" where
  "usable_token t hash k \<longleftrightarrow> sv_hash k = hash \<and> \<not> sv_revoked k \<and> (case sv_expires k of None \<Rightarrow> True | Some e \<Rightarrow> t < e)"

definition discovered :: "ofaults \<Rightarrow> cell_link \<Rightarrow> cell \<Rightarrow> plane \<Rightarrow> discovery_link" where
  "discovered flt l c p =
     (case resolve_cell_endpoint flt (ln_target l) p of (e, src) \<Rightarrow>
        \<lparr>dl_link = ln_id l, dl_target = ln_target l, dl_name = ce_name c, dl_kind = ce_kind c, dl_env = ce_env c,
         dl_protocol = ln_protocol l, dl_auth = ln_auth l, dl_commands = ln_commands l, dl_events = ln_events l,
         dl_endpoint = e, dl_source = src\<rparr>)"

definition link_with_target :: "uuid \<Rightarrow> plane \<Rightarrow> (cell_link \<times> cell) option" where
  "link_with_target i p = sql_row (\<lambda>(l, c). ln_id l = i \<and> ln_status l = LnActive \<and> ce_id c = ln_target l)
     (List.product (cell_links p) (cells p))"

text \<open>The token is stamped before its scopes are looked at. The answer: the source cell and its link.\<close>

definition discovery :: "ofaults \<Rightarrow> api \<Rightarrow> string \<Rightarrow> org \<Rightarrow> (uuid \<times> discovery_link list) resp \<times> org" where
  "discovery flt a header g =
     (let tok = agent_bearer header in
      if tok = [] then (Error 401 ''missing_authorization'', g)
      else if flt ''discovery token lookup'' then (Error 500 ''internal'', g)
      else case sql_row (usable_token (now g) (a_sha256 a tok)) (service_tokens (pl g)) of
          None \<Rightarrow> (Error 401 ''invalid_service_token'', g)
        | Some k \<Rightarrow>
            (let g1 = set_pl ((pl g)\<lparr>service_tokens := sql_update (usable_token (now g) (a_sha256 a tok))
                   (\<lambda>x. x\<lparr>sv_used := Some (now g)\<rparr>) (service_tokens (pl g))\<rparr>) g in
             if ''discovery:read'' \<notin> set (sv_scopes k) then (Error 403 ''insufficient_scope'', g1)
             else if flt ''discovery link'' then (Error 500 ''internal'', g1)
             else (case link_with_target (sv_link k) (pl g1) of
                 None \<Rightarrow> (Answer 200 (sv_source k, []), g1)
               | Some (l, c) \<Rightarrow> (Answer 200 (sv_source k, [discovered flt l c (pl g1)]), g1))))"

end
