(* ===== verification/Backfill.thy ===== *)
theory Backfill
  imports Cells
begin

text \<open>
  The backfill at start-up (internal/cells/backfill.go): the row of the local host, and a cell with a
  resource and a placement for every deployment that has none.
\<close>

record backfill_opts =
  bf_host_name :: string
  bf_region :: string
  bf_provider :: string

record backfill_result =
  br_host :: uuid
  br_host_created :: bool
  br_created :: nat
  br_existing :: nat

fun region_loop :: "nat list \<Rightarrow> bool \<Rightarrow> string \<Rightarrow> string" where
  "region_loop [] prev b = b"
| "region_loop (r # rs) prev b =
     (if 97 \<le> r \<and> r \<le> 122 \<or> 48 \<le> r \<and> r \<le> 57 then region_loop rs False (b @ encode_rune r)
      else if r = 45 \<or> r = 95 \<or> r = 32 then
        (if \<not> prev \<and> b \<noteq> [] then region_loop rs True (b @ ''-'') else region_loop rs prev b)
      else region_loop rs prev b)"

definition sanitize_region :: "unicode \<Rightarrow> string \<Rightarrow> string" where
  "sanitize_region u s = trim_dashes (region_loop (map (uc_lower u) (runes (trim_space s))) False [])"

definition map_env :: "string \<Rightarrow> string" where
  "map_env t = (if t = ''prod'' then ''prod'' else if t = ''preview'' then ''preview'' else ''dev'')"

definition local_host :: "uuid \<Rightarrow> backfill_opts \<Rightarrow> string \<Rightarrow> int \<Rightarrow> host" where
  "local_host i opts region t = (fresh_host i (or_trimmed (bf_host_name opts) ''current-host'')
     (or_trimmed (bf_provider opts) ''self-hosted'') HOnline t)\<lparr>h_region := region, h_self := True\<rparr>"

text \<open>A unique violation: another node was faster, or the name is in use.\<close>

definition ensure_local_host ::
  "ofaults \<Rightarrow> api \<Rightarrow> backfill_opts \<Rightarrow> string \<Rightarrow> org \<Rightarrow> (uuid \<times> bool) option \<times> org" where
  "ensure_local_host flt a opts region g =
     (if flt ''find local host'' then (None, g)
      else case sql_row h_self (hosts (sys g)) of
          Some h \<Rightarrow> (Some (h_id h, False), g)
        | None \<Rightarrow>
            (let g1 = a_others a 0 g; h = local_host (new_id (a_uuid a) g1) opts region (now g1) in
             if flt ''insert local host'' then (None, g1)
             else if sql_exists h_self (hosts (sys g1)) \<or> host_name_taken (h_id h) (h_name h) g1 then
               (if flt ''find local host again'' then (None, g1)
                else (case sql_row h_self (hosts (sys g1)) of None \<Rightarrow> (None, g1) | Some x \<Rightarrow> (Some (h_id x, False), g1)))
             else (Some (h_id h, True), insert_host h g1)))"

text \<open>The deployments that are not deleted, with the team of their project.\<close>

definition load_backfill_rows :: "org \<Rightarrow> (deployment \<times> uuid) list" where
  "load_backfill_rows g = List.map_filter (\<lambda>d. if d_status d = DDeleted then None
     else map_option (\<lambda>p. (d, pj_team p)) (sql_row (\<lambda>p. pj_id p = d_project d) (projects g))) (sort_key d_project (deps (sys g)))"

definition deployment_has_cell :: "uuid \<Rightarrow> plane \<Rightarrow> bool" where
  "deployment_has_cell d p \<longleftrightarrow> sql_exists (\<lambda>x. cx_type x = res_deployment \<and> cx_resource x = d) (cell_resources p)"

definition next_cell_index :: "uuid \<Rightarrow> string \<Rightarrow> plane \<Rightarrow> nat" where
  "next_cell_index pid env p =
     length (filter (\<lambda>c. ce_project c = pid \<and> ce_kind c = ''core'' \<and> ce_env c = env) (cells p)) + 1"

definition backfill_name :: "string \<Rightarrow> string \<Rightarrow> nat \<Rightarrow> string" where
  "backfill_name env region n = ''core-'' @ env @ ''-'' @ region @ ''-'' @ dec n"

definition backfilled_cell :: "uuid \<Rightarrow> uuid \<Rightarrow> deployment \<Rightarrow> string \<Rightarrow> string \<Rightarrow> string \<Rightarrow> uuid option \<Rightarrow> int \<Rightarrow> cell" where
  "backfilled_cell i team d name env region host t = \<lparr>ce_id = i, ce_team = team, ce_project = d_project d, ce_name = name,
     ce_slug = name, ce_kind = ''core'', ce_env = env, ce_region = region, ce_tier = ''shared'', ce_status = ''active'',
     ce_primary = Some (d_id d), ce_host = host,
     ce_description = ''Backfilled core Cell for deployment '' @ d_id d, ce_created = t, ce_updated = t\<rparr>"

definition backfill_facts :: "uuid \<Rightarrow> deployment \<Rightarrow> placement_facts" where
  "backfill_facts host d = \<lparr>pf_host = (if d_adopted d then None else Some host),
     pf_desired = (if d_status d = DStopped then ''stopped'' else ''running''),
     pf_observed = observed_from_status (d_status d), pf_container = d_container d, pf_port = d_host_port d, pf_url = d_url d\<rparr>"

datatype insert_result = Created | Collision | AlreadyAttached | InsertFailed

text \<open>The transaction of three inserts; only \<open>Created\<close> writes.\<close>

definition try_insert_cell ::
  "ofaults \<Rightarrow> uuids \<Rightarrow> string \<Rightarrow> uuid \<Rightarrow> deployment \<Rightarrow> uuid \<Rightarrow> string \<Rightarrow> string \<Rightarrow> plane \<Rightarrow> insert_result \<times> plane" where
  "try_insert_cell flt gen name host d team env region p =
     (let i = fresh_id gen p;
          c = backfilled_cell i team d name env region (if d_adopted d then None else Some host) (clock (core p));
          p1 = (drawn p)\<lparr>cells := cells p @ [c]\<rparr>; p2 = insert_resource gen i (d_id d) ''primary'' p1
      in if flt ''backfill cell'' then (InsertFailed, p)
         else if cell_slug_taken (d_project d) name p then (Collision, p)
         else if flt ''backfill resource'' then (InsertFailed, p)
         else if deployment_has_cell (d_id d) p then (AlreadyAttached, p)
         else if flt ''backfill placement'' then (InsertFailed, p)
         else if sql_exists (\<lambda>x. pl_deployment x = d_id d) (placements p) then (AlreadyAttached, p)
         else if flt ''backfill commit'' then (InsertFailed, p)
         else (Created, upsert_placement gen (d_id d) i (backfill_facts host d) p2))"

text \<open>The attempts that are left; the index is counted again and moved on by the attempt.\<close>

fun backfill_attempts ::
  "ofaults \<Rightarrow> uuids \<Rightarrow> uuid \<Rightarrow> deployment \<Rightarrow> uuid \<Rightarrow> string \<Rightarrow> nat \<Rightarrow> nat \<Rightarrow> plane \<Rightarrow> bool option \<times> plane" where
  "backfill_attempts flt gen host d team region k 0 p = (None, p)"
| "backfill_attempts flt gen host d team region k (Suc n) p =
     (let env = map_env (d_type d) in
      if in_attempt k flt ''cell index'' then (None, p)
      else case try_insert_cell (in_attempt k flt) gen (backfill_name env region (next_cell_index (d_project d) env p + k))
                  host d team env region p of
          (Created, p1) \<Rightarrow> (Some True, p1)
        | (AlreadyAttached, p1) \<Rightarrow> (Some False, p1)
        | (InsertFailed, p1) \<Rightarrow> (None, p1)
        | (Collision, p1) \<Rightarrow> backfill_attempts flt gen host d team region (Suc k) n p1)"

text \<open>\<open>Some True\<close>: created; \<open>Some False\<close>: attached by someone else; \<open>None\<close>: logged and skipped.\<close>

definition backfill_one ::
  "ofaults \<Rightarrow> uuids \<Rightarrow> uuid \<Rightarrow> deployment \<Rightarrow> uuid \<Rightarrow> string \<Rightarrow> plane \<Rightarrow> bool option \<times> plane" where
  "backfill_one flt gen host d team region p = backfill_attempts flt gen host d team region 0 50 p"

text \<open>\<open>None\<close>: a check failed and the backfill stops there.\<close>

fun backfill_loop ::
  "ofaults \<Rightarrow> uuids \<Rightarrow> uuid \<Rightarrow> string \<Rightarrow> (deployment \<times> uuid) list \<Rightarrow> nat \<times> nat \<Rightarrow> plane \<Rightarrow> (nat \<times> nat) option \<times> plane" where
  "backfill_loop flt gen host region [] n p = (Some n, p)"
| "backfill_loop flt gen host region ((d, team) # ds) (made, had) p =
     (if flt (''has cell '' @ d_id d) then (None, p)
      else if deployment_has_cell (d_id d) p then backfill_loop flt gen host region ds (made, Suc had) p
      else (case backfill_one (\<lambda>l. flt (d_id d @ '' '' @ l)) gen host d team region p of
          (Some True, p1) \<Rightarrow> backfill_loop flt gen host region ds (Suc made, had) p1
        | (Some False, p1) \<Rightarrow> backfill_loop flt gen host region ds (made, Suc had) p1
        | (None, p1) \<Rightarrow> backfill_loop flt gen host region ds (made, had) p1))"

definition backfill ::
  "ofaults \<Rightarrow> api \<Rightarrow> backfill_opts \<Rightarrow> org \<Rightarrow> backfill_result option \<times> org" where
  "backfill flt a opts g =
     (let region = or_default (sanitize_region (a_unicode a) (bf_region opts)) ''local'' in
      case ensure_local_host flt a opts region g of
        (None, g1) \<Rightarrow> (None, g1)
      | (Some (host, made), g1) \<Rightarrow>
          if flt ''load deployments'' then (None, g1)
          else (case backfill_loop flt (a_uuid a) host region (load_backfill_rows g1) (0, 0) (pl g1) of
              (None, p) \<Rightarrow> (None, set_pl p g1)
            | (Some (n, m), p) \<Rightarrow>
                (Some \<lparr>br_host = host, br_host_created = made, br_created = n, br_existing = m\<rparr>, set_pl p g1)))"

end
