(* ===== verification/CellSystem.thy ===== *)
theory CellSystem
  imports CellLinks Backfill
begin

text \<open>
  Everything that writes the tables of cells (their rows, resources, placements, links and service
  tokens) as one step relation, and the locale of its invariants: each handler writes by one of a few
  updates, and an invariant of these holds in every reachable state. The requests that interleave with
  the allocation of a slug are runs of the same relation.
\<close>

section \<open>Steps\<close>

definition cell_tables :: "plane \<Rightarrow> cell list \<times> placement list \<times> cell_resource list \<times> cell_link list \<times> service_token list" where
  "cell_tables p = (cells p, placements p, cell_resources p, cell_links p, service_tokens p)"

text \<open>
  What the rest of the system does to the deployments: ids stay unique, and a deployment that is attached
  to a cell does not move to another project.
\<close>

definition deps_settled :: "plane \<Rightarrow> plane \<Rightarrow> bool" where
  "deps_settled p q \<longleftrightarrow> distinct (map d_id (deps (core q)))
     \<and> list_all (\<lambda>d. (d_id d, d_project d) \<in> (\<lambda>d. (d_id d, d_project d)) ` set (deps (core p))
         \<or> \<not> sql_exists (\<lambda>x. cx_resource x = d_id d) (cell_resources p)) (deps (core q))"

inductive cell_steps :: "org \<Rightarrow> org \<Rightarrow> bool" and cell_step :: "org \<Rightarrow> org \<Rightarrow> bool" where
  csteps_refl: "cell_steps g g"
| csteps_step: "cell_steps g h \<Longrightarrow> cell_step h k \<Longrightarrow> cell_steps g k"
| step_create: "(\<And>k h. cell_steps h (a_others a k h)) \<Longrightarrow> cell_step g (snd (create_cell flt a who ref b g))"
| step_update: "cell_step g (snd (update_cell flt who ref u g))"
| step_drain: "cell_step g (snd (drain_cell flt who ref g))"
| step_delete: "cell_step g (snd (delete_cell flt who ref g))"
| step_attach: "cell_step g (snd (attach_deployment flt a who ref x g))"
| step_attach_host: "cell_step g (snd (attach_host flt who ref y g))"
| step_backfill: "(\<And>k h. cell_steps h (a_others a k h)) \<Longrightarrow> cell_step g (snd (backfill flt a opts g))"
| step_link: "cell_step g (snd (create_cell_link flt a who ref l g))"
| step_edit_link: "cell_step g (snd (update_cell_link flt who ref v g))"
| step_disable: "cell_step g (snd (disable_cell_link flt who ref g))"
| step_token: "cell_step g (snd (create_service_token flt a who ref t g))"
| step_revoke: "cell_step g (snd (revoke_service_token flt who ref g))"
| step_discovery: "cell_step g (snd (discovery flt a header g))"
| step_drop_host: "deps_settled (pl g) (pl (snd (delete_host flt w uid ref skip g))) \<Longrightarrow>
    cell_step g (snd (delete_host flt w uid ref skip g))"
| step_other: "cell_tables (pl h) = cell_tables (pl g) \<Longrightarrow> deps_settled (pl g) (pl h) \<Longrightarrow> cell_step g h"

section \<open>The invariants\<close>

lemma loaded_cell: "load_cell flt who ref g = Inr (c, role) \<Longrightarrow> c \<in> set (cells (pl g))"
  by (auto simp: load_cell_def load_cell_for_request_def Let_def split: if_splits fetched.splits dest!: sql_row_SomeD)


definition valid_cell :: "cell \<Rightarrow> bool" where
  "valid_cell c \<longleftrightarrow> valid_cell_kind (ce_kind c) \<and> valid_cell_env (ce_env c) \<and> valid_cell_tier (ce_tier c)
     \<and> valid_cell_status (ce_status c)"

text \<open>An edit keeps the identity of the cell and its columns within their domains.\<close>

definition edits_cell :: "cell list \<Rightarrow> (cell \<Rightarrow> cell) \<Rightarrow> bool" where
  "edits_cell cs f \<longleftrightarrow> (\<forall>c. ce_id (f c) = ce_id c \<and> ce_project (f c) = ce_project c \<and> ce_slug (f c) = ce_slug c)
     \<and> (list_all valid_cell cs \<longrightarrow> list_all (\<lambda>c. valid_cell (f c)) cs)"

definition edits_placement :: "(placement \<Rightarrow> placement) \<Rightarrow> bool" where
  "edits_placement f \<longleftrightarrow> (\<forall>x. pl_deployment (f x) = pl_deployment x \<and> pl_cell (f x) = pl_cell x)"

definition valid_link :: "cell_link \<Rightarrow> bool" where
  "valid_link l \<longleftrightarrow> valid_link_protocol (ln_protocol l) \<and> valid_link_auth (ln_auth l) \<and> ln_source l \<noteq> ln_target l"

definition edits_link :: "cell_link list \<Rightarrow> (cell_link \<Rightarrow> cell_link) \<Rightarrow> bool" where
  "edits_link ls f \<longleftrightarrow> (\<forall>l. ln_id (f l) = ln_id l \<and> ln_project (f l) = ln_project l \<and> ln_source (f l) = ln_source l
     \<and> ln_target (f l) = ln_target l \<and> ln_protocol (f l) = ln_protocol l \<and> (ln_status (f l) = LnActive \<longrightarrow> ln_status l = LnActive))
     \<and> (list_all valid_link ls \<longrightarrow> list_all (\<lambda>l. valid_link (f l)) ls)"

definition edits_token :: "(service_token \<Rightarrow> service_token) \<Rightarrow> bool" where
  "edits_token f \<longleftrightarrow> (\<forall>k. sv_link (f k) = sv_link k \<and> sv_source (f k) = sv_source k \<and> sv_target (f k) = sv_target k
     \<and> sv_hash (f k) = sv_hash k \<and> (sv_revoked k \<longrightarrow> sv_revoked (f k)))"

locale cell_invariant =
  fixes I :: "plane \<Rightarrow> bool"
  assumes on_tables: "I p \<Longrightarrow> cell_tables q = cell_tables p \<Longrightarrow> deps_settled p q \<Longrightarrow> I q"
    and on_same_deps: "I p \<Longrightarrow> cell_tables q = cell_tables p \<Longrightarrow> map d_id (deps (core q)) = map d_id (deps (core p)) \<Longrightarrow>
      map d_project (deps (core q)) = map d_project (deps (core p)) \<Longrightarrow> I q"
    and on_insert: "I p \<Longrightarrow> valid_cell c \<Longrightarrow> \<not> cell_slug_taken (ce_project c) (ce_slug c) p \<Longrightarrow>
      I (p\<lparr>cells := cells p @ [c]\<rparr>)"
    and on_cells: "I p \<Longrightarrow> edits_cell (cells p) f \<Longrightarrow> I (p\<lparr>cells := sql_update r f (cells p)\<rparr>)"
    and on_drop: "I p \<Longrightarrow> I (drop_cell_rows i p)"
    and on_resource: "I p \<Longrightarrow> c \<in> set (cells p) \<Longrightarrow> d \<in> set (deps (core p)) \<Longrightarrow> d_project d = ce_project c \<Longrightarrow>
      \<not> resource_taken (ce_id c) (d_id d) p \<Longrightarrow> I (insert_resource gen (ce_id c) (d_id d) role p)"
    and on_place: "I p \<Longrightarrow> c \<in> set (cells p) \<Longrightarrow> I (upsert_placement gen dep (ce_id c) pf p)"
    and on_pins: "I p \<Longrightarrow> edits_placement m \<Longrightarrow> I (p\<lparr>placements := sql_update n m (placements p)\<rparr>)"
    and on_link: "I p \<Longrightarrow> cell_in_project (ln_source l) (ln_project l) p \<Longrightarrow> cell_in_project (ln_target l) (ln_project l) p \<Longrightarrow>
      valid_link l \<Longrightarrow> \<not> link_taken (ln_source l) (ln_target l) (ln_protocol l) p \<Longrightarrow> I (p\<lparr>cell_links := cell_links p @ [l]\<rparr>)"
    and on_links: "I p \<Longrightarrow> edits_link (cell_links p) h \<Longrightarrow> I (p\<lparr>cell_links := sql_update s h (cell_links p)\<rparr>)"
    and on_token: "I p \<Longrightarrow> l \<in> set (cell_links p) \<Longrightarrow> sv_link k = ln_id l \<Longrightarrow> sv_source k = ln_source l \<Longrightarrow>
      sv_target k = ln_target l \<Longrightarrow> \<not> sql_exists (\<lambda>x. sv_hash x = sv_hash k) (service_tokens p) \<Longrightarrow>
      I (p\<lparr>service_tokens := service_tokens p @ [k]\<rparr>)"
    and on_tokens: "I p \<Longrightarrow> edits_token e \<Longrightarrow> I (p\<lparr>service_tokens := sql_update t e (service_tokens p)\<rparr>)"

begin

lemma on_frame: "I p \<Longrightarrow> cell_tables q = cell_tables p \<Longrightarrow> deps (core q) = deps (core p) \<Longrightarrow> I q"
  by (erule on_same_deps) simp_all

lemma on_drawn: "I p \<Longrightarrow> I (drawn p)"
  by (erule on_frame) (simp_all add: drawn_def cell_tables_def)

lemma on_update_row: "I (pl g) \<Longrightarrow> edits_cell (cells (pl g)) f \<Longrightarrow> I (pl (update_cell_row i f g))"
  by (simp add: update_cell_row_def on_cells)

lemma on_update_cell: "I (pl g) \<Longrightarrow> I (pl (snd (update_cell flt who ref u g)))"
proof -
  assume I: "I (pl g)"
  have e: "edits_cell (cells (pl g)) (write_cell (patched_cell r c) t)"
    if "load_cell flt who ref g = Inr (c, role)" "\<not> (case uc_status r of None \<Rightarrow> False | Some s \<Rightarrow> \<not> valid_cell_status s)"
      "\<not> (case uc_tier r of None \<Rightarrow> False | Some s \<Rightarrow> \<not> valid_cell_tier s)" for r c t role
  proof -
    have "c \<in> set (cells (pl g))" using that(1) by (rule loaded_cell)
    then show ?thesis using that(2,3)
      by (auto simp: edits_cell_def write_cell_def patched_cell_def valid_cell_def given_def list_all_iff split: option.splits)
  qed
  show ?thesis using I
    by (auto simp: update_cell_def Let_def audit_cell_def intro!: on_update_row e split: sum.splits option.splits if_splits)
qed

lemma on_drain_cell: "I (pl g) \<Longrightarrow> I (pl (snd (drain_cell flt who ref g)))"
  by (auto simp: drain_cell_def Let_def audit_cell_def edits_cell_def valid_cell_def valid_cell_status_def list_all_iff
      intro!: on_update_row split: sum.splits)

lemma on_delete_cell: "I (pl g) \<Longrightarrow> I (pl (snd (delete_cell flt who ref g)))"
  by (auto simp: delete_cell_def audit_cell_def intro!: on_drop split: sum.splits)

lemma on_create_cell:
  assumes others: "\<And>k h. I (pl h) \<Longrightarrow> I (pl (a_others a k h))" and I: "I (pl g)"
  shows "I (pl (snd (create_cell flt a who ref b g)))"
proof -
  have attempt: "I (pl (fst (snd (create_cell_attempt flt a c base k s))))"
    if "I (pl (fst s))" "valid_cell (fresh_cell [] c [] 0)" for c base k s
  proof -
    have v: "valid_cell (fresh_cell i c sl t)" for i sl t using that(2) by (simp add: valid_cell_def fresh_cell_def)
    let ?g = "a_others a k (fst s)"
    have "I (pl ?g)" using others that(1) by simp
    then have "I ((drawn (pl ?g))\<lparr>cells := cells (pl ?g) @ [fresh_cell (new_id (a_uuid a) ?g) c (cell_slug (a_slugs a 0) base k) (now ?g)]\<rparr>)"
      if "\<not> cell_slug_taken (cp_project c) (cell_slug (a_slugs a 0) base k) (pl ?g)"
      using on_insert [OF on_drawn v, of "pl ?g" "new_id (a_uuid a) ?g" "cell_slug (a_slugs a 0) base k" "now ?g"] that
      by (simp add: drawn_def cell_slug_taken_def fresh_cell_def)
    then show ?thesis using \<open>I (pl ?g)\<close>
      by (auto simp: create_cell_attempt_def Let_def insert_cell_def took_id_def)
  qed
  have keep: "I (pl h)"
    if "with_retry_on_unique_violation (a_cancelled a) 6 (create_cell_attempt flt a c base) (g, None) = (y, h, z)"
      "plan_cell r p t = Inr c" for c base r p t y h z
  proof -
    have "valid_cell (fresh_cell [] c [] 0)"
      using that(2) by (auto simp: plan_cell_def fresh_cell_def valid_cell_def valid_cell_status_def Let_def split: if_splits)
    then have "I (pl (fst (snd (with_retry_on_unique_violation (a_cancelled a) 6 (create_cell_attempt flt a c base) (g, None)))))"
      using attempt I by (intro retry_keeps [of "\<lambda>s. I (pl (fst s))"]) auto
    then show ?thesis by (simp add: that(1))
  qed
  show ?thesis using I
    by (auto simp: create_cell_def Let_def audit_cell_def intro: keep split: sum.splits option.splits if_splits prod.splits)
qed

lemma on_attach_tx:
  assumes "attach_tx flt gen c d role p = Inr q" "I p" "c \<in> set (cells p)" "d \<in> set (deps (core p))" "d_project d = ce_project c"
  shows "I q"
proof -
  let ?q = "upsert_placement gen (d_id d) (ce_id c) (placement_facts_of c d) (insert_resource gen (ce_id c) (d_id d) role p)"
  have "\<not> resource_taken (ce_id c) (d_id d) p" using assms(1) by (auto simp: attach_tx_def split: if_splits)
  then have "I (insert_resource gen (ce_id c) (d_id d) role p)" using on_resource assms by simp
  moreover have "c \<in> set (cells (insert_resource gen (ce_id c) (d_id d) role p))"
    using assms(3) by (simp add: insert_resource_def drawn_def)
  ultimately have "I ?q" by (rule on_place)
  moreover have "edits_cell cs (\<lambda>x. x\<lparr>ce_primary := Some dep, ce_updated := t\<rparr>)" for cs dep t
    by (simp add: edits_cell_def valid_cell_def list_all_iff)
  ultimately have "I (point_primary (ce_id c) (d_id d) ?q)" unfolding point_primary_def by (rule on_cells)
  with \<open>I ?q\<close> show ?thesis using assms(1) by (auto simp: attach_tx_def Let_def split: if_splits)
qed

lemma attachable_dep:
  assumes "attachable flt who c name g = Inr d"
  shows "d \<in> set (deps (core (pl g)))" "d_project d = ce_project c"
  using assms
  by (auto simp: attachable_def load_deployment_def sys_def split: if_splits option.splits fetched.splits dest!: sql_row_SomeD)

lemma on_attach_deployment: "I (pl g) \<Longrightarrow> I (pl (snd (attach_deployment flt a who ref x g)))"
  by (auto simp: attach_deployment_def Let_def audit_cell_def intro: on_attach_tx loaded_cell attachable_dep
      split: sum.splits option.splits if_splits prod.splits)

lemma on_attach_host: "I (pl g) \<Longrightarrow> I (pl (snd (attach_host flt who ref y g)))"
proof -
  assume I: "I (pl g)"
  have "I (backfill_placement_host c h (set_cell_host c h (pl g)))" for c h
    unfolding backfill_placement_host_def
  proof (rule on_pins)
    show "I (set_cell_host c h (pl g))" unfolding set_cell_host_def
      by (rule on_cells [OF I]) (simp add: edits_cell_def valid_cell_def list_all_iff)
  qed (simp add: edits_placement_def)
  with I show ?thesis
    by (auto simp: attach_host_def Let_def audit_cell_def split: sum.splits option.splits if_splits fetched.splits)
qed

section \<open>Links and tokens\<close>

lemma on_create_link: "I (pl g) \<Longrightarrow> I (pl (snd (create_cell_link flt a who ref l g)))"
proof -
  assume I: "I (pl g)"
  have ins: "I ((drawn (pl g))\<lparr>cell_links := cell_links (pl g) @ [x]\<rparr>)"
    if "cell_in_project (ln_source x) (ln_project x) (pl g)" "cell_in_project (ln_target x) (ln_project x) (pl g)"
      "valid_link x" "\<not> link_taken (ln_source x) (ln_target x) (ln_protocol x) (pl g)" for x
    using on_link [OF on_drawn [OF I], of x] that by (simp add: cell_in_project_def link_taken_def drawn_def)
  show ?thesis using I
    by (auto simp: create_cell_link_def Let_def audit_link_def took_id_def valid_link_def intro!: ins
        split: sum.splits option.splits if_splits prod.splits)
qed

lemma loaded_link: "load_cell_link_for_request flt who ref g = Inr (l, role) \<Longrightarrow> l \<in> set (cell_links (pl g))"
  by (auto simp: load_cell_link_for_request_def split: if_splits fetched.splits dest!: sql_row_SomeD)

lemma on_update_link_row: "I (pl g) \<Longrightarrow> edits_link (cell_links (pl g)) h \<Longrightarrow> I (pl (update_link_row i h g))"
  by (simp add: update_link_row_def on_links)

lemma on_update_link: "I (pl g) \<Longrightarrow> I (pl (snd (update_cell_link flt who ref v g)))"
proof -
  assume I: "I (pl g)"
  have e: "edits_link (cell_links (pl g)) (write_link (patched_link r l) t)"
    if "load_cell_link_for_request flt who ref g = Inr (l, role)"
      "\<not> (case ul_auth r of None \<Rightarrow> False | Some s \<Rightarrow> \<not> valid_link_auth s)" for r l t role
    using that loaded_link [OF that(1)]
    by (auto simp: edits_link_def write_link_def patched_link_def valid_link_def given_def list_all_iff split: option.splits)
  show ?thesis using I
    by (auto simp: update_cell_link_def Let_def audit_link_def intro!: on_update_link_row e split: sum.splits option.splits if_splits)
qed

lemma on_disable_link: "I (pl g) \<Longrightarrow> I (pl (snd (disable_cell_link flt who ref g)))"
  by (auto simp: disable_cell_link_def Let_def audit_link_def edits_link_def valid_link_def list_all_iff
      intro!: on_update_link_row split: sum.splits)

lemma on_create_token: "I (pl g) \<Longrightarrow> I (pl (snd (create_service_token flt a who ref t g)))"
proof -
  assume I: "I (pl g)"
  have ins: "I ((drawn (pl g))\<lparr>service_tokens := service_tokens (pl g) @ [k]\<rparr>)"
    if "load_cell_link_for_request flt who ref g = Inr (l, role)" "sv_link k = ln_id l" "sv_source k = ln_source l"
      "sv_target k = ln_target l" "\<not> sql_exists (\<lambda>x. sv_hash x = sv_hash k) (service_tokens (pl g))" for k l role
    using on_token [OF on_drawn [OF I], of l k] that loaded_link [OF that(1)] by (simp add: drawn_def)
  show ?thesis using I
    by (auto simp: create_service_token_def Let_def took_id_def intro!: ins
        split: sum.splits option.splits if_splits prod.splits)
qed

lemma on_revoke_token: "I (pl g) \<Longrightarrow> I (pl (snd (revoke_service_token flt who ref g)))"
  by (auto simp: revoke_service_token_def refuse_def edits_token_def intro!: on_tokens
      split: option.splits if_splits prod.splits fetched.splits)

lemma on_discovery: "I (pl g) \<Longrightarrow> I (pl (snd (discovery flt a header g)))"
proof -
  assume I: "I (pl g)"
  have "I ((pl g)\<lparr>service_tokens := sql_update q (\<lambda>x. x\<lparr>sv_used := Some t\<rparr>) (service_tokens (pl g))\<rparr>)" for q t
    by (rule on_tokens [OF I]) (simp add: edits_token_def)
  with I show ?thesis by (auto simp: discovery_def Let_def split: option.splits if_splits prod.splits)
qed

section \<open>The backfill\<close>

lemma on_try_insert:
  assumes "I p" "d \<in> set (deps (core p))" "valid_cell_env env"
  shows "I (snd (try_insert_cell flt gen name host d team env region p))
    \<and> core (snd (try_insert_cell flt gen name host d team env region p)) = core p"
proof -
  let ?h = "if d_adopted d then None else Some host"
  let ?c = "backfilled_cell (fresh_id gen p) team d name env region ?h (clock (core p))"
  let ?p1 = "(drawn p)\<lparr>cells := cells p @ [?c]\<rparr>"
  let ?p2 = "insert_resource gen (fresh_id gen p) (d_id d) ''primary'' ?p1"
  let ?p3 = "upsert_placement gen (d_id d) (fresh_id gen p) (backfill_facts host d) ?p2"
  have i: "ce_id ?c = fresh_id gen p" "ce_project ?c = d_project d" "ce_slug ?c = name" by (simp_all add: backfilled_cell_def)
  have "I ?p3" if slug: "\<not> cell_slug_taken (d_project d) name p" and free: "\<not> deployment_has_cell (d_id d) p"
  proof -
    have "valid_cell ?c" using assms(3)
      by (simp add: valid_cell_def backfilled_cell_def valid_cell_kind_def valid_cell_tier_def valid_cell_status_def)
    then have "I ?p1" using on_insert [OF on_drawn [OF assms(1)], of ?c] slug by (simp add: i cell_slug_taken_def drawn_def)
    then have "I ?p2" using on_resource [of ?p1 ?c d] assms(2) free
      by (simp add: i drawn_def resource_taken_def deployment_has_cell_def)
    then show ?thesis using on_place [of ?p2 ?c] by (simp add: i insert_resource_def drawn_def)
  qed
  moreover have "core ?p3 = core p" by (simp add: upsert_placement_def insert_resource_def drawn_def)
  ultimately show ?thesis using assms(1) by (simp add: try_insert_cell_def Let_def)
qed

lemma on_attempts:
  "I p \<Longrightarrow> d \<in> set (deps (core p)) \<Longrightarrow> I (snd (backfill_attempts flt gen host d team region k n p))
     \<and> core (snd (backfill_attempts flt gen host d team region k n p)) = core p"
proof (induction n arbitrary: k p)
  case (Suc n)
  have e: "valid_cell_env (map_env (d_type d))" by (simp add: valid_cell_env_def map_env_def)
  obtain r q where t: "try_insert_cell (in_attempt k flt) gen (backfill_name (map_env (d_type d)) region
      (next_cell_index (d_project d) (map_env (d_type d)) p + k)) host d team (map_env (d_type d)) region p = (r, q)" by fastforce
  have "I q \<and> core q = core p" using on_try_insert [OF Suc.prems e] t by (metis snd_conv)
  then show ?case using Suc by (simp add: t Let_def split: insert_result.split)
qed simp

lemma on_backfill_loop:
  "I p \<Longrightarrow> fst ` set ds \<subseteq> set (deps (core p)) \<Longrightarrow> I (snd (backfill_loop flt gen host region ds n p))
     \<and> core (snd (backfill_loop flt gen host region ds n p)) = core p"
proof (induction ds arbitrary: n p)
  case (Cons x ds)
  obtain d team where x: "x = (d, team)" by fastforce
  obtain made had where n: "n = (made, had)" by fastforce
  obtain r q where b: "backfill_one (\<lambda>l. flt (d_id d @ '' '' @ l)) gen host d team region p = (r, q)" by fastforce
  have q: "I q \<and> core q = core p" using on_attempts [of p d] Cons.prems b unfolding backfill_one_def x by (metis fst_conv image_subset_iff list.set_intros(1) snd_conv)
  show ?case using Cons q by (simp add: x n b [simplified] split: option.split bool.split)
qed simp

lemma backfill_rows_deps: "fst ` set (load_backfill_rows g) \<subseteq> set (deps (core (pl g)))"
  by (auto simp: load_backfill_rows_def map_filter_def sys_def split: if_splits)

lemma on_insert_host: "I (pl g) \<Longrightarrow> I (pl (insert_host h g))"
  by (erule on_frame) (simp_all add: insert_host_def took_id_def drawn_def cell_tables_def sys_def set_sys_def)

lemma on_backfill:
  assumes others: "\<And>k h. I (pl h) \<Longrightarrow> I (pl (a_others a k h))" and I: "I (pl g)"
  shows "I (pl (snd (backfill flt a opts g)))"
proof -
  have e: "I (pl h)" if "ensure_local_host flt a opts region g = (r, h)" for region r h
    using that others I
    by (auto simp: ensure_local_host_def Let_def intro: on_insert_host split: if_splits option.splits)
  have l: "I q" if "I (pl h)" "backfill_loop flt (a_uuid a) host region (load_backfill_rows h) n (pl h) = (r, q)" for h host region n r q
    using on_backfill_loop [OF that(1) backfill_rows_deps, of flt "a_uuid a" host region n] that(2) by simp
  show ?thesis
    by (auto simp: backfill_def Let_def dest!: e intro: e l split: if_splits option.splits prod.splits)
qed

section \<open>The removal of a host\<close>

lemma on_drop_host: "I p \<Longrightarrow> I (drop_host_rows i p)"
proof -
  assume I: "I p"
  let ?e = "\<lambda>c. c\<lparr>ce_host := forget {i} (ce_host c)\<rparr>" and ?m = "\<lambda>x. x\<lparr>pl_host := forget {i} (pl_host x)\<rparr>"
  have all: "sql_update (\<lambda>_. True) f t = map f t" for f and t :: "'z list" by (induction t) auto
  have "I (p\<lparr>cells := sql_update (\<lambda>_. True) ?e (cells p)\<rparr>)"
    by (rule on_cells [OF I]) (simp add: edits_cell_def valid_cell_def list_all_iff)
  then have "I (p\<lparr>cells := map ?e (cells p)\<rparr>)" by (simp add: all)
  then have "I ((p\<lparr>cells := map ?e (cells p)\<rparr>)\<lparr>placements := sql_update (\<lambda>_. True) ?m (placements (p\<lparr>cells := map ?e (cells p)\<rparr>))\<rparr>)"
    by (rule on_pins) (simp add: edits_placement_def)
  then show ?thesis by (rule on_frame) (simp_all add: all drop_host_rows_def Let_def cell_tables_def)
qed

lemma drop_host_tables_frame [simp]: "cell_tables (drop_host_rows i (p\<lparr>core := s\<rparr>)) = cell_tables (drop_host_rows i p)"
  by (simp add: cell_tables_def drop_host_rows_def Let_def)

lemma deleted_tx_tables:
  assumes "delete_host_tx flt i p = Inr q"
  shows "cell_tables q = cell_tables (drop_host_rows i p)"
proof -
  have "\<exists>s. q = drop_host_rows i (p\<lparr>core := s\<rparr>)"
    using assms by (auto simp: delete_host_tx_def Let_def split: if_splits option.splits)
  then show ?thesis by auto
qed

lemma deleted_host_plane:
  "cell_tables (pl (snd (delete_host flt w uid ref skip g))) = cell_tables (pl g)
   \<or> (\<exists>i. cell_tables (pl (snd (delete_host flt w uid ref skip g))) = cell_tables (drop_host_rows i (pl g)))"
proof (cases "load_host flt ref g")
  case (Inr x)
  obtain c s where d: "decommission flt w (h_is_remote x \<and> \<not> skip) (h_id x) (sys g) = (c, s)" by fastforce
  have k: "cell_tables (pl (set_sys s g)) = cell_tables (pl g)" by (simp add: cell_tables_def set_sys_def)
  have e: "pl (set_sys s g) = (pl g)\<lparr>core := s\<rparr>" by (simp add: set_sys_def)
  show ?thesis
  proof (cases "delete_host_tx flt (h_id x) (pl (set_sys s g))")
    case (Inr q)
    then have "cell_tables q = cell_tables (drop_host_rows (h_id x) (pl g))" using deleted_tx_tables [OF Inr] by (simp add: e)
    then show ?thesis using Inr by (auto simp: delete_host_def \<open>load_host flt ref g = Inr x\<close> d k Let_def audit_host_def split: option.split)
  qed (auto simp: delete_host_def Inr d k Let_def split: option.split)
qed (simp add: delete_host_def)

lemma on_delete_host:
  assumes "I (pl g)" "deps_settled (pl g) (pl (snd (delete_host flt w uid ref skip g)))"
  shows "I (pl (snd (delete_host flt w uid ref skip g)))"
  using deleted_host_plane [of flt w uid ref skip g]
proof (elim disjE exE)
  fix i assume t: "cell_tables (pl (snd (delete_host flt w uid ref skip g))) = cell_tables (drop_host_rows i (pl g))"
  have "deps_settled (drop_host_rows i (pl g)) (pl (snd (delete_host flt w uid ref skip g)))"
    using assms(2) by (simp add: deps_settled_def drop_host_rows_def Let_def)
  then show ?thesis by (rule on_tables [OF on_drop_host [OF assms(1)] t])
qed (use assms in \<open>auto intro: on_tables\<close>)

section \<open>Every run\<close>

lemma reachable_invariant:
  shows "cell_steps g h \<Longrightarrow> I (pl g) \<Longrightarrow> I (pl h)" and "cell_step g h \<Longrightarrow> I (pl g) \<Longrightarrow> I (pl h)"
proof (induction rule: cell_steps_cell_step.inducts)
  case (step_create a flt who ref b g) then show ?case by (intro on_create_cell)
next
  case (step_backfill a flt opts g) then show ?case by (intro on_backfill)
next
  case (step_other h g) then show ?case by (metis on_tables)
next
  case (step_drop_host g flt w uid ref skip) then show ?case by (intro on_delete_host)
qed (simp_all add: on_update_cell on_drain_cell on_delete_cell on_attach_deployment on_attach_host on_create_link
    on_update_link on_disable_link on_create_token on_revoke_token on_discovery)

end

end
