(* ===== verification/CellProps.thy ===== *)
theory CellProps
  imports CellSystem CloudSamples
begin

text \<open>
  The invariants of the tables of cells, and what the endpoints of cells, links and the backfill promise.
\<close>

section \<open>Rows, slugs and enumerations\<close>

definition cell_rows_ok :: "plane \<Rightarrow> bool" where
  "cell_rows_ok p \<longleftrightarrow> list_all valid_cell (cells p)
     \<and> distinct (map (\<lambda>c. (ce_project c, to_lower (ce_slug c))) (cells p))"

lemma map_update_key: "(\<And>x. key (f x) = key x) \<Longrightarrow> map key (sql_update q f t) = map key t"
  by (induction t) auto

lemma cells_frame [simp]:
  "cells (insert_resource gen c d role p) = cells p" "cells (upsert_placement gen d c pf p) = cells p"
  "cell_links (insert_resource gen c d role p) = cell_links p" "cell_links (upsert_placement gen d c pf p) = cell_links p"
  "service_tokens (insert_resource gen c d role p) = service_tokens p" "service_tokens (upsert_placement gen d c pf p) = service_tokens p"
  "core (insert_resource gen c d role p) = core p" "core (upsert_placement gen d c pf p) = core p"
  "placements (insert_resource gen c d role p) = placements p"
  "cell_resources (upsert_placement gen d c pf p) = cell_resources p"
  by (simp_all add: insert_resource_def upsert_placement_def drawn_def)

lemma drop_cell_frame [simp]:
  "cells (drop_cell_rows i p) = filter (\<lambda>c. ce_id c \<noteq> i) (cells p)" "core (drop_cell_rows i p) = core p"
  "cell_resources (drop_cell_rows i p) = filter (\<lambda>x. cx_cell x \<noteq> i) (cell_resources p)"
  "placements (drop_cell_rows i p) = filter (\<lambda>x. pl_cell x \<noteq> i) (placements p)"
  "cell_links (drop_cell_rows i p) = filter (\<lambda>l. ln_source l \<noteq> i \<and> ln_target l \<noteq> i) (cell_links p)"
  by (simp_all add: drop_cell_rows_def Let_def)

interpretation rows: cell_invariant cell_rows_ok
proof
  fix p q assume "cell_rows_ok p" "cell_tables q = cell_tables p"
  then show "cell_rows_ok q" by (simp add: cell_rows_ok_def cell_tables_def)
next
  fix p q assume "cell_rows_ok p" "cell_tables q = cell_tables p"
  then show "cell_rows_ok q" by (simp add: cell_rows_ok_def cell_tables_def)
next
  fix p c assume "cell_rows_ok p" "valid_cell c" "\<not> cell_slug_taken (ce_project c) (ce_slug c) p"
  then show "cell_rows_ok (p\<lparr>cells := cells p @ [c]\<rparr>)"
    by (auto simp: cell_rows_ok_def cell_slug_taken_def sql_exists_iff ci_eq_def)
next
  fix p f r assume "cell_rows_ok p" "edits_cell (cells p) f"
  then show "cell_rows_ok (p\<lparr>cells := sql_update r f (cells p)\<rparr>)"
    by (auto simp: cell_rows_ok_def edits_cell_def map_update_key list_all_iff set_sql_update)
next
  fix p i assume "cell_rows_ok p"
  then show "cell_rows_ok (drop_cell_rows i p)"
    by (auto simp: cell_rows_ok_def list_all_iff distinct_map inj_on_def)
qed (simp_all add: cell_rows_ok_def)

section \<open>Resources and placements\<close>

text \<open>
  A deployment is in one cell at most and has one placement at most; a resource and a placement have a
  cell, and the cell of an attached deployment belongs to the deployment's project.
\<close>

definition attached_deps :: "plane \<Rightarrow> uuid list" where
  "attached_deps p = map cx_resource (filter (\<lambda>x. cx_type x = res_deployment) (cell_resources p))"

definition attached_once :: "plane \<Rightarrow> bool" where
  "attached_once p \<longleftrightarrow> distinct (attached_deps p) \<and> distinct (map pl_deployment (placements p))"

definition has_cell :: "cell list \<Rightarrow> uuid \<Rightarrow> bool" where
  "has_cell cs i \<longleftrightarrow> i \<in> ce_id ` set cs"

definition attached_somewhere :: "plane \<Rightarrow> bool" where
  "attached_somewhere p \<longleftrightarrow> list_all (\<lambda>x. has_cell (cells p) (cx_cell x)) (cell_resources p)
     \<and> list_all (\<lambda>x. has_cell (cells p) (pl_cell x)) (placements p)"

definition cell_of_project :: "cell list \<Rightarrow> uuid \<Rightarrow> uuid \<Rightarrow> bool" where
  "cell_of_project cs i pid \<longleftrightarrow> (i, pid) \<in> (\<lambda>c. (ce_id c, ce_project c)) ` set cs"

definition in_its_project :: "cell list \<Rightarrow> (uuid \<times> uuid) list \<Rightarrow> cell_resource \<Rightarrow> bool" where
  "in_its_project cs ds x \<longleftrightarrow> list_all (\<lambda>d. fst d = cx_resource x \<longrightarrow> cell_of_project cs (cx_cell x) (snd d)) ds"

definition dep_projects :: "plane \<Rightarrow> (uuid \<times> uuid) list" where
  "dep_projects p = zip (map d_id (deps (core p))) (map d_project (deps (core p)))"

definition attached_in_project :: "plane \<Rightarrow> bool" where
  "attached_in_project p \<longleftrightarrow> distinct (map d_id (deps (core p)))
     \<and> list_all (in_its_project (cells p) (dep_projects p)) (cell_resources p)"

lemma dep_projects_map: "dep_projects p = map (\<lambda>d. (d_id d, d_project d)) (deps (core p))"
  unfolding dep_projects_def by (induction "deps (core p)" arbitrary: p rule: list.induct) (simp_all add: zip_map_map zip_same_conv_map)

lemma dep_projects_frame [simp]:
  "dep_projects (p\<lparr>cells := cs\<rparr>) = dep_projects p" "dep_projects (p\<lparr>placements := ps\<rparr>) = dep_projects p"
  "dep_projects (p\<lparr>cell_links := ls\<rparr>) = dep_projects p" "dep_projects (p\<lparr>service_tokens := ts\<rparr>) = dep_projects p"
  "dep_projects (drop_cell_rows i p) = dep_projects p" "dep_projects (insert_resource gen c d role p) = dep_projects p"
  "dep_projects (upsert_placement gen d c pf p) = dep_projects p"
  by (simp_all add: dep_projects_def)

lemma distinct_map_filter: "distinct (map f xs) \<Longrightarrow> distinct (map f (filter q xs))"
  by (induction xs) auto

lemma distinct_map_filter2: "distinct (map f (filter q xs)) \<Longrightarrow> distinct (map f (filter (\<lambda>x. r x \<and> q x) xs))"
  by (induction xs) (auto split: if_splits)

lemma attached_deps_drop: "distinct (attached_deps p) \<Longrightarrow> distinct (attached_deps (drop_cell_rows i p))"
  by (simp add: attached_deps_def distinct_map_filter2)

lemma upserted_deployments:
  "map pl_deployment (placements (upsert_placement gen dep c pf p)) =
     (if dep \<in> pl_deployment ` set (placements p) then map pl_deployment (placements p) else map pl_deployment (placements p) @ [dep])"
  by (auto simp: upsert_placement_def sql_exists_iff drawn_def new_placement_def move_placement_def intro!: map_update_key)

lemma upserted_cells:
  "pl_cell ` set (placements (upsert_placement gen dep c pf p)) \<subseteq> insert c (pl_cell ` set (placements p))"
  by (auto simp: upsert_placement_def drawn_def new_placement_def move_placement_def set_sql_update)

lemma resources_inserted:
  "cell_resources (insert_resource gen c dep role p) = cell_resources p @
     [\<lparr>cx_id = fresh_id gen p, cx_cell = c, cx_type = res_deployment, cx_resource = dep, cx_role = role, cx_created = clock (core p)\<rparr>]"
  by (simp add: insert_resource_def drawn_def)

interpretation once: cell_invariant attached_once
proof
  fix p q assume "attached_once p" "cell_tables q = cell_tables p"
  then show "attached_once q" by (simp add: attached_once_def attached_deps_def cell_tables_def)
next
  fix p q assume "attached_once p" "cell_tables q = cell_tables p"
  then show "attached_once q" by (simp add: attached_once_def attached_deps_def cell_tables_def)
next
  fix p i assume "attached_once p"
  then show "attached_once (drop_cell_rows i p)"
    by (simp add: attached_once_def attached_deps_drop distinct_map_filter)
next
  fix p c d gen role assume "attached_once p" "\<not> resource_taken (ce_id c) (d_id d) p"
  then show "attached_once (insert_resource gen (ce_id c) (d_id d) role p)"
    by (auto simp: attached_once_def attached_deps_def resources_inserted resource_taken_def sql_exists_iff)
next
  fix p c gen dep pf assume "attached_once p"
  then show "attached_once (upsert_placement gen dep (ce_id c) pf p)"
    by (simp add: attached_once_def attached_deps_def upserted_deployments)
next
  fix p m n assume "attached_once p" "edits_placement m"
  then show "attached_once (p\<lparr>placements := sql_update n m (placements p)\<rparr>)"
    by (simp add: attached_once_def attached_deps_def edits_placement_def map_update_key)
qed (simp_all add: attached_once_def attached_deps_def)

lemma has_cell_more: "has_cell cs i \<Longrightarrow> set cs \<subseteq> set ds \<Longrightarrow> has_cell ds i"
  by (auto simp: has_cell_def)

lemma edited_cells: "edits_cell t f \<Longrightarrow> map (\<lambda>c. (ce_id c, ce_project c)) (sql_update r f cs) = map (\<lambda>c. (ce_id c, ce_project c)) cs"
  by (induction cs) (auto simp: edits_cell_def)

lemma has_cell_edited: "edits_cell t f \<Longrightarrow> has_cell (sql_update r f cs) i = has_cell cs i"
  using arg_cong [OF edited_cells, of t f "\<lambda>x. fst ` set x" r cs] by (simp add: has_cell_def image_image)

lemma cell_of_project_edited: "edits_cell t f \<Longrightarrow> cell_of_project (sql_update r f cs) i j = cell_of_project cs i j"
  using arg_cong [OF edited_cells, of t f set r cs] by (simp add: cell_of_project_def)

interpretation somewhere: cell_invariant attached_somewhere
proof
  fix p q assume "attached_somewhere p" "cell_tables q = cell_tables p"
  then show "attached_somewhere q" by (simp add: attached_somewhere_def cell_tables_def)
next
  fix p q assume "attached_somewhere p" "cell_tables q = cell_tables p"
  then show "attached_somewhere q" by (simp add: attached_somewhere_def cell_tables_def)
next
  fix p c assume "attached_somewhere p"
  then show "attached_somewhere (p\<lparr>cells := cells p @ [c]\<rparr>)" by (auto simp: attached_somewhere_def list_all_iff has_cell_def)
next
  fix p f r assume "attached_somewhere p" "edits_cell (cells p) f"
  then show "attached_somewhere (p\<lparr>cells := sql_update r f (cells p)\<rparr>)"
    by (simp add: attached_somewhere_def list_all_iff has_cell_edited)
next
  fix p i assume "attached_somewhere p"
  then show "attached_somewhere (drop_cell_rows i p)"
    by (auto simp: attached_somewhere_def list_all_iff has_cell_def)
next
  fix p c d gen role assume "attached_somewhere p" "c \<in> set (cells p)"
  then show "attached_somewhere (insert_resource gen (ce_id c) (d_id d) role p)"
    by (auto simp: attached_somewhere_def resources_inserted has_cell_def)
next
  fix p c gen dep pf assume a: "attached_somewhere p" "c \<in> set (cells p)"
  then have "pl_cell ` set (placements (upsert_placement gen dep (ce_id c) pf p)) \<subseteq> ce_id ` set (cells p)"
    using upserted_cells [of gen dep "ce_id c" pf p] by (auto simp: attached_somewhere_def list_all_iff has_cell_def)
  then show "attached_somewhere (upsert_placement gen dep (ce_id c) pf p)"
    using a by (auto simp: attached_somewhere_def list_all_iff has_cell_def)
next
  fix p m n assume "attached_somewhere p" "edits_placement m"
  then show "attached_somewhere (p\<lparr>placements := sql_update n m (placements p)\<rparr>)"
    by (auto simp: attached_somewhere_def edits_placement_def list_all_iff set_sql_update)
qed (simp_all add: attached_somewhere_def)

lemma cell_of_project_kept: "k \<noteq> i \<Longrightarrow> cell_of_project (filter (\<lambda>c. ce_id c \<noteq> i) cs) k j = cell_of_project cs k j"
  by (auto simp: cell_of_project_def)

lemma in_its_project_mono:
  "in_its_project cs ds x \<Longrightarrow> (\<And>j. cell_of_project cs (cx_cell x) j \<Longrightarrow> cell_of_project cs' (cx_cell x) j) \<Longrightarrow>
   in_its_project cs' ds x"
  by (auto simp: in_its_project_def list_all_iff)

interpretation in_project: cell_invariant attached_in_project
proof
  fix p q assume a: "attached_in_project p" "cell_tables q = cell_tables p" "deps_settled p q"
  then have t: "cells q = cells p" "cell_resources q = cell_resources p" by (simp_all add: cell_tables_def)
  have "in_its_project (cells p) (dep_projects q) x" if x: "x \<in> set (cell_resources p)" for x
    unfolding in_its_project_def list_all_iff
  proof (intro ballI impI)
    fix y assume y: "y \<in> set (dep_projects q)" "fst y = cx_resource x"
    then obtain d where d: "d \<in> set (deps (core q))" "y = (d_id d, d_project d)" by (auto simp: dep_projects_map)
    have "sql_exists (\<lambda>x. cx_resource x = d_id d) (cell_resources p)" using x y(2) d(2) by (auto simp: sql_exists_iff)
    then have "y \<in> set (dep_projects p)" using a(3) d by (auto simp: deps_settled_def list_all_iff dep_projects_map)
    moreover have "in_its_project (cells p) (dep_projects p) x" using a(1) x by (simp add: attached_in_project_def list_all_iff)
    ultimately show "cell_of_project (cells p) (cx_cell x) (snd y)" using y(2) by (simp add: in_its_project_def list_all_iff)
  qed
  then show "attached_in_project q" using a(3) by (simp add: attached_in_project_def t deps_settled_def list_all_iff)
next
  fix p q assume "attached_in_project p" "cell_tables q = cell_tables p" "map d_id (deps (core q)) = map d_id (deps (core p))"
    "map d_project (deps (core q)) = map d_project (deps (core p))"
  then show "attached_in_project q" by (simp add: attached_in_project_def dep_projects_def cell_tables_def)
next
  fix p c assume "attached_in_project p"
  then show "attached_in_project (p\<lparr>cells := cells p @ [c]\<rparr>)"
    by (auto simp: attached_in_project_def list_all_iff cell_of_project_def intro: in_its_project_mono)
next
  fix p f r assume "attached_in_project p" "edits_cell (cells p) f"
  then show "attached_in_project (p\<lparr>cells := sql_update r f (cells p)\<rparr>)"
    by (simp add: attached_in_project_def list_all_iff in_its_project_def cell_of_project_edited)
next
  fix p i assume "attached_in_project p"
  then show "attached_in_project (drop_cell_rows i p)"
    by (auto simp: attached_in_project_def list_all_iff cell_of_project_kept intro: in_its_project_mono)
next
  fix p c d gen role assume a: "attached_in_project p" "c \<in> set (cells p)" "d \<in> set (deps (core p))" "d_project d = ce_project c"
  have "cell_of_project (cells p) (ce_id c) (d_project e)" if "e \<in> set (deps (core p))" "d_id e = d_id d" for e
  proof -
    have "e = d" using a(1,3) that unfolding attached_in_project_def by (metis distinct_map inj_onD)
    with a(2,4) show ?thesis by (auto simp: cell_of_project_def)
  qed
  with a(1) show "attached_in_project (insert_resource gen (ce_id c) (d_id d) role p)"
    by (auto simp: attached_in_project_def resources_inserted list_all_iff in_its_project_def dep_projects_map)
qed (simp_all add: attached_in_project_def)

section \<open>Links and tokens\<close>

text \<open>
  A link joins two different cells of its project, there is one active link per pair and protocol, and a
  token belongs to an existing link and repeats its ends.
\<close>

definition link_key :: "cell_link \<Rightarrow> uuid \<times> uuid \<times> string" where
  "link_key l = (ln_source l, ln_target l, ln_protocol l)"

definition link_ends :: "cell_link \<Rightarrow> uuid \<times> uuid \<times> uuid" where
  "link_ends l = (ln_id l, ln_source l, ln_target l)"

definition token_ends :: "service_token \<Rightarrow> uuid \<times> uuid \<times> uuid" where
  "token_ends k = (sv_link k, sv_source k, sv_target k)"

definition active_link_keys :: "cell_link list \<Rightarrow> (uuid \<times> uuid \<times> string) list" where
  "active_link_keys ls = map link_key (filter (\<lambda>l. ln_status l = LnActive) ls)"

definition link_placed :: "cell list \<Rightarrow> cell_link \<Rightarrow> bool" where
  "link_placed cs l \<longleftrightarrow> cell_of_project cs (ln_source l) (ln_project l) \<and> cell_of_project cs (ln_target l) (ln_project l)"

definition links_ok :: "plane \<Rightarrow> bool" where
  "links_ok p \<longleftrightarrow> list_all valid_link (cell_links p) \<and> list_all (link_placed (cells p)) (cell_links p)
     \<and> distinct (active_link_keys (cell_links p)) \<and> list_all (\<lambda>k. token_ends k \<in> link_ends ` set (cell_links p)) (service_tokens p)
     \<and> distinct (map sv_hash (service_tokens p))"

lemma in_project_cell: "cell_in_project i pid p \<Longrightarrow> cell_of_project (cells p) i pid"
  by (auto simp: cell_in_project_def cell_of_project_def split: option.splits dest!: sql_row_SomeD)

lemma edited_link: "edits_link t h \<Longrightarrow> link_key (h l) = link_key l \<and> (ln_status (h l) = LnActive \<longrightarrow> ln_status l = LnActive)"
  by (simp add: edits_link_def link_key_def)

lemma active_link_keys_Cons: "active_link_keys (l # ls) = (if ln_status l = LnActive then link_key l # active_link_keys ls else active_link_keys ls)"
  by (simp add: active_link_keys_def)

lemma active_link_keys_filter: "distinct (active_link_keys ls) \<Longrightarrow> distinct (active_link_keys (filter q ls))"
  by (induction ls) (auto simp: active_link_keys_Cons active_link_keys_def)

lemma active_link_keys_edit_set: "edits_link t h \<Longrightarrow> set (active_link_keys (sql_update s h ls)) \<subseteq> set (active_link_keys ls)"
proof (induction ls)
  case (Cons l ls)
  then show ?case using edited_link [OF Cons.prems, of l] by (auto simp: active_link_keys_Cons split: if_splits)
qed simp

lemma active_link_keys_edit: "edits_link t h \<Longrightarrow> distinct (active_link_keys ls) \<Longrightarrow> distinct (active_link_keys (sql_update s h ls))"
proof (induction ls)
  case (Cons l ls)
  then show ?case using edited_link [OF Cons.prems(1), of l] active_link_keys_edit_set [OF Cons.prems(1), of s ls]
    by (auto simp: active_link_keys_Cons split: if_splits)
qed simp

lemma ends_edit: "edits_link t h \<Longrightarrow> map link_ends (sql_update s h ls) = map link_ends ls"
  by (rule map_update_key) (simp add: edits_link_def link_ends_def)

lemma tokens_dropped:
  assumes "k \<in> set (service_tokens (drop_cell_rows i p))"
  shows "k \<in> set (service_tokens p)" "l \<in> set (cell_links p) \<Longrightarrow> ln_id l = sv_link k \<Longrightarrow> ln_source l \<noteq> i \<and> ln_target l \<noteq> i"
proof -
  have k: "k \<in> set (service_tokens p)" "sv_link k \<notin> ln_id ` {l \<in> set (cell_links p). ln_source l = i \<or> ln_target l = i}"
    using assms by (simp_all add: drop_cell_rows_def Let_def)
  then show "k \<in> set (service_tokens p)" by simp
  show "ln_source l \<noteq> i \<and> ln_target l \<noteq> i" if "l \<in> set (cell_links p)" "ln_id l = sv_link k"
  proof (rule ccontr)
    assume "\<not> (ln_source l \<noteq> i \<and> ln_target l \<noteq> i)"
    with that(1) have "ln_id l \<in> ln_id ` {l \<in> set (cell_links p). ln_source l = i \<or> ln_target l = i}" by (intro imageI) simp
    with k(2) that(2) show False by simp
  qed
qed

interpretation links: cell_invariant links_ok
proof
  fix p q assume "links_ok p" "cell_tables q = cell_tables p"
  then show "links_ok q" by (simp add: links_ok_def cell_tables_def)
next
  fix p q assume "links_ok p" "cell_tables q = cell_tables p"
  then show "links_ok q" by (simp add: links_ok_def cell_tables_def)
next
  fix p c assume "links_ok p"
  moreover have "link_placed (cells p @ [c]) l" if "link_placed (cells p) l" for l
    using that by (auto simp: link_placed_def cell_of_project_def)
  ultimately show "links_ok (p\<lparr>cells := cells p @ [c]\<rparr>)" by (simp add: links_ok_def list_all_iff)
next
  fix p f r assume "links_ok p" "edits_cell (cells p) f"
  then show "links_ok (p\<lparr>cells := sql_update r f (cells p)\<rparr>)"
    by (simp add: links_ok_def list_all_iff link_placed_def cell_of_project_edited)
next
  fix p i assume p: "links_ok p"
  have "token_ends k \<in> link_ends ` set (cell_links (drop_cell_rows i p))" if k: "k \<in> set (service_tokens (drop_cell_rows i p))" for k
  proof -
    obtain l where l: "l \<in> set (cell_links p)" "token_ends k = link_ends l"
      using p tokens_dropped(1) [OF k] unfolding links_ok_def list_all_iff by blast
    then have "ln_source l \<noteq> i \<and> ln_target l \<noteq> i" using tokens_dropped(2) [OF k l(1)] by (simp add: token_ends_def link_ends_def)
    with l show ?thesis by auto
  qed
  moreover have "distinct (map sv_hash (service_tokens (drop_cell_rows i p)))"
    using p by (simp add: links_ok_def drop_cell_rows_def Let_def distinct_map_filter)
  moreover have "distinct (active_link_keys (cell_links (drop_cell_rows i p)))"
    using p by (simp add: links_ok_def active_link_keys_filter)
  ultimately show "links_ok (drop_cell_rows i p)"
    using p by (auto simp: links_ok_def list_all_iff link_placed_def cell_of_project_kept)
next
  fix p l assume "links_ok p" "cell_in_project (ln_source l) (ln_project l) p" "cell_in_project (ln_target l) (ln_project l) p"
    "valid_link l" "\<not> link_taken (ln_source l) (ln_target l) (ln_protocol l) p"
  then show "links_ok (p\<lparr>cell_links := cell_links p @ [l]\<rparr>)"
    by (auto simp: links_ok_def list_all_iff link_placed_def in_project_cell active_link_keys_def link_key_def link_taken_def sql_exists_iff)
next
  fix p h s assume "links_ok p" "edits_link (cell_links p) h"
  moreover have "list_all (link_placed (cells p)) (sql_update s h (cell_links p))"
    using calculation by (auto simp: links_ok_def list_all_iff set_sql_update link_placed_def edits_link_def)
  moreover have "list_all valid_link (sql_update s h (cell_links p))"
    using calculation(1,2) by (auto simp: links_ok_def list_all_iff set_sql_update edits_link_def)
  ultimately show "links_ok (p\<lparr>cell_links := sql_update s h (cell_links p)\<rparr>)"
    using active_link_keys_edit arg_cong [OF ends_edit, of _ h set s "cell_links p"] by (simp add: links_ok_def)
next
  fix p l and k :: service_token assume "links_ok p" "l \<in> set (cell_links p)" "sv_link k = ln_id l" "sv_source k = ln_source l"
    "sv_target k = ln_target l" "\<not> sql_exists (\<lambda>x. sv_hash x = sv_hash k) (service_tokens p)"
  then show "links_ok (p\<lparr>service_tokens := service_tokens p @ [k]\<rparr>)"
    by (auto simp: links_ok_def sql_exists_iff token_ends_def link_ends_def)
next
  fix p e t assume "links_ok p" "edits_token e"
  then show "links_ok (p\<lparr>service_tokens := sql_update t e (service_tokens p)\<rparr>)"
    by (auto simp: links_ok_def map_update_key edits_token_def list_all_iff set_sql_update token_ends_def)
qed (simp_all add: links_ok_def)

section \<open>The tables of cells\<close>

definition cells_ok :: "plane \<Rightarrow> bool" where
  "cells_ok p \<longleftrightarrow> cell_rows_ok p \<and> attached_once p \<and> attached_somewhere p \<and> attached_in_project p \<and> links_ok p"

definition demo_cell_req :: "string \<Rightarrow> create_cell_req" where
  "demo_cell_req n = \<lparr>nc_name = n, nc_slug = [], nc_kind = [], nc_env = [], nc_region = [], nc_tier = [], nc_description = []\<rparr>"

definition demo_celled :: org where
  "demo_celled = snd (attach_deployment no_ofaults demo_api (as_user ''a'') ''0'' (Some (''happy-fox-1'', []))
     (snd (create_cell no_ofaults demo_api (as_user ''a'') ''p1'' (Some (demo_cell_req ''core'')) demo_org)))"

lemma cells_ok_run: "cell_steps g h \<Longrightarrow> cells_ok (pl g) \<Longrightarrow> cells_ok (pl h)"
  using rows.reachable_invariant(1) once.reachable_invariant(1) somewhere.reachable_invariant(1)
    in_project.reachable_invariant(1) links.reachable_invariant(1)
  by (simp add: cells_ok_def)

lemma demo_cells_ok: "cells_ok (pl demo_org)"
  by (simp add: cells_ok_def cell_rows_ok_def attached_once_def attached_deps_def attached_somewhere_def
      attached_in_project_def links_ok_def active_link_keys_def org_demo_defs)



end
