(* ===== verification/BackfillProps.thy ===== *)
theory BackfillProps
  imports CellProps
begin

text \<open>
  The backfill only adds rows, counts what it adds, and a second run finds nothing to do.
\<close>

section \<open>Only additions\<close>

definition grows :: "nat \<Rightarrow> plane \<Rightarrow> plane \<Rightarrow> bool" where
  "grows n p q \<longleftrightarrow> core q = core p \<and> (\<exists>cs rs ps. cells q = cells p @ cs \<and> cell_resources q = cell_resources p @ rs
     \<and> placements q = placements p @ ps \<and> length cs = n \<and> map cx_resource rs = map pl_deployment ps
     \<and> map cx_cell rs = map ce_id cs \<and> list_all (\<lambda>x. \<not> deployment_has_cell (cx_resource x) p) rs)"

lemma grows_0 [simp]: "grows 0 p p"
  by (simp add: grows_def)

lemma has_cell_append: "cell_resources q = cell_resources p @ rs \<Longrightarrow> deployment_has_cell d p \<Longrightarrow> deployment_has_cell d q"
  by (auto simp: deployment_has_cell_def sql_exists_iff)

lemma grows_trans: "grows m p q \<Longrightarrow> grows n q r \<Longrightarrow> grows (m + n) p r"
proof -
  assume "grows m p q" "grows n q r"
  then obtain cs rs ps cs' rs' ps' where q: "core q = core p" "cells q = cells p @ cs" "cell_resources q = cell_resources p @ rs"
      "placements q = placements p @ ps" "length cs = m" "map cx_resource rs = map pl_deployment ps" "map cx_cell rs = map ce_id cs"
      "list_all (\<lambda>x. \<not> deployment_has_cell (cx_resource x) p) rs"
    and r: "core r = core q" "cells r = cells q @ cs'" "cell_resources r = cell_resources q @ rs'"
      "placements r = placements q @ ps'" "length cs' = n" "map cx_resource rs' = map pl_deployment ps'" "map cx_cell rs' = map ce_id cs'"
      "list_all (\<lambda>x. \<not> deployment_has_cell (cx_resource x) q) rs'"
    unfolding grows_def by blast
  have "list_all (\<lambda>x. \<not> deployment_has_cell (cx_resource x) p) (rs @ rs')"
    using q(8) r(8) has_cell_append [OF q(3)] by (auto simp: list_all_iff)
  moreover have "cells r = cells p @ (cs @ cs')" "cell_resources r = cell_resources p @ (rs @ rs')"
    "placements r = placements p @ (ps @ ps')" "length (cs @ cs') = m + n" "core r = core p"
    "map cx_resource (rs @ rs') = map pl_deployment (ps @ ps')" "map cx_cell (rs @ rs') = map ce_id (cs @ cs')"
    using q r by simp_all
  ultimately show ?thesis unfolding grows_def by blast
qed

lemma insert_grows:
  assumes "try_insert_cell flt gen name host d team env region p = (r, q)"
  shows "grows (if r = Created then 1 else 0) p q \<and> (r = Created \<longrightarrow> deployment_has_cell (d_id d) q)
    \<and> (r = AlreadyAttached \<longrightarrow> q = p \<and> (deployment_has_cell (d_id d) p \<or> sql_exists (\<lambda>x. pl_deployment x = d_id d) (placements p)))"
proof (cases "r = Created")
  case True
  let ?c = "backfilled_cell (fresh_id gen p) team d name env region (if d_adopted d then None else Some host) (clock (core p))"
  have q: "\<not> deployment_has_cell (d_id d) p" "\<not> sql_exists (\<lambda>x. pl_deployment x = d_id d) (placements p)"
    "q = upsert_placement gen (d_id d) (fresh_id gen p) (backfill_facts host d)
      (insert_resource gen (fresh_id gen p) (d_id d) ''primary'' ((drawn p)\<lparr>cells := cells p @ [?c]\<rparr>))"
    using assms True by (auto simp: try_insert_cell_def Let_def split: if_splits)
  have "cells q = cells p @ [?c]" "core q = core p" using q(3) by (simp_all add: drawn_def)
  moreover obtain x where "placements q = placements p @ [x]" "pl_deployment x = d_id d"
    using q(2,3) by (simp add: upsert_placement_def drawn_def new_placement_def insert_resource_def)
  moreover obtain y where "cell_resources q = cell_resources p @ [y]" "cx_resource y = d_id d" "cx_type y = res_deployment"
      "cx_cell y = fresh_id gen p"
    using q(3) by (simp add: resources_inserted drawn_def)
  moreover have "ce_id ?c = fresh_id gen p" by (simp add: backfilled_cell_def)
  ultimately show ?thesis using q(1) True
    unfolding grows_def by (auto simp: deployment_has_cell_def sql_exists_iff)
next
  case False
  then show ?thesis using assms by (auto simp: try_insert_cell_def Let_def split: if_splits)
qed

definition made :: "bool option \<Rightarrow> nat" where
  "made r = (if r = Some True then 1 else 0)"

lemma attempts_grow:
  "backfill_attempts flt gen host d team region k n p = (r, q) \<Longrightarrow> grows (made r) p q \<and> (r = Some True \<longrightarrow> deployment_has_cell (d_id d) q)
    \<and> (r = Some False \<longrightarrow> q = p \<and> (deployment_has_cell (d_id d) p \<or> sql_exists (\<lambda>x. pl_deployment x = d_id d) (placements p)))"
proof (induction n arbitrary: k p)
  case 0
  then show ?case by (simp add: made_def)
next
  case (Suc n)
  obtain x y where t: "try_insert_cell (in_attempt k flt) gen (backfill_name (map_env (d_type d)) region
      (next_cell_index (d_project d) (map_env (d_type d)) p + k)) host d team (map_env (d_type d)) region p = (x, y)" by fastforce
  have coll: "y = p" if "x \<noteq> Created" using that t by (auto simp: try_insert_cell_def Let_def split: if_splits)
  show ?case using Suc insert_grows [OF t] coll
    by (auto simp: t Let_def made_def split: if_splits insert_result.splits)
qed

lemma loop_grows:
  "backfill_loop flt gen host region ds (m, k) p = (Some (m', k'), q) \<Longrightarrow> m \<le> m' \<and> grows (m' - m) p q"
proof (induction ds arbitrary: m k p)
  case (Cons x ds)
  obtain d team where x: "x = (d, team)" by fastforce
  let ?f = "\<lambda>l. flt (d_id d @ '' '' @ l)"
  obtain r p1 where b: "backfill_one ?f gen host d team region p = (r, p1)" by fastforce
  have g: "grows (made r) p p1" using attempts_grow b unfolding backfill_one_def by blast
  show ?case
  proof (cases "deployment_has_cell (d_id d) p")
    case True
    then show ?thesis using Cons by (auto simp: x split: if_splits)
  next
    case False
    then have "\<exists>k1. backfill_loop flt gen host region ds (m + made r, k1) p1 = (Some (m', k'), q)"
      using Cons.prems b by (auto simp: x made_def split: if_splits option.splits bool.splits)
    then have "m + made r \<le> m' \<and> grows (m' - (m + made r)) p1 q" using Cons.IH by blast
    with g have "m + made r \<le> m'" "grows (made r + (m' - (m + made r))) p q" using grows_trans by blast+
    then show ?thesis by (simp add: made_def split: if_splits)
  qed
qed simp

section \<open>A second run\<close>

text \<open>Every placement comes with the resource it was written with.\<close>

definition placed_attached :: "plane \<Rightarrow> bool" where
  "placed_attached p \<longleftrightarrow> list_all (\<lambda>x. deployment_has_cell (pl_deployment x) p) (placements p)"

lemma grows_has_cell: "grows n p q \<Longrightarrow> deployment_has_cell d p \<Longrightarrow> deployment_has_cell d q"
  unfolding grows_def using has_cell_append by blast

lemma attempt_attached:
  assumes "backfill_one flt gen host d team region p = (Some b, q)" "placed_attached p"
  shows "deployment_has_cell (d_id d) q"
  using attempts_grow [OF assms(1) [unfolded backfill_one_def]] assms(2)
  by (cases b) (auto simp: placed_attached_def list_all_iff sql_exists_iff)

lemma inserted_placed:
  assumes "try_insert_cell flt gen name host d team env region p = (r, q)" "placed_attached p"
  shows "placed_attached q"
proof (cases "r = Created")
  case True
  let ?c = "backfilled_cell (fresh_id gen p) team d name env region (if d_adopted d then None else Some host) (clock (core p))"
  have q: "\<not> sql_exists (\<lambda>x. pl_deployment x = d_id d) (placements p)"
    "q = upsert_placement gen (d_id d) (fresh_id gen p) (backfill_facts host d)
      (insert_resource gen (fresh_id gen p) (d_id d) ''primary'' ((drawn p)\<lparr>cells := cells p @ [?c]\<rparr>))"
    using assms(1) True by (auto simp: try_insert_cell_def Let_def split: if_splits)
  have "deployment_has_cell i q" if "i \<in> insert (d_id d) (pl_deployment ` set (placements p))" for i
    using that assms(2) insert_grows [OF assms(1)] grows_has_cell True by (auto simp: placed_attached_def list_all_iff)
  moreover have "pl_deployment ` set (placements q) \<subseteq> insert (d_id d) (pl_deployment ` set (placements p))"
    using q by (simp add: upsert_placement_def drawn_def new_placement_def insert_resource_def)
  ultimately show ?thesis by (auto simp: placed_attached_def list_all_iff)
next
  case False
  then have "q = p" using assms(1) by (auto simp: try_insert_cell_def Let_def split: if_splits)
  with assms(2) show ?thesis by simp
qed

lemma attempts_placed:
  "backfill_attempts flt gen host d team region k n p = (r, q) \<Longrightarrow> placed_attached p \<Longrightarrow> placed_attached q"
proof (induction n arbitrary: k p)
  case (Suc n)
  obtain x y where t: "try_insert_cell (in_attempt k flt) gen (backfill_name (map_env (d_type d)) region
      (next_cell_index (d_project d) (map_env (d_type d)) p + k)) host d team (map_env (d_type d)) region p = (x, y)" by fastforce
  show ?case using Suc inserted_placed [OF t] by (auto simp: t Let_def split: if_splits insert_result.splits)
qed simp

lemma loop_covers:
  "backfill_loop flt gen host region ds (m, k) p = (Some (m', k'), q) \<Longrightarrow> placed_attached p \<Longrightarrow>
    m' + k' \<le> m + k + length ds \<and> (m' + k' = m + k + length ds \<longrightarrow> list_all (\<lambda>x. deployment_has_cell (d_id (fst x)) q) ds)"
proof (induction ds arbitrary: m k p)
  case (Cons x ds)
  obtain d team where x: "x = (d, team)" by fastforce
  let ?f = "\<lambda>l. flt (d_id d @ '' '' @ l)"
  obtain r p1 where b: "backfill_one ?f gen host d team region p = (r, p1)" by fastforce
  have p1: "placed_attached p1" using attempts_placed b Cons.prems(2) unfolding backfill_one_def by blast
  show ?case
  proof (cases "deployment_has_cell (d_id d) p")
    case True
    then have l: "backfill_loop flt gen host region ds (m, Suc k) p = (Some (m', k'), q)"
      using Cons.prems by (auto simp: x split: if_splits)
    have "deployment_has_cell (d_id d) q" using True grows_has_cell loop_grows [OF l] by blast
    then show ?thesis using Cons.IH [OF l Cons.prems(2)] by (auto simp: x)
  next
    case False
    show ?thesis
    proof (cases r)
      case None
      then have l: "backfill_loop flt gen host region ds (m, k) p1 = (Some (m', k'), q)"
        using Cons.prems b False by (auto simp: x split: if_splits)
      then show ?thesis using Cons.IH [OF l p1] by auto
    next
      case (Some c)
      then obtain m1 k1 where l: "backfill_loop flt gen host region ds (m1, k1) p1 = (Some (m', k'), q)" "m1 + k1 = Suc (m + k)"
        using Cons.prems b False by (cases c) (auto simp: x split: if_splits)
      have "deployment_has_cell (d_id d) p1" using attempt_attached [OF b [unfolded Some] Cons.prems(2)] .
      then have "deployment_has_cell (d_id d) q" using grows_has_cell loop_grows [OF l(1)] by blast
      then show ?thesis using Cons.IH [OF l(1) p1] l(2) by (auto simp: x)
    qed
  qed
qed simp

lemma loop_nothing:
  "list_all (\<lambda>x. deployment_has_cell (d_id (fst x)) p) ds \<Longrightarrow>
   backfill_loop no_ofaults gen host region ds (m, k) p = (Some (m, k + length ds), p)"
  by (induction ds arbitrary: k) auto

lemma host_found:
  assumes "ensure_local_host flt a opts region g = (Some (host, new), h)" "\<And>k g. a_others a k g = g"
  shows "sql_exists h_self (hosts (sys h)) \<and> deps (sys h) = deps (sys g) \<and> projects h = projects g \<and> core (pl h) = sys h
    \<and> cell_tables (pl h) = cell_tables (pl g) \<and> sql_row h_self (hosts (sys h)) \<noteq> None
    \<and> map_option h_id (sql_row h_self (hosts (sys h))) = Some host"
  using assms
  by (auto simp: ensure_local_host_def Let_def sql_row_exists sql_row_append local_host_def insert_host_def sys_def set_sys_def
      took_id_def drawn_def cell_tables_def
      split: if_splits option.splits)


definition demo_backfill :: backfill_opts where
  "demo_backfill = \<lparr>bf_host_name = [], bf_region = [], bf_provider = []\<rparr>"


end
