(* ===== verification/Backups.thy ===== *)
theory Backups
  imports Sweeper Lifecycle
begin

text \<open>
  The endpoints of the backups of a deployment (api/backups.go). They gate the request, write the row and
  its job, and hand out or remove the archive; the export and the import are jobs of the provisioner
  (\<open>BackupJobs\<close>), the schedule belongs to the sweeper (\<open>Sweeper\<close>).
\<close>

section \<open>Wiring and gates\<close>

text \<open>The directory, and the two calls of the file system.\<close>

record backup_files =
  bd_dir :: string
  bd_open :: "string \<Rightarrow> string ext"
  bd_remove :: "string \<Rightarrow> removal ext"

definition backups_configured :: "backup_files \<Rightarrow> bool" where
  "backups_configured fs \<longleftrightarrow> bd_dir fs \<noteq> []"

definition backup_eligibility :: "deployment \<Rightarrow> state \<Rightarrow> string" where
  "backup_eligibility d s =
     (if d_adopted d then ''cannot_backup_adopted''
      else if on_remote_host d s then ''remote_backup_not_supported''
      else if d_status d \<noteq> DRunning then ''deployment_not_running'' else [])"

text \<open>A backup is only found under its own deployment.\<close>

definition load_backup_for_request :: "ofaults \<Rightarrow> uuid \<Rightarrow> string \<Rightarrow> state \<Rightarrow> refusal + backup" where
  "load_backup_for_request flt dep i s =
     (case fetch flt ''load backup'' (\<lambda>b. b_id b = i \<and> b_deployment b = dep) (backups s) of
        NoRows \<Rightarrow> Inl (404, ''backup_not_found'') | DbErr \<Rightarrow> Inl internal | Row b \<Rightarrow> Inr b)"

definition audit_backup :: "ofaults \<Rightarrow> principal \<Rightarrow> team \<Rightarrow> deployment \<Rightarrow> string \<Rightarrow> org \<Rightarrow> org" where
  "audit_backup flt who t d act g = record_audit flt (tm_id t) (pr_user who) act ''deployment'' (d_id d) g"

section \<open>List and create\<close>

definition list_backups :: "ofaults \<Rightarrow> principal \<Rightarrow> string \<Rightarrow> org \<Rightarrow> backup list resp" where
  "list_backups flt who name g =
     (case load_deployment_for_request flt who name g of Inl e \<Rightarrow> refuse e | Inr (d, _) \<Rightarrow>
      if flt ''list backups'' then Error 500 ''internal''
      else Answer 200 (take 100 (sort_key (\<lambda>b. - b_created b) (filter (\<lambda>b. b_deployment b = d_id d) (backups (sys g))))))"

definition backup_in_flight :: "uuid \<Rightarrow> state \<Rightarrow> bool" where
  "backup_in_flight dep s \<longleftrightarrow>
     sql_exists (\<lambda>b. b_deployment b = dep \<and> (b_status b = BPending \<or> b_status b = BRunning)) (backups s)"

definition requested_backup :: "uuid \<Rightarrow> uuid \<Rightarrow> string \<Rightarrow> int \<Rightarrow> backup" where
  "requested_backup i dep uid t = (new_backup dep i t)\<lparr>b_requested_by := null_str uid\<rparr>"

text \<open>The transaction: the check, the row, its path, its job.\<close>

definition request_backup_tx :: "ofaults \<Rightarrow> uuid \<Rightarrow> uuid \<Rightarrow> string \<Rightarrow> state \<Rightarrow> refusal + state" where
  "request_backup_tx flt i dep uid s =
     (if flt ''begin create backup'' \<or> flt ''check inflight backup'' then Inl internal
      else if backup_in_flight dep s then Inl (409, ''backup_in_progress'')
      else if flt ''insert backup'' \<or> flt ''set backup path'' then Inl internal
      else (case enqueue_backup (\<lambda>_. if flt ''enqueue backup'' then Some ''query failed'' else None) dep i
                  (s\<lparr>backups := backups s @ [requested_backup i dep uid (clock s)]\<rparr>) of
          (Some _, _) \<Rightarrow> Inl internal
        | (None, s1) \<Rightarrow> if flt ''commit create backup'' then Inl internal else Inr s1))"

definition create_backup ::
  "ofaults \<Rightarrow> api \<Rightarrow> backup_files \<Rightarrow> principal \<Rightarrow> string \<Rightarrow> org \<Rightarrow> uuid resp \<times> org" where
  "create_backup flt a fs who name g =
     (case load_deployment_for_request flt who name g of Inl e \<Rightarrow> (refuse e, g) | Inr (d, p, t, role) \<Rightarrow>
      if \<not> can_edit_project role then (Error 403 ''forbidden'', g)
      else if \<not> backups_configured fs then (Error 503 ''backups_not_configured'', g)
      else if backup_eligibility d (sys g) \<noteq> [] then (Error 409 (backup_eligibility d (sys g)), g)
      else (let i = new_id (a_uuid a) g in
        case request_backup_tx flt i (d_id d) (pr_user who) (sys g) of
          Inl e \<Rightarrow> (refuse e, g)
        | Inr s \<Rightarrow> (Answer 202 i, audit_backup flt who t d ''requestBackup'' (set_sys s (took_id g)))))"

section \<open>Download\<close>

definition download_backup ::
  "ofaults \<Rightarrow> backup_files \<Rightarrow> principal \<Rightarrow> string \<Rightarrow> string \<Rightarrow> org \<Rightarrow> string resp \<times> org" where
  "download_backup flt fs who name i g =
     (case load_deployment_for_request flt who name g of Inl e \<Rightarrow> (refuse e, g) | Inr (d, p, t, role) \<Rightarrow>
      if \<not> can_edit_project role then (Error 403 ''forbidden'', g)
      else if \<not> backups_configured fs then (Error 503 ''backups_not_configured'', g)
      else (case load_backup_for_request flt (d_id d) i (sys g) of Inl e \<Rightarrow> (refuse e, g) | Inr b \<Rightarrow>
        if b_status b \<noteq> BComplete \<or> b_path b = [] then (Error 409 ''backup_not_complete'', g)
        else (case call_out (COpenFile (b_path b)) (bd_open fs (b_path b)) (sys g) of
            (Panic, s) \<Rightarrow> (Error 500 [], set_sys s g)
          | (Err _, s) \<Rightarrow> (Error 404 ''archive_missing'', set_sys s g)
          | (Ok v, s) \<Rightarrow> (Answer 200 v, set_sys s g))))"

section \<open>Restore\<close>

definition restore_backup ::
  "ofaults \<Rightarrow> backup_files \<Rightarrow> principal \<Rightarrow> string \<Rightarrow> string \<Rightarrow> org \<Rightarrow> uuid resp \<times> org" where
  "restore_backup flt fs who name i g =
     (case load_deployment_for_request flt who name g of Inl e \<Rightarrow> (refuse e, g) | Inr (d, p, t, role) \<Rightarrow>
      if \<not> can_admin_project role then (Error 403 ''forbidden'', g)
      else if \<not> backups_configured fs then (Error 503 ''backups_not_configured'', g)
      else if backup_eligibility d (sys g) \<noteq> [] then (Error 409 (backup_eligibility d (sys g)), g)
      else (case load_backup_for_request flt (d_id d) i (sys g) of Inl e \<Rightarrow> (refuse e, g) | Inr b \<Rightarrow>
        if b_status b \<noteq> BComplete then (Error 409 ''backup_not_complete'', g)
        else (case enqueue_restore (\<lambda>_. if flt ''enqueue restore'' then Some ''query failed'' else None) (d_id d) (b_id b) (sys g) of
            (Some _, _) \<Rightarrow> (Error 500 ''internal'', g)
          | (None, s) \<Rightarrow> (Answer 202 (b_id b), audit_backup flt who t d ''restoreBackup'' (set_sys s g)))))"

section \<open>Delete\<close>

text \<open>The archive first, then the row; the row takes the jobs of the backup along.\<close>

definition remove_archive :: "backup_files \<Rightarrow> string \<Rightarrow> state \<Rightarrow> bool option \<times> state" where
  "remove_archive fs path s =
     (if path = [] then (Some True, s)
      else (case call_out (CRemoveFile path) (bd_remove fs path) s of
          (Panic, s1) \<Rightarrow> (None, s1)
        | (Err _, s1) \<Rightarrow> (Some False, s1)
        | (Ok r, s1) \<Rightarrow> (Some (r \<noteq> RemoveFailed), s1)))"

definition delete_backup_request ::
  "ofaults \<Rightarrow> backup_files \<Rightarrow> principal \<Rightarrow> string \<Rightarrow> string \<Rightarrow> org \<Rightarrow> unit resp \<times> org" where
  "delete_backup_request flt fs who name i g =
     (case load_deployment_for_request flt who name g of Inl e \<Rightarrow> (refuse e, g) | Inr (d, p, t, role) \<Rightarrow>
      if \<not> can_admin_project role then (Error 403 ''forbidden'', g)
      else if \<not> backups_configured fs then (Error 503 ''backups_not_configured'', g)
      else (case load_backup_for_request flt (d_id d) i (sys g) of Inl e \<Rightarrow> (refuse e, g) | Inr b \<Rightarrow>
        if b_status b = BPending \<or> b_status b = BRunning then (Error 409 ''backup_in_progress'', g)
        else (case remove_archive fs (b_path b) (sys g) of
            (None, s) \<Rightarrow> (Error 500 [], set_sys s g)
          | (Some False, s) \<Rightarrow> (Error 500 ''internal'', set_sys s g)
          | (Some True, s) \<Rightarrow>
              if flt ''delete backup row'' then (Error 500 ''internal'', set_sys s g)
              else (Answer 200 (), audit_backup flt who t d ''deleteBackup'' (set_sys (delete_backup (b_id b) s) g)))))"

section \<open>Settings\<close>

definition parse_schedule :: "string \<Rightarrow> schedule option" where
  "parse_schedule s = (if s = ''none'' then Some SchedNone else if s = ''daily'' then Some SchedDaily else None)"

definition update_backup_settings ::
  "ofaults \<Rightarrow> principal \<Rightarrow> string \<Rightarrow> (string \<times> int) option \<Rightarrow> org \<Rightarrow> (schedule \<times> int) resp \<times> org" where
  "update_backup_settings flt who name body g =
     (case load_deployment_for_request flt who name g of Inl e \<Rightarrow> (refuse e, g) | Inr (d, p, t, role) \<Rightarrow>
      if \<not> can_admin_project role then (Error 403 ''forbidden'', g)
      else (case body of None \<Rightarrow> (Error 400 ''bad_request'', g) | Some (sched0, keep) \<Rightarrow>
       (case parse_schedule sched0 of None \<Rightarrow> (Error 400 ''invalid_schedule'', g) | Some sched \<Rightarrow>
        if keep < 1 \<or> 90 < keep then (Error 400 ''invalid_retention'', g)
        else if sched = SchedDaily \<and> backup_eligibility d (sys g) \<noteq> [] then (Error 409 (backup_eligibility d (sys g)), g)
        else if flt ''update backup settings'' then (Error 500 ''internal'', g)
        else (Answer 200 (sched, keep), audit_backup flt who t d ''updateBackupSettings''
          (set_sys ((sys g)\<lparr>deps := sql_update (\<lambda>x. d_id x = d_id d)
             (\<lambda>x. x\<lparr>d_schedule := sched, d_retention := nat keep\<rparr>) (deps (sys g))\<rparr>) g)))))"

end
