(* ===== verification/LinkProps.thy ===== *)
theory LinkProps
  imports CellProps Backups
begin

text \<open>
  What a service token reveals, what the attachment of a deployment reveals of other projects, and the
  requests about backups.
\<close>

section \<open>Discovery\<close>

lemma discovery_answer:
  assumes "discovery flt a header g = (Answer n (src, ds), h)"
  obtains k where "k \<in> set (service_tokens (pl g))" "usable_token (now g) (a_sha256 a (agent_bearer header)) k"
    "''discovery:read'' \<in> set (sv_scopes k)" "src = sv_source k" "agent_bearer header \<noteq> []"
    "ds = [] \<or> (\<exists>l c p. link_with_target (sv_link k) p = Some (l, c) \<and> cell_links p = cell_links (pl g)
        \<and> cells p = cells (pl g) \<and> ds = [discovered flt l c p])"
proof -
  obtain k where k: "sql_row (usable_token (now g) (a_sha256 a (agent_bearer header))) (service_tokens (pl g)) = Some k"
    using assms by (auto simp: discovery_def Let_def split: if_splits option.splits)
  obtain p where p: "p = (pl g)\<lparr>service_tokens := sql_update (usable_token (now g) (a_sha256 a (agent_bearer header)))
       (\<lambda>x. x\<lparr>sv_used := Some (now g)\<rparr>) (service_tokens (pl g))\<rparr>" by blast
  have f: "cell_links p = cell_links (pl g)" "cells p = cells (pl g)" by (simp_all add: p)
  have r: "''discovery:read'' \<in> set (sv_scopes k)" "src = sv_source k" "agent_bearer header \<noteq> []"
    "ds = [] \<or> (\<exists>l c. link_with_target (sv_link k) p = Some (l, c) \<and> ds = [discovered flt l c p])"
    using assms by (auto simp: discovery_def Let_def k p [symmetric] split: if_splits option.splits)
  have t: "k \<in> set (service_tokens (pl g))" "usable_token (now g) (a_sha256 a (agent_bearer header)) k"
    using sql_row_SomeD [OF k] by simp_all
  show thesis by (rule that [OF t r(1-3)]) (use r(4) f in blast)
qed

lemma linked_target:
  assumes "link_with_target i p = Some (l, c)"
  shows "l \<in> set (cell_links p)" "c \<in> set (cells p)" "ln_id l = i" "ln_status l = LnActive" "ce_id c = ln_target l"
  using assms by (auto simp: link_with_target_def dest!: sql_row_SomeD)

definition reveals_own_link :: "plane \<Rightarrow> service_token \<Rightarrow> discovery_link \<Rightarrow> bool" where
  "reveals_own_link p k d \<longleftrightarrow> dl_link d = sv_link k \<and> list_ex (\<lambda>l. ln_id l = sv_link k \<and> ln_status l = LnActive
     \<and> dl_target d = ln_target l \<and> ln_source l \<noteq> ln_target l
     \<and> cell_of_project (cells p) (ln_source l) (ln_project l) \<and> cell_of_project (cells p) (ln_target l) (ln_project l)) (cell_links p)"


definition demo_link_req :: create_link_req where
  "demo_link_req = \<lparr>nl_source = ''0'', nl_target = ''1'', nl_protocol = [], nl_auth = [], nl_commands = [], nl_events = []\<rparr>"

definition demo_two_cells :: org where
  "demo_two_cells = snd (create_cell no_ofaults demo_api (as_user ''a'') ''p1'' (Some (demo_cell_req ''edge''))
     (snd (create_cell no_ofaults demo_api (as_user ''a'') ''p1'' (Some (demo_cell_req ''core'')) demo_org)))"

definition demo_linked :: org where
  "demo_linked = snd (create_service_token no_ofaults demo_api (as_user ''a'') ''2'' (Some \<lparr>nk_name = [], nk_scopes = [], nk_expires = None\<rparr>)
     (snd (create_cell_link no_ofaults demo_api (as_user ''a'') ''p1'' (Some demo_link_req) demo_two_cells)))"

lemma demo_linked_steps: "cell_steps demo_org demo_linked"
proof -
  have o: "cell_steps h (a_others demo_api k h)" for k h by (simp add: demo_api_def csteps_refl)
  show ?thesis unfolding demo_linked_def demo_two_cells_def
    by (rule csteps_step [OF csteps_step [OF csteps_step [OF csteps_step [OF csteps_refl step_create [OF o]] step_create [OF o]]
        step_link] step_token])
qed


section \<open>The mode of a link and its tokens\<close>

lemma updated_link_tables:
  assumes "update_cell_link flt who ref (Some r) g = (Answer n x, h)"
  obtains l role where "load_cell_link_for_request flt who ref g = Inr (l, role)" "can_edit_project role"
    "service_tokens (pl h) = service_tokens (pl g)" "cells (pl h) = cells (pl g)" "now h = now g"
    "cell_links (pl h) = sql_update (\<lambda>y. ln_id y = ln_id l) (write_link (patched_link r l) (now g)) (cell_links (pl g))"
proof -
  obtain l role where l: "load_cell_link_for_request flt who ref g = Inr (l, role)" "can_edit_project role"
    using assms by (auto simp: update_cell_link_def refuse_def split: sum.splits if_splits)
  have "h = audit_link flt l (pr_user who) ''updateCellLink'' (update_link_row (ln_id l) (write_link (patched_link r l) (now g)) g)"
    using assms by (auto simp: update_cell_link_def l Let_def split: if_splits)
  then show thesis using that [OF l] by (simp add: audit_link_def update_link_row_def now_def sys_def)
qed

lemma link_kept:
  assumes "\<And>y. ln_id (f y) = ln_id y \<and> ln_status (f y) = ln_status y \<and> ln_target (f y) = ln_target y"
    and "link_with_target i p = Some (l, c)" "cells q = cells p" "cell_links q = sql_update r f (cell_links p)"
  shows "\<exists>l'. link_with_target i q = Some (l', c) \<and> ln_id l' = ln_id l \<and> ln_target l' = ln_target l \<and> (l' = l \<or> l' = f l)
    \<and> (r l \<longrightarrow> l' = f l)"
proof -
  have inner: "sql_row (\<lambda>(l, c). ln_id l = i \<and> ln_status l = LnActive \<and> ce_id c = ln_target l) (map (Pair (f y)) cs)
     = map_option (\<lambda>(l, c). (f y, c)) (sql_row (\<lambda>(l, c). ln_id l = i \<and> ln_status l = LnActive \<and> ce_id c = ln_target l) (map (Pair y) cs))"
    for y cs using assms(1) [of y] by (induction cs) auto
  have first: "sql_row (\<lambda>(l, c). ln_id l = i \<and> ln_status l = LnActive \<and> ce_id c = ln_target l) (map (Pair y) cs) = Some (l, c) \<Longrightarrow> l = y"
    for y cs by (induction cs) (auto split: if_splits)
  have "\<exists>l'. sql_row (\<lambda>(l, c). ln_id l = i \<and> ln_status l = LnActive \<and> ce_id c = ln_target l)
       (List.product (sql_update r f ls) cs) = Some (l', c) \<and> ln_id l' = ln_id l \<and> ln_target l' = ln_target l
       \<and> (l' = l \<or> l' = f l) \<and> (r l \<longrightarrow> l' = f l)"
    if "sql_row (\<lambda>(l, c). ln_id l = i \<and> ln_status l = LnActive \<and> ce_id c = ln_target l) (List.product ls cs) = Some (l, c)" for ls cs
    using that
  proof (induction ls)
    case (Cons y ls)
    then show ?case using inner [of y cs] first [of y cs] assms(1) [of y]
      by (auto simp: sql_row_append split: option.splits)
  qed simp
  then show ?thesis using assms(2-4) by (simp add: link_with_target_def)
qed

lemma discovery_run:
  assumes "agent_bearer header \<noteq> []" "sql_row (usable_token (now g) (a_sha256 a (agent_bearer header))) (service_tokens (pl g)) = Some k"
    "''discovery:read'' \<in> set (sv_scopes k)"
    "link_with_target (sv_link k) (pl g) = Some (l, c)"
  shows "\<exists>p h. discovery no_ofaults a header g = (Answer 200 (sv_source k, [discovered no_ofaults l c p]), h)"
proof -
  have "link_with_target i (p\<lparr>service_tokens := ts\<rparr>) = link_with_target i p" for i p ts by (simp add: link_with_target_def)
  then show ?thesis using assms by (auto simp: discovery_def Let_def)
qed

lemma discovery_found:
  assumes "discovery flt a header g = (Answer n (src, [d]), h)"
  obtains k l c where "sql_row (usable_token (now g) (a_sha256 a (agent_bearer header))) (service_tokens (pl g)) = Some k"
    "''discovery:read'' \<in> set (sv_scopes k)" "agent_bearer header \<noteq> []" "src = sv_source k"
    "link_with_target (sv_link k) (pl g) = Some (l, c)" "dl_link d = ln_id l" "dl_target d = ln_target l"
proof -
  obtain k where k: "sql_row (usable_token (now g) (a_sha256 a (agent_bearer header))) (service_tokens (pl g)) = Some k"
    using assms by (auto simp: discovery_def Let_def split: if_splits option.splits)
  have f: "link_with_target i (p\<lparr>service_tokens := ts\<rparr>) = link_with_target i p" for i p ts by (simp add: link_with_target_def)
  have r: "''discovery:read'' \<in> set (sv_scopes k)" "agent_bearer header \<noteq> []" "src = sv_source k"
    "\<exists>l c. link_with_target (sv_link k) (pl g) = Some (l, c) \<and> dl_link d = ln_id l \<and> dl_target d = ln_target l"
    using assms by (auto simp: discovery_def Let_def k f discovered_def split: if_splits option.splits prod.splits)
  then show thesis using that k by blast
qed

text \<open>
  Changing the mode of a link away from service tokens does not end the tokens it has: a token from
  before gets the same link from discovery as it did, now shown with a mode that has no tokens.
\<close>

theorem token_outlives_auth_mode:
  assumes "update_cell_link flt who ref (Some r) g = (Answer n x, h)" "ul_auth r = Some mode"
    "discovery flt' a header g = (Answer m (src, [d]), g1)" "dl_link d = ref"
  shows "\<exists>d' h1. discovery no_ofaults a header h = (Answer 200 (src, [d']), h1) \<and> dl_link d' = dl_link d
    \<and> dl_target d' = dl_target d \<and> dl_auth d' = mode"
proof -
  obtain k l c where k: "sql_row (usable_token (now g) (a_sha256 a (agent_bearer header))) (service_tokens (pl g)) = Some k"
    "''discovery:read'' \<in> set (sv_scopes k)" "agent_bearer header \<noteq> []" "src = sv_source k"
    "link_with_target (sv_link k) (pl g) = Some (l, c)" "dl_link d = ln_id l" "dl_target d = ln_target l"
    using discovery_found [OF assms(3)] .
  obtain u role where u: "load_cell_link_for_request flt who ref g = Inr (u, role)"
    and h: "service_tokens (pl h) = service_tokens (pl g)" "cells (pl h) = cells (pl g)" "now h = now g"
      "cell_links (pl h) = sql_update (\<lambda>y. ln_id y = ln_id u) (write_link (patched_link r u) (now g)) (cell_links (pl g))"
    using updated_link_tables [OF assms(1)] by blast
  have "ln_id u = ref" using u
    by (auto simp: load_cell_link_for_request_def split: if_splits fetched.splits dest!: sql_row_SomeD)
  then obtain l' where l': "link_with_target (sv_link k) (pl h) = Some (l', c)" "ln_id l' = ln_id l" "ln_target l' = ln_target l"
      "l' = write_link (patched_link r u) (now g) l"
    using link_kept [OF _ k(5) h(2) h(4)] k(6) assms(4) by (auto simp: write_link_def)
  obtain p h1 where "discovery no_ofaults a header h = (Answer 200 (sv_source k, [discovered no_ofaults l' c p]), h1)"
    using discovery_run [of header h a k l' c] k(1-3) l'(1) h(1,3) by auto
  moreover have "ln_auth l' = mode" using l'(4) assms(2) by (simp add: write_link_def patched_link_def given_def)
  ultimately show ?thesis using k(4,6,7) l'(2,3) by (auto simp: discovered_def split: prod.split)
qed

theorem token_outlives_auth_mode_witness:
  "\<exists>d h1. discovery no_ofaults demo_api ''Bearer syn_svc_3''
       (snd (update_cell_link no_ofaults (as_user ''a'') ''2''
          (Some \<lparr>ul_auth = Some ''none'', ul_commands = None, ul_events = None\<rparr>) demo_linked)) = (Answer 200 (''0'', [d]), h1)
     \<and> dl_target d = ''1'' \<and> dl_auth d = ''none''"
proof -
  let ?r = "discovery no_ofaults demo_api ''Bearer syn_svc_3'' demo_linked"
    and ?u = "update_cell_link no_ofaults (as_user ''a'') ''2'' (Some \<lparr>ul_auth = Some ''none'', ul_commands = None, ul_events = None\<rparr>) demo_linked"
  have c: "case fst ?r of Answer n y \<Rightarrow> fst y = ''0'' \<and> map (\<lambda>d. (dl_link d, dl_target d)) (snd y) = [(''2'', ''1'')] | _ \<Rightarrow> False"
    by code_simp
  obtain x h where x: "?r = (x, h)" by (rule prod.exhaust)
  obtain n y where y: "x = Answer n y" using c unfolding x by (cases x) simp_all
  obtain src ds where ds: "y = (src, ds)" by (rule prod.exhaust)
  have "map (\<lambda>d. (dl_link d, dl_target d)) ds = [(''2'', ''1'')]" "src = ''0''" using c unfolding x y ds by simp_all
  then obtain d where d: "ds = [d]" "dl_link d = ''2''" "dl_target d = ''1''" "src = ''0''" by auto
  have e: "?r = (Answer n (''0'', [d]), h)" using x y ds d by simp
  have v: "case fst ?u of Answer n y \<Rightarrow> True | _ \<Rightarrow> False" by code_simp
  obtain z q where z: "?u = (z, q)" by (rule prod.exhaust)
  obtain m w where w: "z = Answer m w" using v unfolding z by (cases z) simp_all
  have u: "?u = (Answer m w, q)" using z w by simp
  have "ul_auth \<lparr>ul_auth = Some ''none'', ul_commands = None, ul_events = None\<rparr> = Some ''none''" by simp
  from token_outlives_auth_mode [OF u this e d(2)] d show ?thesis unfolding u by auto
qed

section \<open>Attaching a deployment of another project\<close>

definition demo_foreign :: org where
  "demo_foreign = set_sys ((sys demo_two_cells)\<lparr>deps := deps (sys demo_two_cells) @
     [(demo_dep ''d9'' DRunning)\<lparr>d_project := ''p2'', d_name := ''far-owl-2''\<rparr>]\<rparr>) demo_two_cells"

text \<open>
  C23: attaching tells nothing about deployments of projects the caller has no role in: a name that exists there
  gets the very answer, and leaves the very state, of a name that does not exist.
\<close>

theorem attach_no_oracle:
  assumes "load_cell flt who ref g = Inr (c, role)" "load_deployment name g = Some (d, p, t)" "d_project d \<noteq> ce_project c"
    and "effective_project_role flt (d_project d) (tm_id t) (pr_user who) g = NoRows"
    and "load_deployment name' g = None" "trim_space name = name" "trim_space name' = name'" "name \<noteq> []" "name' \<noteq> []"
  shows "attach_deployment flt a who ref (Some (name, ro)) g = attach_deployment flt a who ref (Some (name', ro)) g"
  using assms by (simp add: attach_deployment_def attachable_def Let_def)

theorem attach_no_oracle_witness:
  "attach_deployment no_ofaults demo_api (as_user ''a'') ''0'' (Some (''far-owl-2'', [])) demo_foreign
     = attach_deployment no_ofaults demo_api (as_user ''a'') ''0'' (Some (''no-such-1'', [])) demo_foreign
   \<and> load_deployment ''far-owl-2'' demo_foreign \<noteq> None"
proof -
  have l: "case load_cell no_ofaults (as_user ''a'') ''0'' demo_foreign of Inr x \<Rightarrow> ce_project (fst x) = ''p1'' | _ \<Rightarrow> False" by code_simp
  obtain y where "load_cell no_ofaults (as_user ''a'') ''0'' demo_foreign = Inr y" using l
    by (cases "load_cell no_ofaults (as_user ''a'') ''0'' demo_foreign") simp_all
  moreover obtain c role where "y = (c, role)" by (rule prod.exhaust)
  ultimately have c: "load_cell no_ofaults (as_user ''a'') ''0'' demo_foreign = Inr (c, role)" "ce_project c = ''p1''" using l by simp_all
  let ?d = "(demo_dep ''d9'' DRunning)\<lparr>d_project := ''p2'', d_name := ''far-owl-2''\<rparr>"
  have d: "load_deployment ''far-owl-2'' demo_foreign = Some (?d, demo_project ''p2'' ''t2'' ''web'', demo_team ''t2'' ''evil'' ''e'')"
    by code_simp
  have n: "load_deployment ''no-such-1'' demo_foreign = None" by code_simp
  have o: "effective_project_role no_ofaults (d_project ?d) (tm_id (demo_team ''t2'' ''evil'' ''e'')) (pr_user (as_user ''a'')) demo_foreign
      = NoRows" by code_simp
  have p: "d_project ?d \<noteq> ce_project c" by (simp add: c(2))
  have t: "trim_space ''far-owl-2'' = ''far-owl-2''" "trim_space ''no-such-1'' = ''no-such-1''" by code_simp+
  show ?thesis using attach_no_oracle [OF c(1) d p o n t] by (simp add: d)
qed

section \<open>Requests about backups\<close>

lemma request_tx:
  assumes "request_backup_tx flt i dep uid s = Inr t"
  shows "\<not> backup_in_flight dep s \<and> backups t = backups s @ [requested_backup i dep uid (clock s)]
    \<and> (\<exists>j. jobs t = jobs s @ [j] \<and> j_kind j = KBackup \<and> j_deployment j = dep \<and> j_backup j = Some i \<and> j_status j = JPending)
    \<and> deps t = deps s"
  using assms by (auto simp: request_backup_tx_def enqueue_backup_def insert_job_def blank_job_def Let_def split: if_splits)

text \<open>
  C24: an accepted request for a backup writes exactly one pending row and one pending job for it, and is only
  accepted for a running deployment on this host that is not adopted and has no backup in flight. A refused
  one writes nothing.
\<close>

theorem backup_request_exact:
  assumes "create_backup flt a fs who name g = (x, h)"
  shows "(\<forall>n i. x = Answer n i \<longrightarrow> (\<exists>d r j. load_deployment_for_request flt who name g = Inr (d, r)
      \<and> backup_eligibility d (sys g) = [] \<and> \<not> backup_in_flight (d_id d) (sys g)
      \<and> backups (sys h) = backups (sys g) @ [requested_backup i (d_id d) (pr_user who) (now g)]
      \<and> jobs (sys h) = jobs (sys g) @ [j] \<and> j_kind j = KBackup \<and> j_deployment j = d_id d \<and> j_backup j = Some i
      \<and> j_status j = JPending))
    \<and> (\<forall>n c. x = Error n c \<longrightarrow> h = g)"
proof (cases "load_deployment_for_request flt who name g")
  case (Inl e)
  then show ?thesis using assms by (auto simp: create_backup_def refuse_def)
next
  case (Inr y)
  obtain d p t role where y: "y = (d, p, t, role)" by (metis prod.exhaust)
  let ?i = "new_id (a_uuid a) g"
  show ?thesis
  proof (cases "can_edit_project role \<and> backups_configured fs \<and> backup_eligibility d (sys g) = []")
    case False
    then show ?thesis using assms by (auto simp: create_backup_def Inr y split: if_splits)
  next
    case True
    show ?thesis
    proof (cases "request_backup_tx flt ?i (d_id d) (pr_user who) (sys g)")
      case (Inl e)
      then show ?thesis using assms True by (auto simp: create_backup_def Inr y refuse_def Let_def)
    next
      case tx: (Inr s)
      then have "x = Answer 202 ?i" "sys h = s" using assms True
        by (auto simp: create_backup_def Inr y Let_def audit_backup_def)
      then show ?thesis using request_tx [OF tx] True Inr y by (auto simp: now_def)
    qed
  qed
qed

lemma loaded_backup: "load_backup_for_request flt d i s = Inr b \<Longrightarrow> b_id b = i"
  by (auto simp: load_backup_for_request_def split: fetched.splits dest!: sql_row_SomeD)

lemma restore_queued:
  assumes "restore_backup flt fs who name i g = (Answer n b, h)"
  shows "b = i \<and> sql_exists (\<lambda>j. j_kind j = KRestore \<and> j_status j = JPending \<and> j_backup j = Some i) (jobs (sys h))"
proof -
  obtain y where y: "load_deployment_for_request flt who name g = Inr y"
    using assms by (auto simp: restore_backup_def refuse_def split: sum.splits)
  obtain d p t role where e: "y = (d, p, t, role)" by (metis prod.exhaust)
  obtain x where x: "load_backup_for_request flt (d_id d) i (sys g) = Inr x"
    using assms by (auto simp: restore_backup_def y e refuse_def Let_def split: if_splits sum.splits)
  show ?thesis using assms loaded_backup [OF x]
    by (auto simp: restore_backup_def y e x refuse_def Let_def enqueue_restore_def insert_job_def blank_job_def audit_backup_def
        sql_exists_iff split: if_splits)
qed

lemma deleted_backup_jobs:
  assumes "delete_backup_request flt fs who name i g = (Answer n u, h)"
  shows "\<not> sql_exists (\<lambda>j. j_backup j = Some i) (jobs (sys h))"
proof -
  obtain y where y: "load_deployment_for_request flt who name g = Inr y"
    using assms by (auto simp: delete_backup_request_def refuse_def split: sum.splits)
  obtain d p t role where e: "y = (d, p, t, role)" by (metis prod.exhaust)
  obtain x where x: "load_backup_for_request flt (d_id d) i (sys g) = Inr x"
    using assms by (auto simp: delete_backup_request_def y e refuse_def Let_def split: if_splits sum.splits)
  obtain ok s where r: "remove_archive fs (b_path x) (sys g) = (ok, s)" by (rule prod.exhaust)
  have "sys h = delete_backup i s" using assms loaded_backup [OF x]
    by (auto simp: delete_backup_request_def y e x r Let_def audit_backup_def split: if_splits option.splits bool.splits)
  then show ?thesis by (auto simp: delete_backup_def sql_exists_iff)
qed

text \<open>
  C40: deleting a backup also deletes a restore of it that was accepted and is still queued. The endpoint only
  looks at the status of the backup, which is complete, and the row takes its jobs along: the caller of the
  restore was answered with 202 and nothing will run.
\<close>

theorem deleted_backup_drops_restore:
  assumes "restore_backup flt fs who name i g = (Answer n b, g1)"
    and "delete_backup_request flt' fs' who' name' i g1 = (Answer m u, h)"
  shows "sql_exists (\<lambda>j. j_kind j = KRestore \<and> j_status j = JPending \<and> j_backup j = Some i) (jobs (sys g1))
    \<and> \<not> sql_exists (\<lambda>j. j_backup j = Some i) (jobs (sys h))"
  using restore_queued [OF assms(1)] deleted_backup_jobs [OF assms(2)] by blast

definition demo_files :: backup_files where
  "demo_files = \<lparr>bd_dir = ''/b'', bd_open = (\<lambda>_. idle ''zip''), bd_remove = (\<lambda>_. idle Removed)\<rparr>"

definition demo_backed :: org where
  "demo_backed = set_sys ((sys (og demo_cloud))\<lparr>backups := [(new_backup ''d1'' ''b1'' 0)\<lparr>b_status := BComplete\<rparr>]\<rparr>) (og demo_cloud)"

theorem backup_request_exact_witness:
  "\<exists>j. jobs (sys (snd (create_backup no_ofaults demo_api demo_files (as_user ''a'') ''happy-fox-1'' (og demo_cloud)))) = [j]
     \<and> j_kind j = KBackup \<and> j_backup j = Some ''0''"
proof -
  let ?r = "create_backup no_ofaults demo_api demo_files (as_user ''a'') ''happy-fox-1'' (og demo_cloud)"
  have c: "fst ?r = Answer 202 ''0''" by code_simp
  have j: "jobs (sys (og demo_cloud)) = []" by code_simp
  have r: "?r = (Answer 202 ''0'', snd ?r)" using c by (metis prod.collapse)
  show ?thesis using backup_request_exact [OF r] by (auto simp: j)
qed

theorem deleted_backup_drops_restore_witness:
  "\<not> sql_exists (\<lambda>j. j_backup j = Some ''b1'') (jobs (sys (snd (delete_backup_request no_ofaults demo_files (as_user ''a'') ''happy-fox-1'' ''b1''
      (snd (restore_backup no_ofaults demo_files (as_user ''a'') ''happy-fox-1'' ''b1'' demo_backed))))))"
proof -
  let ?r = "restore_backup no_ofaults demo_files (as_user ''a'') ''happy-fox-1'' ''b1'' demo_backed"
  let ?d = "delete_backup_request no_ofaults demo_files (as_user ''a'') ''happy-fox-1'' ''b1'' (snd ?r)"
  have "fst ?r = Answer 202 ''b1''" by code_simp
  then have r: "?r = (Answer 202 ''b1'', snd ?r)" by (metis prod.collapse)
  have "fst ?d = Answer 200 ()" by code_simp
  then have d: "?d = (Answer 200 (), snd ?d)" by (metis prod.collapse)
  show ?thesis using deleted_backup_drops_restore [OF r d] by simp
qed

end
