(* ===== verification/BackendVersion.thy ===== *)
theory BackendVersion
  imports Fleet
begin

text \<open>
  The version a backend reports (api/backend_version.go), read through a cache of a minute. The probe is
  an HTTP request; \<open>bv_json\<close> is the version of a body that is a JSON object with one, \<open>bv_read\<close> what a
  single read of a body returns.
\<close>

record version_probe =
  bv_get :: "string \<Rightarrow> (int \<times> string) ext"
  bv_json :: "string \<Rightarrow> string option"
  bv_read :: "string \<Rightarrow> string"

record version_entry =
  ve_version :: string
  ve_probed :: int
  ve_error :: "string option"

type_synonym version_cache = "uuid \<rightharpoonup> version_entry"

definition version_ttl :: int where "version_ttl = 60000000"

definition version_get :: "version_cache \<Rightarrow> int \<Rightarrow> uuid \<Rightarrow> version_entry option" where
  "version_get c t i = (case c i of None \<Rightarrow> None | Some e \<Rightarrow> if version_ttl < t - ve_probed e then None else Some e)"

definition version_put :: "version_cache \<Rightarrow> uuid \<Rightarrow> version_entry \<Rightarrow> version_cache" where
  "version_put c i e = c(i \<mapsto> e)"

text \<open>The JSON envelope, or the bare text of a second request.\<close>

definition fetch_version_from_url :: "version_probe \<Rightarrow> string \<Rightarrow> state \<Rightarrow> string outcome \<times> state" where
  "fetch_version_from_url p base s =
     (let url = trim_right_slashes base @ ''/version''; failed = Err ''backend /version returned an error'' in
      case call_out (CHttpGet url) (bv_get p url) s of
        (Ok (st, body), s1) \<Rightarrow>
          if st div 100 \<noteq> 2 then (failed, s1)
          else (case bv_json p body of
              Some v \<Rightarrow> (Ok v, s1)
            | None \<Rightarrow>
                (case call_out (CHttpGet url) (bv_get p url) s1 of
                   (Ok (st2, body2), s2) \<Rightarrow>
                     if st2 div 100 \<noteq> 2 then (failed, s2)
                     else (let raw = trim_space (bv_read p body2) in
                       (if raw = [] then Err ''backend /version returned empty body'' else Ok raw, s2))
                 | (Err e, s2) \<Rightarrow> (Err e, s2)
                 | (Panic, s2) \<Rightarrow> (Panic, s2)))
      | (Err e, s1) \<Rightarrow> (Err e, s1)
      | (Panic, s1) \<Rightarrow> (Panic, s1))"

definition probe_base :: "deployment \<Rightarrow> string" where
  "probe_base d = ''http://'' @ container_name (d_name d) 0 (d_ha d) @ '':3210''"

record version_resp =
  vr_version :: string
  vr_deployed :: "int option"
  vr_fetched :: int
  vr_cached :: bool
  vr_error :: "string option"

text \<open>At most 200 bytes; the ellipsis is the UTF-8 text of U+2026.\<close>

definition trim_probe_error :: "string \<Rightarrow> string" where
  "trim_probe_error e = (if 200 < length e then take 200 e @ [CHR 0xE2, CHR 0x80, CHR 0xA6] else e)"

definition version_answer :: "deployment \<Rightarrow> bool \<Rightarrow> version_entry \<Rightarrow> version_resp" where
  "version_answer d cached e = \<lparr>vr_version = ve_version e, vr_deployed = d_last_deploy d, vr_fetched = ve_probed e,
     vr_cached = cached, vr_error = map_option trim_probe_error (ve_error e)\<rparr>"

definition get_backend_version ::
  "ofaults \<Rightarrow> version_probe \<Rightarrow> principal \<Rightarrow> string \<Rightarrow> org \<times> version_cache \<Rightarrow> version_resp resp \<times> (org \<times> version_cache)" where
  "get_backend_version flt p who name x =
     (let g = fst x; c = snd x in
      case load_deployment_for_request flt who name g of Inl e \<Rightarrow> (refuse e, x) | Inr (d, _) \<Rightarrow>
      (case version_get c (now g) (d_id d) of
         Some e \<Rightarrow> (Answer 200 (version_answer d True e), x)
       | None \<Rightarrow>
           if d_adopted d \<and> trim_right_slashes (text_of (d_url d)) = [] then
             (Answer 200 \<lparr>vr_version = [], vr_deployed = d_last_deploy d, vr_fetched = now g, vr_cached = False,
                vr_error = Some ''no_deployment_url''\<rparr>, (g, c(d_id d := None)))
           else (case fetch_version_from_url p
                       (if d_adopted d then trim_right_slashes (text_of (d_url d)) else probe_base d) (sys g) of
               (Panic, s) \<Rightarrow> (Error 500 [], (set_sys s g, c(d_id d := None)))
             | (r, s) \<Rightarrow>
                 (let g1 = set_sys s g;
                      e = (case r of Ok v \<Rightarrow> \<lparr>ve_version = v, ve_probed = now g1, ve_error = None\<rparr>
                           | Err m \<Rightarrow> \<lparr>ve_version = [], ve_probed = now g1, ve_error = Some m\<rparr>
                           | Panic \<Rightarrow> \<lparr>ve_version = [], ve_probed = now g1, ve_error = None\<rparr>)
                  in (Answer 200 (version_answer d False e), (g1, version_put c (d_id d) e))))))"

end
