(* ===== verification/Spec2Isabelle.thy ===== *)
theory Spec2Isabelle
  imports DomainProps QueueSystem ReconcileProps UpgradeProps BackupProps Health Sweeper ProxyProps ApplyProps
    TeamAccess AdminRace AccessProps ListingProps NamingProps AccountProps CreateProps LifecycleProps HostProps
    BackfillProps LinkProps BackendVersion
begin

text \<open>
  A model of the control plane of Synapse (the Go module under \<open>src/synapse\<close>), the service that
  provisions, supervises and fronts Convex backends, with the theorems that make its core correct.

  \<^bold>\<open>The program.\<close> HTTP handlers write intent into Postgres and enqueue jobs; the provisioner's
  workers, one pool per node, claim jobs and talk to Docker (locally or over SSH); a health worker
  reconciles the recorded status with what Docker reports; a backup sweeper enqueues and prunes
  backups; the proxy routes requests to replicas by what the tables say. The parts share nothing but
  the database, so the model is a state (\<open>Store\<close>) of tables, a clock and the trace of external calls,
  and every operation is a function of it.

  \<^bold>\<open>Conventions.\<close> A table is a list of records; \<open>UPDATE\<close> is \<open>sql_update\<close>, its row count \<open>sql_count\<close>
  (\<open>Prelude\<close>). A statement or transaction that fails changes nothing; which ones fail is an
  argument (\<open>faults\<close>, \<open>hfaults\<close>, \<open>bfaults\<close>, \<open>rfaults\<close>, \<open>pfaults\<close>), so error branches are ordinary branches. A call
  that leaves the process (Docker, SSH, the snapshot tools, HTTP) is a function from the state to an
  outcome (a value, an error, a panic) and the state other processes left in the meantime: a delete
  that arrives while a container is built is an instance of the model. Theorems about such calls name
  what they rely on, e.g. \<open>worker_keeps I w\<close>: the calls and the other processes keep \<open>I\<close>. Integers are
  unbounded; nothing modelled comes near the width of a Go int. Recursion is structural, or bounded by the code's own bound
  (five attempts of the upgrade); no fuel is used.

  \<^bold>\<open>Theories, in the order of the code.\<close>
  \<^item> \<open>Prelude\<close>, \<open>Store\<close>: tables, strings, the rows (\<open>models/models.go\<close> and the migrations).
  \<^item> \<open>Db\<close>: \<open>WithRetryOnUniqueViolation\<close> and \<open>WithTryAdvisoryLock\<close> (\<open>internal/db\<close>), with the contract of a
    retried attempt as a locale.
  \<^item> \<open>DeploymentUrl\<close>: the URLs of a deployment (\<open>internal/deploymenturl\<close>).
  \<^item> \<open>Queue\<close>, \<open>Worker\<close>, \<open>Provision\<close>, \<open>Reconcile\<close>, \<open>Upgrade\<close>, \<open>BackupJobs\<close>: package provisioner, from the enqueue
    and the claim to one handler per job kind; \<open>WorkerLoop\<close>: the dispatch, and the locales
    \<open>handler_invariant\<close> and \<open>worker_invariant\<close>, which name the writes all handlers are made of.
  \<^item> \<open>QueueInv\<close>: the instances of these locales (the job table, deleted deployments, finished runs,
    claimed jobs); \<open>QueueSystem\<close>: all nodes as a step relation, its reachable states.
  \<^item> \<open>ProvisionProps\<close>, \<open>ReconcileProps\<close>, \<open>UpgradeProps\<close>, \<open>BackupProps\<close>: what each handler does on every outcome.
  \<^item> \<open>Health\<close>: \<open>internal/health\<close>, with the locale \<open>health_invariant\<close>; \<open>Sweeper\<close>: \<open>internal/backups\<close>.
  \<^item> \<open>Proxy\<close>, \<open>ProxyProps\<close>: \<open>internal/proxy\<close>, with the TTL cache as a locale and its two instances.
  \<^item> \<open>Plane\<close>: the tables of the cell control plane and the operation runs (\<open>internal/api/operations.go\<close>);
    \<open>Observed\<close>: the agent's report and heartbeat (\<open>observed_state.go\<close>, \<open>agents.go\<close>); \<open>Desired\<close>: the
    synchronisation from placements (\<open>desired_state.go\<close>); \<open>Drift\<close>, \<open>DriftReport\<close>: the drift engine, its
    reports and its dry-run planner (\<open>drift.go\<close>); \<open>Apply\<close>: the apply endpoint (\<open>reconcile_apply.go\<close>).
  \<^item> \<open>DesiredProps\<close>, \<open>DriftProps\<close>, \<open>ApplyProps\<close>: what they promise, from the report of an agent to the
    jobs an apply queues.
  \<^item> \<open>Org\<close>: accounts, teams, projects, tokens; authentication, scopes, roles and the loaders every handler
    starts with (\<open>middleware/auth.go\<close>, \<open>api/scope.go\<close>, \<open>api/teams.go\<close>, \<open>api/projects.go\<close>); \<open>Naming\<close>: slugs and
    deployment names; \<open>Listing\<close>: keyset pagination; \<open>Teams\<close>, \<open>Invites\<close>, \<open>Projects\<close>, \<open>Sessions\<close>: the handlers of
    teams, invites and accounts, projects with their environment, tokens, login and password reset;
    \<open>OrgSystem\<close>: all of these requests as one type, served one after the other, \<open>OrgInv\<close>: the locale of
    what every request keeps and its instance for the tables.
  \<^item> \<open>TeamAccess\<close>, \<open>AdminRace\<close>, \<open>AccessProps\<close>, \<open>ListingProps\<close>, \<open>NamingProps\<close>, \<open>AccountProps\<close>: what they promise.
  \<^item> \<open>Fleet\<close>, \<open>Deployments\<close>, \<open>Lifecycle\<close>, \<open>DeployKeys\<close>: the handlers of deployments (\<open>internal/api/deployments.go\<close>):
    names, ports and storage; creation and adoption; the upgrade request, delete, restart and rebuild;
    credentials and deploy keys. \<open>NameProps\<close>, \<open>CreateProps\<close>, \<open>LifecycleProps\<close>: what they promise.
  \<^item> \<open>Dns\<close>, \<open>Domains\<close>, \<open>Verifier\<close>: zones, the Cloudflare client and its credentials (\<open>dns/cloudflare.go\<close>,
    \<open>api/dns_credentials.go\<close>); the custom domains of a deployment (\<open>api/domains.go\<close>); the background check of
    pending domains, the certificate gate and the guess of the provider (\<open>dns/verifier.go\<close>, \<open>api/tls_ask.go\<close>,
    \<open>dns/detect.go\<close>). \<open>DomainProps\<close>: what they promise, across the proxy, the gate and the verifier.
  \<^item> \<open>Hosts\<close>, \<open>Agents\<close>: the registry of hosts, adoption tokens, removal (\<open>api/hosts.go\<close>, \<open>api/remote_setup.go\<close>),
    and the requests of the agents (\<open>api/agents.go\<close>). \<open>Cells\<close>, \<open>Backfill\<close>, \<open>CellLinks\<close>: cells with what is
    attached to them, the backfill at start-up, links and service tokens (\<open>api/cells.go\<close>, \<open>cells/backfill.go\<close>,
    \<open>api/cell_links.go\<close>). \<open>CellSystem\<close>: all of their requests as one step relation with the locale
    \<open>cell_invariant\<close>; \<open>CellProps\<close> has its five instances. \<open>HostProps\<close>, \<open>BackfillProps\<close>, \<open>LinkProps\<close>: what they promise.
  \<^item> \<open>Backups\<close>, \<open>BackendVersion\<close>: the endpoints of backups (\<open>api/backups.go\<close>) and the version a backend reports
    (\<open>api/backend_version.go\<close>).
  \<^item> \<open>Samples\<close>, \<open>OrgSamples\<close>, \<open>CloudSamples\<close>: closed instances for the witnesses.

  \<^bold>\<open>What is shown.\<close> The queue: single flight, exclusive and oldest-first claims, bounded attempts,
  recovery, and that every dispatched job settles (\<open>QueueSystem\<close>, \<open>UpgradeProps\<close>). The handlers: the
  outcomes of a provision job, the guards of reconcile, the all-or-nothing upgrade, archives behind
  complete backups. The ledger: the roll-up, the reaper, the finality of runs. The health worker: the
  aggregate status with one alert per transition, two probes for adopted deployments. The proxy:
  staleness bounded by the TTL, addresses of running replicas only, the hosts handed out routed back,
  the retry. The control plane: a report mirrors its host, the synchronisation mirrors the placements
  and is idempotent, no action is recommended for a host that cannot be believed, a dry run is dry, and
  an apply queues exactly what the fresh drift justifies. The accounts: nobody without a role changes a
  team, every team keeps an administrator, scopes are nodes of a tree, cursors visit every row once, a
  reset is final. The deployments: a create adds one deployment with its jobs or nothing, a delete frees
  ports and placements, a forced delete always succeeds, one upgrade at a time, and what the endpoint
  seals the worker opens. The domains: certificates only for hosts the proxy routes, a deleted domain is
  neither routed nor certified, a verification says what the DNS says, a minted record names its domain.
  The hosts and cells: an adoption token lets one agent in, an agent reaches its own host only, a removed
  host leaves no row, a deployment is in one cell of its project, the backfill adds and repeats nothing, a
  service token shows its own link, a foreign deployment looks like none. A request for a backup writes a
  row and its job or nothing.
  Some theorems show where the code falls short
  of its comments: a run that succeeds with a step never executed, a container left by a lost race, a
  restarted deployment the proxy cannot reach, a retry that repeats the same ports, an empty 200 for
  dead replicas, a request body that is cut, a cell whose running deployments are reported missing, a
  heartbeat that ends the draining of its host, a replica that hides another, a report stored by half, two
  demotions that leave a team without an admin, a scoped token that mints an unrestricted one, access
  that outlives a membership, a port that a deleted row keeps, a restart that revives a retired replica,
  a deadline every failed check moves, a registration that takes back what its own check found,
  a heartbeat that undoes a revocation, a registration that wipes an address, a deleted backup that takes
  an accepted restore along, a token that outlives the mode of its link.

  \<^bold>\<open>Not modelled.\<close> The topology read models (\<open>api/topology.go\<close>, \<open>api/cell_topology.go\<close>) and the list endpoints of
  operations, which join the modelled tables for the dashboard and write nothing; the instance settings,
  audit log and alert endpoints, which are plain rows; the administration of Headscale and the host
  domain, which rewrite files and containers through external scripts; the wiring of \<open>cmd/server\<close> and the
  agent binary; logging, HTTP plumbing, network clients, cryptography and the user interfaces.
\<close>

end
